(* ===== verification/Prelude.thy ===== *)
theory Prelude
  imports Main "HOL-Library.Sublist" "HOL-Library.Char_ord"
begin

text \<open>
  The part of the library that every component shares: the collections of facts, the
  interfaces of state machines (an invariant kept by every step; a view that, once it is
  frozen, no step changes), the list windows the paging loops read, and \<open>a ?? b\<close>.

  A JavaScript string is the list of its code units; the model's code units are those of
  the HOL type \<open>char\<close> (0 to 255), which holds every literal of the modelled sources.
\<close>

named_theorems inv_intros \<open>one step keeps the component's invariant\<close>

subsection \<open>State machines\<close>

text \<open>
  A component that reacts to requests is a state type and a step function. What every
  step keeps, every finite run keeps.
\<close>

locale machine =
  fixes step :: "'s \<Rightarrow> 'e \<Rightarrow> 's"
    and inv :: "'s \<Rightarrow> bool"
  assumes step_inv: "inv s \<Longrightarrow> inv (step s e)"
begin

lemma run_inv: "inv s \<Longrightarrow> inv (foldl step s es)"
  by (induction es arbitrary: s) (auto intro: step_inv)

lemma run_prefix_inv: "inv s \<Longrightarrow> prefix es fs \<Longrightarrow> inv (foldl step s es)"
  by (rule run_inv)

end

text \<open>
  A terminal status: \<open>view\<close> reads the part of the state that must not move any more once
  \<open>frozen\<close> holds of it.
\<close>

locale latch =
  fixes step :: "'s \<Rightarrow> 'e \<Rightarrow> 's"
    and view :: "'s \<Rightarrow> 'v"
    and frozen :: "'v \<Rightarrow> bool"
  assumes frozen_step: "frozen (view s) \<Longrightarrow> view (step s e) = view s"
begin

lemma frozen_run: "frozen (view s) \<Longrightarrow> view (foldl step s es) = view s"
proof (induction es arbitrary: s)
  case Nil
  then show ?case by simp
next
  case (Cons e es)
  from Cons.prems have "view (step s e) = view s" by (rule frozen_step)
  with Cons.prems Cons.IH [of "step s e"] show ?case by simp
qed

end

sublocale latch \<subseteq> machine step "\<lambda>s. frozen (view s)"
  by unfold_locales (simp add: frozen_step)

subsection \<open>Lists\<close>

text \<open>\<open>Array.prototype.find\<close> and the window \<open>slice(start, end + 1)\<close> of a list.\<close>

definition window :: "nat \<Rightarrow> nat \<Rightarrow> 'a list \<Rightarrow> 'a list" where
  "window start n xs = take n (drop start xs)"

lemma length_window [simp]: "length (window start n xs) = min n (length xs - start)"
  by (simp add: window_def)

lemma window_append: "window i m xs @ window (i + m) n xs = window i (m + n) xs"
  by (simp add: window_def take_add add.commute drop_drop)

lemma window_all: "length xs \<le> i + n \<Longrightarrow> window i n xs = drop i xs"
  by (simp add: window_def)

lemma window_self: "window i (length (window i n xs)) xs = window i n xs"
  by (cases "n \<le> length xs - i") (simp_all add: window_def min_def)

lemma window_drop: "window i n xs @ drop (i + length (window i n xs)) xs = drop i xs"
  using append_take_drop_id [of "length (window i n xs)" "drop i xs"] window_self [of i n xs]
  by (simp add: window_def add.commute)

lemma take_drop_window: "take i xs @ window i n xs = take (i + n) xs"
  by (simp add: window_def take_add)

lemma set_window: "set (window i n xs) \<subseteq> set xs"
  by (auto simp: window_def dest: in_set_takeD in_set_dropD)

text \<open>\<open>a ?? b\<close>: the default of an absent value.\<close>

definition nullish :: "'a option \<Rightarrow> 'a \<Rightarrow> 'a" where
  "nullish x d = (case x of None \<Rightarrow> d | Some v \<Rightarrow> v)"

lemma nullish_simps [simp]: "nullish None d = d" "nullish (Some v) d = v"
  by (simp_all add: nullish_def)

text \<open>An error or a value: going on with the value, and one result for a list of them.\<close>

definition result_bind :: "'e + 'a \<Rightarrow> ('a \<Rightarrow> 'e + 'b) \<Rightarrow> 'e + 'b" where
  "result_bind r f = (case r of Inl e \<Rightarrow> Inl e | Inr v \<Rightarrow> f v)"

fun map_result :: "('a \<Rightarrow> 'e + 'b) \<Rightarrow> 'a list \<Rightarrow> 'e + 'b list" where
  "map_result f [] = Inr []"
| "map_result f (x # xs) = result_bind (f x) (\<lambda>y. result_bind (map_result f xs) (\<lambda>ys. Inr (y # ys)))"

lemma result_bind_simps [simp]: "result_bind (Inl e) f = Inl e" "result_bind (Inr v) f = f v"
  by (simp_all add: result_bind_def)

lemma result_bind_Inr: "result_bind r f = Inr y \<longleftrightarrow> (\<exists>v. r = Inr v \<and> f v = Inr y)"
  by (cases r) auto

lemma map_result_Inr: "map_result f xs = Inr ys \<longleftrightarrow> list_all2 (\<lambda>x y. f x = Inr y) xs ys"
  by (induction xs arbitrary: ys) (auto simp: result_bind_Inr list_all2_Cons1)

lemma find_Some_set: "find P xs = Some x \<Longrightarrow> x \<in> set xs \<and> P x"
  by (auto simp: find_Some_iff)

lemma find_append: "find P (xs @ ys) = (case find P xs of None \<Rightarrow> find P ys | Some x \<Rightarrow> Some x)"
  by (induction xs) auto

lemma length_filter_split: "length (filter P xs) + length (filter (\<lambda>x. \<not> P x) xs) = length xs"
  by (induction xs) auto

text \<open>A step that changes the state and may fail: the next one runs after a value, the change stays.\<close>

definition and_then :: "'s \<times> ('e + 'a) \<Rightarrow> ('s \<Rightarrow> 'a \<Rightarrow> 's \<times> ('e + 'b)) \<Rightarrow> 's \<times> ('e + 'b)" where
  "and_then r f = (case r of (s, Inl e) \<Rightarrow> (s, Inl e) | (s, Inr v) \<Rightarrow> f s v)"

lemma and_then_simps [simp]: "and_then (s, Inl e) f = (s, Inl e)" "and_then (s, Inr v) f = f s v"
  by (simp_all add: and_then_def)

lemma and_then_Inr: "and_then r f = (t, Inr y) \<longleftrightarrow> (\<exists>s v. r = (s, Inr v) \<and> f s v = (t, Inr y))"
  by (cases r; cases "snd r") (auto simp: and_then_def)

lemma and_then_keeps:
  "P (fst r) \<Longrightarrow> (\<And>s v. r = (s, Inr v) \<Longrightarrow> P (fst (f s v))) \<Longrightarrow> P (fst (and_then r f))"
  by (cases r; cases "snd r") auto

end
