(* ===== verification/Regex.thy ===== *)
theory Regex
  imports JsString
begin

text \<open>
  ECMAScript regular expressions, as far as the sources use them: character classes,
  sequence, alternation, the greedy quantifiers, the word boundary and the two anchors.
  A matcher returns the positions where a match can end, in the order the backtracking
  matcher of the language tries them, so that the first one is the match the language
  reports. A position is the code unit before it (if any) and the rest of the input.
  \<open>rx_test\<close> is \<open>RegExp.prototype.test\<close>, \<open>rx_replace_all\<close> is \<open>replace\<close> with a global
  expression and \<open>rx_replace\<close> with one that is not.
\<close>

datatype rx =
    Cls "char \<Rightarrow> bool"
  | Eps
  | Seq rx rx
  | Alt rx rx
  | Star rx
  | WordB
  | BegI
  | EndI

type_synonym pos = "char option \<times> string"

definition is_word :: "char \<Rightarrow> bool" where
  "is_word c \<longleftrightarrow> is_upper c \<or> is_lower c \<or> is_digit c \<or> c = CHR ''_''"

definition at_word :: "char option \<Rightarrow> bool" where
  "at_word pv = (case pv of None \<Rightarrow> False | Some c \<Rightarrow> is_word c)"

definition next_char :: "string \<Rightarrow> char option" where
  "next_char s = (case s of [] \<Rightarrow> None | c # _ \<Rightarrow> Some c)"

text \<open>
  A quantified iteration that consumes nothing is a failure in the language's matcher, which
  is the length test of the \<open>Star\<close> equation.
\<close>

function matches :: "rx \<Rightarrow> pos \<Rightarrow> pos list" where
  "matches (Cls p) s = (case snd s of [] \<Rightarrow> [] | c # cs \<Rightarrow> if p c then [(Some c, cs)] else [])"
| "matches Eps s = [s]"
| "matches (Seq a b) s = concat (map (matches b) (matches a s))"
| "matches (Alt a b) s = matches a s @ matches b s"
| "matches (Star a) s =
     concat (map (\<lambda>t. if length (snd t) < length (snd s) then matches (Star a) t else [])
       (matches a s)) @ [s]"
| "matches WordB s = (if at_word (fst s) \<noteq> at_word (next_char (snd s)) then [s] else [])"
| "matches BegI s = (if fst s = None then [s] else [])"
| "matches EndI s = (if snd s = [] then [s] else [])"
  by pat_completeness auto
termination
  by (relation "inv_image (less_than <*lex*> less_than) (\<lambda>(r, s). (size r, length (snd s)))") auto

text \<open>The \<open>Star\<close> equation unfolds to itself: it is applied by hand.\<close>

lemmas matches_Star = matches.simps(5)

declare matches.simps(5) [simp del]

fun rx_test_from :: "rx \<Rightarrow> char option \<Rightarrow> string \<Rightarrow> bool" where
  "rx_test_from r pv [] \<longleftrightarrow> matches r (pv, []) \<noteq> []"
| "rx_test_from r pv (c # cs) \<longleftrightarrow> matches r (pv, c # cs) \<noteq> [] \<or> rx_test_from r (Some c) cs"

definition rx_test :: "rx \<Rightarrow> string \<Rightarrow> bool" where
  "rx_test r s = rx_test_from r None s"

text \<open>Replacing from a position: a match that consumes nothing moves on by one code unit.\<close>

function rx_replace_from :: "rx \<Rightarrow> string \<Rightarrow> char option \<Rightarrow> string \<Rightarrow> string" where
  "rx_replace_from r w pv s =
     (case matches r (pv, s) of
        t # _ \<Rightarrow>
          (if length (snd t) < length s then w @ rx_replace_from r w (fst t) (snd t)
           else (case s of [] \<Rightarrow> w | c # cs \<Rightarrow> w @ c # rx_replace_from r w (Some c) cs))
      | [] \<Rightarrow> (case s of [] \<Rightarrow> [] | c # cs \<Rightarrow> c # rx_replace_from r w (Some c) cs))"
  by pat_completeness auto
termination
  by (relation "measure (\<lambda>(r, w, pv, s). length s)") auto

declare rx_replace_from.simps [simp del]

definition rx_replace_all :: "rx \<Rightarrow> string \<Rightarrow> string \<Rightarrow> string" where
  "rx_replace_all r w s = rx_replace_from r w None s"

fun rx_replace_once :: "rx \<Rightarrow> string \<Rightarrow> char option \<Rightarrow> string \<Rightarrow> string" where
  "rx_replace_once r w pv [] = (case matches r (pv, []) of t # _ \<Rightarrow> w @ snd t | [] \<Rightarrow> [])"
| "rx_replace_once r w pv (c # cs) =
     (case matches r (pv, c # cs) of
        t # _ \<Rightarrow> w @ snd t
      | [] \<Rightarrow> c # rx_replace_once r w (Some c) cs)"

definition rx_replace :: "rx \<Rightarrow> string \<Rightarrow> string \<Rightarrow> string" where
  "rx_replace r w s = rx_replace_once r w None s"

subsection \<open>The syntax of the sources' patterns\<close>

fun lit :: "string \<Rightarrow> rx" where
  "lit [] = Eps"
| "lit (c # cs) = Seq (Cls (\<lambda>x. x = c)) (lit cs)"

text \<open>A literal under the \<open>i\<close> flag.\<close>

fun lit_i :: "string \<Rightarrow> rx" where
  "lit_i [] = Eps"
| "lit_i (c # cs) = Seq (Cls (\<lambda>x. lower_char x = lower_char c)) (lit_i cs)"

fun seqs :: "rx list \<Rightarrow> rx" where
  "seqs [] = Eps"
| "seqs [r] = r"
| "seqs (r # rs) = Seq r (seqs rs)"

fun alts :: "rx list \<Rightarrow> rx" where
  "alts [] = Cls (\<lambda>_. False)"
| "alts [r] = r"
| "alts (r # rs) = Alt r (alts rs)"

definition opt :: "rx \<Rightarrow> rx" where "opt r = Alt r Eps"

definition plus :: "rx \<Rightarrow> rx" where "plus r = Seq r (Star r)"

fun rep :: "nat \<Rightarrow> rx \<Rightarrow> rx" where
  "rep 0 r = Eps"
| "rep (Suc n) r = Seq r (rep n r)"

text \<open>\<open>r{0,n}\<close> and \<open>r{n,}\<close>, greedy.\<close>

fun upto_n :: "nat \<Rightarrow> rx \<Rightarrow> rx" where
  "upto_n 0 r = Eps"
| "upto_n (Suc n) r = Alt (Seq r (upto_n n r)) Eps"

definition at_least :: "nat \<Rightarrow> rx \<Rightarrow> rx" where
  "at_least n r = Seq (rep n r) (Star r)"

definition any_of :: "string \<Rightarrow> rx" where "any_of cs = Cls (\<lambda>c. c \<in> set cs)"

definition digit :: rx where "digit = Cls is_digit"

definition dot :: rx where "dot = Cls (\<lambda>c. \<not> is_line_end c)"

definition space :: rx where "space = Cls is_space"

definition non_space :: rx where "non_space = Cls (\<lambda>c. \<not> is_space c)"

lemmas rx_syntax = opt_def plus_def at_least_def any_of_def digit_def dot_def space_def
  non_space_def

subsection \<open>Facts about matching\<close>

lemma matches_suffix: "t \<in> set (matches r s) \<Longrightarrow> \<exists>u. snd s = u @ snd t"
proof (induction r s arbitrary: t rule: matches.induct)
  case (3 a b s)
  then obtain v where v: "v \<in> set (matches a s)" "t \<in> set (matches b v)" by auto
  with 3 obtain u1 u2 where "snd s = u1 @ snd v" "snd v = u2 @ snd t" by blast
  then show ?case by (metis append_assoc)
next
  case (5 a s)
  show ?case
  proof (cases "t = s")
    case True
    then show ?thesis by simp
  next
    case False
    with "5.prems" obtain v where v: "v \<in> set (matches a s)" "length (snd v) < length (snd s)"
      "t \<in> set (matches (Star a) v)" by (auto simp: matches_Star [of a s] split: if_splits)
    with 5 obtain u1 u2 where "snd s = u1 @ snd v" "snd v = u2 @ snd t" by blast
    then show ?thesis by (metis append_assoc)
  qed
qed (auto split: list.splits if_splits)

lemma matches_length: "t \<in> set (matches r s) \<Longrightarrow> length (snd t) \<le> length (snd s)"
  by (metis matches_suffix length_append le_add2)

text \<open>Testing a literal is looking for a substring.\<close>

lemma matches_lit_Nil: "matches (lit w) (pv, s) = [] \<longleftrightarrow> \<not> starts_with s w"
proof (induction w arbitrary: pv s)
  case Nil
  then show ?case by (simp add: starts_with_def)
next
  case (Cons c w)
  then show ?case by (cases s) (auto simp: starts_with_def)
qed

lemma matches_lit_i_Nil:
  "matches (lit_i w) (pv, s) = [] \<longleftrightarrow> \<not> starts_with (to_lower s) (to_lower w)"
proof (induction w arbitrary: pv s)
  case Nil
  then show ?case by (simp add: starts_with_def to_lower_def)
next
  case (Cons c w)
  then show ?case by (cases s) (auto simp: starts_with_def to_lower_def)
qed

lemma rx_test_from_lit: "rx_test_from (lit w) pv s = js_includes s w"
  by (induction s arbitrary: pv) (auto simp: matches_lit_Nil starts_with_def)

lemma rx_test_lit [simp]: "rx_test (lit w) s = js_includes s w"
  by (simp add: rx_test_def rx_test_from_lit)

lemma rx_test_from_lit_i: "rx_test_from (lit_i w) pv s = js_includes (to_lower s) (to_lower w)"
proof (induction s arbitrary: pv)
  case Nil
  then show ?case by (auto simp: matches_lit_i_Nil starts_with_def to_lower_def)
next
  case (Cons c s)
  have "to_lower (c # s) = lower_char c # to_lower s" by (simp add: to_lower_def)
  with Cons show ?case by (auto simp: matches_lit_i_Nil)
qed

lemma rx_test_lit_i [simp]: "rx_test (lit_i w) s = js_includes (to_lower s) (to_lower w)"
  by (simp add: rx_test_def rx_test_from_lit_i)

text \<open>Replacing where nothing matches changes nothing.\<close>

lemma rx_replace_from_no_match:
  "\<not> rx_test_from r pv s \<Longrightarrow> rx_replace_from r w pv s = s"
  by (induction s arbitrary: pv) (subst rx_replace_from.simps; simp)+

lemma rx_replace_all_no_match: "\<not> rx_test r s \<Longrightarrow> rx_replace_all r w s = s"
  by (simp add: rx_replace_all_def rx_test_def rx_replace_from_no_match)

end
