(* ===== verification/JsValue.thy ===== *)
theory JsValue
  imports JsString "HOL-Library.Multiset" Complex_Main
begin

text \<open>
  JavaScript values as the sources see them through \<open>unknown\<close>: numbers with their
  non-finite values (a finite number is a rational; no operation here rounds, the zeros are
  not distinguished), strings, arrays and plain objects. An object is the list of its own
  properties in the order the language enumerates them: array-index keys ascending, then the
  other keys in the order of their insertion. \<open>stringify\<close> is \<open>JSON.stringify\<close>; how a finite
  number is printed is its parameter.
\<close>

subsection \<open>Numbers\<close>

datatype jsnum = NaN | PInf | NInf | Fin rat

fun num_less :: "jsnum \<Rightarrow> jsnum \<Rightarrow> bool" where
  "num_less NaN _ = False"
| "num_less _ NaN = False"
| "num_less (Fin a) (Fin b) = (a < b)"
| "num_less NInf y = (y \<noteq> NInf)"
| "num_less _ NInf = False"
| "num_less PInf _ = False"
| "num_less _ PInf = True"

fun num_eq :: "jsnum \<Rightarrow> jsnum \<Rightarrow> bool" where
  "num_eq NaN _ = False"
| "num_eq _ NaN = False"
| "num_eq a b = (a = b)"

definition num_ge :: "jsnum \<Rightarrow> jsnum \<Rightarrow> bool" where
  "num_ge a b \<longleftrightarrow> num_less b a \<or> num_eq a b"

definition is_finite :: "jsnum \<Rightarrow> bool" where
  "is_finite n = (case n of Fin _ \<Rightarrow> True | _ \<Rightarrow> False)"

definition int_num :: "int \<Rightarrow> jsnum" where
  "int_num i = Fin (of_int i)"

lemma num_ge_NaN [simp]: "\<not> num_ge NaN b" "\<not> num_ge a NaN"
  by (cases b; simp add: num_ge_def) (cases a; simp add: num_ge_def)

lemma num_less_asym: "num_less a b \<Longrightarrow> \<not> num_less b a"
  by (cases a; cases b) auto

lemma num_less_trans: "num_less a b \<Longrightarrow> num_less b c \<Longrightarrow> num_less a c"
  by (cases a; cases b; cases c) auto

lemma num_ge_iff_not_less: "a \<noteq> NaN \<Longrightarrow> b \<noteq> NaN \<Longrightarrow> num_ge a b \<longleftrightarrow> \<not> num_less a b"
  by (cases a; cases b) (auto simp: num_ge_def)

subsection \<open>Values\<close>

datatype jval =
    JUndef
  | JNull
  | JBool bool
  | JNum jsnum
  | JBig int
  | JStr string
  | JArr "jval list"
  | JObj "(string \<times> jval) list"

text \<open>\<open>typeof v === 'object' && v !== null\<close>, and the same without arrays.\<close>

definition is_object :: "jval \<Rightarrow> bool" where
  "is_object v = (case v of JArr _ \<Rightarrow> True | JObj _ \<Rightarrow> True | _ \<Rightarrow> False)"

definition truthy :: "jval \<Rightarrow> bool" where
  "truthy v = (case v of
      JUndef \<Rightarrow> False | JNull \<Rightarrow> False | JBool b \<Rightarrow> b
    | JNum n \<Rightarrow> n \<noteq> NaN \<and> n \<noteq> Fin 0 | JBig i \<Rightarrow> i \<noteq> 0 | JStr s \<Rightarrow> s \<noteq> []
    | JArr _ \<Rightarrow> True | JObj _ \<Rightarrow> True)"

definition jget :: "(string \<times> jval) list \<Rightarrow> string \<Rightarrow> jval" where
  "jget ps k = (case map_of ps k of None \<Rightarrow> JUndef | Some v \<Rightarrow> v)"

text \<open>\<open>Object.entries\<close>: an array enumerates its indices.\<close>

definition entries :: "jval \<Rightarrow> (string \<times> jval) list" where
  "entries v = (case v of
      JObj ps \<Rightarrow> ps
    | JArr vs \<Rightarrow> zip (map nat_str [0..<length vs]) vs
    | _ \<Rightarrow> [])"

lemma size_mem_props:
  "(k, w) \<in> set ps \<Longrightarrow> size w < Suc (size_list (size_prod (\<lambda>x. 0) size) ps)"
proof -
  assume "(k, w) \<in> set ps"
  then have "size_prod (\<lambda>x. 0) size (k, w) \<le> size_list (size_prod (\<lambda>x. 0) size) ps"
    by (rule size_list_estimation') simp
  then show ?thesis by simp
qed

lemma entries_size: "(k, w) \<in> set (entries v) \<Longrightarrow> size w < size v"
proof (cases v)
  case (JArr vs)
  assume "(k, w) \<in> set (entries v)"
  with JArr have "w \<in> set vs" by (auto simp: entries_def dest: set_zip_rightD)
  then have "size w \<le> size_list size vs" by (simp add: size_list_estimation')
  with JArr show ?thesis by simp
next
  case (JObj ps)
  assume "(k, w) \<in> set (entries v)"
  with JObj have "(k, w) \<in> set ps" by (simp add: entries_def)
  with JObj show ?thesis by (simp add: size_mem_props)
qed (simp_all add: entries_def)

lemma entries_keys_array: "map fst (entries (JArr vs)) = map nat_str [0..<length vs]"
  by (simp add: entries_def)

lemma entries_values_array: "map snd (entries (JArr vs)) = vs"
  by (simp add: entries_def)

text \<open>
  The order in which an object built from a list of entries enumerates them. An array index
  is a canonical decimal below \<open>2^32 - 1\<close>.
\<close>

definition is_index_key :: "string \<Rightarrow> bool" where
  "is_index_key k \<longleftrightarrow> k \<noteq> [] \<and> (\<forall>c \<in> set k. is_digit c)
     \<and> nat_str (digits_val k) = k \<and> digits_val k < 4294967295"

definition from_entries :: "(string \<times> jval) list \<Rightarrow> jval" where
  "from_entries es = JObj
     (sort_key (\<lambda>e. digits_val (fst e)) (filter (\<lambda>e. is_index_key (fst e)) es)
      @ filter (\<lambda>e. \<not> is_index_key (fst e)) es)"

subsection \<open>JSON text\<close>

definition hex_digit :: "nat \<Rightarrow> char" where
  "hex_digit d = (if d < 10 then char_of (48 + d) else char_of (87 + d))"

definition hex_text :: "nat list \<Rightarrow> string" where
  "hex_text bs = concat (map (\<lambda>b. [hex_digit (b div 16 mod 16), hex_digit (b mod 16)]) bs)"

definition esc_char :: "char \<Rightarrow> string" where
  "esc_char c =
     (if c = CHR 0x22 then [CHR 0x5C, CHR 0x22]
      else if c = CHR 0x5C then [CHR 0x5C, CHR 0x5C]
      else if code c = 8 then [CHR 0x5C, CHR ''b'']
      else if code c = 12 then [CHR 0x5C, CHR ''f'']
      else if code c = 10 then [CHR 0x5C, CHR ''n'']
      else if code c = 13 then [CHR 0x5C, CHR ''r'']
      else if code c = 9 then [CHR 0x5C, CHR ''t'']
      else if code c < 32 then
        [CHR 0x5C, CHR ''u'', CHR ''0'', CHR ''0'', hex_digit (code c div 16), hex_digit (code c mod 16)]
      else [c])"

definition quote :: "string \<Rightarrow> string" where
  "quote s = [CHR 0x22] @ concat (map esc_char s) @ [CHR 0x22]"

text \<open>
  \<open>None\<close> is the language's \<open>undefined\<close>: such a property is left out of an object and printed
  as \<open>null\<close> in an array. (A bigint, which the language refuses with an exception, is treated
  like it; every value the sources print comes from parsed JSON, which holds none.)
\<close>

function stringify :: "(rat \<Rightarrow> string) \<Rightarrow> jval \<Rightarrow> string option" where
  "stringify p JUndef = None"
| "stringify p JNull = Some ''null''"
| "stringify p (JBool b) = Some (if b then ''true'' else ''false'')"
| "stringify p (JNum n) = Some (case n of Fin q \<Rightarrow> p q | _ \<Rightarrow> ''null'')"
| "stringify p (JBig i) = None"
| "stringify p (JStr s) = Some (quote s)"
| "stringify p (JArr vs) = Some (''['' @ join_with '',''
     (map (\<lambda>v. case stringify p v of None \<Rightarrow> ''null'' | Some t \<Rightarrow> t) vs) @ '']'')"
| "stringify p (JObj ps) = Some (''{'' @ join_with '',''
     (concat (map (\<lambda>e. case stringify p (snd e) of None \<Rightarrow> [] | Some t \<Rightarrow> [quote (fst e) @ '':'' @ t]) ps))
     @ ''}'')"
  by pat_completeness auto
termination
proof (relation "measure (\<lambda>(p, v). size v)"; clarsimp simp: size_mem_props)
  fix vs :: "jval list" and v
  assume "v \<in> set vs"
  then show "size v < Suc (size_list size vs)"
    by (simp add: less_Suc_eq_le size_list_estimation')
qed

end
