(* ===== verification/JsNumber.thy ===== *)
theory JsNumber
  imports JsValue
begin

text \<open>
  \<open>Number(s)\<close> on strings, as the language defines it: white space around the literal is
  dropped, the empty literal is zero, a literal is an optionally signed decimal or
  \<open>Infinity\<close>, or an unsigned hexadecimal, octal or binary integer, and everything else is
  \<open>NaN\<close>. The value is the exact rational: no rounding to the nearest double is modelled.
  \<open>parse_float\<close> is \<open>parseFloat\<close>: the longest decimal literal at the front.
  Also the base64url text of \<open>Buffer\<close>, of which the sources use the round trip.
\<close>

subsection \<open>Radix digits\<close>

definition hex_val :: "char \<Rightarrow> nat option" where
  "hex_val c =
     (if is_digit c then Some (digit_val c)
      else if 97 \<le> code c \<and> code c \<le> 102 then Some (code c - 87)
      else if 65 \<le> code c \<and> code c \<le> 70 then Some (code c - 55)
      else None)"

fun radix_val :: "nat \<Rightarrow> nat \<Rightarrow> string \<Rightarrow> nat option" where
  "radix_val b acc [] = Some acc"
| "radix_val b acc (c # cs) = (case hex_val c of
     None \<Rightarrow> None
   | Some d \<Rightarrow> if d < b then radix_val b (acc * b + d) cs else None)"

definition radix_prefix :: "string \<Rightarrow> nat option" where
  "radix_prefix s = (case s of
      z # x # _ \<Rightarrow>
        if z \<noteq> CHR ''0'' then None
        else if x \<in> set ''xX'' then Some 16
        else if x \<in> set ''oO'' then Some 8
        else if x \<in> set ''bB'' then Some 2
        else None
    | _ \<Rightarrow> None)"

subsection \<open>Decimal literals\<close>

definition scale10 :: "rat \<Rightarrow> int \<Rightarrow> rat" where
  "scale10 m e = (if 0 \<le> e then m * 10 ^ nat e else m / 10 ^ nat (- e))"

text \<open>An exponent: its value and what follows it; no exponent is zero.\<close>

definition scan_exponent :: "string \<Rightarrow> int \<times> string" where
  "scan_exponent s = (case s of
      [] \<Rightarrow> (0, s)
    | c # cs \<Rightarrow>
        if c \<notin> set ''eE'' then (0, s)
        else
          (let (neg, ds) = (case cs of [] \<Rightarrow> (False, [])
                 | d # r \<Rightarrow> if d = CHR ''-'' then (True, r) else if d = CHR ''+'' then (False, r) else (False, cs));
               digits = takeWhile is_digit ds
           in if digits = [] then (0, s)
              else ((if neg then - int (digits_val digits) else int (digits_val digits)),
                    dropWhile is_digit ds)))"

text \<open>A decimal literal at the front of a string: its value and what follows it.\<close>

definition scan_decimal :: "string \<Rightarrow> (rat \<times> string) option" where
  "scan_decimal s =
     (let ip = takeWhile is_digit s;
          r1 = dropWhile is_digit s;
          fp = (case r1 of [] \<Rightarrow> [] | c # cs \<Rightarrow> if c = CHR ''.'' then takeWhile is_digit cs else []);
          r2 = (case r1 of [] \<Rightarrow> [] | c # cs \<Rightarrow> if c = CHR ''.'' then dropWhile is_digit cs else r1)
      in if ip = [] \<and> fp = [] then None
         else (case scan_exponent r2 of (e, r3) \<Rightarrow>
           Some (scale10 (of_nat (digits_val (ip @ fp))) (e - int (length fp)), r3)))"

definition scan_sign :: "string \<Rightarrow> bool \<times> string" where
  "scan_sign s = (case s of [] \<Rightarrow> (False, [])
     | c # cs \<Rightarrow> if c = CHR ''-'' then (True, cs) else if c = CHR ''+'' then (False, cs) else (False, s))"

definition js_number :: "string \<Rightarrow> jsnum" where
  "js_number s =
     (let t = js_trim s
      in if t = [] then Fin 0
         else case radix_prefix t of
           Some b \<Rightarrow> (if drop 2 t = [] then NaN
                      else case radix_val b 0 (drop 2 t) of None \<Rightarrow> NaN | Some n \<Rightarrow> Fin (of_nat n))
         | None \<Rightarrow>
             (let (neg, u) = scan_sign t
              in if u = ''Infinity'' then (if neg then NInf else PInf)
                 else case scan_decimal u of
                   Some (q, []) \<Rightarrow> Fin (if neg then - q else q)
                 | _ \<Rightarrow> NaN))"

definition parse_float :: "string \<Rightarrow> jsnum" where
  "parse_float s =
     (let (neg, u) = scan_sign (dropWhile is_space s)
      in if starts_with u ''Infinity'' then (if neg then NInf else PInf)
         else case scan_decimal u of
           Some (q, _) \<Rightarrow> Fin (if neg then - q else q)
         | None \<Rightarrow> NaN)"

subsection \<open>Decimal text of a natural number\<close>

lemma nat_str_hd: "is_digit (hd (nat_str n))"
  by (rule nat_str_digits [of _ n]) simp

lemma nat_str_last: "is_digit (last (nat_str n))"
  by (rule nat_str_digits [of _ n]) simp

lemma js_trim_nat_str [simp]: "js_trim (nat_str n) = nat_str n"
  by (rule js_trim_id) (simp_all add: digit_not_space nat_str_hd nat_str_last)

lemma digit_not_in: "is_digit c \<Longrightarrow> c \<notin> set ''xX'' \<and> c \<notin> set ''oO'' \<and> c \<notin> set ''bB'' \<and> c \<noteq> CHR ''-''
    \<and> c \<noteq> CHR ''+'' \<and> c \<noteq> CHR ''.'' \<and> c \<noteq> CHR ''I''"
  by (auto simp: is_digit_def code_def)

lemma radix_prefix_digits:
  assumes "\<forall>c \<in> set s. is_digit c"
  shows "radix_prefix s = None"
proof (cases s)
  case (Cons z r)
  note z = this
  show ?thesis
  proof (cases r)
    case (Cons x r')
    with z assms have "is_digit x" by simp
    then show ?thesis using z Cons digit_not_in [of x] by (simp add: radix_prefix_def)
  qed (simp add: z radix_prefix_def)
qed (simp add: radix_prefix_def)

lemma scan_sign_digit: "s \<noteq> [] \<Longrightarrow> is_digit (hd s) \<Longrightarrow> scan_sign s = (False, s)"
  using digit_not_in [of "hd s"] by (cases s) (auto simp: scan_sign_def)

lemma scan_decimal_digits:
  "s \<noteq> [] \<Longrightarrow> \<forall>c \<in> set s. is_digit c \<Longrightarrow> scan_decimal s = Some (of_nat (digits_val s), [])"
  by (simp add: scan_decimal_def Let_def scan_exponent_def scale10_def
      takeWhile_eq_all_conv [THEN iffD2] dropWhile_eq_Nil_conv [THEN iffD2])

theorem js_number_nat_str [simp]: "js_number (nat_str n) = Fin (of_nat n)"
proof -
  have d: "\<forall>c \<in> set (nat_str n). is_digit c" using nat_str_digits by blast
  have "hd (nat_str n) \<noteq> CHR ''I''" using digit_not_in [OF nat_str_hd] by blast
  then have "nat_str n \<noteq> ''Infinity''" by (metis list.sel(1))
  then show ?thesis
    using d by (simp add: js_number_def Let_def radix_prefix_digits scan_sign_digit nat_str_hd
        scan_decimal_digits)
qed

subsection \<open>Base64url\<close>

definition b64_alphabet :: string where
  "b64_alphabet = ''ABCDEFGHIJKLMNOPQRSTUVWXYZabcdefghijklmnopqrstuvwxyz0123456789-_''"

definition b64_char :: "nat \<Rightarrow> char" where
  "b64_char n = b64_alphabet ! n"

text \<open>Both alphabets are read; any other character is skipped.\<close>

definition b64_value :: "char \<Rightarrow> nat option" where
  "b64_value c =
     (if is_upper c then Some (code c - 65)
      else if is_lower c then Some (code c - 71)
      else if is_digit c then Some (code c + 4)
      else if c = CHR ''-'' \<or> c = CHR ''+'' then Some 62
      else if c = CHR ''_'' \<or> c = CHR ''/'' then Some 63
      else None)"

fun b64_encode :: "nat list \<Rightarrow> string" where
  "b64_encode [] = []"
| "b64_encode [a] = [b64_char (a div 4), b64_char (a mod 4 * 16)]"
| "b64_encode [a, b] = [b64_char (a div 4), b64_char (a mod 4 * 16 + b div 16), b64_char (b mod 16 * 4)]"
| "b64_encode (a # b # c # r) =
     b64_char (a div 4) # b64_char (a mod 4 * 16 + b div 16) #
     b64_char (b mod 16 * 4 + c div 64) # b64_char (c mod 64) # b64_encode r"

fun b64_groups :: "nat list \<Rightarrow> nat list" where
  "b64_groups (p # q # r # s # t) =
     (p * 4 + q div 16) # (q mod 16 * 16 + r div 4) # (r mod 4 * 64 + s) # b64_groups t"
| "b64_groups [p, q, r] = [p * 4 + q div 16, q mod 16 * 16 + r div 4]"
| "b64_groups [p, q] = [p * 4 + q div 16]"
| "b64_groups _ = []"

definition b64_decode :: "string \<Rightarrow> nat list" where
  "b64_decode s = b64_groups (List.map_filter b64_value (takeWhile (\<lambda>c. c \<noteq> CHR ''='') s))"

lemma b64_alphabet_values: "map b64_value b64_alphabet = map Some [0..<64]"
  by (simp add: b64_alphabet_def b64_value_def is_upper_def is_lower_def is_digit_def code_def upt_rec)

lemma length_b64_alphabet [simp]: "length b64_alphabet = 64"
  by (simp add: b64_alphabet_def)

lemma b64_alphabet_no_pad: "CHR ''='' \<notin> set b64_alphabet"
  by (simp add: b64_alphabet_def)

lemma b64_char_ok [simp]: "n < 64 \<Longrightarrow> b64_value (b64_char n) = Some n" "n < 64 \<Longrightarrow> b64_char n \<noteq> CHR ''=''"
  using arg_cong [OF b64_alphabet_values, of "\<lambda>xs. xs ! n"] b64_alphabet_no_pad
    nth_mem [of n b64_alphabet] by (simp add: b64_char_def, unfold b64_char_def, metis length_b64_alphabet)

lemma b64_sextets:
  "\<forall>x \<in> set bs. x < 256 \<Longrightarrow> b64_groups (List.map_filter b64_value (b64_encode bs)) = bs
     \<and> CHR ''='' \<notin> set (b64_encode bs)"
proof (induction bs rule: b64_encode.induct)
  case (4 a b c r)
  have [simp]: "a mod 4 * 16 + b div 16 < 64" "b mod 16 * 4 + c div 64 < 64" "a div 4 < 64" "c mod 64 < 64"
    using 4 by auto
  have [simp]: "(a mod 4 * 16 + b div 16) div 16 = a mod 4" "(a mod 4 * 16 + b div 16) mod 16 = b div 16"
    "(b mod 16 * 4 + c div 64) div 4 = b mod 16" "(b mod 16 * 4 + c div 64) mod 4 = c div 64"
    using 4 by (auto simp: div_mult2_eq)
  show ?case using 4 by (auto simp: map_filter_simps b64_char_ok(2) [THEN not_sym])
next
  case (2 a)
  then have [simp]: "a div 4 < 64" "a mod 4 * 16 < 64" by auto
  show ?case using 2 by (auto simp: map_filter_simps b64_char_ok(2) [THEN not_sym])
next
  case (3 a b)
  then have [simp]: "a div 4 < 64" "a mod 4 * 16 + b div 16 < 64" "b mod 16 * 4 < 64"
    "(a mod 4 * 16 + b div 16) div 16 = a mod 4" "(a mod 4 * 16 + b div 16) mod 16 = b div 16"
    by auto
  show ?case using 3 by (auto simp: map_filter_simps b64_char_ok(2) [THEN not_sym])
qed (simp add: map_filter_simps)

lemma b64_decode_encode: "\<forall>x \<in> set bs. x < 256 \<Longrightarrow> b64_decode (b64_encode bs) = bs"
proof -
  assume a: "\<forall>x \<in> set bs. x < 256"
  then have "takeWhile (\<lambda>c. c \<noteq> CHR ''='') (b64_encode bs) = b64_encode bs"
    using conjunct2 [OF b64_sextets [OF a]] by (auto simp: takeWhile_eq_all_conv)
  then have "b64_decode (b64_encode bs) = b64_groups (List.map_filter b64_value (b64_encode bs))"
    by (simp only: b64_decode_def)
  then show ?thesis using b64_sextets [OF a] by simp
qed

end
