(* ===== verification/JsArith.thy ===== *)
theory JsArith
  imports JsNumber
begin

text \<open>
  Arithmetic on JavaScript numbers: sums, differences, products, quotients, absolute values and
  rounding, with the rules of the language for \<open>NaN\<close> and the infinities. A finite result is exact (no
  rounding to a double), and a zero divisor counts as the positive zero. \<open>to_fixed d\<close> is
  \<open>toFixed(d)\<close> and \<open>big_of_num\<close> is \<open>BigInt(n)\<close>, which throws unless the number is an integer.
\<close>

datatype bigint_exn = RangeErrorThrown

definition num_neg :: "jsnum \<Rightarrow> jsnum" where
  "num_neg a = (case a of Fin x \<Rightarrow> Fin (- x) | PInf \<Rightarrow> NInf | NInf \<Rightarrow> PInf | NaN \<Rightarrow> NaN)"

definition num_plus :: "jsnum \<Rightarrow> jsnum \<Rightarrow> jsnum" where
  "num_plus a b = (case (a, b) of
      (Fin x, Fin y) \<Rightarrow> Fin (x + y)
    | (NaN, _) \<Rightarrow> NaN
    | (_, NaN) \<Rightarrow> NaN
    | (PInf, NInf) \<Rightarrow> NaN
    | (NInf, PInf) \<Rightarrow> NaN
    | (PInf, _) \<Rightarrow> PInf
    | (_, PInf) \<Rightarrow> PInf
    | _ \<Rightarrow> NInf)"

definition num_minus :: "jsnum \<Rightarrow> jsnum \<Rightarrow> jsnum" where
  "num_minus a b = num_plus a (num_neg b)"

definition inf_of :: "rat \<Rightarrow> jsnum" where
  "inf_of s = (if s > 0 then PInf else if s < 0 then NInf else NaN)"

definition num_sgn :: "jsnum \<Rightarrow> rat" where
  "num_sgn a = (case a of Fin x \<Rightarrow> sgn x | PInf \<Rightarrow> 1 | NInf \<Rightarrow> - 1 | NaN \<Rightarrow> 0)"

definition num_times :: "jsnum \<Rightarrow> jsnum \<Rightarrow> jsnum" where
  "num_times a b = (case (a, b) of
      (Fin x, Fin y) \<Rightarrow> Fin (x * y)
    | (NaN, _) \<Rightarrow> NaN
    | (_, NaN) \<Rightarrow> NaN
    | _ \<Rightarrow> inf_of (num_sgn a * num_sgn b))"

definition num_divide :: "jsnum \<Rightarrow> jsnum \<Rightarrow> jsnum" where
  "num_divide a b = (case (a, b) of
      (Fin x, Fin y) \<Rightarrow> if y = 0 then inf_of x else Fin (x / y)
    | (NaN, _) \<Rightarrow> NaN
    | (_, NaN) \<Rightarrow> NaN
    | (Fin _, _) \<Rightarrow> Fin 0
    | (_, Fin y) \<Rightarrow> inf_of (num_sgn a * (if y = 0 then 1 else sgn y))
    | _ \<Rightarrow> NaN)"

definition num_abs :: "jsnum \<Rightarrow> jsnum" where
  "num_abs a = (case a of Fin x \<Rightarrow> Fin \<bar>x\<bar> | NInf \<Rightarrow> PInf | _ \<Rightarrow> a)"

definition num_floor :: "jsnum \<Rightarrow> jsnum" where
  "num_floor n = (case n of Fin q \<Rightarrow> Fin (of_int \<lfloor>q\<rfloor>) | _ \<Rightarrow> n)"

text \<open>\<open>Math.round\<close>: the nearest integer, the larger one of two.\<close>

definition num_round :: "jsnum \<Rightarrow> jsnum" where
  "num_round n = (case n of Fin q \<Rightarrow> Fin (of_int \<lfloor>q + 1 / 2\<rfloor>) | _ \<Rightarrow> n)"

definition big_of_num :: "jsnum \<Rightarrow> bigint_exn + int" where
  "big_of_num n = (case n of
      Fin q \<Rightarrow> if of_int \<lfloor>q\<rfloor> = q then Inr \<lfloor>q\<rfloor> else Inl RangeErrorThrown
    | _ \<Rightarrow> Inl RangeErrorThrown)"

text \<open>
  \<open>x.toFixed(d)\<close> for \<open>d > 0\<close>: the nearest multiple, the larger one of two in absolute value. From
  \<open>10 ^ 21\<close> on the text is the language's shortest one, given by \<open>p\<close>.
\<close>

definition to_fixed :: "(rat \<Rightarrow> string) \<Rightarrow> nat \<Rightarrow> jsnum \<Rightarrow> string" where
  "to_fixed p d x = (case x of
      NaN \<Rightarrow> ''NaN''
    | PInf \<Rightarrow> ''Infinity''
    | NInf \<Rightarrow> ''-Infinity''
    | Fin q \<Rightarrow>
        (let a = \<bar>q\<bar>
         in if a \<ge> 10 ^ 21 then p q
            else
              (let n = nat \<lfloor>a * 10 ^ d + 1 / 2\<rfloor>
               in (if q < 0 then ''-'' else []) @ nat_str (n div 10 ^ d) @ ''.''
                    @ pad_start d (CHR ''0'') (nat_str (n mod 10 ^ d)))))"

text \<open>A number in a template string; \<open>p\<close> prints a finite one.\<close>

definition num_text :: "(rat \<Rightarrow> string) \<Rightarrow> jsnum \<Rightarrow> string" where
  "num_text p n = (case n of NaN \<Rightarrow> ''NaN'' | PInf \<Rightarrow> ''Infinity'' | NInf \<Rightarrow> ''-Infinity'' | Fin q \<Rightarrow> p q)"

lemma num_fin_simps [simp]:
  "num_plus (Fin x) (Fin y) = Fin (x + y)" "num_minus (Fin x) (Fin y) = Fin (x - y)"
  "num_times (Fin x) (Fin y) = Fin (x * y)" "y \<noteq> 0 \<Longrightarrow> num_divide (Fin x) (Fin y) = Fin (x / y)"
  "num_abs (Fin x) = Fin \<bar>x\<bar>" "num_neg (Fin x) = Fin (- x)"
  by (simp_all add: num_plus_def num_minus_def num_neg_def num_times_def num_divide_def num_abs_def)

lemma num_nan_simps [simp]:
  "num_plus NaN b = NaN" "num_plus a NaN = NaN" "num_minus NaN b = NaN" "num_minus a NaN = NaN"
  "num_times NaN b = NaN" "num_times a NaN = NaN" "num_divide NaN b = NaN" "num_divide a NaN = NaN"
  "num_abs NaN = NaN"
  by (cases a; cases b; simp add: num_plus_def num_minus_def num_neg_def num_times_def num_divide_def num_abs_def)+

lemma num_floor_fin [simp]: "num_floor (Fin q) = Fin (of_int \<lfloor>q\<rfloor>)" "num_floor NaN = NaN"
  by (simp_all add: num_floor_def)

lemma big_of_num_simps [simp]: "big_of_num (Fin (of_int i)) = Inr i" "big_of_num NaN = Inl RangeErrorThrown"
  by (simp_all add: big_of_num_def)

lemma big_of_num_Inr: "big_of_num n = Inr i \<longleftrightarrow> n = Fin (of_int i)"
  by (cases n) (auto simp: big_of_num_def)

lemma num_ge_fin [simp]: "num_ge (Fin x) (Fin y) \<longleftrightarrow> y \<le> x"
  by (auto simp: num_ge_def)

lemma num_round_fin [simp]: "num_round (Fin q) = Fin (of_int \<lfloor>q + 1 / 2\<rfloor>)"
  by (simp add: num_round_def)

subsection \<open>Coercions\<close>

text \<open>
  A property of a value, \<open>a ?? b\<close>, \<open>String(v)\<close> and \<open>Number(v)\<close>; \<open>str\<close> is the first on values that
  are no strings, \<open>numo\<close> the second on arrays and objects.
\<close>

definition data_field :: "jval \<Rightarrow> string \<Rightarrow> jval" where
  "data_field d k = (case d of JObj ps \<Rightarrow> jget ps k | _ \<Rightarrow> JUndef)"

definition or_if_nullish :: "jval \<Rightarrow> jval \<Rightarrow> jval" where
  "or_if_nullish a b = (case a of JUndef \<Rightarrow> b | JNull \<Rightarrow> b | _ \<Rightarrow> a)"

definition str_of :: "(jval \<Rightarrow> string) \<Rightarrow> jval \<Rightarrow> string" where
  "str_of str v = (case v of JStr s \<Rightarrow> s | _ \<Rightarrow> str v)"

definition num_of :: "(jval \<Rightarrow> jsnum) \<Rightarrow> jval \<Rightarrow> jsnum" where
  "num_of numo v = (case v of
      JUndef \<Rightarrow> NaN | JNull \<Rightarrow> Fin 0 | JBool b \<Rightarrow> (if b then Fin 1 else Fin 0) | JNum n \<Rightarrow> n
    | JBig i \<Rightarrow> Fin (of_int i) | JStr s \<Rightarrow> js_number s | _ \<Rightarrow> numo v)"

end
