(* ===== verification/Store.thy ===== *)
theory Store
  imports Prelude
begin

text \<open>
  The interface of the stores the services keep their rows in (a table behind a repository, a
  queue of jobs, an in-process map): looking a row up by its key, replacing the row of a key,
  removing a key. A component's store is part of its state; the component's theory defines
  the three operations and interprets the interface on them.
\<close>

locale keyed_store =
  fixes get :: "'s \<Rightarrow> 'k \<Rightarrow> 'r option"
    and put :: "'k \<Rightarrow> 'r \<Rightarrow> 's \<Rightarrow> 's"
    and del :: "'k \<Rightarrow> 's \<Rightarrow> 's"
    and wf :: "'s \<Rightarrow> bool"
  assumes get_put: "wf s \<Longrightarrow> get s k \<noteq> None \<Longrightarrow> get (put k r s) j = (if j = k then Some r else get s j)"
    and get_del: "wf s \<Longrightarrow> get (del k s) j = (if j = k then None else get s j)"
    and wf_put: "wf s \<Longrightarrow> wf (put k r s)"
    and wf_del: "wf s \<Longrightarrow> wf (del k s)"
begin

lemma get_put_same: "wf s \<Longrightarrow> get s k \<noteq> None \<Longrightarrow> get (put k r s) k = Some r"
  by (simp add: get_put)

lemma get_put_other: "wf s \<Longrightarrow> get s k \<noteq> None \<Longrightarrow> j \<noteq> k \<Longrightarrow> get (put k r s) j = get s j"
  by (simp add: get_put)

text \<open>Two writes of the same key: the last one wins, whatever was read in between.\<close>

lemma last_write_wins:
  "wf s \<Longrightarrow> get s k \<noteq> None \<Longrightarrow> get (put k r' (put k r s)) j = get (put k r' s) j"
  by (simp add: get_put wf_put)

text \<open>Removing a list of keys removes exactly these.\<close>

lemma get_del_all:
  "wf s \<Longrightarrow> get (foldl (\<lambda>t k. del k t) s ks) j = (if j \<in> set ks then None else get s j)"
  by (induction ks arbitrary: s) (auto simp: get_del wf_del)

end

text \<open>A store that can also take a row under a new key.\<close>

locale growing_store = keyed_store get put del wf
  for get :: "'s \<Rightarrow> 'k \<Rightarrow> 'r option" and put :: "'k \<Rightarrow> 'r \<Rightarrow> 's \<Rightarrow> 's"
    and del :: "'k \<Rightarrow> 's \<Rightarrow> 's" and wf :: "'s \<Rightarrow> bool" +
  fixes ins :: "'k \<Rightarrow> 'r \<Rightarrow> 's \<Rightarrow> 's"
  assumes get_ins: "wf s \<Longrightarrow> get s k = None \<Longrightarrow> get (ins k r s) j = (if j = k then Some r else get s j)"
    and wf_ins: "wf s \<Longrightarrow> get s k = None \<Longrightarrow> wf (ins k r s)"
begin

lemma put_after_ins:
  "wf s \<Longrightarrow> get s k = None \<Longrightarrow> get (put k r' (ins k r s)) j = get (ins k r' s) j"
  by (simp add: get_put get_ins wf_ins)

end

subsection \<open>Rows in insertion order\<close>

text \<open>
  A queue or a JavaScript \<open>Map\<close>: the rows with their keys, in the order they were inserted;
  replacing a row keeps its place.
\<close>

definition row_get :: "('k \<times> 'r) list \<Rightarrow> 'k \<Rightarrow> 'r option" where
  "row_get q k = map_of q k"

definition row_put :: "'k \<Rightarrow> 'r \<Rightarrow> ('k \<times> 'r) list \<Rightarrow> ('k \<times> 'r) list" where
  "row_put k r q = map (\<lambda>e. if fst e = k then (k, r) else e) q"

definition row_del :: "'k \<Rightarrow> ('k \<times> 'r) list \<Rightarrow> ('k \<times> 'r) list" where
  "row_del k q = filter (\<lambda>e. fst e \<noteq> k) q"

definition row_ins :: "'k \<Rightarrow> 'r \<Rightarrow> ('k \<times> 'r) list \<Rightarrow> ('k \<times> 'r) list" where
  "row_ins k r q = q @ [(k, r)]"

definition rows_wf :: "('k \<times> 'r) list \<Rightarrow> bool" where
  "rows_wf q \<longleftrightarrow> distinct (map fst q)"

lemma map_fst_row_put [simp]: "map fst (row_put k r q) = map fst q"
  by (induction q) (auto simp: row_put_def)

lemma map_of_row_put:
  "map_of (row_put k r q) j = (if j = k \<and> map_of q k \<noteq> None then Some r else map_of q j)"
  by (induction q) (auto simp: row_put_def)

lemma map_of_row_del: "map_of (row_del k q) j = (if j = k then None else map_of q j)"
  by (induction q) (auto simp: row_del_def)

lemma distinct_row_del: "distinct (map fst q) \<Longrightarrow> distinct (map fst (row_del k q))"
  by (simp add: row_del_def distinct_map_filter)

lemma map_of_append_None: "map_of q k = None \<Longrightarrow> map_of (q @ [(k, r)]) j = (if j = k then Some r else map_of q j)"
  by (induction q) (auto split: if_splits)

interpretation rows: growing_store row_get row_put row_del rows_wf row_ins
proof unfold_locales
  show "\<And>s k r. rows_wf s \<Longrightarrow> row_get s k = None \<Longrightarrow> rows_wf (row_ins k r s)"
    by (auto simp: rows_wf_def row_ins_def row_get_def map_of_eq_None_iff)
qed (auto simp: row_get_def rows_wf_def row_ins_def map_of_row_put map_of_row_del
    distinct_row_del map_of_append_None map_add_def split: option.splits)

lemma length_row_put [simp]: "length (row_put k r q) = length q"
  by (simp add: row_put_def)

lemma row_get_Some_set: "row_get q k = Some r \<Longrightarrow> (k, r) \<in> set q"
  by (simp add: row_get_def map_of_SomeD)

lemma row_get_in: "rows_wf q \<Longrightarrow> (k, r) \<in> set q \<Longrightarrow> row_get q k = Some r"
  by (simp add: row_get_def rows_wf_def)

text \<open>\<open>Map.prototype.set\<close>: a new key goes to the end, a known one keeps its place.\<close>

definition map_set :: "'k \<Rightarrow> 'r \<Rightarrow> ('k \<times> 'r) list \<Rightarrow> ('k \<times> 'r) list" where
  "map_set k r q = (if row_get q k = None then row_ins k r q else row_put k r q)"

lemma map_of_map_set [simp]: "map_of (map_set k r q) j = (if j = k then Some r else map_of q j)"
  by (auto simp: map_set_def row_get_def row_ins_def map_of_row_put map_add_def split: option.split)

end
