(* ===== verification/ScVal.thy ===== *)
theory ScVal
  imports JsString "HOL-Library.Word"
begin

text \<open>
  The values of the contract's events as the SDK hands them over. Of a 128-bit integer the code
  reads the lower 64 bits as an unsigned number (\<open>i128().lo()\<close>).
\<close>

datatype scval =
    ScvSymbol string
  | ScvString string
  | ScvU64 "64 word"
  | ScvI128 "128 word"
  | ScvOther nat

definition lo_u64 :: "128 word \<Rightarrow> nat" where
  "lo_u64 w = unat (ucast w :: 64 word)"

lemma lo_u64_mod: "lo_u64 w = unat w mod 2 ^ 64"
  by (simp add: lo_u64_def unsigned_ucast_eq take_bit_eq_mod)

lemma lo_u64_small: "unat w < 2 ^ 64 \<Longrightarrow> lo_u64 w = unat w"
  by (simp add: lo_u64_mod)

end
