(* ===== verification/Idempotency.thy ===== *)
theory Idempotency
  imports JsValue Store
begin

text \<open>
  \<^verbatim>\<open>packages/backend/src/idempotency\<close>: the record of an idempotency key, the service that
  claims, completes, fails and expires it (\<^verbatim>\<open>idempotency.service.ts\<close>) and the counters that
  listen to its events (\<^verbatim>\<open>idempotency-metrics.service.ts\<close>). The table
  \<open>idempotency_records\<close> is a map from its primary key (key, route, principal) to the row.
  A call of the service is one step: the claim runs in a serialisable transaction, and every
  other call writes one row. The clock is the argument \<open>now\<close>, in milliseconds.
\<close>

subsection \<open>The record and the service's state\<close>

datatype idem_state = IN_PROGRESS | SUCCESS | FAILED | RETRYABLE

type_synonym idem_key = "string \<times> string \<times> string" \<comment> \<open>key, route, principal\<close>

record idem_record =
  ir_fingerprint :: string
  ir_state :: idem_state
  ir_httpStatus :: "nat option"
  ir_responseBody :: "(string \<times> jval) list option"
  ir_note :: "string option"
  ir_expiresAt :: int

datatype idem_event = CLAIMED | REPLAYED | CONFLICTED | IN_PROGRESS_EV | FAILED_EV | RETRYABLE_EV

record idem_counters =
  c_claimed :: nat
  c_replayed :: nat
  c_conflicted :: nat
  c_inProgress :: nat
  c_failed :: nat
  c_retryable :: nat

fun on_event :: "idem_event \<Rightarrow> idem_counters \<Rightarrow> idem_counters" where
  "on_event CLAIMED c = c\<lparr>c_claimed := c_claimed c + 1\<rparr>"
| "on_event REPLAYED c = c\<lparr>c_replayed := c_replayed c + 1\<rparr>"
| "on_event CONFLICTED c = c\<lparr>c_conflicted := c_conflicted c + 1\<rparr>"
| "on_event IN_PROGRESS_EV c = c\<lparr>c_inProgress := c_inProgress c + 1\<rparr>"
| "on_event FAILED_EV c = c\<lparr>c_failed := c_failed c + 1\<rparr>"
| "on_event RETRYABLE_EV c = c\<lparr>c_retryable := c_retryable c + 1\<rparr>"

definition counters_init :: idem_counters where
  "counters_init = \<lparr>c_claimed = 0, c_replayed = 0, c_conflicted = 0, c_inProgress = 0,
     c_failed = 0, c_retryable = 0\<rparr>"

record idem_sys =
  idem_rows :: "idem_key \<rightharpoonup> idem_record"
  idem_counts :: idem_counters

text \<open>The events reach the metrics service through the event emitter, one handler each.\<close>

definition emit_idem :: "idem_event \<Rightarrow> idem_sys \<Rightarrow> idem_sys" where
  "emit_idem e s = s\<lparr>idem_counts := on_event e (idem_counts s)\<rparr>"

datatype claim_result =
    Claimed
  | Replayed nat "(string \<times> jval) list"
  | InProgress
  | Conflict

definition DEFAULT_RETENTION_MS :: int where "DEFAULT_RETENTION_MS = 24 * 60 * 60 * 1000"

definition MAX_KEY_LENGTH :: nat where "MAX_KEY_LENGTH = 128"

definition RETRYABLE_HTTP_STATUSES :: "nat list" where
  "RETRYABLE_HTTP_STATUSES = [408, 429, 502, 503, 504]"

definition SENSITIVE_KEYS :: "string list" where
  "SENSITIVE_KEYS = [''xdr'', ''signature'', ''secret'', ''privateKey'', ''token'', ''password'',
     ''mnemonic'', ''seed'']"

subsection \<open>The rows as a store\<close>

definition idem_get :: "idem_sys \<Rightarrow> idem_key \<Rightarrow> idem_record option" where
  "idem_get s k = idem_rows s k"

definition idem_put :: "idem_key \<Rightarrow> idem_record \<Rightarrow> idem_sys \<Rightarrow> idem_sys" where
  "idem_put k r s = s\<lparr>idem_rows := (idem_rows s)(k \<mapsto> r)\<rparr>"

definition idem_del :: "idem_key \<Rightarrow> idem_sys \<Rightarrow> idem_sys" where
  "idem_del k s = s\<lparr>idem_rows := (idem_rows s)(k := None)\<rparr>"

interpretation idem: growing_store idem_get idem_put idem_del "\<lambda>_. True" idem_put
  by unfold_locales (auto simp: idem_get_def idem_put_def idem_del_def)

lemma idem_get_emit [simp]: "idem_get (emit_idem e s) k = idem_get s k"
  by (simp add: idem_get_def emit_idem_def)

lemma idem_get_put [simp]: "idem_get (idem_put k r s) j = (if j = k then Some r else idem_get s j)"
  by (simp add: idem_get_def idem_put_def)

lemma idem_counts_put [simp]: "idem_counts (idem_put k r s) = idem_counts s"
  by (simp add: idem_put_def)

lemma idem_counts_emit [simp]: "idem_counts (emit_idem e s) = on_event e (idem_counts s)"
  by (simp add: emit_idem_def)

subsection \<open>What is stored of a response\<close>

text \<open>
  \<open>sanitise\<close> clones an object, replacing the value of a sensitive key; \<open>{}\<close> for anything that
  is not an object and below depth 4. The key \<^verbatim>\<open>__proto__\<close> names no own property of the clone:
  the assignment sets or ignores the prototype.
\<close>

function sanitise :: "jval \<Rightarrow> nat \<Rightarrow> (string \<times> jval) list" where
  "sanitise v depth =
     (if \<not> truthy v \<or> \<not> is_object v \<or> depth > 4 then []
      else map (\<lambda>(k, w).
             (k, if k \<in> set SENSITIVE_KEYS then JStr ''[REDACTED]''
                 else if is_object w then JObj (sanitise w (depth + 1))
                 else w))
           (filter (\<lambda>(k, w). k \<noteq> ''__proto__'') (entries v)))"
  by pat_completeness auto
termination
  by (relation "measure (\<lambda>(v, depth). size v)") (auto dest: entries_size)

declare sanitise.simps [simp del]

text \<open>No property of a value, however deep, shows more than the mark under a sensitive key.\<close>

function no_secret :: "jval \<Rightarrow> bool" where
  "no_secret (JObj ps) \<longleftrightarrow>
     (\<forall>e \<in> set ps. (fst e \<in> set SENSITIVE_KEYS \<longrightarrow> snd e = JStr ''[REDACTED]'') \<and> no_secret (snd e))"
| "no_secret (JArr vs) \<longleftrightarrow> (\<forall>v \<in> set vs. no_secret v)"
| "no_secret JUndef \<longleftrightarrow> True"
| "no_secret JNull \<longleftrightarrow> True"
| "no_secret (JBool b) \<longleftrightarrow> True"
| "no_secret (JNum n) \<longleftrightarrow> True"
| "no_secret (JBig i) \<longleftrightarrow> True"
| "no_secret (JStr s) \<longleftrightarrow> True"
  by pat_completeness auto
termination
proof (relation "measure size"; clarsimp simp: size_mem_props)
  fix vs :: "jval list" and v
  assume "v \<in> set vs"
  then show "size v < Suc (size_list size vs)"
    by (simp add: less_Suc_eq_le size_list_estimation')
qed

text \<open>How many objects are nested in a value.\<close>

function nesting :: "jval \<Rightarrow> nat" where
  "nesting (JObj ps) = Suc (fold (\<lambda>e n. max (nesting (snd e)) n) ps 0)"
| "nesting (JArr vs) = Suc (fold (\<lambda>v n. max (nesting v) n) vs 0)"
| "nesting JUndef = 0"
| "nesting JNull = 0"
| "nesting (JBool b) = 0"
| "nesting (JNum n) = 0"
| "nesting (JBig i) = 0"
| "nesting (JStr s) = 0"
  by pat_completeness auto
termination
proof (relation "measure size"; clarsimp simp: size_mem_props)
  fix vs :: "jval list" and v
  assume "v \<in> set vs"
  then show "size v < Suc (size_list size vs)"
    by (simp add: less_Suc_eq_le size_list_estimation')
qed

lemma fold_max_le: "fold (\<lambda>e n. max (f e) n) xs a \<le> (b::nat) \<longleftrightarrow> a \<le> b \<and> (\<forall>x \<in> set xs. f x \<le> b)"
  by (induction xs arbitrary: a) auto

lemma not_object_no_secret: "\<not> is_object v \<Longrightarrow> no_secret v"
  by (cases v) (auto simp: is_object_def)

lemma not_object_nesting: "\<not> is_object v \<Longrightarrow> nesting v = 0"
  by (cases v) (auto simp: is_object_def)

lemma sanitise_member:
  assumes "(k, x) \<in> set (sanitise v depth)"
  obtains w where "(k, w) \<in> set (entries v)" "depth \<le> 4" "truthy v" "is_object v" "k \<noteq> ''__proto__''"
    "x = (if k \<in> set SENSITIVE_KEYS then JStr ''[REDACTED]''
          else if is_object w then JObj (sanitise w (depth + 1)) else w)"
  using assms by (subst (asm) sanitise.simps) (auto split: if_split_asm)

lemma sanitise_no_secret: "no_secret (JObj (sanitise v depth))"
proof (induction "size v" arbitrary: v depth rule: less_induct)
  case less
  have "(k \<in> set SENSITIVE_KEYS \<longrightarrow> x = JStr ''[REDACTED]'') \<and> no_secret x"
    if "(k, x) \<in> set (sanitise v depth)" for k x
    using that
  proof (rule sanitise_member)
    fix w
    assume w: "(k, w) \<in> set (entries v)"
      and x: "x = (if k \<in> set SENSITIVE_KEYS then JStr ''[REDACTED]''
          else if is_object w then JObj (sanitise w (depth + 1)) else w)"
    from w have "no_secret (JObj (sanitise w (depth + 1)))"
      by (intro less) (rule entries_size)
    then show ?thesis by (simp add: x not_object_no_secret)
  qed
  then show ?case by auto
qed

lemma sanitise_nesting: "depth \<le> 5 \<Longrightarrow> nesting (JObj (sanitise v depth)) \<le> 6 - depth"
proof (induction "size v" arbitrary: v depth rule: less_induct)
  case less
  have "nesting x \<le> 5 - depth" if "(k, x) \<in> set (sanitise v depth)" for k x
    using that
  proof (rule sanitise_member)
    fix w
    assume w: "(k, w) \<in> set (entries v)" and d: "depth \<le> 4"
      and x: "x = (if k \<in> set SENSITIVE_KEYS then JStr ''[REDACTED]''
          else if is_object w then JObj (sanitise w (depth + 1)) else w)"
    from w d have "nesting (JObj (sanitise w (depth + 1))) \<le> 6 - (depth + 1)"
      by (intro less) (auto dest: entries_size)
    then show ?thesis using d by (simp add: x not_object_nesting)
  qed
  then have "fold (\<lambda>e n. max (nesting (snd e)) n) (sanitise v depth) 0 \<le> 5 - depth"
    by (auto simp: fold_max_le)
  then show ?case using less.prems by simp
qed

lemma sanitise_keys:
  "truthy v \<Longrightarrow> is_object v \<Longrightarrow> depth \<le> 4 \<Longrightarrow>
   map fst (sanitise v depth) = filter (\<lambda>k. k \<noteq> ''__proto__'') (map fst (entries v))"
  by (subst sanitise.simps) (simp add: comp_def filter_map case_prod_unfold)

subsection \<open>The fingerprint\<close>

text \<open>
  \<open>localeCompare\<close> orders strings by their collation keys: \<open>ck\<close>, the collation of the host's
  locale, is a parameter, and so are the printing of numbers and the digest.
\<close>

function sortedKeys :: "(string \<Rightarrow> 'c::linorder) \<Rightarrow> jval \<Rightarrow> jval" where
  "sortedKeys ck v =
     (if \<not> truthy v \<or> \<not> is_object v then v
      else from_entries
        (map (\<lambda>(k, w). if is_object w then (k, sortedKeys ck w) else (k, w))
          (sort_key (\<lambda>e. ck (fst e)) (entries v))))"
  by pat_completeness auto
termination
  by (relation "measure (\<lambda>(ck, v). size v)") (auto dest: entries_size)

declare sortedKeys.simps [simp del]

definition canonical :: "(rat \<Rightarrow> string) \<Rightarrow> (string \<Rightarrow> 'c::linorder) \<Rightarrow> jval \<Rightarrow> string" where
  "canonical p ck body =
     (case stringify p (sortedKeys ck body) of None \<Rightarrow> ''undefined'' | Some t \<Rightarrow> t)"

definition fingerprint ::
  "(string \<Rightarrow> string) \<Rightarrow> (rat \<Rightarrow> string) \<Rightarrow> (string \<Rightarrow> 'c::linorder) \<Rightarrow> string \<Rightarrow> string \<Rightarrow> jval \<Rightarrow> string" where
  "fingerprint sha256 p ck who route body =
     sha256 (who @ '':'' @ route @ '':'' @ canonical p ck body)"

text \<open>The same body up to the order of the properties of its objects, at any depth.\<close>

inductive same_body :: "jval \<Rightarrow> jval \<Rightarrow> bool" where
  same: "same_body v v"
| arr: "list_all2 same_body vs ws \<Longrightarrow> same_body (JArr vs) (JArr ws)"
| obj: "list_all2 (\<lambda>e f. fst e = fst f \<and> same_body (snd e) (snd f)) ps qs \<Longrightarrow>
        distinct (map fst qs) \<Longrightarrow> mset qs = mset rs \<Longrightarrow> same_body (JObj ps) (JObj rs)"

lemma sortedKeys_not_object: "\<not> is_object v \<Longrightarrow> sortedKeys ck v = v"
  by (subst sortedKeys.simps) simp

lemma sortedKeys_entries:
  "is_object v \<Longrightarrow> sortedKeys ck v =
     from_entries (map (\<lambda>e. (fst e, sortedKeys ck (snd e))) (sort_key (\<lambda>e. ck (fst e)) (entries v)))"
  by (subst sortedKeys.simps)
    (auto simp: truthy_def is_object_def sortedKeys_not_object case_prod_unfold prod_eq_iff
      split: jval.splits intro!: arg_cong [where f = from_entries])

lemma map_insort_key: "(\<And>x. f (g x) = h x) \<Longrightarrow> map g (insort_key h x xs) = insort_key f (g x) (map g xs)"
  by (induction xs) auto

lemma map_sort_key: "(\<And>x. f (g x) = h x) \<Longrightarrow> map g (sort_key h xs) = sort_key f (map g xs)"
  by (induction xs) (simp_all add: map_insort_key [where f = f])

lemma sortedKeys_alt:
  "is_object v \<Longrightarrow> sortedKeys ck v =
     from_entries (sort_key (\<lambda>e. ck (fst e)) (map (\<lambda>e. (fst e, sortedKeys ck (snd e))) (entries v)))"
  by (simp add: sortedKeys_entries map_sort_key [where f = "\<lambda>e. ck (fst e)"])

lemma sort_key_mset_eq:
  assumes "mset xs = mset ys" and "inj_on f (set xs)"
  shows "sort_key f xs = sort_key f ys"
  by (rule sort_key_inj_key_eq) (use assms in auto)

lemma list_all2_map_eq:
  "list_all2 (\<lambda>e f. h e = h f) xs ys \<Longrightarrow> map h xs = map h ys"
  by (induction rule: list_all2_induct) auto

lemma sortedKeys_same_body:
  assumes "same_body v w" and ck: "inj ck"
  shows "sortedKeys ck v = sortedKeys ck w"
  using assms(1)
proof (induction rule: same_body.induct)
  case (same v)
  then show ?case by simp
next
  case (arr vs ws)
  then have "map (sortedKeys ck) vs = map (sortedKeys ck) ws"
    by (intro list_all2_map_eq) (auto elim: list_all2_mono)
  moreover have "map (\<lambda>e. (fst e, f (snd e))) (entries (JArr us))
      = zip (map nat_str [0..<length us]) (map f us)" for f :: "jval \<Rightarrow> jval" and us
    by (simp add: entries_def zip_map2 case_prod_unfold)
  moreover have "length vs = length ws" using arr by (auto dest: list_all2_lengthD)
  ultimately show ?case by (simp add: sortedKeys_alt is_object_def)
next
  case (obj ps qs rs)
  let ?g = "\<lambda>e. (fst e, sortedKeys ck (snd e))"
  have pq: "map ?g ps = map ?g qs"
    using obj(1) by (intro list_all2_map_eq) (auto elim: list_all2_mono)
  have "distinct (map fst (map ?g qs))" using obj(2) by (simp add: comp_def)
  then have inj: "inj_on (\<lambda>e. ck (fst e)) (set (map ?g qs))"
    using comp_inj_on [of fst "set (map ?g qs)" ck] inj_on_subset [OF ck]
    by (simp only: distinct_map comp_def) blast
  have "mset (map ?g qs) = mset (map ?g rs)"
    using obj(3) by simp
  then have "sort_key (\<lambda>e. ck (fst e)) (map ?g qs) = sort_key (\<lambda>e. ck (fst e)) (map ?g rs)"
    by (rule sort_key_mset_eq [OF _ inj])
  then show ?case using pq by (simp add: sortedKeys_alt is_object_def entries_def)
qed

subsection \<open>The calls of the service\<close>

definition fresh_record :: "int \<Rightarrow> string \<Rightarrow> idem_record" where
  "fresh_record now fp = \<lparr>ir_fingerprint = fp, ir_state = IN_PROGRESS, ir_httpStatus = None,
     ir_responseBody = None, ir_note = None, ir_expiresAt = now + DEFAULT_RETENTION_MS\<rparr>"

definition claimOrReplay :: "int \<Rightarrow> idem_key \<Rightarrow> string \<Rightarrow> idem_sys \<Rightarrow> idem_sys \<times> claim_result" where
  "claimOrReplay now k fp s =
     (case idem_get s k of
        None \<Rightarrow> (emit_idem CLAIMED (idem_put k (fresh_record now fp) s), Claimed)
      | Some r \<Rightarrow>
          if ir_fingerprint r \<noteq> fp then (emit_idem CONFLICTED s, Conflict)
          else if ir_state r = IN_PROGRESS then (emit_idem IN_PROGRESS_EV s, InProgress)
          else if ir_state r = RETRYABLE then
            (emit_idem CLAIMED (idem_put k
               (r\<lparr>ir_state := IN_PROGRESS, ir_httpStatus := None, ir_responseBody := None,
                  ir_note := None, ir_expiresAt := now + DEFAULT_RETENTION_MS\<rparr>) s), Claimed)
          else
            (emit_idem REPLAYED s,
             Replayed (case ir_httpStatus r of None \<Rightarrow> 200 | Some c \<Rightarrow> c)
               (case ir_responseBody r of None \<Rightarrow> [] | Some b \<Rightarrow> b)))"

definition complete :: "int \<Rightarrow> idem_key \<Rightarrow> nat \<Rightarrow> jval \<Rightarrow> idem_sys \<Rightarrow> idem_sys" where
  "complete now k httpStatus responseBody s =
     (case idem_get s k of
        None \<Rightarrow> s
      | Some r \<Rightarrow> idem_put k
          (r\<lparr>ir_state := SUCCESS, ir_httpStatus := Some httpStatus,
             ir_responseBody := Some (sanitise responseBody 0), ir_note := None,
             ir_expiresAt := now + DEFAULT_RETENTION_MS\<rparr>) s)"

definition fail_state :: "nat \<Rightarrow> idem_state" where
  "fail_state httpStatus = (if httpStatus \<in> set RETRYABLE_HTTP_STATUSES then RETRYABLE else FAILED)"

definition fail :: "int \<Rightarrow> idem_key \<Rightarrow> nat \<Rightarrow> string \<Rightarrow> idem_sys \<Rightarrow> idem_sys" where
  "fail now k httpStatus reason s =
     (let st = fail_state httpStatus;
          s' = emit_idem (if st = RETRYABLE then RETRYABLE_EV else FAILED_EV) s
      in case idem_get s' k of
        None \<Rightarrow> s'
      | Some r \<Rightarrow> idem_put k
          (r\<lparr>ir_state := st, ir_httpStatus := Some httpStatus, ir_note := Some (take 1024 reason),
             ir_expiresAt := now + DEFAULT_RETENTION_MS\<rparr>) s')"

definition cleanupExpired :: "int \<Rightarrow> idem_sys \<Rightarrow> idem_sys" where
  "cleanupExpired now s = s\<lparr>idem_rows := (\<lambda>k. case idem_rows s k of
      None \<Rightarrow> None
    | Some r \<Rightarrow> if ir_expiresAt r < now \<and> ir_state r \<noteq> IN_PROGRESS then None else Some r)\<rparr>"

datatype idem_op =
    ClaimOp int idem_key string
  | CompleteOp int idem_key nat jval
  | FailOp int idem_key nat string
  | CleanupOp int

fun idem_step :: "idem_sys \<Rightarrow> idem_op \<Rightarrow> idem_sys" where
  "idem_step s (ClaimOp now k fp) = fst (claimOrReplay now k fp s)"
| "idem_step s (CompleteOp now k st body) = complete now k st body s"
| "idem_step s (FailOp now k st reason) = fail now k st reason s"
| "idem_step s (CleanupOp now) = cleanupExpired now s"

lemma idem_get_cleanup:
  "idem_get (cleanupExpired now s) k = (case idem_get s k of None \<Rightarrow> None
     | Some r \<Rightarrow> if ir_expiresAt r < now \<and> ir_state r \<noteq> IN_PROGRESS then None else Some r)"
  by (simp add: idem_get_def cleanupExpired_def)

lemma idem_counts_cleanup [simp]: "idem_counts (cleanupExpired now s) = idem_counts s"
  by (simp add: cleanupExpired_def)

lemmas idem_ops = claimOrReplay_def complete_def fail_def Let_def idem_get_cleanup

text \<open>No call touches the row of another key; the cleanup only removes.\<close>

lemma claim_other: "j \<noteq> k \<Longrightarrow> idem_get (fst (claimOrReplay now k fp s)) j = idem_get s j"
  by (simp add: idem_ops split: option.splits)

lemma complete_other: "j \<noteq> k \<Longrightarrow> idem_get (complete now k st body s) j = idem_get s j"
  by (simp add: idem_ops split: option.splits)

lemma fail_other: "j \<noteq> k \<Longrightarrow> idem_get (fail now k st reason s) j = idem_get s j"
  by (simp add: idem_ops split: option.splits)

subsection \<open>The invariant of the rows\<close>

definition idem_record_ok :: "idem_record \<Rightarrow> bool" where
  "idem_record_ok r \<longleftrightarrow>
     (ir_state r = IN_PROGRESS \<longrightarrow> ir_httpStatus r = None \<and> ir_responseBody r = None \<and> ir_note r = None)
   \<and> (ir_state r = SUCCESS \<longrightarrow> ir_httpStatus r \<noteq> None \<and> ir_responseBody r \<noteq> None \<and> ir_note r = None)
   \<and> (ir_state r = FAILED \<or> ir_state r = RETRYABLE \<longrightarrow>
        (\<exists>c n. ir_httpStatus r = Some c \<and> fail_state c = ir_state r \<and> ir_note r = Some n \<and> length n \<le> 1024))
   \<and> (\<forall>b. ir_responseBody r = Some b \<longrightarrow> no_secret (JObj b) \<and> nesting (JObj b) \<le> 6)"

definition idem_inv :: "idem_sys \<Rightarrow> bool" where
  "idem_inv s \<longleftrightarrow> (\<forall>k r. idem_get s k = Some r \<longrightarrow> idem_record_ok r)"

definition idem_init :: idem_sys where
  "idem_init = \<lparr>idem_rows = Map.empty, idem_counts = counters_init\<rparr>"

lemma idem_inv_init: "idem_inv idem_init"
  by (simp add: idem_inv_def idem_init_def idem_get_def)

lemma fail_state_cases: "fail_state c = RETRYABLE \<or> fail_state c = FAILED"
  by (simp add: fail_state_def)

lemma claim_inv [inv_intros]: "idem_inv s \<Longrightarrow> idem_inv (fst (claimOrReplay now k fp s))"
  by (auto simp: idem_inv_def idem_ops fresh_record_def idem_record_ok_def split: option.splits)

lemma complete_inv [inv_intros]: "idem_inv s \<Longrightarrow> idem_inv (complete now k st body s)"
  using sanitise_no_secret [of body 0] sanitise_nesting [of 0 body]
  by (auto simp: idem_inv_def idem_ops idem_record_ok_def
      simp del: no_secret.simps nesting.simps split: option.splits)

lemma fail_inv [inv_intros]: "idem_inv s \<Longrightarrow> idem_inv (fail now k st reason s)"
  using fail_state_cases [of st]
  by (auto simp: idem_inv_def idem_ops idem_record_ok_def
      simp del: no_secret.simps nesting.simps split: option.splits)

lemma cleanup_inv [inv_intros]: "idem_inv s \<Longrightarrow> idem_inv (cleanupExpired now s)"
  by (auto simp: idem_inv_def idem_get_cleanup split: option.splits if_splits)

interpretation idem_machine: machine idem_step idem_inv
proof
  show "idem_inv s \<Longrightarrow> idem_inv (idem_step s e)" for s e
    by (cases e) (auto intro: inv_intros)
qed

end
