(* ===== verification/Http.thy ===== *)
theory Http
  imports JsString
begin

text \<open>
  What the handlers read of an HTTP request and how they answer: a header value (absent, one
  string, or the non-empty list Node gives for a repeated header) and thrown errors.
\<close>

datatype header_value = NoHeader | OneHeader string | ManyHeaders string "string list"

text \<open>\<open>Array.isArray(h) ? h[0] : h\<close>.\<close>

definition header_first :: "header_value \<Rightarrow> string option" where
  "header_first h = (case h of
      NoHeader \<Rightarrow> None
    | OneHeader s \<Rightarrow> Some s
    | ManyHeaders s ss \<Rightarrow> Some s)"

text \<open>The truth value of a header: an array is always true, a string when it is not empty.\<close>

definition header_truthy :: "header_value \<Rightarrow> bool" where
  "header_truthy h = (case h of NoHeader \<Rightarrow> False | OneHeader s \<Rightarrow> s \<noteq> [] | ManyHeaders s ss \<Rightarrow> True)"

datatype thrown =
    HttpThrown nat string          \<comment> \<open>an \<open>HttpException\<close>: its status and message\<close>
  | ErrorThrown "nat option" string \<comment> \<open>another \<open>Error\<close>, with a \<open>status\<close> property or without\<close>
  | ValueThrown "nat option"        \<comment> \<open>a thrown value that is no \<open>Error\<close>\<close>

end
