(* ===== verification/IdempotencyInterceptor.thy ===== *)
theory IdempotencyInterceptor
  imports Idempotency Http "HOL-Library.List_Lexorder"
begin

text \<open>
  \<^verbatim>\<open>packages/backend/src/idempotency/idempotency.interceptor.ts\<close>: what one request under
  \<open>@UseIdempotency()\<close> does (header, claim, handler, persistence of the outcome), and the
  protocol of many such requests whose claims, outcomes and the hourly cleanup interleave.
  The handler's outcome, and whether the outcome could be persisted, are inputs.
\<close>

subsection \<open>Errors\<close>

definition extractErrorInfo :: "thrown \<Rightarrow> nat \<times> string" where
  "extractErrorInfo err = (case err of
      HttpThrown st msg \<Rightarrow> (st, msg)
    | ErrorThrown st msg \<Rightarrow> (case st of None \<Rightarrow> 500 | Some c \<Rightarrow> c, msg)
    | ValueThrown st \<Rightarrow> (case st of None \<Rightarrow> 500 | Some c \<Rightarrow> c, ''Unknown error''))"

subsection \<open>One request\<close>

record http_request =
  rq_idempotencyKey :: header_value
  rq_userAddress :: "string option"
  rq_routePath :: "string option"
  rq_path :: string
  rq_method :: string
  rq_body :: jval

datatype handler_outcome = HandlerOk nat jval | HandlerErr thrown

datatype reply_outcome = ReplyBody jval | ReplyThrow thrown

record reply =
  rp_headers :: "(string \<times> string) list"
  rp_status :: "nat option"   \<comment> \<open>a status the interceptor itself sets\<close>
  rp_outcome :: reply_outcome

definition validate_key :: "header_value \<Rightarrow> thrown + string" where
  "validate_key h = (case header_first h of
      None \<Rightarrow> Inl (HttpThrown 400 ''Idempotency-Key header is required for this endpoint.'')
    | Some key \<Rightarrow>
        if key = [] then Inl (HttpThrown 400 ''Idempotency-Key header is required for this endpoint.'')
        else if length key < 1 \<or> length key > MAX_KEY_LENGTH
        then Inl (HttpThrown 400 (''Idempotency-Key must be a string of 1-'' @ nat_str MAX_KEY_LENGTH @ '' characters.''))
        else Inr key)"

definition request_principal :: "http_request \<Rightarrow> string" where
  "request_principal rq = (case rq_userAddress rq of None \<Rightarrow> ''anonymous'' | Some a \<Rightarrow> a)"

definition request_route :: "http_request \<Rightarrow> string" where
  "request_route rq = rq_method rq @ '' '' @ (case rq_routePath rq of None \<Rightarrow> rq_path rq | Some p \<Rightarrow> p)"

definition request_body :: "http_request \<Rightarrow> jval" where
  "request_body rq = (case rq_body rq of JUndef \<Rightarrow> JObj [] | JNull \<Rightarrow> JObj [] | b \<Rightarrow> b)"

definition reply_throw :: "(string \<times> string) list \<Rightarrow> thrown \<Rightarrow> reply" where
  "reply_throw hs e = \<lparr>rp_headers = hs, rp_status = None, rp_outcome = ReplyThrow e\<rparr>"

text \<open>The claimed branch: run the handler, persist what it did, pass its result on.\<close>

definition finish :: "int \<Rightarrow> bool \<Rightarrow> idem_key \<Rightarrow> handler_outcome \<Rightarrow> idem_sys \<Rightarrow> idem_sys \<times> reply" where
  "finish now persisted k outcome s = (case outcome of
      HandlerOk st body \<Rightarrow>
        (if persisted then complete now k st body s else s,
         \<lparr>rp_headers = [(''X-Idempotency-State'', ''SUCCESS'')], rp_status = None,
          rp_outcome = ReplyBody body\<rparr>)
    | HandlerErr err \<Rightarrow>
        (let (st, msg) = extractErrorInfo err
         in if persisted then fail now k st msg s
            else emit_idem (if fail_state st = RETRYABLE then RETRYABLE_EV else FAILED_EV) s,
         reply_throw [] err))"

text \<open>
  The result: the new state, whether the handler ran, and the reply; \<open>None\<close> for a route
  without the decorator, which goes straight to its handler. \<open>t0\<close> is the time of the claim
  and \<open>t1\<close> the time the outcome is stored.
\<close>

definition intercept ::
  "(string \<Rightarrow> string) \<Rightarrow> (rat \<Rightarrow> string) \<Rightarrow> (string \<Rightarrow> 'c::linorder) \<Rightarrow> bool \<Rightarrow> int \<Rightarrow> int \<Rightarrow> bool \<Rightarrow> http_request \<Rightarrow>
   handler_outcome \<Rightarrow> idem_sys \<Rightarrow> idem_sys \<times> bool \<times> reply option" where
  "intercept sha256 p ck enabled t0 t1 persisted rq outcome s =
     (if \<not> enabled then (s, True, None)
      else case validate_key (rq_idempotencyKey rq) of
        Inl e \<Rightarrow> (s, False, Some (reply_throw [] e))
      | Inr key \<Rightarrow>
          (let who = request_principal rq;
               route = request_route rq;
               fp = fingerprint sha256 p ck who route (request_body rq);
               k = (key, route, who)
           in case claimOrReplay t0 k fp s of
                (s', Conflict) \<Rightarrow>
                  (s', False, Some (reply_throw [] (HttpThrown 409
                     (''Idempotency-Key '' @ dq key @ '' was already used with a different request payload on route ''
                      @ dq route @ ''. Use a new key or ensure the request body matches the original.''))))
              | (s', InProgress) \<Rightarrow>
                  (s', False, Some (reply_throw [(''X-Idempotency-State'', ''IN_PROGRESS'')] (HttpThrown 409
                     (''An identical request with Idempotency-Key '' @ dq key @ '' is currently in progress. Wait for it to complete before retrying.''))))
              | (s', Replayed st body) \<Rightarrow>
                  (s', False, Some \<lparr>rp_headers = [(''Idempotency-Replayed'', ''true''), (''X-Idempotency-State'', ''SUCCESS'')],
                     rp_status = Some st, rp_outcome = ReplyBody (JObj body)\<rparr>)
              | (s', Claimed) \<Rightarrow>
                  (case finish t1 persisted k outcome s' of (s'', r) \<Rightarrow> (s'', True, Some r))))"

subsection \<open>Interleaved requests\<close>

text \<open>
  \<open>holders k\<close> counts the requests whose claim of \<open>k\<close> succeeded and whose outcome is not
  stored yet. Any request may move next, at any time.
\<close>

type_synonym idem_proto = "idem_sys \<times> (idem_key \<Rightarrow> nat)"

inductive proto_step :: "idem_proto \<Rightarrow> idem_proto \<Rightarrow> bool" where
  claimed: "claimOrReplay now k fp s = (s', Claimed) \<Longrightarrow> proto_step (s, h) (s', h(k := Suc (h k)))"
| refused: "claimOrReplay now k fp s = (s', r) \<Longrightarrow> r \<noteq> Claimed \<Longrightarrow> proto_step (s, h) (s', h)"
| finished: "h k = Suc n \<Longrightarrow> fst (finish now persisted k outcome s) = s' \<Longrightarrow>
     proto_step (s, h) (s', h(k := n))"
| swept: "proto_step (s, h) (cleanupExpired now s, h)"

inductive proto_reach :: "idem_proto \<Rightarrow> bool" where
  start: "proto_reach (idem_init, \<lambda>_. 0)"
| step: "proto_reach p \<Longrightarrow> proto_step p q \<Longrightarrow> proto_reach q"

inductive_cases proto_stepE: "proto_step (s, h) q"

definition proto_inv :: "idem_proto \<Rightarrow> bool" where
  "proto_inv p \<longleftrightarrow> (\<forall>k. snd p k \<le> 1 \<and>
     (snd p k = 1 \<longrightarrow> (\<exists>r. idem_get (fst p) k = Some r \<and> ir_state r = IN_PROGRESS)))"

lemma claim_result_cases:
  "claimOrReplay now k fp s = (s', Claimed) \<Longrightarrow>
     (\<forall>r. idem_get s k = Some r \<longrightarrow> ir_state r \<noteq> IN_PROGRESS) \<and>
     (\<exists>r. idem_get s' k = Some r \<and> ir_state r = IN_PROGRESS)"
  by (auto simp: claimOrReplay_def fresh_record_def split: option.splits if_splits)

lemma claim_refused_same:
  "claimOrReplay now k fp s = (s', r) \<Longrightarrow> r \<noteq> Claimed \<Longrightarrow> idem_get s' j = idem_get s j"
  by (auto simp: claimOrReplay_def split: option.splits if_splits)

lemma claim_same_other:
  "claimOrReplay now k fp s = (s', r) \<Longrightarrow> j \<noteq> k \<Longrightarrow> idem_get s' j = idem_get s j"
  using claim_other [of j k now fp s] by simp

lemma finish_other: "j \<noteq> k \<Longrightarrow> idem_get (fst (finish now ok k out s)) j = idem_get s j"
  by (auto simp: finish_def complete_other fail_other Let_def
      split: handler_outcome.splits prod.splits)

lemma proto_step_inv: "proto_step p q \<Longrightarrow> proto_inv p \<Longrightarrow> proto_inv q"
proof (induction rule: proto_step.induct)
  case (claimed now k fp s s' h)
  then have "h k = 0"
    using claim_result_cases [OF claimed(1)] unfolding proto_inv_def
    by (metis One_nat_def fst_conv le_Suc_eq le_zero_eq snd_conv)
  then show ?case
    using claimed claim_result_cases [OF claimed(1)] claim_same_other [OF claimed(1)]
    by (auto simp: proto_inv_def)
next
  case (refused now k fp s s' r h)
  then show ?case using claim_refused_same [OF refused(1,2)] by (simp add: proto_inv_def)
next
  case (finished h k n now persisted outcome s s')
  have "n = 0" using finished(1,3) unfolding proto_inv_def
    by (metis One_nat_def Suc_le_mono le_zero_eq snd_conv)
  then show ?case
    using finished finish_other [of _ k now persisted outcome s] by (auto simp: proto_inv_def)
next
  case (swept s h now)
  then show ?case by (fastforce simp: proto_inv_def idem_get_cleanup split: option.splits)
qed

lemma proto_reach_inv: "proto_reach p \<Longrightarrow> proto_inv p"
proof (induction rule: proto_reach.induct)
  case start
  then show ?case by (simp add: proto_inv_def)
next
  case (step p q)
  then show ?case by (blast intro: proto_step_inv)
qed

subsection \<open>A stored outcome stays\<close>

text \<open>
  Claims, by anyone and with any payload, never change a row that holds a final outcome; and
  neither claims nor cleanups move a row whose claim was never answered.
\<close>

fun claim_by :: "idem_sys \<Rightarrow> int \<times> idem_key \<times> string \<Rightarrow> idem_sys" where
  "claim_by s (now, k, fp) = fst (claimOrReplay now k fp s)"

definition final_row :: "idem_record option \<Rightarrow> bool" where
  "final_row x = (case x of None \<Rightarrow> False | Some r \<Rightarrow> ir_state r = SUCCESS \<or> ir_state r = FAILED)"

lemma claim_final: "final_row (idem_get s k) \<Longrightarrow> idem_get (fst (claimOrReplay now j fp s)) k = idem_get s k"
  by (cases "j = k") (auto simp: final_row_def claimOrReplay_def claim_other split: option.splits)

interpretation final: latch claim_by "\<lambda>s. idem_get s k" final_row
  by unfold_locales (auto simp: claim_final)

datatype bystander_op = ByClaim int idem_key string | BySweep int

fun bystander_step :: "idem_sys \<Rightarrow> bystander_op \<Rightarrow> idem_sys" where
  "bystander_step s (ByClaim now k fp) = fst (claimOrReplay now k fp s)"
| "bystander_step s (BySweep now) = cleanupExpired now s"

definition pending_row :: "idem_record option \<Rightarrow> bool" where
  "pending_row x = (case x of None \<Rightarrow> False | Some r \<Rightarrow> ir_state r = IN_PROGRESS)"

lemma bystander_pending: "pending_row (idem_get s k) \<Longrightarrow> idem_get (bystander_step s e) k = idem_get s k"
proof (cases e)
  case (ByClaim now j fp)
  then show "pending_row (idem_get s k) \<Longrightarrow> ?thesis"
    by (cases "j = k") (auto simp: pending_row_def claimOrReplay_def claim_other split: option.splits)
next
  case (BySweep now)
  then show "pending_row (idem_get s k) \<Longrightarrow> ?thesis"
    by (auto simp: pending_row_def idem_get_cleanup split: option.splits)
qed

interpretation pending: latch bystander_step "\<lambda>s. idem_get s k" pending_row
  by unfold_locales (auto simp: bystander_pending)

subsection \<open>Properties\<close>

lemma claim_pending:
  "pending_row (idem_get s k) \<Longrightarrow>
   snd (claimOrReplay now k fp s) = InProgress \<or> snd (claimOrReplay now k fp s) = Conflict"
  by (auto simp: claimOrReplay_def pending_row_def split: option.splits)

text \<open>C1: at any moment of any interleaving of requests, outcomes and cleanups, at most one request
  holds the claim of a key; while one does, every further claim of the key is answered
  ``in progress'' or ``conflict'', so the protected operation is never run twice at once.\<close>

theorem idem_exclusive:
  assumes "proto_reach (s, h)"
  shows "h k \<le> 1 \<and> (h k = 1 \<longrightarrow>
    snd (claimOrReplay now k fp s) = InProgress \<or> snd (claimOrReplay now k fp s) = Conflict)"
proof -
  from assms have "proto_inv (s, h)" by (rule proto_reach_inv)
  then have "h k \<le> 1 \<and> (h k = 1 \<longrightarrow> (\<exists>r. idem_get s k = Some r \<and> ir_state r = IN_PROGRESS))"
    unfolding proto_inv_def fst_conv snd_conv by (rule spec)
  then have "h k \<le> 1 \<and> (h k = 1 \<longrightarrow> pending_row (idem_get s k))"
    by (auto simp: pending_row_def)
  then show ?thesis using claim_pending by blast
qed

definition demo_key :: idem_key where "demo_key = (''k1'', ''POST /relay/tx'', ''GABC'')"

lemma demo_reach:
  "proto_reach (fst (claimOrReplay 0 demo_key ''f'' idem_init), (\<lambda>_. 0)(demo_key := Suc 0))"
  by (rule proto_reach.step [OF proto_reach.start])
    (rule proto_step.claimed [where now = 0 and fp = "''f''"],
     simp add: claimOrReplay_def idem_init_def idem_get_def)

theorem idem_exclusive_witness:
  "snd (claimOrReplay 5 demo_key ''f'' (fst (claimOrReplay 0 demo_key ''f'' idem_init))) \<noteq> Claimed"
  using idem_exclusive [OF demo_reach, of demo_key 5 "''f''"] by auto

text \<open>C8: once a claimed request has completed, every later claim of the key with the same
  fingerprint replays the stored status and the sanitised body, whatever other claims came in
  between; none of them is told to run the operation again.\<close>

theorem idem_replay_stored:
  assumes "idem_get s k = Some r"
  shows "snd (claimOrReplay now k (ir_fingerprint r)
           (foldl claim_by (complete t k st body s) es)) = Replayed st (sanitise body 0)"
proof -
  let ?s = "complete t k st body s"
  have row: "idem_get ?s k = Some (r\<lparr>ir_state := SUCCESS, ir_httpStatus := Some st,
     ir_responseBody := Some (sanitise body 0), ir_note := None,
     ir_expiresAt := t + DEFAULT_RETENTION_MS\<rparr>)"
    using assms by (simp add: complete_def)
  then have "final_row (idem_get ?s k)" by (simp add: final_row_def)
  then have "idem_get (foldl claim_by ?s es) k = idem_get ?s k" by (rule final.frozen_run)
  then show ?thesis using row by (simp add: claimOrReplay_def)
qed

theorem idem_replay_stored_witness:
  "snd (claimOrReplay 9 demo_key ''f''
     (complete 3 demo_key 201 (JObj [(''hash'', JStr ''h'')]) (fst (claimOrReplay 0 demo_key ''f'' idem_init))))
   = Replayed 201 [(''hash'', JStr ''h'')]"
proof -
  let ?s = "fst (claimOrReplay 0 demo_key ''f'' idem_init)"
  have r: "idem_get ?s demo_key = Some (fresh_record 0 ''f'')"
    by (simp add: claimOrReplay_def idem_init_def idem_get_def idem_put_def emit_idem_def)
  have b: "sanitise (JObj [(''hash'', JStr ''h'')]) 0 = [(''hash'', JStr ''h'')]"
    by (subst sanitise.simps) (simp add: truthy_def is_object_def entries_def SENSITIVE_KEYS_def)
  show ?thesis
    using idem_replay_stored [OF r, of 9 3 201 "JObj [(''hash'', JStr ''h'')]" "[]"] b
    by (simp add: fresh_record_def)
qed

text \<open>C13: after any sequence of calls of the service, every row is consistent: an in-progress row
  holds no response, a successful row holds a status and a body, a failed or retryable row
  holds a status of its class and a note of at most 1024 characters, and no stored body shows
  a sensitive value at any depth or nests deeper than six objects.\<close>

theorem idem_rows_consistent:
  "idem_get (foldl idem_step idem_init ops) k = Some r \<Longrightarrow> idem_record_ok r"
  using idem_machine.run_inv [OF idem_inv_init, of ops] unfolding idem_inv_def by blast

theorem idem_rows_consistent_witness:
  "idem_record_ok (fresh_record 0 ''f'')"
proof -
  have "idem_get (foldl idem_step idem_init [ClaimOp 0 demo_key ''f'']) demo_key = Some (fresh_record 0 ''f'')"
    by (simp add: claimOrReplay_def idem_init_def idem_get_def idem_put_def emit_idem_def)
  then show ?thesis by (rule idem_rows_consistent)
qed

text \<open>The fingerprint of a request does not depend on the order in which the properties of its
  body, or of any object nested in it, were written, provided the collation tells all keys
  apart.\<close>

theorem fingerprint_key_order:
  assumes "same_body v w" and "inj ck"
  shows "fingerprint sha256 p ck who route v = fingerprint sha256 p ck who route w"
  using sortedKeys_same_body [OF assms] by (simp add: fingerprint_def canonical_def)

theorem fingerprint_key_order_witness:
  "fingerprint id (\<lambda>_. ''1'') (map code) ''u'' ''r'' (JObj [(''b'', JNull), (''a'', JBool True)])
   = fingerprint id (\<lambda>_. ''1'') (map code) ''u'' ''r'' (JObj [(''a'', JBool True), (''b'', JNull)])"
proof (rule fingerprint_key_order)
  show "same_body (JObj [(''b'', JNull), (''a'', JBool True)]) (JObj [(''a'', JBool True), (''b'', JNull)])"
    by (rule same_body.obj [where qs = "[(''b'', JNull), (''a'', JBool True)]"])
      (auto intro: same_body.same)
  show "inj (map code)" by (simp add: inj_def code_inject inj_map_eq_map)
qed

text \<open>A key whose outcome could not be stored stays in progress for ever: no later claim and no
  cleanup, however long after, lets the operation be tried again under it.\<close>

theorem idem_lost_outcome_blocks:
  assumes "claimOrReplay t0 k fp s = (s', Claimed)"
  shows "snd (claimOrReplay now k fp
     (foldl bystander_step (fst (finish t1 False k outcome s')) es)) \<in> {InProgress, Conflict}"
proof -
  have "idem_get (fst (finish t1 False k outcome s')) k = idem_get s' k"
    by (auto simp: finish_def Let_def split: handler_outcome.splits prod.splits)
  then have "pending_row (idem_get (fst (finish t1 False k outcome s')) k)"
    using claim_result_cases [OF assms] by (auto simp: pending_row_def)
  moreover from this have "idem_get (foldl bystander_step (fst (finish t1 False k outcome s')) es) k
      = idem_get (fst (finish t1 False k outcome s')) k"
    by (rule pending.frozen_run)
  ultimately have "pending_row (idem_get (foldl bystander_step (fst (finish t1 False k outcome s')) es) k)"
    by simp
  from claim_pending [OF this, of now fp] show ?thesis by blast
qed

theorem idem_lost_outcome_blocks_witness:
  "snd (claimOrReplay (10 ^ 20) demo_key ''f''
     (foldl bystander_step (fst (finish 1 False demo_key (HandlerOk 201 JNull)
        (fst (claimOrReplay 0 demo_key ''f'' idem_init)))) [BySweep (10 ^ 15)])) \<noteq> Claimed"
proof -
  have "claimOrReplay 0 demo_key ''f'' idem_init = (fst (claimOrReplay 0 demo_key ''f'' idem_init), Claimed)"
    by (simp add: claimOrReplay_def idem_init_def idem_get_def)
  from idem_lost_outcome_blocks [OF this, of "10 ^ 20" 1 "HandlerOk 201 JNull" "[BySweep (10 ^ 15)]"]
  show ?thesis by auto
qed


text \<open>A terminal failure is replayed as a success would be: the reply carries the failure's
  status, an empty body and the header \<open>X-Idempotency-State: SUCCESS\<close>.\<close>

theorem intercept_replays_failure:
  assumes "idem_get s k = Some r" and "ir_state r = FAILED" and "ir_responseBody r = None"
    and "ir_httpStatus r = Some st"
    and "validate_key (rq_idempotencyKey rq) = Inr key"
    and "k = (key, request_route rq, request_principal rq)"
    and "ir_fingerprint r = fingerprint sha256 p ck (request_principal rq) (request_route rq) (request_body rq)"
  shows "snd (snd (intercept sha256 p ck True t0 t1 ok rq outcome s)) = Some \<lparr>rp_headers =
     [(''Idempotency-Replayed'', ''true''), (''X-Idempotency-State'', ''SUCCESS'')],
     rp_status = Some st, rp_outcome = ReplyBody (JObj [])\<rparr>"
  using assms by (simp add: intercept_def claimOrReplay_def Let_def)

definition demo_request :: http_request where
  "demo_request = \<lparr>rq_idempotencyKey = OneHeader ''k1'', rq_userAddress = Some ''GABC'',
     rq_routePath = Some ''/relay/tx'', rq_path = ''/relay/tx'', rq_method = ''POST'', rq_body = JNull\<rparr>"

theorem intercept_replays_failure_witness:
  "snd (snd (intercept (\<lambda>_. ''f'') (\<lambda>_. ''1'') (map code) True 9 9 True demo_request (HandlerOk 201 JNull)
     (fail 3 demo_key 400 ''bad'' (fst (claimOrReplay 0 demo_key ''f'' idem_init)))))
   = Some \<lparr>rp_headers = [(''Idempotency-Replayed'', ''true''), (''X-Idempotency-State'', ''SUCCESS'')],
       rp_status = Some 400, rp_outcome = ReplyBody (JObj [])\<rparr>"
proof (rule intercept_replays_failure)
  show "idem_get (fail 3 demo_key 400 ''bad'' (fst (claimOrReplay 0 demo_key ''f'' idem_init))) demo_key
    = Some ((fresh_record 0 ''f'')\<lparr>ir_state := FAILED, ir_httpStatus := Some 400,
        ir_note := Some ''bad'', ir_expiresAt := 3 + DEFAULT_RETENTION_MS\<rparr>)"
    by (simp add: fail_def claimOrReplay_def idem_init_def idem_get_def idem_put_def emit_idem_def
        fail_state_def RETRYABLE_HTTP_STATUSES_def Let_def)
qed (simp_all add: fresh_record_def demo_request_def demo_key_def validate_key_def header_first_def
    MAX_KEY_LENGTH_def request_route_def request_principal_def fingerprint_def)

text \<open>An array and the object with its indices as keys have the same canonical text, so reusing a
  key with one in place of the other is not reported as a conflict.\<close>

theorem canonical_array_object:
  "canonical p ck (JArr [v]) = canonical p ck (JObj [(''0'', v)])"
proof -
  have "entries (JArr [v]) = entries (JObj [(''0'', v)])"
    by (simp add: entries_def nat_str.simps digit_char_def code_inject [symmetric])
       (simp add: code_def)
  then show ?thesis by (simp add: canonical_def sortedKeys_entries is_object_def)
qed

end
