(* ===== verification/DlqPolicy.thy ===== *)
theory DlqPolicy
  imports Regex JsNumber
begin

text \<open>
  The pure policies of the dead-letter queue, \<^verbatim>\<open>packages/backend/src/common/queues\<close>: the
  classification of a failure (\<^verbatim>\<open>dead-letter-classification.enum.ts\<close>), what of a job is
  stored (\<^verbatim>\<open>dead-letter-redaction.ts\<close>), what of a job may be enqueued again
  (\<^verbatim>\<open>dead-letter-schema.ts\<close>) and the HTTP status of a rejection
  (\<^verbatim>\<open>dead-letter-http-errors.ts\<close>).
\<close>

datatype queue_name =
    IPFS_PINNING | NOTIFICATIONS | ORACLE_SIGNING | DEAD_LETTER | RECONCILIATION

fun queue_str :: "queue_name \<Rightarrow> string" where
  "queue_str IPFS_PINNING = ''ipfs-pinning''"
| "queue_str NOTIFICATIONS = ''notifications''"
| "queue_str ORACLE_SIGNING = ''oracle-signing''"
| "queue_str DEAD_LETTER = ''dead-letter''"
| "queue_str RECONCILIATION = ''reconciliation''"

subsection \<open>Classification\<close>

datatype classification =
    RETRYABLE_INFRASTRUCTURE | PERMANENT_VALIDATION | PERMANENT_CONFIGURATION | UNKNOWN

definition INFRA_PATTERNS :: "rx list" where
  "INFRA_PATTERNS =
     [lit_i ''ECONNREFUSED'', lit_i ''ECONNRESET'', lit_i ''ETIMEDOUT'', lit_i ''EAI_AGAIN'',
      lit_i ''ENOTFOUND'', lit_i ''EPIPE'',
      seqs [WordB, lit_i ''timeout'', WordB],
      lit_i ''timed out'', lit_i ''socket hang up'',
      seqs [lit_i ''connection '', alts [lit_i ''reset'', lit_i ''refused'', lit_i ''closed'']],
      seqs [WordB, lit ''5'', rep 2 digit, WordB],
      lit_i ''rate limit'', lit_i ''too many requests'',
      seqs [WordB, lit ''429'', WordB]]"

definition api_key_rx :: rx where
  "api_key_rx = seqs [lit_i ''api'', opt (Cls (\<lambda>c. is_space c \<or> c = CHR ''-'')), lit_i ''key'']"

definition CONFIG_PATTERNS :: "rx list" where
  "CONFIG_PATTERNS =
     [seqs [lit_i ''missing'', Star dot, alts [lit_i ''env'', lit_i ''config'', api_key_rx, lit_i ''credential'']],
      seqs [lit_i ''invalid'', Star dot, alts [api_key_rx, lit_i ''credential'', lit_i ''config'']],
      lit_i ''not configured'', lit_i ''unauthorized'', lit_i ''forbidden'',
      seqs [WordB, lit ''401'', WordB],
      seqs [WordB, lit ''403'', WordB]]"

text \<open>An error as the classification reads it: an optional name and an optional message.\<close>

type_synonym failure = "string option \<times> string option"

definition str_or_empty :: "string option \<Rightarrow> string" where
  "str_or_empty x = (case x of None \<Rightarrow> [] | Some s \<Rightarrow> s)"

definition classifyFailure :: "failure option \<Rightarrow> classification" where
  "classifyFailure err = (case err of
      None \<Rightarrow> UNKNOWN
    | Some (name, message) \<Rightarrow>
        if str_or_empty name = [] \<and> str_or_empty message = [] then UNKNOWN
        else
          (let text = str_or_empty name @ '' '' @ str_or_empty message
           in if \<exists>r \<in> set CONFIG_PATTERNS. rx_test r text then PERMANENT_CONFIGURATION
              else if \<exists>r \<in> set INFRA_PATTERNS. rx_test r text then RETRYABLE_INFRASTRUCTURE
              else PERMANENT_VALIDATION))"

lemma classify_unknown_iff:
  "classifyFailure err = UNKNOWN \<longleftrightarrow>
     (case err of None \<Rightarrow> True | Some (n, m) \<Rightarrow> str_or_empty n = [] \<and> str_or_empty m = [])"
  by (auto simp: classifyFailure_def Let_def split: option.splits)

lemma classify_unauthorized:
  "js_includes (to_lower (str_or_empty n @ '' '' @ str_or_empty m)) ''unauthorized'' \<Longrightarrow>
   classifyFailure (Some (n, m)) \<in> {PERMANENT_CONFIGURATION, UNKNOWN}"
proof -
  assume a: "js_includes (to_lower (str_or_empty n @ '' '' @ str_or_empty m)) ''unauthorized''"
  have "to_lower ''unauthorized'' = ''unauthorized''"
    by (simp add: to_lower_def lower_char_def is_upper_def code_def)
  with a have "\<exists>r \<in> set CONFIG_PATTERNS. rx_test r (str_or_empty n @ '' '' @ str_or_empty m)"
    by (intro bexI [of _ "lit_i ''unauthorized''"]) (simp_all only: rx_test_lit_i, simp add: CONFIG_PATTERNS_def)
  then show ?thesis by (simp add: classifyFailure_def Let_def)
qed

subsection \<open>Redaction of free text\<close>

definition MAX_TEXT_FIELD_LENGTH :: nat where "MAX_TEXT_FIELD_LENGTH = 500"
definition MAX_FAILED_REASON_LENGTH :: nat where "MAX_FAILED_REASON_LENGTH = 2000"
definition MAX_STACK_FRAMES :: nat where "MAX_STACK_FRAMES = 20"
definition MAX_STACK_FRAME_LENGTH :: nat where "MAX_STACK_FRAME_LENGTH = 500"

definition alnum :: "char \<Rightarrow> bool" where
  "alnum c \<longleftrightarrow> is_upper c \<or> is_lower c \<or> is_digit c"

definition jwt_part :: rx where
  "jwt_part = at_least 10 (Cls (\<lambda>c. alnum c \<or> c = CHR ''_'' \<or> c = CHR ''-''))"

definition is_hex :: "char \<Rightarrow> bool" where
  "is_hex c \<longleftrightarrow> is_digit c \<or> (97 \<le> code c \<and> code c \<le> 102) \<or> (65 \<le> code c \<and> code c \<le> 70)"

definition SECRET_TEXT_PATTERNS :: "rx list" where
  "SECRET_TEXT_PATTERNS =
     [seqs [lit ''eyJ'', jwt_part, lit ''.'', jwt_part, lit ''.'', jwt_part],
      seqs [lit_i ''Bearer'', plus space,
            at_least 10 (Cls (\<lambda>c. alnum c \<or> c = CHR ''.'' \<or> c = CHR ''_'' \<or> c = CHR ''-''))],
      seqs [WordB, lit ''0x'', at_least 32 (Cls is_hex), WordB],
      seqs [WordB, at_least 40 (Cls (\<lambda>c. alnum c \<or> c = CHR ''+'' \<or> c = CHR ''/'')),
            upto_n 2 (lit ''=''), WordB],
      seqs [alts [seqs [lit_i ''api'', opt (any_of ''_-''), lit_i ''key''], lit_i ''secret'', lit_i ''token'',
                  lit_i ''password'', lit_i ''mnemonic'',
                  seqs [lit_i ''private'', opt (any_of ''_-''), lit_i ''key'']],
            Star space, any_of '':='', Star space, plus non_space]]"

definition redactSecretText :: "string \<Rightarrow> string" where
  "redactSecretText input = foldl (\<lambda>r p. rx_replace_all p ''[REDACTED]'' r) input SECRET_TEXT_PATTERNS"

definition truncate_text :: "string \<Rightarrow> nat \<Rightarrow> string" where
  "truncate_text v max_len = (if length v > max_len then take max_len v @ ''...[truncated]'' else v)"

definition redactFailedReason :: "string option \<Rightarrow> string option" where
  "redactFailedReason r = (case r of
      None \<Rightarrow> None
    | Some s \<Rightarrow> if s = [] then Some s
                else Some (truncate_text (redactSecretText s) MAX_FAILED_REASON_LENGTH))"

definition redactStacktrace :: "string list option \<Rightarrow> string list option" where
  "redactStacktrace st = map_option (\<lambda>fs.
     map (\<lambda>f. truncate_text (redactSecretText f) MAX_STACK_FRAME_LENGTH) (take MAX_STACK_FRAMES fs)) st"

lemma length_truncate: "length (truncate_text v n) \<le> n + 14"
  by (simp add: truncate_text_def)

lemma truncate_short: "length v \<le> n \<Longrightarrow> truncate_text v n = v"
  by (simp add: truncate_text_def)

subsection \<open>Redaction of job data\<close>

record redacted_payload =
  rd_data :: jval
  rd_failed :: bool

definition redaction_failure :: redacted_payload where
  "redaction_failure = \<lparr>rd_data = JObj [], rd_failed = True\<rparr>"

definition redacted :: "jval \<Rightarrow> redacted_payload" where
  "redacted d = \<lparr>rd_data = d, rd_failed = False\<rparr>"

definition plain_object :: "jval \<Rightarrow> (string \<times> jval) list option" where
  "plain_object v = (case v of JObj ps \<Rightarrow> Some ps | _ \<Rightarrow> None)"

definition pickString :: "(string \<times> jval) list \<Rightarrow> string \<Rightarrow> string option" where
  "pickString ps k = (case jget ps k of JStr s \<Rightarrow> Some s | _ \<Rightarrow> None)"

definition pickNumber :: "(string \<times> jval) list \<Rightarrow> string \<Rightarrow> jsnum option" where
  "pickNumber ps k = (case jget ps k of JNum n \<Rightarrow> Some n | _ \<Rightarrow> None)"

definition redactOracleSigning :: "jval \<Rightarrow> redacted_payload" where
  "redactOracleSigning data = (case plain_object data of
      None \<Rightarrow> redaction_failure
    | Some ps \<Rightarrow> (case plain_object (jget ps ''payload'') of
        None \<Rightarrow> redaction_failure
      | Some payload \<Rightarrow>
          (case (pickString payload ''asset'', pickString payload ''price'', pickNumber payload ''timestamp'') of
             (Some asset, Some price, Some timestamp) \<Rightarrow>
               redacted (JObj [(''payload'', JObj [(''asset'', JStr asset), (''price'', JStr price),
                                                   (''timestamp'', JNum timestamp)])])
           | _ \<Rightarrow> redaction_failure)))"

definition redactIpfsPinning :: "jval \<Rightarrow> redacted_payload" where
  "redactIpfsPinning data = (case plain_object data of
      None \<Rightarrow> redaction_failure
    | Some ps \<Rightarrow>
        if pickString ps ''type'' = None then redaction_failure
        else if jget ps ''type'' = JStr ''call-content'' then
          (case plain_object (jget ps ''content'') of
             None \<Rightarrow> redaction_failure
           | Some content \<Rightarrow>
               (case (pickString content ''title'', pickString content ''thesis'', pickString content ''createdAt'') of
                  (Some title, Some thesis, Some createdAt) \<Rightarrow>
                    redacted (JObj [(''type'', JStr ''call-content''),
                      (''content'', JObj [(''title'', JStr (truncate_text title MAX_TEXT_FIELD_LENGTH)),
                        (''thesis'', JStr (truncate_text thesis MAX_TEXT_FIELD_LENGTH)),
                        (''createdAt'', JStr createdAt),
                        (''conditionJsonOmitted'', JBool (jget content ''conditionJson'' \<noteq> JUndef))])])
                | _ \<Rightarrow> redaction_failure))
        else if jget ps ''type'' = JStr ''oracle-evidence'' then
          (case plain_object (jget ps ''evidence'') of
             None \<Rightarrow> redaction_failure
           | Some evidence \<Rightarrow>
               (case (pickNumber evidence ''callId'', pickString evidence ''timestamp'', pickString evidence ''source'') of
                  (Some callId, Some timestamp, Some source) \<Rightarrow>
                    redacted (JObj [(''type'', JStr ''oracle-evidence''),
                      (''evidence'', JObj [(''callId'', JNum callId), (''timestamp'', JStr timestamp),
                        (''source'', JStr source),
                        (''priceDataOmitted'', JBool (jget evidence ''priceData'' \<noteq> JUndef))])])
                | _ \<Rightarrow> redaction_failure))
        else redaction_failure)"

definition redactNotifications :: "jval \<Rightarrow> redacted_payload" where
  "redactNotifications data = (case plain_object data of
      None \<Rightarrow> redaction_failure
    | Some ps \<Rightarrow> (case pickNumber ps ''notificationId'' of
        None \<Rightarrow> redaction_failure
      | Some n \<Rightarrow> redacted (JObj [(''notificationId'', JNum n)])))"

fun redactJobData :: "queue_name \<Rightarrow> jval \<Rightarrow> redacted_payload" where
  "redactJobData ORACLE_SIGNING data = redactOracleSigning data"
| "redactJobData IPFS_PINNING data = redactIpfsPinning data"
| "redactJobData NOTIFICATIONS data = redactNotifications data"
| "redactJobData _ data = redaction_failure"

lemmas redact_defs = redactOracleSigning_def redactIpfsPinning_def redactNotifications_def
  redaction_failure_def redacted_def

lemma plain_object_Some [simp]: "plain_object v = Some ps \<longleftrightarrow> v = JObj ps"
  by (cases v) (auto simp: plain_object_def)

lemma plain_object_JObj [simp]: "plain_object (JObj ps) = Some ps"
  by simp

lemma pickString_Some: "pickString ps k = Some s \<longleftrightarrow> jget ps k = JStr s"
  by (cases "jget ps k") (auto simp: pickString_def)

lemma pickNumber_Some: "pickNumber ps k = Some n \<longleftrightarrow> jget ps k = JNum n"
  by (cases "jget ps k") (auto simp: pickNumber_def)

subsection \<open>What may be enqueued again\<close>

definition is_numeric :: "string \<Rightarrow> bool" where
  "is_numeric s \<longleftrightarrow> js_number s \<noteq> NaN"

type_synonym validation = "string option" \<comment> \<open>\<open>None\<close> is valid, \<open>Some\<close> the reason it is not\<close>

definition non_empty_string :: "jval \<Rightarrow> bool" where
  "non_empty_string v = (case v of JStr s \<Rightarrow> s \<noteq> [] | _ \<Rightarrow> False)"

definition finite_number :: "jval \<Rightarrow> bool" where
  "finite_number v = (case v of JNum n \<Rightarrow> is_finite n | _ \<Rightarrow> False)"

definition validateOracleSigningJobData :: "jval \<Rightarrow> validation" where
  "validateOracleSigningJobData data = (case plain_object data of
      None \<Rightarrow> Some ''data is not an object''
    | Some ps \<Rightarrow> (case plain_object (jget ps ''payload'') of
        None \<Rightarrow> Some ''data.payload is missing or not an object''
      | Some payload \<Rightarrow>
          if \<not> non_empty_string (jget payload ''asset'') then Some ''payload.asset must be a non-empty string''
          else if \<not> (case jget payload ''price'' of JStr p \<Rightarrow> p \<noteq> [] \<and> is_numeric p | _ \<Rightarrow> False)
          then Some ''payload.price must be a numeric string''
          else if \<not> (case jget payload ''timestamp'' of
                      JNum n \<Rightarrow> is_finite n \<and> num_less (Fin 0) n | _ \<Rightarrow> False)
          then Some ''payload.timestamp must be a positive number''
          else None))"

text \<open>\<open>String(data.type)\<close> in the message for a type that is no known string.\<close>

definition validateIpfsPinningJobData :: "(jval \<Rightarrow> string) \<Rightarrow> jval \<Rightarrow> validation" where
  "validateIpfsPinningJobData str data = (case plain_object data of
      None \<Rightarrow> Some ''data is not an object''
    | Some ps \<Rightarrow>
        if jget ps ''type'' = JStr ''call-content'' then
          (case plain_object (jget ps ''content'') of
             None \<Rightarrow> Some ''content is missing or not an object''
           | Some content \<Rightarrow>
               if \<not> non_empty_string (jget content ''title'') then Some ''content.title must be a non-empty string''
               else if \<not> non_empty_string (jget content ''thesis'') then Some ''content.thesis must be a non-empty string''
               else if \<not> non_empty_string (jget content ''createdAt'') then Some ''content.createdAt must be a non-empty string''
               else None)
        else if jget ps ''type'' = JStr ''oracle-evidence'' then
          (case plain_object (jget ps ''evidence'') of
             None \<Rightarrow> Some ''evidence is missing or not an object''
           | Some evidence \<Rightarrow>
               if \<not> finite_number (jget evidence ''callId'') then Some ''evidence.callId must be a number''
               else if \<not> non_empty_string (jget evidence ''timestamp'') then Some ''evidence.timestamp must be a non-empty string''
               else if \<not> non_empty_string (jget evidence ''source'') then Some ''evidence.source must be a non-empty string''
               else None)
        else Some (''unrecognized ipfs-pinning job type '' @ dq (str (jget ps ''type''))))"

definition validateNotificationsJobData :: "jval \<Rightarrow> validation" where
  "validateNotificationsJobData data = (case plain_object data of
      None \<Rightarrow> Some ''data is not an object''
    | Some ps \<Rightarrow> if \<not> finite_number (jget ps ''notificationId'') then Some ''notificationId must be a number''
                 else None)"

fun validateSourceJobData :: "(jval \<Rightarrow> string) \<Rightarrow> queue_name \<Rightarrow> jval \<Rightarrow> validation" where
  "validateSourceJobData str ORACLE_SIGNING data = validateOracleSigningJobData data"
| "validateSourceJobData str IPFS_PINNING data = validateIpfsPinningJobData str data"
| "validateSourceJobData str NOTIFICATIONS data = validateNotificationsJobData data"
| "validateSourceJobData str q data =
     Some (''replay is not supported for source queue '' @ dq (queue_str q))"

lemmas validate_defs = validateOracleSigningJobData_def validateIpfsPinningJobData_def
  validateNotificationsJobData_def

lemma non_empty_string_pick: "non_empty_string (jget ps k) \<Longrightarrow> \<exists>s. pickString ps k = Some s"
  by (cases "jget ps k") (auto simp: non_empty_string_def pickString_def)

lemma finite_number_pick: "finite_number (jget ps k) \<Longrightarrow> \<exists>n. pickNumber ps k = Some n"
  by (cases "jget ps k") (auto simp: finite_number_def pickNumber_def)

lemma case_string_pick:
  "(case jget ps k of JStr t \<Rightarrow> P t | _ \<Rightarrow> False) \<Longrightarrow> \<exists>s. pickString ps k = Some s"
  by (cases "jget ps k") (auto simp: pickString_def)

lemma case_number_pick:
  "(case jget ps k of JNum t \<Rightarrow> P t | _ \<Rightarrow> False) \<Longrightarrow> \<exists>s. pickNumber ps k = Some s"
  by (cases "jget ps k") (auto simp: pickNumber_def)

lemmas picks = non_empty_string_pick finite_number_pick case_string_pick case_number_pick

subsection \<open>The HTTP status of a rejection\<close>

datatype http_exception = NotFoundException string | UnprocessableEntity string | ConflictException string

definition rejectionToHttpException :: "string \<Rightarrow> http_exception" where
  "rejectionToHttpException reason =
     (if js_includes reason ''not found'' then NotFoundException reason
      else if js_includes reason ''schema validation'' \<or> js_includes reason ''not supported''
      then UnprocessableEntity reason
      else ConflictException reason)"

subsection \<open>Properties\<close>

text \<open>
  The only shapes the stored copy of a job can have: the keys, the types and the lengths that
  an operator may see. (An object's keys are listed in full: nothing else survives.)
\<close>

datatype shape =
    AnyStr
  | BoundedStr nat
  | ConstStr string
  | AnyNum
  | AnyBool
  | RecordOf "(string \<times> shape) list"

fun fits :: "shape \<Rightarrow> jval \<Rightarrow> bool"
  and fits_fields :: "(string \<times> shape) list \<Rightarrow> (string \<times> jval) list \<Rightarrow> bool" where
  "fits AnyStr v = (case v of JStr _ \<Rightarrow> True | _ \<Rightarrow> False)"
| "fits (BoundedStr n) v = (case v of JStr t \<Rightarrow> length t \<le> n | _ \<Rightarrow> False)"
| "fits (ConstStr c) v = (v = JStr c)"
| "fits AnyNum v = (case v of JNum _ \<Rightarrow> True | _ \<Rightarrow> False)"
| "fits AnyBool v = (case v of JBool _ \<Rightarrow> True | _ \<Rightarrow> False)"
| "fits (RecordOf fs) v = (case v of JObj ps \<Rightarrow> fits_fields fs ps | _ \<Rightarrow> False)"
| "fits_fields [] ps = (ps = [])"
| "fits_fields ((k, sh) # fs) ps =
     (case ps of [] \<Rightarrow> False | (k', v) # es \<Rightarrow> k' = k \<and> fits sh v \<and> fits_fields fs es)"

definition allowed_shapes :: "queue_name \<Rightarrow> shape list" where
  "allowed_shapes q = (case q of
      ORACLE_SIGNING \<Rightarrow>
        [RecordOf [(''payload'', RecordOf [(''asset'', AnyStr), (''price'', AnyStr), (''timestamp'', AnyNum)])]]
    | IPFS_PINNING \<Rightarrow>
        [RecordOf [(''type'', ConstStr ''call-content''),
           (''content'', RecordOf [(''title'', BoundedStr 514), (''thesis'', BoundedStr 514),
              (''createdAt'', AnyStr), (''conditionJsonOmitted'', AnyBool)])],
         RecordOf [(''type'', ConstStr ''oracle-evidence''),
           (''evidence'', RecordOf [(''callId'', AnyNum), (''timestamp'', AnyStr),
              (''source'', AnyStr), (''priceDataOmitted'', AnyBool)])]]
    | NOTIFICATIONS \<Rightarrow> [RecordOf [(''notificationId'', AnyNum)]]
    | _ \<Rightarrow> [])"

definition allowed_shape :: "queue_name \<Rightarrow> jval \<Rightarrow> bool" where
  "allowed_shape q v \<longleftrightarrow> (\<exists>sh \<in> set (allowed_shapes q). fits sh v)"

lemmas shape_defs = allowed_shape_def allowed_shapes_def

lemma redact_cases:
  "redactJobData q data = redaction_failure \<or>
   (\<not> rd_failed (redactJobData q data) \<and> allowed_shape q (rd_data (redactJobData q data)))"
proof (cases q)
  case IPFS_PINNING
  then show ?thesis
    using length_truncate [of _ 500]
    by (auto simp: redact_defs shape_defs MAX_TEXT_FIELD_LENGTH_def split: option.split)
qed (auto simp: redact_defs shape_defs split: option.split)

text \<open>C12: whatever a failed job carried, the copy stored in the dead-letter queue is either the empty
  object, marked as a redaction failure, or has one of the explicitly allowed shapes of its
  queue, with its free text bounded; no other field can reach an operator.\<close>

theorem redaction_allowlist:
  "if rd_failed (redactJobData q data) then rd_data (redactJobData q data) = JObj []
   else allowed_shape q (rd_data (redactJobData q data))"
  using redact_cases [of q data] by (auto simp: redaction_failure_def)

lemma valid_redacts_oracle:
  "validateSourceJobData str ORACLE_SIGNING data = None \<Longrightarrow> \<not> rd_failed (redactJobData ORACLE_SIGNING data)"
  by (auto simp: validate_defs redact_defs dest!: picks split: option.splits if_splits)

lemma valid_redacts_ipfs:
  "validateSourceJobData str IPFS_PINNING data = None \<Longrightarrow> \<not> rd_failed (redactJobData IPFS_PINNING data)"
proof -
  assume v: "validateSourceJobData str IPFS_PINNING data = None"
  then obtain ps where ps: "data = JObj ps"
    by (cases "plain_object data") (auto simp: validate_defs)
  have ty: "jget ps ''type'' = JStr t \<Longrightarrow> pickString ps ''type'' = Some t" for t
    by (simp add: pickString_Some)
  consider "jget ps ''type'' = JStr ''call-content''" | "jget ps ''type'' = JStr ''oracle-evidence''"
    using v ps by (auto simp: validate_defs split: if_splits)
  then show ?thesis
  proof cases
    case 1
    then obtain c where "jget ps ''content'' = JObj c"
      using v ps by (cases "plain_object (jget ps ''content'')") (auto simp: validate_defs)
    with v ps 1 ty show ?thesis
      by (auto simp: validate_defs redact_defs dest!: picks split: if_splits)
  next
    case 2
    then obtain c where "jget ps ''evidence'' = JObj c"
      using v ps by (cases "plain_object (jget ps ''evidence'')") (auto simp: validate_defs)
    with v ps 2 ty show ?thesis
      by (auto simp: validate_defs redact_defs dest!: picks split: if_splits)
  qed
qed

lemma valid_redacts_notifications:
  "validateSourceJobData str NOTIFICATIONS data = None \<Longrightarrow> \<not> rd_failed (redactJobData NOTIFICATIONS data)"
  by (auto simp: validate_defs redact_defs dest!: picks split: option.splits if_splits)

text \<open>A job that passes the replay schema of its queue is always shown to the operator in
  full allow-listed form: the schema of what may be enqueued again implies the shape that
  redaction recognises.\<close>

theorem replayable_is_shown:
  assumes "validateSourceJobData str q data = None"
  shows "\<not> rd_failed (redactJobData q data) \<and> allowed_shape q (rd_data (redactJobData q data))"
proof -
  have "\<not> rd_failed (redactJobData q data)"
    using assms valid_redacts_oracle [of str data] valid_redacts_ipfs [of str data]
      valid_redacts_notifications [of str data] by (cases q) simp_all
  then show ?thesis using redact_cases [of q data] by (auto simp: redaction_failure_def)
qed

theorem replayable_is_shown_witness:
  "allowed_shape NOTIFICATIONS (rd_data (redactJobData NOTIFICATIONS
     (JObj [(''notificationId'', JNum (Fin 7)), (''email'', JStr ''a@b'')])))"
proof -
  have "validateSourceJobData (\<lambda>_. []) NOTIFICATIONS
     (JObj [(''notificationId'', JNum (Fin 7)), (''email'', JStr ''a@b'')]) = None"
    by (simp add: validate_defs plain_object_def jget_def is_finite_def finite_number_def)
  from replayable_is_shown [OF this] show ?thesis by blast
qed

text \<open>An error that names a configuration problem is never classified as retryable, whatever
  else its text says; a retryable classification needs one of the infrastructure patterns; and
  an error is unknown exactly when it has neither a name nor a message.\<close>

theorem classification_conservative:
  "case classifyFailure (Some (n, m)) of
     RETRYABLE_INFRASTRUCTURE \<Rightarrow>
       (\<forall>r \<in> set CONFIG_PATTERNS. \<not> rx_test r (str_or_empty n @ '' '' @ str_or_empty m)) \<and>
       (\<exists>r \<in> set INFRA_PATTERNS. rx_test r (str_or_empty n @ '' '' @ str_or_empty m))
   | PERMANENT_CONFIGURATION \<Rightarrow>
       (\<exists>r \<in> set CONFIG_PATTERNS. rx_test r (str_or_empty n @ '' '' @ str_or_empty m))
   | PERMANENT_VALIDATION \<Rightarrow>
       (\<forall>r \<in> set (CONFIG_PATTERNS @ INFRA_PATTERNS). \<not> rx_test r (str_or_empty n @ '' '' @ str_or_empty m))
   | UNKNOWN \<Rightarrow> str_or_empty n = [] \<and> str_or_empty m = []"
  by (auto simp: classifyFailure_def Let_def)

theorem classification_conservative_witness:
  "\<exists>r \<in> set INFRA_PATTERNS. rx_test r '' 429''"
proof -
  have "classifyFailure (Some (None, Some ''429'')) = RETRYABLE_INFRASTRUCTURE"
    by code_simp
  with classification_conservative [of None "Some ''429''"]
  show ?thesis by (simp add: str_or_empty_def)
qed

end
