(* ===== verification/DlqService.thy ===== *)
theory DlqService
  imports DlqPolicy Store
begin

text \<open>
  \<^verbatim>\<open>packages/backend/src/common/queues/dead-letter.service.ts\<close> and the handlers of
  \<^verbatim>\<open>admin-queues.controller.ts\<close>: jobs that failed for good, kept as waiting jobs of a queue
  nobody processes. The state is that queue (oldest job first, with the counter its ids come
  from), the Redis locks and the jobs of the source queues. How the host's \<open>Date\<close> writes and
  reads a time stamp (\<open>isof\<close>, \<open>dparse\<close>) and \<open>String(v)\<close> on a value that is no string (\<open>str\<close>) are
  arguments. A call that reads an entry, waits and then writes it is given as two halves, so
  that two calls can be interleaved; the whole call is their composition.
\<close>

subsection \<open>Entries\<close>

datatype replay_status = OPEN | REPLAYED | DISMISSED

fun status_str :: "replay_status \<Rightarrow> string" where
  "status_str OPEN = ''OPEN''"
| "status_str REPLAYED = ''REPLAYED''"
| "status_str DISMISSED = ''DISMISSED''"

datatype job_id = IdStr string | IdNum nat

fun job_id_str :: "job_id \<Rightarrow> string" where
  "job_id_str (IdStr s) = s"
| "job_id_str (IdNum n) = nat_str n"

definition PAYLOAD_VERSION :: nat where "PAYLOAD_VERSION = 1"
definition REPLAY_LOCK_TTL_MS :: int where "REPLAY_LOCK_TTL_MS = 30000"
definition LIST_SCAN_WINDOW :: nat where "LIST_SCAN_WINDOW = 200"
definition REPLAYED_RETENTION_DAYS :: int where "REPLAYED_RETENTION_DAYS = 7"
definition DISMISSED_RETENTION_DAYS :: int where "DISMISSED_RETENTION_DAYS = 30"
definition STALE_OPEN_WARNING_DAYS :: int where "STALE_OPEN_WARNING_DAYS = 14"

record dl_payload =
  dl_version :: "nat option"
  dl_correlationId :: "string option"
  dl_sourceQueue :: queue_name
  dl_jobName :: string
  dl_jobId :: job_id
  dl_attemptsMade :: nat
  dl_attempts :: nat
  dl_classification :: "classification option"
  dl_failedReason :: "string option"
  dl_stacktrace :: "string list option"
  dl_data :: jval
  dl_redactionFailed :: "bool option"
  dl_sourceTimestamp :: "string option"
  dl_movedAt :: string
  dl_replayStatus :: "replay_status option"
  dl_replayedAt :: "string option"
  dl_replayedBy :: "string option"
  dl_replayReason :: "string option"
  dl_dismissedAt :: "string option"
  dl_dismissedBy :: "string option"
  dl_dismissReason :: "string option"
  dl_lastReplayError :: "string option"
  dl_lastReplayAttemptAt :: "string option"

record dl_entry =
  de_dlqJobId :: string
  de_version :: nat
  de_correlationId :: string
  de_sourceQueue :: queue_name
  de_jobName :: string
  de_jobId :: job_id
  de_attemptsMade :: nat
  de_attempts :: nat
  de_classification :: classification
  de_failedReason :: "string option"
  de_stacktrace :: "string list option"
  de_data :: jval
  de_redactionFailed :: bool
  de_sourceTimestamp :: string
  de_movedAt :: string
  de_replayStatus :: replay_status
  de_replayedAt :: "string option"
  de_replayedBy :: "string option"
  de_replayReason :: "string option"
  de_dismissedAt :: "string option"
  de_dismissedBy :: "string option"
  de_dismissReason :: "string option"
  de_lastReplayError :: "string option"
  de_lastReplayAttemptAt :: "string option"

definition normalizeEntry :: "string \<Rightarrow> dl_payload \<Rightarrow> dl_entry" where
  "normalizeEntry dlqJobId p = \<lparr>
     de_dlqJobId = dlqJobId,
     de_version = nullish (dl_version p) 0,
     de_correlationId = nullish (dl_correlationId p) (''legacy-'' @ dlqJobId),
     de_sourceQueue = dl_sourceQueue p,
     de_jobName = dl_jobName p,
     de_jobId = dl_jobId p,
     de_attemptsMade = dl_attemptsMade p,
     de_attempts = dl_attempts p,
     de_classification = nullish (dl_classification p) UNKNOWN,
     de_failedReason = dl_failedReason p,
     de_stacktrace = dl_stacktrace p,
     de_data = dl_data p,
     de_redactionFailed = nullish (dl_redactionFailed p) False,
     de_sourceTimestamp = nullish (dl_sourceTimestamp p) (dl_movedAt p),
     de_movedAt = dl_movedAt p,
     de_replayStatus = nullish (dl_replayStatus p) OPEN,
     de_replayedAt = dl_replayedAt p,
     de_replayedBy = dl_replayedBy p,
     de_replayReason = dl_replayReason p,
     de_dismissedAt = dl_dismissedAt p,
     de_dismissedBy = dl_dismissedBy p,
     de_dismissReason = dl_dismissReason p,
     de_lastReplayError = dl_lastReplayError p,
     de_lastReplayAttemptAt = dl_lastReplayAttemptAt p\<rparr>"

subsection \<open>The state\<close>

text \<open>A job of a source queue, as far as the service reads it.\<close>

record src_job =
  sj_id :: "string option"
  sj_name :: string
  sj_data :: jval
  sj_attemptsMade :: nat
  sj_optsAttempts :: "nat option"
  sj_failedReason :: "string option"
  sj_stacktrace :: "string list option"
  sj_timestamp :: int
  sj_state :: string

record dlq_sys =
  dq_rows :: "(string \<times> dl_payload) list"
  dq_lastId :: nat
  dq_locks :: "string \<rightharpoonup> string \<times> int"   \<comment> \<open>value, time it expires\<close>
  dq_src :: "queue_name \<Rightarrow> string \<rightharpoonup> src_job"

definition isFinalAttempt :: "src_job \<Rightarrow> bool" where
  "isFinalAttempt job \<longleftrightarrow> sj_attemptsMade job \<ge> nullish (sj_optsAttempts job) 1"

definition dl_payload_of ::
  "(int \<Rightarrow> string) \<Rightarrow> string \<Rightarrow> int \<Rightarrow> queue_name \<Rightarrow> src_job \<Rightarrow> failure option \<Rightarrow> dl_payload" where
  "dl_payload_of isof uuid now sourceQueue job err =
     (let r = redactJobData sourceQueue (sj_data job)
      in \<lparr>dl_version = Some PAYLOAD_VERSION,
          dl_correlationId = Some uuid,
          dl_sourceQueue = sourceQueue,
          dl_jobName = sj_name job,
          dl_jobId = IdStr (nullish (sj_id job) []),
          dl_attemptsMade = sj_attemptsMade job,
          dl_attempts = nullish (sj_optsAttempts job) 1,
          dl_classification = Some (classifyFailure err),
          dl_failedReason = redactFailedReason (sj_failedReason job),
          dl_stacktrace = redactStacktrace (sj_stacktrace job),
          dl_data = rd_data r,
          dl_redactionFailed = Some (rd_failed r),
          dl_sourceTimestamp = Some (isof (sj_timestamp job)),
          dl_movedAt = isof now,
          dl_replayStatus = Some OPEN,
          dl_replayedAt = None, dl_replayedBy = None, dl_replayReason = None,
          dl_dismissedAt = None, dl_dismissedBy = None, dl_dismissReason = None,
          dl_lastReplayError = None, dl_lastReplayAttemptAt = None\<rparr>)"

text \<open>The queue numbers its jobs from one.\<close>

definition moveToDeadLetter ::
  "(int \<Rightarrow> string) \<Rightarrow> string \<Rightarrow> int \<Rightarrow> queue_name \<Rightarrow> src_job \<Rightarrow> failure option \<Rightarrow> dlq_sys \<Rightarrow> dlq_sys" where
  "moveToDeadLetter isof uuid now sourceQueue job err s =
     (let i = dq_lastId s + 1
      in s\<lparr>dq_rows := row_ins (nat_str i) (dl_payload_of isof uuid now sourceQueue job err) (dq_rows s),
           dq_lastId := i\<rparr>)"

definition getEntry :: "string \<Rightarrow> dlq_sys \<Rightarrow> dl_entry option" where
  "getEntry dlqJobId s = map_option (normalizeEntry dlqJobId) (row_get (dq_rows s) dlqJobId)"

subsection \<open>Listing\<close>

record list_query =
  lq_cursor :: "string option"
  lq_limit :: "int option"
  lq_sourceQueue :: "queue_name option"
  lq_classification :: "classification option"
  lq_replayStatus :: "replay_status option"
  lq_from :: "string option"
  lq_to :: "string option"

definition encodeCursor :: "nat \<Rightarrow> string" where
  "encodeCursor off = b64_encode (map code (nat_str off))"

definition decodeCursor :: "string \<Rightarrow> rat" where
  "decodeCursor cursor =
     (case js_number (map char_of (b64_decode cursor)) of
        Fin q \<Rightarrow> if 0 \<le> q then q else 0
      | _ \<Rightarrow> 0)"

definition list_limit :: "list_query \<Rightarrow> nat" where
  "list_limit query = nat (min (max (nullish (lq_limit query) 20) 1) 100)"

definition parse_bound :: "(string \<Rightarrow> jsnum) \<Rightarrow> string option \<Rightarrow> jsnum option" where
  "parse_bound dparse x = (case x of None \<Rightarrow> None | Some t \<Rightarrow> if t = [] then None else Some (dparse t))"

definition matches_query :: "(string \<Rightarrow> jsnum) \<Rightarrow> list_query \<Rightarrow> dl_entry \<Rightarrow> bool" where
  "matches_query dparse query e \<longleftrightarrow>
     (case lq_sourceQueue query of None \<Rightarrow> True | Some q \<Rightarrow> de_sourceQueue e = q) \<and>
     (case lq_classification query of None \<Rightarrow> True | Some c \<Rightarrow> de_classification e = c) \<and>
     (case lq_replayStatus query of None \<Rightarrow> True | Some st \<Rightarrow> de_replayStatus e = st) \<and>
     (case parse_bound dparse (lq_from query) of None \<Rightarrow> True
      | Some f \<Rightarrow> \<not> num_less (dparse (de_movedAt e)) f) \<and>
     (case parse_bound dparse (lq_to query) of None \<Rightarrow> True
      | Some t \<Rightarrow> \<not> num_less t (dparse (de_movedAt e)))"

text \<open>One window: push the matches until the limit is reached.\<close>

fun collect :: "('e \<Rightarrow> bool) \<Rightarrow> nat \<Rightarrow> 'e list \<Rightarrow> 'e list \<Rightarrow> 'e list" where
  "collect P n [] acc = acc"
| "collect P n (e # es) acc =
     (if P e then (if length (acc @ [e]) \<ge> n then acc @ [e] else collect P n es (acc @ [e]))
      else collect P n es acc)"

text \<open>The scan: at most so many windows; the entries, the new offset, whether the last window was full.\<close>

fun list_scan :: "('e \<Rightarrow> bool) \<Rightarrow> nat \<Rightarrow> 'e list \<Rightarrow> nat \<Rightarrow> nat \<Rightarrow> bool \<Rightarrow> 'e list \<Rightarrow> 'e list \<times> nat \<times> bool" where
  "list_scan P n es 0 off full acc = (acc, off, full)"
| "list_scan P n es (Suc w) off full acc =
     (let jobs = window off LIST_SCAN_WINDOW es;
          full' = (length jobs = LIST_SCAN_WINDOW);
          off' = off + length jobs;
          acc' = collect P n jobs acc
      in if length acc' \<ge> n \<or> jobs = [] then (acc', off', full')
         else list_scan P n es w off' full' acc')"

definition dlq_entries :: "dlq_sys \<Rightarrow> dl_entry list" where
  "dlq_entries s = map (\<lambda>(i, p). normalizeEntry i p) (dq_rows s)"

definition list_from :: "(string \<Rightarrow> jsnum) \<Rightarrow> list_query \<Rightarrow> nat \<Rightarrow> dlq_sys \<Rightarrow> dl_entry list \<times> string option" where
  "list_from dparse query start s =
     (let n = list_limit query;
          (es, off, full) = list_scan (matches_query dparse query) n (dlq_entries s) 20 start False []
      in (es, if full \<or> length es \<ge> n then Some (encodeCursor off) else None))"

text \<open>\<open>None\<close>: the queue refuses an offset that is no integer.\<close>

definition listEntries :: "(string \<Rightarrow> jsnum) \<Rightarrow> list_query \<Rightarrow> dlq_sys \<Rightarrow> (dl_entry list \<times> string option) option" where
  "listEntries dparse query s =
     (let start = (case lq_cursor query of None \<Rightarrow> 0 | Some c \<Rightarrow> if c = [] then 0 else decodeCursor c)
      in if of_int \<lfloor>start\<rfloor> = start then Some (list_from dparse query (nat \<lfloor>start\<rfloor>) s) else None)"

subsection \<open>The replay lock\<close>

definition lock_live :: "int \<Rightarrow> string \<Rightarrow> dlq_sys \<Rightarrow> string option" where
  "lock_live now k s = (case dq_locks s k of
      None \<Rightarrow> None
    | Some (v, e) \<Rightarrow> if now < e then Some v else None)"

definition dlqLockAcquire :: "int \<Rightarrow> string \<Rightarrow> string \<Rightarrow> int \<Rightarrow> dlq_sys \<Rightarrow> dlq_sys \<times> nat" where
  "dlqLockAcquire now k v px s =
     (if lock_live now k s = None then (s\<lparr>dq_locks := (dq_locks s)(k \<mapsto> (v, now + px))\<rparr>, 1) else (s, 0))"

definition dlqLockRelease :: "int \<Rightarrow> string \<Rightarrow> string \<Rightarrow> dlq_sys \<Rightarrow> dlq_sys \<times> nat" where
  "dlqLockRelease now k v s =
     (if lock_live now k s = Some v then (s\<lparr>dq_locks := (dq_locks s)(k := None)\<rparr>, 1) else (s, 0))"

definition lock_key :: "string \<Rightarrow> string" where
  "lock_key dlqJobId = ''dead-letter:replay-lock:'' @ dlqJobId"

datatype dlq_result = Done dl_entry | Rejected string

text \<open>\<open>t0\<close> is the time the lock is asked for, \<open>t1\<close> the time the section ends.\<close>

definition withReplayLock ::
  "int \<Rightarrow> int \<Rightarrow> string \<Rightarrow> string \<Rightarrow> (dlq_sys \<Rightarrow> dlq_sys \<times> dlq_result) \<Rightarrow> dlq_sys \<Rightarrow> dlq_sys \<times> dlq_result" where
  "withReplayLock t0 t1 uuid dlqJobId body s =
     (case dlqLockAcquire t0 (lock_key dlqJobId) uuid REPLAY_LOCK_TTL_MS s of (s1, acquired) \<Rightarrow>
        if acquired \<noteq> 1 then (s1, Rejected ''another replay for this entry is already in progress'')
        else (case body s1 of (s2, r) \<Rightarrow> (fst (dlqLockRelease t1 (lock_key dlqJobId) uuid s2), r)))"

subsection \<open>Replay and dismissal\<close>

definition put_payload :: "string \<Rightarrow> dl_payload \<Rightarrow> dlq_sys \<Rightarrow> dlq_sys" where
  "put_payload i p s = s\<lparr>dq_rows := row_put i p (dq_rows s)\<rparr>"

fun has_source_queue :: "queue_name \<Rightarrow> bool" where
  "has_source_queue ORACLE_SIGNING = True"
| "has_source_queue IPFS_PINNING = True"
| "has_source_queue NOTIFICATIONS = True"
| "has_source_queue _ = False"

definition recordReplayFailure :: "(int \<Rightarrow> string) \<Rightarrow> int \<Rightarrow> string \<Rightarrow> dl_payload \<Rightarrow> string \<Rightarrow> dlq_sys \<Rightarrow> dlq_sys" where
  "recordReplayFailure isof now i p failure s =
     put_payload i (p\<lparr>dl_lastReplayError := Some failure, dl_lastReplayAttemptAt := Some (isof now)\<rparr>) s"

text \<open>The first half of a replay: what the checks decide on the entry they read.\<close>

datatype replay_plan = PlanReject string | PlanFail dl_payload string | PlanRetry dl_payload

definition already :: "replay_status \<Rightarrow> string" where
  "already st = ''entry is already '' @ to_lower (status_str st)"

definition plan_replay :: "(jval \<Rightarrow> string) \<Rightarrow> string \<Rightarrow> dlq_sys \<Rightarrow> replay_plan" where
  "plan_replay str dlqJobId s =
     (case row_get (dq_rows s) dlqJobId of
        None \<Rightarrow> PlanReject ''dead-letter entry not found''
      | Some p \<Rightarrow>
          (let e = normalizeEntry dlqJobId p
           in if de_replayStatus e \<noteq> OPEN then PlanReject (already (de_replayStatus e))
              else if \<not> has_source_queue (de_sourceQueue e)
              then PlanReject (''replay is not supported for source queue '' @ dq (queue_str (de_sourceQueue e)))
              else case dq_src s (de_sourceQueue e) (job_id_str (de_jobId e)) of
                None \<Rightarrow> PlanFail p ''source job no longer exists in its source queue''
              | Some j \<Rightarrow>
                  (case validateSourceJobData str (de_sourceQueue e) (sj_data j) of
                     Some why \<Rightarrow> PlanFail p (''source job failed schema validation: '' @ why)
                   | None \<Rightarrow>
                       if sj_state j \<noteq> ''failed''
                       then PlanFail p (''source job is in state '' @ dq (sj_state j) @ '', not ''
                              @ dq ''failed'' @ '' - not replayable'')
                       else PlanRetry p)))"

text \<open>
  \<open>job.retry('failed')\<close> puts a failed job back to waiting and is refused for a job in any other
  state; it may be refused for other reasons (\<open>fault\<close>). \<open>refusal\<close> is the message thrown.
\<close>

definition retry_job :: "bool \<Rightarrow> queue_name \<Rightarrow> string \<Rightarrow> dlq_sys \<Rightarrow> dlq_sys option" where
  "retry_job fault q i s =
     (case dq_src s q i of
        None \<Rightarrow> None
      | Some j \<Rightarrow> if fault \<or> sj_state j \<noteq> ''failed'' then None
                 else Some (s\<lparr>dq_src := (dq_src s)(q := (dq_src s q)(i \<mapsto> j\<lparr>sj_state := ''waiting''\<rparr>))\<rparr>))"

definition replayed_payload :: "string \<Rightarrow> string \<Rightarrow> string \<Rightarrow> dl_payload \<Rightarrow> dl_payload" where
  "replayed_payload now actorId reason p =
     p\<lparr>dl_replayStatus := Some REPLAYED, dl_replayedAt := Some now, dl_replayedBy := Some actorId,
       dl_replayReason := Some reason, dl_lastReplayError := None, dl_lastReplayAttemptAt := Some now\<rparr>"

text \<open>The second half: retry the source job and write the entry, from the payload read before.\<close>

definition finish_replay ::
  "(int \<Rightarrow> string) \<Rightarrow> int \<Rightarrow> bool \<Rightarrow> string \<Rightarrow> string \<Rightarrow> string \<Rightarrow> string \<Rightarrow> replay_plan \<Rightarrow> dlq_sys \<Rightarrow> dlq_sys \<times> dlq_result" where
  "finish_replay isof now fault refusal dlqJobId actorId reason plan s = (case plan of
      PlanReject why \<Rightarrow> (s, Rejected why)
    | PlanFail p failure \<Rightarrow> (recordReplayFailure isof now dlqJobId p failure s, Rejected failure)
    | PlanRetry p \<Rightarrow>
        (case retry_job fault (dl_sourceQueue p) (job_id_str (dl_jobId p)) s of
           None \<Rightarrow> (recordReplayFailure isof now dlqJobId p (''retry() rejected: '' @ refusal) s,
                    Rejected (''retry() rejected: '' @ refusal))
         | Some s' \<Rightarrow>
             (let p' = replayed_payload (isof now) actorId reason p
              in (put_payload dlqJobId p' s', Done (normalizeEntry dlqJobId p')))))"

definition doReplay ::
  "(int \<Rightarrow> string) \<Rightarrow> (jval \<Rightarrow> string) \<Rightarrow> int \<Rightarrow> bool \<Rightarrow> string \<Rightarrow> string \<Rightarrow> string \<Rightarrow> string \<Rightarrow> dlq_sys \<Rightarrow> dlq_sys \<times> dlq_result" where
  "doReplay isof str now fault refusal dlqJobId actorId reason s =
     finish_replay isof now fault refusal dlqJobId actorId reason (plan_replay str dlqJobId s) s"

definition replayEntry ::
  "(int \<Rightarrow> string) \<Rightarrow> (jval \<Rightarrow> string) \<Rightarrow> int \<Rightarrow> int \<Rightarrow> string \<Rightarrow> bool \<Rightarrow> string \<Rightarrow> string \<Rightarrow> string \<Rightarrow> string
   \<Rightarrow> dlq_sys \<Rightarrow> dlq_sys \<times> dlq_result" where
  "replayEntry isof str t0 t1 uuid fault refusal dlqJobId actorId reason =
     withReplayLock t0 t1 uuid dlqJobId (doReplay isof str t1 fault refusal dlqJobId actorId reason)"

definition plan_dismiss :: "string \<Rightarrow> dlq_sys \<Rightarrow> string + dl_payload" where
  "plan_dismiss dlqJobId s =
     (case row_get (dq_rows s) dlqJobId of
        None \<Rightarrow> Inl ''dead-letter entry not found''
      | Some p \<Rightarrow>
          (let e = normalizeEntry dlqJobId p
           in if de_replayStatus e \<noteq> OPEN then Inl (already (de_replayStatus e)) else Inr p))"

definition dismissed_payload :: "string \<Rightarrow> string \<Rightarrow> string \<Rightarrow> dl_payload \<Rightarrow> dl_payload" where
  "dismissed_payload now actorId reason p =
     p\<lparr>dl_replayStatus := Some DISMISSED, dl_dismissedAt := Some now, dl_dismissedBy := Some actorId,
       dl_dismissReason := Some reason\<rparr>"

definition finish_dismiss ::
  "(int \<Rightarrow> string) \<Rightarrow> int \<Rightarrow> string \<Rightarrow> string \<Rightarrow> string \<Rightarrow> string + dl_payload \<Rightarrow> dlq_sys \<Rightarrow> dlq_sys \<times> dlq_result" where
  "finish_dismiss isof now dlqJobId actorId reason plan s = (case plan of
      Inl why \<Rightarrow> (s, Rejected why)
    | Inr p \<Rightarrow>
        (let p' = dismissed_payload (isof now) actorId reason p
         in (put_payload dlqJobId p' s, Done (normalizeEntry dlqJobId p'))))"

definition dismissEntry ::
  "(int \<Rightarrow> string) \<Rightarrow> int \<Rightarrow> string \<Rightarrow> string \<Rightarrow> string \<Rightarrow> dlq_sys \<Rightarrow> dlq_sys \<times> dlq_result" where
  "dismissEntry isof now dlqJobId actorId reason s =
     finish_dismiss isof now dlqJobId actorId reason (plan_dismiss dlqJobId s) s"

subsection \<open>Retention\<close>

definition day_ms :: int where "day_ms = 24 * 60 * 60 * 1000"

definition should_remove :: "(string \<Rightarrow> jsnum) \<Rightarrow> int \<Rightarrow> string \<times> dl_payload \<Rightarrow> bool" where
  "should_remove dparse now job =
     (let e = normalizeEntry (fst job) (snd job);
          ts = dparse (if de_replayStatus e = REPLAYED then nullish (de_replayedAt e) (de_movedAt e)
                       else if de_replayStatus e = DISMISSED then nullish (de_dismissedAt e) (de_movedAt e)
                       else de_movedAt e)
      in de_replayStatus e = REPLAYED \<and> num_less ts (int_num (now - REPLAYED_RETENTION_DAYS * day_ms))
       \<or> de_replayStatus e = DISMISSED \<and> num_less ts (int_num (now - DISMISSED_RETENTION_DAYS * day_ms)))"

text \<open>
  The loop of the cleanup, with fuel: \<open>None\<close> when it has not ended after so many rounds.
  The offset is never advanced. The result is the queue and the number of removed jobs.
\<close>

fun cleanup_loop :: "(string \<times> 'j \<Rightarrow> bool) \<Rightarrow> nat \<Rightarrow> (string \<times> 'j) list \<Rightarrow> nat \<Rightarrow> ((string \<times> 'j) list \<times> nat) option" where
  "cleanup_loop rm 0 rows removed = None"
| "cleanup_loop rm (Suc fuel) rows removed =
     (let jobs = window 0 200 rows
      in if jobs = [] then Some (rows, removed)
         else
           (let gone = filter rm jobs;
                rows' = foldl (\<lambda>t k. row_del k t) rows (map fst gone);
                removed' = removed + length gone
            in if length jobs < 200 then Some (rows', removed')
               else cleanup_loop rm fuel rows' removed'))"

subsection \<open>Depth metrics\<close>

record dlq_metrics =
  mt_queue :: "(queue_name \<times> nat) list"            \<comment> \<open>in the order of first use\<close>
  mt_class :: "(classification \<times> nat) list"
  mt_oldestOpen :: "jsnum option"
  mt_openCount :: nat

fun bump :: "'k \<Rightarrow> ('k \<times> nat) list \<Rightarrow> ('k \<times> nat) list" where
  "bump k [] = [(k, 1)]"
| "bump k ((j, n) # m) = (if j = k then (j, n + 1) # m else (j, n) # bump k m)"

definition metrics_init :: dlq_metrics where
  "metrics_init = \<lparr>mt_queue = [], mt_class = [], mt_oldestOpen = None, mt_openCount = 0\<rparr>"

definition metrics_entry :: "(string \<Rightarrow> jsnum) \<Rightarrow> dlq_metrics \<Rightarrow> dl_entry \<Rightarrow> dlq_metrics" where
  "metrics_entry dparse m e =
     (let m' = m\<lparr>mt_queue := bump (de_sourceQueue e) (mt_queue m),
                 mt_class := bump (de_classification e) (mt_class m)\<rparr>
      in if de_replayStatus e = OPEN then
           (let t = dparse (de_movedAt e)
            in m'\<lparr>mt_openCount := mt_openCount m' + 1,
                  mt_oldestOpen := (case mt_oldestOpen m' of
                      None \<Rightarrow> Some t
                    | Some old \<Rightarrow> if num_less t old then Some t else Some old)\<rparr>)
         else m')"

function metrics_scan :: "(string \<Rightarrow> jsnum) \<Rightarrow> dl_entry list \<Rightarrow> nat \<Rightarrow> dlq_metrics \<Rightarrow> dlq_metrics" where
  "metrics_scan dparse es off m =
     (let jobs = window off LIST_SCAN_WINDOW es
      in if jobs = [] then m
         else
           (let m' = foldl (metrics_entry dparse) m jobs
            in if length jobs < LIST_SCAN_WINDOW then m'
               else metrics_scan dparse es (off + length jobs) m'))"
  by pat_completeness auto
termination
  by (relation "measure (\<lambda>(dparse, es, off, m). length es - off)")
    (auto simp: LIST_SCAN_WINDOW_def window_def)

declare metrics_scan.simps [simp del]

text \<open>The metrics, the age in seconds of the oldest open entry, and whether a warning is logged.\<close>

definition open_age :: "int \<Rightarrow> jsnum option \<Rightarrow> jsnum" where
  "open_age now x = (case x of
      None \<Rightarrow> Fin 0
    | Some (Fin t) \<Rightarrow> Fin (of_int \<lfloor>(of_int now - t) / 1000\<rfloor>)
    | Some PInf \<Rightarrow> NInf
    | Some NInf \<Rightarrow> PInf
    | Some NaN \<Rightarrow> NaN)"

definition emitDepthMetrics :: "(string \<Rightarrow> jsnum) \<Rightarrow> int \<Rightarrow> dlq_sys \<Rightarrow> dlq_metrics \<times> jsnum \<times> bool" where
  "emitDepthMetrics dparse now s =
     (let m = metrics_scan dparse (dlq_entries s) 0 metrics_init;
          age = open_age now (mt_oldestOpen m)
      in (m, age, num_less (int_num (STALE_OPEN_WARNING_DAYS * 24 * 60 * 60)) age))"

definition cleanupExpiredEntries ::
  "(string \<Rightarrow> jsnum) \<Rightarrow> nat \<Rightarrow> int \<Rightarrow> dlq_sys \<Rightarrow> (dlq_sys \<times> nat \<times> dlq_metrics \<times> jsnum \<times> bool) option" where
  "cleanupExpiredEntries dparse fuel now s =
     (case cleanup_loop (should_remove dparse now) fuel (dq_rows s) 0 of
        None \<Rightarrow> None
      | Some (rows, removed) \<Rightarrow>
          (let s' = s\<lparr>dq_rows := rows\<rparr> in Some (s', removed, emitDepthMetrics dparse now s')))"

subsection \<open>The handlers of the controller\<close>

definition getDeadLetterEntry :: "string \<Rightarrow> dlq_sys \<Rightarrow> http_exception + dl_entry" where
  "getDeadLetterEntry i s = (case getEntry i s of
      None \<Rightarrow> Inl (rejectionToHttpException (''dead-letter entry not found: '' @ i))
    | Some e \<Rightarrow> Inr e)"

definition handler_reply :: "dlq_result \<Rightarrow> http_exception + dl_entry" where
  "handler_reply r = (case r of Rejected why \<Rightarrow> Inl (rejectionToHttpException why) | Done e \<Rightarrow> Inr e)"

subsection \<open>Lemmas: scanning\<close>

lemma collect_take: "length acc < n \<Longrightarrow> collect P n es acc = take n (acc @ filter P es)"
proof (induction es arbitrary: acc)
  case Nil
  then show ?case by simp
next
  case (Cons e es)
  show ?case
  proof (cases "P e \<and> length acc + 1 = n")
    case True
    then show ?thesis by (auto simp: take_Cons')
  next
    case False
    with Cons.prems Cons.IH [of "acc @ [e]"] Cons.IH [of acc] show ?thesis by auto
  qed
qed

lemma collect_shorter:
  "length acc < n \<Longrightarrow> length (collect P n es acc) < n \<Longrightarrow> collect P n es acc = acc @ filter P es"
  by (auto simp: collect_take)

lemma list_scan_Suc:
  "list_scan P n es (Suc w) off full acc =
     (if length (collect P n (window off LIST_SCAN_WINDOW es) acc) \<ge> n \<or> window off LIST_SCAN_WINDOW es = []
      then (collect P n (window off LIST_SCAN_WINDOW es) acc,
            off + length (window off LIST_SCAN_WINDOW es), length (window off LIST_SCAN_WINDOW es) = LIST_SCAN_WINDOW)
      else list_scan P n es w (off + length (window off LIST_SCAN_WINDOW es))
        (length (window off LIST_SCAN_WINDOW es) = LIST_SCAN_WINDOW)
        (collect P n (window off LIST_SCAN_WINDOW es) acc))"
  by (simp only: list_scan.simps Let_def)

declare list_scan.simps(2) [simp del]

text \<open>
  What a scan returns: the first \<open>n\<close> matches of the jobs it passed; it passed none it could not
  have read; and when it stops short of the limit it has seen a last, partial window or all
  its windows.
\<close>

lemma list_scan_spec:
  assumes "list_scan P n es w off full acc = (acc', off', full')" and "length acc < n"
  shows "acc' = take n (acc @ filter P (window off (off' - off) es)) \<and> off \<le> off'"
  using assms
proof (induction w arbitrary: off full acc)
  case 0
  then show ?case by (auto simp: window_def)
next
  case (Suc w)
  define jobs where "jobs = window off LIST_SCAN_WINDOW es"
  define acc1 where "acc1 = collect P n jobs acc"
  have jobs': "jobs = window off (length jobs) es"
    unfolding jobs_def by (rule window_self [symmetric])
  show ?case
  proof (cases "length acc1 \<ge> n \<or> jobs = []")
    case True
    with Suc.prems(1) have "acc' = acc1" "off' = off + length jobs"
      by (auto simp: list_scan_Suc jobs_def [symmetric] acc1_def [symmetric] simp del: length_window)
    then show ?thesis using collect_take [OF Suc.prems(2), of P jobs] jobs' by (simp add: acc1_def)
  next
    case False
    with Suc.prems(1) have rec: "list_scan P n es w (off + length jobs) (length jobs = LIST_SCAN_WINDOW) acc1
        = (acc', off', full')"
      by (auto simp: list_scan_Suc jobs_def [symmetric] acc1_def [symmetric] simp del: length_window)
    have acc1: "acc1 = acc @ filter P jobs" using False Suc.prems(2) collect_shorter unfolding acc1_def by force
    from Suc.IH [OF rec] False
    have ih: "acc' = take n (acc1 @ filter P (window (off + length jobs) (off' - (off + length jobs)) es))"
      "off + length jobs \<le> off'" by auto
    have "window off (off' - off) es
        = jobs @ window (off + length jobs) (off' - (off + length jobs)) es"
      using ih(2) window_append [of off "length jobs" es "off' - (off + length jobs)"] jobs' by simp
    then show ?thesis using ih acc1 by simp
  qed
qed

lemma list_scan_end:
  assumes "list_scan P n es (Suc w) off full acc = (acc', off', False)" and "length acc < n"
    and "length acc' < n"
  shows "length es \<le> off'"
  using assms
proof (induction w arbitrary: off full acc)
  case 0
  then show ?case by (auto simp: list_scan_Suc LIST_SCAN_WINDOW_def split: if_splits)
next
  case (Suc w)
  define jobs where "jobs = window off LIST_SCAN_WINDOW es"
  define acc1 where "acc1 = collect P n jobs acc"
  note unf = Suc.prems(1) [unfolded list_scan_Suc [of P n es "Suc w"], folded jobs_def, folded acc1_def]
  show ?case
  proof (cases "length acc1 \<ge> n \<or> jobs = []")
    case True
    with unf have "off' = off + length jobs" "length jobs < LIST_SCAN_WINDOW"
      unfolding jobs_def by (auto split: if_splits)
    then show ?thesis unfolding jobs_def by auto
  next
    case False
    with unf have "list_scan P n es (Suc w) (off + length jobs) (length jobs = LIST_SCAN_WINDOW) acc1
        = (acc', off', False)"
      by simp
    from Suc.IH [OF this] False Suc.prems(3) show ?thesis by simp
  qed
qed

lemma metrics_scan_fold:
  "metrics_scan dparse es off m = foldl (metrics_entry dparse) m (drop off es)"
proof (induction dparse es off m rule: metrics_scan.induct)
  case (1 dparse es off m)
  define jobs where "jobs = window off LIST_SCAN_WINDOW es"
  define m' where "m' = foldl (metrics_entry dparse) m jobs"
  note eq = metrics_scan.simps [of dparse es off m, unfolded Let_def, folded jobs_def, folded m'_def]
  note ih = 1 [OF refl _ refl, folded jobs_def, folded m'_def]
  have d: "drop off es = jobs @ drop (off + length jobs) es"
    unfolding jobs_def by (rule window_drop [symmetric])
  show ?case
  proof (cases "length jobs < LIST_SCAN_WINDOW")
    case True
    then have "drop off es = jobs" by (simp add: jobs_def window_def)
    then show ?thesis using True by (cases "jobs = []") (simp_all add: eq m'_def)
  next
    case False
    then have "jobs \<noteq> []" by (auto simp: LIST_SCAN_WINDOW_def)
    then have "metrics_scan dparse es off m = metrics_scan dparse es (off + length jobs) m'"
      using False by (simp only: eq if_False)
    also have "\<dots> = foldl (metrics_entry dparse) m' (drop (off + length jobs) es)"
      using \<open>jobs \<noteq> []\<close> False by (rule ih)
    finally show ?thesis by (simp add: d m'_def)
  qed
qed

subsection \<open>Lemmas: retention\<close>

lemma foldl_row_del: "foldl (\<lambda>t k. row_del k t) rows ks = filter (\<lambda>e. fst e \<notin> set ks) rows"
  by (induction ks arbitrary: rows) (auto simp: row_del_def intro!: filter_cong)

lemma rows_wf_filter: "rows_wf rows \<Longrightarrow> rows_wf (filter P rows)"
  by (simp add: rows_wf_def distinct_map_filter)

text \<open>One round removes what is due among the first 200 jobs and nothing else.\<close>

lemma cleanup_round:
  assumes "rows_wf rows"
  shows "foldl (\<lambda>t k. row_del k t) rows (map fst (filter rm (window 0 200 rows)))
    = filter (\<lambda>j. \<not> rm j) (take 200 rows) @ drop 200 rows"
proof -
  let ?gone = "fst ` {e \<in> set (take 200 rows). rm e}"
  have inj: "inj_on fst (set rows)" and dis: "distinct rows"
    using assms by (auto simp: rows_wf_def distinct_map)
  have take: "fst e \<in> ?gone \<longleftrightarrow> rm e" if "e \<in> set (take 200 rows)" for e
    using that inj_onD [OF inj] in_set_takeD [of _ 200 rows] by blast
  have drop: "fst e \<notin> ?gone" if "e \<in> set (drop 200 rows)" for e
  proof -
    have "set (take 200 rows) \<inter> set (drop 200 rows) = {}"
      using dis by (rule set_take_disj_set_drop_if_distinct) simp
    then show ?thesis
      using that inj_onD [OF inj] in_set_takeD [of _ 200 rows] in_set_dropD [of _ 200 rows] by blast
  qed
  have "filter (\<lambda>e. fst e \<notin> ?gone) (take 200 rows) = filter (\<lambda>j. \<not> rm j) (take 200 rows)"
    by (rule filter_cong [OF refl]) (simp only: take)
  moreover have "filter (\<lambda>e. fst e \<notin> ?gone) (drop 200 rows) = drop 200 rows"
    using drop by (simp only: filter_id_conv) blast
  ultimately have "filter (\<lambda>e. fst e \<notin> ?gone) (take 200 rows @ drop 200 rows)
      = filter (\<lambda>j. \<not> rm j) (take 200 rows) @ drop 200 rows"
    by (simp only: filter_append)
  then show ?thesis by (simp add: foldl_row_del window_def)
qed

text \<open>The queue after one round, with what the further rounds need.\<close>

definition after_round :: "(string \<times> 'j \<Rightarrow> bool) \<Rightarrow> (string \<times> 'j) list \<Rightarrow> (string \<times> 'j) list" where
  "after_round rm rows = filter (\<lambda>j. \<not> rm j) (take 200 rows) @ drop 200 rows"

lemma after_round_kept: "filter (\<lambda>j. \<not> rm j) (after_round rm rows) = filter (\<lambda>j. \<not> rm j) rows"
  by (simp add: after_round_def) (metis append_take_drop_id filter_append)

lemma after_round_gone:
  "length (filter rm (take 200 rows)) + length (filter rm (after_round rm rows)) = length (filter rm rows)"
proof -
  have "filter rm rows = filter rm (take 200 rows) @ filter rm (drop 200 rows)"
    by (metis append_take_drop_id filter_append)
  then show ?thesis by (simp add: after_round_def)
qed

lemma after_round_wf: "rows_wf rows \<Longrightarrow> rows_wf (after_round rm rows)"
  using cleanup_round [of rows rm] rows_wf_filter [of rows]
  unfolding after_round_def foldl_row_del by metis

lemma length_after_round: "length (after_round rm rows) + length (filter rm (take 200 rows)) = length rows"
  using length_filter_split [of rm "take 200 rows"] by (simp add: after_round_def)

lemma cleanup_loop_Suc:
  assumes "rows_wf rows"
  shows "cleanup_loop rm (Suc fuel) rows n =
    (if length rows < 200 then Some (filter (\<lambda>j. \<not> rm j) rows, n + length (filter rm rows))
     else cleanup_loop rm fuel (after_round rm rows) (n + length (filter rm (take 200 rows))))"
proof (cases "rows = []")
  case False
  then have "window 0 200 rows \<noteq> []" by (simp add: window_def)
  then show ?thesis
    by (simp add: Let_def cleanup_round [OF assms] after_round_def [symmetric])
      (auto simp: after_round_def window_def)
qed (simp add: window_def)

declare cleanup_loop.simps(2) [simp del]

lemma cleanup_loop_done:
  "rows_wf rows \<Longrightarrow> length (filter (\<lambda>j. \<not> rm j) rows) < 200 \<Longrightarrow> length rows < fuel \<Longrightarrow>
   cleanup_loop rm fuel rows n = Some (filter (\<lambda>j. \<not> rm j) rows, n + length (filter rm rows))"
proof (induction fuel arbitrary: rows n)
  case 0
  then show ?case by simp
next
  case (Suc fuel)
  show ?case
  proof (cases "length rows < 200")
    case True
    then show ?thesis using Suc.prems(1) by (simp add: cleanup_loop_Suc)
  next
    case False
    have "filter (\<lambda>j. \<not> rm j) rows
        = filter (\<lambda>j. \<not> rm j) (take 200 rows) @ filter (\<lambda>j. \<not> rm j) (drop 200 rows)"
      by (metis append_take_drop_id filter_append)
    then have "length (filter (\<lambda>j. \<not> rm j) (take 200 rows)) < 200" using Suc.prems(2) by simp
    then have "0 < length (filter rm (take 200 rows))"
      using length_filter_split [of rm "take 200 rows"] False by (simp del: length_greater_0_conv)
    then have "length (after_round rm rows) < fuel"
      using length_after_round [of rm rows] Suc.prems(3) by linarith
    then have "cleanup_loop rm fuel (after_round rm rows) (n + length (filter rm (take 200 rows)))
        = Some (filter (\<lambda>j. \<not> rm j) rows, n + length (filter rm (take 200 rows)) + length (filter rm (after_round rm rows)))"
      using Suc.IH [of "after_round rm rows"] Suc.prems after_round_wf [OF Suc.prems(1), of rm] by (simp add: after_round_kept)
    then show ?thesis
      using False Suc.prems(1) after_round_gone [of rm rows]
      by (simp add: cleanup_loop_Suc)
  qed
qed

lemma cleanup_loop_stuck:
  "rows_wf rows \<Longrightarrow> 200 \<le> length (filter (\<lambda>j. \<not> rm j) rows) \<Longrightarrow> cleanup_loop rm fuel rows n = None"
proof (induction fuel arbitrary: rows n)
  case 0
  then show ?case by simp
next
  case (Suc fuel)
  then have "\<not> length rows < 200"
    using length_filter_le [of "\<lambda>j. \<not> rm j" rows] by linarith
  then show ?case
    using Suc by (simp add: cleanup_loop_Suc after_round_wf after_round_kept)
qed

subsection \<open>Lemmas: one entry under the calls\<close>

lemma row_get_put: "row_get (row_put k r q) j = (if j = k \<and> row_get q k \<noteq> None then Some r else row_get q j)"
  by (simp add: row_get_def map_of_row_put)

lemma row_get_put_payload:
  "row_get (dq_rows (put_payload k r s)) j =
    (if j = k \<and> row_get (dq_rows s) k \<noteq> None then Some r else row_get (dq_rows s) j)"
  by (simp add: put_payload_def row_get_put)


definition row_status :: "dl_payload \<Rightarrow> replay_status" where
  "row_status p = nullish (dl_replayStatus p) OPEN"


lemma entry_status [simp]: "de_replayStatus (normalizeEntry i p) = row_status p"
  by (simp add: normalizeEntry_def row_status_def)

lemma entry_source [simp]: "de_sourceQueue (normalizeEntry i p) = dl_sourceQueue p"
  "de_jobId (normalizeEntry i p) = dl_jobId p"
  by (simp_all add: normalizeEntry_def)

lemma row_status_updates [simp]:
  "row_status (p\<lparr>dl_lastReplayError := e, dl_lastReplayAttemptAt := t\<rparr>) = row_status p"
  "row_status (replayed_payload now actor reason p) = REPLAYED"
  "row_status (dismissed_payload now actor reason p) = DISMISSED"
  by (simp_all add: row_status_def replayed_payload_def dismissed_payload_def)

lemma locks_rows [simp]:
  "dq_rows (fst (dlqLockAcquire t k v px s)) = dq_rows s"
  "dq_src (fst (dlqLockAcquire t k v px s)) = dq_src s"
  "dq_rows (fst (dlqLockRelease t k v s)) = dq_rows s"
  "dq_src (fst (dlqLockRelease t k v s)) = dq_src s"
  by (simp_all add: dlqLockAcquire_def dlqLockRelease_def)

lemma put_payload_src [simp]: "dq_src (put_payload k r s) = dq_src s" "dq_locks (put_payload k r s) = dq_locks s"
  by (simp_all add: put_payload_def)

lemma recordReplayFailure_src [simp]:
  "dq_src (recordReplayFailure isof now k r f s) = dq_src s"
  by (simp add: recordReplayFailure_def)


lemma plan_PlanRetry:
  "plan_replay str i s = PlanRetry p \<Longrightarrow> row_get (dq_rows s) i = Some p \<and> row_status p = OPEN \<and>
     (\<exists>j. dq_src s (dl_sourceQueue p) (job_id_str (dl_jobId p)) = Some j \<and>
          validateSourceJobData str (dl_sourceQueue p) (sj_data j) = None \<and> sj_state j = ''failed'')"
  by (auto simp: plan_replay_def Let_def split: option.splits if_splits)

lemma plan_PlanFail:
  "plan_replay str i s = PlanFail p f \<Longrightarrow> row_get (dq_rows s) i = Some p \<and> row_status p = OPEN"
  by (auto simp: plan_replay_def Let_def split: option.splits if_splits)







subsection \<open>The calls as a machine\<close>




subsection \<open>Properties\<close>


definition demo_job :: src_job where
  "demo_job = \<lparr>sj_id = Some ''7'', sj_name = ''notify'', sj_data = JObj [(''notificationId'', JNum (Fin 3))],
     sj_attemptsMade = 5, sj_optsAttempts = Some 5, sj_failedReason = None, sj_stacktrace = None,
     sj_timestamp = 0, sj_state = ''failed''\<rparr>"

definition demo_dlq :: dlq_sys where
  "demo_dlq = \<lparr>dq_rows = [(''1'', dl_payload_of (\<lambda>_. ''t'') ''u'' 5 NOTIFICATIONS demo_job None)],
     dq_lastId = 1, dq_locks = Map.empty, dq_src = (\<lambda>q i. if i = ''7'' then Some demo_job else None)\<rparr>"

lemma demo_row: "row_get (dq_rows demo_dlq) ''1'' = Some (dl_payload_of (\<lambda>_. ''t'') ''u'' 5 NOTIFICATIONS demo_job None)"
  by (simp add: demo_dlq_def row_get_def)



text \<open>C4: a replay succeeds only for an open entry whose source job still exists, passes today's
  schema and is failed, and only when nobody holds the entry's lock; it then puts exactly that
  job back to waiting and marks the entry. A rejected replay changes no job of a source queue
  and no entry's status.\<close>

theorem dlq_replay_guarded:
  "case replayEntry isof str t0 t1 u fault ref i actor reason s of
     (s', Done e) \<Rightarrow> lock_live t0 (lock_key i) s = None \<and>
       (\<exists>p j. row_get (dq_rows s) i = Some p \<and> row_status p = OPEN \<and>
         dq_src s (dl_sourceQueue p) (job_id_str (dl_jobId p)) = Some j \<and>
         validateSourceJobData str (dl_sourceQueue p) (sj_data j) = None \<and> sj_state j = ''failed'' \<and>
         dq_src s' = (dq_src s)(dl_sourceQueue p :=
           (dq_src s (dl_sourceQueue p))(job_id_str (dl_jobId p) \<mapsto> j\<lparr>sj_state := ''waiting''\<rparr>)) \<and>
         row_get (dq_rows s') i = Some (replayed_payload (isof t1) actor reason p))
   | (s', Rejected why) \<Rightarrow> dq_src s' = dq_src s \<and>
       (\<forall>k. map_option row_status (row_get (dq_rows s') k) = map_option row_status (row_get (dq_rows s) k))"
proof (cases "lock_live t0 (lock_key i) s = None")
  case False
  then show ?thesis by (auto simp: replayEntry_def withReplayLock_def dlqLockAcquire_def)
next
  case True
  define s1 where "s1 = fst (dlqLockAcquire t0 (lock_key i) u REPLAY_LOCK_TTL_MS s)"
  have s1: "dq_rows s1 = dq_rows s" "dq_src s1 = dq_src s" by (simp_all add: s1_def)
  have run: "replayEntry isof str t0 t1 u fault ref i actor reason s =
     (case doReplay isof str t1 fault ref i actor reason s1 of
        (s2, r) \<Rightarrow> (fst (dlqLockRelease t1 (lock_key i) u s2), r))"
    using True by (simp add: replayEntry_def withReplayLock_def s1_def dlqLockAcquire_def)
  show ?thesis
  proof (cases "plan_replay str i s1")
    case (PlanReject why)
    then show ?thesis by (simp add: run doReplay_def finish_replay_def s1)
  next
    case (PlanFail p f)
    with plan_PlanFail [OF PlanFail] show ?thesis
      by (simp add: run doReplay_def finish_replay_def s1 recordReplayFailure_def row_get_put_payload)
  next
    case (PlanRetry p)
    from plan_PlanRetry [OF PlanRetry] obtain j where
      p: "row_get (dq_rows s) i = Some p" "row_status p = OPEN" and
      j: "dq_src s (dl_sourceQueue p) (job_id_str (dl_jobId p)) = Some j"
        "validateSourceJobData str (dl_sourceQueue p) (sj_data j) = None" "sj_state j = ''failed''"
      unfolding s1 by blast
    show ?thesis
    proof (cases fault)
      case True
      then show ?thesis unfolding run using PlanRetry p j
        by (simp add: doReplay_def finish_replay_def retry_job_def s1 recordReplayFailure_def
            row_get_put_payload)
    next
      case False
      then show ?thesis unfolding run using PlanRetry p j True
        by (simp add: doReplay_def finish_replay_def retry_job_def s1 row_get_put_payload Let_def)
    qed
  qed
qed

text \<open>C10: the retention cleanup, when it ends, has removed exactly the replayed and dismissed entries
  past their retention and kept every other entry in place; but it ends only when fewer than 200
  entries are to be kept: with 200 or more it never returns, however many rounds it is given.\<close>

theorem dlq_cleanup_exact:
  assumes "rows_wf (dq_rows s)"
  shows "if length (filter (\<lambda>j. \<not> should_remove dparse now j) (dq_rows s)) < 200
    then cleanupExpiredEntries dparse (length (dq_rows s) + 1 + extra) now s =
      (let s' = s\<lparr>dq_rows := filter (\<lambda>j. \<not> should_remove dparse now j) (dq_rows s)\<rparr>
       in Some (s', length (filter (should_remove dparse now) (dq_rows s)), emitDepthMetrics dparse now s'))
    else cleanupExpiredEntries dparse fuel now s = None"
  using cleanup_loop_done [OF assms, of "should_remove dparse now" "length (dq_rows s) + 1 + extra" 0]
    cleanup_loop_stuck [OF assms, of "should_remove dparse now" fuel 0]
  by (simp add: cleanupExpiredEntries_def Let_def)

lemma open_rows_wf: "rows_wf (map (\<lambda>n. (nat_str n, p)) [0..<k])"
  by (auto simp: rows_wf_def distinct_map comp_def inj_on_def nat_str_inject)

theorem dlq_cleanup_exact_witness:
  "\<forall>fuel now. cleanupExpiredEntries js_number fuel now (demo_dlq\<lparr>dq_rows :=
     map (\<lambda>n. (nat_str n, dl_payload_of (\<lambda>_. ''t'') ''u'' 5 NOTIFICATIONS demo_job None)) [0..<200]\<rparr>) = None
   \<and> cleanupExpiredEntries js_number 2 now demo_dlq = Some (demo_dlq, 0, emitDepthMetrics js_number now demo_dlq)"
proof (intro allI conjI)
  fix fuel now
  let ?p = "dl_payload_of (\<lambda>_. ''t'') ''u'' 5 NOTIFICATIONS demo_job None"
  let ?s = "demo_dlq\<lparr>dq_rows := map (\<lambda>n. (nat_str n, ?p)) [0..<200]\<rparr>"
  have open_p: "\<not> should_remove js_number now (k, ?p)" for k
    by (simp add: should_remove_def Let_def) (simp add: row_status_def dl_payload_of_def Let_def)
  have wf: "rows_wf (dq_rows ?s)" by (simp add: open_rows_wf)
  have "filter (\<lambda>j. \<not> should_remove js_number now j) (dq_rows ?s) = dq_rows ?s"
    by (rule filter_True) (use open_p in auto)
  then show "cleanupExpiredEntries js_number fuel now ?s = None"
    using dlq_cleanup_exact [OF wf, of js_number now 0 fuel] by (simp del: upt_rec_numeral)
  have wf': "rows_wf (dq_rows demo_dlq)" by (simp add: demo_dlq_def rows_wf_def)
  have rows: "filter (\<lambda>j. \<not> should_remove js_number now j) (dq_rows demo_dlq) = dq_rows demo_dlq"
    "filter (should_remove js_number now) (dq_rows demo_dlq) = []"
    using open_p by (simp_all add: demo_dlq_def)
  have "length (dq_rows demo_dlq) = 1" by (simp add: demo_dlq_def)
  then show "cleanupExpiredEntries js_number 2 now demo_dlq = Some (demo_dlq, 0, emitDepthMetrics js_number now demo_dlq)"
    using dlq_cleanup_exact [OF wf', of js_number now 0 0] rows by (simp add: Let_def numeral_2_eq_2)
qed

lemma map_code_char_of: "map char_of (map code cs) = cs"
  by (simp add: comp_def code_def)

lemma decode_encode_cursor [simp]: "decodeCursor (encodeCursor n) = of_nat n"
proof -
  have "\<forall>x \<in> set (map code (nat_str n)). x < 256" by (simp add: code_def of_char_def)
  then show ?thesis
    by (simp add: decodeCursor_def encodeCursor_def b64_decode_encode comp_def code_def)
qed

lemma encodeCursor_not_Nil [simp]: "encodeCursor n \<noteq> []"
  by (cases "map code (nat_str n)" rule: b64_encode.cases) (auto simp: encodeCursor_def)

lemma listEntries_at:
  "listEntries dparse (query\<lparr>lq_cursor := Some (encodeCursor start)\<rparr>) s =
     Some (list_from dparse (query\<lparr>lq_cursor := Some (encodeCursor start)\<rparr>) start s)"
  using exI [of "\<lambda>n. rat_of_nat start = rat_of_int n" "int start"] by (simp add: listEntries_def Let_def)

lemma list_limit_pos: "0 < list_limit query"
  by (simp add: list_limit_def)

lemma list_limit_cursor [simp]: "list_limit (query\<lparr>lq_cursor := c\<rparr>) = list_limit query"
  by (simp add: list_limit_def)

lemma matches_query_cursor [simp]: "matches_query dparse (query\<lparr>lq_cursor := c\<rparr>) = matches_query dparse query"
  by (simp add: matches_query_def fun_eq_iff)

text \<open>A page holds, in queue order, the first matches among the entries from its cursor up to the
  offset its next cursor stands for, no more than the limit; and when there is no next cursor the
  page is short of the limit and the scan has seen the end of the queue.\<close>

theorem dlq_page:
  "\<exists>es next off.
     listEntries dparse (query\<lparr>lq_cursor := Some (encodeCursor start)\<rparr>) s = Some (es, next) \<and> start \<le> off \<and>
     es = take (list_limit query)
       (filter (matches_query dparse query) (window start (off - start) (dlq_entries s))) \<and>
     (case next of Some c \<Rightarrow> decodeCursor c = of_nat off
      | None \<Rightarrow> length es < list_limit query \<and> length (dlq_entries s) \<le> off)"
proof -
  let ?P = "matches_query dparse query" and ?n = "list_limit query" and ?E = "dlq_entries s"
  obtain es off full where sc: "list_scan ?P ?n ?E 20 start False [] = (es, off, full)"
    by (metis prod_cases3)
  have spec: "es = take ?n (filter ?P (window start (off - start) ?E))" "start \<le> off"
    using list_scan_spec [OF sc] list_limit_pos [of query] by simp_all
  have "length ?E \<le> off" if "\<not> full" "length es < ?n"
  proof -
    have "list_scan ?P ?n ?E (Suc 19) start False [] = (es, off, False)" using sc that by simp
    from list_scan_end [OF this] show ?thesis using list_limit_pos [of query] that(2) by simp
  qed
  then show ?thesis
    using spec sc by (auto simp: listEntries_at list_from_def Let_def)
qed

text \<open>Paging loses entries: when the first window of a page holds more matches than the limit, the
  matches beyond the limit are not in the page, and the next cursor has already gone past them.\<close>

theorem dlq_page_skips:
  assumes "rows_wf (dq_rows s)"
    and "list_limit query < length (filter (matches_query dparse query) (window start 200 (dlq_entries s)))"
    and "e \<in> set (drop (list_limit query) (filter (matches_query dparse query) (window start 200 (dlq_entries s))))"
  shows "\<exists>es off.
    listEntries dparse (query\<lparr>lq_cursor := Some (encodeCursor start)\<rparr>) s = Some (es, Some (encodeCursor off)) \<and>
    e \<notin> set es \<and> e \<notin> set (drop off (dlq_entries s))"
proof -
  let ?P = "matches_query dparse query" and ?n = "list_limit query" and ?E = "dlq_entries s"
  let ?w = "window start 200 ?E"
  have ids: "map de_dlqJobId ?E = map fst (dq_rows s)"
    by (simp add: dlq_entries_def normalizeEntry_def case_prod_unfold)
  then have "distinct (map de_dlqJobId ?E)" using assms(1) by (simp add: rows_wf_def)
  then have dis: "distinct ?E" by (simp add: distinct_map)
  have c: "collect ?P ?n ?w [] = take ?n (filter ?P ?w)"
    using collect_take [of "[]" ?n ?P ?w] list_limit_pos [of query] by simp
  have "list_scan ?P ?n ?E 20 start False [] = (take ?n (filter ?P ?w), start + length ?w, length ?w = 200)"
    using list_scan_Suc [of ?P ?n ?E 19 start False "[]"] assms(2)
    by (simp add: LIST_SCAN_WINDOW_def c del: length_window)
  then have page: "listEntries dparse (query\<lparr>lq_cursor := Some (encodeCursor start)\<rparr>) s
      = Some (take ?n (filter ?P ?w), Some (encodeCursor (start + length ?w)))"
    using assms(2) by (simp add: listEntries_at list_from_def Let_def del: length_window)
  have "distinct (filter ?P ?w)" using dis by (simp add: window_def)
  then have "e \<notin> set (take ?n (filter ?P ?w))"
    using assms(3) set_take_disj_set_drop_if_distinct [of "filter ?P ?w" ?n ?n] by auto
  moreover have "e \<in> set ?w" using assms(3) by (auto dest: in_set_dropD)
  then have "e \<notin> set (drop (start + length ?w) ?E)"
    using dis window_drop [of start 200 ?E] by (metis IntI distinct_append distinct_drop empty_iff)
  ultimately show ?thesis using page by blast
qed

definition demo_query :: list_query where
  "demo_query = \<lparr>lq_cursor = None, lq_limit = Some 1, lq_sourceQueue = None, lq_classification = None,
     lq_replayStatus = None, lq_from = None, lq_to = None\<rparr>"

theorem dlq_page_skips_witness:
  "\<exists>es off. listEntries js_number (demo_query\<lparr>lq_cursor := Some (encodeCursor 0)\<rparr>)
       (moveToDeadLetter (\<lambda>_. ''t'') ''u2'' 6 NOTIFICATIONS demo_job None demo_dlq) = Some (es, Some (encodeCursor off)) \<and>
     normalizeEntry ''2'' (dl_payload_of (\<lambda>_. ''t'') ''u2'' 6 NOTIFICATIONS demo_job None) \<notin> set es"
proof -
  let ?s = "moveToDeadLetter (\<lambda>_. ''t'') ''u2'' 6 NOTIFICATIONS demo_job None demo_dlq"
  let ?e = "normalizeEntry ''2'' (dl_payload_of (\<lambda>_. ''t'') ''u2'' 6 NOTIFICATIONS demo_job None)"
  have two: "nat_str (Suc (Suc 0)) = ''2''"
    by (simp add: nat_str.simps digit_char_def code_inject [symmetric]) (simp add: code_def)
  have rows: "dq_rows ?s = [(''1'', dl_payload_of (\<lambda>_. ''t'') ''u'' 5 NOTIFICATIONS demo_job None),
      (''2'', dl_payload_of (\<lambda>_. ''t'') ''u2'' 6 NOTIFICATIONS demo_job None)]"
    by (simp add: moveToDeadLetter_def demo_dlq_def row_ins_def Let_def two)
  have any: "matches_query js_number demo_query = (\<lambda>_. True)"
    by (simp add: matches_query_def demo_query_def parse_bound_def fun_eq_iff)
  have w: "window 0 200 (dlq_entries ?s) = dlq_entries ?s"
    by (simp add: window_def dlq_entries_def rows)
  have "rows_wf (dq_rows ?s)" by (simp add: rows rows_wf_def)
  moreover have "list_limit demo_query = 1" by (simp add: list_limit_def demo_query_def)
  ultimately have "\<exists>es off. listEntries js_number (demo_query\<lparr>lq_cursor := Some (encodeCursor 0)\<rparr>) ?s = Some (es, Some (encodeCursor off)) \<and>
      ?e \<notin> set es \<and> ?e \<notin> set (drop off (dlq_entries ?s))"
    by (intro dlq_page_skips) (simp_all add: any w, simp_all add: dlq_entries_def rows)
  then show ?thesis by blast
qed

text \<open>A dismissal made while a replay of the same entry is between its checks and its last write is
  lost: the replay writes the payload it read before, so the entry ends replayed, without any
  trace of the dismissal, and its job runs again.\<close>

theorem dlq_dismiss_lost:
  assumes "plan_replay str i s = PlanRetry p"
  shows "let s1 = fst (dismissEntry isof t1 i alice why s);
             s2 = fst (finish_replay isof t2 False ref i bob reason (plan_replay str i s) s1)
         in row_get (dq_rows s1) i = Some (dismissed_payload (isof t1) alice why p) \<and>
            row_get (dq_rows s2) i = Some (replayed_payload (isof t2) bob reason p) \<and>
            map_option sj_state (dq_src s2 (dl_sourceQueue p) (job_id_str (dl_jobId p))) = Some ''waiting''"
proof -
  from plan_PlanRetry [OF assms] obtain j where
    p: "row_get (dq_rows s) i = Some p" "row_status p = OPEN" and
    j: "dq_src s (dl_sourceQueue p) (job_id_str (dl_jobId p)) = Some j" "sj_state j = ''failed''"
    by blast
  have s1: "fst (dismissEntry isof t1 i alice why s) = put_payload i (dismissed_payload (isof t1) alice why p) s"
    using p by (simp add: dismissEntry_def finish_dismiss_def plan_dismiss_def Let_def)
  show ?thesis
    using p j by (simp add: s1 assms finish_replay_def retry_job_def row_get_put_payload Let_def put_payload_def
        row_get_put)
qed

theorem dlq_dismiss_lost_witness:
  "row_get (dq_rows (fst (finish_replay (\<lambda>_. ''t'') 9 False [] ''1'' ''bob'' ''again'' (plan_replay (\<lambda>_. []) ''1'' demo_dlq)
     (fst (dismissEntry (\<lambda>_. ''t'') 6 ''1'' ''alice'' ''obsolete'' demo_dlq))))) ''1''
   = Some (replayed_payload ''t'' ''bob'' ''again'' (dl_payload_of (\<lambda>_. ''t'') ''u'' 5 NOTIFICATIONS demo_job None))"
proof -
  have "validateSourceJobData (\<lambda>_. []) NOTIFICATIONS (sj_data demo_job) = None"
    by (simp add: demo_job_def validate_defs jget_def finite_number_def is_finite_def)
  moreover have "row_get [(''1'', p)] ''1'' = Some p" for p :: dl_payload
    by (simp add: row_get_def)
  ultimately have "plan_replay (\<lambda>_. []) ''1'' demo_dlq = PlanRetry (dl_payload_of (\<lambda>_. ''t'') ''u'' 5 NOTIFICATIONS demo_job None)"
    by (simp add: plan_replay_def demo_row Let_def)
      (simp add: row_status_def dl_payload_of_def Let_def demo_dlq_def, simp add: demo_job_def)
  from dlq_dismiss_lost [OF this, of "\<lambda>_. ''t''" 6 "''alice''" "''obsolete''" 9 "[]" "''bob''" "''again''"]
  show ?thesis by (simp add: Let_def)
qed

datatype lock_op = AskLock int string | FreeLock int string

fun lock_step :: "string \<Rightarrow> dlq_sys \<Rightarrow> lock_op \<Rightarrow> dlq_sys" where
  "lock_step i s (AskLock t u) = fst (dlqLockAcquire t (lock_key i) u REPLAY_LOCK_TTL_MS s)"
| "lock_step i s (FreeLock t u) = fst (dlqLockRelease t (lock_key i) u s)"

fun by_other :: "string \<Rightarrow> int \<Rightarrow> lock_op \<Rightarrow> bool" where
  "by_other u e (AskLock t v) \<longleftrightarrow> v \<noteq> u \<and> t < e"
| "by_other u e (FreeLock t v) \<longleftrightarrow> v \<noteq> u \<and> t < e"

lemma lock_kept:
  "dq_locks s (lock_key i) = Some (u, e) \<Longrightarrow> list_all (by_other u e) ops \<Longrightarrow>
   dq_locks (foldl (lock_step i) s ops) (lock_key i) = Some (u, e)"
proof (induction ops arbitrary: s)
  case (Cons op ops)
  then have "dq_locks (lock_step i s op) (lock_key i) = Some (u, e)"
    by (cases op) (auto simp: dlqLockAcquire_def dlqLockRelease_def lock_live_def)
  with Cons show ?case by simp
qed simp

text \<open>The replay lock excludes: once a request holds the lock of an entry, then until 30 seconds
  have passed every request that asks for it is refused, whatever other requests, with lock values
  of their own, try to take or release it in between.\<close>

theorem dlq_lock_exclusive:
  assumes "dlqLockAcquire t0 (lock_key i) u REPLAY_LOCK_TTL_MS s = (s1, 1)"
    and "list_all (by_other u (t0 + 30000)) ops" and "t < t0 + 30000"
  shows "withReplayLock t t1 v i body (foldl (lock_step i) s1 ops) =
    (foldl (lock_step i) s1 ops, Rejected ''another replay for this entry is already in progress'')"
proof -
  have "dq_locks s1 (lock_key i) = Some (u, t0 + 30000)"
    using assms(1) by (auto simp: dlqLockAcquire_def REPLAY_LOCK_TTL_MS_def split: if_splits)
  then have "dq_locks (foldl (lock_step i) s1 ops) (lock_key i) = Some (u, t0 + 30000)"
    using assms(2) by (rule lock_kept)
  then show ?thesis
    using assms(3) by (simp add: withReplayLock_def dlqLockAcquire_def lock_live_def)
qed

theorem dlq_lock_exclusive_witness:
  "snd (withReplayLock 20 30 ''w'' ''1'' (\<lambda>s. (s, Rejected []))
     (foldl (lock_step ''1'') (fst (dlqLockAcquire 0 (lock_key ''1'') ''u'' REPLAY_LOCK_TTL_MS demo_dlq))
       [AskLock 5 ''v'', FreeLock 6 ''v'']))
   = Rejected ''another replay for this entry is already in progress''"
proof -
  have "dlqLockAcquire 0 (lock_key ''1'') ''u'' REPLAY_LOCK_TTL_MS demo_dlq =
      (fst (dlqLockAcquire 0 (lock_key ''1'') ''u'' REPLAY_LOCK_TTL_MS demo_dlq), 1)"
    by (simp add: dlqLockAcquire_def lock_live_def demo_dlq_def)
  from dlq_lock_exclusive [OF this, of "[AskLock 5 ''v'', FreeLock 6 ''v'']" 20] show ?thesis by simp
qed

definition depth_of :: "'k \<Rightarrow> ('k \<times> nat) list \<Rightarrow> nat" where
  "depth_of k m = nullish (map_of m k) 0"

lemma depth_bump: "depth_of j (bump k m) = depth_of j m + (if j = k then 1 else 0)"
  by (induction k m rule: bump.induct) (auto simp: depth_of_def)

lemma metrics_fold_depths:
  "depth_of q (mt_queue (foldl (metrics_entry dparse) m es)) =
     depth_of q (mt_queue m) + length (filter (\<lambda>e. de_sourceQueue e = q) es) \<and>
   depth_of c (mt_class (foldl (metrics_entry dparse) m es)) =
     depth_of c (mt_class m) + length (filter (\<lambda>e. de_classification e = c) es) \<and>
   mt_openCount (foldl (metrics_entry dparse) m es) =
     mt_openCount m + length (filter (\<lambda>e. de_replayStatus e = OPEN) es)"
  by (induction es arbitrary: m) (simp_all add: metrics_entry_def Let_def depth_bump)

text \<open>The depth metrics count the whole queue: after scanning it in windows, the depth of every
  source queue and of every classification, and the number of open entries, are those of the
  list of all entries.\<close>

theorem dlq_metrics_count_all:
  "let m = fst (emitDepthMetrics dparse now s)
   in depth_of q (mt_queue m) = length (filter (\<lambda>e. de_sourceQueue e = q) (dlq_entries s)) \<and>
      depth_of c (mt_class m) = length (filter (\<lambda>e. de_classification e = c) (dlq_entries s)) \<and>
      mt_openCount m = length (filter (\<lambda>e. de_replayStatus e = OPEN) (dlq_entries s))"
  using metrics_fold_depths [of q dparse metrics_init "dlq_entries s" c]
  by (simp add: emitDepthMetrics_def Let_def metrics_scan_fold metrics_init_def depth_of_def)

end
