(* ===== verification/IpMatcher.thy ===== *)
theory IpMatcher
  imports Regex Http JsNumber "HOL-Library.Word"
begin

text \<open>
  \<^verbatim>\<open>packages/backend/src/firewall/utils/ip-matcher.util.ts\<close>: matching an address against a
  plain address or a CIDR block, bot user agents, the client address of a request and the
  error codes. IPv4 addresses live in the language's 32-bit integers, IPv6 addresses in its
  unbounded ones. \<open>is_ipv4\<close> and \<open>is_ipv6\<close> are \<open>net.isIPv4\<close> and \<open>net.isIPv6\<close>; \<open>None\<close> as a
  number is \<open>NaN\<close>.
\<close>

unbundle bit_operations_syntax

subsection \<open>Numbers in text\<close>

definition digit_in :: "nat \<Rightarrow> char \<Rightarrow> bool" where
  "digit_in b c = (case hex_val c of None \<Rightarrow> False | Some d \<Rightarrow> d < b)"

definition radix_digits :: "nat \<Rightarrow> string \<Rightarrow> nat" where
  "radix_digits b s = foldl (\<lambda>acc c. acc * b + (case hex_val c of None \<Rightarrow> 0 | Some d \<Rightarrow> d)) 0 s"

text \<open>\<open>parseInt(s, radix)\<close> for a radix up to 16; a hexadecimal text may start with \<^verbatim>\<open>0x\<close>.\<close>

definition parse_int :: "nat \<Rightarrow> string \<Rightarrow> int option" where
  "parse_int b s =
     (let t = dropWhile is_space s;
          (neg, u) = (case t of [] \<Rightarrow> (False, [])
            | c # r \<Rightarrow> if c = CHR ''-'' then (True, r) else if c = CHR ''+'' then (False, r) else (False, t));
          v = (if b = 16 \<and> (starts_with u ''0x'' \<or> starts_with u ''0X'') then drop 2 u else u);
          ds = takeWhile (digit_in b) v
      in if ds = [] then None
         else Some (if neg then - int (radix_digits b ds) else int (radix_digits b ds)))"

subsection \<open>IPv4\<close>

text \<open>Dot-decimal notation: four numbers up to 255 without leading zeros.\<close>

definition is_octet :: "string \<Rightarrow> bool" where
  "is_octet s \<longleftrightarrow> s \<noteq> [] \<and> list_all is_digit s \<and> nat_str (digits_val s) = s \<and> digits_val s \<le> 255"

definition is_ipv4 :: "string \<Rightarrow> bool" where
  "is_ipv4 s \<longleftrightarrow> length (split_on (CHR ''.'') s) = 4 \<and> list_all is_octet (split_on (CHR ''.'') s)"

text \<open>\<open>a << k\<close>: both operands are taken to 32 bits, the count modulo 32, the result is signed.\<close>

definition js_shl :: "int option \<Rightarrow> int option \<Rightarrow> int" where
  "js_shl a k = sint (push_bit (nat (nullish k 0 mod 32)) (word_of_int (nullish a 0) :: 32 word))"

text \<open>\<open>a >>> 0\<close>, as the word it is.\<close>

definition js_uint32 :: "int option \<Rightarrow> 32 word" where
  "js_uint32 a = word_of_int (nullish a 0)"

definition ipToUint32 :: "string \<Rightarrow> 32 word" where
  "ipToUint32 ip = js_uint32
     (foldl (\<lambda>acc octet. map_option (\<lambda>n. js_shl acc (Some 8) + n) (parse_int 10 octet))
        (Some 0) (split_on (CHR ''.'') ip))"

definition ipv4InCidr :: "string \<Rightarrow> string \<Rightarrow> int option \<Rightarrow> bool" where
  "ipv4InCidr ip block bits =
     (if (case bits of None \<Rightarrow> False | Some b \<Rightarrow> b < 0 \<or> b > 32) then False
      else
        (let mask = (if bits = Some 0 then 0
                     else js_uint32 (Some (js_shl (Some (- 1)) (map_option (\<lambda>b. 32 - b) bits))))
         in ipToUint32 ip AND mask = ipToUint32 block AND mask))"

subsection \<open>IPv6\<close>

definition v4_rx :: rx where
  "v4_rx =
     (let seg = alts [Seq (lit ''25'') (any_of ''012345''), seqs [lit ''2'', any_of ''01234'', digit],
                      seqs [lit ''1'', digit, digit], Seq (any_of ''123456789'') digit, digit]
      in seqs [rep 3 (Seq seg (lit ''.'')), seg])"

definition hex_seg :: rx where
  "hex_seg = Seq (Cls (digit_in 16)) (upto_n 3 (Cls (digit_in 16)))"

text \<open>Node's \<open>isIPv6\<close>: \<open>n\<close> leading groups, then what may follow them.\<close>

definition ipv6_tail :: "nat \<Rightarrow> rx" where
  "ipv6_tail n =
     (let cs = Seq (lit '':'') hex_seg
      in if n = 7 then alts [hex_seg, lit '':'']
         else if n = 6 then alts [v4_rx, cs, lit '':'']
         else alts [seqs [upto_n (5 - n) cs, lit '':'', v4_rx],
                    Seq cs (upto_n (6 - n) cs), lit '':''])"

definition ipv6_rx :: rx where
  "ipv6_rx = seqs [BegI,
     alts (map (\<lambda>n. Seq (rep n (Seq hex_seg (lit '':''))) (ipv6_tail n)) [7, 6, 5, 4, 3, 2, 1]
           @ [Seq (lit '':'') (ipv6_tail 0)]),
     opt (Seq (lit ''%'') (plus (Cls (\<lambda>c. is_digit c \<or> is_upper c \<or> is_lower c \<or> c \<in> set ''-.:'')))),
     EndI]"

definition is_ipv6 :: "string \<Rightarrow> bool" where
  "is_ipv6 s = rx_test ipv6_rx s"

text \<open>\<open>s.split('::')\<close>.\<close>

fun split_colons :: "string \<Rightarrow> string list" where
  "split_colons [] = [[]]"
| "split_colons [c] = [[c]]"
| "split_colons (c # d # cs) =
     (if c = CHR '':'' \<and> d = CHR '':'' then [] # split_colons cs
      else (case split_colons (d # cs) of [] \<Rightarrow> [[c]] | p # ps \<Rightarrow> (c # p) # ps))"

definition groups_of :: "string \<Rightarrow> string list" where
  "groups_of h = (if h = [] then [] else split_on (CHR '':'') h)"

text \<open>\<open>None\<close>: the length of the middle is negative and \<open>Array\<close> throws.\<close>

definition expandIPv6 :: "string \<Rightarrow> string option" where
  "expandIPv6 ip =
     (case split_colons ip of
        [l, r] \<Rightarrow>
          (let left = groups_of l; right = groups_of r
           in if length left + length right > 8 then None
              else Some (join_with '':'' (map (pad_start 4 (CHR ''0''))
                (left @ replicate (8 - length left - length right) ''0'' @ right))))
      | _ \<Rightarrow> Some (join_with '':'' (map (pad_start 4 (CHR ''0'')) (split_on (CHR '':'') ip))))"

text \<open>\<open>BigInt(NaN)\<close> throws.\<close>

definition ipv6ToBigInt :: "string \<Rightarrow> int option" where
  "ipv6ToBigInt ip =
     (case expandIPv6 ip of
        None \<Rightarrow> None
      | Some full \<Rightarrow>
          foldl (\<lambda>acc group. case (acc, parse_int 16 group) of
              (Some a, Some g) \<Rightarrow> Some (push_bit 16 a + g) | _ \<Rightarrow> None)
            (Some 0) (split_on (CHR '':'') full))"

definition ipv6_mask :: "nat \<Rightarrow> int" where
  "ipv6_mask b = (if b = 0 then 0 else push_bit (128 - b) (- 1) AND (push_bit 128 1 - 1))"

definition ipv6InCidr :: "string \<Rightarrow> string \<Rightarrow> int option \<Rightarrow> bool option" where
  "ipv6InCidr ip block bits = (case bits of
      None \<Rightarrow> None
    | Some b \<Rightarrow>
        if b < 0 \<or> b > 128 then Some False
        else (case (ipv6ToBigInt ip, ipv6ToBigInt block) of
            (Some x, Some y) \<Rightarrow> Some (x AND ipv6_mask (nat b) = y AND ipv6_mask (nat b))
          | _ \<Rightarrow> None))"

subsection \<open>The match\<close>

text \<open>\<open>ip.replace(/^::ffff:/i, '')\<close>.\<close>

definition strip_mapped :: "string \<Rightarrow> string" where
  "strip_mapped ip = (if to_lower (take 7 ip) = ''::ffff:'' then drop 7 ip else ip)"

definition ipMatchesCidr :: "string \<Rightarrow> string \<Rightarrow> bool" where
  "ipMatchesCidr ip cidr =
     (let cleanIp = strip_mapped ip
      in if CHR ''/'' \<notin> set cidr then (is_ipv4 cleanIp \<or> is_ipv6 cleanIp) \<and> cleanIp = cidr
         else
           (let block = split_on (CHR ''/'') cidr ! 0;
                bits = parse_int 10 (split_on (CHR ''/'') cidr ! 1)
            in if is_ipv4 cleanIp \<and> is_ipv4 block then ipv4InCidr cleanIp block bits
               else if is_ipv6 cleanIp \<and> is_ipv6 block then nullish (ipv6InCidr cleanIp block bits) False
               else False))"

subsection \<open>Error codes, user agents, client address\<close>

fun hex_str :: "nat \<Rightarrow> string" where
  "hex_str n =
     (if n < 16 then [if n < 10 then digit_char n else char_of (87 + n)]
      else hex_str (n div 16) @ hex_str (n mod 16))"

declare hex_str.simps [simp del]

text \<open>The instant as \<open>toISOString\<close> writes it, and \<open>Math.random()\<close>, are arguments.\<close>

definition generateFirewallErrorCode :: "string \<Rightarrow> rat \<Rightarrow> string" where
  "generateFirewallErrorCode date random =
     ''BACKIT-FW-'' @ filter (\<lambda>c. c \<noteq> CHR ''-'') (take 10 date) @ ''-''
       @ pad_start 6 (CHR ''0'') (hex_str (nat \<lfloor>random * 16777215\<rfloor>))"

definition bot_names :: "string list" where
  "bot_names =
     [''bot'', ''crawl'', ''spider'', ''scrape'', ''curl/'', ''wget/'', ''python-requests'',
      ''go-http-client'', ''axios/'', ''java/'', ''libwww-perl'', ''scrapy'', ''semrush'', ''ahrefs'',
      ''mj12bot'', ''dotbot'', ''sistrix'', ''petalbot'']"

definition BOT_UA_PATTERNS :: "rx list" where
  "BOT_UA_PATTERNS = map lit_i bot_names"

definition isBotUserAgent :: "string option \<Rightarrow> rx list \<Rightarrow> bool" where
  "isBotUserAgent userAgent allowedBots =
     (let ua = nullish userAgent []
      in if ua = [] then True
         else if list_ex (\<lambda>r. rx_test r ua) allowedBots then False
         else list_ex (\<lambda>r. rx_test r ua) BOT_UA_PATTERNS)"

record client_request =
  cr_ip :: "string option"
  cr_headers :: "(string \<times> header_value) list"
  cr_remoteAddress :: "string option"   \<comment> \<open>\<open>socket?.remoteAddress\<close>\<close>

definition header_of :: "(string \<times> header_value) list \<Rightarrow> string \<Rightarrow> header_value" where
  "header_of hs k = nullish (map_of hs k) NoHeader"

definition extractClientIp :: "client_request \<Rightarrow> string" where
  "extractClientIp req =
     (let cfIp = header_of (cr_headers req) ''cf-connecting-ip'';
          xReal = header_of (cr_headers req) ''x-real-ip'';
          forwarded = header_of (cr_headers req) ''x-forwarded-for''
      in if header_truthy cfIp then nullish (header_first cfIp) []
         else if header_truthy xReal then nullish (header_first xReal) []
         else if header_truthy forwarded
         then js_trim (split_on (CHR '','') (nullish (header_first forwarded) []) ! 0)
         else nullish (cr_ip req) (nullish (cr_remoteAddress req) ''0.0.0.0''))"

subsection \<open>Lemmas: numbers\<close>

lemma digit_in_10 [simp]: "is_digit c \<Longrightarrow> digit_in 10 c"
  by (simp add: digit_in_def hex_val_def digit_val_less)

lemma radix_digits_10: "list_all is_digit s \<Longrightarrow> radix_digits 10 s = digits_val s"
  unfolding radix_digits_def digits_val_def
  by (induction s rule: rev_induct) (simp_all add: hex_val_def mult.commute)

lemma nat_str_all_digits [simp]: "list_all is_digit (nat_str n)"
  using nat_str_digits by (auto simp: list_all_iff)

lemma parse_int_nat_str [simp]: "parse_int 10 (nat_str n) = Some (int n)"
proof -
  have "\<not> is_space (hd (nat_str n))" "hd (nat_str n) \<noteq> CHR ''-''" "hd (nat_str n) \<noteq> CHR ''+''"
    using nat_str_hd [of n] digit_not_in [OF nat_str_hd, of n] digit_not_space by auto
  moreover obtain c r where cr: "nat_str n = c # r" by (cases "nat_str n") auto
  moreover have "takeWhile (digit_in 10) (nat_str n) = nat_str n"
    using nat_str_digits by (simp add: takeWhile_eq_all_conv)
  ultimately show ?thesis
    by (simp add: parse_int_def Let_def) (metis digits_val_nat_str nat_str_all_digits radix_digits_10)
qed

lemma no_dot_nat_str: "CHR ''.'' \<notin> set (nat_str n)" "CHR ''/'' \<notin> set (nat_str n)" "CHR '':'' \<notin> set (nat_str n)"
  using nat_str_digits [of _ n] by (auto simp: is_digit_def code_def dest!: nat_str_digits)

definition dotted :: "nat \<Rightarrow> nat \<Rightarrow> nat \<Rightarrow> nat \<Rightarrow> string" where
  "dotted a b c d = join_with ''.'' [nat_str a, nat_str b, nat_str c, nat_str d]"

lemma split_dotted [simp]: "split_on (CHR ''.'') (dotted a b c d) = [nat_str a, nat_str b, nat_str c, nat_str d]"
  unfolding dotted_def by (rule split_on_join) (simp_all add: no_dot_nat_str)

lemma is_ipv4_dotted: "a < 256 \<Longrightarrow> b < 256 \<Longrightarrow> c < 256 \<Longrightarrow> d < 256 \<Longrightarrow> is_ipv4 (dotted a b c d)"
  by (simp add: is_ipv4_def is_octet_def)

lemma js_shl_word: "word_of_int (js_shl (Some a) (Some (int k)) + n) = push_bit (k mod 32) (word_of_int a :: 32 word) + word_of_int n"
  by (simp add: js_shl_def of_nat_mod [symmetric] nat_mod_distrib)

lemma ipToUint32_dotted:
  "ipToUint32 (dotted a b c d) = word_of_nat (((a * 256 + b) * 256 + c) * 256 + d)"
proof -
  have shl8: "word_of_int (js_shl (Some x) (Some 8)) = (word_of_int x :: 32 word) * 256" for x
    using js_shl_word [of x 8 0] by (simp add: push_bit_eq_mult)
  show ?thesis
    by (simp add: ipToUint32_def js_uint32_def shl8 algebra_simps)
qed

text \<open>Equality under a prefix mask is equality of the leading bits.\<close>

lemma word_prefix_mask:
  fixes x y :: "'a::len word"
  shows "x AND NOT (mask n) = y AND NOT (mask n) \<longleftrightarrow> drop_bit n x = drop_bit n y"
proof
  assume "x AND NOT (mask n) = y AND NOT (mask n)"
  then have "drop_bit n (x AND NOT (mask n)) = drop_bit n (y AND NOT (mask n))" by simp
  moreover have "drop_bit n (z AND NOT (mask n)) = drop_bit n z" for z :: "'a word"
    by (rule bit_word_eqI) (auto simp: bit_simps dest: bit_imp_le_length)
  ultimately show "drop_bit n x = drop_bit n y" by simp
next
  assume "drop_bit n x = drop_bit n y"
  then have "push_bit n (drop_bit n x) = push_bit n (drop_bit n y)" by simp
  moreover have "push_bit n (drop_bit n z) = z AND NOT (mask n)" for z :: "'a word"
    by (rule bit_word_eqI) (auto simp: bit_simps dest: bit_imp_le_length)
  ultimately show "x AND NOT (mask n) = y AND NOT (mask n)" by simp
qed

lemma ipv4InCidr_bits:
  assumes "k \<le> 32"
  shows "ipv4InCidr ip block (Some (int k)) \<longleftrightarrow>
    unat (ipToUint32 ip) div 2 ^ (32 - k) = unat (ipToUint32 block) div 2 ^ (32 - k)"
proof (cases "k = 0")
  case True
  have "unat (w :: 32 word) div 2 ^ 32 = 0" for w using unsigned_less [of w, where ?'a = nat] by simp
  then show ?thesis using True by (simp add: ipv4InCidr_def)
next
  case False
  have "js_uint32 (Some (js_shl (Some (- 1)) (Some (32 - int k)))) = push_bit (32 - k) (- 1)"
    using js_shl_word [of "- 1" "32 - k" 0] assms False by (simp add: js_uint32_def of_nat_diff)
  then have "ipv4InCidr ip block (Some (int k)) \<longleftrightarrow>
      drop_bit (32 - k) (ipToUint32 ip) = drop_bit (32 - k) (ipToUint32 block)"
    using False assms by (simp add: ipv4InCidr_def Let_def word_prefix_mask)
  also have "\<dots> \<longleftrightarrow> unat (drop_bit (32 - k) (ipToUint32 ip)) = unat (drop_bit (32 - k) (ipToUint32 block))"
    by (simp add: word_unat_eq_iff)
  finally show ?thesis by (simp only: unat_drop_bit_eq) (simp only: drop_bit_eq_div)
qed

lemma int_prefix_mask:
  fixes x y :: int
  assumes "0 \<le> x" "x < 2 ^ 128" "0 \<le> y" "y < 2 ^ 128" "b \<le> 128"
  shows "x AND ipv6_mask b = y AND ipv6_mask b \<longleftrightarrow> x div 2 ^ (128 - b) = y div 2 ^ (128 - b)"
proof (cases "b = 0")
  case True
  then show ?thesis using assms by (simp add: ipv6_mask_def)
next
  case False
  have m: "z AND ipv6_mask b = push_bit (128 - b) (drop_bit (128 - b) z)" if "0 \<le> z" "z < 2 ^ 128" for z :: int
  proof -
    have mm: "push_bit 128 1 - 1 = (mask 128 :: int)" by (simp add: mask_eq_exp_minus_1 push_bit_eq_mult)
    have z: "z AND mask 128 = z" using that by (simp only: take_bit_eq_mask [symmetric] take_bit_int_eq_self)
    have "z AND ipv6_mask b = (z AND mask 128) AND NOT (mask (128 - b))"
      by (simp only: ipv6_mask_def False if_False mm push_bit_minus_one_eq_not_mask ac_simps)
    also have "\<dots> = z AND NOT (mask (128 - b))" by (simp only: z)
    also have "\<dots> = push_bit (128 - b) (drop_bit (128 - b) z)"
      by (rule bit_eqI) (auto simp: bit_simps)
    finally show ?thesis .
  qed
  have "push_bit (128 - b) u = push_bit (128 - b) v \<longleftrightarrow> u = v" for u v :: int
    by (simp add: push_bit_eq_mult)
  then show ?thesis using m [OF assms(1,2)] m [OF assms(3,4)] by (simp add: drop_bit_eq_div)
qed

subsection \<open>Properties\<close>

lemma dotted_hd: "is_digit (hd (dotted a b c d))" "dotted a b c d \<noteq> []"
  using nat_str_hd [of a] by (simp_all add: dotted_def)

lemma strip_mapped_dotted [simp]: "strip_mapped (dotted a b c d) = dotted a b c d"
proof -
  obtain x r where x: "dotted a b c d = x # r" "is_digit x"
    using dotted_hd [of a b c d] by (cases "dotted a b c d") auto
  then have "lower_char x \<noteq> CHR '':''" by (auto simp: is_digit_def code_def lower_char_digit)
  then show ?thesis using x by (simp add: strip_mapped_def to_lower_def)
qed

lemma strip_mapped_prefix: "to_lower pre = ''::ffff:'' \<Longrightarrow> strip_mapped (pre @ s) = s"
proof -
  assume p: "to_lower pre = ''::ffff:''"
  have "length (to_lower pre) = 7" by (simp add: p)
  then have "length pre = 7" by (simp add: to_lower_def)
  with p show ?thesis by (simp add: strip_mapped_def)
qed

lemma octets_bound:
  "a < 256 \<Longrightarrow> b < 256 \<Longrightarrow> c < 256 \<Longrightarrow> d < 256 \<Longrightarrow>
   unat (ipToUint32 (dotted a b c d)) = ((a * 256 + b) * 256 + c) * 256 + d"
  by (simp add: ipToUint32_dotted unat_of_nat del: of_nat_add of_nat_mult)

text \<open>C19: for IPv4, a rule \<open>e.f.g.h/k\<close> matches exactly the addresses whose first \<open>k\<close> bits are those of
  the rule, for every \<open>k\<close> from 0 to 32, and an address written as IPv4-mapped IPv6 is matched as the
  IPv4 address it maps.\<close>

theorem cidr4_prefix:
  assumes "a < 256" "b < 256" "c < 256" "d < 256" "e < 256" "f < 256" "g < 256" "h < 256"
    and "k \<le> 32" and "pre = [] \<or> to_lower pre = ''::ffff:''"
  shows "ipMatchesCidr (pre @ dotted a b c d) (dotted e f g h @ ''/'' @ nat_str k) \<longleftrightarrow>
    (((a * 256 + b) * 256 + c) * 256 + d) div 2 ^ (32 - k) = (((e * 256 + f) * 256 + g) * 256 + h) div 2 ^ (32 - k)"
proof -
  have strip: "strip_mapped (pre @ dotted a b c d) = dotted a b c d"
    using assms(10) by (auto simp: strip_mapped_prefix)
  have noslash: "CHR ''/'' \<notin> set (dotted e f g h)"
    by (simp add: dotted_def no_dot_nat_str)
  then have "split_on (CHR ''/'') (dotted e f g h @ CHR ''/'' # nat_str k) = [dotted e f g h, nat_str k]"
    by (simp add: split_on_append split_on_notin no_dot_nat_str)
  then show ?thesis
    using assms by (simp add: ipMatchesCidr_def Let_def strip is_ipv4_dotted ipv4InCidr_bits octets_bound)
qed

theorem cidr4_prefix_witness:
  "ipMatchesCidr (''::FFFF:'' @ dotted 10 1 2 3) (dotted 10 0 0 0 @ ''/'' @ nat_str 8)
   \<and> \<not> ipMatchesCidr (dotted 11 1 2 3) (dotted 10 0 0 0 @ ''/'' @ nat_str 8)"
proof -
  have "to_lower ''::FFFF:'' = ''::ffff:''" by code_simp
  then show ?thesis
    using cidr4_prefix [of 10 1 2 3 10 0 0 0 8 "''::FFFF:''"] cidr4_prefix [of 11 1 2 3 10 0 0 0 8 "[]"] by simp
qed

text \<open>For IPv6, a rule with mask \<open>k\<close> matches when the leading \<open>k\<close> bits of the two values agree, for
  every \<open>k\<close> from 0 to 128; a mask outside matches nothing; and a mask that is no number makes the
  comparison throw.\<close>

theorem cidr6_prefix:
  assumes "ipv6ToBigInt ip = Some x" "ipv6ToBigInt block = Some y"
    and "0 \<le> x" "x < 2 ^ 128" "0 \<le> y" "y < 2 ^ 128"
  shows "ipv6InCidr ip block bits = (case bits of None \<Rightarrow> None
    | Some b \<Rightarrow> Some (0 \<le> b \<and> b \<le> 128 \<and> x div 2 ^ (128 - nat b) = y div 2 ^ (128 - nat b)))"
  using assms int_prefix_mask [of x y] by (auto simp: ipv6InCidr_def nat_le_iff split: option.split)

theorem cidr6_prefix_witness:
  "ipv6InCidr ''2::1'' ''2::'' (Some 16) = Some True \<and> ipv6InCidr ''2::1'' ''2::'' (Some 128) = Some False"
proof -
  have "ipv6ToBigInt ''2::1'' = Some (2 ^ 113 + 1)" "ipv6ToBigInt ''2::'' = Some (2 ^ 113)"
    by code_simp+
  from cidr6_prefix [OF this] show ?thesis by simp
qed

text \<open>A rule without a mask is compared as text, not as the /32 or /128 block it stands for: the same
  IPv6 address in another spelling does not match it, though it matches the rule with /128.\<close>

theorem plain_rule_is_text:
  "\<not> ipMatchesCidr ''2:0::1'' ''2::1'' \<and> ipMatchesCidr ''2:0::1'' ''2::1/128''"
  by code_simp

lemma bot_names_lower: "list_all (\<lambda>n. to_lower n = n) bot_names"
  by code_simp

text \<open>Without an allow list, a user agent is taken for a bot exactly when it is missing or empty or
  contains, in any letter case, one of the listed names.\<close>

theorem bot_user_agent:
  "isBotUserAgent ua [] \<longleftrightarrow> nullish ua [] = [] \<or> list_ex (js_includes (to_lower (nullish ua []))) bot_names"
  using bot_names_lower
  by (auto simp: isBotUserAgent_def Let_def BOT_UA_PATTERNS_def list_ex_iff list_all_iff)

end
