(* ===== verification/Firewall.thy ===== *)
theory Firewall
  imports IpMatcher Store
begin

text \<open>
  \<^verbatim>\<open>packages/backend/src/firewall\<close>: the rule table with its cache, the evaluation of a request,
  the log of blocked requests (\<^verbatim>\<open>firewall.service.ts\<close>), the middleware
  (\<^verbatim>\<open>firewall.middleware.ts\<close>) and the challenge guard (\<^verbatim>\<open>guards/turnstile.guard.ts\<close>).
  A blocked request is logged when it is blocked (the code does not wait for the write). The
  clock, whether a read of the rule table succeeds, new ids and the error code are arguments.
\<close>

subsection \<open>State\<close>

datatype ip_rule_type = WHITELIST | BLACKLIST

record ip_rule =
  ru_id :: string
  ru_cidr :: string
  ru_type :: ip_rule_type
  ru_reason :: "string option"
  ru_createdBy :: "string option"
  ru_createdAt :: int

datatype block_reason = BLACKLISTED_IP | BOT_FINGERPRINT | TURNSTILE_FAILED | RATE_LIMIT_EXCEEDED | MALFORMED_REQUEST

record blocked_request =
  br_errorCode :: string
  br_ip :: string
  br_reason :: block_reason
  br_method :: string
  br_path :: string
  br_userAgent :: "string option"
  br_headers :: "(string \<times> header_value) list"
  br_blockedAt :: int

record request_snapshot =
  sn_ip :: string
  sn_method :: string
  sn_path :: string
  sn_userAgent :: "string option"
  sn_headers :: "(string \<times> header_value) list"

record firewall =
  fw_rules :: "ip_rule list"            \<comment> \<open>the table \<open>ip_rules\<close>\<close>
  fw_blocked :: "blocked_request list"  \<comment> \<open>the table \<open>blocked_requests\<close>\<close>
  fw_cache :: "ip_rule list"
  fw_loadedAt :: int

datatype verdict = Allowed | Blocked block_reason string

definition CACHE_TTL_MS :: int where "CACHE_TTL_MS = 60000"

subsection \<open>The rules and their cache\<close>

definition refreshCache :: "int \<Rightarrow> firewall \<Rightarrow> firewall" where
  "refreshCache now s = s\<lparr>fw_cache := fw_rules s, fw_loadedAt := now\<rparr>"

definition onModuleInit :: "int \<Rightarrow> bool \<Rightarrow> firewall \<Rightarrow> firewall" where
  "onModuleInit now db_ok s = (if db_ok then refreshCache now s else s)"

text \<open>\<open>None\<close>: the read of the table failed, and the request with it.\<close>

definition maybeRefreshCache :: "int \<Rightarrow> bool \<Rightarrow> firewall \<Rightarrow> firewall option" where
  "maybeRefreshCache now db_ok s =
     (if now - fw_loadedAt s > CACHE_TTL_MS then (if db_ok then Some (refreshCache now s) else None)
      else Some s)"

definition getRules :: "firewall \<Rightarrow> ip_rule list" where
  "getRules s = sort_key (\<lambda>r. - ru_createdAt r) (fw_rules s)"

text \<open>The column \<open>cidr\<close> is unique: a second rule for the same text is refused.\<close>

definition addRule ::
  "int \<Rightarrow> string \<Rightarrow> string \<Rightarrow> ip_rule_type \<Rightarrow> string option \<Rightarrow> string option \<Rightarrow> firewall \<Rightarrow> (firewall \<times> ip_rule) option" where
  "addRule now uuid cidr ty reason createdBy s =
     (if cidr \<in> set (map ru_cidr (fw_rules s)) then None
      else
        (let rule = \<lparr>ru_id = uuid, ru_cidr = cidr, ru_type = ty, ru_reason = reason, ru_createdBy = createdBy,
                     ru_createdAt = now\<rparr>
         in Some (refreshCache now (s\<lparr>fw_rules := fw_rules s @ [rule]\<rparr>), rule)))"

definition removeRule :: "int \<Rightarrow> string \<Rightarrow> firewall \<Rightarrow> firewall" where
  "removeRule now i s = refreshCache now (s\<lparr>fw_rules := filter (\<lambda>r. ru_id r \<noteq> i) (fw_rules s)\<rparr>)"

subsection \<open>The log of blocked requests\<close>

definition SAFE_HEADERS :: "string list" where
  "SAFE_HEADERS = [''accept'', ''accept-language'', ''content-type'', ''origin'', ''referer'',
     ''x-forwarded-for'', ''cf-ipcountry'']"

definition safe_headers :: "(string \<times> header_value) list \<Rightarrow> (string \<times> header_value) list" where
  "safe_headers hs = map (\<lambda>k. (k, header_of hs k)) (filter (\<lambda>k. header_truthy (header_of hs k)) SAFE_HEADERS)"

text \<open>The column \<open>errorCode\<close> is unique; a refused row is only logged.\<close>

definition persistBlockedRequest :: "int \<Rightarrow> request_snapshot \<Rightarrow> block_reason \<Rightarrow> string \<Rightarrow> firewall \<Rightarrow> firewall" where
  "persistBlockedRequest now sn reason errorCode s =
     (if errorCode \<in> set (map br_errorCode (fw_blocked s)) then s
      else s\<lparr>fw_blocked := fw_blocked s @
        [\<lparr>br_errorCode = errorCode, br_ip = sn_ip sn, br_reason = reason, br_method = sn_method sn,
          br_path = sn_path sn, br_userAgent = sn_userAgent sn, br_headers = safe_headers (sn_headers sn),
          br_blockedAt = now\<rparr>]\<rparr>)"

definition block_req :: "int \<Rightarrow> string \<Rightarrow> request_snapshot \<Rightarrow> block_reason \<Rightarrow> firewall \<Rightarrow> firewall \<times> verdict" where
  "block_req now errorCode sn reason s =
     (persistBlockedRequest now sn reason errorCode s, Blocked reason errorCode)"

definition recordTurnstileFailure :: "int \<Rightarrow> string \<Rightarrow> request_snapshot \<Rightarrow> firewall \<Rightarrow> firewall \<times> verdict" where
  "recordTurnstileFailure now errorCode sn s = block_req now errorCode sn TURNSTILE_FAILED s"

definition getBlockedRequests ::
  "nat \<Rightarrow> nat \<Rightarrow> string option \<Rightarrow> block_reason option \<Rightarrow> firewall \<Rightarrow> blocked_request list \<times> nat" where
  "getBlockedRequests page limit ip reason s =
     (let hits = filter (\<lambda>b. (nullish ip [] = [] \<or> br_ip b = nullish ip []) \<and>
                            (case reason of None \<Rightarrow> True | Some r \<Rightarrow> br_reason b = r)) (fw_blocked s)
      in (window ((page - 1) * limit) limit (sort_key (\<lambda>b. - br_blockedAt b) hits), length hits))"

subsection \<open>Evaluation\<close>

definition matches_type :: "ip_rule_type \<Rightarrow> string \<Rightarrow> ip_rule list \<Rightarrow> bool" where
  "matches_type ty ip rules = list_ex (\<lambda>r. ipMatchesCidr ip (ru_cidr r)) (filter (\<lambda>r. ru_type r = ty) rules)"

definition evaluate :: "int \<Rightarrow> bool \<Rightarrow> string \<Rightarrow> request_snapshot \<Rightarrow> firewall \<Rightarrow> (firewall \<times> verdict) option" where
  "evaluate now db_ok errorCode sn s =
     (case maybeRefreshCache now db_ok s of
        None \<Rightarrow> None
      | Some s1 \<Rightarrow> Some
          (if matches_type WHITELIST (sn_ip sn) (fw_cache s1) then (s1, Allowed)
           else if matches_type BLACKLIST (sn_ip sn) (fw_cache s1) then block_req now errorCode sn BLACKLISTED_IP s1
           else if isBotUserAgent (sn_userAgent sn) [] then block_req now errorCode sn BOT_FINGERPRINT s1
           else (s1, Allowed)))"

record web_request =
  wr_client :: client_request
  wr_method :: string
  wr_path :: string

definition snapshot_of :: "web_request \<Rightarrow> request_snapshot" where
  "snapshot_of req = \<lparr>sn_ip = extractClientIp (wr_client req), sn_method = wr_method req, sn_path = wr_path req,
     sn_userAgent = header_first (header_of (cr_headers (wr_client req)) ''user-agent''),
     sn_headers = cr_headers (wr_client req)\<rparr>"

text \<open>\<open>None\<close>: the evaluation threw and the request fails.\<close>

datatype middleware_result = CallNext string | Forbidden403 string

definition firewall_use :: "int \<Rightarrow> bool \<Rightarrow> string \<Rightarrow> web_request \<Rightarrow> firewall \<Rightarrow> (firewall \<times> middleware_result) option" where
  "firewall_use now db_ok errorCode req s =
     map_option (\<lambda>(s', v). (s', case v of Allowed \<Rightarrow> CallNext (extractClientIp (wr_client req))
                                | Blocked _ ec \<Rightarrow> Forbidden403 ec))
       (evaluate now db_ok errorCode (snapshot_of req) s)"

subsection \<open>The challenge guard\<close>

record turnstile_config =
  tc_enabled :: "string option"
  tc_secretKey :: "string option"

text \<open>The answer of the verification service; \<open>None\<close>: the call failed.\<close>

definition verifyToken :: "bool option \<Rightarrow> bool" where
  "verifyToken answer = nullish answer True"

definition challenge_token :: "web_request \<Rightarrow> string option \<Rightarrow> string option" where
  "challenge_token req body_field =
     (case header_first (header_of (cr_headers (wr_client req)) ''x-turnstile-token'') of
        Some t \<Rightarrow> Some t
      | None \<Rightarrow> body_field)"

definition canActivate ::
  "turnstile_config \<Rightarrow> bool \<Rightarrow> int \<Rightarrow> string \<Rightarrow> web_request \<Rightarrow> string option \<Rightarrow> (string \<Rightarrow> bool option) \<Rightarrow> firewall \<Rightarrow>
   firewall \<times> (thrown + unit)" where
  "canActivate cfg skip now errorCode req body_field siteverify s =
     (if skip then (s, Inr ())
      else if tc_enabled cfg = Some ''false'' then (s, Inr ())
      else if nullish (tc_secretKey cfg) [] = [] then (s, Inr ())
      else
        (let token = challenge_token req body_field
         in if nullish token [] = []
            then (fst (recordTurnstileFailure now errorCode (snapshot_of req) s),
                  Inl (HttpThrown 403 ''Bot challenge token missing.''))
            else if \<not> verifyToken (siteverify (nullish token []))
            then (fst (recordTurnstileFailure now errorCode (snapshot_of req) s),
                  Inl (HttpThrown 403 ''Bot challenge verification failed.''))
            else (s, Inr ())))"

subsection \<open>Runs\<close>

text \<open>
  A run of the service, with the history of the table: which content it had at which time. The
  table may also be changed by other processes. The clock never goes back.
\<close>

type_synonym rule_history = "(int \<times> ip_rule list) list"

inductive fw_run :: "int \<Rightarrow> firewall \<Rightarrow> rule_history \<Rightarrow> bool" where
  start: "CACHE_TTL_MS < t \<Longrightarrow> fw_run t (onModuleInit t ok \<lparr>fw_rules = R, fw_blocked = [], fw_cache = [], fw_loadedAt = 0\<rparr>) [(t, R)]"
| tick: "fw_run t s h \<Longrightarrow> t \<le> t' \<Longrightarrow> fw_run t' s ((t', fw_rules s) # h)"
| others: "fw_run t s h \<Longrightarrow> fw_run t (s\<lparr>fw_rules := R\<rparr>) ((t, R) # h)"
| request: "fw_run t s h \<Longrightarrow> evaluate t ok ec sn s = Some (s', v) \<Longrightarrow> fw_run t s' h"
| challenge: "fw_run t s h \<Longrightarrow> canActivate cfg skip t ec req fld ver s = (s', r) \<Longrightarrow> fw_run t s' h"
| add: "fw_run t s h \<Longrightarrow> addRule t uuid cidr ty reason who s = Some (s', r) \<Longrightarrow> fw_run t s' ((t, fw_rules s') # h)"
| remove: "fw_run t s h \<Longrightarrow> removeRule t i s = s' \<Longrightarrow> fw_run t s' ((t, fw_rules s') # h)"

definition log_ok :: "firewall \<Rightarrow> bool" where
  "log_ok s \<longleftrightarrow> distinct (map br_errorCode (fw_blocked s)) \<and>
     (\<forall>b \<in> set (fw_blocked s). set (map fst (br_headers b)) \<subseteq> set SAFE_HEADERS)"

definition cache_ok :: "int \<Rightarrow> firewall \<Rightarrow> rule_history \<Rightarrow> bool" where
  "cache_ok t s h \<longleftrightarrow> CACHE_TTL_MS < t \<and> fw_loadedAt s \<le> t \<and> (t, fw_rules s) \<in> set h \<and>
     (fw_loadedAt s = 0 \<or> (fw_loadedAt s, fw_cache s) \<in> set h)"

lemma persist_simps [simp]:
  "fw_rules (persistBlockedRequest now sn r ec s) = fw_rules s"
  "fw_cache (persistBlockedRequest now sn r ec s) = fw_cache s"
  "fw_loadedAt (persistBlockedRequest now sn r ec s) = fw_loadedAt s"
  by (simp_all add: persistBlockedRequest_def)

lemma persist_log_ok [inv_intros]: "log_ok s \<Longrightarrow> log_ok (persistBlockedRequest now sn r ec s)"
  by (auto simp: persistBlockedRequest_def log_ok_def safe_headers_def)

lemma refresh_log_ok [inv_intros]: "log_ok s \<Longrightarrow> log_ok (refreshCache now s)"
  by (simp add: refreshCache_def log_ok_def)

lemma log_ok_rules [simp]: "log_ok (s\<lparr>fw_rules := R\<rparr>) = log_ok s"
  by (simp add: log_ok_def)

lemma addRule_Some:
  "addRule t uuid cidr ty reason who s = Some (s', r) \<Longrightarrow>
   s' = refreshCache t (s\<lparr>fw_rules := fw_rules s @ [r]\<rparr>) \<and> ru_cidr r = cidr \<and> ru_type r = ty"
  by (auto simp: addRule_def Let_def split: if_splits)

lemma matches_type_snoc:
  "matches_type ty ip (rs @ [r]) \<longleftrightarrow> matches_type ty ip rs \<or> ru_type r = ty \<and> ipMatchesCidr ip (ru_cidr r)"
  by (auto simp: matches_type_def list_ex_iff)

lemma evaluate_cases:
  assumes "evaluate t ok ec sn s = Some (s', v)"
  obtains s1 where "maybeRefreshCache t ok s = Some s1"
    "s' = s1 \<or> s' = persistBlockedRequest t sn BLACKLISTED_IP ec s1 \<or> s' = persistBlockedRequest t sn BOT_FINGERPRINT ec s1"
  using assms by (auto simp: evaluate_def block_req_def split: option.splits if_splits)

lemma canActivate_cases:
  assumes "canActivate cfg skip t ec req fld ver s = (s', r)"
  shows "s' = s \<or> s' = persistBlockedRequest t (snapshot_of req) TURNSTILE_FAILED ec s"
  using assms by (auto simp: canActivate_def recordTurnstileFailure_def block_req_def Let_def split: if_splits)

lemma maybe_log_ok: "log_ok s \<Longrightarrow> maybeRefreshCache t ok s = Some s1 \<Longrightarrow> log_ok s1"
  by (auto simp: maybeRefreshCache_def split: if_splits intro: inv_intros)

lemma maybe_cache_ok:
  "cache_ok t s h \<Longrightarrow> maybeRefreshCache t ok s = Some s1 \<Longrightarrow>
   cache_ok t s1 h \<and> t - CACHE_TTL_MS \<le> fw_loadedAt s1 \<and> (fw_loadedAt s1, fw_cache s1) \<in> set h"
  by (auto simp: maybeRefreshCache_def cache_ok_def refreshCache_def CACHE_TTL_MS_def split: if_splits)

lemma fw_run_log: "fw_run t s h \<Longrightarrow> log_ok s"
proof (induction rule: fw_run.induct)
  case (start t ok R)
  show ?case by (simp add: log_ok_def onModuleInit_def refreshCache_def)
next
  case (others t s h R)
  then show ?case by (simp add: log_ok_def)
next
  case (request t s h ok ec sn s' v)
  from request(2) show ?case
    by (rule evaluate_cases) (use request(3) maybe_log_ok persist_log_ok in metis)
next
  case (challenge t s h cfg skip ec req fld ver s' r)
  then show ?case using canActivate_cases [OF challenge(2)] persist_log_ok by metis
next
  case (add t s h uuid cidr ty reason who s' r)
  then show ?case using addRule_Some [OF add(2)] by (simp add: refresh_log_ok)
next
  case (remove t s h i s')
  then show ?case by (auto simp: removeRule_def intro: refresh_log_ok)
qed

lemma fw_run_cache: "fw_run t s h \<Longrightarrow> cache_ok t s h"
proof (induction rule: fw_run.induct)
  case (start t ok R)
  then show ?case by (auto simp: cache_ok_def onModuleInit_def refreshCache_def CACHE_TTL_MS_def)
next
  case (tick t s h t')
  then show ?case by (auto simp: cache_ok_def)
next
  case (others t s h R)
  then show ?case by (auto simp: cache_ok_def)
next
  case (request t s h ok ec sn s' v)
  from request(2) show ?case
  proof (rule evaluate_cases)
    fix s1
    assume s1: "maybeRefreshCache t ok s = Some s1"
    from maybe_cache_ok [OF request(3) this] have "cache_ok t s1 h" by blast
    moreover assume "s' = s1 \<or> s' = persistBlockedRequest t sn BLACKLISTED_IP ec s1 \<or> s' = persistBlockedRequest t sn BOT_FINGERPRINT ec s1"
    ultimately show ?thesis by (auto simp: cache_ok_def)
  qed
next
  case (challenge t s h cfg skip ec req fld ver s' r)
  then show ?case using canActivate_cases [OF challenge(2)] by (auto simp: cache_ok_def)
next
  case (add t s h uuid cidr ty reason who s' r)
  then show ?case by (auto simp: addRule_def cache_ok_def refreshCache_def Let_def split: if_splits)
next
  case (remove t s h i s')
  then show ?case by (auto simp: removeRule_def cache_ok_def refreshCache_def)
qed

subsection \<open>Properties\<close>

text \<open>What a request gets under a rule table: the allow list first, then the block list, then the user agent.\<close>

definition policy :: "ip_rule list \<Rightarrow> string \<Rightarrow> request_snapshot \<Rightarrow> verdict" where
  "policy rules ec sn =
     (if \<exists>r \<in> set rules. ru_type r = WHITELIST \<and> ipMatchesCidr (sn_ip sn) (ru_cidr r) then Allowed
      else if \<exists>r \<in> set rules. ru_type r = BLACKLIST \<and> ipMatchesCidr (sn_ip sn) (ru_cidr r)
      then Blocked BLACKLISTED_IP ec
      else if isBotUserAgent (sn_userAgent sn) [] then Blocked BOT_FINGERPRINT ec
      else Allowed)"

lemma evaluate_policy:
  "evaluate t ok ec sn s = Some (s', v) \<Longrightarrow>
   \<exists>s1. maybeRefreshCache t ok s = Some s1 \<and> v = policy (fw_cache s1) ec sn"
  by (auto simp: evaluate_def policy_def matches_type_def list_ex_iff block_req_def split: option.splits if_splits)

text \<open>C26: in every run of the service every request is judged by the policy (allow list before block list
  before user agent) under a rule table that was in force at some moment of the last minute,
  whoever changed the table.\<close>

theorem firewall_bounded_staleness:
  assumes "fw_run t s h" and "evaluate t ok ec sn s = Some (s', v)"
  shows "\<exists>t0 R. (t0, R) \<in> set h \<and> t - 60000 \<le> t0 \<and> t0 \<le> t \<and> v = policy R ec sn"
proof -
  from evaluate_policy [OF assms(2)] obtain s1 where
    s1: "maybeRefreshCache t ok s = Some s1" "v = policy (fw_cache s1) ec sn" by blast
  from maybe_cache_ok [OF fw_run_cache [OF assms(1)] s1(1)]
  have "t - 60000 \<le> fw_loadedAt s1" "fw_loadedAt s1 \<le> t" "(fw_loadedAt s1, fw_cache s1) \<in> set h"
    by (auto simp: CACHE_TTL_MS_def cache_ok_def)
  then show ?thesis using s1(2) by blast
qed

definition demo_rule :: ip_rule where
  "demo_rule = \<lparr>ru_id = ''1'', ru_cidr = ''9.9.9.9'', ru_type = BLACKLIST, ru_reason = None, ru_createdBy = None, ru_createdAt = 0\<rparr>"

definition demo_snapshot :: request_snapshot where
  "demo_snapshot = \<lparr>sn_ip = ''9.9.9.9'', sn_method = ''GET'', sn_path = ''/'', sn_userAgent = Some ''Mozilla'',
     sn_headers = [(''authorization'', OneHeader ''Bearer x''), (''origin'', OneHeader ''o'')]\<rparr>"

definition demo_firewall :: firewall where
  "demo_firewall = onModuleInit 70000 True \<lparr>fw_rules = [demo_rule], fw_blocked = [], fw_cache = [], fw_loadedAt = 0\<rparr>"

lemma demo_run: "fw_run 70000 demo_firewall [(70000, [demo_rule])]"
  unfolding demo_firewall_def by (rule fw_run.start) (simp add: CACHE_TTL_MS_def)

lemma demo_blocked: "evaluate 70000 True ''c'' demo_snapshot demo_firewall
    = Some (block_req 70000 ''c'' demo_snapshot BLACKLISTED_IP demo_firewall)"
  by code_simp

theorem firewall_bounded_staleness_witness:
  "\<exists>R. (70000, R) \<in> {(70000, [demo_rule])} \<and> policy R ''c'' demo_snapshot = Blocked BLACKLISTED_IP ''c''"
  using firewall_bounded_staleness [OF demo_run demo_blocked [unfolded block_req_def]] by force

text \<open>In every run the log of blocked requests holds no error code twice, and of a request's headers
  only those of the fixed safe list: never an authorization or cookie header.\<close>

theorem firewall_log_clean:
  assumes "fw_run t s h" and "b \<in> set (fw_blocked s)"
  shows "distinct (map br_errorCode (fw_blocked s)) \<and> set (map fst (br_headers b)) \<subseteq> set SAFE_HEADERS \<and>
    ''authorization'' \<notin> set (map fst (br_headers b)) \<and> ''cookie'' \<notin> set (map fst (br_headers b))"
proof -
  from fw_run_log [OF assms(1)] assms(2)
  have "distinct (map br_errorCode (fw_blocked s))" and sub: "set (map fst (br_headers b)) \<subseteq> set SAFE_HEADERS"
    by (auto simp: log_ok_def)
  moreover have "''authorization'' \<notin> set SAFE_HEADERS" "''cookie'' \<notin> set SAFE_HEADERS"
    by (simp_all add: SAFE_HEADERS_def)
  ultimately show ?thesis by blast
qed

theorem firewall_log_clean_witness:
  "\<exists>b \<in> set (fw_blocked (persistBlockedRequest 70000 demo_snapshot BLACKLISTED_IP ''c'' demo_firewall)).
     ''authorization'' \<notin> set (map fst (br_headers b))"
proof -
  let ?s = "persistBlockedRequest 70000 demo_snapshot BLACKLISTED_IP ''c'' demo_firewall"
  have run: "fw_run 70000 ?s [(70000, [demo_rule])]"
    by (rule fw_run.request [OF demo_run demo_blocked [unfolded block_req_def]])
  obtain b where "b \<in> set (fw_blocked ?s)"
    by (fastforce simp: persistBlockedRequest_def demo_firewall_def onModuleInit_def refreshCache_def)
  with firewall_log_clean [OF run this] show ?thesis by blast
qed

text \<open>A rule added through the service acts at once: the next request from a matching address that no
  allow rule matches is blocked, within the same minute and without any reload.\<close>

theorem firewall_rule_acts_at_once:
  assumes "addRule t uuid cidr BLACKLIST reason who s = Some (s1, r)"
    and "ipMatchesCidr (sn_ip sn) cidr"
    and "\<not> matches_type WHITELIST (sn_ip sn) (fw_rules s)"
    and "t \<le> t'" and "t' \<le> t + 60000"
  shows "\<exists>s2. evaluate t' False ec sn s1 = Some (s2, Blocked BLACKLISTED_IP ec)"
  using addRule_Some [OF assms(1)] assms(2-5)
  by (simp add: evaluate_def maybeRefreshCache_def refreshCache_def CACHE_TTL_MS_def matches_type_snoc block_req_def)

theorem firewall_rule_acts_at_once_witness:
  "\<exists>s2. evaluate 70001 False ''c'' demo_snapshot
      (fst (the (addRule 70000 ''2'' ''9.9.9.9'' BLACKLIST None None (demo_firewall\<lparr>fw_rules := []\<rparr>))))
    = Some (s2, Blocked BLACKLISTED_IP ''c'')"
proof -
  let ?s = "demo_firewall\<lparr>fw_rules := []\<rparr>"
  obtain s1 r where a: "addRule 70000 ''2'' ''9.9.9.9'' BLACKLIST None None ?s = Some (s1, r)"
    by (simp add: addRule_def Let_def)
  have "ipMatchesCidr (sn_ip demo_snapshot) ''9.9.9.9''" by code_simp
  moreover have "\<not> matches_type WHITELIST (sn_ip demo_snapshot) (fw_rules ?s)" by (simp add: matches_type_def)
  ultimately show ?thesis using firewall_rule_acts_at_once [OF a, of demo_snapshot 70001 "''c''"] a by simp
qed

text \<open>The challenge guard lets a request pass exactly when the check is switched off (by the route, the
  setting, or a missing secret), or when a token is present and the verification service does
  not answer ``no''; in particular it lets it pass when the service cannot be reached.\<close>

theorem turnstile_decision:
  "snd (canActivate cfg skip now ec req fld siteverify s) = Inr () \<longleftrightarrow>
     skip \<or> tc_enabled cfg = Some ''false'' \<or> nullish (tc_secretKey cfg) [] = [] \<or>
     (nullish (challenge_token req fld) [] \<noteq> [] \<and>
      siteverify (nullish (challenge_token req fld) []) \<noteq> Some False)"
  by (auto simp: canActivate_def verifyToken_def nullish_def Let_def split: option.splits)

end
