(* ===== verification/EventStore.thy ===== *)
theory EventStore
  imports JsValue Store
begin

text \<open>
  \<^verbatim>\<open>packages/backend/src/event-store\<close>: the append-only event table with its snapshots
  (\<^verbatim>\<open>event-store.service.ts\<close>), the listener that feeds it (\<^verbatim>\<open>event-store.listener.ts\<close>) and
  the range scan over the raw ledger events. The tables are lists in the order of insertion; a
  JSON object as the database keeps it is a finite map. The sequence number is taken from a
  counter when a row is inserted. The clock, the correlation id of the running request and
  whether the database calls succeed are arguments.
\<close>

subsection \<open>Rows\<close>

datatype aggregate_type = CALL | USER | STAKE | PAYOUT | ORACLE | ADMIN

datatype domain_event_type =
    CALL_CREATED | CALL_RESOLVED | STAKE_PLACED | STAKE_WITHDRAWN | PAYOUT_CLAIMED
  | USER_REGISTERED | USER_FOLLOWED | ADMIN_ACTION | ORACLE_SUBMITTED

type_synonym json_map = "string \<rightharpoonup> jval"

record es_event =
  ev_sequence :: nat
  ev_aggregateType :: aggregate_type
  ev_aggregateId :: string
  ev_eventType :: domain_event_type
  ev_payload :: json_map
  ev_metadata :: json_map
  ev_ledgerSequence :: "string option"
  ev_createdAt :: int

record es_snapshot =
  ss_aggregateType :: aggregate_type
  ss_aggregateId :: string
  ss_sequence :: nat
  ss_version :: nat
  ss_state :: json_map

record event_store =
  es_events :: "es_event list"
  es_lastSequence :: nat
  es_snapshots :: "es_snapshot list"

record aggregate_state =
  ag_version :: nat
  ag_lastSequence :: "nat option"
  ag_lastEventType :: "domain_event_type option"
  ag_lastEventAt :: "int option"
  ag_state :: json_map

definition snapshotInterval :: nat where "snapshotInterval = 20"

subsection \<open>Reading\<close>

definition of_aggregate :: "aggregate_type \<Rightarrow> string \<Rightarrow> es_event \<Rightarrow> bool" where
  "of_aggregate ty i e \<longleftrightarrow> ev_aggregateType e = ty \<and> ev_aggregateId e = i"

definition getEvents :: "aggregate_type \<Rightarrow> string \<Rightarrow> event_store \<Rightarrow> es_event list" where
  "getEvents ty i s = sort_key ev_sequence (filter (of_aggregate ty i) (es_events s))"

definition getEventsSince :: "int \<Rightarrow> event_store \<Rightarrow> es_event list" where
  "getEventsSince since s = sort_key ev_sequence (filter (\<lambda>e. since \<le> ev_createdAt e) (es_events s))"

record events_filter =
  ef_aggregateType :: "aggregate_type option"
  ef_aggregateId :: "string option"
  ef_from :: "int option"
  ef_to :: "int option"
  ef_page :: "nat option"
  ef_limit :: "nat option"

definition queryEvents :: "events_filter \<Rightarrow> event_store \<Rightarrow> es_event list \<times> nat" where
  "queryEvents f s =
     (let page = nullish (ef_page f) 1;
          limit = nullish (ef_limit f) 50;
          hits = filter (\<lambda>e.
            (case ef_aggregateType f of None \<Rightarrow> True | Some ty \<Rightarrow> ev_aggregateType e = ty) \<and>
            (nullish (ef_aggregateId f) [] = [] \<or> ev_aggregateId e = nullish (ef_aggregateId f) []) \<and>
            (case ef_from f of None \<Rightarrow> True | Some t \<Rightarrow> t \<le> ev_createdAt e) \<and>
            (case ef_to f of None \<Rightarrow> True | Some t \<Rightarrow> ev_createdAt e \<le> t)) (es_events s)
      in (window ((page - 1) * limit) limit (rev (sort_key ev_sequence hits)), length hits))"

definition findLatestSnapshot :: "aggregate_type \<Rightarrow> string \<Rightarrow> event_store \<Rightarrow> es_snapshot option" where
  "findLatestSnapshot ty i s =
     (case sort_key ss_sequence (filter (\<lambda>n. ss_aggregateType n = ty \<and> ss_aggregateId n = i) (es_snapshots s)) of
        [] \<Rightarrow> None
      | n # ns \<Rightarrow> Some (last (n # ns)))"

text \<open>The events a snapshot, if there is one, does not hold yet.\<close>

definition after_snapshot :: "es_snapshot option \<Rightarrow> es_event \<Rightarrow> bool" where
  "after_snapshot sn e = (case sn of None \<Rightarrow> True | Some n \<Rightarrow> ss_sequence n + 1 \<le> ev_sequence e)"

definition initial_state :: "es_snapshot option \<Rightarrow> aggregate_state" where
  "initial_state sn = (case sn of
      Some n \<Rightarrow> \<lparr>ag_version = ss_version n, ag_lastSequence = Some (ss_sequence n), ag_lastEventType = None,
                 ag_lastEventAt = None, ag_state = ss_state n\<rparr>
    | None \<Rightarrow> \<lparr>ag_version = 0, ag_lastSequence = None, ag_lastEventType = None, ag_lastEventAt = None,
               ag_state = Map.empty\<rparr>)"

definition apply_event :: "aggregate_state \<Rightarrow> es_event \<Rightarrow> aggregate_state" where
  "apply_event st e = st\<lparr>ag_state := ag_state st ++ ev_payload e, ag_lastSequence := Some (ev_sequence e),
     ag_lastEventType := Some (ev_eventType e), ag_lastEventAt := Some (ev_createdAt e),
     ag_version := ag_version st + 1\<rparr>"

definition replayAggregate :: "aggregate_type \<Rightarrow> string \<Rightarrow> event_store \<Rightarrow> aggregate_state" where
  "replayAggregate ty i s =
     (let sn = findLatestSnapshot ty i s;
          events = filter (after_snapshot sn) (getEvents ty i s)
      in foldl apply_event (initial_state sn) events)"

subsection \<open>Appending\<close>

definition maybeSnapshot :: "aggregate_type \<Rightarrow> string \<Rightarrow> event_store \<Rightarrow> event_store" where
  "maybeSnapshot ty i s =
     (let sn = findLatestSnapshot ty i s;
          unsnapshotted = length (filter (after_snapshot sn) (filter (of_aggregate ty i) (es_events s)))
      in if unsnapshotted < snapshotInterval then s
         else
           (let r = replayAggregate ty i s
            in case ag_lastSequence r of
                 None \<Rightarrow> s
               | Some q \<Rightarrow> s\<lparr>es_snapshots := es_snapshots s @
                   [\<lparr>ss_aggregateType = ty, ss_aggregateId = i, ss_sequence = q, ss_version = ag_version r,
                     ss_state = ag_state r\<rparr>]\<rparr>))"

definition is_nullish :: "jval \<Rightarrow> bool" where
  "is_nullish v \<longleftrightarrow> v = JUndef \<or> v = JNull"

datatype ledger_arg = NoLedger | LedgerStr string | LedgerNum nat

definition ledger_text :: "ledger_arg \<Rightarrow> string option" where
  "ledger_text l = (case l of NoLedger \<Rightarrow> None | LedgerStr t \<Rightarrow> Some t | LedgerNum n \<Rightarrow> Some (nat_str n))"

definition event_metadata :: "string option \<Rightarrow> json_map option \<Rightarrow> json_map" where
  "event_metadata running metadata =
     (let m = nullish metadata Map.empty;
          own = nullish (m ''correlationId'') JUndef;
          cid = (if is_nullish own then (case running of None \<Rightarrow> JUndef | Some c \<Rightarrow> JStr c) else own)
      in m(''correlationId'' \<mapsto> (if is_nullish cid then JStr ''unknown'' else cid)))"

text \<open>The row a call inserts; its number is the next one of the counter.\<close>

definition new_event ::
  "int \<Rightarrow> string option \<Rightarrow> nat \<Rightarrow> aggregate_type \<Rightarrow> string \<Rightarrow> domain_event_type \<Rightarrow> json_map \<Rightarrow> json_map option \<Rightarrow> ledger_arg \<Rightarrow> es_event" where
  "new_event now running q ty i evty payload metadata ledger =
     \<lparr>ev_sequence = q, ev_aggregateType = ty, ev_aggregateId = i, ev_eventType = evty, ev_payload = payload,
      ev_metadata = event_metadata running metadata, ev_ledgerSequence = ledger_text ledger, ev_createdAt = now\<rparr>"

definition insert_event :: "es_event \<Rightarrow> event_store \<Rightarrow> event_store" where
  "insert_event e s = s\<lparr>es_events := es_events s @ [e], es_lastSequence := max (es_lastSequence s) (ev_sequence e)\<rparr>"

text \<open>\<open>snap_ok\<close>: no error in the compaction, which would only be logged.\<close>

definition append_event ::
  "int \<Rightarrow> string option \<Rightarrow> bool \<Rightarrow> aggregate_type \<Rightarrow> string \<Rightarrow> domain_event_type \<Rightarrow> json_map \<Rightarrow> json_map option \<Rightarrow> ledger_arg
   \<Rightarrow> event_store \<Rightarrow> event_store \<times> es_event" where
  "append_event now running snap_ok ty i evty payload metadata ledger s =
     (let e = new_event now running (es_lastSequence s + 1) ty i evty payload metadata ledger;
          s1 = insert_event e s
      in (if snap_ok then maybeSnapshot ty i s1 else s1, e))"

subsection \<open>The listener\<close>

definition field :: "json_map \<Rightarrow> string \<Rightarrow> jval" where
  "field p k = nullish (p k) JUndef"

text \<open>
  Which aggregate an event belongs to and which metadata it carries. \<open>str\<close> is \<open>String(v)\<close>.
\<close>

definition user_meta :: "json_map \<Rightarrow> string \<Rightarrow> json_map option" where
  "user_meta p k = Some [''userAddress'' \<mapsto> field p k]"

fun route_event :: "(jval \<Rightarrow> string) \<Rightarrow> domain_event_type \<Rightarrow> json_map \<Rightarrow> aggregate_type \<times> string \<times> json_map option" where
  "route_event str CALL_CREATED p = (CALL, str (field p ''id''), user_meta p ''creatorAddress'')"
| "route_event str CALL_RESOLVED p = (CALL, str (field p ''callId''), None)"
| "route_event str STAKE_PLACED p =
     (STAKE, str (field p ''callId'') @ '':'' @ str (field p ''userAddress''), user_meta p ''userAddress'')"
| "route_event str STAKE_WITHDRAWN p =
     (STAKE, str (field p ''callId'') @ '':'' @ str (field p ''userAddress''), user_meta p ''userAddress'')"
| "route_event str PAYOUT_CLAIMED p =
     (PAYOUT, str (field p ''callId'') @ '':'' @ str (field p ''userAddress''), user_meta p ''userAddress'')"
| "route_event str USER_REGISTERED p = (USER, str (field p ''walletAddress''), user_meta p ''walletAddress'')"
| "route_event str USER_FOLLOWED p = (USER, str (field p ''followingAddress''), user_meta p ''followerAddress'')"
| "route_event str ADMIN_ACTION p =
     (ADMIN, str (field p ''targetResource''),
      Some [''userAddress'' \<mapsto> field p ''actorId'', ''ip'' \<mapsto> field p ''ip'', ''userAgent'' \<mapsto> field p ''userAgent''])"
| "route_event str ORACLE_SUBMITTED p = (ORACLE, str (field p ''callId''), None)"

text \<open>A failed append is logged and dropped.\<close>

definition record_event ::
  "(jval \<Rightarrow> string) \<Rightarrow> int \<Rightarrow> string option \<Rightarrow> bool \<Rightarrow> bool \<Rightarrow> domain_event_type \<Rightarrow> json_map \<Rightarrow> event_store \<Rightarrow> event_store" where
  "record_event str now running db_ok snap_ok evty p s =
     (if db_ok then
        (case route_event str evty p of (ty, i, md) \<Rightarrow>
           fst (append_event now running snap_ok ty i evty p md NoLedger s))
      else s)"

subsection \<open>The scan over the ledger events\<close>

text \<open>A position of the scan, ordered by ledger and then by row id.\<close>

datatype log_pos = LogPos (pos_ledger: nat) (pos_id: nat)

instantiation log_pos :: linorder
begin

definition less_eq_log_pos :: "log_pos \<Rightarrow> log_pos \<Rightarrow> bool" where
  "less_eq_log_pos a b \<longleftrightarrow> pos_ledger a < pos_ledger b \<or> pos_ledger a = pos_ledger b \<and> pos_id a \<le> pos_id b"

definition less_log_pos :: "log_pos \<Rightarrow> log_pos \<Rightarrow> bool" where
  "less_log_pos a b \<longleftrightarrow> pos_ledger a < pos_ledger b \<or> pos_ledger a = pos_ledger b \<and> pos_id a < pos_id b"

instance
  by intro_classes (auto simp: less_eq_log_pos_def less_log_pos_def log_pos.expand)

end

record event_log =
  el_pos :: log_pos      \<comment> \<open>the columns \<open>ledger\<close> and \<open>id\<close>\<close>
  el_contractId :: string
  el_topic0 :: "string option"
  el_data :: jval

record ledger_range_filter =
  lf_contractId :: string
  lf_topic0 :: "string option"
  lf_fromLedger :: nat
  lf_toLedger :: nat
  lf_limit :: "int option"
  lf_after :: "log_pos option"

definition MAX_RANGE_SCAN_LIMIT :: int where "MAX_RANGE_SCAN_LIMIT = 1000"

definition scan_limit :: "ledger_range_filter \<Rightarrow> nat" where
  "scan_limit f = nat (min (max (nullish (lf_limit f) 100) 1) MAX_RANGE_SCAN_LIMIT)"

definition in_range :: "ledger_range_filter \<Rightarrow> event_log \<Rightarrow> bool" where
  "in_range f r \<longleftrightarrow> el_contractId r = lf_contractId f \<and>
     lf_fromLedger f \<le> pos_ledger (el_pos r) \<and> pos_ledger (el_pos r) \<le> lf_toLedger f \<and>
     (nullish (lf_topic0 f) [] = [] \<or> el_topic0 r = lf_topic0 f)"

definition getRawEventsByLedgerRange :: "ledger_range_filter \<Rightarrow> event_log list \<Rightarrow> event_log list" where
  "getRawEventsByLedgerRange f rows =
     (if lf_toLedger f < lf_fromLedger f then []
      else take (scan_limit f) (sort_key el_pos
        (filter (\<lambda>r. in_range f r \<and> (case lf_after f of None \<Rightarrow> True | Some p \<Rightarrow> p < el_pos r)) rows)))"

subsection \<open>Lemmas: folding\<close>

text \<open>What of a state a snapshot keeps.\<close>

definition core :: "aggregate_state \<Rightarrow> nat \<times> nat option \<times> json_map" where
  "core st = (ag_version st, ag_lastSequence st, ag_state st)"

definition full_replay :: "aggregate_type \<Rightarrow> string \<Rightarrow> event_store \<Rightarrow> aggregate_state" where
  "full_replay ty i s = foldl apply_event (initial_state None) (getEvents ty i s)"

lemma core_foldl: "core a = core b \<Longrightarrow> core (foldl apply_event a es) = core (foldl apply_event b es)"
  by (induction es arbitrary: a b) (auto simp: core_def apply_event_def)

lemma last_type_foldl: "es \<noteq> [] \<Longrightarrow>
   ag_lastEventType (foldl apply_event a es) = Some (ev_eventType (last es)) \<and>
   ag_lastEventAt (foldl apply_event a es) = Some (ev_createdAt (last es)) \<and>
   ag_lastSequence (foldl apply_event a es) = Some (ev_sequence (last es))"
  by (induction es rule: rev_induct) (simp_all add: apply_event_def)

lemma sorted_split:
  "sorted_wrt (<) (map f xs) \<Longrightarrow> filter (\<lambda>e. f e \<le> (q::nat)) xs @ filter (\<lambda>e. q < f e) xs = xs"
proof (induction xs)
  case (Cons x xs)
  show ?case
  proof (cases "f x \<le> q")
    case False
    then have "filter (\<lambda>e. f e \<le> q) xs = []" "filter (\<lambda>e. q < f e) xs = xs"
      using Cons.prems by (auto simp: filter_empty_conv filter_id_conv)
    then show ?thesis using False by simp
  qed (use Cons in simp)
qed simp

lemma sorted_last: "sorted_wrt (<) (map f xs) \<Longrightarrow> e \<in> set xs \<Longrightarrow> f e \<le> (f (last xs) :: nat)"
  by (induction xs) (auto simp: less_imp_le)

lemma sorted_wrt_map_filter: "sorted_wrt R (map f xs) \<Longrightarrow> sorted_wrt R (map f (filter P xs))"
  by (simp add: sorted_wrt_map sorted_wrt_filter)

lemma sort_key_sorted: "sorted_wrt (<) (map f xs) \<Longrightarrow> sort_key f xs = (xs :: 'a list)" for f :: "'a \<Rightarrow> nat"
  by (rule sort_key_id_if_sorted) (simp add: strict_sorted_imp_sorted)

subsection \<open>The invariant of the store\<close>

definition rows_of :: "aggregate_type \<Rightarrow> string \<Rightarrow> event_store \<Rightarrow> es_event list" where
  "rows_of ty i s = filter (of_aggregate ty i) (es_events s)"

definition snapshot_ok :: "event_store \<Rightarrow> es_snapshot \<Rightarrow> bool" where
  "snapshot_ok s n \<longleftrightarrow> ss_sequence n \<le> es_lastSequence s \<and>
     core (initial_state (Some n)) = core (foldl apply_event (initial_state None)
       (filter (\<lambda>e. ev_sequence e \<le> ss_sequence n) (rows_of (ss_aggregateType n) (ss_aggregateId n) s)))"

definition es_inv :: "event_store \<Rightarrow> bool" where
  "es_inv s \<longleftrightarrow> sorted_wrt (<) (map ev_sequence (es_events s)) \<and>
     (\<forall>e \<in> set (es_events s). ev_sequence e \<le> es_lastSequence s) \<and>
     (\<forall>n \<in> set (es_snapshots s). snapshot_ok s n)"

lemma getEvents_rows: "es_inv s \<Longrightarrow> getEvents ty i s = rows_of ty i s"
  by (simp add: getEvents_def rows_of_def es_inv_def sort_key_sorted sorted_wrt_map_filter)

lemma rows_sorted: "es_inv s \<Longrightarrow> sorted_wrt (<) (map ev_sequence (rows_of ty i s))"
  by (simp add: rows_of_def es_inv_def sorted_wrt_map_filter)

lemma latest_in:
  assumes "findLatestSnapshot ty i s = Some n"
  shows "n \<in> set (es_snapshots s) \<and> ss_aggregateType n = ty \<and> ss_aggregateId n = i"
proof -
  let ?xs = "sort_key ss_sequence (filter (\<lambda>n. ss_aggregateType n = ty \<and> ss_aggregateId n = i) (es_snapshots s))"
  from assms have "?xs \<noteq> []" "n = last ?xs"
    by (auto simp: findLatestSnapshot_def split: list.splits)
  then have "n \<in> set ?xs" using last_in_set by metis
  then show ?thesis by simp
qed

lemma after_snapshot_simps [simp]:
  "after_snapshot None = (\<lambda>_. True)" "after_snapshot (Some n) = (\<lambda>e. ss_sequence n < ev_sequence e)"
  by (auto simp: after_snapshot_def fun_eq_iff)

lemma replay_core:
  assumes "es_inv s"
  shows "core (replayAggregate ty i s) = core (full_replay ty i s)"
proof (cases "findLatestSnapshot ty i s")
  case None
  then show ?thesis by (simp add: replayAggregate_def full_replay_def Let_def)
next
  case (Some n)
  from latest_in [OF Some] have n: "n \<in> set (es_snapshots s)" "ss_aggregateType n = ty" "ss_aggregateId n = i"
    by auto
  let ?old = "filter (\<lambda>e. ev_sequence e \<le> ss_sequence n) (rows_of ty i s)"
  let ?new = "filter (\<lambda>e. ss_sequence n < ev_sequence e) (rows_of ty i s)"
  have "core (initial_state (Some n)) = core (foldl apply_event (initial_state None) ?old)"
    using assms n by (auto simp: es_inv_def snapshot_ok_def)
  then have "core (foldl apply_event (initial_state (Some n)) ?new)
      = core (foldl apply_event (foldl apply_event (initial_state None) ?old) ?new)"
    by (rule core_foldl)
  also have "\<dots> = core (foldl apply_event (initial_state None) (?old @ ?new))" by simp
  also have "?old @ ?new = rows_of ty i s" by (rule sorted_split [OF rows_sorted [OF assms]])
  finally show ?thesis
    using Some by (simp add: replayAggregate_def full_replay_def getEvents_rows [OF assms] Let_def)
qed

lemma insert_inv [inv_intros]:
  assumes "es_inv s" and "es_lastSequence s < ev_sequence e"
  shows "es_inv (insert_event e s)"
proof -
  have "snapshot_ok (insert_event e s) n" if "snapshot_ok s n" for n
  proof -
    have "\<not> ev_sequence e \<le> ss_sequence n" using that assms(2) by (simp add: snapshot_ok_def)
    then show ?thesis using that by (simp add: snapshot_ok_def insert_event_def rows_of_def)
  qed
  then show ?thesis
    using assms by (auto simp: es_inv_def insert_event_def sorted_wrt_append)
qed

lemma maybeSnapshot_inv [inv_intros]:
  assumes "es_inv s"
  shows "es_inv (maybeSnapshot ty i s)"
proof (cases "maybeSnapshot ty i s = s")
  case True
  with assms show ?thesis by simp
next
  case False
  let ?r = "replayAggregate ty i s" and ?evs = "rows_of ty i s"
  obtain q where q: "ag_lastSequence ?r = Some q" and
    ms: "maybeSnapshot ty i s = s\<lparr>es_snapshots := es_snapshots s @
       [\<lparr>ss_aggregateType = ty, ss_aggregateId = i, ss_sequence = q, ss_version = ag_version ?r, ss_state = ag_state ?r\<rparr>]\<rparr>"
    using False by (auto simp: maybeSnapshot_def Let_def split: if_splits option.splits)
  let ?n = "\<lparr>ss_aggregateType = ty, ss_aggregateId = i, ss_sequence = q, ss_version = ag_version ?r, ss_state = ag_state ?r\<rparr>"
  have fr: "core ?r = core (foldl apply_event (initial_state None) ?evs)"
    using replay_core [OF assms, of ty i] by (simp add: full_replay_def getEvents_rows [OF assms])
  then have "?evs \<noteq> []" using q by (auto simp: core_def initial_state_def)
  then have lq: "q = ev_sequence (last ?evs)" "last ?evs \<in> set ?evs"
    using fr q last_type_foldl [of ?evs "initial_state None"] by (auto simp: core_def)
  then have "filter (\<lambda>e. ev_sequence e \<le> q) ?evs = ?evs"
    using sorted_last [OF rows_sorted [OF assms]] by (auto simp: filter_id_conv)
  moreover have "q \<le> es_lastSequence s"
    using lq assms by (auto simp: es_inv_def rows_of_def)
  ultimately have "snapshot_ok s ?n"
    using fr q by (simp add: snapshot_ok_def core_def initial_state_def)
  then show ?thesis
    using assms unfolding ms by (auto simp: es_inv_def snapshot_ok_def rows_of_def)
qed

lemma append_inv [inv_intros]: "es_inv s \<Longrightarrow> es_inv (fst (append_event now run ok ty i evty p md led s))"
  by (simp add: append_event_def Let_def new_event_def insert_inv maybeSnapshot_inv)

subsection \<open>Runs\<close>

datatype es_op = AppendOp int "string option" bool aggregate_type string domain_event_type json_map "json_map option" ledger_arg
  | ListenOp int "string option" bool bool domain_event_type json_map

fun es_step :: "(jval \<Rightarrow> string) \<Rightarrow> event_store \<Rightarrow> es_op \<Rightarrow> event_store" where
  "es_step str s (AppendOp now run ok ty i evty p md led) = fst (append_event now run ok ty i evty p md led s)"
| "es_step str s (ListenOp now run db ok evty p) = record_event str now run db ok evty p s"

definition es_init :: event_store where
  "es_init = \<lparr>es_events = [], es_lastSequence = 0, es_snapshots = []\<rparr>"

interpretation es_machine: machine "es_step str" es_inv
proof
  show "es_inv s \<Longrightarrow> es_inv (es_step str s e)" for s e
    by (cases e) (auto simp: record_event_def split: prod.split intro: inv_intros)
qed

lemma es_inv_init: "es_inv es_init"
  by (simp add: es_inv_def es_init_def)

lemma maybeSnapshot_events [simp]: "es_events (maybeSnapshot ty i s) = es_events s"
  by (simp add: maybeSnapshot_def Let_def split: option.split)

lemma es_step_prefix: "prefix (es_events s) (es_events (es_step str s e))"
  by (cases e) (auto simp: record_event_def append_event_def insert_event_def Let_def split: prod.split)

subsection \<open>Lemmas: the newest snapshot and the scan\<close>

lemma sorted_key_last: "sorted (map f ys) \<Longrightarrow> x \<in> set ys \<Longrightarrow> f x \<le> f (last ys)"
  by (induction ys) (auto intro: order_trans)

lemma case_last: "xs \<noteq> [] \<Longrightarrow> (case xs of [] \<Rightarrow> None | n # ns \<Rightarrow> Some (last (n # ns))) = Some (last xs)"
  by (cases xs) auto

lemma findLatest_newest:
  assumes "es_snapshots s = ns @ [n]" and "\<forall>m \<in> set ns. ss_sequence m < ss_sequence n"
  shows "findLatestSnapshot (ss_aggregateType n) (ss_aggregateId n) s = Some n"
proof -
  let ?P = "\<lambda>m. ss_aggregateType m = ss_aggregateType n \<and> ss_aggregateId m = ss_aggregateId n"
  let ?ys = "sort_key ss_sequence (filter ?P (es_snapshots s))"
  have n: "n \<in> set ?ys" using assms(1) by simp
  then have "?ys \<noteq> []" by (metis empty_iff list.set(1))
  have "last ?ys \<in> set ?ys" using \<open>?ys \<noteq> []\<close> by (rule last_in_set)
  moreover have "ss_sequence n \<le> ss_sequence (last ?ys)"
    by (rule sorted_key_last [OF sorted_sort_key n])
  ultimately have "last ?ys = n" using assms by auto
  then show ?thesis
    unfolding findLatestSnapshot_def using case_last [OF \<open>?ys \<noteq> []\<close>] by metis
qed

lemma filter_after_take:
  fixes g :: "'a \<Rightarrow> 'b::linorder"
  assumes "sorted_wrt (<) (map g xs)" and "take k xs \<noteq> []"
  shows "filter (\<lambda>r. g (last (take k xs)) < g r) xs = drop k xs"
proof -
  let ?a = "take k xs" and ?b = "drop k xs"
  have w: "sorted_wrt (<) (map g ?a @ map g ?b)"
    using assms(1) by (simp flip: map_append)
  then have "sorted (map g ?a)" by (simp only: sorted_wrt_append strict_sorted_imp_sorted)
  then have "filter (\<lambda>r. g (last ?a) < g r) ?a = []"
    using sorted_key_last [of g ?a] by (auto simp: filter_empty_conv not_less)
  moreover have "filter (\<lambda>r. g (last ?a) < g r) ?b = ?b"
    using w last_in_set [OF assms(2)] by (auto simp: filter_id_conv sorted_wrt_append)
  ultimately have "filter (\<lambda>r. g (last ?a) < g r) (?a @ ?b) = ?b" by (simp only: filter_append append_Nil)
  then show ?thesis by simp
qed

text \<open>A caller that follows the cursor: page after page until one is empty.\<close>

fun scan_pages :: "nat \<Rightarrow> ledger_range_filter \<Rightarrow> event_log list \<Rightarrow> event_log list" where
  "scan_pages 0 f rows = []"
| "scan_pages (Suc n) f rows =
     (let page = getRawEventsByLedgerRange f rows
      in if page = [] then [] else page @ scan_pages n (f\<lparr>lf_after := Some (el_pos (last page))\<rparr>) rows)"

definition range_rows :: "ledger_range_filter \<Rightarrow> event_log list \<Rightarrow> event_log list" where
  "range_rows f rows = sort_key el_pos (filter (in_range f) rows)"

definition after_pos :: "log_pos option \<Rightarrow> event_log \<Rightarrow> bool" where
  "after_pos x r = (case x of None \<Rightarrow> True | Some p \<Rightarrow> p < el_pos r)"

lemma in_range_after [simp]: "in_range (f\<lparr>lf_after := x\<rparr>) = in_range f"
  by (simp add: in_range_def fun_eq_iff)

lemma scan_limit_after [simp]: "scan_limit (f\<lparr>lf_after := x\<rparr>) = scan_limit f"
  by (simp add: scan_limit_def)

lemma scan_limit_pos: "0 < scan_limit f"
  by (simp add: scan_limit_def MAX_RANGE_SCAN_LIMIT_def)

lemma range_rows_after [simp]: "range_rows (f\<lparr>lf_after := x\<rparr>) rows = range_rows f rows"
  by (simp add: range_rows_def)

lemma range_page:
  "\<not> lf_toLedger f < lf_fromLedger f \<Longrightarrow> getRawEventsByLedgerRange f rows =
     take (scan_limit f) (filter (after_pos (lf_after f)) (range_rows f rows))"
  by (simp add: getRawEventsByLedgerRange_def range_rows_def filter_sort after_pos_def conj_commute)

lemma range_rows_sorted:
  assumes "distinct (map el_pos rows)"
  shows "sorted_wrt (<) (map el_pos (range_rows f rows))"
proof -
  have "distinct (map el_pos (filter (in_range f) rows))" using assms by (rule distinct_map_filter)
  then have "distinct (map el_pos (range_rows f rows))"
    by (simp add: range_rows_def distinct_map)
  then show ?thesis by (simp add: strict_sorted_iff range_rows_def)
qed

lemma scan_pages_rest:
  assumes "distinct (map el_pos rows)" and "\<not> lf_toLedger f < lf_fromLedger f"
    and "length (filter (after_pos (lf_after f)) (range_rows f rows)) < fuel"
  shows "scan_pages fuel f rows = filter (after_pos (lf_after f)) (range_rows f rows)"
  using assms
proof (induction fuel arbitrary: f)
  case (Suc fuel)
  let ?rest = "filter (after_pos (lf_after f)) (range_rows f rows)"
  let ?page = "take (scan_limit f) ?rest"
  note page = range_page [OF Suc.prems(2), of rows]
  show ?case
  proof (cases "?page = []")
    case True
    then show ?thesis using scan_limit_pos [of f] page by (auto simp: Let_def)
  next
    case False
    let ?p = "el_pos (last ?page)"
    have rs: "sorted_wrt (<) (map el_pos ?rest)"
      by (rule sorted_wrt_map_filter [OF range_rows_sorted [OF Suc.prems(1)]])
    have "last ?page \<in> set ?rest" using last_in_set [OF False] in_set_takeD by metis
    then have ap: "after_pos (lf_after f) (last ?page)" by simp
    have "filter (\<lambda>r. ?p < el_pos r) ?rest = drop (scan_limit f) ?rest"
      by (rule filter_after_take [OF rs False])
    moreover have "filter (\<lambda>r. ?p < el_pos r) ?rest = filter (after_pos (Some ?p)) (range_rows f rows)"
      unfolding filter_filter using ap
      by (intro filter_cong) (auto simp: after_pos_def split: option.splits)
    ultimately have nxt: "filter (after_pos (Some ?p)) (range_rows f rows) = drop (scan_limit f) ?rest" by simp
    have "length (drop (scan_limit f) ?rest) < fuel"
      using Suc.prems(3) scan_limit_pos [of f] False by (cases ?rest) auto
    then have "scan_pages fuel (f\<lparr>lf_after := Some ?p\<rparr>) rows = drop (scan_limit f) ?rest"
      using Suc.IH [of "f\<lparr>lf_after := Some ?p\<rparr>"] Suc.prems nxt by simp
    then show ?thesis using False by (simp add: page Let_def)
  qed
qed simp

subsection \<open>Properties\<close>

text \<open>C14: after any sequence of appends, direct or through the listener, with or without failing
  compactions, replaying an aggregate from its latest snapshot gives the same version, last
  sequence and state as folding its whole event stream from the beginning.\<close>

theorem es_replay_is_full_fold:
  "let s = foldl (es_step str) es_init ops; r = replayAggregate ty i s; a = full_replay ty i s
   in ag_version r = ag_version a \<and> ag_lastSequence r = ag_lastSequence a \<and> ag_state r = ag_state a"
  using replay_core [OF es_machine.run_inv [OF es_inv_init], of ty i str ops]
  by (simp add: Let_def core_def)

text \<open>The event table is append-only and totally ordered: after any sequence of calls its sequence
  numbers increase strictly, and a further call leaves every stored row as it is.\<close>

theorem es_append_only:
  "let s = foldl (es_step str) es_init ops
   in sorted_wrt (<) (map ev_sequence (es_events s)) \<and> prefix (es_events s) (es_events (es_step str s op))"
  using es_machine.run_inv [OF es_inv_init, of str ops] es_step_prefix
  by (simp add: Let_def es_inv_def)

text \<open>The append that triggers a snapshot makes the replayed aggregate forget its last event: right
  after it, the replay has no last event type and no last event time, although its last
  sequence is that of the event just appended.\<close>

theorem es_snapshot_forgets:
  assumes "s = foldl (es_step str) es_init ops"
    and "length (filter (after_snapshot (findLatestSnapshot ty i s)) (rows_of ty i s)) = 19"
  shows "let r = replayAggregate ty i (fst (append_event now run True ty i evty p md led s))
    in ag_lastEventType r = None \<and> ag_lastEventAt r = None \<and> ag_lastSequence r = Some (es_lastSequence s + 1)"
proof -
  define e where "e = new_event now run (es_lastSequence s + 1) ty i evty p md led"
  define s1 where "s1 = insert_event e s"
  have inv: "es_inv s" unfolding assms(1) by (rule es_machine.run_inv [OF es_inv_init])
  have e: "ev_sequence e = es_lastSequence s + 1" "of_aggregate ty i e"
    by (simp_all add: e_def new_event_def of_aggregate_def)
  have inv1: "es_inv s1" unfolding s1_def using inv e by (intro insert_inv) simp_all
  have snaps: "es_snapshots s1 = es_snapshots s" by (simp add: s1_def insert_event_def)
  then have latest: "findLatestSnapshot ty i s1 = findLatestSnapshot ty i s"
    by (simp add: findLatestSnapshot_def)
  have rows1: "rows_of ty i s1 = rows_of ty i s @ [e]"
    using e by (simp add: s1_def rows_of_def insert_event_def)
  have old: "ss_sequence n < ev_sequence e" if "n \<in> set (es_snapshots s)" for n
    using that inv e(1) by (fastforce simp: es_inv_def snapshot_ok_def)
  have "after_snapshot (findLatestSnapshot ty i s) e"
    using old latest_in [of ty i s] by (cases "findLatestSnapshot ty i s") auto
  then have cnt: "length (filter (after_snapshot (findLatestSnapshot ty i s1)) (filter (of_aggregate ty i) (es_events s1))) = 20"
    using assms(2) rows1 by (simp add: latest flip: rows_of_def)
  have "core (replayAggregate ty i s1) = core (foldl apply_event (initial_state None) (rows_of ty i s1))"
    using replay_core [OF inv1, of ty i] by (simp add: full_replay_def getEvents_rows [OF inv1])
  then have q: "ag_lastSequence (replayAggregate ty i s1) = Some (ev_sequence e)"
    using last_type_foldl [of "rows_of ty i s1" "initial_state None"] by (simp add: core_def rows1)
  define n where "n = \<lparr>ss_aggregateType = ty, ss_aggregateId = i, ss_sequence = ev_sequence e,
    ss_version = ag_version (replayAggregate ty i s1), ss_state = ag_state (replayAggregate ty i s1)\<rparr>"
  define s2 where "s2 = maybeSnapshot ty i s1"
  have "s2 = s1\<lparr>es_snapshots := es_snapshots s1 @ [n]\<rparr>"
    unfolding s2_def maybeSnapshot_def Let_def cnt snapshotInterval_def q n_def by simp
  then have s2: "es_snapshots s2 = es_snapshots s @ [n]" "es_events s2 = es_events s1"
    by (simp_all add: snaps)
  have inv2: "es_inv s2" unfolding s2_def by (rule maybeSnapshot_inv [OF inv1])
  have "findLatestSnapshot ty i s2 = Some n"
    using findLatest_newest [OF s2(1)] old by (simp add: n_def)
  moreover have "filter (\<lambda>x. ss_sequence n < ev_sequence x) (getEvents ty i s2) = []"
    using sorted_last [OF rows_sorted [OF inv1, of ty i]] s2(2)
    by (fastforce simp: getEvents_rows [OF inv2] filter_empty_conv n_def rows_of_def [of ty i s2]
        rows_of_def [of ty i s1, symmetric] rows1 not_less)
  ultimately have "replayAggregate ty i s2 = initial_state (Some n)"
    by (simp add: replayAggregate_def Let_def)
  moreover have "fst (append_event now run True ty i evty p md led s) = s2"
    by (simp add: append_event_def Let_def s2_def s1_def e_def)
  ultimately show ?thesis using e(1) by (simp add: Let_def initial_state_def n_def)
qed

definition demo_ops :: "es_op list" where
  "demo_ops = replicate 19 (AppendOp 5 None False CALL ''1'' CALL_CREATED Map.empty None NoLedger)"

theorem es_snapshot_forgets_witness:
  "ag_lastEventType (replayAggregate CALL ''1'' (fst (append_event 6 None True CALL ''1'' CALL_RESOLVED Map.empty None NoLedger
     (foldl (es_step (\<lambda>_. [])) es_init demo_ops)))) = None"
proof -
  have "findLatestSnapshot CALL ''1'' (foldl (es_step (\<lambda>_. [])) es_init demo_ops) = None"
    by code_simp
  moreover have "length (rows_of CALL ''1'' (foldl (es_step (\<lambda>_. [])) es_init demo_ops)) = 19"
    by code_simp
  ultimately show ?thesis
    using es_snapshot_forgets [OF refl, of CALL "''1''" "\<lambda>_. []" demo_ops 6 None CALL_RESOLVED Map.empty None NoLedger]
    by (simp add: Let_def)
qed

text \<open>An event whose number was drawn before a snapshot but which is inserted after it (its transaction
  committed later) is in the event table and never in a replay: the snapshot's high-water mark has
  passed its number.\<close>

theorem es_late_event_lost:
  assumes "findLatestSnapshot ty i s = Some n"
    and "ev_aggregateType e = ty" and "ev_aggregateId e = i" and "ev_sequence e \<le> ss_sequence n"
  shows "replayAggregate ty i (insert_event e s) = replayAggregate ty i s \<and>
    length (getEvents ty i (insert_event e s)) = length (getEvents ty i s) + 1"
proof -
  have "findLatestSnapshot ty i (insert_event e s) = Some n"
    using assms(1) by (simp add: findLatestSnapshot_def insert_event_def)
  moreover have "filter (\<lambda>x. ss_sequence n < ev_sequence x) (getEvents ty i (insert_event e s))
      = filter (\<lambda>x. ss_sequence n < ev_sequence x) (getEvents ty i s)"
    using assms(4) by (simp add: getEvents_def insert_event_def filter_sort)
  ultimately show ?thesis
    using assms by (simp add: replayAggregate_def Let_def)
      (simp add: getEvents_def insert_event_def of_aggregate_def)
qed

theorem es_late_event_lost_witness:
  "let n = \<lparr>ss_aggregateType = CALL, ss_aggregateId = ''1'', ss_sequence = 21, ss_version = 20, ss_state = Map.empty\<rparr>;
       s = es_init\<lparr>es_snapshots := [n], es_lastSequence := 21\<rparr>;
       e = new_event 5 None 1 CALL ''1'' CALL_CREATED [''title'' \<mapsto> JStr ''t''] None NoLedger
   in ag_state (replayAggregate CALL ''1'' (insert_event e s)) ''title'' = None"
proof -
  define n where "n = \<lparr>ss_aggregateType = CALL, ss_aggregateId = ''1'', ss_sequence = 21, ss_version = 20, ss_state = Map.empty\<rparr>"
  define s where "s = es_init\<lparr>es_snapshots := [n], es_lastSequence := 21\<rparr>"
  define e where "e = new_event 5 None 1 CALL ''1'' CALL_CREATED [''title'' \<mapsto> JStr ''t''] None NoLedger"
  have l: "findLatestSnapshot CALL ''1'' s = Some n"
    by (simp add: findLatestSnapshot_def s_def n_def)
  have "replayAggregate CALL ''1'' (insert_event e s) = replayAggregate CALL ''1'' s"
    using es_late_event_lost [OF l, of e] by (simp add: e_def n_def new_event_def)
  moreover have "ag_state (replayAggregate CALL ''1'' s) ''title'' = None"
    using l by (simp add: replayAggregate_def Let_def initial_state_def getEvents_def s_def es_init_def n_def)
  ultimately show ?thesis by (simp add: Let_def n_def s_def e_def)
qed

text \<open>Following the cursor of the range scan, page by page, returns every matching ledger event of the
  range exactly once, in order of ledger and id, whatever the page size; one call more than there
  are matching rows is enough.\<close>

theorem range_scan_complete:
  assumes "distinct (map el_pos rows)" and "lf_after f = None" and "lf_fromLedger f \<le> lf_toLedger f"
    and "length rows < calls"
  shows "scan_pages calls f rows = sort_key el_pos (filter (in_range f) rows)"
proof -
  have "length (range_rows f rows) < calls"
    using le_less_trans [OF length_filter_le assms(4)] by (simp add: range_rows_def)
  then show ?thesis
    using scan_pages_rest [OF assms(1), of f calls] assms(2,3)
    by (simp add: after_pos_def range_rows_def not_less)
qed

definition demo_log :: "nat \<Rightarrow> nat \<Rightarrow> event_log" where
  "demo_log l i = \<lparr>el_pos = LogPos l i, el_contractId = ''C'', el_topic0 = None, el_data = JNull\<rparr>"

definition demo_filter :: ledger_range_filter where
  "demo_filter = \<lparr>lf_contractId = ''C'', lf_topic0 = None, lf_fromLedger = 5, lf_toLedger = 9, lf_limit = Some 1, lf_after = None\<rparr>"

theorem range_scan_complete_witness:
  "scan_pages 5 demo_filter [demo_log 7 2, demo_log 4 9, demo_log 7 1, demo_log 5 3]
   = [demo_log 5 3, demo_log 7 1, demo_log 7 2]"
proof -
  have "scan_pages 5 demo_filter [demo_log 7 2, demo_log 4 9, demo_log 7 1, demo_log 5 3]
      = sort_key el_pos (filter (in_range demo_filter) [demo_log 7 2, demo_log 4 9, demo_log 7 1, demo_log 5 3])"
    by (rule range_scan_complete) (simp_all add: demo_log_def demo_filter_def)
  also have "\<dots> = [demo_log 5 3, demo_log 7 1, demo_log 7 2]"
    by (simp add: demo_log_def demo_filter_def in_range_def less_eq_log_pos_def)
  finally show ?thesis .
qed

end
