(* ===== verification/Amounts.thy ===== *)
theory Amounts
  imports JsNumber
begin

text \<open>
  \<^verbatim>\<open>packages/frontend/src/lib/backend/amounts.ts\<close> and
  \<^verbatim>\<open>packages/frontend/src/lib/stellar/format.ts\<close>: money as an integer number of stroops, its
  parsing from and printing to decimal text, exact division, and the text of the amount field.
  A \<open>bigint\<close> is an \<open>int\<close>; its division truncates toward zero.
\<close>

definition ASSET_DECIMALS :: nat where "ASSET_DECIMALS = 7"
definition SCALE :: int where "SCALE = 10 ^ ASSET_DECIMALS"

datatype amount_error = AmountFormatError | DivisionByZero

text \<open>\<open>a / b\<close> on \<open>bigint\<close>.\<close>

definition big_div :: "int \<Rightarrow> int \<Rightarrow> int" where
  "big_div a b = sgn a * sgn b * (\<bar>a\<bar> div \<bar>b\<bar>)"

subsection \<open>Parsing and printing\<close>

text \<open>\<^verbatim>\<open>/^-?\d+(\.\d+)?$/\<close>.\<close>

definition decimal_ok :: "string \<Rightarrow> bool" where
  "decimal_ok s =
     (let t = (if starts_with s ''-'' then drop 1 s else s);
          rest = dropWhile is_digit t
      in takeWhile is_digit t \<noteq> [] \<and>
         (rest = [] \<or> hd rest = CHR ''.'' \<and> tl rest \<noteq> [] \<and> list_all is_digit (tl rest)))"

definition toStroops :: "string \<Rightarrow> amount_error + int" where
  "toStroops value =
     (let trimmed = js_trim value
      in if \<not> decimal_ok trimmed then Inl AmountFormatError
         else
           (let negative = starts_with trimmed ''-'';
                parts = split_on (CHR ''.'') (if negative then drop 1 trimmed else trimmed);
                whole = parts ! 0;
                fraction = (if length parts > 1 then parts ! 1 else []);
                padded = take ASSET_DECIMALS (fraction @ replicate ASSET_DECIMALS (CHR ''0''));
                stroops = int (digits_val whole) * SCALE + int (digits_val padded)
            in Inr (if negative then - stroops else stroops)))"

definition fromStroops :: "int \<Rightarrow> string" where
  "fromStroops stroops =
     (let a = \<bar>stroops\<bar>
      in (if stroops < 0 then ''-'' else []) @ nat_str (nat (a div SCALE)) @ ''.''
           @ pad_start ASSET_DECIMALS (CHR ''0'') (nat_str (nat (a mod SCALE))))"

text \<open>
  \<open>x.toFixed(7)\<close>: the nearest multiple, the larger one of two; a number of 22 digits or more is
  printed with an exponent.
\<close>

definition to_fixed7 :: "rat \<Rightarrow> string" where
  "to_fixed7 x =
     (let a = \<bar>x\<bar>
      in if a \<ge> 10 ^ 21 then ''e''
         else
           (let n = nat \<lfloor>a * 10 ^ 7 + 1 / 2\<rfloor>
            in (if x < 0 then ''-'' else []) @ nat_str (n div 10 ^ 7) @ ''.''
                 @ pad_start 7 (CHR ''0'') (nat_str (n mod 10 ^ 7))))"

definition amountFromApi :: "jval \<Rightarrow> amount_error + int" where
  "amountFromApi value = (case value of
      JBig i \<Rightarrow> Inr i
    | JStr s \<Rightarrow> toStroops s
    | JNum n \<Rightarrow> (case n of Fin x \<Rightarrow> toStroops (to_fixed7 x) | _ \<Rightarrow> Inl AmountFormatError)
    | JNull \<Rightarrow> Inr 0
    | JUndef \<Rightarrow> Inr 0
    | _ \<Rightarrow> Inl AmountFormatError)"

definition optionalAmountFromApi :: "jval \<Rightarrow> amount_error + int option" where
  "optionalAmountFromApi value = (case value of
      JNull \<Rightarrow> Inr None
    | JUndef \<Rightarrow> Inr None
    | _ \<Rightarrow> map_sum id Some (amountFromApi value))"

definition sumStroops :: "int list \<Rightarrow> int" where
  "sumStroops values = foldl (\<lambda>total v. total + v) 0 values"

subsection \<open>Division and display\<close>

definition divideToDecimalString :: "int \<Rightarrow> int \<Rightarrow> nat \<Rightarrow> amount_error + string" where
  "divideToDecimalString numerator denominator decimals =
     (if denominator = 0 then Inl DivisionByZero
      else
        (let factor = 10 ^ decimals;
             scaled = big_div (numerator * factor) denominator;
             a = \<bar>scaled\<bar>
         in Inr ((if scaled < 0 then ''-'' else []) @ nat_str (nat (a div factor))
              @ (if decimals > 0 then ''.'' @ pad_start decimals (CHR ''0'') (nat_str (nat (a mod factor)))
                 else []))))"

text \<open>The digits in groups of three from the right; the argument is reversed.\<close>

fun group3 :: "string \<Rightarrow> string" where
  "group3 (a # b # c # d # r) = a # b # c # CHR '','' # group3 (d # r)"
| "group3 s = s"

definition formatAmount :: "int \<Rightarrow> nat \<Rightarrow> bool \<Rightarrow> amount_error + string" where
  "formatAmount stroops decimals grouping =
     (case divideToDecimalString stroops SCALE decimals of
        Inl e \<Rightarrow> Inl e
      | Inr rendered \<Rightarrow>
          if \<not> grouping then Inr rendered
          else
            (let parts = split_on (CHR ''.'') rendered;
                 whole = parts ! 0;
                 fraction = (if length parts > 1 then parts ! 1 else []);
                 negative = starts_with whole ''-'';
                 digits = (if negative then drop 1 whole else whole)
             in Inr ((if negative then ''-'' else []) @ rev (group3 (rev digits))
                  @ (if fraction = [] then [] else ''.'' @ fraction))))"

definition stroopsToNumber :: "int \<Rightarrow> amount_error + jsnum" where
  "stroopsToNumber stroops = map_sum id js_number (divideToDecimalString stroops SCALE ASSET_DECIMALS)"

definition STAKE_DISPLAY_DECIMALS :: nat where "STAKE_DISPLAY_DECIMALS = 2"
definition XLM_DISPLAY_DECIMALS :: nat where "XLM_DISPLAY_DECIMALS = 4"

definition formatStakeAmount :: "int \<Rightarrow> amount_error + string" where
  "formatStakeAmount stroops = formatAmount stroops STAKE_DISPLAY_DECIMALS True"

definition formatXlmAmount :: "int \<Rightarrow> amount_error + string" where
  "formatXlmAmount stroops = formatAmount stroops XLM_DISPLAY_DECIMALS True"

subsection \<open>The amount field\<close>

text \<open>\<open>replace(/0+$/, '')\<close> and \<open>replace(/\.$/, '')\<close>.\<close>

definition drop_zeros :: "string \<Rightarrow> string" where
  "drop_zeros s = rev (dropWhile (\<lambda>c. c = CHR ''0'') (rev s))"

definition drop_point :: "string \<Rightarrow> string" where
  "drop_point s = (if s \<noteq> [] \<and> last s = CHR ''.'' then butlast s else s)"

definition trimTrailingZeros :: "string \<Rightarrow> string" where
  "trimTrailingZeros decimal =
     (if CHR ''.'' \<notin> set decimal then decimal
      else
        (let trimmed = drop_point (drop_zeros decimal)
         in if trimmed = [] \<or> trimmed = ''-'' then ''0'' else trimmed))"

definition toAmountInputValue :: "int \<Rightarrow> string" where
  "toAmountInputValue stroops = trimTrailingZeros (fromStroops stroops)"

definition sanitizeAmountInput :: "string \<Rightarrow> string" where
  "sanitizeAmountInput raw =
     (case split_on (CHR ''.'') (filter (\<lambda>c. is_digit c \<or> c = CHR ''.'') raw) of
        [] \<Rightarrow> []
      | whole # rest \<Rightarrow>
          if rest = [] then whole
          else (if whole = [] then ''0'' else whole) @ ''.'' @ take ASSET_DECIMALS (concat rest))"

subsection \<open>Lemmas: decimal text\<close>

lemma digits_no_point: "list_all is_digit s \<Longrightarrow> CHR ''.'' \<notin> set s" "list_all is_digit s \<Longrightarrow> CHR ''-'' \<notin> set s"
  by (auto simp: list_all_iff is_digit_def code_def)

lemma all_digits_nat_str: "list_all is_digit (nat_str n)"
  using nat_str_digits by (auto simp: list_all_iff)

lemma digit_zero [simp]: "is_digit (CHR ''0'')"
  by (simp add: is_digit_def code_def)

lemma all_digits_pad: "list_all is_digit s \<Longrightarrow> list_all is_digit (pad_start n (CHR ''0'') s)"
  by (auto simp: pad_start_def list_all_iff)

lemma digits_val_pad [simp]: "digits_val (pad_start n (CHR ''0'') s) = digits_val s"
  by (simp add: pad_start_def digits_val_append)

text \<open>The stroops of a text \<open>whole.fraction\<close>, and of a text without a point.\<close>

definition decimal_value :: "string \<Rightarrow> string \<Rightarrow> int" where
  "decimal_value w f = int (digits_val w) * SCALE
     + int (digits_val (take ASSET_DECIMALS (f @ replicate ASSET_DECIMALS (CHR ''0''))))"

definition sign_text :: "bool \<Rightarrow> string" where
  "sign_text neg = (if neg then ''-'' else [])"

lemma big_div_nonneg: "0 \<le> a \<Longrightarrow> 0 < b \<Longrightarrow> big_div a b = a div b"
  by (cases "a = 0") (simp_all add: big_div_def)

text \<open>Evaluation of concrete amounts.\<close>

lemma seven_zeros: "replicate 7 (CHR ''0'') = ''0000000''" "replicate 6 (CHR ''0'') = ''000000''"
  by (simp_all add: eval_nat_numeral)

lemmas decimal_value_digits = decimal_value_def seven_zeros digits_val_def digit_val_def is_digit_def code_def
  SCALE_def ASSET_DECIMALS_def

lemma digit_hd_props: "list_all is_digit w \<Longrightarrow> w \<noteq> [] \<Longrightarrow> is_digit (hd w) \<and> is_digit (last w)"
  by (auto simp: list_all_iff)

lemma starts_with_digit: "list_all is_digit w \<Longrightarrow> w \<noteq> [] \<Longrightarrow> \<not> starts_with (w @ r) ''-''"
  by (cases w) (auto simp: starts_with_def is_digit_def code_def)

lemma starts_with_minus [simp]: "starts_with (CHR ''-'' # s) ''-''"
  by (simp add: starts_with_def)

lemma minus_not_space: "\<not> is_space (CHR ''-'')"
  by (simp add: is_space_def code_def)

lemma toStroops_signed:
  assumes w: "list_all is_digit w" "w \<noteq> []" and r: "r = [] \<or> (\<exists>f. r = CHR ''.'' # f \<and> f \<noteq> [] \<and> list_all is_digit f)"
  shows "toStroops (sign_text neg @ w @ r) =
    Inr (if neg then - decimal_value w (tl r) else decimal_value w (tl r))"
proof -
  let ?t = "sign_text neg @ w @ r"
  have dw: "is_digit (hd w)" using digit_hd_props [OF w] by blast
  have "hd ?t = (if neg then CHR ''-'' else hd w)" using w by (simp add: sign_text_def)
  moreover have "is_digit (last ?t)" using r w digit_hd_props by (auto simp: list_all_iff)
  ultimately have trim: "js_trim ?t = ?t"
    using dw minus_not_space w by (intro js_trim_id) (auto simp: digit_not_space)
  have neg: "starts_with ?t ''-'' \<longleftrightarrow> neg" using starts_with_digit [OF w] by (simp add: sign_text_def)
  have tw: "takeWhile is_digit (w @ r) = w" "dropWhile is_digit (w @ r) = r"
    using w r by (auto simp: list_all_iff takeWhile_append dropWhile_append is_digit_def code_def)
  have body: "(if neg then drop 1 ?t else ?t) = w @ r" by (simp add: sign_text_def)
  have ok: "decimal_ok ?t"
    unfolding decimal_ok_def neg body Let_def tw using w r by auto
  have "split_on (CHR ''.'') (w @ r) = (if r = [] then [w] else [w, tl r])"
    using r digits_no_point(1) [OF w(1)] digits_no_point(1) by (auto simp: split_on_notin split_on_append)
  then show ?thesis
    unfolding toStroops_def trim Let_def neg body using ok r by (auto simp: decimal_value_def)
qed

lemma toStroops_point:
  assumes "list_all is_digit w" "w \<noteq> []" "list_all is_digit f" "f \<noteq> []"
  shows "toStroops (sign_text neg @ w @ CHR ''.'' # f) = Inr (if neg then - decimal_value w f else decimal_value w f)"
  using toStroops_signed [OF assms(1,2), of "CHR ''.'' # f" neg] assms(3,4) by simp

lemma SCALE_pos: "0 < SCALE" by (simp add: SCALE_def)

lemma fromStroops_eq:
  "fromStroops x = sign_text (x < 0) @ nat_str (nat (\<bar>x\<bar> div SCALE)) @ CHR ''.'' #
     pad_start ASSET_DECIMALS (CHR ''0'') (nat_str (nat (\<bar>x\<bar> mod SCALE)))"
  by (simp add: fromStroops_def Let_def sign_text_def)

lemma frac_length: "length (pad_start 7 (CHR ''0'') (nat_str (nat (\<bar>x\<bar> mod SCALE)))) = 7"
proof -
  have "nat (\<bar>x\<bar> mod SCALE) < 10 ^ 7" using pos_mod_bound [OF SCALE_pos, of "\<bar>x\<bar>"] SCALE_pos
    by (simp add: SCALE_def ASSET_DECIMALS_def nat_less_iff)
  then have "length (nat_str (nat (\<bar>x\<bar> mod SCALE))) \<le> 7" by (rule nat_str_length_bound) simp
  then show ?thesis by simp
qed

lemma decimal_value_split:
  "decimal_value (nat_str (nat (\<bar>x\<bar> div SCALE))) (pad_start ASSET_DECIMALS (CHR ''0'') (nat_str (nat (\<bar>x\<bar> mod SCALE)))) = \<bar>x\<bar>"
proof -
  have "0 \<le> \<bar>x\<bar> div SCALE" "0 \<le> \<bar>x\<bar> mod SCALE"
    using SCALE_pos by (simp_all add: pos_imp_zdiv_nonneg_iff)
  then show ?thesis using frac_length [of x]
    by (simp add: decimal_value_def ASSET_DECIMALS_def mult_div_mod_eq mult.commute)
qed

subsection \<open>Lemmas: trailing zeros\<close>

lemma drop_zeros_append:
  "drop_zeros (a @ b) = (if \<forall>c \<in> set b. c = CHR ''0'' then drop_zeros a else a @ drop_zeros b)"
  by (auto simp: drop_zeros_def dropWhile_append)

lemma drop_zeros_restore: "drop_zeros s @ replicate (length s - length (drop_zeros s)) (CHR ''0'') = s"
proof -
  let ?z = "takeWhile (\<lambda>c. c = CHR ''0'') (rev s)"
  have "rev s = ?z @ dropWhile (\<lambda>c. c = CHR ''0'') (rev s)" by simp
  then have s: "s = drop_zeros s @ rev ?z" unfolding drop_zeros_def by (metis rev_append rev_rev_ident)
  have "\<forall>c \<in> set (rev ?z). c = CHR ''0''" using set_takeWhileD by fastforce
  then have "rev ?z = replicate (length (rev ?z)) (CHR ''0'')" by (intro replicate_eqI) auto
  moreover have "length (rev ?z) = length s - length (drop_zeros s)"
    using arg_cong [OF s, of length] by simp
  ultimately show ?thesis using s by metis
qed

lemma drop_zeros_Nil_iff: "drop_zeros s = [] \<longleftrightarrow> (\<forall>c \<in> set s. c = CHR ''0'')"
  by (simp add: drop_zeros_def)

lemma drop_zeros_subset: "set (drop_zeros s) \<subseteq> set s"
  by (auto simp: drop_zeros_def dest: set_dropWhileD)

lemma take_refill:
  assumes "length f = n"
  shows "take n (drop_zeros f @ replicate n (CHR ''0'')) = f"
proof -
  let ?k = "n - length (drop_zeros f)"
  have "length (drop_zeros f) \<le> n" using assms drop_zeros_restore [of f] by (metis length_append le_add1)
  then have "take n (drop_zeros f @ replicate n (CHR ''0'')) = drop_zeros f @ replicate ?k (CHR ''0'')"
    by (simp add: min_def)
  then show ?thesis using drop_zeros_restore [of f] assms by simp
qed

lemma trim_text:
  assumes w: "list_all is_digit w" "w \<noteq> []" and f: "list_all is_digit f"
  shows "trimTrailingZeros (sign_text neg @ w @ CHR ''.'' # f) =
    sign_text neg @ w @ (if drop_zeros f = [] then [] else CHR ''.'' # drop_zeros f)"
proof -
  let ?s = "sign_text neg @ w @ CHR ''.'' # f"
  have nw: "sign_text neg @ w \<noteq> []" "sign_text neg @ w \<noteq> ''-''"
    using w by (cases neg; cases w; auto simp: sign_text_def is_digit_def code_def)+
  have lw: "last (sign_text neg @ w) \<noteq> CHR ''.''"
    using w digits_no_point(1) [OF w(1)] last_in_set [OF w(2)] by (auto simp del: last_in_set)
  show ?thesis
  proof (cases "drop_zeros f = []")
    case True
    then have "\<forall>c \<in> set f. c = CHR ''0''" by (simp only: drop_zeros_Nil_iff)
    then have "drop_zeros ((sign_text neg @ w @ ''.'') @ f) = drop_zeros (sign_text neg @ w @ ''.'')"
      unfolding drop_zeros_append [of "sign_text neg @ w @ ''.''" f] by (rule if_P)
    also have "\<dots> = sign_text neg @ w @ ''.''"
      using drop_zeros_append [of "sign_text neg @ w" "''.''"] by (simp add: drop_zeros_def)
    finally have "drop_zeros ?s = (sign_text neg @ w) @ ''.''" by simp
    then have "drop_point (drop_zeros ?s) = sign_text neg @ w" by (simp add: drop_point_def butlast_append)
    then show ?thesis using True nw by (simp add: trimTrailingZeros_def Let_def)
  next
    case False
    then have n: "\<not> (\<forall>c \<in> set f. c = CHR ''0'')" by (simp only: drop_zeros_Nil_iff) simp
    have dz: "drop_zeros ((sign_text neg @ w @ ''.'') @ f) = (sign_text neg @ w @ ''.'') @ drop_zeros f"
      by (simp only: drop_zeros_append [of "sign_text neg @ w @ ''.''" f] if_not_P [OF n])
    have "last (drop_zeros f) \<in> set f" using last_in_set [OF False] drop_zeros_subset by blast
    then have "last (drop_zeros f) \<noteq> CHR ''.''" using digits_no_point(1) [OF f] by auto
    then have "drop_point (drop_zeros ?s) = sign_text neg @ w @ CHR ''.'' # drop_zeros f"
      using dz False by (simp add: drop_point_def)
    moreover have "sign_text neg @ w @ CHR ''.'' # drop_zeros f \<noteq> ''-''" using w(2) by (cases neg; cases w) (simp_all add: sign_text_def)
    ultimately show ?thesis using False w by (simp add: trimTrailingZeros_def Let_def)
  qed
qed

lemma decimal_value_trim:
  "length f = ASSET_DECIMALS \<Longrightarrow> decimal_value w (drop_zeros f) = decimal_value w f"
  using take_refill [of f ASSET_DECIMALS] by (simp add: decimal_value_def del: take_append) simp

subsection \<open>Properties\<close>

text \<open>C15: printing an amount and parsing it back gives the same amount, for every amount, negative ones
  included: both for the canonical text with seven decimals and for the text put into the amount
  field, from which the trailing zeros are dropped.\<close>

theorem stroops_roundtrip:
  "toStroops (fromStroops x) = Inr x \<and> toStroops (toAmountInputValue x) = Inr x"
proof -
  let ?w = "nat_str (nat (\<bar>x\<bar> div SCALE))"
  let ?f = "pad_start ASSET_DECIMALS (CHR ''0'') (nat_str (nat (\<bar>x\<bar> mod SCALE)))"
  have w: "list_all is_digit ?w" "?w \<noteq> []" and f: "list_all is_digit ?f"
    by (simp_all add: all_digits_nat_str all_digits_pad)
  have len: "length ?f = ASSET_DECIMALS" using frac_length [of x] by (simp add: ASSET_DECIMALS_def)
  have ne: "?f \<noteq> []" using frac_length [of x] by (metis ASSET_DECIMALS_def list.size(3) zero_neq_numeral)
  have val: "(if x < 0 then - decimal_value ?w ?f else decimal_value ?w ?f) = x"
    using decimal_value_split [of x] by auto
  have "toStroops (fromStroops x) = Inr x"
    unfolding fromStroops_eq toStroops_point [OF w f ne] val ..
  moreover
  let ?r = "if drop_zeros ?f = [] then [] else CHR ''.'' # drop_zeros ?f"
  have "list_all is_digit (drop_zeros ?f)" using f drop_zeros_subset [of ?f] by (auto simp: list_all_iff)
  then have r: "?r = [] \<or> (\<exists>g. ?r = CHR ''.'' # g \<and> g \<noteq> [] \<and> list_all is_digit g)" by auto
  have tl: "tl ?r = drop_zeros ?f" by simp
  have "toStroops (sign_text (x < 0) @ ?w @ ?r) = Inr x"
    using toStroops_signed [OF w r, of "x < 0"] unfolding tl decimal_value_trim [OF len] val .
  then have "toStroops (toAmountInputValue x) = Inr x"
    unfolding toAmountInputValue_def fromStroops_eq trim_text [OF w f] .
  ultimately show ?thesis by blast
qed

lemma radix_prefix_None: "\<forall>c \<in> set s. c \<notin> set ''xXoObB'' \<Longrightarrow> radix_prefix s = None"
  by (cases s; cases "tl s") (simp_all add: radix_prefix_def)

lemma scan_decimal_point:
  assumes "list_all is_digit w" "w \<noteq> []" "list_all is_digit f"
  shows "scan_decimal (w @ CHR ''.'' # f) = Some (of_nat (digits_val (w @ f)) / 10 ^ length f, [])"
proof -
  have p: "\<not> is_digit (CHR ''.'')" by (simp add: is_digit_def code_def)
  have t: "takeWhile is_digit (w @ CHR ''.'' # f) = w" "dropWhile is_digit (w @ CHR ''.'' # f) = CHR ''.'' # f"
    using assms p by (simp_all add: takeWhile_append dropWhile_append list_all_iff)
  have f: "takeWhile is_digit f = f" "dropWhile is_digit f = []"
    using assms by (simp_all add: list_all_iff)
  show ?thesis unfolding scan_decimal_def Let_def t using assms(2)
    by (simp add: f scan_exponent_def scale10_def)
qed

lemma js_number_signed:
  assumes w: "list_all is_digit w" "w \<noteq> []"
    and r: "r = [] \<or> (\<exists>f. r = CHR ''.'' # f \<and> f \<noteq> [] \<and> list_all is_digit f)"
  shows "js_number (sign_text neg @ w @ r) =
    Fin ((if neg then - 1 else 1) * of_nat (digits_val (w @ tl r)) / 10 ^ length (tl r))"
proof -
  let ?t = "sign_text neg @ w @ r"
  have dw: "is_digit (hd w)" using digit_hd_props [OF w] by blast
  have "hd ?t = (if neg then CHR ''-'' else hd w)" using w by (simp add: sign_text_def)
  moreover have "is_digit (last ?t)" using r w digit_hd_props by (auto simp: list_all_iff)
  ultimately have trim: "js_trim ?t = ?t"
    using dw minus_not_space w by (intro js_trim_id) (auto simp: digit_not_space)
  have "c \<notin> set ''xXoObB''" if "c \<in> set ?t" for c
  proof -
    have "is_digit c \<or> c = CHR ''-'' \<or> c = CHR ''.''"
      using that w r by (auto simp: sign_text_def list_all_iff split: if_splits)
    then show ?thesis using digit_not_in [of c] by auto
  qed
  then have pre: "radix_prefix ?t = None" by (intro radix_prefix_None) blast
  have sg: "scan_sign ?t = (neg, w @ r)"
  proof (cases neg)
    case True
    then show ?thesis by (simp add: sign_text_def scan_sign_def)
  next
    case False
    then show ?thesis using scan_sign_digit [of "w @ r"] w dw by (simp add: sign_text_def)
  qed
  have "hd (w @ r) \<noteq> CHR ''I''" using dw digit_not_in w by simp
  then have inf: "w @ r \<noteq> ''Infinity''" by (metis list.sel(1))
  have sd: "scan_decimal (w @ r) = Some (of_nat (digits_val (w @ tl r)) / 10 ^ length (tl r), [])"
  proof (cases "r = []")
    case True
    then show ?thesis using w scan_decimal_digits [of w] by (simp add: list_all_iff)
  next
    case False
    then obtain f where "r = CHR ''.'' # f" "list_all is_digit f" using r by blast
    then show ?thesis using scan_decimal_point [OF w] by simp
  qed
  have "?t \<noteq> []" using w by simp
  then show ?thesis
    unfolding js_number_def trim Let_def pre sg using inf sd by simp
qed

lemma big_frac_length: "0 \<le> a \<Longrightarrow> length (pad_start k (CHR ''0'') (nat_str (nat (a mod 10 ^ k)))) = k" if "0 < k"
proof -
  assume "0 \<le> a"
  have "nat (a mod 10 ^ k) < 10 ^ k" by (simp add: nat_less_iff)
  then have "length (nat_str (nat (a mod 10 ^ k))) \<le> k" using that by (rule nat_str_length_bound)
  then show ?thesis by simp
qed

text \<open>Exact division: the text it returns is a numeral whose value is the quotient truncated toward
  zero at the asked number of decimals; dividing by zero is an error and nothing else is.\<close>

theorem divide_exact:
  "case divideToDecimalString n d k of
     Inl e \<Rightarrow> d = 0 \<and> e = DivisionByZero
   | Inr s \<Rightarrow> d \<noteq> 0 \<and> js_number s = Fin (of_int (big_div (n * 10 ^ k) d) / 10 ^ k)"
proof (cases "d = 0")
  case True
  then show ?thesis by (simp add: divideToDecimalString_def)
next
  case False
  define q where "q = big_div (n * 10 ^ k) d"
  define a where "a = \<bar>q\<bar>"
  let ?w = "nat_str (nat (a div 10 ^ k))" and ?f = "pad_start k (CHR ''0'') (nat_str (nat (a mod 10 ^ k)))"
  have a: "0 \<le> a" by (simp add: a_def)
  have w: "list_all is_digit ?w" "?w \<noteq> []" and f: "list_all is_digit ?f"
    by (simp_all add: all_digits_nat_str all_digits_pad)
  define r where "r = (if 0 < k then CHR ''.'' # ?f else [])"
  have s: "divideToDecimalString n d k = Inr (sign_text (q < 0) @ ?w @ r)"
    using False by (simp add: divideToDecimalString_def Let_def sign_text_def q_def a_def r_def)
  have rr: "r = [] \<or> (\<exists>g. r = CHR ''.'' # g \<and> g \<noteq> [] \<and> list_all is_digit g)"
    using f big_frac_length [OF _ a, of k] by (auto simp: r_def pad_start_def)
  have len: "length (tl r) = k" using big_frac_length [OF _ a, of k] by (auto simp: r_def)
  have "digits_val (?w @ tl r) = nat (a div 10 ^ k) * 10 ^ k + nat (a mod 10 ^ k)"
    unfolding digits_val_append len by (simp add: r_def)
  also have "int \<dots> = a" using a by (simp add: pos_imp_zdiv_nonneg_iff div_mult_mod_eq)
  finally have val: "(of_nat (digits_val (?w @ tl r)) :: rat) = of_int a"
    by (metis of_int_of_nat_eq)
  have "(if q < 0 then - 1 else 1) * (of_int a :: rat) = of_int q" by (simp add: a_def)
  then have "js_number (sign_text (q < 0) @ ?w @ r) = Fin (of_int q / 10 ^ k)"
    unfolding js_number_signed [OF w rr] len val by simp
  then show ?thesis using False by (simp add: s q_def)
qed

end
