(* ===== verification/NetworkConfig.thy ===== *)
theory NetworkConfig
  imports JsString
begin

text \<open>
  \<^verbatim>\<open>packages/frontend/src/lib/networkConfig.ts\<close>: the network a deployment is configured
  for, the validation of its contract ids, and its comparison with the network the wallet
  reports, on which signing depends. An environment maps names to optional strings.
\<close>

subsection \<open>Data\<close>

type_synonym env = "string \<Rightarrow> string option"

datatype network_name = PUBLIC | TESTNET | FUTURENET

text \<open>
  A lookup in \<^verbatim>\<open>NETWORK_ALIASES\<close>: an own entry, or what the object inherits from
  \<^verbatim>\<open>Object.prototype\<close> under that name (truthy, and no network).
\<close>

datatype alias_value = Network network_name | Inherited

record supported_network =
  sn_name :: network_name
  sn_label :: string
  sn_passphrase :: string
  sn_rpcUrl :: string
  sn_horizonUrl :: string
  sn_explorerBaseUrl :: string

record contract_ids =
  ci_callRegistry :: string
  ci_outcomeManager :: string
  ci_usdcSac :: string

record network_config = supported_network +
  nc_contractIds :: contract_ids

datatype config_result = ConfigOk network_config | ConfigErrors "string list"

datatype network_match =
    Match
  | Mismatch alias_value network_name
  | UnknownActive network_name
  | MatchConfigError "string list"

datatype config_exn = TypeErrorThrown

subsection \<open>Constants\<close>

definition base32_char :: "char \<Rightarrow> bool" where
  "base32_char c \<longleftrightarrow> is_upper c \<or> 50 \<le> code c \<and> code c \<le> 55"

text \<open>\<^verbatim>\<open>/^C[A-Z2-7]{55}$/\<close>; \<open>letter\<close> is the first character.\<close>

definition strkey_like :: "char \<Rightarrow> string \<Rightarrow> bool" where
  "strkey_like letter s \<longleftrightarrow> length s = 56 \<and> hd s = letter \<and> list_all base32_char (tl s)"

definition isValidContractId :: "string \<Rightarrow> bool" where
  "isValidContractId value = strkey_like (CHR ''C'') value"

definition network_text :: "network_name \<Rightarrow> string" where
  "network_text n = (case n of PUBLIC \<Rightarrow> ''PUBLIC'' | TESTNET \<Rightarrow> ''TESTNET'' | FUTURENET \<Rightarrow> ''FUTURENET'')"

definition NETWORK_ALIASES :: "(string \<times> network_name) list" where
  "NETWORK_ALIASES =
     [(''public'', PUBLIC), (''mainnet'', PUBLIC), (''pubnet'', PUBLIC), (''testnet'', TESTNET),
      (''futurenet'', FUTURENET),
      (''public global stellar network ; september 2015'', PUBLIC),
      (''test sdf network ; september 2015'', TESTNET),
      (''test sdf future network ; october 2022'', FUTURENET)]"

text \<open>The names of \<^verbatim>\<open>Object.prototype\<close> that a lower-cased key can hit.\<close>

definition INHERITED_NAMES :: "string list" where
  "INHERITED_NAMES = [''constructor'', ''__proto__'']"

definition alias_lookup :: "string \<Rightarrow> alias_value option" where
  "alias_lookup key =
     (case map_of NETWORK_ALIASES key of
        Some n \<Rightarrow> Some (Network n)
      | None \<Rightarrow> if key \<in> set INHERITED_NAMES then Some Inherited else None)"

definition SUPPORTED_NETWORKS :: "network_name \<Rightarrow> supported_network" where
  "SUPPORTED_NETWORKS n = (case n of
      PUBLIC \<Rightarrow> \<lparr>sn_name = PUBLIC, sn_label = ''Mainnet'',
        sn_passphrase = ''Public Global Stellar Network ; September 2015'',
        sn_rpcUrl = ''https://mainnet.sorobanrpc.com'',
        sn_horizonUrl = ''https://horizon.stellar.org'',
        sn_explorerBaseUrl = ''https://stellar.expert/explorer/public''\<rparr>
    | TESTNET \<Rightarrow> \<lparr>sn_name = TESTNET, sn_label = ''Testnet'',
        sn_passphrase = ''Test SDF Network ; September 2015'',
        sn_rpcUrl = ''https://soroban-testnet.stellar.org'',
        sn_horizonUrl = ''https://horizon-testnet.stellar.org'',
        sn_explorerBaseUrl = ''https://stellar.expert/explorer/testnet''\<rparr>
    | FUTURENET \<Rightarrow> \<lparr>sn_name = FUTURENET, sn_label = ''Futurenet'',
        sn_passphrase = ''Test SDF Future Network ; October 2022'',
        sn_rpcUrl = ''https://rpc-futurenet.stellar.org'',
        sn_horizonUrl = ''https://horizon-futurenet.stellar.org'',
        sn_explorerBaseUrl = ''https://stellar.expert/explorer/futurenet''\<rparr>)"

definition DEFAULT_USDC_SAC :: "network_name \<Rightarrow> string option" where
  "DEFAULT_USDC_SAC n = (case n of
      TESTNET \<Rightarrow> Some ''CBIELTK6YBZJU5UP2WWQEUCYKLPU6AUNZ2BQ4WWFEIE3USCIHMXQDAMA''
    | PUBLIC \<Rightarrow> Some ''CCW67TSZV3SSS2HXMBQ5JFGCKJNXKZM7UQUWUZPUTHXSTZLEO7SJMI75''
    | FUTURENET \<Rightarrow> None)"

subsection \<open>Operations\<close>

text \<open>\<open>v?.trim() || d\<close>.\<close>

definition env_or :: "string option \<Rightarrow> string \<Rightarrow> string" where
  "env_or v d = (case v of None \<Rightarrow> d | Some s \<Rightarrow> if js_trim s = [] then d else js_trim s)"

definition normalizeNetworkName :: "string option \<Rightarrow> alias_value option" where
  "normalizeNetworkName input = (case input of
      None \<Rightarrow> None
    | Some s \<Rightarrow>
        if s = [] then None
        else case alias_lookup (to_lower (js_trim s)) of
          Some a \<Rightarrow> Some a
        | None \<Rightarrow>
            (let upper = to_upper (js_trim s)
             in if upper = ''PUBLIC'' then Some (Network PUBLIC)
                else if upper = ''TESTNET'' then Some (Network TESTNET)
                else if upper = ''FUTURENET'' then Some (Network FUTURENET)
                else None))"

text \<open>\<^verbatim>\<open>SUPPORTED_NETWORKS[name].label\<close> throws on what is no network.\<close>

definition networkLabel :: "alias_value option \<Rightarrow> config_exn + string" where
  "networkLabel n = (case n of
      None \<Rightarrow> Inr ''an unknown network''
    | Some (Network m) \<Rightarrow> Inr (sn_label (SUPPORTED_NETWORKS m))
    | Some Inherited \<Rightarrow> Inl TypeErrorThrown)"

definition networkMismatchMessage :: "network_match \<Rightarrow> config_exn + string" where
  "networkMismatchMessage m = (case m of
      Mismatch active configured \<Rightarrow>
        (case networkLabel (Some active) of
           Inl e \<Rightarrow> Inl e
         | Inr a \<Rightarrow>
             (let c = sn_label (SUPPORTED_NETWORKS configured)
              in Inr (''Your wallet is on '' @ a @ '' but BACKit is '' @ ''configured for '' @ c
                   @ ''. Switch your wallet '' @ ''to '' @ c @ '' before signing.'')))
    | UnknownActive configured \<Rightarrow>
        Inr (''Could not determine your wallet's network. Switch your wallet to ''
          @ sn_label (SUPPORTED_NETWORKS configured) @ '' before signing.'')
    | MatchConfigError errors \<Rightarrow>
        Inr (''Network configuration is invalid:'' @ [CHR 0x0A] @ ''- ''
          @ join_with ([CHR 0x0A] @ ''- '') errors)
    | Match \<Rightarrow> Inr ''Network mismatch.'')"

definition validateContract :: "string \<Rightarrow> string option \<Rightarrow> string list" where
  "validateContract label v = (case v of
      None \<Rightarrow> [label @ '' is required but not set.'']
    | Some s \<Rightarrow>
        if s = [] then [label @ '' is required but not set.'']
        else if \<not> isValidContractId s then [label @ '' '' @ dq s @ '' is not a valid Stellar contract ID.'']
        else [])"

definition validateSac :: "string option \<Rightarrow> string list" where
  "validateSac v = (case v of
      None \<Rightarrow> []
    | Some s \<Rightarrow>
        if s \<noteq> [] \<and> \<not> isValidContractId s
        then [''NEXT_PUBLIC_USDC_SAC_CONTRACT_ID '' @ dq s @ '' is not a valid Stellar '' @ ''contract ID.'']
        else [])"

definition parseNetworkConfig :: "env \<Rightarrow> config_exn + config_result" where
  "parseNetworkConfig env =
     (let shown = (case env ''NEXT_PUBLIC_STELLAR_NETWORK'' of None \<Rightarrow> ''undefined'' | Some s \<Rightarrow> s);
          networkKey = to_lower (js_trim (nullish (env ''NEXT_PUBLIC_STELLAR_NETWORK'') ''testnet''))
      in case alias_lookup networkKey of
           None \<Rightarrow> Inr (ConfigErrors [''NEXT_PUBLIC_STELLAR_NETWORK '' @ dq shown @ '' is ''
                    @ ''not supported. Expected one of: testnet, mainnet, futurenet.''])
         | Some networkName \<Rightarrow>
             (let errors =
                    validateContract ''NEXT_PUBLIC_CALL_REGISTRY_CONTRACT_ID'' (env ''NEXT_PUBLIC_CALL_REGISTRY_CONTRACT_ID'')
                    @ validateContract ''NEXT_PUBLIC_OUTCOME_MANAGER_CONTRACT_ID'' (env ''NEXT_PUBLIC_OUTCOME_MANAGER_CONTRACT_ID'')
                    @ validateSac (env ''NEXT_PUBLIC_USDC_SAC_CONTRACT_ID'')
              in if errors \<noteq> [] then Inr (ConfigErrors errors)
                 else case networkName of
                   Inherited \<Rightarrow> Inl TypeErrorThrown
                 | Network n \<Rightarrow>
                     (let base = SUPPORTED_NETWORKS n
                      in Inr (ConfigOk
                        \<lparr>sn_name = sn_name base, sn_label = sn_label base,
                         sn_passphrase = env_or (env ''NEXT_PUBLIC_NETWORK_PASSPHRASE'') (sn_passphrase base),
                         sn_rpcUrl = env_or (env ''NEXT_PUBLIC_SOROBAN_RPC_URL'') (sn_rpcUrl base),
                         sn_horizonUrl = env_or (env ''NEXT_PUBLIC_HORIZON_URL'') (sn_horizonUrl base),
                         sn_explorerBaseUrl = sn_explorerBaseUrl base,
                         nc_contractIds =
                           \<lparr>ci_callRegistry = nullish (env ''NEXT_PUBLIC_CALL_REGISTRY_CONTRACT_ID'') [],
                            ci_outcomeManager = nullish (env ''NEXT_PUBLIC_OUTCOME_MANAGER_CONTRACT_ID'') [],
                            ci_usdcSac = env_or (env ''NEXT_PUBLIC_USDC_SAC_CONTRACT_ID'')
                              (nullish (DEFAULT_USDC_SAC n) [])\<rparr>\<rparr>))))"

text \<open>The memoised configuration: the cache and the process environment are the state.\<close>

definition getNetworkConfig ::
  "env \<Rightarrow> config_result option \<Rightarrow> config_result option \<times> (config_exn + config_result)" where
  "getNetworkConfig env cachedConfig = (case cachedConfig of
      Some c \<Rightarrow> (cachedConfig, Inr c)
    | None \<Rightarrow> (case parseNetworkConfig env of
          Inl e \<Rightarrow> (None, Inl e)
        | Inr c \<Rightarrow> (Some c, Inr c)))"

definition resetNetworkConfigCache :: "config_result option \<Rightarrow> config_result option" where
  "resetNetworkConfigCache cachedConfig = None"

definition compareNetworks :: "string \<Rightarrow> network_config \<Rightarrow> network_match" where
  "compareNetworks activeNetwork config =
     (case normalizeNetworkName (Some activeNetwork) of
        None \<Rightarrow> UnknownActive (sn_name config)
      | Some active \<Rightarrow>
          if active = Network (sn_name config) then Match else Mismatch active (sn_name config))"

definition resolveNetworkMatch :: "string option \<Rightarrow> config_result \<Rightarrow> network_match" where
  "resolveNetworkMatch activeNetwork configResult =
     (case configResult of
        ConfigErrors errors \<Rightarrow> MatchConfigError errors
      | ConfigOk config \<Rightarrow>
          (case activeNetwork of
             None \<Rightarrow> Match
           | Some a \<Rightarrow> if a = [] then Match else compareNetworks a config))"

subsection \<open>Lemmas\<close>

lemma validateContract_Nil: "validateContract l v = [] \<longleftrightarrow> (\<exists>s. v = Some s \<and> isValidContractId s)"
  by (auto simp: validateContract_def isValidContractId_def strkey_like_def split: option.splits)

lemma validateSac_Nil: "validateSac v = [] \<longleftrightarrow> v = None \<or> v = Some [] \<or> (\<exists>s. v = Some s \<and> isValidContractId s)"
  by (auto simp: validateSac_def split: option.splits)

lemma base32_not_space: "base32_char c \<Longrightarrow> \<not> is_space c"
  by (auto simp: base32_char_def is_space_def is_upper_def)

lemma strkey_trim:
  assumes "strkey_like (CHR ''C'') s"
  shows "js_trim s = s"
proof -
  have l: "length s = 56" "hd s = CHR ''C''" "list_all base32_char (tl s)"
    using assms by (simp_all add: strkey_like_def)
  then obtain t where t: "s = CHR ''C'' # t" by (cases s) auto
  have ne: "t \<noteq> []" using l(1) t by auto
  then have "base32_char (last s)" using l(3) t by (auto simp: list_all_iff)
  then show ?thesis using t ne by (intro js_trim_id) (auto dest: base32_not_space simp: is_space_def code_def)
qed

lemma default_sac_valid: "DEFAULT_USDC_SAC n = Some s \<Longrightarrow> isValidContractId s"
  by (cases n) (auto simp: DEFAULT_USDC_SAC_def isValidContractId_def strkey_like_def base32_char_def
      is_upper_def code_def)

lemma env_sac:
  assumes "validateSac v = []"
  shows "env_or v (nullish (DEFAULT_USDC_SAC n) []) = []
    \<or> isValidContractId (env_or v (nullish (DEFAULT_USDC_SAC n) []))"
proof -
  have d: "nullish (DEFAULT_USDC_SAC n) [] = [] \<or> isValidContractId (nullish (DEFAULT_USDC_SAC n) [])"
    by (cases "DEFAULT_USDC_SAC n") (auto dest: default_sac_valid)
  from assms consider "v = None" | "v = Some []" | s where "v = Some s" "isValidContractId s"
    unfolding validateSac_Nil by blast
  then show ?thesis using d
    by cases (auto simp: env_or_def isValidContractId_def strkey_trim)
qed

subsection \<open>Properties\<close>

text \<open>A configuration is only accepted when both required contract ids are present and
  well-formed and the optional one is empty or well-formed; its network is one of the supported
  ones, named by the environment, and the wallet is then reported as matching exactly when the
  name it gives stands for that network (or it gives none).\<close>

theorem network_config_sound:
  assumes "parseNetworkConfig env = Inr (ConfigOk config)"
  shows "isValidContractId (ci_callRegistry (nc_contractIds config))
    \<and> isValidContractId (ci_outcomeManager (nc_contractIds config))
    \<and> (ci_usdcSac (nc_contractIds config) = [] \<or> isValidContractId (ci_usdcSac (nc_contractIds config)))
    \<and> alias_lookup (to_lower (js_trim (nullish (env ''NEXT_PUBLIC_STELLAR_NETWORK'') ''testnet'')))
        = Some (Network (sn_name config))
    \<and> (resolveNetworkMatch (Some wallet) (ConfigOk config) = Match
        \<longleftrightarrow> wallet = [] \<or> normalizeNetworkName (Some wallet) = Some (Network (sn_name config)))"
proof -
  let ?key = "to_lower (js_trim (nullish (env ''NEXT_PUBLIC_STELLAR_NETWORK'') ''testnet''))"
  from assms obtain n where n: "alias_lookup ?key = Some (Network n)"
    by (auto simp: parseNetworkConfig_def Let_def split: option.splits alias_value.splits if_splits)
  have c: "validateContract ''NEXT_PUBLIC_CALL_REGISTRY_CONTRACT_ID'' (env ''NEXT_PUBLIC_CALL_REGISTRY_CONTRACT_ID'') = []"
    "validateContract ''NEXT_PUBLIC_OUTCOME_MANAGER_CONTRACT_ID'' (env ''NEXT_PUBLIC_OUTCOME_MANAGER_CONTRACT_ID'') = []"
    "validateSac (env ''NEXT_PUBLIC_USDC_SAC_CONTRACT_ID'') = []"
    using assms n by (auto simp: parseNetworkConfig_def Let_def split: if_splits)
  have name: "sn_name (SUPPORTED_NETWORKS n) = n" by (cases n) (simp_all add: SUPPORTED_NETWORKS_def)
  have ids: "ci_callRegistry (nc_contractIds config) = nullish (env ''NEXT_PUBLIC_CALL_REGISTRY_CONTRACT_ID'') []"
    "ci_outcomeManager (nc_contractIds config) = nullish (env ''NEXT_PUBLIC_OUTCOME_MANAGER_CONTRACT_ID'') []"
    "ci_usdcSac (nc_contractIds config) = env_or (env ''NEXT_PUBLIC_USDC_SAC_CONTRACT_ID'') (nullish (DEFAULT_USDC_SAC n) [])"
    "sn_name config = n"
    using assms n c name by (auto simp: parseNetworkConfig_def Let_def)
  have "resolveNetworkMatch (Some wallet) (ConfigOk config) = Match
      \<longleftrightarrow> wallet = [] \<or> normalizeNetworkName (Some wallet) = Some (Network (sn_name config))"
    by (auto simp: resolveNetworkMatch_def compareNetworks_def split: option.splits)
  then show ?thesis
    using n c(1,2) env_sac [OF c(3), of n] unfolding ids validateContract_Nil by auto
qed

definition sample_env :: env where
  "sample_env = [''NEXT_PUBLIC_STELLAR_NETWORK'' \<mapsto> '' Mainnet'',
     ''NEXT_PUBLIC_CALL_REGISTRY_CONTRACT_ID'' \<mapsto> CHR ''C'' # replicate 55 (CHR ''A''),
     ''NEXT_PUBLIC_OUTCOME_MANAGER_CONTRACT_ID'' \<mapsto> CHR ''C'' # replicate 55 (CHR ''7'')]"

definition sample_config :: network_config where
  "sample_config =
     \<lparr>sn_name = PUBLIC, sn_label = ''Mainnet'',
      sn_passphrase = ''Public Global Stellar Network ; September 2015'',
      sn_rpcUrl = ''https://mainnet.sorobanrpc.com'', sn_horizonUrl = ''https://horizon.stellar.org'',
      sn_explorerBaseUrl = ''https://stellar.expert/explorer/public'',
      nc_contractIds = \<lparr>ci_callRegistry = CHR ''C'' # replicate 55 (CHR ''A''),
        ci_outcomeManager = CHR ''C'' # replicate 55 (CHR ''7''),
        ci_usdcSac = ''CCW67TSZV3SSS2HXMBQ5JFGCKJNXKZM7UQUWUZPUTHXSTZLEO7SJMI75''\<rparr>\<rparr>"

lemma sample_config_parsed: "parseNetworkConfig sample_env = Inr (ConfigOk sample_config)"
  by code_simp

theorem network_config_sound_witness:
  "resolveNetworkMatch (Some ''pubnet'') (ConfigOk sample_config) = Match
   \<and> resolveNetworkMatch (Some ''testnet'') (ConfigOk sample_config) \<noteq> Match"
proof -
  have "normalizeNetworkName (Some ''pubnet'') = Some (Network PUBLIC)"
    "normalizeNetworkName (Some ''testnet'') = Some (Network TESTNET)" "sn_name sample_config = PUBLIC"
    by code_simp+
  then show ?thesis
    using network_config_sound [OF sample_config_parsed, of "''pubnet''"]
      network_config_sound [OF sample_config_parsed, of "''testnet''"] by simp
qed

text \<open>The names the comparison treats as unknown do not include those every object inherits: a
  wallet that reports the network \<^verbatim>\<open>constructor\<close> is a mismatch with something that is no network, and
  the message for it cannot be built.\<close>

lemma inherited_name_mismatch:
  "resolveNetworkMatch (Some ''constructor'') (ConfigOk config) = Mismatch Inherited (sn_name config)
   \<and> networkMismatchMessage (Mismatch Inherited (sn_name config)) = Inl TypeErrorThrown"
proof -
  have "normalizeNetworkName (Some ''constructor'') = Some Inherited" by code_simp
  then show ?thesis
    by (simp add: resolveNetworkMatch_def compareNetworks_def networkMismatchMessage_def networkLabel_def)
qed

end
