(* ===== verification/StakeRules.thy ===== *)
theory StakeRules
  imports Amounts JsArith NetworkConfig
begin

text \<open>
  \<^verbatim>\<open>packages/frontend/src/lib/stellar/\<close>: the identity of the stake asset
  (\<^verbatim>\<open>stakeAsset.ts\<close>), the balances an account may stake (\<^verbatim>\<open>balances.ts\<close>) and the
  limits a stake has to keep (\<^verbatim>\<open>stakeLimits.ts\<close>).
\<close>

subsection \<open>The stake asset\<close>

datatype stake_asset_type = Native | Credit

record stake_asset =
  sa_type :: stake_asset_type
  sa_code :: string
  sa_issuer :: "string option"
  sa_sac :: "string option"
  sa_id :: string

datatype stake_asset_result = AssetOk stake_asset | AssetErrors "string list"

definition DEFAULT_STAKE_ISSUERS :: "network_name \<Rightarrow> string option" where
  "DEFAULT_STAKE_ISSUERS n = (case n of
      PUBLIC \<Rightarrow> Some ''GA5ZSEJYB37JRC5AVCIA5MOP4RHTM335X2KGX3IHOJAPP5RE34K4KZVN''
    | TESTNET \<Rightarrow> Some ''GBBD47IF6LWK7P7MDEVSCWR7DPUWV3NY3DTQEVFL4NAT4AQH3ZLLFLA5''
    | FUTURENET \<Rightarrow> None)"

text \<open>\<^verbatim>\<open>/^G[A-Z2-7]{55}$/\<close> and \<^verbatim>\<open>/^[A-Za-z0-9]{1,12}$/\<close>.\<close>

definition isValidIssuer :: "string \<Rightarrow> bool" where
  "isValidIssuer value = strkey_like (CHR ''G'') value"

definition alnum :: "char \<Rightarrow> bool" where
  "alnum c \<longleftrightarrow> is_upper c \<or> is_lower c \<or> is_digit c"

definition isValidAssetCode :: "string \<Rightarrow> bool" where
  "isValidAssetCode value \<longleftrightarrow> 1 \<le> length value \<and> length value \<le> 12 \<and> list_all alnum value"

definition nativeStakeAsset :: "string option \<Rightarrow> stake_asset" where
  "nativeStakeAsset sac =
     \<lparr>sa_type = Native, sa_code = ''XLM'', sa_issuer = None, sa_sac = sac, sa_id = ''native''\<rparr>"

definition issuer_errors :: "string \<Rightarrow> string \<Rightarrow> network_name \<Rightarrow> string list" where
  "issuer_errors rawCode rawIssuer network =
     (if rawIssuer = []
      then [''NEXT_PUBLIC_STAKE_ASSET_ISSUER is required for '' @ rawCode @ '' on '' @ network_text network
              @ '': '' @ ''an asset code alone does not identify an issued asset.'']
      else if \<not> isValidIssuer rawIssuer
      then [''NEXT_PUBLIC_STAKE_ASSET_ISSUER '' @ dq rawIssuer @ '' is not a valid Stellar account ID.'']
      else [])"

definition parseStakeAsset :: "env \<Rightarrow> network_name \<Rightarrow> stake_asset_result" where
  "parseStakeAsset env network =
     (let rawCode = env_or (env ''NEXT_PUBLIC_STAKE_ASSET_CODE'') ''USDC'';
          rawIssuer = env_or (env ''NEXT_PUBLIC_STAKE_ASSET_ISSUER'') (nullish (DEFAULT_STAKE_ISSUERS network) []);
          rawSac = env_or (env ''NEXT_PUBLIC_USDC_SAC_CONTRACT_ID'') [];
          sac_errors = (if rawSac \<noteq> [] \<and> \<not> isValidContractId rawSac
            then [''NEXT_PUBLIC_USDC_SAC_CONTRACT_ID '' @ dq rawSac @ '' is not a valid Stellar contract ID.'']
            else []);
          sac = (if rawSac \<noteq> [] \<and> isValidContractId rawSac then Some rawSac else None)
      in if to_upper rawCode = ''XLM'' \<and> rawIssuer = []
         then (if sac_errors \<noteq> [] then AssetErrors sac_errors else AssetOk (nativeStakeAsset sac))
         else
           (let errors = sac_errors
                  @ (if \<not> isValidAssetCode rawCode
                     then [''NEXT_PUBLIC_STAKE_ASSET_CODE '' @ dq rawCode @ '' is not a valid Stellar asset code.'']
                     else [])
                  @ issuer_errors rawCode rawIssuer network
            in if errors \<noteq> [] then AssetErrors errors
               else AssetOk \<lparr>sa_type = Credit, sa_code = rawCode, sa_issuer = Some rawIssuer, sa_sac = sac,
                      sa_id = rawCode @ '':'' @ rawIssuer\<rparr>))"

text \<open>The memoised assets, per network.\<close>

definition getStakeAsset :: "env \<Rightarrow> network_name \<Rightarrow> (network_name \<Rightarrow> stake_asset_result option) \<Rightarrow>
    (network_name \<Rightarrow> stake_asset_result option) \<times> stake_asset_result" where
  "getStakeAsset env network cachedAssets = (case cachedAssets network of
      Some c \<Rightarrow> (cachedAssets, c)
    | None \<Rightarrow> (let resolved = parseStakeAsset env network
               in (cachedAssets(network \<mapsto> resolved), resolved)))"

definition marketAssetMatches :: "string option \<Rightarrow> stake_asset \<Rightarrow> bool" where
  "marketAssetMatches stakeToken asset = (case stakeToken of
      None \<Rightarrow> False
    | Some t \<Rightarrow> t \<noteq> [] \<and> to_upper (js_trim t) = to_upper (sa_code asset))"

subsection \<open>Balances\<close>

record balance_line =
  bl_balance :: "string option"
  bl_asset_type :: string
  bl_asset_code :: "string option"
  bl_asset_issuer :: "string option"
  bl_selling_liabilities :: "string option"
  bl_is_authorized :: "bool option"

record horizon_account =
  ha_subentry_count :: "jsnum option"
  ha_num_sponsoring :: "jsnum option"
  ha_num_sponsored :: "jsnum option"
  ha_balances :: "balance_line list"

record balance_snapshot =
  bs_address :: string
  bs_assetId :: string
  bs_nativeStroops :: int
  bs_reservedNativeStroops :: int
  bs_spendableNativeStroops :: int
  bs_stakeAssetStroops :: "int option"
  bs_spendableStakeStroops :: int
  bs_hasTrustline :: bool
  bs_trustlineUnauthorized :: bool
  bs_feeBufferStroops :: int
  bs_hasFeeBuffer :: bool
  bs_fetchedAt :: jsnum

definition BASE_RESERVE_STROOPS :: int where "BASE_RESERVE_STROOPS = 5000000"
definition BASE_RESERVE_ENTRIES :: int where "BASE_RESERVE_ENTRIES = 2"
definition DEFAULT_FEE_BUFFER_STROOPS :: int where "DEFAULT_FEE_BUFFER_STROOPS = 1000000"
definition STALE_AFTER_MS :: jsnum where "STALE_AFTER_MS = Fin 60000"

definition clampToZero :: "int \<Rightarrow> int" where
  "clampToZero v = (if v > 0 then v else 0)"

definition parseStroops :: "string option \<Rightarrow> int" where
  "parseStroops v = (case v of
      None \<Rightarrow> 0
    | Some s \<Rightarrow> if s = [] then 0 else case toStroops s of Inl _ \<Rightarrow> 0 | Inr n \<Rightarrow> n)"

definition balanceLineMatchesAsset :: "balance_line \<Rightarrow> stake_asset \<Rightarrow> bool" where
  "balanceLineMatchesAsset line asset =
     (if sa_type asset = Native then bl_asset_type line = ''native''
      else if bl_asset_type line = ''native'' then False
      else bl_asset_code line = Some (sa_code asset)
        \<and> bl_asset_issuer line \<noteq> None \<and> bl_asset_issuer line = sa_issuer asset)"

definition findNativeLine :: "horizon_account \<Rightarrow> balance_line option" where
  "findNativeLine account = find (\<lambda>line. bl_asset_type line = ''native'') (ha_balances account)"

definition findStakeAssetLine :: "horizon_account \<Rightarrow> stake_asset \<Rightarrow> balance_line option" where
  "findStakeAssetLine account asset = find (\<lambda>line. balanceLineMatchesAsset line asset) (ha_balances account)"

definition computeReservedNativeStroops :: "horizon_account \<Rightarrow> bigint_exn + int" where
  "computeReservedNativeStroops account =
     (case big_of_num (nullish (ha_subentry_count account) (Fin 0)) of
        Inl e \<Rightarrow> Inl e
      | Inr subentries \<Rightarrow>
     (case big_of_num (nullish (ha_num_sponsoring account) (Fin 0)) of
        Inl e \<Rightarrow> Inl e
      | Inr sponsoring \<Rightarrow>
     (case big_of_num (nullish (ha_num_sponsored account) (Fin 0)) of
        Inl e \<Rightarrow> Inl e
      | Inr sponsored \<Rightarrow>
          Inr (clampToZero (BASE_RESERVE_ENTRIES + subentries + sponsoring - sponsored) * BASE_RESERVE_STROOPS))))"

text \<open>\<open>fee\<close> is the optional \<^verbatim>\<open>feeBufferStroops\<close>.\<close>

definition deriveBalanceSnapshot ::
  "horizon_account \<Rightarrow> stake_asset \<Rightarrow> string \<Rightarrow> jsnum \<Rightarrow> int option \<Rightarrow> bigint_exn + balance_snapshot" where
  "deriveBalanceSnapshot account asset address fetchedAt fee =
     (let feeBuffer = nullish fee DEFAULT_FEE_BUFFER_STROOPS;
          nativeLine = findNativeLine account;
          nativeStroops = parseStroops (Option.bind nativeLine bl_balance);
          nativeLiabilities = parseStroops (Option.bind nativeLine bl_selling_liabilities)
      in case computeReservedNativeStroops account of
           Inl e \<Rightarrow> Inl e
         | Inr reserved \<Rightarrow>
             (let spendableNative = clampToZero (nativeStroops - reserved - nativeLiabilities);
                  hasFeeBuffer = spendableNative \<ge> feeBuffer
              in if sa_type asset = Native then
                   Inr \<lparr>bs_address = address, bs_assetId = sa_id asset, bs_nativeStroops = nativeStroops,
                        bs_reservedNativeStroops = reserved, bs_spendableNativeStroops = spendableNative,
                        bs_stakeAssetStroops = Some nativeStroops,
                        bs_spendableStakeStroops = clampToZero (spendableNative - feeBuffer),
                        bs_hasTrustline = True, bs_trustlineUnauthorized = False,
                        bs_feeBufferStroops = feeBuffer, bs_hasFeeBuffer = hasFeeBuffer,
                        bs_fetchedAt = fetchedAt\<rparr>
                 else
                   (let stakeLine = findStakeAssetLine account asset;
                        authorized = (case stakeLine of None \<Rightarrow> False | Some l \<Rightarrow> bl_is_authorized l \<noteq> Some False);
                        stakeAsset = map_option (\<lambda>l. parseStroops (bl_balance l)) stakeLine;
                        stakeLiabilities = parseStroops (Option.bind stakeLine bl_selling_liabilities)
                    in Inr \<lparr>bs_address = address, bs_assetId = sa_id asset, bs_nativeStroops = nativeStroops,
                        bs_reservedNativeStroops = reserved, bs_spendableNativeStroops = spendableNative,
                        bs_stakeAssetStroops = stakeAsset,
                        bs_spendableStakeStroops =
                          (case stakeAsset of
                             Some n \<Rightarrow> if authorized then clampToZero (n - stakeLiabilities) else 0
                           | None \<Rightarrow> 0),
                        bs_hasTrustline = (stakeLine \<noteq> None \<and> authorized),
                        bs_trustlineUnauthorized = (stakeLine \<noteq> None \<and> \<not> authorized),
                        bs_feeBufferStroops = feeBuffer, bs_hasFeeBuffer = hasFeeBuffer,
                        bs_fetchedAt = fetchedAt\<rparr>)))"

definition isSnapshotStale :: "jsnum \<Rightarrow> jsnum \<Rightarrow> jsnum \<Rightarrow> bool" where
  "isSnapshotStale fetchedAt now staleAfterMs = num_ge (num_minus now fetchedAt) staleAfterMs"

subsection \<open>Limits\<close>

record stake_limits =
  minStroops :: int
  maxStroops :: "int option"

definition DEFAULT_MIN_STAKE_STROOPS :: int where "DEFAULT_MIN_STAKE_STROOPS = 1000000"

definition parseDecimalEnv :: "string option \<Rightarrow> int option" where
  "parseDecimalEnv v = (case v of
      None \<Rightarrow> None
    | Some s \<Rightarrow>
        (let trimmed = js_trim s
         in if trimmed = [] then None
            else case toStroops trimmed of
              Inl _ \<Rightarrow> None
            | Inr n \<Rightarrow> if n \<ge> 0 then Some n else None))"

definition parseStakeLimits :: "env \<Rightarrow> stake_limits" where
  "parseStakeLimits env =
     \<lparr>minStroops = nullish (parseDecimalEnv (env ''NEXT_PUBLIC_MIN_STAKE'')) DEFAULT_MIN_STAKE_STROOPS,
      maxStroops = (case parseDecimalEnv (env ''NEXT_PUBLIC_MAX_STAKE_PER_USER'') of
         None \<Rightarrow> None
       | Some m \<Rightarrow> if m > 0 then Some m else None)\<rparr>"

definition parseFeeBuffer :: "env \<Rightarrow> int \<Rightarrow> int" where
  "parseFeeBuffer env fallback = nullish (parseDecimalEnv (env ''NEXT_PUBLIC_XLM_FEE_BUFFER'')) fallback"

definition above :: "int \<Rightarrow> int option \<Rightarrow> bool" where
  "above n m = (case m of None \<Rightarrow> False | Some x \<Rightarrow> n > x)"

definition computeMaxStakeStroops :: "int \<Rightarrow> stake_limits \<Rightarrow> int" where
  "computeMaxStakeStroops spendable limits =
     (if spendable \<le> 0 then 0
      else
        (let capped = (case maxStroops limits of
               Some m \<Rightarrow> if spendable > m then m else spendable
             | None \<Rightarrow> spendable)
         in if capped \<ge> minStroops limits then capped else 0))"

definition computePercentStakeStroops :: "int \<Rightarrow> jsnum \<Rightarrow> stake_limits \<Rightarrow> bigint_exn + int" where
  "computePercentStakeStroops spendable percent limits =
     (if spendable \<le> 0 \<or> num_ge (Fin 0) percent then Inr 0
      else if num_ge percent (Fin 100) then Inr (computeMaxStakeStroops spendable limits)
      else case big_of_num (num_floor percent) of
        Inl e \<Rightarrow> Inl e
      | Inr p \<Rightarrow>
          (let raw = big_div (spendable * p) 100
           in case maxStroops limits of
                Some m \<Rightarrow> if raw > m then Inr m else Inr raw
              | None \<Rightarrow> Inr raw))"

datatype stake_problem =
  InvalidAmount | BelowMinimum | AboveMaximum | ExceedsBalance | InsufficientFee | MarketClosed

datatype stake_validation = StakeOk | StakeError stake_problem

definition validateStakeAmount ::
  "int option \<Rightarrow> int option \<Rightarrow> stake_limits \<Rightarrow> bool \<Rightarrow> bool \<Rightarrow> stake_validation" where
  "validateStakeAmount amount spendable limits hasFeeBuffer marketActive =
     (if \<not> marketActive then StakeError MarketClosed
      else case amount of
        None \<Rightarrow> StakeError InvalidAmount
      | Some a \<Rightarrow>
          if a \<le> 0 then StakeError InvalidAmount
          else if a < minStroops limits then StakeError BelowMinimum
          else if above a (maxStroops limits) then StakeError AboveMaximum
          else if above a spendable then StakeError ExceedsBalance
          else if \<not> hasFeeBuffer then StakeError InsufficientFee
          else StakeOk)"

subsection \<open>Lemmas\<close>

lemma parsed_limits:
  "0 \<le> minStroops (parseStakeLimits env)"
  "maxStroops (parseStakeLimits env) = Some m \<Longrightarrow> 0 < m"
proof -
  have nn: "parseDecimalEnv v = Some n \<Longrightarrow> 0 \<le> n" for v n
    by (auto simp: parseDecimalEnv_def Let_def split: option.splits sum.splits if_splits)
  show "0 \<le> minStroops (parseStakeLimits env)"
    using nn by (cases "parseDecimalEnv (env ''NEXT_PUBLIC_MIN_STAKE'')")
      (auto simp: parseStakeLimits_def DEFAULT_MIN_STAKE_STROOPS_def)
  show "maxStroops (parseStakeLimits env) = Some m \<Longrightarrow> 0 < m"
    by (auto simp: parseStakeLimits_def split: option.splits if_splits)
qed

lemma find_filter: "(\<And>x. P x \<Longrightarrow> Q x) \<Longrightarrow> find P (filter Q xs) = find P xs"
  by (induction xs) auto

lemma alnum_no_colon: "list_all alnum c \<Longrightarrow> CHR '':'' \<notin> set c"
  by (auto simp: list_all_iff alnum_def is_upper_def is_lower_def is_digit_def code_def)

lemma id_inject:
  assumes "CHR '':'' \<notin> set c" "CHR '':'' \<notin> set c'"
  shows "c @ '':'' @ i = c' @ '':'' @ i' \<longleftrightarrow> c = c' \<and> i = i'"
proof
  assume eq: "c @ '':'' @ i = c' @ '':'' @ i'"
  have "takeWhile (\<lambda>x. x \<noteq> CHR '':'') (c @ '':'' @ i) = c" "takeWhile (\<lambda>x. x \<noteq> CHR '':'') (c' @ '':'' @ i') = c'"
    using assms by (simp_all add: takeWhile_append)
  then have "c = c'" using eq by metis
  then show "c = c' \<and> i = i'" using eq by simp
qed simp

lemma share_bounds:
  fixes q :: rat
  assumes "0 < n" "0 \<le> q" "0 < (c :: int)"
  shows "0 \<le> n * \<lfloor>q\<rfloor> div c" "of_int (n * \<lfloor>q\<rfloor> div c) \<le> of_int n * q / of_int c"
    "q \<le> of_int c \<Longrightarrow> n * \<lfloor>q\<rfloor> div c \<le> n"
proof -
  let ?r = "n * \<lfloor>q\<rfloor> div c"
  show "0 \<le> ?r" using assms by (simp add: pos_imp_zdiv_nonneg_iff)
  have "?r * c \<le> n * \<lfloor>q\<rfloor>"
    using div_mult_mod_eq [of "n * \<lfloor>q\<rfloor>" c] pos_mod_sign [OF assms(3), of "n * \<lfloor>q\<rfloor>"] by linarith
  then have "(of_int (?r * c) :: rat) \<le> of_int (n * \<lfloor>q\<rfloor>)" by (simp only: of_int_le_iff)
  also have "\<dots> \<le> of_int n * q" using assms(1) by (simp add: mult_left_mono)
  finally show "of_int ?r \<le> of_int n * q / of_int c" using assms(3) by (simp add: pos_le_divide_eq)
  assume "q \<le> of_int c"
  then have "\<lfloor>q\<rfloor> \<le> c" by linarith
  then have "n * \<lfloor>q\<rfloor> \<le> n * c" using assms(1) by simp
  then show "?r \<le> n" using zdiv_mono1 [of "n * \<lfloor>q\<rfloor>" "n * c" c] assms(3) by simp
qed

lemma native_asset_simps [simp]:
  "sa_type (nativeStakeAsset sac) = Native" "sa_code (nativeStakeAsset sac) = ''XLM''"
  "sa_issuer (nativeStakeAsset sac) = None" "sa_id (nativeStakeAsset sac) = ''native''"
  by (simp_all add: nativeStakeAsset_def)

lemma issuer_errors_Nil: "issuer_errors c i n = [] \<longleftrightarrow> i \<noteq> [] \<and> isValidIssuer i"
  by (simp add: issuer_errors_def)

text \<open>What an accepted configuration of the asset is: one of two forms.\<close>

lemma parsed_asset:
  assumes "parseStakeAsset env network = AssetOk a"
  obtains (native) sac where "a = nativeStakeAsset sac" "network = FUTURENET"
  | (credit) c i sac where
      "a = \<lparr>sa_type = Credit, sa_code = c, sa_issuer = Some i, sa_sac = sac, sa_id = c @ '':'' @ i\<rparr>"
      "isValidAssetCode c" "isValidIssuer i"
proof -
  let ?c = "env_or (env ''NEXT_PUBLIC_STAKE_ASSET_CODE'') ''USDC''"
  let ?i = "env_or (env ''NEXT_PUBLIC_STAKE_ASSET_ISSUER'') (nullish (DEFAULT_STAKE_ISSUERS network) [])"
  show ?thesis
  proof (cases "to_upper ?c = ''XLM'' \<and> ?i = []")
    case True
    then have "nullish (DEFAULT_STAKE_ISSUERS network) [] = []"
      by (auto simp: env_or_def split: option.splits if_splits)
    then have "network = FUTURENET" by (cases network) (simp_all add: DEFAULT_STAKE_ISSUERS_def)
    moreover obtain sac where "a = nativeStakeAsset sac"
      using assms True by (auto simp: parseStakeAsset_def Let_def split: if_splits)
    ultimately show ?thesis using native by blast
  next
    case False
    then obtain sac where
      "a = \<lparr>sa_type = Credit, sa_code = ?c, sa_issuer = Some ?i, sa_sac = sac, sa_id = ?c @ '':'' @ ?i\<rparr>"
      "isValidAssetCode ?c" "isValidIssuer ?i"
      using assms unfolding parseStakeAsset_def Let_def if_not_P [OF False]
      by (auto simp: issuer_errors_Nil simp del: env_or_def split: if_splits)
    then show ?thesis using credit by blast
  qed
qed

lemma relevant_lines [simp]:
  fixes asset account
  defines "acc \<equiv> account\<lparr>ha_balances := filter (\<lambda>l. bl_asset_type l = ''native'' \<or> balanceLineMatchesAsset l asset)
    (ha_balances account)\<rparr>"
  shows "findNativeLine acc = findNativeLine account" "findStakeAssetLine acc asset = findStakeAssetLine account asset"
    "computeReservedNativeStroops acc = computeReservedNativeStroops account"
proof -
  show "findNativeLine acc = findNativeLine account" "findStakeAssetLine acc asset = findStakeAssetLine account asset"
    by (simp_all add: acc_def findNativeLine_def findStakeAssetLine_def find_filter)
  show "computeReservedNativeStroops acc = computeReservedNativeStroops account"
    unfolding acc_def by (cases account) (simp add: computeReservedNativeStroops_def cong: sum.case_cong)
qed

lemma clampToZero_pos: "0 < clampToZero v \<Longrightarrow> clampToZero v = v"
  by (simp add: clampToZero_def split: if_splits)

lemma clampToZero_nonneg [simp]: "0 \<le> clampToZero v"
  by (simp add: clampToZero_def)

lemma reserved_nonneg: "computeReservedNativeStroops account = Inr r \<Longrightarrow> 0 \<le> r"
  by (auto simp: computeReservedNativeStroops_def BASE_RESERVE_STROOPS_def split: sum.splits)

subsection \<open>Properties\<close>

text \<open>The maximum that the screen offers is the largest amount that passes the validation: with the
  limits read from any environment, an amount is accepted exactly when it is at least the minimum,
  positive, and not above the computed maximum. When the maximum is zero, no amount is accepted.\<close>

theorem max_stake_is_greatest:
  "validateStakeAmount (Some a) (Some spendable) (parseStakeLimits env) True True = StakeOk
   \<longleftrightarrow> 0 < a \<and> minStroops (parseStakeLimits env) \<le> a
        \<and> a \<le> computeMaxStakeStroops spendable (parseStakeLimits env)"
proof (cases "maxStroops (parseStakeLimits env)")
  case None
  then show ?thesis by (auto simp: validateStakeAmount_def computeMaxStakeStroops_def above_def)
next
  case (Some m)
  then show ?thesis by (auto simp: validateStakeAmount_def computeMaxStakeStroops_def above_def)
qed

text \<open>A percentage preset never offers more than that share of the spendable balance, and an amount it
  offers is never refused for exceeding the maximum, the balance or the fee; only the minimum can
  refuse it (or the amount zero). This holds for every finite percentage, also beyond 0 and 100.\<close>

theorem percent_stake_bounded:
  "\<exists>p. computePercentStakeStroops spendable (Fin q) (parseStakeLimits env) = Inr p
     \<and> 0 \<le> p \<and> of_int p \<le> of_int (clampToZero spendable) * min 1 (max 0 q / 100)
     \<and> validateStakeAmount (Some p) (Some spendable) (parseStakeLimits env) True True
         \<in> {StakeOk, StakeError InvalidAmount, StakeError BelowMinimum}"
proof (cases "spendable \<le> 0 \<or> q \<le> 0")
  case True
  then have "computePercentStakeStroops spendable (Fin q) (parseStakeLimits env) = Inr 0"
    by (auto simp: computePercentStakeStroops_def num_ge_def)
  then show ?thesis by (simp add: clampToZero_def validateStakeAmount_def)
next
  case False
  then have pos: "0 < spendable" "0 < q" by auto
  let ?l = "parseStakeLimits env"
  show ?thesis
  proof (cases "100 \<le> q")
    case True
    let ?p = "computeMaxStakeStroops spendable ?l"
    have "computePercentStakeStroops spendable (Fin q) ?l = Inr ?p"
      using pos True by (auto simp: computePercentStakeStroops_def num_ge_def)
    moreover have b: "0 \<le> ?p \<and> ?p \<le> spendable"
      using pos parsed_limits(2) [of env] by (auto simp: computeMaxStakeStroops_def split: option.splits)
    moreover have "min 1 (max 0 q / 100) = 1" using pos True by simp
    moreover have "validateStakeAmount (Some ?p) (Some spendable) ?l True True
        \<in> {StakeOk, StakeError InvalidAmount, StakeError BelowMinimum}"
      using pos parsed_limits(2) [of env]
      by (auto simp: validateStakeAmount_def computeMaxStakeStroops_def above_def split: option.splits)
    ultimately show ?thesis using pos by (auto simp: clampToZero_def)
  next
    case False
    define raw where "raw = spendable * \<lfloor>q\<rfloor> div 100"
    define p where "p = (case maxStroops ?l of Some m \<Rightarrow> if raw > m then m else raw | None \<Rightarrow> raw)"
    have fl: "0 \<le> \<lfloor>q\<rfloor>" using pos by simp
    have res: "computePercentStakeStroops spendable (Fin q) ?l = Inr p"
      using pos False fl
      by (simp add: computePercentStakeStroops_def num_ge_def big_div_nonneg raw_def p_def Let_def split: option.split)
    note raw = share_bounds [OF pos(1) less_imp_le [OF pos(2)], of 100, folded raw_def]
    have raw1: "(of_int raw :: rat) \<le> of_int spendable * min 1 (max 0 q / 100)" using raw(2) pos False by simp
    have "p \<le> raw" "0 \<le> p" using raw(1) parsed_limits(2) [of env] by (auto simp: p_def split: option.splits)
    moreover have "raw \<le> spendable" using raw(3) False by simp
    moreover have "\<not> above p (maxStroops ?l)" by (simp add: p_def above_def split: option.splits)
    ultimately show ?thesis
      using res raw1 pos by (auto simp: clampToZero_def validateStakeAmount_def above_def)
  qed
qed

text \<open>What an account may stake depends on the lines of the asset only: dropping every balance line that
  is neither native nor the configured code of the configured issuer changes nothing in the
  snapshot, so a token that shares the ticker is never counted.\<close>

theorem impostor_lines_ignored:
  "deriveBalanceSnapshot
      (account\<lparr>ha_balances := filter (\<lambda>l. bl_asset_type l = ''native'' \<or> balanceLineMatchesAsset l asset)
                 (ha_balances account)\<rparr>) asset address fetchedAt fee
   = deriveBalanceSnapshot account asset address fetchedAt fee"
  unfolding deriveBalanceSnapshot_def relevant_lines ..

text \<open>The spendable amounts are never negative, and staking the whole spendable native balance leaves
  the reserve, the offers' liabilities and the fee on the account.\<close>

theorem spendable_keeps_reserve:
  assumes "deriveBalanceSnapshot account asset address fetchedAt fee = Inr s"
    and "0 < bs_spendableStakeStroops s" "0 \<le> bs_feeBufferStroops s"
  shows "if sa_type asset = Native
     then bs_spendableStakeStroops s + bs_feeBufferStroops s + bs_reservedNativeStroops s
        + parseStroops (Option.bind (findNativeLine account) bl_selling_liabilities) = bs_nativeStroops s
        \<and> 0 \<le> bs_reservedNativeStroops s
     else (\<exists>line. findStakeAssetLine account asset = Some line \<and> bl_is_authorized line \<noteq> Some False
        \<and> bs_spendableStakeStroops s + parseStroops (bl_selling_liabilities line) = parseStroops (bl_balance line))"
proof -
  obtain r where r: "computeReservedNativeStroops account = Inr r"
    using assms(1) by (cases "computeReservedNativeStroops account") (simp_all add: deriveBalanceSnapshot_def Let_def)
  note d = assms(1) [unfolded deriveBalanceSnapshot_def Let_def r sum.case]
  show ?thesis
  proof (cases "sa_type asset = Native")
    case True
    let ?n = "parseStroops (Option.bind (findNativeLine account) bl_balance)"
      and ?l = "parseStroops (Option.bind (findNativeLine account) bl_selling_liabilities)"
      and ?fee = "nullish fee DEFAULT_FEE_BUFFER_STROOPS"
    have s: "bs_spendableStakeStroops s = clampToZero (clampToZero (?n - r - ?l) - ?fee)"
      "bs_feeBufferStroops s = ?fee" "bs_reservedNativeStroops s = r" "bs_nativeStroops s = ?n"
      using d True by auto
    have "bs_spendableStakeStroops s = clampToZero (?n - r - ?l) - ?fee"
      using assms(2) clampToZero_pos unfolding s(1) by blast
    moreover from this have "clampToZero (?n - r - ?l) = ?n - r - ?l"
      using assms(2,3) s(2) by (intro clampToZero_pos) simp
    ultimately show ?thesis using True reserved_nonneg [OF r] by (simp add: s(2-4))
  next
    case False
    show ?thesis
    proof (cases "findStakeAssetLine account asset")
      case None
      then have "bs_spendableStakeStroops s = 0" using d False by auto
      then show ?thesis using assms(2) by simp
    next
      case (Some line)
      let ?v = "parseStroops (bl_balance line) - parseStroops (bl_selling_liabilities line)"
      have s: "bs_spendableStakeStroops s = (if bl_is_authorized line \<noteq> Some False then clampToZero ?v else 0)"
        using d False Some by auto
      then have a: "bl_is_authorized line \<noteq> Some False" using assms(2) by (auto split: if_splits)
      then have "bs_spendableStakeStroops s = ?v" using s assms(2) clampToZero_pos by auto
      then show ?thesis using a Some False by simp
    qed
  qed
qed

definition sample_account :: horizon_account where
  "sample_account =
     \<lparr>ha_subentry_count = Some (Fin 2), ha_num_sponsoring = None, ha_num_sponsored = None,
      ha_balances = [\<lparr>bl_balance = Some ''10.5'', bl_asset_type = ''native'', bl_asset_code = None,
        bl_asset_issuer = None, bl_selling_liabilities = Some ''1.0'', bl_is_authorized = None\<rparr>]\<rparr>"

lemma sample_amounts: "parseStroops (Some ''10.5'') = 105000000" "parseStroops (Some ''1.0'') = 10000000"
  using toStroops_point [of "''10''" "''5''" False] toStroops_point [of "''1''" "''0''" False]
  by (simp_all add: parseStroops_def sign_text_def decimal_value_digits)

theorem spendable_keeps_reserve_witness:
  "\<exists>s. deriveBalanceSnapshot sample_account (nativeStakeAsset None) ''G'' (Fin 5) None = Inr s
     \<and> bs_spendableStakeStroops s = 74000000
     \<and> bs_spendableStakeStroops s + bs_feeBufferStroops s + bs_reservedNativeStroops s + 10000000
         = bs_nativeStroops s"
proof -
  have l: "parseStroops (Option.bind (findNativeLine sample_account) bl_selling_liabilities) = 10000000"
    "parseStroops (Option.bind (findNativeLine sample_account) bl_balance) = 105000000"
    by (simp_all add: findNativeLine_def sample_account_def sample_amounts)
  have r: "computeReservedNativeStroops sample_account = Inr 20000000"
    by (simp add: computeReservedNativeStroops_def sample_account_def big_of_num_def clampToZero_def
        BASE_RESERVE_ENTRIES_def BASE_RESERVE_STROOPS_def)
  obtain s where d: "deriveBalanceSnapshot sample_account (nativeStakeAsset None) ''G'' (Fin 5) None = Inr s"
    and n: "bs_spendableStakeStroops s = 74000000" "0 \<le> bs_feeBufferStroops s"
    unfolding deriveBalanceSnapshot_def Let_def r l by (simp add: clampToZero_def DEFAULT_FEE_BUFFER_STROOPS_def)
  have "0 < bs_spendableStakeStroops s" by (simp add: n(1))
  from spendable_keeps_reserve [OF d this n(2)] show ?thesis
    using d n(1) l by (intro exI [of _ s]) simp
qed

text \<open>The identity of a stake asset is its code and issuer together: two accepted configurations, on any
  networks, have the same id exactly when type, code and issuer agree. The native asset is only
  ever accepted on the network without a default issuer: on the public and the test network the code
  \<^verbatim>\<open>XLM\<close> gives a credit asset of the default issuer.\<close>

theorem asset_identity:
  assumes "parseStakeAsset env network = AssetOk a" "parseStakeAsset env' network' = AssetOk b"
  shows "(sa_id a = sa_id b \<longleftrightarrow> sa_type a = sa_type b \<and> sa_code a = sa_code b \<and> sa_issuer a = sa_issuer b)
    \<and> (sa_type a = Credit \<or> network = FUTURENET)"
proof -
  have nc: "''native'' \<noteq> c @ '':'' @ i" for c i
  proof
    assume eq: "''native'' = c @ '':'' @ i"
    have "CHR '':'' \<in> set (c @ '':'' @ i)" by simp
    then show False unfolding eq [symmetric] by simp
  qed
  have col: "isValidAssetCode c \<Longrightarrow> CHR '':'' \<notin> set c" for c
    by (simp add: isValidAssetCode_def alnum_no_colon)
  from assms(1) show ?thesis
  proof (cases rule: parsed_asset)
    case (native sac)
    note a = native
    from assms(2) show ?thesis
    proof (cases rule: parsed_asset)
      case (native sac')
      then show ?thesis using a by simp
    next
      case (credit c i sac')
      then show ?thesis using a nc [of c i] by simp
    qed
  next
    case (credit c i sac)
    note a = credit
    from assms(2) show ?thesis
    proof (cases rule: parsed_asset)
      case (native sac')
      then show ?thesis using a nc [of c i] by (simp add: eq_commute [of _ "''native''"])
    next
      case (credit c' i' sac')
      then show ?thesis using a id_inject [OF col col, of c c' i i'] by simp
    qed
  qed
qed

theorem asset_identity_witness:
  "\<exists>a b. parseStakeAsset [''NEXT_PUBLIC_STAKE_ASSET_CODE'' \<mapsto> ''XLM''] PUBLIC = AssetOk a
     \<and> parseStakeAsset Map.empty TESTNET = AssetOk b
     \<and> sa_type a = Credit \<and> sa_code a = ''XLM'' \<and> sa_id a \<noteq> sa_id b"
proof -
  let ?r = "\<lambda>r. case r of AssetOk a \<Rightarrow> a"
  let ?e = "[''NEXT_PUBLIC_STAKE_ASSET_CODE'' \<mapsto> ''XLM''] :: env"
  let ?a = "?r (parseStakeAsset ?e PUBLIC)" and ?b = "?r (parseStakeAsset Map.empty TESTNET)"
  have p: "parseStakeAsset ?e PUBLIC = AssetOk ?a" "parseStakeAsset Map.empty TESTNET = AssetOk ?b"
    and c: "sa_code ?a = ''XLM''" "sa_code ?b = ''USDC''"
    by code_simp+
  have "sa_type ?a = Credit \<and> sa_id ?a \<noteq> sa_id ?b" using asset_identity [OF p] c by simp
  then show ?thesis using p c by blast
qed

end
