(* ===== verification/Retry.thy ===== *)
theory Retry
  imports Prelude
begin

text \<open>
  \<^verbatim>\<open>packages/backend/src/utils/retry.ts\<close> and
  \<^verbatim>\<open>packages/backend/src/common/decorators/retryable.decorator.ts\<close>: calling a fallible operation
  again after a growing pause. The operation is the sequence of the outcomes of its calls
  (\<open>call k\<close> is the outcome of the \<open>k\<close>-th one); a run gives the final outcome, the number of calls made
  and the pauses in milliseconds. An outcome \<open>Inl None\<close> is a thrown \<^verbatim>\<open>undefined\<close>. Attempt limits are
  integers, as at every call site.
\<close>

record 'r retry_run =
  rt_outcome :: 'r
  rt_calls :: nat
  rt_sleeps :: "int list"

subsection \<open>The loops\<close>

function retry_from :: "(nat \<Rightarrow> 'e + 'a) \<Rightarrow> int \<Rightarrow> int \<Rightarrow> nat \<Rightarrow> 'e option \<Rightarrow> int list \<Rightarrow> ('e option + 'a) retry_run" where
  "retry_from call maxAttempts baseDelayMs attempt lastError slept =
     (if int attempt \<le> maxAttempts
      then (case call attempt of
          Inr v \<Rightarrow> \<lparr>rt_outcome = Inr v, rt_calls = attempt, rt_sleeps = slept\<rparr>
        | Inl err \<Rightarrow>
            if int attempt = maxAttempts
            then \<lparr>rt_outcome = Inl (Some err), rt_calls = attempt, rt_sleeps = slept\<rparr>
            else retry_from call maxAttempts baseDelayMs (attempt + 1) (Some err)
                   (slept @ [baseDelayMs * 2 ^ (attempt - 1)]))
      else \<lparr>rt_outcome = Inl lastError, rt_calls = attempt - 1, rt_sleeps = slept\<rparr>)"
  by pat_completeness auto
termination
  by (relation "measure (\<lambda>(call, maxAttempts, baseDelayMs, attempt, lastError, slept). nat (maxAttempts + 1 - int attempt))")
    auto

declare retry_from.simps [simp del]

definition retryWithBackoff :: "(nat \<Rightarrow> 'e + 'a) \<Rightarrow> int \<Rightarrow> int \<Rightarrow> ('e option + 'a) retry_run" where
  "retryWithBackoff call maxAttempts baseDelayMs = retry_from call maxAttempts baseDelayMs 1 None []"

text \<open>The decorator of \<^verbatim>\<open>common/decorators\<close> adds a jitter below 500 ms, the argument \<open>jitter\<close>.\<close>

function retryable_from :: "(nat \<Rightarrow> int) \<Rightarrow> (nat \<Rightarrow> 'e + 'a) \<Rightarrow> int \<Rightarrow> int \<Rightarrow> nat \<Rightarrow> 'e option \<Rightarrow> int list \<Rightarrow> ('e option + 'a) retry_run" where
  "retryable_from jitter call maxAttempts initialDelayMs attempt lastError slept =
     (if int attempt \<le> maxAttempts
      then (case call attempt of
          Inr v \<Rightarrow> \<lparr>rt_outcome = Inr v, rt_calls = attempt, rt_sleeps = slept\<rparr>
        | Inl err \<Rightarrow>
            retryable_from jitter call maxAttempts initialDelayMs (attempt + 1) (Some err)
              (if int attempt < maxAttempts
               then slept @ [initialDelayMs * 2 ^ (attempt - 1) + jitter attempt] else slept))
      else \<lparr>rt_outcome = Inl lastError, rt_calls = attempt - 1, rt_sleeps = slept\<rparr>)"
  by pat_completeness auto
termination
  by (relation "measure (\<lambda>(jitter, call, maxAttempts, initialDelayMs, attempt, lastError, slept). nat (maxAttempts + 1 - int attempt))")
    auto

declare retryable_from.simps [simp del]

definition Retryable :: "(nat \<Rightarrow> int) \<Rightarrow> (nat \<Rightarrow> 'e + 'a) \<Rightarrow> int \<Rightarrow> int \<Rightarrow> ('e option + 'a) retry_run" where
  "Retryable jitter call maxAttempts initialDelayMs = retryable_from jitter call maxAttempts initialDelayMs 1 None []"

text \<open>
  The RxJS operator. A subscription to the source either completes or fails; what it emits before
  is passed on at once and is not part of the outcome. The count of failures \<open>attempt\<close> belongs
  to the observable the operator returns, not to one subscription of it: it is handed on.
\<close>

function rxjs_from :: "(nat \<Rightarrow> 'e + 'a) \<Rightarrow> int \<Rightarrow> int \<Rightarrow> nat \<Rightarrow> nat \<Rightarrow> int list \<Rightarrow> nat \<times> ('e option + 'a) retry_run" where
  "rxjs_from call maxAttempts baseDelayMs attempt k slept =
     (case call k of
        Inr v \<Rightarrow> (attempt, \<lparr>rt_outcome = Inr v, rt_calls = k, rt_sleeps = slept\<rparr>)
      | Inl err \<Rightarrow>
          (let attempt' = attempt + 1
           in if int attempt' \<ge> maxAttempts
              then (attempt', \<lparr>rt_outcome = Inl (Some err), rt_calls = k, rt_sleeps = slept\<rparr>)
              else rxjs_from call maxAttempts baseDelayMs attempt' (k + 1)
                     (slept @ [baseDelayMs * 2 ^ (attempt' - 1)])))"
  by pat_completeness auto
termination
  by (relation "measure (\<lambda>(call, maxAttempts, baseDelayMs, attempt, k, slept). nat (maxAttempts - int attempt))")
    auto

declare rxjs_from.simps [simp del]

definition rxjsRetryWithBackoff :: "(nat \<Rightarrow> 'e + 'a) \<Rightarrow> int \<Rightarrow> int \<Rightarrow> nat \<Rightarrow> nat \<times> ('e option + 'a) retry_run" where
  "rxjsRetryWithBackoff call maxAttempts baseDelayMs attempt = rxjs_from call maxAttempts baseDelayMs attempt 1 []"

subsection \<open>The reference: the first success, or the last failure\<close>

definition first_success :: "(nat \<Rightarrow> 'e + 'a) \<Rightarrow> nat \<Rightarrow> nat \<Rightarrow> nat option" where
  "first_success call i n = find (\<lambda>k. isl (call k) = False) [i..<n + 1]"

definition backoff :: "int \<Rightarrow> nat \<Rightarrow> nat \<Rightarrow> int list" where
  "backoff base i k = map (\<lambda>j. base * 2 ^ (j - 1)) [i..<k]"

definition retry_reference :: "(nat \<Rightarrow> 'e + 'a) \<Rightarrow> nat \<Rightarrow> nat \<Rightarrow> int \<Rightarrow> int list \<Rightarrow> ('e option + 'a) retry_run" where
  "retry_reference call i n base slept = (case first_success call i n of
      Some k \<Rightarrow> \<lparr>rt_outcome = Inr (projr (call k)), rt_calls = k, rt_sleeps = slept @ backoff base i k\<rparr>
    | None \<Rightarrow> \<lparr>rt_outcome = Inl (Some (projl (call n))), rt_calls = n, rt_sleeps = slept @ backoff base i n\<rparr>)"

subsection \<open>Lemmas\<close>

lemma backoff_step: "i < k \<Longrightarrow> backoff base i k = base * 2 ^ (i - 1) # backoff base (Suc i) k"
  by (simp add: backoff_def upt_conv_Cons)

lemma backoff_self [simp]: "backoff base k k = []"
  by (simp add: backoff_def)

lemma first_success_here: "i \<le> n \<Longrightarrow> \<not> isl (call i) \<Longrightarrow> first_success call i n = Some i"
  by (simp add: first_success_def upt_conv_Cons del: upt_Suc)

lemma first_success_later:
  "i \<le> n \<Longrightarrow> isl (call i) \<Longrightarrow> first_success call i n = first_success call (Suc i) n"
  by (simp add: first_success_def upt_conv_Cons del: upt_Suc)

lemma first_success_bounds: "first_success call i n = Some k \<Longrightarrow> i \<le> k \<and> k \<le> n \<and> \<not> isl (call k)"
  by (auto simp: first_success_def find_Some_iff simp del: upt_Suc)

lemma first_success_none: "first_success call i n = None \<longleftrightarrow> (\<forall>k. i \<le> k \<and> k \<le> n \<longrightarrow> isl (call k))"
  by (auto simp: first_success_def find_None_iff simp del: upt_Suc)

lemma reference_success: "i \<le> n \<Longrightarrow> call i = Inr v \<Longrightarrow>
    retry_reference call i n base slept = \<lparr>rt_outcome = Inr v, rt_calls = i, rt_sleeps = slept\<rparr>"
  by (simp add: retry_reference_def first_success_here)

lemma reference_last: "call n = Inl e \<Longrightarrow>
    retry_reference call n n base slept = \<lparr>rt_outcome = Inl (Some e), rt_calls = n, rt_sleeps = slept\<rparr>"
  by (simp add: retry_reference_def first_success_later) (simp add: first_success_def)

lemma reference_step:
  assumes "i < n" "call i = Inl e"
  shows "retry_reference call i n base slept = retry_reference call (Suc i) n base (slept @ [base * 2 ^ (i - 1)])"
proof -
  have "first_success call i n = first_success call (Suc i) n"
    using assms by (simp add: first_success_later)
  then show ?thesis using assms
    by (auto simp: retry_reference_def backoff_step dest!: first_success_bounds split: option.split)
qed

lemma retry_from_reference:
  "i \<le> n \<Longrightarrow> retry_from call (int n) base i err slept = retry_reference call i n base slept"
proof (induction "n - i" arbitrary: i err slept)
  case 0
  then have "n = i" by simp
  then show ?case
    by (cases "call i") (simp_all add: retry_from.simps [of _ _ _ i] reference_success reference_last)
next
  case (Suc d)
  then have lt: "i < n" "d = n - Suc i" by simp_all
  show ?case
  proof (cases "call i")
    case (Inl e)
    then show ?thesis
      using lt Suc.hyps(1) [OF lt(2), of "Some e" "slept @ [base * 2 ^ (i - 1)]"]
      by (simp add: retry_from.simps [of _ _ _ i] reference_step)
  next
    case (Inr v)
    then show ?thesis using lt by (simp add: retry_from.simps [of _ _ _ i] reference_success)
  qed
qed

lemma rxjs_from_reference:
  "a < n \<Longrightarrow> i = Suc a \<Longrightarrow>
   \<exists>a'. rxjs_from call (int n) base a i slept = (a', retry_reference call i n base slept)
      \<and> (isl (rt_outcome (retry_reference call i n base slept)) = (a' = n))"
proof (induction "n - a" arbitrary: a i slept)
  case 0
  then show ?case by simp
next
  case (Suc d)
  show ?case
  proof (cases "call i")
    case (Inr v)
    then show ?thesis using Suc.prems by (simp add: rxjs_from.simps [of _ _ _ a] reference_success)
  next
    case (Inl e)
    show ?thesis
    proof (cases "i = n")
      case True
      then show ?thesis using Inl Suc.prems by (simp add: rxjs_from.simps [of _ _ _ a] reference_last)
    next
      case False
      then have "Suc a < n" "d = n - Suc a" using Suc.prems Suc.hyps(2) by auto
      then show ?thesis
        using Suc.hyps(1) [of "Suc a" "Suc i" "slept @ [base * 2 ^ (i - 1)]"] Inl Suc.prems
        by (simp add: rxjs_from.simps [of _ _ _ a] reference_step)
    qed
  qed
qed

lemma backoff_total: "sum_list (backoff base (Suc 0) k) = base * (2 ^ (k - Suc 0) - 1)" if "Suc 0 \<le> k"
  using that
proof (induction k rule: dec_induct)
  case (step k)
  then show ?case by (cases k) (simp_all add: backoff_def algebra_simps)
qed (simp add: backoff_def)

subsection \<open>Properties\<close>

text \<open>With at least one attempt allowed, the retry loop returns the outcome of the first call that succeeds
  within the limit, after exactly that many calls, and the error of the last call when none does; in
  between it has paused, and for the first time after \<open>k\<close> calls the pauses sum up to
  base times \<open>2 ^ (k - 1) - 1\<close> milliseconds.\<close>

theorem retry_returns_first_success:
  assumes "1 \<le> n"
  shows "retryWithBackoff call (int n) base = retry_reference call 1 n base []
    \<and> (\<forall>k. first_success call 1 n = Some k \<longrightarrow>
         rt_outcome (retryWithBackoff call (int n) base) = Inr (projr (call k))
         \<and> rt_calls (retryWithBackoff call (int n) base) = k)
    \<and> sum_list (rt_sleeps (retryWithBackoff call (int n) base))
        = base * (2 ^ (rt_calls (retryWithBackoff call (int n) base) - 1) - 1)"
proof -
  have eq: "retryWithBackoff call (int n) base = retry_reference call 1 n base []"
    using assms by (simp add: retryWithBackoff_def retry_from_reference)
  show ?thesis
  proof (cases "first_success call 1 n")
    case None
    then show ?thesis using assms by (simp add: eq retry_reference_def backoff_total)
  next
    case (Some k)
    then have "1 \<le> k" using first_success_bounds by blast
    then show ?thesis using Some by (simp add: eq retry_reference_def backoff_total)
  qed
qed

definition third_time :: "nat \<Rightarrow> string + nat" where
  "third_time k = (if k < 3 then Inl ''busy'' else Inr k)"

theorem retry_returns_first_success_witness:
  "retryWithBackoff third_time 4 1000 = \<lparr>rt_outcome = Inr 3, rt_calls = 3, rt_sleeps = [1000, 2000]\<rparr>"
proof -
  have "first_success third_time 1 4 = Some 3" by code_simp
  then have "retry_reference third_time 1 4 1000 [] = \<lparr>rt_outcome = Inr 3, rt_calls = 3, rt_sleeps = [1000, 2000]\<rparr>"
    by (simp add: retry_reference_def third_time_def backoff_def upt_conv_Cons)
  then show ?thesis using retry_returns_first_success [of 4 third_time 1000] by simp
qed

text \<open>The RxJS operator behaves like the loop for the first subscription. The count of failures is not
  reset: once a subscription has given up, every further subscription fails with its first error,
  without a retry.\<close>

theorem rxjs_shares_attempts:
  assumes "1 \<le> n"
  shows "snd (rxjsRetryWithBackoff call (int n) base 0) = retryWithBackoff call (int n) base
    \<and> (isl (rt_outcome (retryWithBackoff call (int n) base)) \<longrightarrow> call' 1 = Inl e \<longrightarrow>
        rt_outcome (snd (rxjsRetryWithBackoff call' (int n) base (fst (rxjsRetryWithBackoff call (int n) base 0))))
          = Inl (Some e)
        \<and> rt_calls (snd (rxjsRetryWithBackoff call' (int n) base (fst (rxjsRetryWithBackoff call (int n) base 0)))) = 1)"
proof -
  obtain a where a: "rxjsRetryWithBackoff call (int n) base 0 = (a, retryWithBackoff call (int n) base)"
    "isl (rt_outcome (retryWithBackoff call (int n) base)) = (a = n)"
    using rxjs_from_reference [of 0 n 1 call base "[]"] assms
    by (auto simp: rxjsRetryWithBackoff_def retryWithBackoff_def retry_from_reference)
  have "rxjsRetryWithBackoff call' (int n) base n = (Suc n, \<lparr>rt_outcome = Inl (Some e), rt_calls = 1, rt_sleeps = []\<rparr>)"
    if "call' 1 = Inl e"
    using that by (simp add: rxjsRetryWithBackoff_def rxjs_from.simps [of _ _ _ n])
  then show ?thesis using a by auto
qed

theorem rxjs_shares_attempts_witness:
  "rt_calls (snd (rxjsRetryWithBackoff third_time 2 1000 (fst (rxjsRetryWithBackoff third_time 2 1000 0)))) = 1"
proof -
  have l: "isl (rt_outcome (retryWithBackoff third_time 2 1000))" by code_simp
  show ?thesis
    using rxjs_shares_attempts [of 2 third_time 1000 third_time "''busy''"] l by (simp add: third_time_def)
qed

end
