(* ===== verification/ApiClient.thy ===== *)
theory ApiClient
  imports JsValue
begin

text \<open>
  \<^verbatim>\<open>packages/frontend/src/lib/backend/http.ts\<close>: one JSON request against the backend, with the
  errors a screen tells apart. What the network does is an argument: the request fails, or a
  response arrives with a status and a text. \<open>parse\<close> is \<open>JSON.parse\<close> and \<open>str\<close> is \<open>String(v)\<close> on a
  value that is no string.
\<close>

datatype api_error =
    ApiError string int jval
  | NotFoundError string
  | BackendUnavailableError string
  | AbortError

datatype fetch_outcome =
    FetchFailed bool                \<comment> \<open>whether the caller had aborted\<close>
  | FetchResponse int string

subsection \<open>The address\<close>

text \<open>The UTF-8 bytes of a code unit below 256, and \<open>%XX\<close>.\<close>

definition utf8_bytes :: "char \<Rightarrow> nat list" where
  "utf8_bytes c = (if code c < 128 then [code c] else [192 + code c div 64, 128 + code c mod 64])"

definition hex_upper :: "nat \<Rightarrow> char" where
  "hex_upper d = (if d < 10 then char_of (48 + d) else char_of (55 + d))"

definition percent :: "char \<Rightarrow> string" where
  "percent c = concat (map (\<lambda>b. [CHR ''%'', hex_upper (b div 16), hex_upper (b mod 16)]) (utf8_bytes c))"

definition unreserved :: "string \<Rightarrow> char \<Rightarrow> bool" where
  "unreserved marks c \<longleftrightarrow> is_upper c \<or> is_lower c \<or> is_digit c \<or> c \<in> set marks"

definition encodeURIComponent :: "string \<Rightarrow> string" where
  "encodeURIComponent s =
     concat (map (\<lambda>c. if unreserved (''-_.!~*()'' @ [CHR 0x27]) c then [c] else percent c) s)"

text \<open>One name or value of \<open>URLSearchParams.toString\<close>.\<close>

definition form_encode :: "string \<Rightarrow> string" where
  "form_encode s =
     concat (map (\<lambda>c. if unreserved ''*-._'' c then [c] else if c = CHR '' '' then ''+'' else percent c) s)"

definition strip_slash :: "string \<Rightarrow> string" where
  "strip_slash s = (if s \<noteq> [] \<and> last s = CHR ''/'' then butlast s else s)"

definition buildUrl :: "string \<Rightarrow> string \<Rightarrow> (string \<times> string option) list option \<Rightarrow> string" where
  "buildUrl BACKEND_URL path query =
     (let url = strip_slash BACKEND_URL @ path
      in case query of
           None \<Rightarrow> url
         | Some q \<Rightarrow>
             (let ps = concat (map (\<lambda>(k, v). case v of None \<Rightarrow> [] | Some t \<Rightarrow> [(k, t)]) q);
                  qs = join_with ''&'' (map (\<lambda>(k, t). form_encode k @ ''='' @ form_encode t) ps)
              in if qs = [] then url else url @ ''?'' @ qs))"

subsection \<open>The response\<close>

definition readBody :: "(string \<Rightarrow> jval option) \<Rightarrow> string \<Rightarrow> jval" where
  "readBody parse txt =
     (if txt = [] then JUndef else case parse txt of Some v \<Rightarrow> v | None \<Rightarrow> JStr txt)"

text \<open>\<open>Array.prototype.join\<close> leaves \<open>null\<close> and \<open>undefined\<close> empty.\<close>

definition join_text :: "(jval \<Rightarrow> string) \<Rightarrow> jval \<Rightarrow> string" where
  "join_text str v = (case v of JStr s \<Rightarrow> s | JNull \<Rightarrow> [] | JUndef \<Rightarrow> [] | _ \<Rightarrow> str v)"

definition errorMessage :: "(jval \<Rightarrow> string) \<Rightarrow> jval \<Rightarrow> string \<Rightarrow> string" where
  "errorMessage str body fallback = (case body of
      JStr s \<Rightarrow> if js_trim s \<noteq> [] then s else fallback
    | JObj ps \<Rightarrow> (case jget ps ''message'' of
          JStr m \<Rightarrow> m
        | JArr (JStr m # ms) \<Rightarrow> join_with '', '' (m # map (join_text str) ms)
        | _ \<Rightarrow> fallback)
    | _ \<Rightarrow> fallback)"

definition apiFetch :: "(string \<Rightarrow> jval option) \<Rightarrow> (jval \<Rightarrow> string) \<Rightarrow> string \<Rightarrow> fetch_outcome \<Rightarrow> api_error + jval" where
  "apiFetch parse str BACKEND_URL outcome = (case outcome of
      FetchFailed aborted \<Rightarrow>
        if aborted then Inl AbortError
        else Inl (BackendUnavailableError (''Could not reach the BACKit API at '' @ BACKEND_URL))
    | FetchResponse status txt \<Rightarrow>
        (let payload = readBody parse txt
         in if 200 \<le> status \<and> status \<le> 299 then Inr payload
            else if status = 404 then Inl (NotFoundError (errorMessage str payload ''Not found''))
            else if status \<ge> 500 then
              Inl (BackendUnavailableError (errorMessage str payload (''Backend returned '' @ int_text status)))
            else Inl (ApiError (errorMessage str payload (''Request failed with status '' @ int_text status))
                        status payload)))"

definition describeApiError :: "api_error \<Rightarrow> string \<Rightarrow> string" where
  "describeApiError err abort_message = (case err of
      BackendUnavailableError _ \<Rightarrow> ''The BACKit API is unavailable. Please retry in a moment.''
    | ApiError m _ _ \<Rightarrow> m
    | NotFoundError m \<Rightarrow> m
    | AbortError \<Rightarrow> abort_message)"

subsection \<open>Lemmas\<close>

lemma utf8_bytes_bound: "b \<in> set (utf8_bytes c) \<Longrightarrow> b < 256"
proof -
  have "code c < 256" by (simp add: code_def)
  moreover assume "b \<in> set (utf8_bytes c)"
  ultimately show ?thesis by (auto simp: utf8_bytes_def split: if_splits)
qed

lemma hex_upper_plain: "d < 16 \<Longrightarrow> is_upper (hex_upper d) \<or> is_digit (hex_upper d)"
  by (auto simp: hex_upper_def is_upper_def is_digit_def)

lemma percent_chars: "x \<in> set (percent c) \<Longrightarrow> x = CHR ''%'' \<or> is_upper x \<or> is_digit x"
proof -
  assume "x \<in> set (percent c)"
  then obtain b where b: "b \<in> set (utf8_bytes c)"
    and x: "x \<in> set [CHR ''%'', hex_upper (b div 16), hex_upper (b mod 16)]"
    unfolding percent_def set_concat set_map by blast
  have "b div 16 < 16" using utf8_bytes_bound [OF b] by simp
  then show ?thesis using x hex_upper_plain [of "b div 16"] hex_upper_plain [of "b mod 16"] by auto
qed

text \<open>An encoded path segment cannot leave its place in the address.\<close>

lemma encoded_segment: "set (encodeURIComponent s) \<inter> set ''/?#&='' = {}"
proof -
  have p: "c \<notin> set ''/?#&=''" if "is_upper c \<or> is_lower c \<or> is_digit c \<or> c \<in> set (''%-_.!~*()'' @ [CHR 0x27])" for c
    using that by (auto simp: is_upper_def is_lower_def is_digit_def code_def)
  have "x \<notin> set ''/?#&=''" if "x \<in> set (encodeURIComponent s)" for x
    using that percent_chars by (intro p) (auto simp: encodeURIComponent_def unreserved_def split: if_splits)
  then show ?thesis by blast
qed

end
