(* ===== verification/Markets.thy ===== *)
theory Markets
  imports ApiClient Amounts JsArith
begin

text \<open>
  \<^verbatim>\<open>packages/frontend/src/lib/backend/portfolio.ts\<close> and \<^verbatim>\<open>markets.ts\<close>: the positions of a
  wallet with their claim state and parimutuel payout, and the market with its odds, both read
  from the backend's JSON. \<open>p\<close> is how the language prints a finite number, \<open>ck\<close> is the collation
  key of a text under the host's locale (\<open>localeCompare\<close>).
\<close>

subsection \<open>Positions\<close>

datatype stake_position = YES | NO
datatype call_outcome = OUT_YES | OUT_NO | PENDING
datatype portfolio_status = ACTIVE | LOST | CLAIMABLE | CLAIM_PENDING | CLAIMED
datatype claim_status = CL_PENDING | CL_CLAIMED | CL_FAILED

definition outcome_of :: "stake_position \<Rightarrow> call_outcome" where
  "outcome_of side = (case side of YES \<Rightarrow> OUT_YES | NO \<Rightarrow> OUT_NO)"

record user_stake_call =
  uc_id :: string
  uc_title :: string
  uc_description :: string
  uc_outcome :: call_outcome
  uc_resolvedAt :: "string option"
  uc_expiresAt :: "string option"
  uc_createdAt :: string
  uc_contractAddress :: "string option"
  uc_totalYesStake :: jval
  uc_totalNoStake :: jval

record user_stake_dto =
  us_id :: string
  us_callId :: string
  us_userAddress :: string
  us_amount :: jval
  us_position :: stake_position
  us_profitLoss :: jval
  us_transactionHash :: "string option"
  us_createdAt :: string
  us_updatedAt :: string
  us_resolved :: bool
  us_call :: "user_stake_call option"

record payout_claim_dto =
  pc_callId :: string
  pc_amount :: jval
  pc_txHash :: "string option"
  pc_claimedAt :: "string option"
  pc_status :: claim_status

record portfolio_call =
  pfc_id :: string
  pfc_title :: string
  pfc_description :: string
  pfc_outcome :: call_outcome
  pfc_resolvedAt :: "string option"
  pfc_expiresAt :: "string option"
  pfc_createdAt :: string
  pfc_contractAddress :: "string option"
  pfc_totalYesStroops :: int
  pfc_totalNoStroops :: int

record portfolio_stake =
  pf_id :: string
  pf_callId :: string
  pf_userAddress :: string
  pf_position :: stake_position
  pf_amountStroops :: int
  pf_profitLossStroops :: "int option"
  pf_payoutStroops :: "int option"
  pf_transactionHash :: "string option"
  pf_createdAt :: string
  pf_updatedAt :: string
  pf_status :: portfolio_status
  pf_claimTxHash :: "string option"
  pf_claimedAt :: "string option"
  pf_call :: portfolio_call

definition calculatePayoutStroops :: "int \<Rightarrow> int \<Rightarrow> int \<Rightarrow> int" where
  "calculatePayoutStroops stakeStroops winningSideStroops losingSideStroops =
     (if winningSideStroops \<le> 0 then stakeStroops
      else (let pool = winningSideStroops + losingSideStroops
            in big_div (stakeStroops * pool) winningSideStroops))"

text \<open>\<open>v ?? d\<close> on a value.\<close>

definition js_or :: "jval \<Rightarrow> jval \<Rightarrow> jval" where
  "js_or v d = (case v of JNull \<Rightarrow> d | JUndef \<Rightarrow> d | _ \<Rightarrow> v)"

definition stake_status :: "bool \<Rightarrow> bool \<Rightarrow> bool \<Rightarrow> payout_claim_dto option \<Rightarrow> portfolio_status" where
  "stake_status resolved won payoutsUnavailable claim =
     (if \<not> resolved then ACTIVE
      else if \<not> won then LOST
      else if \<not> payoutsUnavailable \<and> map_option pc_status claim = Some CL_CLAIMED then CLAIMED
      else if \<not> payoutsUnavailable \<and> map_option pc_status claim = Some CL_PENDING
          \<and> (case Option.bind claim pc_txHash of None \<Rightarrow> False | Some h \<Rightarrow> h \<noteq> [])
      then CLAIM_PENDING
      else CLAIMABLE)"

definition normaliseStake ::
  "user_stake_dto \<Rightarrow> payout_claim_dto option \<Rightarrow> bool \<Rightarrow> amount_error + portfolio_stake" where
  "normaliseStake dto claim payoutsUnavailable =
     (let call = us_call dto;
          outcome = (case call of None \<Rightarrow> PENDING | Some c \<Rightarrow> uc_outcome c)
      in result_bind (amountFromApi (us_amount dto)) (\<lambda>amountStroops.
         result_bind (amountFromApi (case call of None \<Rightarrow> JStr ''0'' | Some c \<Rightarrow> js_or (uc_totalYesStake c) (JStr ''0'')))
           (\<lambda>totalYes.
         result_bind (amountFromApi (case call of None \<Rightarrow> JStr ''0'' | Some c \<Rightarrow> js_or (uc_totalNoStake c) (JStr ''0'')))
           (\<lambda>totalNo.
         let resolved = us_resolved dto \<and> outcome \<noteq> PENDING;
             won = resolved \<and> outcome = outcome_of (us_position dto)
         in result_bind (case claim of None \<Rightarrow> Inr None | Some c \<Rightarrow> optionalAmountFromApi (pc_amount c))
              (\<lambda>claimAmount.
            let payout =
                  (if \<not> won then None
                   else Some (case claimAmount of
                       Some a \<Rightarrow> if a > 0 then a
                         else calculatePayoutStroops amountStroops
                           (if us_position dto = YES then totalYes else totalNo)
                           (if us_position dto = YES then totalNo else totalYes)
                     | None \<Rightarrow> calculatePayoutStroops amountStroops
                           (if us_position dto = YES then totalYes else totalNo)
                           (if us_position dto = YES then totalNo else totalYes)))
            in result_bind (optionalAmountFromApi (us_profitLoss dto)) (\<lambda>profitLoss.
               Inr \<lparr>pf_id = us_id dto, pf_callId = us_callId dto, pf_userAddress = us_userAddress dto,
                    pf_position = us_position dto, pf_amountStroops = amountStroops,
                    pf_profitLossStroops = profitLoss, pf_payoutStroops = payout,
                    pf_transactionHash = us_transactionHash dto, pf_createdAt = us_createdAt dto,
                    pf_updatedAt = us_updatedAt dto,
                    pf_status = stake_status resolved won payoutsUnavailable claim,
                    pf_claimTxHash = Option.bind claim pc_txHash, pf_claimedAt = Option.bind claim pc_claimedAt,
                    pf_call =
                      \<lparr>pfc_id = (case call of None \<Rightarrow> us_callId dto | Some c \<Rightarrow> uc_id c),
                       pfc_title = (case call of None \<Rightarrow> ''Unknown market'' | Some c \<Rightarrow> uc_title c),
                       pfc_description = (case call of None \<Rightarrow> [] | Some c \<Rightarrow> uc_description c),
                       pfc_outcome = outcome,
                       pfc_resolvedAt = Option.bind call uc_resolvedAt,
                       pfc_expiresAt = Option.bind call uc_expiresAt,
                       pfc_createdAt = (case call of None \<Rightarrow> us_createdAt dto | Some c \<Rightarrow> uc_createdAt c),
                       pfc_contractAddress = Option.bind call uc_contractAddress,
                       pfc_totalYesStroops = totalYes, pfc_totalNoStroops = totalNo\<rparr>\<rparr>))))))"

text \<open>
  \<open>fetchPortfolio\<close>: the outcomes of the two requests are arguments. An empty body of the payout
  ledger is not iterable.
\<close>

record user_stakes_response =
  sr_data :: "user_stake_dto list option"
  sr_total :: "int option"
  sr_page :: "int option"
  sr_limit :: "int option"

record portfolio =
  po_stakes :: "portfolio_stake list"
  po_total :: int
  po_page :: int
  po_limit :: int
  po_payoutsUnavailable :: bool

datatype portfolio_error = PortfolioApi api_error | PortfolioAmount amount_error | NotIterable

definition claimsByCallId :: "payout_claim_dto list \<Rightarrow> string \<Rightarrow> payout_claim_dto option" where
  "claimsByCallId rows = foldl (\<lambda>m c. m(pc_callId c \<mapsto> c)) Map.empty rows"

definition fetchPortfolio ::
  "int \<Rightarrow> int \<Rightarrow> api_error + user_stakes_response option \<Rightarrow> api_error + payout_claim_dto list option \<Rightarrow>
   portfolio_error + portfolio" where
  "fetchPortfolio page limit stakesOutcome payoutsOutcome =
     (case stakesOutcome of
        Inl e \<Rightarrow> Inl (PortfolioApi e)
      | Inr stakesResponse \<Rightarrow>
          (let (rows, unavailable) = (case payoutsOutcome of Inl _ \<Rightarrow> (Some [], True) | Inr r \<Rightarrow> (r, False))
           in case rows of
                None \<Rightarrow> Inl NotIterable
              | Some rs \<Rightarrow>
                  (case map_result (\<lambda>stake. normaliseStake stake (claimsByCallId rs (us_callId stake)) unavailable)
                          (nullish (Option.bind stakesResponse sr_data) []) of
                     Inl e \<Rightarrow> Inl (PortfolioAmount e)
                   | Inr stakes \<Rightarrow>
                       Inr \<lparr>po_stakes = stakes,
                            po_total = nullish (Option.bind stakesResponse sr_total) 0,
                            po_page = nullish (Option.bind stakesResponse sr_page) page,
                            po_limit = nullish (Option.bind stakesResponse sr_limit) limit,
                            po_payoutsUnavailable = unavailable\<rparr>)))"

subsection \<open>Markets\<close>

record market_dto =
  md_id :: string
  md_title :: string
  md_description :: "string option"
  md_thesis :: "string option"
  md_creatorAddress :: string
  md_status :: "string option"
  md_outcome :: "call_outcome option"
  md_endsAt :: "string option"
  md_expiresAt :: "string option"
  md_resolvedAt :: "string option"
  md_createdAt :: string
  md_contractAddress :: "string option"
  md_stakeToken :: "string option"
  md_pairId :: "string option"
  md_tokenSymbol :: "string option"
  md_condition :: "string option"
  md_conditionJson :: "(string \<times> jval) list option"
  md_totalYesStake :: jval
  md_totalNoStake :: jval
  md_currentPrice :: jval
  md_startPrice :: jval
  md_targetPrice :: jval
  md_isBookmarked :: "bool option"
  md_bookmarkCount :: "jsnum option"

record market =
  mk_id :: string
  mk_title :: string
  mk_thesis :: string
  mk_condition :: string
  mk_conditionJson :: "(string \<times> jval) list option"
  mk_creatorAddress :: string
  mk_pairId :: "string option"
  mk_tokenSymbol :: "string option"
  mk_stakeToken :: string
  mk_contractAddress :: "string option"
  mk_status :: string
  mk_outcome :: call_outcome
  mk_resolved :: bool
  mk_endTime :: "string option"
  mk_resolvedAt :: "string option"
  mk_createdAt :: string
  mk_totalYesStroops :: int
  mk_totalNoStroops :: int
  mk_currentPrice :: "string option"
  mk_startPrice :: "string option"
  mk_targetPrice :: "string option"
  mk_isBookmarked :: bool
  mk_bookmarkCount :: jsnum

definition decimalOrNull :: "(rat \<Rightarrow> string) \<Rightarrow> jval \<Rightarrow> string option" where
  "decimalOrNull p v = (case v of
      JNum n \<Rightarrow> (case n of Fin q \<Rightarrow> Some (p q) | _ \<Rightarrow> None)
    | JStr s \<Rightarrow> if js_trim s \<noteq> [] then Some (js_trim s) else None
    | _ \<Rightarrow> None)"

definition deriveOutcome :: "market_dto \<Rightarrow> call_outcome" where
  "deriveOutcome dto =
     (if md_outcome dto = Some OUT_YES \<or> md_outcome dto = Some OUT_NO then the (md_outcome dto)
      else if md_status dto = Some ''RESOLVED_YES'' then OUT_YES
      else if md_status dto = Some ''RESOLVED_NO'' then OUT_NO
      else PENDING)"

definition or_else :: "'a option \<Rightarrow> 'a option \<Rightarrow> 'a option" where
  "or_else a b = (case a of None \<Rightarrow> b | Some _ \<Rightarrow> a)"

definition normaliseMarket :: "(rat \<Rightarrow> string) \<Rightarrow> market_dto \<Rightarrow> amount_error + market" where
  "normaliseMarket p dto =
     (let outcome = deriveOutcome dto
      in result_bind (amountFromApi (js_or (md_totalYesStake dto) (JStr ''0''))) (\<lambda>totalYes.
         result_bind (amountFromApi (js_or (md_totalNoStake dto) (JStr ''0''))) (\<lambda>totalNo.
           Inr \<lparr>mk_id = md_id dto, mk_title = md_title dto,
                mk_thesis = nullish (or_else (md_thesis dto) (md_description dto)) [],
                mk_condition = nullish (md_condition dto) [], mk_conditionJson = md_conditionJson dto,
                mk_creatorAddress = md_creatorAddress dto, mk_pairId = md_pairId dto,
                mk_tokenSymbol = or_else (md_tokenSymbol dto)
                  (map_option (\<lambda>s. hd (split_on (CHR ''/'') s)) (md_pairId dto)),
                mk_stakeToken = nullish (md_stakeToken dto) ''USDC'',
                mk_contractAddress = md_contractAddress dto,
                mk_status = nullish (md_status dto) (if outcome = PENDING then ''OPEN'' else ''RESOLVED''),
                mk_outcome = outcome,
                mk_resolved = (outcome \<noteq> PENDING
                  \<or> (case md_resolvedAt dto of None \<Rightarrow> False | Some s \<Rightarrow> s \<noteq> [])),
                mk_endTime = or_else (md_endsAt dto) (md_expiresAt dto),
                mk_resolvedAt = md_resolvedAt dto, mk_createdAt = md_createdAt dto,
                mk_totalYesStroops = totalYes, mk_totalNoStroops = totalNo,
                mk_currentPrice = decimalOrNull p (md_currentPrice dto),
                mk_startPrice = decimalOrNull p (md_startPrice dto),
                mk_targetPrice = decimalOrNull p (js_or (md_targetPrice dto)
                  (case md_conditionJson dto of None \<Rightarrow> JNull | Some ps \<Rightarrow> jget ps ''targetPrice'')),
                mk_isBookmarked = nullish (md_isBookmarked dto) False,
                mk_bookmarkCount = nullish (md_bookmarkCount dto) (Fin 0)\<rparr>)))"

record market_odds =
  od_yes :: string
  od_no :: string
  od_totalPoolStroops :: int

definition ODDS_DECIMALS :: nat where "ODDS_DECIMALS = 4"
definition EMPTY_SIDE_ODDS :: string where "EMPTY_SIDE_ODDS = ''2.0000''"

definition deriveOdds :: "int \<Rightarrow> int \<Rightarrow> amount_error + market_odds" where
  "deriveOdds totalYesStroops totalNoStroops =
     (let pool = totalYesStroops + totalNoStroops
      in result_bind (if totalYesStroops > 0 then divideToDecimalString pool totalYesStroops ODDS_DECIMALS
                      else Inr EMPTY_SIDE_ODDS) (\<lambda>yes.
         result_bind (if totalNoStroops > 0 then divideToDecimalString pool totalNoStroops ODDS_DECIMALS
                      else Inr EMPTY_SIDE_ODDS) (\<lambda>no.
           Inr \<lparr>od_yes = yes, od_no = no, od_totalPoolStroops = pool\<rparr>)))"

subsection \<open>Market stakes\<close>

record market_stake_dto =
  ms_id :: "string option"
  ms_userAddress :: "string option"
  ms_address :: "string option"
  ms_position :: "stake_position option"
  ms_side :: "stake_position option"
  ms_amount :: jval
  ms_createdAt :: "string option"
  ms_timestamp :: "string option"
  ms_transactionHash :: "string option"
  ms_txHash :: "string option"
  ms_comment :: "string option"

record market_stake =
  st_address :: string
  st_side :: stake_position
  st_amountStroops :: int
  st_timestamp :: string
  st_txHash :: string
  st_comment :: "string option"

definition normaliseMarketStake :: "market_stake_dto \<Rightarrow> amount_error + market_stake" where
  "normaliseMarketStake dto =
     (let timestamp = nullish (or_else (ms_createdAt dto) (ms_timestamp dto)) ''1970-01-01T00:00:00.000Z'';
          txHash = nullish (or_else (ms_transactionHash dto) (or_else (ms_txHash dto) (ms_id dto))) timestamp
      in result_bind (optionalAmountFromApi (ms_amount dto)) (\<lambda>amount.
           Inr \<lparr>st_address = nullish (or_else (ms_userAddress dto) (ms_address dto)) [],
                st_side = nullish (or_else (ms_position dto) (ms_side dto)) YES,
                st_amountStroops = nullish amount 0, st_timestamp = timestamp, st_txHash = txHash,
                st_comment = (case ms_comment dto of None \<Rightarrow> None | Some c \<Rightarrow> if c = [] then None else Some c)\<rparr>))"

text \<open>A stable sort, newest first.\<close>

definition newest_first :: "(string \<Rightarrow> 'c::linorder) \<Rightarrow> market_stake list \<Rightarrow> market_stake list" where
  "newest_first ck xs = rev (sort_key (\<lambda>s. ck (st_timestamp s)) (rev xs))"

definition fetchMarketStakes ::
  "(string \<Rightarrow> 'c::linorder) \<Rightarrow> nat \<Rightarrow> market_stake_dto list \<Rightarrow> amount_error + market_stake list" where
  "fetchMarketStakes ck limit rows =
     result_bind (map_result normaliseMarketStake rows) (\<lambda>stakes. Inr (take limit (newest_first ck stakes)))"

subsection \<open>Lemmas\<close>

lemma payout_pos: "0 \<le> w \<Longrightarrow> 0 < W \<Longrightarrow> 0 \<le> L \<Longrightarrow> calculatePayoutStroops w W L = w * (W + L) div W"
  by (simp add: calculatePayoutStroops_def big_div_nonneg)

lemma payout_bounds:
  assumes "0 \<le> w" "0 < W" "0 \<le> L"
  shows "w \<le> calculatePayoutStroops w W L"
    "W * calculatePayoutStroops w W L \<le> w * (W + L)"
    "w * (W + L) < W * calculatePayoutStroops w W L + W"
proof -
  let ?n = "w * (W + L)"
  have eq: "calculatePayoutStroops w W L = ?n div W" using assms by (rule payout_pos)
  have "w * W \<le> ?n" using assms by (simp add: distrib_left)
  then have "w * W div W \<le> ?n div W" using assms by (intro zdiv_mono1) simp_all
  then show "w \<le> calculatePayoutStroops w W L" using assms by (simp add: eq)
  have "W * (?n div W) + ?n mod W = ?n" "0 \<le> ?n mod W" "?n mod W < W" using assms by simp_all
  then show "W * calculatePayoutStroops w W L \<le> ?n" "?n < W * calculatePayoutStroops w W L + W"
    unfolding eq by linarith+
qed

lemma payouts_sum:
  assumes "\<forall>w \<in> set ws. 0 \<le> w" "0 < W" "0 \<le> L"
  shows "W * sum_list (map (\<lambda>w. calculatePayoutStroops w W L) ws) \<le> sum_list ws * (W + L)
    \<and> sum_list ws * (W + L) \<le> W * sum_list (map (\<lambda>w. calculatePayoutStroops w W L) ws) + int (length ws) * (W - 1)"
  using assms
proof (induction ws)
  case (Cons w ws)
  then show ?case using payout_bounds(2,3) [of w W L] by (simp add: algebra_simps)
qed simp

lemma claims_row: "claimsByCallId rows k = Some c \<Longrightarrow> c \<in> set rows \<and> pc_callId c = k"
proof -
  have "foldl (\<lambda>m c. m(pc_callId c \<mapsto> c)) m rows k = Some c \<Longrightarrow> m k = Some c \<or> c \<in> set rows \<and> pc_callId c = k" for m
    by (induction rows arbitrary: m) (fastforce split: if_splits)+
  from this [of Map.empty] show "claimsByCallId rows k = Some c \<Longrightarrow> c \<in> set rows \<and> pc_callId c = k"
    by (simp add: claimsByCallId_def)
qed

text \<open>What a normalised position says of its claim.\<close>

lemma stake_status_cases:
  "stake_status resolved won u claim = CLAIMED \<Longrightarrow> \<not> u \<and> (\<exists>c. claim = Some c \<and> pc_status c = CL_CLAIMED)"
  "stake_status resolved won u claim = CLAIM_PENDING \<Longrightarrow>
     \<not> u \<and> (\<exists>c h. claim = Some c \<and> pc_status c = CL_PENDING \<and> pc_txHash c = Some h \<and> h \<noteq> [])"
  "won \<Longrightarrow> resolved \<Longrightarrow> stake_status resolved won u claim \<in> {CLAIMABLE, CLAIM_PENDING, CLAIMED}"
  "\<not> won \<Longrightarrow> stake_status resolved won u claim \<notin> {CLAIMABLE, CLAIM_PENDING, CLAIMED}"
  by (auto simp: stake_status_def split: if_splits option.splits)

lemma normaliseStake_Inr:
  assumes "normaliseStake dto claim u = Inr s"
  shows "\<exists>resolved won. pf_status s = stake_status resolved won u claim \<and> (won \<longrightarrow> resolved)
    \<and> (pf_payoutStroops s \<noteq> None) = won \<and> pf_callId s = us_callId dto"
proof -
  let ?out = "case us_call dto of None \<Rightarrow> PENDING | Some c \<Rightarrow> uc_outcome c"
  let ?resolved = "us_resolved dto \<and> ?out \<noteq> PENDING"
  show ?thesis
    using assms unfolding normaliseStake_def Let_def result_bind_Inr
    by - (rule exI [of _ ?resolved], rule exI [of _ "?resolved \<and> ?out = outcome_of (us_position dto)"], auto split: if_splits)
qed

lemma list_all2_in_right: "list_all2 P xs ys \<Longrightarrow> y \<in> set ys \<Longrightarrow> \<exists>x \<in> set xs. P x y"
  by (induction rule: list_all2_induct) auto

lemma fetchPortfolio_stake:
  assumes "fetchPortfolio page limit (Inr r) payouts = Inr po" "s \<in> set (po_stakes po)"
  obtains dto rows u where "normaliseStake dto (claimsByCallId rows (us_callId dto)) u = Inr s"
    "\<not> u \<Longrightarrow> payouts = Inr (Some rows)" "u \<Longrightarrow> rows = []" "po_payoutsUnavailable po = u"
    "isl payouts = u"
proof -
  obtain rows u where ru: "(case payouts of Inl _ \<Rightarrow> (Some [], True) | Inr r \<Rightarrow> (r, False)) = (Some rows, u)"
    using assms(1) by (auto simp: fetchPortfolio_def Let_def split: sum.splits option.splits)
  obtain stakes where st: "map_result (\<lambda>stake. normaliseStake stake (claimsByCallId rows (us_callId stake)) u)
      (nullish (Option.bind r sr_data) []) = Inr stakes" "po_stakes po = stakes" "po_payoutsUnavailable po = u"
    using assms(1) ru by (auto simp: fetchPortfolio_def Let_def split: sum.splits)
  obtain dto where "normaliseStake dto (claimsByCallId rows (us_callId dto)) u = Inr s"
    using list_all2_in_right [OF st(1) [unfolded map_result_Inr]] assms(2) st(2) by auto
  then show thesis using that ru st(3) by (cases payouts) auto
qed

subsection \<open>Properties\<close>

text \<open>C7: the payouts of the winning side never exceed the pool and leave less than one stroop per winner
  undistributed; and no winner gets back less than the stake.\<close>

theorem payouts_conserve_pool:
  assumes "\<forall>w \<in> set ws. 0 \<le> w" "0 < sum_list ws" "0 \<le> losing"
  shows "sum_list (map (\<lambda>w. calculatePayoutStroops w (sum_list ws) losing) ws) \<le> sum_list ws + losing
    \<and> sum_list ws + losing < sum_list (map (\<lambda>w. calculatePayoutStroops w (sum_list ws) losing) ws) + int (length ws)
    \<and> (\<forall>w \<in> set ws. w \<le> calculatePayoutStroops w (sum_list ws) losing)"
proof -
  let ?W = "sum_list ws" and ?S = "sum_list (map (\<lambda>w. calculatePayoutStroops w (sum_list ws) losing) ws)"
  note b = payouts_sum [OF assms(1,2,3)]
  have "?W * ?S \<le> ?W * (?W + losing)" using b by simp
  then have up: "?S \<le> ?W + losing" using assms(2) by simp
  have "ws \<noteq> []" using assms(2) by auto
  then have n: "0 < int (length ws)" by simp
  have "?W * (?W + losing) \<le> ?W * ?S + int (length ws) * (?W - 1)" using b by blast
  also have "\<dots> < ?W * ?S + int (length ws) * ?W" using n by simp
  finally have "?W * (?W + losing) < ?W * (?S + int (length ws))" by (simp only: distrib_left mult.commute)
  then have "?W + losing < ?S + int (length ws)" using assms(2) by simp
  then show ?thesis using up payout_bounds(1) assms by blast
qed

theorem payouts_conserve_pool_witness:
  "map (\<lambda>w. calculatePayoutStroops w 7 10) [3, 4] = [7, 9] \<and> (7::int) + 9 \<le> 17 \<and> 17 < 7 + 9 + (2::int)"
proof -
  have v: "calculatePayoutStroops 3 7 10 = 7" "calculatePayoutStroops 4 7 10 = 9" by code_simp+
  show ?thesis using payouts_conserve_pool [of "[3, 4]" 10] by (simp add: v)
qed

text \<open>The multiplier a market shows and the payout a position is promised agree: stake times multiplier is
  at most the payout, rounded, and misses it by at most a ten-thousandth of the stake.\<close>

theorem odds_agree_with_payout:
  assumes "0 < yes" "0 \<le> no" "0 \<le> stake"
  shows "\<exists>odds x. deriveOdds yes no = Inr odds \<and> js_number (od_yes odds) = Fin x
    \<and> of_int stake * x < of_int (calculatePayoutStroops stake yes no) + 1
    \<and> of_int (calculatePayoutStroops stake yes no) \<le> of_int stake * (x + 1 / 10 ^ 4)"
proof -
  let ?q = "(yes + no) * 10 ^ 4 div yes" and ?c = "calculatePayoutStroops stake yes no"
  obtain ys where ys: "divideToDecimalString (yes + no) yes 4 = Inr ys" "js_number ys = Fin (of_int ?q / 10 ^ 4)"
    using divide_exact [where n = "yes + no" and d = yes and k = 4] assms by (cases "divideToDecimalString (yes + no) yes 4") (auto simp: big_div_nonneg)
  obtain ns where ns: "(if no > 0 then divideToDecimalString (yes + no) no 4 else Inr EMPTY_SIDE_ODDS) = Inr ns"
    using divide_exact [where n = "yes + no" and d = no and k = 4] by (cases "0 < no"; cases "divideToDecimalString (yes + no) no 4") auto
  have d: "deriveOdds yes no = Inr \<lparr>od_yes = ys, od_no = ns, od_totalPoolStroops = yes + no\<rparr>"
    unfolding deriveOdds_def Let_def ODDS_DECIMALS_def ns using ys(1) assms(1) by simp
  have q: "yes * ?q \<le> (yes + no) * 10 ^ 4" "(yes + no) * 10 ^ 4 < yes * ?q + yes"
    using mult_div_mod_eq [of yes "(yes + no) * 10 ^ 4"] assms(1) pos_mod_sign [of yes "(yes + no) * 10 ^ 4"]
      pos_mod_bound [of yes "(yes + no) * 10 ^ 4"] by linarith+
  note c = payout_bounds(2,3) [OF assms(3,1,2)]
  have "yes * (stake * ?q) \<le> stake * ((yes + no) * 10 ^ 4)"
    using mult_left_mono [OF q(1) assms(3)] by (simp add: algebra_simps)
  also have "\<dots> < (yes * ?c + yes) * 10 ^ 4" using c(2) by (simp add: algebra_simps)
  finally have "yes * (stake * ?q) < yes * ((?c + 1) * 10 ^ 4)" by (simp add: algebra_simps)
  then have 1: "stake * ?q < (?c + 1) * 10 ^ 4" using assms(1) by simp
  have "yes * (?c * 10 ^ 4) \<le> stake * ((yes + no) * 10 ^ 4)" using c(1) by (simp add: algebra_simps)
  also have "\<dots> \<le> stake * (yes * ?q + yes)" using q(2) assms(3) by (intro mult_left_mono) simp_all
  finally have "yes * (?c * 10 ^ 4) \<le> yes * (stake * (?q + 1))" by (simp add: algebra_simps)
  then have 2: "?c * 10 ^ 4 \<le> stake * (?q + 1)" using assms(1) by simp
  have "(of_int (stake * ?q) :: rat) < of_int ((?c + 1) * 10 ^ 4)" "(of_int (?c * 10 ^ 4) :: rat) \<le> of_int (stake * (?q + 1))"
    using 1 2 by (simp_all only: of_int_less_iff of_int_le_iff)
  then have "of_int stake * (of_int ?q / 10 ^ 4) < of_int ?c + (1 :: rat)"
    "(of_int ?c :: rat) \<le> of_int stake * (of_int ?q / 10 ^ 4 + 1 / 10 ^ 4)"
    by (simp_all add: field_simps)
  then show ?thesis using d ys(2)
    by (intro exI [of _ "\<lparr>od_yes = ys, od_no = ns, od_totalPoolStroops = yes + no\<rparr>"]
        exI [of _ "of_int ?q / 10 ^ 4"] conjI) simp_all
qed

theorem odds_agree_with_payout_witness:
  "\<exists>odds x. deriveOdds 30000000 17000000 = Inr odds \<and> js_number (od_yes odds) = Fin x
    \<and> 10000000 * x < 15666667 \<and> 15666666 \<le> 10000000 * (x + 1 / 10 ^ 4)"
proof -
  have c: "calculatePayoutStroops 10000000 30000000 17000000 = 15666666"
    by (simp add: calculatePayoutStroops_def big_div_def)
  show ?thesis using odds_agree_with_payout [of 30000000 17000000 10000000] unfolding c by simp
qed

text \<open>In every portfolio that is shown, a position has a payout exactly when it is claimable, pending or
  claimed, and it is shown as claimed or pending only on the word of a row of the payout ledger for
  its market: when the ledger could not be read, no position is.\<close>

theorem portfolio_states_sound:
  assumes "fetchPortfolio page limit (Inr r) payouts = Inr po" "s \<in> set (po_stakes po)"
  shows "(pf_payoutStroops s \<noteq> None \<longleftrightarrow> pf_status s \<in> {CLAIMABLE, CLAIM_PENDING, CLAIMED})
    \<and> (pf_status s = CLAIMED \<longrightarrow> (\<exists>rows c. payouts = Inr (Some rows) \<and> c \<in> set rows
         \<and> pc_callId c = pf_callId s \<and> pc_status c = CL_CLAIMED))
    \<and> (pf_status s = CLAIM_PENDING \<longrightarrow> (\<exists>rows c. payouts = Inr (Some rows) \<and> c \<in> set rows
         \<and> pc_callId c = pf_callId s \<and> pc_status c = CL_PENDING))
    \<and> (po_payoutsUnavailable po \<longleftrightarrow> isl payouts)"
proof -
  obtain dto rows u where d: "normaliseStake dto (claimsByCallId rows (us_callId dto)) u = Inr s"
    "\<not> u \<Longrightarrow> payouts = Inr (Some rows)" "po_payoutsUnavailable po = u" "isl payouts = u"
    using assms by (rule fetchPortfolio_stake) blast
  obtain resolved won where w: "pf_status s = stake_status resolved won u (claimsByCallId rows (us_callId dto))"
    "won \<longrightarrow> resolved" "(pf_payoutStroops s \<noteq> None) = won" "pf_callId s = us_callId dto"
    using normaliseStake_Inr [OF d(1)] by blast
  have "won \<longleftrightarrow> pf_status s \<in> {CLAIMABLE, CLAIM_PENDING, CLAIMED}"
  proof (cases won)
    case True
    then show ?thesis using w(2) stake_status_cases(3) [OF True] unfolding w(1) by simp
  next
    case False
    then show ?thesis using stake_status_cases(4) [OF False] unfolding w(1) by simp
  qed
  moreover have "\<exists>rs c. payouts = Inr (Some rs) \<and> c \<in> set rs \<and> pc_callId c = pf_callId s \<and> pc_status c = CL_CLAIMED"
    if st: "pf_status s = CLAIMED"
  proof -
    obtain c where c: "\<not> u" "claimsByCallId rows (us_callId dto) = Some c" "pc_status c = CL_CLAIMED"
      using stake_status_cases(1) [OF trans [OF w(1) [symmetric] st]] by blast
    show ?thesis
      using claims_row [OF c(2)] c(3) w(4) by (intro exI [of _ rows] exI [of _ c] conjI d(2) [OF c(1)]) simp_all
  qed
  moreover have "\<exists>rs c. payouts = Inr (Some rs) \<and> c \<in> set rs \<and> pc_callId c = pf_callId s \<and> pc_status c = CL_PENDING"
    if st: "pf_status s = CLAIM_PENDING"
  proof -
    obtain c where c: "\<not> u" "claimsByCallId rows (us_callId dto) = Some c" "pc_status c = CL_PENDING"
      using stake_status_cases(2) [OF trans [OF w(1) [symmetric] st]] by blast
    show ?thesis
      using claims_row [OF c(2)] c(3) w(4) by (intro exI [of _ rows] exI [of _ c] conjI d(2) [OF c(1)]) simp_all
  qed
  ultimately show ?thesis using w(3) d(3,4) by blast
qed

definition sample_stake :: user_stake_dto where
  "sample_stake =
     \<lparr>us_id = ''s1'', us_callId = ''c1'', us_userAddress = ''G'', us_amount = JBig 10, us_position = YES,
      us_profitLoss = JNull, us_transactionHash = None, us_createdAt = ''t'', us_updatedAt = ''t'',
      us_resolved = True,
      us_call = Some \<lparr>uc_id = ''c1'', uc_title = ''m'', uc_description = [], uc_outcome = OUT_YES,
        uc_resolvedAt = None, uc_expiresAt = None, uc_createdAt = ''t'', uc_contractAddress = None,
        uc_totalYesStake = JBig 20, uc_totalNoStake = JBig 30\<rparr>\<rparr>"

definition sample_claim :: payout_claim_dto where
  "sample_claim = \<lparr>pc_callId = ''c1'', pc_amount = JBig 0, pc_txHash = Some ''h'', pc_claimedAt = None,
     pc_status = CL_CLAIMED\<rparr>"

theorem portfolio_states_sound_witness:
  "\<exists>po s. fetchPortfolio 1 50 (Inr (Some \<lparr>sr_data = Some [sample_stake], sr_total = Some 1, sr_page = None,
        sr_limit = None\<rparr>)) (Inr (Some [sample_claim])) = Inr po
     \<and> po_stakes po = [s] \<and> pf_status s = CLAIMED \<and> pf_payoutStroops s = Some 25 \<and> \<not> po_payoutsUnavailable po"
proof -
  let ?r = "Some \<lparr>sr_data = Some [sample_stake], sr_total = Some 1, sr_page = None, sr_limit = None\<rparr>"
  let ?po = "projr (fetchPortfolio 1 50 (Inr ?r) (Inr (Some [sample_claim])))"
  let ?s = "hd (po_stakes ?po)"
  have p: "fetchPortfolio 1 50 (Inr ?r) (Inr (Some [sample_claim])) = Inr ?po"
    and s: "po_stakes ?po = [?s]" "pf_status ?s = CLAIMED" "pf_payoutStroops ?s = Some 25"
    by code_simp+
  have "?s \<in> set (po_stakes ?po)" by (subst s(1)) simp
  from portfolio_states_sound [OF p this] show ?thesis using p s by (intro exI [of _ ?po] exI [of _ ?s]) simp
qed

end
