(* ===== verification/OracleHealth.thy ===== *)
theory OracleHealth
  imports JsArith Store
begin

text \<open>
  The watchers of \<^verbatim>\<open>packages/backend/src/oracle\<close>: the health log with its alerts
  (\<^verbatim>\<open>oracle-health.service.ts\<close>), the price fetch that feeds it (\<^verbatim>\<open>price-fetcher.service.ts\<close>),
  the deviation check that halts signing (\<^verbatim>\<open>deiviation.service.ts\<close>, \<^verbatim>\<open>deviation.worker.ts\<close>,
  \<^verbatim>\<open>coinGeko.service.ts\<close>), the time-weighted price, the latest ingested price and the disputes.
  Times are milliseconds; \<open>p\<close> prints a finite number; writes to the database succeed.
\<close>

subsection \<open>The health log\<close>

datatype oracle_operation = OP_FETCH | OP_SIGN | OP_SUBMIT

record health_input =
  hi_oracleKey :: string
  hi_callId :: "string option"
  hi_operation :: oracle_operation
  hi_submissionTime :: int
  hi_priceFetched :: "jsnum option"
  hi_expectedPrice :: "jsnum option"
  hi_success :: bool
  hi_errorMessage :: "string option"
  hi_dexScreenerPrice :: "jsnum option"
  hi_horizonPrice :: "jsnum option"

record health_log =
  hl_oracleKey :: string
  hl_callId :: "string option"
  hl_operation :: oracle_operation
  hl_submissionTime :: int
  hl_priceFetched :: "jsnum option"
  hl_expectedPrice :: "jsnum option"
  hl_success :: bool
  hl_errorMessage :: "string option"
  hl_latencyMs :: int
  hl_deviationPercent :: "jsnum option"
  hl_deviationBreached :: bool
  hl_dexScreenerPrice :: "jsnum option"
  hl_horizonPrice :: "jsnum option"

datatype alert_type = SUCCESS_RATE_LOW | LAST_THREE_FAILED | PRICE_DEVIATION

record health_alert =
  al_type :: alert_type
  al_message :: string

record health_summary =
  hs_successRate :: jsnum
  hs_averageLatencyMs :: jsnum
  hs_last10 :: "health_log list"
  hs_alerts :: "health_alert list"

definition calculateDeviationPercent :: "jsnum option \<Rightarrow> jsnum option \<Rightarrow> jsnum option" where
  "calculateDeviationPercent observed expected = (case observed of
      None \<Rightarrow> None
    | Some ob \<Rightarrow> (case expected of
          None \<Rightarrow> None
        | Some ex \<Rightarrow>
            if num_eq ex (Fin 0) then None
            else Some (num_times (num_abs (num_divide (num_minus ob ex) ex)) (Fin 100))))"

definition health_row :: "jsnum \<Rightarrow> int \<Rightarrow> health_input \<Rightarrow> health_log" where
  "health_row deviationThreshold now i =
     (let d = calculateDeviationPercent (hi_priceFetched i) (hi_expectedPrice i)
      in \<lparr>hl_oracleKey = hi_oracleKey i, hl_callId = hi_callId i, hl_operation = hi_operation i,
          hl_submissionTime = hi_submissionTime i, hl_priceFetched = hi_priceFetched i,
          hl_expectedPrice = hi_expectedPrice i, hl_success = hi_success i,
          hl_errorMessage = hi_errorMessage i, hl_latencyMs = max (now - hi_submissionTime i) 0,
          hl_deviationPercent = d,
          hl_deviationBreached = (case d of None \<Rightarrow> False | Some x \<Rightarrow> num_less deviationThreshold x),
          hl_dexScreenerPrice = hi_dexScreenerPrice i, hl_horizonPrice = hi_horizonPrice i\<rparr>)"

definition recordOperation :: "jsnum \<Rightarrow> int \<Rightarrow> health_input \<Rightarrow> health_log list \<Rightarrow> health_log list" where
  "recordOperation deviationThreshold now i logs = logs @ [health_row deviationThreshold now i]"

text \<open>A stable sort, the latest first.\<close>

definition latest_first :: "health_log list \<Rightarrow> health_log list" where
  "latest_first logs = rev (sort_key hl_submissionTime (rev logs))"

definition success_rate :: "health_log list \<Rightarrow> rat" where
  "success_rate logs = of_nat (length (filter hl_success logs)) / of_nat (length logs) * 100"

definition evaluateAlerts :: "(rat \<Rightarrow> string) \<Rightarrow> jsnum \<Rightarrow> jsnum \<Rightarrow> health_log list \<Rightarrow> health_alert list" where
  "evaluateAlerts p successRateThreshold deviationThreshold logs =
     (let ordered = latest_first logs
      in (if ordered \<noteq> [] \<and> num_less (Fin (success_rate ordered)) successRateThreshold
          then [\<lparr>al_type = SUCCESS_RATE_LOW,
                 al_message = ''Oracle success rate '' @ to_fixed p 2 (Fin (success_rate ordered))
                   @ ''% is below '' @ num_text p successRateThreshold @ ''%.''\<rparr>]
          else [])
       @ (if length ordered \<ge> 3 \<and> list_all (\<lambda>l. \<not> hl_success l) (take 3 ordered)
          then [\<lparr>al_type = LAST_THREE_FAILED, al_message = ''The last 3 oracle operations failed.''\<rparr>]
          else [])
       @ (case find hl_deviationBreached ordered of
            None \<Rightarrow> []
          | Some b \<Rightarrow> [\<lparr>al_type = PRICE_DEVIATION,
              al_message = ''Oracle price deviation ''
                @ to_fixed p 2 (case hl_deviationPercent b of None \<Rightarrow> Fin 0 | Some x \<Rightarrow> x)
                @ ''% exceeded '' @ num_text p deviationThreshold @ ''%.''\<rparr>]))"

definition calculateHealth :: "(rat \<Rightarrow> string) \<Rightarrow> jsnum \<Rightarrow> jsnum \<Rightarrow> health_log list \<Rightarrow> health_summary" where
  "calculateHealth p successRateThreshold deviationThreshold logs =
     \<lparr>hs_successRate = Fin (if logs = [] then 100 else success_rate logs),
      hs_averageLatencyMs = Fin (if logs = [] then 0
        else of_int (sum_list (map hl_latencyMs logs)) / of_nat (length logs)),
      hs_last10 = take 10 (latest_first logs),
      hs_alerts = evaluateAlerts p successRateThreshold deviationThreshold logs\<rparr>"

definition getHealth :: "(rat \<Rightarrow> string) \<Rightarrow> jsnum \<Rightarrow> jsnum \<Rightarrow> health_log list \<Rightarrow> health_summary" where
  "getHealth p successRateThreshold deviationThreshold logs =
     calculateHealth p successRateThreshold deviationThreshold (take 100 (latest_first logs))"

subsection \<open>Fetching a price\<close>

datatype dex_response = DexThrew string | DexStatus int | DexPair "string option"

text \<open>The response's \<open>pair.priceUsd\<close> is absent when the pair or the price is missing or empty.\<close>

definition fetchPrice :: "jsnum \<Rightarrow> int \<Rightarrow> int \<Rightarrow> string \<Rightarrow> dex_response \<Rightarrow> health_log list \<Rightarrow> health_log list \<times> jsnum option" where
  "fetchPrice deviationThreshold t0 t1 pairAddress response logs =
     (let log = (\<lambda>ok price err. recordOperation deviationThreshold t1
            \<lparr>hi_oracleKey = pairAddress, hi_callId = None, hi_operation = OP_FETCH, hi_submissionTime = t0,
             hi_priceFetched = price, hi_expectedPrice = None, hi_success = ok, hi_errorMessage = err,
             hi_dexScreenerPrice = None, hi_horizonPrice = None\<rparr> logs)
      in case response of
           DexThrew e \<Rightarrow> (log False None (Some e), None)
         | DexStatus st \<Rightarrow> (log False None (Some (''DexScreener API returned status '' @ nat_str (nat st))), None)
         | DexPair price \<Rightarrow>
             (case price of
                Some t \<Rightarrow>
                  if t = [] then (log False None (Some (''No price data found for pair '' @ pairAddress)), None)
                  else (log True (Some (parse_float t)) None, Some (parse_float t))
              | None \<Rightarrow> (log False None (Some (''No price data found for pair '' @ pairAddress)), None)))"

subsection \<open>The deviation check\<close>

definition symbolToId :: "string \<Rightarrow> string option" where
  "symbolToId s = map_of [(''XLM'', ''stellar''), (''BTC'', ''bitcoin''), (''ETH'', ''ethereum'')] s"

text \<open>\<open>response\<close> gives the \<open>usd\<close> field of a coin in the reply; \<open>None\<close> is a refused request, which throws.\<close>

definition getPrices :: "string list \<Rightarrow> (string \<Rightarrow> jsnum option) option \<Rightarrow> (string \<Rightarrow> jsnum option) option" where
  "getPrices symbols response =
     (if \<forall>s \<in> set symbols. symbolToId (to_upper s) = None then Some Map.empty
      else case response of
        None \<Rightarrow> None
      | Some json \<Rightarrow> Some (foldl (\<lambda>m s. case symbolToId (to_upper s) of
            None \<Rightarrow> m
          | Some coin \<Rightarrow> (case json coin of None \<Rightarrow> m | Some usd \<Rightarrow> m(to_upper s \<mapsto> usd))) Map.empty symbols))"

record deviation_result =
  dv_symbol :: string
  dv_oraclePrice :: jsnum
  dv_referencePrice :: jsnum
  dv_deviationPercent :: jsnum
  dv_breached :: bool

record deviation_log =
  dl_result :: deviation_result
  dl_thresholdPercent :: jsnum
  dl_signingHalted :: bool

record deviation_state =
  ds_signingHalted :: bool
  ds_logs :: "deviation_log list"

definition calcDeviationPercent :: "jsnum \<Rightarrow> jsnum \<Rightarrow> jsnum" where
  "calcDeviationPercent oracle reference =
     (if num_eq reference (Fin 0) then Fin 0
      else num_times (num_abs (num_divide (num_minus oracle reference) reference)) (Fin 100))"

definition persistLog :: "jsnum \<Rightarrow> deviation_result \<Rightarrow> deviation_state \<Rightarrow> deviation_state" where
  "persistLog threshold r s = s\<lparr>ds_logs := ds_logs s @
     [\<lparr>dl_result = r, dl_thresholdPercent = threshold,
       dl_signingHalted = (if dv_breached r then True else ds_signingHalted s)\<rparr>]\<rparr>"

definition handleBreach :: "deviation_state \<Rightarrow> deviation_state" where
  "handleBreach s = s\<lparr>ds_signingHalted := True\<rparr>"

fun check_prices :: "jsnum \<Rightarrow> (string \<Rightarrow> jsnum option) \<Rightarrow> (string \<times> jsnum) list \<Rightarrow> deviation_state \<Rightarrow>
    deviation_state \<times> deviation_result list" where
  "check_prices threshold refs [] s = (s, [])"
| "check_prices threshold refs ((symbol, oraclePrice) # rest) s =
     (case refs (to_upper symbol) of
        None \<Rightarrow> check_prices threshold refs rest s
      | Some referencePrice \<Rightarrow>
          (let deviationPercent = calcDeviationPercent oraclePrice referencePrice;
               r = \<lparr>dv_symbol = symbol, dv_oraclePrice = oraclePrice, dv_referencePrice = referencePrice,
                    dv_deviationPercent = deviationPercent, dv_breached = num_less threshold deviationPercent\<rparr>;
               s1 = persistLog threshold r s;
               s2 = (if dv_breached r then handleBreach s1 else s1);
               (s3, rs) = check_prices threshold refs rest s2
           in (s3, r # rs)))"

definition runDeviationCheck :: "jsnum \<Rightarrow> (string \<times> jsnum) list \<Rightarrow> (string \<Rightarrow> jsnum option) option \<Rightarrow> deviation_state \<Rightarrow>
    deviation_state \<times> deviation_result list option" where
  "runDeviationCheck threshold oraclePrices response s =
     (case getPrices (map fst oraclePrices) response of
        None \<Rightarrow> (s, None)
      | Some refs \<Rightarrow> (case check_prices threshold refs oraclePrices s of (s', rs) \<Rightarrow> (s', Some rs)))"

definition clearHalt :: "deviation_state \<Rightarrow> deviation_state" where
  "clearHalt s = s\<lparr>ds_signingHalted := False\<rparr>"

text \<open>One tick of the worker; \<open>prices = None\<close> is a failed query.\<close>

definition runCheck :: "jsnum \<Rightarrow> (string \<times> jsnum) list option \<Rightarrow> (string \<Rightarrow> jsnum option) option \<Rightarrow> deviation_state \<Rightarrow> deviation_state" where
  "runCheck threshold prices response s =
     (if ds_signingHalted s then s
      else case prices of
        None \<Rightarrow> s
      | Some ps \<Rightarrow> if ps = [] then s else fst (runDeviationCheck threshold ps response s))"

subsection \<open>Time-weighted and ingested prices\<close>

definition calculateTwap :: "int \<Rightarrow> (jsnum \<times> int) list \<Rightarrow> int \<Rightarrow> jsnum" where
  "calculateTwap now prices windowMs =
     (if prices = [] then Fin 0
      else
        (let validPrices = filter (\<lambda>(price, timestamp). now - timestamp \<le> windowMs) prices
         in if validPrices = [] then (if truthy (JNum (fst (last prices))) then fst (last prices) else Fin 0)
            else num_divide (foldl (\<lambda>acc (price, timestamp). num_plus acc price) (Fin 0) validPrices)
                   (Fin (of_nat (length validPrices)))))"

record price_data =
  pd_symbol :: string
  pd_price :: jsnum
  pd_timestamp :: int
  pd_source :: string

definition ingestPrice :: "int \<Rightarrow> string \<Rightarrow> jsnum \<Rightarrow> string \<Rightarrow> (string \<times> price_data) list \<Rightarrow> (string \<times> price_data) list" where
  "ingestPrice now symbol price source m = map_set (symbol @ '':'' @ source)
     \<lparr>pd_symbol = symbol, pd_price = price, pd_timestamp = now, pd_source = source\<rparr> m"

definition getLatestPrice :: "string \<Rightarrow> (string \<times> price_data) list \<Rightarrow> price_data option" where
  "getLatestPrice symbol m =
     (let es = filter (\<lambda>p. pd_symbol p = symbol) (map snd m)
      in if es = [] then None else Some (hd (rev (sort_key pd_timestamp (rev es)))))"

subsection \<open>Disputes\<close>

datatype dispute_status = dispute_pending | dispute_resolved | dispute_rejected

record dispute =
  di_claimId :: string
  di_challenger :: string
  di_defendant :: string
  di_reason :: string
  di_status :: dispute_status
  di_createdAt :: int
  di_resolvedAt :: "int option"
  di_resolution :: "string option"

definition createDispute :: "int \<Rightarrow> string \<Rightarrow> string \<Rightarrow> string \<Rightarrow> string \<Rightarrow> string \<Rightarrow> (string \<times> dispute) list \<Rightarrow> (string \<times> dispute) list" where
  "createDispute now did claimId challenger defendant reason m = map_set did
     \<lparr>di_claimId = claimId, di_challenger = challenger, di_defendant = defendant, di_reason = reason,
      di_status = dispute_pending, di_createdAt = now, di_resolvedAt = None, di_resolution = None\<rparr> m"

definition settle_dispute :: "dispute_status \<Rightarrow> int \<Rightarrow> string \<Rightarrow> string \<Rightarrow> (string \<times> dispute) list \<Rightarrow>
    (string \<times> dispute) list \<times> dispute option" where
  "settle_dispute st now did resolution m = (case map_of m did of
      None \<Rightarrow> (m, None)
    | Some d \<Rightarrow>
        if di_status d \<noteq> dispute_pending then (m, Some d)
        else (let d' = d\<lparr>di_status := st, di_resolvedAt := Some now, di_resolution := Some resolution\<rparr>
              in (map_set did d' m, Some d')))"

definition resolveDispute :: "int \<Rightarrow> string \<Rightarrow> string \<Rightarrow> (string \<times> dispute) list \<Rightarrow> (string \<times> dispute) list \<times> dispute option" where
  "resolveDispute now did resolution m = settle_dispute dispute_resolved now did resolution m"

definition rejectDispute :: "int \<Rightarrow> string \<Rightarrow> string \<Rightarrow> (string \<times> dispute) list \<Rightarrow> (string \<times> dispute) list \<times> dispute option" where
  "rejectDispute now did reason m = settle_dispute dispute_rejected now did reason m"

subsection \<open>Lemmas\<close>

lemma check_prices_halt:
  "check_prices threshold refs ps s = (s', rs) \<Longrightarrow>
     (ds_signingHalted s' \<longleftrightarrow> ds_signingHalted s \<or> (\<exists>r \<in> set rs. dv_breached r))
     \<and> map dl_result (ds_logs s') = map dl_result (ds_logs s) @ rs"
proof (induction ps arbitrary: s s' rs)
  case (Cons e ps)
  obtain symbol oraclePrice where e: "e = (symbol, oraclePrice)" by (cases e)
  show ?case
  proof (cases "refs (to_upper symbol)")
    case None
    then show ?thesis using Cons.IH Cons.prems e by simp
  next
    case (Some ref)
    define r where "r = \<lparr>dv_symbol = symbol, dv_oraclePrice = oraclePrice, dv_referencePrice = ref,
      dv_deviationPercent = calcDeviationPercent oraclePrice ref,
      dv_breached = num_less threshold (calcDeviationPercent oraclePrice ref)\<rparr>"
    define s2 where "s2 = (if dv_breached r then handleBreach (persistLog threshold r s) else persistLog threshold r s)"
    obtain s3 rs3 where c: "check_prices threshold refs ps s2 = (s3, rs3)" by fastforce
    have "check_prices threshold refs (e # ps) s = (case check_prices threshold refs ps s2 of (s3, rs) \<Rightarrow> (s3, r # rs))"
      unfolding e check_prices.simps Some option.case Let_def r_def [symmetric] s2_def [symmetric] ..
    then have "s' = s3" "rs = r # rs3" using Cons.prems c by simp_all
    moreover have "ds_signingHalted s2 \<longleftrightarrow> ds_signingHalted s \<or> dv_breached r"
      "map dl_result (ds_logs s2) = map dl_result (ds_logs s) @ [r]"
      by (simp_all add: s2_def persistLog_def handleBreach_def)
    ultimately show ?thesis using Cons.IH [OF c] by auto
  qed
qed simp

definition worker_step :: "jsnum \<Rightarrow> deviation_state \<Rightarrow> (string \<times> jsnum) list option \<times> (string \<Rightarrow> jsnum option) option \<Rightarrow> deviation_state" where
  "worker_step threshold s tick = runCheck threshold (fst tick) (snd tick) s"

definition halt_inv :: "deviation_state \<Rightarrow> bool" where
  "halt_inv s \<longleftrightarrow> (ds_signingHalted s \<longleftrightarrow> (\<exists>l \<in> set (ds_logs s). dv_breached (dl_result l)))"

lemma halt_inv_results: "halt_inv s \<longleftrightarrow> (ds_signingHalted s \<longleftrightarrow> (\<exists>r \<in> set (map dl_result (ds_logs s)). dv_breached r))"
  by (simp add: halt_inv_def)

lemma runDeviationCheck_inv: "halt_inv s \<Longrightarrow> halt_inv (fst (runDeviationCheck threshold ps response s))"
proof (cases "getPrices (map fst ps) response")
  case (Some refs)
  obtain s' rs where c: "check_prices threshold refs ps s = (s', rs)" by fastforce
  assume "halt_inv s"
  then show ?thesis using check_prices_halt [OF c] Some c
    unfolding halt_inv_results by (simp add: runDeviationCheck_def) blast
qed (simp add: runDeviationCheck_def)

interpretation halt: latch "worker_step threshold" "\<lambda>s. s" ds_signingHalted
  by unfold_locales (simp add: worker_step_def runCheck_def)

interpretation halt_machine: machine "worker_step threshold" halt_inv
  by unfold_locales (auto simp: worker_step_def runCheck_def runDeviationCheck_inv split: option.split)

lemma sum_between:
  fixes xs :: "(rat \<times> int) list"
  assumes "\<forall>(x, t) \<in> set xs. lo \<le> x \<and> x \<le> hi"
  shows "of_nat (length xs) * lo \<le> sum_list (map fst xs)" "sum_list (map fst xs) \<le> of_nat (length xs) * hi"
  using assms by (induction xs) (auto simp: algebra_simps)

lemma foldl_num_plus:
  "foldl (\<lambda>acc (price, timestamp). num_plus acc price) (Fin a) (map (\<lambda>(x, t). (Fin x, t)) xs) = Fin (a + sum_list (map fst xs))"
  by (induction xs arbitrary: a) (auto simp: algebra_simps)

lemma filter_Fin: "filter (\<lambda>(price, timestamp). now - timestamp \<le> w) (map (\<lambda>(x, t). (Fin x, t)) xs)
   = map (\<lambda>(x, t). (Fin x, t)) (filter (\<lambda>(x, timestamp). now - timestamp \<le> w) xs)"
  by (induction xs) auto

definition dispute_settle_step :: "(string \<times> dispute) list \<Rightarrow> bool \<times> int \<times> string \<times> string \<Rightarrow> (string \<times> dispute) list" where
  "dispute_settle_step m e = (case e of (resolve, now, did, why) \<Rightarrow>
     fst (if resolve then resolveDispute now did why m else rejectDispute now did why m))"

definition dispute_closed :: "dispute option \<Rightarrow> bool" where
  "dispute_closed d \<longleftrightarrow> (\<exists>x. d = Some x \<and> di_status x \<noteq> dispute_pending)"

interpretation closed: latch dispute_settle_step "\<lambda>m. map_of m did" dispute_closed
  by unfold_locales
    (auto simp: dispute_closed_def dispute_settle_step_def resolveDispute_def rejectDispute_def settle_dispute_def Let_def
      split: option.splits prod.splits)

subsection \<open>Properties\<close>

text \<open>Signing is halted exactly when a logged comparison has breached the threshold, and from then on the
  worker compares nothing more: whatever ticks follow, the state stays as it is.\<close>

theorem halt_exactly_on_breach:
  fixes threshold and ticks more_ticks :: "((string \<times> jsnum) list option \<times> (string \<Rightarrow> jsnum option) option) list"
  defines "s \<equiv> foldl (worker_step threshold) \<lparr>ds_signingHalted = False, ds_logs = []\<rparr> ticks"
  shows "(ds_signingHalted s \<longleftrightarrow> (\<exists>l \<in> set (ds_logs s). dv_breached (dl_result l)))
    \<and> (ds_signingHalted s \<longrightarrow> foldl (worker_step threshold) s more_ticks = s)"
proof -
  have "halt_inv s" unfolding s_def
    by (rule halt_machine.run_inv) (simp add: halt_inv_def)
  then show ?thesis using halt.frozen_run [of s threshold more_ticks] by (auto simp: halt_inv_def)
qed

theorem halt_exactly_on_breach_witness:
  "foldl (worker_step (Fin 5)) \<lparr>ds_signingHalted = False, ds_logs = []\<rparr>
     ([(Some [(''XLM'', Fin 2)], Some [''stellar'' \<mapsto> Fin 1])] @ [(None, None), (Some [(''XLM'', Fin 1)], Some [''stellar'' \<mapsto> Fin 1])])
   = foldl (worker_step (Fin 5)) \<lparr>ds_signingHalted = False, ds_logs = []\<rparr> [(Some [(''XLM'', Fin 2)], Some [''stellar'' \<mapsto> Fin 1])]"
proof -
  let ?ticks = "[(Some [(''XLM'', Fin 2)], Some [''stellar'' \<mapsto> Fin 1])]"
  have "ds_signingHalted (foldl (worker_step (Fin 5)) \<lparr>ds_signingHalted = False, ds_logs = []\<rparr> ?ticks)"
    by (simp add: worker_step_def runCheck_def runDeviationCheck_def getPrices_def symbolToId_def to_upper_def
        upper_char_def is_lower_def code_def Let_def calcDeviationPercent_def handleBreach_def)
  then show ?thesis
    using halt_exactly_on_breach [of "Fin 5" ?ticks "[(None, None), (Some [(''XLM'', Fin 1)], Some [''stellar'' \<mapsto> Fin 1])]"]
    by simp
qed

text \<open>The time-weighted price lies between the smallest and the largest price given, whatever part of
  them falls into the window.\<close>

theorem twap_between:
  assumes "prices \<noteq> []" "\<forall>(x, t) \<in> set prices. lo \<le> x \<and> x \<le> hi"
  shows "\<exists>x. calculateTwap now (map (\<lambda>(x, t). (Fin x, t)) prices) windowMs = Fin x \<and> lo \<le> x \<and> x \<le> hi"
proof -
  let ?ps = "map (\<lambda>(x, t). (Fin x, t)) prices"
  let ?v = "filter (\<lambda>(x, timestamp). now - timestamp \<le> windowMs) prices"
  show ?thesis
  proof (cases "?v = []")
    case True
    obtain x t where l: "last prices = (x, t)" by fastforce
    then have "lo \<le> x \<and> x \<le> hi" using assms last_in_set [of prices] by fastforce
    moreover have "fst (last ?ps) = Fin x" using assms(1) l by (simp add: last_map)
    ultimately show ?thesis using True assms(1)
      by (auto simp: calculateTwap_def Let_def filter_Fin truthy_def)
  next
    case False
    let ?n = "of_nat (length ?v) :: rat"
    have n: "0 < ?n" using False by simp
    have "\<forall>(x, t) \<in> set ?v. lo \<le> x \<and> x \<le> hi" using assms(2) by auto
    note b = sum_between [OF this]
    have "calculateTwap now ?ps windowMs = Fin (sum_list (map fst ?v) / ?n)"
      using False n assms(1) foldl_num_plus [of 0 ?v] by (simp add: calculateTwap_def Let_def filter_Fin)
    moreover have "lo \<le> sum_list (map fst ?v) / ?n" "sum_list (map fst ?v) / ?n \<le> hi"
      using b n by (simp_all add: pos_le_divide_eq pos_divide_le_eq mult.commute)
    ultimately show ?thesis by blast
  qed
qed

theorem twap_between_witness:
  "\<exists>x. calculateTwap 100 (map (\<lambda>(x, t). (Fin x, t)) [(2, 10), (4, 90)]) 50 = Fin x \<and> 2 \<le> x \<and> x \<le> 4"
  by (rule twap_between) simp_all

text \<open>A dispute that has been resolved or rejected never changes again.\<close>

theorem dispute_final:
  assumes "map_of m did = Some d" "di_status d \<noteq> dispute_pending"
  shows "map_of (foldl dispute_settle_step m requests) did = Some d"
  using closed.frozen_run [of m did requests] assms by (simp add: dispute_closed_def)

definition sample_disputes :: "(string \<times> dispute) list" where
  "sample_disputes = fst (rejectDispute 7 ''d'' ''no'' (createDispute 5 ''d'' ''c'' ''x'' ''y'' ''z'' []))"

theorem dispute_final_witness:
  "map_option di_status (map_of (foldl dispute_settle_step sample_disputes [(True, 9, ''d'', ''yes'')]) ''d'') = Some dispute_rejected"
proof -
  obtain d where d: "map_of sample_disputes ''d'' = Some d" "di_status d = dispute_rejected"
    by (simp add: sample_disputes_def rejectDispute_def settle_dispute_def createDispute_def Let_def)
  then show ?thesis using dispute_final [OF d(1), of "[(True, 9, ''d'', ''yes'')]"] by simp
qed

end
