(* ===== verification/OracleCalls.thy ===== *)
theory OracleCalls
  imports OracleHealth ApiClient Retry ScVal
begin

text \<open>
  \<^verbatim>\<open>packages/backend/src/oracle/oracle.service.ts\<close> and \<^verbatim>\<open>signing.service.ts\<close>: the life of an oracle
  call from its creation to its resolution, with the cross-check against the order book, the signed
  outcome, the reports that pause a market and the administrator's overrides. The state is the
  service's tables and the events it emits. The replies of the network (order book, pinning, contract
  simulation), the clock and the signature scheme are arguments; writes to the database succeed, and
  a price is the exact value of its decimal text.
\<close>

subsection \<open>Signing\<close>

text \<open>The big-endian bytes of an integer in two's complement.\<close>

definition be_bytes :: "nat \<Rightarrow> int \<Rightarrow> nat list" where
  "be_bytes n v = map (\<lambda>i. nat (v div 256 ^ (n - 1 - i) mod 256)) [0..<n]"

definition ascii :: "string \<Rightarrow> nat list" where
  "ascii s = map code s"

record outcome_data =
  od_callId :: nat
  od_price :: jsnum
  od_timestamp :: int
  od_yes :: bool

definition scaled_price :: "jsnum \<Rightarrow> bigint_exn + int" where
  "scaled_price price = big_of_num (num_floor (num_times price (Fin 10000000)))"

text \<open>A value outside its buffer field is a thrown error.\<close>

definition outcome_message :: "outcome_data \<Rightarrow> nat list option" where
  "outcome_message d = (case scaled_price (od_price d) of
      Inl _ \<Rightarrow> None
    | Inr scaled \<Rightarrow>
        if int (od_callId d) \<ge> 2 ^ 64 \<or> scaled < - (2 ^ 63) \<or> scaled \<ge> 2 ^ 63
           \<or> od_timestamp d < 0 \<or> od_timestamp d \<ge> 2 ^ 64 then None
        else Some (ascii ''BACKit:Outcome:'' @ be_bytes 8 (int (od_callId d)) @ ascii '':''
               @ ascii (if od_yes d then ''1'' else ''0'') @ ascii '':''
               @ (replicate 8 0 @ be_bytes 8 scaled) @ ascii '':'' @ be_bytes 8 (od_timestamp d)))"

definition signOutcome :: "(nat list \<Rightarrow> string) \<Rightarrow> string \<Rightarrow> jsnum \<Rightarrow> int \<Rightarrow> int \<Rightarrow> string \<Rightarrow> outcome_data \<Rightarrow>
    health_log list \<Rightarrow> health_log list \<times> string option" where
  "signOutcome ed25519 publicKey deviationThreshold t0 t1 err d logs =
     (let log = (\<lambda>ok e. recordOperation deviationThreshold t1
            \<lparr>hi_oracleKey = publicKey, hi_callId = Some (nat_str (od_callId d)), hi_operation = OP_SIGN,
             hi_submissionTime = t0, hi_priceFetched = Some (od_price d), hi_expectedPrice = None,
             hi_success = ok, hi_errorMessage = e, hi_dexScreenerPrice = None, hi_horizonPrice = None\<rparr> logs)
      in case outcome_message d of
           None \<Rightarrow> (log False (Some err), None)
         | Some m \<Rightarrow> (log True None, Some (ed25519 m)))"

subsection \<open>Calls\<close>

datatype oracle_status = DRAFT | OPEN | PAUSED | SETTLING | RESOLVED_YES | RESOLVED_NO
datatype market_status = MS_PENDING | MS_ACTIVE | MS_PAUSED | MS_RESOLVED

definition status_text :: "oracle_status \<Rightarrow> string" where
  "status_text st = (case st of DRAFT \<Rightarrow> ''DRAFT'' | OPEN \<Rightarrow> ''OPEN'' | PAUSED \<Rightarrow> ''PAUSED''
     | SETTLING \<Rightarrow> ''SETTLING'' | RESOLVED_YES \<Rightarrow> ''RESOLVED_YES'' | RESOLVED_NO \<Rightarrow> ''RESOLVED_NO'')"

record oracle_call =
  oc_pairAddress :: string
  oc_baseToken :: string
  oc_quoteToken :: string
  oc_strikePrice :: jsnum
  oc_callTime :: int
  oc_status :: oracle_status
  oc_reportCount :: nat
  oc_isHidden :: bool
  oc_needsAdminReview :: bool
  oc_processedAt :: "int option"
  oc_failedAt :: "int option"
  oc_finalPrice :: "string option"
  oc_resolvedAt :: "int option"

record oracle_outcome =
  oo_callId :: nat
  oo_price :: jsnum
  oo_yes :: bool
  oo_signature :: string
  oo_evidence_cid :: "string option"

datatype oracle_event =
    OracleSubmitted nat string bool "jsnum option"
  | CallResolved nat bool string

record oracle_sys =
  os_calls :: "(nat \<times> oracle_call) list"
  os_outcomes :: "oracle_outcome list"
  os_health :: "health_log list"
  os_events :: "oracle_event list"
  os_nextId :: nat

datatype oracle_exn = OracleNotFound string | OracleBadRequest string | OracleSigningFailed

definition REPORT_THRESHOLD :: nat where "REPORT_THRESHOLD = 5"

definition new_call :: "string \<Rightarrow> string \<Rightarrow> string \<Rightarrow> jsnum \<Rightarrow> int \<Rightarrow> oracle_call" where
  "new_call pairAddress baseToken quoteToken strikePrice callTime =
     \<lparr>oc_pairAddress = pairAddress, oc_baseToken = baseToken, oc_quoteToken = quoteToken,
      oc_strikePrice = strikePrice, oc_callTime = callTime, oc_status = DRAFT, oc_reportCount = 0,
      oc_isHidden = False, oc_needsAdminReview = False, oc_processedAt = None, oc_failedAt = None,
      oc_finalPrice = None, oc_resolvedAt = None\<rparr>"

definition createOracleCall :: "string \<Rightarrow> string \<Rightarrow> string \<Rightarrow> jsnum \<Rightarrow> int \<Rightarrow> oracle_sys \<Rightarrow> oracle_sys \<times> nat" where
  "createOracleCall pairAddress baseToken quoteToken strikePrice callTime s =
     (s\<lparr>os_calls := row_ins (os_nextId s) (new_call pairAddress baseToken quoteToken strikePrice callTime) (os_calls s),
        os_nextId := os_nextId s + 1\<rparr>, os_nextId s)"

definition getPendingCalls :: "oracle_sys \<Rightarrow> (nat \<times> oracle_call) list" where
  "getPendingCalls s = filter (\<lambda>(i, c). oc_processedAt c = None \<and> oc_failedAt c = None) (os_calls s)"

definition getOutcomesForCall :: "nat \<Rightarrow> oracle_sys \<Rightarrow> oracle_outcome list" where
  "getOutcomesForCall callId s = filter (\<lambda>o'. oo_callId o' = callId) (os_outcomes s)"

text \<open>The controller's evidence of a call: that of its latest outcome that has one.\<close>

definition getEvidence :: "nat \<Rightarrow> oracle_sys \<Rightarrow> oracle_exn + string" where
  "getEvidence callId s =
     (let withEvidence = filter (\<lambda>o'. case oo_evidence_cid o' of None \<Rightarrow> False | Some c \<Rightarrow> c \<noteq> [])
            (getOutcomesForCall callId s)
      in if withEvidence = []
         then Inl (OracleNotFound (''No IPFS evidence found for call '' @ nat_str callId))
         else Inr (the (oo_evidence_cid (last withEvidence))))"

definition findCallOrThrow :: "nat \<Rightarrow> oracle_sys \<Rightarrow> oracle_exn + oracle_call" where
  "findCallOrThrow callId s = (case row_get (os_calls s) callId of
      None \<Rightarrow> Inl (OracleNotFound (''OracleCall '' @ nat_str callId @ '' not found''))
    | Some c \<Rightarrow> Inr c)"

definition save_call :: "nat \<Rightarrow> oracle_call \<Rightarrow> oracle_sys \<Rightarrow> oracle_sys" where
  "save_call callId c s = s\<lparr>os_calls := row_put callId c (os_calls s)\<rparr>"

definition getMarketStatus :: "nat \<Rightarrow> oracle_sys \<Rightarrow> oracle_exn + market_status" where
  "getMarketStatus callId s = result_bind (findCallOrThrow callId s) (\<lambda>c. Inr (case oc_status c of
      DRAFT \<Rightarrow> MS_PENDING
    | OPEN \<Rightarrow> MS_ACTIVE
    | SETTLING \<Rightarrow> MS_ACTIVE
    | PAUSED \<Rightarrow> MS_PAUSED
    | RESOLVED_YES \<Rightarrow> MS_RESOLVED
    | RESOLVED_NO \<Rightarrow> MS_RESOLVED))"

subsection \<open>The order book\<close>

record asset_params =
  ap_type :: string
  ap_code :: "string option"
  ap_issuer :: "string option"

definition alphanum_type :: "string \<Rightarrow> string" where
  "alphanum_type code' = (if length code' \<le> 4 then ''credit_alphanum4'' else ''credit_alphanum12'')"

text \<open>\<open>tokens\<close> finds a token row (its code and issuer) by its code; a failed query finds nothing.\<close>

definition getAssetParams :: "(string \<Rightarrow> (string \<times> string option) option) \<Rightarrow> string \<Rightarrow> asset_params option" where
  "getAssetParams tokens tokenStr =
     (let upper = to_upper tokenStr
      in if upper = ''XLM'' \<or> upper = ''NATIVE'' then Some \<lparr>ap_type = ''native'', ap_code = None, ap_issuer = None\<rparr>
         else if upper = ''USDC'' then Some \<lparr>ap_type = ''credit_alphanum4'', ap_code = Some ''USDC'',
           ap_issuer = Some ''GA5ZSEJYB37JRC5AVCIA5MOP4RHTM335X2KGX3IHOJAPP5RE34K4KZVN''\<rparr>
         else if upper = ''YXLM'' then Some \<lparr>ap_type = ''credit_alphanum4'', ap_code = Some ''yXLM'',
           ap_issuer = Some ''GARDNV3Q7YGT4AKSDF25LT32YSCCW4EV22Y2TV3I2PU2MMXJTEDL5T55''\<rparr>
         else if CHR '':'' \<in> set tokenStr \<or> CHR ''-'' \<in> set tokenStr then
           (let parts = (if CHR '':'' \<in> set tokenStr then split_on (CHR '':'') tokenStr else split_on (CHR ''-'') tokenStr)
            in Some \<lparr>ap_type = alphanum_type (parts ! 0), ap_code = Some (parts ! 0), ap_issuer = Some (parts ! 1)\<rparr>)
         else case tokens tokenStr of
           None \<Rightarrow> None
         | Some (assetCode, assetIssuer) \<Rightarrow>
             if assetIssuer = None \<or> assetIssuer = Some []
             then Some \<lparr>ap_type = ''native'', ap_code = None, ap_issuer = None\<rparr>
             else Some \<lparr>ap_type = alphanum_type assetCode, ap_code = Some assetCode, ap_issuer = assetIssuer\<rparr>)"

definition asset_query :: "string \<Rightarrow> asset_params \<Rightarrow> (string \<times> string option) list" where
  "asset_query side a =
     [(side @ ''_asset_type'', Some (ap_type a)),
      (side @ ''_asset_code'', if ap_code a = Some [] then None else ap_code a),
      (side @ ''_asset_issuer'', if ap_issuer a = Some [] then None else ap_issuer a)]"

datatype book_reply = BookThrew | BookStatus int | Book "string list option" "string list option"

datatype midpoint = HorizonThrew | NoMidpoint | Midpoint jsnum

text \<open>\<open>horizon\<close> is the network: the reply to a request of this address.\<close>

definition fetchHorizonMidpoint ::
  "(string \<Rightarrow> (string \<times> string option) option) \<Rightarrow> string \<Rightarrow> (string \<Rightarrow> book_reply) \<Rightarrow> oracle_call \<Rightarrow> midpoint" where
  "fetchHorizonMidpoint tokens horizonBase horizon call =
     (case (getAssetParams tokens (oc_baseToken call), getAssetParams tokens (oc_quoteToken call)) of
        (Some selling, Some buying) \<Rightarrow>
          (case horizon (buildUrl horizonBase ''/order_book'' (Some (asset_query ''selling'' selling @ asset_query ''buying'' buying))) of
             BookThrew \<Rightarrow> HorizonThrew
           | BookStatus _ \<Rightarrow> NoMidpoint
           | Book bids asks \<Rightarrow>
               (case (bids, asks) of
                  (Some (b # _), Some (a # _)) \<Rightarrow>
                    Midpoint (num_divide (num_plus (parse_float b) (parse_float a)) (Fin 2))
                | _ \<Rightarrow> NoMidpoint))
      | _ \<Rightarrow> NoMidpoint)"

subsection \<open>Resolution\<close>

text \<open>What a resolution reads from outside the service's own tables.\<close>

record resolve_env =
  re_tokens :: "string \<Rightarrow> (string \<times> string option) option"
  re_horizonBase :: string
  re_horizon :: "string \<Rightarrow> book_reply"
  re_thresholdBps :: jsnum
  re_healthThreshold :: jsnum
  re_ed25519 :: "nat list \<Rightarrow> string"
  re_publicKey :: string
  re_pin :: "string option"
  re_print :: "rat \<Rightarrow> string"
  re_t0 :: int
  re_t1 :: int

definition evaluateOutcome :: "oracle_call \<Rightarrow> string \<Rightarrow> oracle_status" where
  "evaluateOutcome call observedPrice =
     (if num_ge (parse_float observedPrice) (oc_strikePrice call) then RESOLVED_YES else RESOLVED_NO)"

definition submit_log ::
  "resolve_env \<Rightarrow> nat \<Rightarrow> oracle_call \<Rightarrow> jsnum \<Rightarrow> bool \<Rightarrow> string option \<Rightarrow> jsnum option \<Rightarrow> jsnum option \<Rightarrow> oracle_sys \<Rightarrow> oracle_sys" where
  "submit_log env callId call price ok err dex horizon s = s\<lparr>os_health := recordOperation (re_healthThreshold env) (re_t1 env)
      \<lparr>hi_oracleKey = oc_pairAddress call, hi_callId = Some (nat_str callId), hi_operation = OP_SUBMIT,
       hi_submissionTime = re_t0 env, hi_priceFetched = Some price, hi_expectedPrice = Some (oc_strikePrice call),
       hi_success = ok, hi_errorMessage = err, hi_dexScreenerPrice = dex, hi_horizonPrice = horizon\<rparr> (os_health s)\<rparr>"

text \<open>The cross-check: \<open>None\<close> when it is skipped or passed, else the midpoint that was missed.\<close>

definition crossCheck :: "resolve_env \<Rightarrow> jsnum \<Rightarrow> midpoint \<Rightarrow> jsnum option" where
  "crossCheck env dexPrice m = (case m of
      Midpoint horizonMidpoint \<Rightarrow>
        (let threshold = num_divide (re_thresholdBps env) (Fin 10000);
             deviation = num_divide (num_abs (num_minus dexPrice horizonMidpoint)) horizonMidpoint
         in if num_less threshold deviation then Some horizonMidpoint else None)
    | _ \<Rightarrow> None)"

definition resolveMarket :: "resolve_env \<Rightarrow> nat \<Rightarrow> string \<Rightarrow> oracle_sys \<Rightarrow> oracle_sys \<times> (oracle_exn + unit)" where
  "resolveMarket env callId observedPrice s =
     (case findCallOrThrow callId s of
        Inl e \<Rightarrow> (s, Inl e)
      | Inr call \<Rightarrow>
          if oc_status call = PAUSED then
            (let s1 = save_call callId (call\<lparr>oc_failedAt := Some (re_t1 env)\<rparr>) s;
                 why = ''Market '' @ nat_str callId @ '' is paused due to community reports.''
             in (submit_log env callId call (js_number observedPrice) False (Some why) None None s1,
                 Inl (OracleBadRequest (why @ '' Admin review required.''))))
          else if oc_status call = RESOLVED_YES \<or> oc_status call = RESOLVED_NO then (s, Inr ())
          else if oc_status call \<noteq> OPEN \<and> oc_status call \<noteq> SETTLING then
            (let why = ''Cannot resolve call in status '' @ status_text (oc_status call)
             in (submit_log env callId call (js_number observedPrice) False (Some why) None None s,
                 Inl (OracleBadRequest why)))
          else
            (let dexPrice = parse_float observedPrice;
                 m = fetchHorizonMidpoint (re_tokens env) (re_horizonBase env) (re_horizon env) call;
                 horizon = (case m of Midpoint x \<Rightarrow> Some x | _ \<Rightarrow> None)
             in case crossCheck env dexPrice m of
                  Some mid \<Rightarrow>
                    (let s1 = save_call callId (call\<lparr>oc_needsAdminReview := True, oc_failedAt := Some (re_t1 env)\<rparr>) s;
                         dx = num_text (re_print env) dexPrice; md = num_text (re_print env) mid
                     in (submit_log env callId call dexPrice False
                           (Some (''Price deviation exceeded threshold: DexScreener = '' @ dx @ '', Horizon = '' @ md))
                           (Some dexPrice) (Some mid) s1,
                         Inl (OracleBadRequest (''Market '' @ nat_str callId
                           @ '' resolution halted: price deviation between DexScreener ('' @ dx
                           @ '') and Horizon midpoint ('' @ md @ '') exceeds threshold. Admin review required.''))))
                | None \<Rightarrow>
                    (let outcome = evaluateOutcome call observedPrice
                     in case signOutcome (re_ed25519 env) (re_publicKey env) (re_healthThreshold env) (re_t0 env) (re_t1 env)
                          ''signing failed''
                          \<lparr>od_callId = callId, od_price = js_number observedPrice, od_timestamp = re_t1 env div 1000,
                           od_yes = (outcome = RESOLVED_YES)\<rparr> (os_health s) of
                          (logs, None) \<Rightarrow> (s\<lparr>os_health := logs\<rparr>, Inl OracleSigningFailed)
                        | (logs, Some signature) \<Rightarrow>
                            (let s1 = s\<lparr>os_health := logs, os_outcomes := os_outcomes s @
                                   [\<lparr>oo_callId = callId, oo_price = js_number observedPrice,
                                     oo_yes = (outcome = RESOLVED_YES), oo_signature = signature,
                                     oo_evidence_cid = re_pin env\<rparr>]\<rparr>;
                                 s2 = save_call callId (call\<lparr>oc_status := outcome, oc_finalPrice := Some observedPrice,
                                   oc_resolvedAt := Some (re_t1 env), oc_processedAt := Some (re_t1 env)\<rparr>) s1;
                                 yes = (outcome = RESOLVED_YES);
                                 s3 = s2\<lparr>os_events := os_events s2 @
                                   [OracleSubmitted callId observedPrice yes horizon, CallResolved callId yes observedPrice]\<rparr>
                             in (submit_log env callId call (js_number observedPrice) True None
                                   (Some (js_number observedPrice)) horizon s3, Inr ())))))"

text \<open>
  The prices shown for a call: what its latest submission and the latest deviation check stored, else
  what the sources say now. The query of the DexScreener price is logged.
\<close>

definition getPriceSources ::
  "resolve_env \<Rightarrow> dex_response \<Rightarrow> (string \<Rightarrow> jsnum option) option \<Rightarrow> deviation_log list \<Rightarrow> nat \<Rightarrow> oracle_sys \<Rightarrow>
   oracle_sys \<times> (oracle_exn + (string \<times> jsnum option) list)" where
  "getPriceSources env dex gecko deviationLogs callId s =
     (case findCallOrThrow callId s of
        Inl e \<Rightarrow> (s, Inl e)
      | Inr call \<Rightarrow>
          (let submits = latest_first (filter (\<lambda>l. hl_callId l = Some (nat_str callId) \<and> hl_operation l = OP_SUBMIT) (os_health s));
               checks = filter (\<lambda>l. dv_symbol (dl_result l) = to_upper (oc_baseToken call)) deviationLogs;
               (logs, liveDexPrice) = fetchPrice (re_healthThreshold env) (re_t0 env) (re_t1 env) (oc_pairAddress call) dex (os_health s);
               liveHorizonPrice = (case fetchHorizonMidpoint (re_tokens env) (re_horizonBase env) (re_horizon env) call of
                  Midpoint x \<Rightarrow> Some x | _ \<Rightarrow> None);
               liveCoinGeckoPrice = (case getPrices [oc_baseToken call] gecko of
                  None \<Rightarrow> None | Some prices \<Rightarrow> prices (to_upper (oc_baseToken call)));
               healthLog = (if submits = [] then None else Some (hd submits));
               stored = (\<lambda>field. case healthLog of None \<Rightarrow> None | Some l \<Rightarrow> field l);
               dexValue = (case stored hl_dexScreenerPrice of
                  Some x \<Rightarrow> Some x
                | None \<Rightarrow> (case stored hl_priceFetched of Some x \<Rightarrow> Some x | None \<Rightarrow> liveDexPrice));
               horizonValue = (case stored hl_horizonPrice of Some x \<Rightarrow> Some x | None \<Rightarrow> liveHorizonPrice);
               geckoValue = (if checks = [] then liveCoinGeckoPrice else Some (dv_referencePrice (dl_result (last checks))))
           in (s\<lparr>os_health := logs\<rparr>,
               Inr [(''DexScreener'', dexValue), (''Horizon SDEX'', horizonValue), (''CoinGecko'', geckoValue)])))"

subsection \<open>Reports and the administrator\<close>

definition reported :: "oracle_call \<Rightarrow> oracle_call" where
  "reported call =
     (let n = oc_reportCount call + 1;
          c = call\<lparr>oc_reportCount := n, oc_isHidden := (n \<ge> REPORT_THRESHOLD)\<rparr>
      in if n \<ge> REPORT_THRESHOLD \<and> oc_status c = OPEN then c\<lparr>oc_status := PAUSED\<rparr> else c)"

definition recordReport :: "nat \<Rightarrow> oracle_sys \<Rightarrow> oracle_sys \<times> (oracle_exn + oracle_call)" where
  "recordReport callId s = (case findCallOrThrow callId s of
      Inl e \<Rightarrow> (s, Inl e)
    | Inr call \<Rightarrow> (let c = reported call in (save_call callId c s, Inr c)))"

definition unpauseCall :: "nat \<Rightarrow> oracle_sys \<Rightarrow> oracle_sys \<times> (oracle_exn + oracle_call)" where
  "unpauseCall callId s = (case findCallOrThrow callId s of
      Inl e \<Rightarrow> (s, Inl e)
    | Inr call \<Rightarrow>
        if oc_status call \<noteq> PAUSED
        then (s, Inl (OracleBadRequest (''Call is not paused (current status: '' @ status_text (oc_status call) @ '')'')))
        else (let c = call\<lparr>oc_status := OPEN, oc_failedAt := None\<rparr> in (save_call callId c s, Inr c)))"

definition adminResolveCall ::
  "int \<Rightarrow> nat \<Rightarrow> bool \<Rightarrow> string option \<Rightarrow> oracle_sys \<Rightarrow> oracle_sys \<times> (oracle_exn + oracle_call)" where
  "adminResolveCall now callId yes finalPrice s = (case findCallOrThrow callId s of
      Inl e \<Rightarrow> (s, Inl e)
    | Inr call \<Rightarrow>
        if oc_status call \<notin> {OPEN, PAUSED, SETTLING}
        then (s, Inl (OracleBadRequest (''Cannot force-resolve a call with status '' @ status_text (oc_status call))))
        else
          (let c = call\<lparr>oc_status := (if yes then RESOLVED_YES else RESOLVED_NO), oc_resolvedAt := Some now,
                     oc_processedAt := Some now, oc_failedAt := None,
                     oc_finalPrice := (case finalPrice of None \<Rightarrow> oc_finalPrice call | Some f \<Rightarrow> Some f)\<rparr>
           in (save_call callId c s, Inr c)))"

subsection \<open>Reading a price from the contract\<close>

datatype simulation = SimThrew string | SimError string | SimNoResult | SimPrice "128 word"

definition fetch_once :: "string \<Rightarrow> simulation \<Rightarrow> string + nat" where
  "fetch_once assetSymbol sim = (case sim of
      SimThrew e \<Rightarrow> Inl e
    | SimError e \<Rightarrow> Inl (''Oracle simulation error for '' @ assetSymbol @ '': '' @ e)
    | SimNoResult \<Rightarrow> Inl (''No result returned for oracle price of '' @ assetSymbol)
    | SimPrice w \<Rightarrow> Inr (lo_u64 w))"

definition fetch_log :: "jsnum \<Rightarrow> int \<Rightarrow> int \<Rightarrow> string \<Rightarrow> string \<Rightarrow> string + nat \<Rightarrow> health_log list \<Rightarrow> health_log list" where
  "fetch_log deviationThreshold t0 t1 contractId assetSymbol outcome logs = recordOperation deviationThreshold t1
      \<lparr>hi_oracleKey = contractId, hi_callId = Some assetSymbol, hi_operation = OP_FETCH, hi_submissionTime = t0,
       hi_priceFetched = (case outcome of Inl _ \<Rightarrow> None | Inr n \<Rightarrow> Some (Fin (of_nat n))), hi_expectedPrice = None,
       hi_success = (case outcome of Inl _ \<Rightarrow> False | Inr _ \<Rightarrow> True), hi_errorMessage = (case outcome of Inl e \<Rightarrow> Some e | Inr _ \<Rightarrow> None),
       hi_dexScreenerPrice = None, hi_horizonPrice = None\<rparr> logs"

text \<open>
  The decorated method, and the calls of it for several symbols: \<open>sim k\<close> is the reply to the \<open>k\<close>-th
  call and \<open>clock k\<close> its start and end. The symbols are read side by side; of these runs only the
  outcomes are kept (the rows they log may come in any order), and the first failing symbol decides.
\<close>

definition fetchOraclePrice ::
  "jsnum \<Rightarrow> (nat \<Rightarrow> int \<times> int) \<Rightarrow> string \<Rightarrow> string \<Rightarrow> (nat \<Rightarrow> simulation) \<Rightarrow> health_log list \<Rightarrow>
   health_log list \<times> (string option + nat) retry_run" where
  "fetchOraclePrice deviationThreshold clock contractId assetSymbol sim logs =
     (let run = retryWithBackoff (\<lambda>k. fetch_once assetSymbol (sim k)) 4 1000
      in (foldl (\<lambda>l k. fetch_log deviationThreshold (fst (clock k)) (snd (clock k)) contractId assetSymbol
                   (fetch_once assetSymbol (sim k)) l) logs [1..<rt_calls run + 1], run))"

definition fetch_retried ::
  "string \<Rightarrow> (nat \<Rightarrow> nat \<Rightarrow> simulation) \<Rightarrow> (string option option + nat) retry_run" where
  "fetch_retried symbol sim = retryWithBackoff
     (\<lambda>k. rt_outcome (retryWithBackoff (\<lambda>j. fetch_once symbol (sim k j)) 4 1000)) 4 1000"

definition fetchAllPrices ::
  "(string \<Rightarrow> nat \<Rightarrow> nat \<Rightarrow> simulation) \<Rightarrow> string list \<Rightarrow> string option option + (string \<times> nat) list" where
  "fetchAllPrices sim symbols =
     map_result (\<lambda>symbol. result_bind (rt_outcome (fetch_retried symbol (sim symbol)))
       (\<lambda>price. Inr (symbol, price))) symbols"

subsection \<open>The service as a machine\<close>

datatype oracle_op =
    Create string string string jsnum int
  | Resolve resolve_env nat string
  | Report nat
  | Unpause nat
  | AdminResolve int nat bool "string option"

definition oracle_step :: "oracle_sys \<Rightarrow> oracle_op \<Rightarrow> oracle_sys" where
  "oracle_step s op = (case op of
      Create pairAddress baseToken quoteToken strikePrice callTime \<Rightarrow>
        fst (createOracleCall pairAddress baseToken quoteToken strikePrice callTime s)
    | Resolve env callId observedPrice \<Rightarrow> fst (resolveMarket env callId observedPrice s)
    | Report callId \<Rightarrow> fst (recordReport callId s)
    | Unpause callId \<Rightarrow> fst (unpauseCall callId s)
    | AdminResolve now callId yes finalPrice \<Rightarrow> fst (adminResolveCall now callId yes finalPrice s))"

definition no_calls :: oracle_sys where
  "no_calls = \<lparr>os_calls = [], os_outcomes = [], os_health = [], os_events = [], os_nextId = 1\<rparr>"

text \<open>What the service promises of a call: its status moves along the life cycle only, by the operation named.\<close>

definition call_statuses :: "oracle_sys \<Rightarrow> nat \<rightharpoonup> oracle_status" where
  "call_statuses s = (\<lambda>i. map_option oc_status (row_get (os_calls s) i))"

inductive lifecycle :: "oracle_op \<Rightarrow> (nat \<rightharpoonup> oracle_status) \<Rightarrow> (nat \<rightharpoonup> oracle_status) \<Rightarrow> bool" where
  lc_stay: "lifecycle op m m"
| lc_create: "m i = None \<Longrightarrow> lifecycle (Create p b q x t) m (m(i \<mapsto> DRAFT))"
| lc_resolve: "m i = Some st \<Longrightarrow> st \<in> {OPEN, SETTLING} \<Longrightarrow> st' \<in> {RESOLVED_YES, RESOLVED_NO}
    \<Longrightarrow> lifecycle (Resolve env i price) m (m(i \<mapsto> st'))"
| lc_report: "m i = Some OPEN \<Longrightarrow> lifecycle (Report i) m (m(i \<mapsto> PAUSED))"
| lc_unpause: "m i = Some PAUSED \<Longrightarrow> lifecycle (Unpause i) m (m(i \<mapsto> OPEN))"
| lc_admin: "m i = Some st \<Longrightarrow> st \<in> {OPEN, PAUSED, SETTLING}
    \<Longrightarrow> lifecycle (AdminResolve now i yes fp) m (m(i \<mapsto> (if yes then RESOLVED_YES else RESOLVED_NO)))"

definition calls_wf :: "oracle_sys \<Rightarrow> bool" where
  "calls_wf s \<longleftrightarrow> rows_wf (os_calls s) \<and> (\<forall>i \<in> fst ` set (os_calls s). i < os_nextId s)"

subsection \<open>Lemmas\<close>

lemma submit_log_frame [simp]:
  "os_calls (submit_log env i c x ok err d h s) = os_calls s"
  "os_outcomes (submit_log env i c x ok err d h s) = os_outcomes s"
  "os_events (submit_log env i c x ok err d h s) = os_events s"
  "os_nextId (submit_log env i c x ok err d h s) = os_nextId s"
  by (simp_all add: submit_log_def)

lemma save_call_frame [simp]:
  "os_calls (save_call i c s) = row_put i c (os_calls s)"
  "os_outcomes (save_call i c s) = os_outcomes s"
  "os_events (save_call i c s) = os_events s"
  "os_nextId (save_call i c s) = os_nextId s"
  by (simp_all add: save_call_def)

lemma reported_fields [simp]:
  "oc_status (reported c) = (if oc_reportCount c + 1 \<ge> REPORT_THRESHOLD \<and> oc_status c = OPEN then PAUSED else oc_status c)"
  "oc_finalPrice (reported c) = oc_finalPrice c" "oc_resolvedAt (reported c) = oc_resolvedAt c"
  "oc_processedAt (reported c) = oc_processedAt c" "oc_reportCount (reported c) = oc_reportCount c + 1"
  "oc_isHidden (reported c) \<longleftrightarrow> oc_reportCount c + 1 \<ge> REPORT_THRESHOLD"
  by (simp_all add: reported_def Let_def)

lemma row_get_row_put: "row_get (row_put k r q) j = (if j = k \<and> row_get q k \<noteq> None then Some r else row_get q j)"
  by (simp add: row_get_def map_of_row_put)

lemma findCallOrThrow_cases:
  obtains (missing) e where "findCallOrThrow i s = Inl e" "row_get (os_calls s) i = None"
  | (found) c where "findCallOrThrow i s = Inr c" "row_get (os_calls s) i = Some c"
  by (cases "row_get (os_calls s) i") (auto simp: findCallOrThrow_def)

lemma statuses_put:
  "row_get (os_calls s) i \<noteq> None \<Longrightarrow> os_calls s' = row_put i c (os_calls s)
    \<Longrightarrow> call_statuses s' = (call_statuses s)(i \<mapsto> oc_status c)"
  by (auto simp: call_statuses_def row_get_row_put fun_eq_iff)

lemma statuses_save:
  "row_get (os_calls s) i \<noteq> None \<Longrightarrow> call_statuses (save_call i c s) = (call_statuses s)(i \<mapsto> oc_status c)"
  by (rule statuses_put) simp_all

lemma statuses_same: "os_calls s' = os_calls s \<Longrightarrow> call_statuses s' = call_statuses s"
  by (simp add: call_statuses_def)

lemma statuses_put_same:
  "row_get (os_calls s) i = Some c \<Longrightarrow> os_calls s' = row_put i c' (os_calls s) \<Longrightarrow> oc_status c' = oc_status c
    \<Longrightarrow> call_statuses s' = call_statuses s"
  by (auto simp: call_statuses_def row_get_row_put fun_eq_iff)

lemma resolved_outcome: "evaluateOutcome call price \<in> {RESOLVED_YES, RESOLVED_NO}"
  by (simp add: evaluateOutcome_def)

lemma resolve_calls:
  assumes "row_get (os_calls s) i = Some c"
  shows "os_calls (fst (resolveMarket env i price s)) = os_calls s \<or>
    (\<exists>c'. os_calls (fst (resolveMarket env i price s)) = row_put i c' (os_calls s) \<and>
       (oc_status c' = oc_status c \<or>
        oc_status c \<in> {OPEN, SETTLING} \<and> oc_status c' \<in> {RESOLVED_YES, RESOLVED_NO}))"
proof -
  have f: "findCallOrThrow i s = Inr c" using assms by (simp add: findCallOrThrow_def)
  show ?thesis
  proof (cases "oc_status c \<in> {OPEN, SETTLING}")
    case False
    then show ?thesis
      by (cases "oc_status c") (auto simp: resolveMarket_def f Let_def)
  next
    case True
    then show ?thesis using resolved_outcome [of c price]
      by (auto simp: resolveMarket_def f Let_def split: option.split prod.split)
  qed
qed

lemma fresh_id: "calls_wf s \<Longrightarrow> row_get (os_calls s) (os_nextId s) = None"
  by (force simp: calls_wf_def row_get_def map_of_eq_None_iff)

lemma statuses_create:
  "calls_wf s \<Longrightarrow> call_statuses (fst (createOracleCall p b q x t s)) = (call_statuses s)(os_nextId s \<mapsto> DRAFT)"
  using fresh_id [of s] rows.get_ins [of "os_calls s" "os_nextId s"]
  by (simp add: call_statuses_def createOracleCall_def calls_wf_def fun_eq_iff new_call_def)

lemma calls_wf_create: "calls_wf s \<Longrightarrow> calls_wf (fst (createOracleCall p b q x t s))"
  using fresh_id [of s] rows.wf_ins [of "os_calls s" "os_nextId s"]
  by (auto simp: calls_wf_def createOracleCall_def row_ins_def)

lemma calls_wf_put:
  assumes "calls_wf s" "os_calls s' = row_put i c (os_calls s)" "os_nextId s' = os_nextId s"
  shows "calls_wf s'"
proof -
  have k: "map fst (os_calls s') = map fst (os_calls s)" using assms(2) by simp
  then have "fst ` set (os_calls s') = fst ` set (os_calls s)" by (metis set_map)
  with k assms show ?thesis by (simp add: calls_wf_def rows_wf_def)
qed

lemma nextId_resolve [simp]: "os_nextId (fst (resolveMarket env i price s)) = os_nextId s"
  by (auto simp: resolveMarket_def Let_def split: sum.split option.split prod.split)

lemma calls_wf_same: "calls_wf s \<Longrightarrow> os_calls s' = os_calls s \<Longrightarrow> os_nextId s' = os_nextId s \<Longrightarrow> calls_wf s'"
  by (simp add: calls_wf_def)

lemma calls_wf_resolve: "calls_wf s \<Longrightarrow> calls_wf (fst (resolveMarket env i price s))"
proof (cases "row_get (os_calls s) i")
  case None
  assume "calls_wf s"
  then show ?thesis using None by (simp add: resolveMarket_def findCallOrThrow_def)
next
  case (Some c)
  assume "calls_wf s"
  then show ?thesis using resolve_calls [OF Some, of env price]
    by (metis calls_wf_put calls_wf_same nextId_resolve)
qed

lemma oracle_step_wf: "calls_wf s \<Longrightarrow> calls_wf (oracle_step s op)"
proof (cases op)
  case (Report i)
  assume "calls_wf s"
  then show ?thesis unfolding Report
    by (cases rule: findCallOrThrow_cases [of i s])
      (auto simp: oracle_step_def recordReport_def Let_def intro: calls_wf_put)
next
  case (Unpause i)
  assume "calls_wf s"
  then show ?thesis unfolding Unpause
    by (cases rule: findCallOrThrow_cases [of i s])
      (auto simp: oracle_step_def unpauseCall_def Let_def intro: calls_wf_put)
next
  case (AdminResolve now i yes fp)
  assume "calls_wf s"
  then show ?thesis unfolding AdminResolve
    by (cases rule: findCallOrThrow_cases [of i s])
      (auto simp: oracle_step_def adminResolveCall_def Let_def intro: calls_wf_put)
qed (simp_all add: oracle_step_def calls_wf_create calls_wf_resolve)

interpretation calls: machine oracle_step calls_wf
  by unfold_locales (rule oracle_step_wf)

lemma resolve_other:
  "j \<noteq> i \<Longrightarrow> row_get (os_calls (fst (resolveMarket env i price s))) j = row_get (os_calls s) j"
proof (cases "row_get (os_calls s) i")
  case (Some c)
  assume "j \<noteq> i"
  then show ?thesis using resolve_calls [OF Some, of env price] by (auto simp: row_get_row_put)
qed (simp add: resolveMarket_def findCallOrThrow_def)

text \<open>What a resolution fixes: status, final price and the two times.\<close>

definition resolution_of :: "nat \<Rightarrow> oracle_sys \<Rightarrow> (oracle_status \<times> string option \<times> int option \<times> int option) option" where
  "resolution_of i s = map_option (\<lambda>c. (oc_status c, oc_finalPrice c, oc_resolvedAt c, oc_processedAt c)) (row_get (os_calls s) i)"

definition is_resolved :: "(oracle_status \<times> 'a) option \<Rightarrow> bool" where
  "is_resolved v \<longleftrightarrow> (\<exists>st x. v = Some (st, x) \<and> st \<in> {RESOLVED_YES, RESOLVED_NO})"

lemma is_resolved_row: "is_resolved (resolution_of i s) \<longleftrightarrow> (\<exists>c. row_get (os_calls s) i = Some c \<and> oc_status c \<in> {RESOLVED_YES, RESOLVED_NO})"
  by (auto simp: is_resolved_def resolution_of_def)

lemma resolution_put:
  "row_get (os_calls s) k = Some c \<Longrightarrow> os_calls s' = row_put k c' (os_calls s) \<Longrightarrow>
     i \<noteq> k \<or> (oc_status c', oc_finalPrice c', oc_resolvedAt c', oc_processedAt c') = (oc_status c, oc_finalPrice c, oc_resolvedAt c, oc_processedAt c)
   \<Longrightarrow> resolution_of i s' = resolution_of i s"
  by (auto simp: resolution_of_def row_get_row_put)

lemma resolved_step: "is_resolved (resolution_of i s) \<Longrightarrow> resolution_of i (oracle_step s op) = resolution_of i s"
proof -
  assume r: "is_resolved (resolution_of i s)"
  then obtain ci where ci: "row_get (os_calls s) i = Some ci" "oc_status ci \<in> {RESOLVED_YES, RESOLVED_NO}"
    by (auto simp: is_resolved_row)
  show ?thesis
  proof (cases op)
    case (Create p b q x t)
    show ?thesis using ci(1) unfolding Create
      by (simp add: oracle_step_def createOracleCall_def resolution_of_def row_get_def row_ins_def map_add_def)
  next
    case (Resolve env k price)
    show ?thesis
    proof (cases "k = i")
      case True
      then have "fst (resolveMarket env k price s) = s"
        using ci by (auto simp: resolveMarket_def findCallOrThrow_def)
      then show ?thesis by (simp add: oracle_step_def Resolve)
    next
      case False
      then show ?thesis using resolve_other [of i k env price s]
        by (simp add: oracle_step_def Resolve resolution_of_def)
    qed
  next
    case (Report k)
    show ?thesis unfolding Report using ci
      by (cases rule: findCallOrThrow_cases [of k s])
        (simp_all add: oracle_step_def recordReport_def Let_def,
          rule resolution_put [of s k], auto)
  next
    case (Unpause k)
    show ?thesis unfolding Unpause using ci
      by (cases rule: findCallOrThrow_cases [of k s])
        (simp_all add: oracle_step_def unpauseCall_def Let_def,
          rule impI, rule resolution_put [of s k], auto)
  next
    case (AdminResolve now k yes fp)
    show ?thesis unfolding AdminResolve using ci
      by (cases rule: findCallOrThrow_cases [of k s])
        (auto simp: oracle_step_def adminResolveCall_def Let_def intro!: resolution_put [of s k])
  qed
qed

interpretation resolution: latch oracle_step "resolution_of i" is_resolved
  by unfold_locales (rule resolved_step)

text \<open>A history in which every call is a draft, and nothing was decided.\<close>

definition drafts_only :: "oracle_sys \<Rightarrow> bool" where
  "drafts_only s \<longleftrightarrow> (\<forall>(i, c) \<in> set (os_calls s). oc_status c = DRAFT) \<and> os_outcomes s = [] \<and> os_events s = []"

lemma drafts_get: "drafts_only s \<Longrightarrow> row_get (os_calls s) i = Some c \<Longrightarrow> oc_status c = DRAFT"
  by (auto simp: drafts_only_def dest!: row_get_Some_set)

lemma drafts_put:
  "drafts_only s \<Longrightarrow> oc_status c = DRAFT \<Longrightarrow> os_calls s' = row_put i c (os_calls s) \<Longrightarrow>
    os_outcomes s' = os_outcomes s \<Longrightarrow> os_events s' = os_events s \<Longrightarrow> drafts_only s'"
  by (auto simp: drafts_only_def row_put_def split: if_splits)

lemma drafts_step: "drafts_only s \<Longrightarrow> drafts_only (oracle_step s op)"
proof -
  assume d: "drafts_only s"
  note g = drafts_get [OF d]
  show ?thesis
  proof (cases op)
    case (Create p b q x t)
    show ?thesis using d unfolding Create
      by (auto simp: drafts_only_def oracle_step_def createOracleCall_def row_ins_def new_call_def)
  next
    case (Resolve env k price)
    show ?thesis unfolding Resolve using d
      by (cases rule: findCallOrThrow_cases [of k s])
        (auto simp: oracle_step_def resolveMarket_def Let_def drafts_only_def dest: g)
  next
    case (Report k)
    show ?thesis unfolding Report using d
      by (cases rule: findCallOrThrow_cases [of k s])
        (auto simp: oracle_step_def recordReport_def Let_def g intro!: drafts_put [of s "reported _"])
  next
    case (Unpause k)
    show ?thesis unfolding Unpause using d
      by (cases rule: findCallOrThrow_cases [of k s])
        (auto simp: oracle_step_def unpauseCall_def Let_def dest: g)
  next
    case (AdminResolve now k yes fp)
    show ?thesis unfolding AdminResolve using d
      by (cases rule: findCallOrThrow_cases [of k s])
        (auto simp: oracle_step_def adminResolveCall_def Let_def dest: g)
  qed
qed

interpretation drafts: machine oracle_step drafts_only
  by unfold_locales (rule drafts_step)

lemma be_bytes_Suc: "be_bytes (Suc n) v = be_bytes n (v div 256) @ [nat (v mod 256)]"
proof -
  have "map (\<lambda>i. nat (v div 256 ^ (n - i) mod 256)) [0..<n] = be_bytes n (v div 256)"
    unfolding be_bytes_def
  proof (rule map_cong [OF refl])
    fix i assume "i \<in> set [0..<n]"
    then have "n - i = Suc (n - 1 - i)" by simp
    then show "nat (v div 256 ^ (n - i) mod 256) = nat (v div 256 div 256 ^ (n - 1 - i) mod 256)"
      by (simp only: power_Suc) (simp add: zdiv_zmult2_eq)
  qed
  then show ?thesis by (simp add: be_bytes_def)
qed

lemma length_be_bytes [simp]: "length (be_bytes n v) = n"
  by (simp add: be_bytes_def)

lemma be_bytes_inj: "be_bytes n a = be_bytes n b \<Longrightarrow> a mod 256 ^ n = b mod 256 ^ n"
proof (induction n arbitrary: a b)
  case (Suc n)
  from Suc.prems have bytes: "be_bytes n (a div 256) = be_bytes n (b div 256)" "nat (a mod 256) = nat (b mod 256)"
    by (simp_all only: be_bytes_Suc append_eq_append_conv length_be_bytes list.inject simp_thms)
  have split: "x mod 256 ^ Suc n = 256 * (x div 256 mod 256 ^ n) + x mod 256" for x :: int
    using zmod_zmult2_eq [of "256 ^ n" x 256] by simp
  have "a mod 256 = b mod 256" using bytes(2) by simp
  then show ?case unfolding split Suc.IH [OF bytes(1)] by simp
qed simp

lemma be_bytes_8_unsigned:
  "be_bytes 8 a = be_bytes 8 b \<Longrightarrow> 0 \<le> a \<Longrightarrow> a < 2 ^ 64 \<Longrightarrow> 0 \<le> b \<Longrightarrow> b < 2 ^ 64 \<Longrightarrow> a = b"
  using be_bytes_inj [of 8 a b] by simp

lemma be_bytes_8_signed:
  assumes "be_bytes 8 a = be_bytes 8 b" "- (2 ^ 63) \<le> a" "a < 2 ^ 63" "- (2 ^ 63) \<le> b" "b < 2 ^ 63"
  shows "a = b"
proof -
  have "2 ^ 64 dvd a - b" using be_bytes_inj [OF assms(1)] by (simp add: mod_eq_dvd_iff)
  moreover have "\<bar>a - b\<bar> < 2 ^ 64" using assms(2-5) by simp
  ultimately show ?thesis using dvd_imp_le_int [of "a - b" "2 ^ 64"] by fastforce
qed

lemma reports_row:
  "row_get (os_calls s) i = Some c \<Longrightarrow>
     row_get (os_calls (foldl oracle_step s (replicate n (Report i)))) i = Some ((reported ^^ n) c)"
proof (induction n arbitrary: s c)
  case (Suc n)
  have "row_get (os_calls (oracle_step s (Report i))) i = Some (reported c)" using Suc.prems
    by (simp add: oracle_step_def recordReport_def findCallOrThrow_def Let_def row_get_row_put)
  from Suc.IH [OF this] show ?case by (simp add: funpow_swap1)
qed simp

lemma reported_pow:
  "oc_reportCount ((reported ^^ n) c) = oc_reportCount c + n"
  "oc_status c = OPEN \<Longrightarrow> oc_status ((reported ^^ n) c)
     = (if 0 < n \<and> oc_reportCount c + n \<ge> REPORT_THRESHOLD then PAUSED else OPEN)"
proof -
  show n: "oc_reportCount ((reported ^^ n) c) = oc_reportCount c + n" for n
    by (induction n) simp_all
  show "oc_status c = OPEN \<Longrightarrow> oc_status ((reported ^^ n) c)
     = (if 0 < n \<and> oc_reportCount c + n \<ge> REPORT_THRESHOLD then PAUSED else OPEN)"
    by (induction n) (simp_all add: n)
qed


subsection \<open>Properties\<close>

lemma resolve_refines: "lifecycle (Resolve env i price) (call_statuses s) (call_statuses (oracle_step s (Resolve env i price)))"
proof (cases "row_get (os_calls s) i")
  case None
  then show ?thesis by (simp add: oracle_step_def resolveMarket_def findCallOrThrow_def lc_stay)
next
  case (Some c)
  then have m: "call_statuses s i = Some (oc_status c)" by (simp add: call_statuses_def)
  from resolve_calls [OF Some, of env price] show ?thesis
  proof (elim disjE exE conjE)
    assume "os_calls (fst (resolveMarket env i price s)) = os_calls s"
    from statuses_same [OF this] show ?thesis by (simp add: oracle_step_def lc_stay)
  next
    fix c' assume "os_calls (fst (resolveMarket env i price s)) = row_put i c' (os_calls s)" "oc_status c' = oc_status c"
    from statuses_put_same [OF Some this] show ?thesis by (simp add: oracle_step_def lc_stay)
  next
    fix c' assume c': "os_calls (fst (resolveMarket env i price s)) = row_put i c' (os_calls s)"
      "oc_status c \<in> {OPEN, SETTLING}" "oc_status c' \<in> {RESOLVED_YES, RESOLVED_NO}"
    have "call_statuses (oracle_step s (Resolve env i price)) = (call_statuses s)(i \<mapsto> oc_status c')"
      using Some statuses_put [OF _ c'(1)] by (simp add: oracle_step_def)
    then show ?thesis using lc_resolve [where m = "call_statuses s" and i = i, OF m c'(2,3)] by simp
  qed
qed

lemma report_refines: "lifecycle (Report i) (call_statuses s) (call_statuses (oracle_step s (Report i)))"
proof (cases rule: findCallOrThrow_cases [of i s])
  case (found c)
  have st: "call_statuses (oracle_step s (Report i)) = (call_statuses s)(i \<mapsto> oc_status (reported c))"
    using found by (simp add: oracle_step_def recordReport_def Let_def statuses_save)
  have m: "call_statuses s i = Some (oc_status c)" using found by (simp add: call_statuses_def)
  show ?thesis
  proof (cases "oc_reportCount c + 1 \<ge> REPORT_THRESHOLD \<and> oc_status c = OPEN")
    case True
    then show ?thesis using lc_report [where m = "call_statuses s" and i = i] m st by simp
  next
    case False
    then have "oc_status (reported c) = oc_status c" by auto
    then show ?thesis using m st lc_stay by (simp add: fun_upd_idem)
  qed
qed (simp add: oracle_step_def recordReport_def lc_stay)

lemma unpause_refines: "lifecycle (Unpause i) (call_statuses s) (call_statuses (oracle_step s (Unpause i)))"
proof (cases rule: findCallOrThrow_cases [of i s])
  case (found c)
  have m: "call_statuses s i = Some (oc_status c)" using found by (simp add: call_statuses_def)
  show ?thesis
  proof (cases "oc_status c = PAUSED")
    case True
    then have "call_statuses (oracle_step s (Unpause i)) = (call_statuses s)(i \<mapsto> OPEN)"
      using found by (simp add: oracle_step_def unpauseCall_def Let_def statuses_save)
    then show ?thesis using lc_unpause [where m = "call_statuses s" and i = i] m True by simp
  next
    case False
    then show ?thesis using found by (simp add: oracle_step_def unpauseCall_def lc_stay)
  qed
qed (simp add: oracle_step_def unpauseCall_def lc_stay)

lemma admin_refines: "lifecycle (AdminResolve now i yes fp) (call_statuses s) (call_statuses (oracle_step s (AdminResolve now i yes fp)))"
proof (cases rule: findCallOrThrow_cases [of i s])
  case (found c)
  have m: "call_statuses s i = Some (oc_status c)" using found by (simp add: call_statuses_def)
  show ?thesis
  proof (cases "oc_status c \<in> {OPEN, PAUSED, SETTLING}")
    case True
    then have "call_statuses (oracle_step s (AdminResolve now i yes fp)) = (call_statuses s)(i \<mapsto> (if yes then RESOLVED_YES else RESOLVED_NO))"
      using found
      by (simp add: oracle_step_def adminResolveCall_def Let_def statuses_save)
    then show ?thesis using lc_admin [where m = "call_statuses s" and i = i, OF m True] by simp
  next
    case False
    then show ?thesis using found by (simp add: oracle_step_def adminResolveCall_def lc_stay)
  qed
qed (simp add: oracle_step_def adminResolveCall_def lc_stay)

text \<open>C3: the service refines the life cycle of a call: one operation changes at most one status, the one of the
  call it names, and only along an allowed move (a new call is a draft; an open or settling call may be resolved,
  an open one paused by reports, a paused one reopened; the administrator may resolve what is open, paused or
  settling).\<close>

theorem calls_refine_lifecycle:
  assumes "calls_wf s"
  shows "lifecycle op (call_statuses s) (call_statuses (oracle_step s op))"
proof (cases op)
  case (Create p b q x t)
  have "call_statuses s (os_nextId s) = None" using fresh_id [OF assms] by (simp add: call_statuses_def)
  then show ?thesis using assms unfolding Create
    by (simp add: oracle_step_def statuses_create lc_create)
qed (simp_all only: resolve_refines report_refines unpause_refines admin_refines)

definition sample_call :: "oracle_status \<Rightarrow> nat \<Rightarrow> oracle_call" where
  "sample_call st n = (new_call ''pair'' ''XLM'' ''USDC'' (Fin 2) 100)\<lparr>oc_status := st, oc_reportCount := n\<rparr>"

definition sample_sys :: "oracle_status \<Rightarrow> nat \<Rightarrow> oracle_sys" where
  "sample_sys st n = no_calls\<lparr>os_calls := [(1, sample_call st n)], os_nextId := 2\<rparr>"

lemma sample_sys_wf: "calls_wf (sample_sys st n)"
  by (simp add: calls_wf_def sample_sys_def rows_wf_def)

theorem calls_refine_lifecycle_witness:
  "lifecycle (Report 1) (call_statuses (sample_sys OPEN 4)) (call_statuses (oracle_step (sample_sys OPEN 4) (Report 1)))
   \<and> call_statuses (oracle_step (sample_sys OPEN 4) (Report 1)) 1 = Some PAUSED"
  using calls_refine_lifecycle [OF sample_sys_wf, of "Report 1" OPEN 4]
  by (simp add: oracle_step_def recordReport_def findCallOrThrow_def sample_sys_def no_calls_def row_get_def
      Let_def call_statuses_def map_of_row_put REPORT_THRESHOLD_def sample_call_def)

text \<open>Once a call is resolved, its outcome, final price and times stay as they are, whatever reports, prices
  and administrator's requests follow.\<close>

theorem resolution_final:
  assumes "row_get (os_calls s) i = Some c" "oc_status c \<in> {RESOLVED_YES, RESOLVED_NO}"
  shows "resolution_of i (foldl oracle_step s ops)
     = Some (oc_status c, oc_finalPrice c, oc_resolvedAt c, oc_processedAt c)"
proof -
  have "is_resolved (resolution_of i s)" using assms by (auto simp: is_resolved_row)
  then have "resolution_of i (foldl oracle_step s ops) = resolution_of i s" by (rule resolution.frozen_run)
  then show ?thesis using assms by (simp add: resolution_of_def)
qed

theorem resolution_final_witness:
  "resolution_of 1 (foldl oracle_step (sample_sys RESOLVED_NO 0) [Report 1, Unpause 1, AdminResolve 9 1 True None])
     = Some (RESOLVED_NO, None, None, None)"
  using resolution_final [of "sample_sys RESOLVED_NO 0" 1 "sample_call RESOLVED_NO 0"
      "[Report 1, Unpause 1, AdminResolve 9 1 True None]"]
  by (simp add: sample_sys_def sample_call_def new_call_def row_get_def del: foldl_Cons)

text \<open>No operation of the service opens a call. From empty tables, whatever is created, reported, unpaused,
  resolved by price or by the administrator, every call stays a draft, and no outcome is stored and no event
  emitted.\<close>

theorem calls_stay_drafts:
  "(\<forall>i c. row_get (os_calls (foldl oracle_step no_calls ops)) i = Some c \<longrightarrow> oc_status c = DRAFT)
   \<and> os_outcomes (foldl oracle_step no_calls ops) = [] \<and> os_events (foldl oracle_step no_calls ops) = []"
proof -
  have "drafts_only (foldl oracle_step no_calls ops)"
    by (rule drafts.run_inv) (simp add: drafts_only_def no_calls_def)
  then show ?thesis by (auto simp: drafts_get) (auto simp: drafts_only_def)
qed

theorem calls_stay_drafts_witness:
  "\<exists>c. row_get (os_calls (foldl oracle_step no_calls [Create ''p'' ''XLM'' ''USDC'' (Fin 2) 100, AdminResolve 9 1 True None])) 1 = Some c
     \<and> oc_status c = DRAFT"
proof -
  let ?s = "foldl oracle_step no_calls [Create ''p'' ''XLM'' ''USDC'' (Fin 2) 100, AdminResolve 9 1 True None]"
  obtain c where "row_get (os_calls ?s) 1 = Some c"
    by (simp add: oracle_step_def createOracleCall_def no_calls_def row_ins_def row_get_def adminResolveCall_def
        findCallOrThrow_def new_call_def)
  then show ?thesis using calls_stay_drafts [of "[Create ''p'' ''XLM'' ''USDC'' (Fin 2) 100, AdminResolve 9 1 True None]"]
    by blast
qed

text \<open>An open call is paused by the report that brings the count to five; when the administrator has unpaused
  it, the very next report pauses it again, since the count is kept.\<close>

theorem reports_pause_again:
  assumes "row_get (os_calls s) i = Some c" "oc_status c = OPEN" "0 < n"
  shows "call_statuses (foldl oracle_step s (replicate n (Report i))) i
       = Some (if oc_reportCount c + n \<ge> REPORT_THRESHOLD then PAUSED else OPEN)
    \<and> (oc_reportCount c + n \<ge> REPORT_THRESHOLD \<longrightarrow>
        call_statuses (foldl oracle_step s (replicate n (Report i) @ [Unpause i])) i = Some OPEN \<and>
        call_statuses (foldl oracle_step s (replicate n (Report i) @ [Unpause i, Report i])) i = Some PAUSED)"
proof -
  let ?c = "(reported ^^ n) c"
  note r = reports_row [OF assms(1), of n]
  show ?thesis
  proof (cases "oc_reportCount c + n \<ge> REPORT_THRESHOLD")
    case True
    then have st: "oc_status ?c = PAUSED" and k: "oc_reportCount ?c \<ge> REPORT_THRESHOLD"
      using assms reported_pow [where n = n and c = c] by simp_all
    let ?u = "foldl oracle_step s (replicate n (Report i) @ [Unpause i])"
    have "row_get (os_calls ?u) i = Some (?c\<lparr>oc_status := OPEN, oc_failedAt := None\<rparr>)"
      using r st by (simp add: oracle_step_def [of _ "Unpause i"] unpauseCall_def findCallOrThrow_def Let_def row_get_row_put)
    from this reports_row [OF this, of 1] show ?thesis using True r st k
      by (simp add: call_statuses_def)
  next
    case False
    then show ?thesis using r assms reported_pow(2) [where n = n and c = c] by (simp add: call_statuses_def)
  qed
qed

theorem reports_pause_again_witness:
  "call_statuses (foldl oracle_step (sample_sys OPEN 3) (replicate 2 (Report 1) @ [Unpause 1, Report 1])) 1 = Some PAUSED"
  using reports_pause_again [of "sample_sys OPEN 3" 1 "sample_call OPEN 3" 2]
  by (simp add: sample_sys_def sample_call_def row_get_def REPORT_THRESHOLD_def)

text \<open>Two outcomes are signed as the same message only when they agree on the call, the side, the price in
  units of 10^-7 and the second: a signature cannot be used for another outcome.\<close>

theorem outcome_message_binds:
  assumes "outcome_message d = Some m" "outcome_message e = Some m"
  shows "od_callId d = od_callId e \<and> od_yes d = od_yes e \<and> od_timestamp d = od_timestamp e
    \<and> scaled_price (od_price d) = scaled_price (od_price e)"
proof -
  obtain a b where a: "scaled_price (od_price d) = Inr a" and b: "scaled_price (od_price e) = Inr b"
    using assms by (auto simp: outcome_message_def split: sum.splits)
  have r: "int (od_callId d) < 2 ^ 64" "int (od_callId e) < 2 ^ 64" "- (2 ^ 63) \<le> a" "a < 2 ^ 63"
    "- (2 ^ 63) \<le> b" "b < 2 ^ 63" "0 \<le> od_timestamp d" "od_timestamp d < 2 ^ 64" "0 \<le> od_timestamp e" "od_timestamp e < 2 ^ 64"
    using assms a b by (auto simp: outcome_message_def split: if_splits)
  have eq: "be_bytes 8 (int (od_callId d)) = be_bytes 8 (int (od_callId e))" "od_yes d = od_yes e"
    "be_bytes 8 a = be_bytes 8 b" "be_bytes 8 (od_timestamp d) = be_bytes 8 (od_timestamp e)"
    using assms r a b by (auto simp: outcome_message_def ascii_def code_def split: if_splits)
  show ?thesis using be_bytes_8_unsigned [OF eq(1)] be_bytes_8_signed [OF eq(3)] be_bytes_8_unsigned [OF eq(4)] r eq(2) a b
    by simp
qed

theorem outcome_message_binds_witness:
  "outcome_message \<lparr>od_callId = 1, od_price = Fin 2, od_timestamp = 5, od_yes = True\<rparr>
   \<noteq> outcome_message \<lparr>od_callId = 1, od_price = Fin 2, od_timestamp = 5, od_yes = False\<rparr>"
proof -
  have "outcome_message \<lparr>od_callId = 1, od_price = Fin 2, od_timestamp = 5, od_yes = y\<rparr> \<noteq> None" for y
    by (simp add: outcome_message_def scaled_price_def num_floor_def num_times_def big_of_num_def)
  then show ?thesis using outcome_message_binds [of "\<lparr>od_callId = 1, od_price = Fin 2, od_timestamp = 5, od_yes = True\<rparr>" _
      "\<lparr>od_callId = 1, od_price = Fin 2, od_timestamp = 5, od_yes = False\<rparr>"]
    by fastforce
qed




end
