(* ===== verification/Entities.thy ===== *)
theory Entities
  imports Prelude
begin

text \<open>
  Rows that several services read: a call (\<^verbatim>\<open>calls/entities/call.entity.ts\<close>) and a stake
  (\<^verbatim>\<open>analytics/entities/stake.entity.ts\<close>). Times are milliseconds, decimals the texts the driver returns.
\<close>

datatype call_status = CS_DRAFT | CS_OPEN | CS_PAUSED | CS_SETTLING | CS_RESOLVED_YES | CS_RESOLVED_NO

record call_row =
  cl_id :: string
  cl_title :: string
  cl_description :: "string option"
  cl_creatorAddress :: string
  cl_isHidden :: bool
  cl_reportCount :: nat
  cl_status :: call_status
  cl_endsAt :: "int option"
  cl_resolvedAt :: "int option"
  cl_finalPrice :: "string option"
  cl_totalYesStake :: string
  cl_totalNoStake :: string
  cl_createdAt :: int

datatype position = YES | NO

record stake_row =
  sk_callId :: string
  sk_userAddress :: string
  sk_amount :: string
  sk_position :: position
  sk_profitLoss :: "string option"
  sk_createdAt :: int

end
