(* ===== verification/Reconciliation.thy ===== *)
theory Reconciliation
  imports JsArith Store Entities
begin

text \<open>
  \<^verbatim>\<open>packages/backend/src/reconciliation/reconciliation.service.ts\<close>: the comparison of the
  contract's events with the database, in dry-run and in repair mode. The state is the three
  business tables, the runs, the discrepancies found and the locks of the cache. \<open>str\<close> is
  \<open>String(v)\<close> and \<open>numo\<close> is \<open>Number(v)\<close> on arrays and objects; the event log, the replies of the
  contract RPC and the clock are arguments; \<open>refuses\<close> says which rows the database rejects, with
  the error's message (the queries for rows succeed).
\<close>

subsection \<open>Rows\<close>

datatype payout_claim_status = PC_PENDING | PC_CLAIMED | PC_FAILED
datatype discrepancy_type = MISSING_OFFCHAIN | DUPLICATE_OFFCHAIN | VALUE_MISMATCH | UNKNOWN_CONTRACT | UNRECOVERABLE
datatype discrepancy_status = DETECTED | REPAIRED | QUARANTINED | IGNORED
datatype run_status = RUN_PENDING | RUN_RUNNING | RUN_COMPLETED | RUN_FAILED

definition call_status_text :: "call_status \<Rightarrow> string" where
  "call_status_text st = (case st of CS_DRAFT \<Rightarrow> ''DRAFT'' | CS_OPEN \<Rightarrow> ''OPEN'' | CS_PAUSED \<Rightarrow> ''PAUSED''
     | CS_SETTLING \<Rightarrow> ''SETTLING'' | CS_RESOLVED_YES \<Rightarrow> ''RESOLVED_YES'' | CS_RESOLVED_NO \<Rightarrow> ''RESOLVED_NO'')"

definition claim_status_text :: "payout_claim_status \<Rightarrow> string" where
  "claim_status_text st = (case st of PC_PENDING \<Rightarrow> ''PENDING'' | PC_CLAIMED \<Rightarrow> ''CLAIMED'' | PC_FAILED \<Rightarrow> ''FAILED'')"

record recon_call =
  rc_id :: string
  rc_title :: string
  rc_description :: "string option"
  rc_creatorAddress :: string
  rc_status :: call_status
  rc_totalYesStake :: string
  rc_totalNoStake :: string
  rc_resolvedAt :: "int option"

record recon_stake =
  rk_callId :: string
  rk_userAddress :: string
  rk_amount :: jsnum

record recon_claim =
  rp_callId :: string
  rp_stakerAddress :: string
  rp_amount :: string
  rp_txHash :: "string option"
  rp_claimedAt :: "int option"
  rp_status :: payout_claim_status

record business =
  bz_calls :: "recon_call list"
  bz_stakes :: "recon_stake list"
  bz_claims :: "recon_claim list"

record chain_event =
  ce_contractId :: string
  ce_ledger :: int
  ce_txHash :: string
  ce_eventIndex :: nat
  ce_stableIdentity :: string
  ce_eventName :: string
  ce_data :: jval

record finding =
  fd_type :: discrepancy_type
  fd_status :: discrepancy_status
  fd_details :: "(string \<times> jval) list"
  fd_notes :: "string option"

record discrepancy =
  dc_runId :: string
  dc_contractId :: string
  dc_ledger :: int
  dc_txHash :: string
  dc_eventIndex :: nat
  dc_stableIdentity :: string
  dc_eventType :: string
  dc_discrepancyType :: discrepancy_type
  dc_status :: discrepancy_status
  dc_details :: "(string \<times> jval) list"
  dc_repairNotes :: "string option"

record recon_run =
  rr_network :: string
  rr_contractIds :: "string list"
  rr_fromLedger :: int
  rr_toLedger :: int
  rr_isDryRun :: bool
  rr_status :: run_status
  rr_scannedEventsCount :: nat
  rr_discrepancyCount :: nat
  rr_repairedCount :: nat
  rr_quarantinedCount :: nat
  rr_breakdown :: "(discrepancy_type \<Rightarrow> nat) option"
  rr_durationMs :: "int option"
  rr_failureReason :: "string option"

datatype recon_write =
    SaveCall recon_call
  | SaveStake recon_stake
  | SaveClaim recon_claim
  | SaveDiscrepancy discrepancy

text \<open>The outcome of comparing one event: an error, or what was found, if anything.\<close>

type_synonym comparison = "business \<times> (string + finding option)"

definition write_row :: "(recon_write \<Rightarrow> string option) \<Rightarrow> recon_write \<Rightarrow> business \<Rightarrow> business \<Rightarrow> finding \<Rightarrow> comparison" where
  "write_row refuses w b b' f = (case refuses w of Some e \<Rightarrow> (b, Inl e) | None \<Rightarrow> (b', Inr (Some f)))"

subsection \<open>Reading the event\<close>

definition text_field :: "(jval \<Rightarrow> string) \<Rightarrow> jval \<Rightarrow> string \<Rightarrow> string \<Rightarrow> string" where
  "text_field str d k j = str_of str (or_if_nullish (data_field d k) (or_if_nullish (data_field d j) (JStr [])))"

subsection \<open>The four comparisons\<close>

definition reconcileCallCreated ::
  "(jval \<Rightarrow> string) \<Rightarrow> (recon_write \<Rightarrow> string option) \<Rightarrow> bool \<Rightarrow> chain_event \<Rightarrow> business \<Rightarrow> comparison" where
  "reconcileCallCreated str refuses isDryRun event b =
     (let d = ce_data event;
          callId = str_of str (or_if_nullish (data_field d ''callId'')
                     (or_if_nullish (data_field d ''marketId'') (JStr (ce_txHash event))));
          title = or_if_nullish (data_field d ''title'') (JStr (''Call '' @ take 8 callId));
          creatorAddress = or_if_nullish (data_field d ''creatorAddress'')
                     (or_if_nullish (data_field d ''creator'') (JStr ''SYSTEM''));
          existingCalls = filter (\<lambda>c. rc_id c = callId) (bz_calls b)
      in case existingCalls of
           [] \<Rightarrow>
             if isDryRun
             then (b, Inr (Some \<lparr>fd_type = MISSING_OFFCHAIN, fd_status = DETECTED,
                     fd_details = [(''eventData'', d), (''expectedCallId'', JStr callId)], fd_notes = None\<rparr>))
             else
               (let newCall = \<lparr>rc_id = callId, rc_title = str_of str title,
                      rc_description = (case or_if_nullish (data_field d ''description'') JNull of
                          JNull \<Rightarrow> None | v \<Rightarrow> Some (str_of str v)),
                      rc_creatorAddress = str_of str creatorAddress, rc_status = CS_OPEN,
                      rc_totalYesStake = ''0'', rc_totalNoStake = ''0'', rc_resolvedAt = None\<rparr>
                in write_row refuses (SaveCall newCall) b (b\<lparr>bz_calls := bz_calls b @ [newCall]\<rparr>)
                     \<lparr>fd_type = MISSING_OFFCHAIN, fd_status = REPAIRED,
                      fd_details = [(''eventData'', d), (''repairedCallId'', JStr callId)],
                      fd_notes = Some ''Upserted missing Call record in Postgres''\<rparr>)
         | call # rest \<Rightarrow>
             if rest \<noteq> []
             then (b, Inr (Some \<lparr>fd_type = DUPLICATE_OFFCHAIN, fd_status = (if isDryRun then DETECTED else QUARANTINED),
                     fd_details = [(''duplicateCount'', JNum (Fin (of_nat (length existingCalls)))), (''callId'', JStr callId)],
                     fd_notes = Some ''Multiple Call records found with same ID''\<rparr>))
             else if creatorAddress \<noteq> JStr ''SYSTEM'' \<and> JStr (rc_creatorAddress call) \<noteq> creatorAddress
             then (b, Inr (Some \<lparr>fd_type = VALUE_MISMATCH, fd_status = (if isDryRun then DETECTED else QUARANTINED),
                     fd_details = [(''offchainCreator'', JStr (rc_creatorAddress call)), (''onchainCreator'', creatorAddress)],
                     fd_notes = Some ''Creator address value mismatch''\<rparr>))
             else (b, Inr None))"

definition reconcileStakeAdded ::
  "(jval \<Rightarrow> string) \<Rightarrow> (jval \<Rightarrow> jsnum) \<Rightarrow> (recon_write \<Rightarrow> string option) \<Rightarrow> bool \<Rightarrow> chain_event \<Rightarrow> business \<Rightarrow> comparison" where
  "reconcileStakeAdded str numo refuses isDryRun event b =
     (let d = ce_data event;
          callId = text_field str d ''callId'' ''marketId'';
          userAddress = text_field str d ''userAddress'' ''staker'';
          amount = num_of numo (or_if_nullish (data_field d ''amount'') (JNum (Fin 0)));
          details = [(''callId'', JStr callId), (''userAddress'', JStr userAddress), (''amount'', JNum amount)]
      in if callId = [] \<or> userAddress = []
         then (b, Inr (Some \<lparr>fd_type = UNRECOVERABLE, fd_status = QUARANTINED,
                 fd_details = [(''eventData'', d), (''reason'', JStr ''Missing callId or userAddress in event payload'')],
                 fd_notes = None\<rparr>))
         else if filter (\<lambda>k. rk_callId k = callId \<and> rk_userAddress k = userAddress) (bz_stakes b) = []
         then
           if isDryRun
           then (b, Inr (Some \<lparr>fd_type = MISSING_OFFCHAIN, fd_status = DETECTED, fd_details = details, fd_notes = None\<rparr>))
           else
             (let newStake = \<lparr>rk_callId = callId, rk_userAddress = userAddress, rk_amount = amount\<rparr>
              in write_row refuses (SaveStake newStake) b (b\<lparr>bz_stakes := bz_stakes b @ [newStake]\<rparr>)
                   \<lparr>fd_type = MISSING_OFFCHAIN, fd_status = REPAIRED, fd_details = details,
                    fd_notes = Some ''Upserted missing Stake record in Postgres''\<rparr>)
         else (b, Inr None))"

definition expectedStatus :: "string \<Rightarrow> call_status" where
  "expectedStatus outcome = (if outcome \<in> {''YES'', ''1'', ''TRUE''} then CS_RESOLVED_YES else CS_RESOLVED_NO)"

definition put_call :: "recon_call \<Rightarrow> recon_call list \<Rightarrow> recon_call list" where
  "put_call c cs = map (\<lambda>x. if rc_id x = rc_id c then c else x) cs"

definition reconcileCallResolved ::
  "(jval \<Rightarrow> string) \<Rightarrow> (recon_write \<Rightarrow> string option) \<Rightarrow> int \<Rightarrow> bool \<Rightarrow> chain_event \<Rightarrow> business \<Rightarrow> comparison" where
  "reconcileCallResolved str refuses now isDryRun event b =
     (let d = ce_data event;
          callId = text_field str d ''callId'' ''marketId'';
          outcome = to_upper (text_field str d ''outcome'' ''result'')
      in if callId = [] then (b, Inr None)
         else case find (\<lambda>c. rc_id c = callId) (bz_calls b) of
           None \<Rightarrow> (b, Inr (Some \<lparr>fd_type = MISSING_OFFCHAIN, fd_status = (if isDryRun then DETECTED else QUARANTINED),
               fd_details = [(''callId'', JStr callId), (''outcome'', JStr outcome),
                 (''reason'', JStr ''Call record missing for resolution event'')], fd_notes = None\<rparr>))
         | Some call \<Rightarrow>
             (let expected = expectedStatus outcome
              in if rc_status call \<noteq> expected
                 then
                   if isDryRun
                   then (b, Inr (Some \<lparr>fd_type = VALUE_MISMATCH, fd_status = DETECTED,
                       fd_details = [(''callId'', JStr callId), (''currentStatus'', JStr (call_status_text (rc_status call))),
                         (''expectedStatus'', JStr (call_status_text expected))], fd_notes = None\<rparr>))
                   else
                     (let call' = call\<lparr>rc_status := expected, rc_resolvedAt := Some now\<rparr>
                      in write_row refuses (SaveCall call') b (b\<lparr>bz_calls := put_call call' (bz_calls b)\<rparr>)
                           \<lparr>fd_type = VALUE_MISMATCH, fd_status = REPAIRED,
                            fd_details = [(''callId'', JStr callId), (''updatedStatus'', JStr (call_status_text expected))],
                            fd_notes = Some ''Updated Call resolution status in Postgres''\<rparr>)
                 else (b, Inr None)))"

definition put_claim :: "recon_claim \<Rightarrow> recon_claim list \<Rightarrow> recon_claim list" where
  "put_claim c cs = map (\<lambda>x. if rp_callId x = rp_callId c \<and> rp_stakerAddress x = rp_stakerAddress c then c else x) cs"

definition reconcilePayoutClaimed ::
  "(jval \<Rightarrow> string) \<Rightarrow> (recon_write \<Rightarrow> string option) \<Rightarrow> int \<Rightarrow> bool \<Rightarrow> chain_event \<Rightarrow> business \<Rightarrow> comparison" where
  "reconcilePayoutClaimed str refuses now isDryRun event b =
     (let d = ce_data event;
          callId = str_of str (or_if_nullish (data_field d ''callId'') (JStr []));
          stakerAddress = text_field str d ''stakerAddress'' ''staker'';
          amount = str_of str (or_if_nullish (data_field d ''amount'') (JStr ''0''));
          details = [(''callId'', JStr callId), (''stakerAddress'', JStr stakerAddress), (''amount'', JStr amount),
            (''txHash'', JStr (ce_txHash event))]
      in if callId = [] \<or> stakerAddress = [] then (b, Inr None)
         else case find (\<lambda>c. rp_callId c = callId \<and> rp_stakerAddress c = stakerAddress) (bz_claims b) of
           None \<Rightarrow>
             if isDryRun
             then (b, Inr (Some \<lparr>fd_type = MISSING_OFFCHAIN, fd_status = DETECTED, fd_details = details, fd_notes = None\<rparr>))
             else
               (let newClaim = \<lparr>rp_callId = callId, rp_stakerAddress = stakerAddress, rp_amount = amount,
                      rp_txHash = Some (ce_txHash event), rp_claimedAt = Some now, rp_status = PC_CLAIMED\<rparr>
                in write_row refuses (SaveClaim newClaim) b (b\<lparr>bz_claims := bz_claims b @ [newClaim]\<rparr>)
                     \<lparr>fd_type = MISSING_OFFCHAIN, fd_status = REPAIRED, fd_details = details,
                      fd_notes = Some ''Upserted missing PayoutClaim record as CLAIMED''\<rparr>)
         | Some claim \<Rightarrow>
             if rp_status claim \<noteq> PC_CLAIMED
             then
               if isDryRun
               then (b, Inr (Some \<lparr>fd_type = VALUE_MISMATCH, fd_status = DETECTED,
                   fd_details = [(''callId'', JStr callId), (''stakerAddress'', JStr stakerAddress),
                     (''currentStatus'', JStr (claim_status_text (rp_status claim))), (''expectedStatus'', JStr ''CLAIMED'')],
                   fd_notes = None\<rparr>))
               else
                 (let claim' = claim\<lparr>rp_status := PC_CLAIMED, rp_txHash := Some (ce_txHash event), rp_claimedAt := Some now\<rparr>
                  in write_row refuses (SaveClaim claim') b (b\<lparr>bz_claims := put_claim claim' (bz_claims b)\<rparr>)
                       \<lparr>fd_type = VALUE_MISMATCH, fd_status = REPAIRED,
                        fd_details = [(''callId'', JStr callId), (''stakerAddress'', JStr stakerAddress),
                          (''updatedStatus'', JStr ''CLAIMED'')],
                        fd_notes = Some ''Marked PayoutClaim as CLAIMED in Postgres''\<rparr>)
             else (b, Inr None))"

subsection \<open>A run\<close>

definition reconcileEvent ::
  "(jval \<Rightarrow> string) \<Rightarrow> (jval \<Rightarrow> jsnum) \<Rightarrow> (recon_write \<Rightarrow> string option) \<Rightarrow> int \<Rightarrow> bool \<Rightarrow> chain_event \<Rightarrow> business \<Rightarrow> comparison" where
  "reconcileEvent str numo refuses now isDryRun event b =
     (if ce_eventName event \<in> {''MarketCreated'', ''call_created''} then reconcileCallCreated str refuses isDryRun event b
      else if ce_eventName event \<in> {''BetPlaced'', ''stake_added''} then reconcileStakeAdded str numo refuses isDryRun event b
      else if ce_eventName event \<in> {''OutcomeFinalized'', ''call_resolved'', ''call_settled''}
      then reconcileCallResolved str refuses now isDryRun event b
      else if ce_eventName event = ''PayoutClaimed'' then reconcilePayoutClaimed str refuses now isDryRun event b
      else (b, Inr None))"

definition discrepancy_row :: "string \<Rightarrow> chain_event \<Rightarrow> bool \<Rightarrow> finding \<Rightarrow> discrepancy" where
  "discrepancy_row runId event isDryRun f =
     \<lparr>dc_runId = runId, dc_contractId = ce_contractId event, dc_ledger = ce_ledger event, dc_txHash = ce_txHash event,
      dc_eventIndex = ce_eventIndex event, dc_stableIdentity = ce_stableIdentity event, dc_eventType = ce_eventName event,
      dc_discrepancyType = fd_type f, dc_status = (if isDryRun then DETECTED else fd_status f),
      dc_details = fd_details f, dc_repairNotes = fd_notes f\<rparr>"

definition unknown_contract :: "chain_event \<Rightarrow> finding" where
  "unknown_contract event = \<lparr>fd_type = UNKNOWN_CONTRACT, fd_status = QUARANTINED,
     fd_details = [(''reason'', JStr (''Contract '' @ ce_contractId event @ '' not in configured set''))], fd_notes = None\<rparr>"

text \<open>The loop's counters are those of the findings, so they are kept as the list of these.\<close>

record run_state =
  rn_business :: business
  rn_discrepancies :: "discrepancy list"
  rn_findings :: "finding list"

definition scan_event ::
  "(jval \<Rightarrow> string) \<Rightarrow> (jval \<Rightarrow> jsnum) \<Rightarrow> (recon_write \<Rightarrow> string option) \<Rightarrow> int \<Rightarrow> string \<Rightarrow> string list \<Rightarrow> bool \<Rightarrow>
   chain_event \<Rightarrow> run_state \<Rightarrow> run_state \<times> string option" where
  "scan_event str numo refuses now runId contractIds isDryRun event s =
     (let (b, r) = (if contractIds \<noteq> [] \<and> ce_contractId event \<notin> set contractIds
                    then (rn_business s, Inr (Some (unknown_contract event)))
                    else reconcileEvent str numo refuses now isDryRun event (rn_business s));
          s1 = s\<lparr>rn_business := b\<rparr>
      in case r of
           Inl e \<Rightarrow> (s1, Some e)
         | Inr None \<Rightarrow> (s1, None)
         | Inr (Some f) \<Rightarrow>
             (let row = discrepancy_row runId event isDryRun f
              in case refuses (SaveDiscrepancy row) of
                   Some e \<Rightarrow> (s1, Some e)
                 | None \<Rightarrow> (s1\<lparr>rn_discrepancies := rn_discrepancies s1 @ [row],
                                rn_findings := rn_findings s1 @ [f]\<rparr>, None)))"

fun scan_events ::
  "(jval \<Rightarrow> string) \<Rightarrow> (jval \<Rightarrow> jsnum) \<Rightarrow> (recon_write \<Rightarrow> string option) \<Rightarrow> int \<Rightarrow> string \<Rightarrow> string list \<Rightarrow> bool \<Rightarrow>
   chain_event list \<Rightarrow> run_state \<Rightarrow> run_state \<times> string option" where
  "scan_events str numo refuses now runId contractIds isDryRun [] s = (s, None)"
| "scan_events str numo refuses now runId contractIds isDryRun (e # es) s =
     (case scan_event str numo refuses now runId contractIds isDryRun e s of
        (s', Some err) \<Rightarrow> (s', Some err)
      | (s', None) \<Rightarrow> scan_events str numo refuses now runId contractIds isDryRun es s')"

definition count_status :: "discrepancy_status \<Rightarrow> finding list \<Rightarrow> nat" where
  "count_status st fs = length (filter (\<lambda>f. fd_status f = st) fs)"

definition breakdown :: "finding list \<Rightarrow> discrepancy_type \<Rightarrow> nat" where
  "breakdown fs ty = length (filter (\<lambda>f. fd_type f = ty) fs)"

text \<open>The rows of the event log, and the answer of the contract RPC: a first topic that is no symbol throws.\<close>

record stored_event =
  se_contractId :: string
  se_ledger :: int
  se_txOrder :: int
  se_txHash :: string
  se_eventType :: string
  se_eventData :: jval

datatype first_topic = NoTopic | TopicSymbol string | TopicOther

record rpc_event =
  re_ledger :: int
  re_txHash :: string
  re_topic :: first_topic
  re_value :: jval

datatype rpc_reply = RpcThrew | RpcNothing | RpcEvents "rpc_event list"

definition stable_identity :: "string \<Rightarrow> int \<Rightarrow> string \<Rightarrow> nat \<Rightarrow> string" where
  "stable_identity contractId ledger txHash index =
     contractId @ '':'' @ nat_str (nat ledger) @ '':'' @ txHash @ '':'' @ nat_str index"

definition from_log :: "nat \<times> stored_event \<Rightarrow> chain_event" where
  "from_log il = (case il of (index, entry) \<Rightarrow>
     \<lparr>ce_contractId = se_contractId entry, ce_ledger = se_ledger entry, ce_txHash = se_txHash entry, ce_eventIndex = index,
      ce_stableIdentity = stable_identity (se_contractId entry) (se_ledger entry) (se_txHash entry) index,
      ce_eventName = se_eventType entry, ce_data = (if truthy (se_eventData entry) then se_eventData entry else JObj [])\<rparr>)"

fun from_rpc :: "string \<Rightarrow> int \<Rightarrow> int \<Rightarrow> (nat \<times> rpc_event) list \<Rightarrow> chain_event list" where
  "from_rpc contractId fromLedger toLedger [] = []"
| "from_rpc contractId fromLedger toLedger ((idx, ev) # evs) =
     (if re_ledger ev \<ge> fromLedger \<and> re_ledger ev \<le> toLedger
      then (case re_topic ev of
          TopicOther \<Rightarrow> []
        | t \<Rightarrow> \<lparr>ce_contractId = contractId, ce_ledger = re_ledger ev, ce_txHash = re_txHash ev, ce_eventIndex = idx,
                ce_stableIdentity = stable_identity contractId (re_ledger ev) (re_txHash ev) idx,
                ce_eventName = (case t of TopicSymbol s \<Rightarrow> s | _ \<Rightarrow> ''Unknown''),
                ce_data = JObj [(''raw'', re_value ev)]\<rparr> # from_rpc contractId fromLedger toLedger evs)
      else from_rpc contractId fromLedger toLedger evs)"

text \<open>\<open>None\<close> for the event log is a failed query: the contract is skipped, as when the RPC throws.\<close>

definition fetchEventsForRange ::
  "(string \<Rightarrow> stored_event list option) \<Rightarrow> (string \<Rightarrow> rpc_reply) \<Rightarrow> string list \<Rightarrow> int \<Rightarrow> int \<Rightarrow> chain_event list" where
  "fetchEventsForRange eventLog rpc contractIds fromLedger toLedger =
     concat (map (\<lambda>contractId. case eventLog contractId of
         None \<Rightarrow> []
       | Some rows \<Rightarrow>
           (let filtered = sort_key (\<lambda>l. se_ledger l) (sort_key (\<lambda>l. se_txOrder l)
                  (filter (\<lambda>l. se_contractId l = contractId \<and> fromLedger \<le> se_ledger l \<and> se_ledger l \<le> toLedger) rows))
            in if filtered \<noteq> [] then map from_log (List.enumerate 0 filtered)
               else (case rpc contractId of
                   RpcEvents evs \<Rightarrow> from_rpc contractId fromLedger toLedger (List.enumerate 0 evs)
                 | _ \<Rightarrow> []))) contractIds)"

text \<open>The service's state; a lock of the cache holds until its time.\<close>

record recon_sys =
  rs_business :: business
  rs_runs :: "(string \<times> recon_run) list"
  rs_discrepancies :: "discrepancy list"
  rs_locks :: "string \<rightharpoonup> int"
  rs_queue :: "string list"

datatype recon_exn = ReconBadRequest string | ReconConflict string | ReconNotFound string

definition run_scan ::
  "(jval \<Rightarrow> string) \<Rightarrow> (jval \<Rightarrow> jsnum) \<Rightarrow> (recon_write \<Rightarrow> string option) \<Rightarrow> int \<Rightarrow> string \<Rightarrow> recon_run \<Rightarrow>
   chain_event list \<Rightarrow> recon_sys \<Rightarrow> run_state \<times> string option" where
  "run_scan str numo refuses now runId run events s =
     scan_events str numo refuses now runId (rr_contractIds run) (rr_isDryRun run) events
       \<lparr>rn_business = rs_business s, rn_discrepancies = rs_discrepancies s, rn_findings = []\<rparr>"

definition executeRun ::
  "(jval \<Rightarrow> string) \<Rightarrow> (jval \<Rightarrow> jsnum) \<Rightarrow> (recon_write \<Rightarrow> string option) \<Rightarrow> (string \<Rightarrow> stored_event list option) \<Rightarrow>
   (string \<Rightarrow> rpc_reply) \<Rightarrow> int \<Rightarrow> int \<Rightarrow> string \<Rightarrow> recon_sys \<Rightarrow> recon_sys \<times> (recon_exn + recon_run)" where
  "executeRun str numo refuses eventLog rpc startTime now runId s =
     (case row_get (rs_runs s) runId of
        None \<Rightarrow> (s, Inl (ReconNotFound (''ReconciliationRun with ID '' @ runId @ '' not found'')))
      | Some run0 \<Rightarrow>
          (let run = run0\<lparr>rr_status := RUN_RUNNING\<rparr>;
               events = fetchEventsForRange eventLog rpc (rr_contractIds run) (rr_fromLedger run) (rr_toLedger run);
               (n, err) = run_scan str numo refuses now runId run events s;
               run1 = run\<lparr>rr_scannedEventsCount := length events, rr_durationMs := Some (now - startTime)\<rparr>;
               run2 = (case err of
                   None \<Rightarrow> run1\<lparr>rr_discrepancyCount := length (rn_findings n),
                             rr_repairedCount := count_status REPAIRED (rn_findings n),
                             rr_quarantinedCount := count_status QUARANTINED (rn_findings n),
                             rr_breakdown := Some (breakdown (rn_findings n)), rr_status := RUN_COMPLETED\<rparr>
                 | Some e \<Rightarrow> run1\<lparr>rr_status := RUN_FAILED, rr_failureReason := Some e\<rparr>)
           in (s\<lparr>rs_business := rn_business n, rs_discrepancies := rn_discrepancies n,
                 rs_runs := row_put runId run2 (rs_runs s), rs_locks := (rs_locks s)(rr_network run := None)\<rparr>,
               Inr run2)))"

record start_dto =
  sd_network :: "string option"
  sd_contractIds :: "string list option"
  sd_fromLedger :: int
  sd_toLedger :: int
  sd_isDryRun :: "bool option"

definition lock_live :: "recon_sys \<Rightarrow> string \<Rightarrow> int \<Rightarrow> bool" where
  "lock_live s network now = (case rs_locks s network of None \<Rightarrow> False | Some t \<Rightarrow> now < t)"

text \<open>A start reads the lock, and only then, after an await, sets it and goes on.\<close>

definition start_check :: "start_dto \<Rightarrow> int \<Rightarrow> recon_sys \<Rightarrow> recon_exn option" where
  "start_check dto now s =
     (if sd_fromLedger dto > sd_toLedger dto
      then Some (ReconBadRequest (''fromLedger ('' @ nat_str (nat (sd_fromLedger dto))
             @ '') cannot be greater than toLedger ('' @ nat_str (nat (sd_toLedger dto)) @ '')''))
      else if lock_live s (nullish (sd_network dto) ''testnet'') now
      then Some (ReconConflict (''A reconciliation run for network \"'' @ nullish (sd_network dto) ''testnet''
             @ ''\" is currently in progress. Lock key: reconciliation_lock:'' @ nullish (sd_network dto) ''testnet''))
      else None)"

definition start_go :: "string \<Rightarrow> start_dto \<Rightarrow> int \<Rightarrow> string \<Rightarrow> recon_sys \<Rightarrow> recon_sys \<times> recon_run" where
  "start_go defaultContractId dto now runId s =
     (let network = nullish (sd_network dto) ''testnet'';
          contracts = (case sd_contractIds dto of
              Some ids \<Rightarrow> if ids \<noteq> [] then ids else filter (\<lambda>c. c \<noteq> []) [defaultContractId]
            | None \<Rightarrow> filter (\<lambda>c. c \<noteq> []) [defaultContractId]);
          run = \<lparr>rr_network = network, rr_contractIds = contracts, rr_fromLedger = sd_fromLedger dto,
            rr_toLedger = sd_toLedger dto, rr_isDryRun = nullish (sd_isDryRun dto) True, rr_status = RUN_PENDING,
            rr_scannedEventsCount = 0, rr_discrepancyCount = 0, rr_repairedCount = 0, rr_quarantinedCount = 0,
            rr_breakdown = None, rr_durationMs = None, rr_failureReason = None\<rparr>
      in (s\<lparr>rs_locks := (rs_locks s)(network \<mapsto> now + 900000), rs_runs := row_ins runId run (rs_runs s),
            rs_queue := rs_queue s @ [runId]\<rparr>, run))"

definition startRun :: "string \<Rightarrow> start_dto \<Rightarrow> int \<Rightarrow> string \<Rightarrow> recon_sys \<Rightarrow> recon_sys \<times> (recon_exn + recon_run)" where
  "startRun defaultContractId dto now runId s = (case start_check dto now s of
      Some e \<Rightarrow> (s, Inl e)
    | None \<Rightarrow> (case start_go defaultContractId dto now runId s of (s', run) \<Rightarrow> (s', Inr run)))"

subsection \<open>The administrator's lists\<close>

record page_meta =
  pm_page :: nat
  pm_limit :: nat
  pm_total :: nat
  pm_totalPages :: nat

definition page_of :: "nat \<Rightarrow> nat \<Rightarrow> 'a list \<Rightarrow> 'a list \<times> page_meta" where
  "page_of page limit rows =
     (take limit (drop ((page - 1) * limit) rows),
      \<lparr>pm_page = page, pm_limit = limit, pm_total = length rows,
       pm_totalPages = (length rows + limit - 1) div limit\<rparr>)"

definition getRuns ::
  "nat option \<Rightarrow> nat option \<Rightarrow> string option \<Rightarrow> run_status option \<Rightarrow> bool option \<Rightarrow> recon_sys \<Rightarrow> recon_run list \<times> page_meta" where
  "getRuns page limit network status isDryRun s = page_of (nullish page 1) (nullish limit 20)
     (rev (filter (\<lambda>r. (case network of None \<Rightarrow> True | Some n \<Rightarrow> n = [] \<or> rr_network r = n)
                     \<and> (case status of None \<Rightarrow> True | Some st \<Rightarrow> rr_status r = st)
                     \<and> (case isDryRun of None \<Rightarrow> True | Some d \<Rightarrow> rr_isDryRun r = d)) (map snd (rs_runs s))))"

definition getRunById :: "string \<Rightarrow> recon_sys \<Rightarrow> recon_exn + recon_run" where
  "getRunById runId s = (case row_get (rs_runs s) runId of
      None \<Rightarrow> Inl (ReconNotFound (''ReconciliationRun '' @ runId @ '' not found''))
    | Some r \<Rightarrow> Inr r)"

definition getDiscrepancies ::
  "nat option \<Rightarrow> nat option \<Rightarrow> string option \<Rightarrow> discrepancy_type option \<Rightarrow> discrepancy_status option \<Rightarrow> recon_sys \<Rightarrow>
   discrepancy list \<times> page_meta" where
  "getDiscrepancies page limit runId ty status s = page_of (nullish page 1) (nullish limit 20)
     (rev (filter (\<lambda>d. (case runId of None \<Rightarrow> True | Some r \<Rightarrow> r = [] \<or> dc_runId d = r)
                     \<and> (case ty of None \<Rightarrow> True | Some t \<Rightarrow> dc_discrepancyType d = t)
                     \<and> (case status of None \<Rightarrow> True | Some st \<Rightarrow> dc_status d = st)) (rs_discrepancies s)))"

subsection \<open>What an event promises of the database\<close>

definition created_id :: "(jval \<Rightarrow> string) \<Rightarrow> chain_event \<Rightarrow> string" where
  "created_id str e = str_of str (or_if_nullish (data_field (ce_data e) ''callId'')
     (or_if_nullish (data_field (ce_data e) ''marketId'') (JStr (ce_txHash e))))"

definition event_call :: "(jval \<Rightarrow> string) \<Rightarrow> chain_event \<Rightarrow> string" where
  "event_call str e = text_field str (ce_data e) ''callId'' ''marketId''"

definition event_user :: "(jval \<Rightarrow> string) \<Rightarrow> chain_event \<Rightarrow> string" where
  "event_user str e = text_field str (ce_data e) ''userAddress'' ''staker''"

definition event_outcome :: "(jval \<Rightarrow> string) \<Rightarrow> chain_event \<Rightarrow> call_status" where
  "event_outcome str e = expectedStatus (to_upper (text_field str (ce_data e) ''outcome'' ''result''))"

definition claim_call :: "(jval \<Rightarrow> string) \<Rightarrow> chain_event \<Rightarrow> string" where
  "claim_call str e = str_of str (or_if_nullish (data_field (ce_data e) ''callId'') (JStr []))"

definition claim_staker :: "(jval \<Rightarrow> string) \<Rightarrow> chain_event \<Rightarrow> string" where
  "claim_staker str e = text_field str (ce_data e) ''stakerAddress'' ''staker''"

definition is_creation :: "chain_event \<Rightarrow> bool" where
  "is_creation e \<longleftrightarrow> ce_eventName e \<in> {''MarketCreated'', ''call_created''}"

definition is_stake :: "chain_event \<Rightarrow> bool" where
  "is_stake e \<longleftrightarrow> ce_eventName e \<in> {''BetPlaced'', ''stake_added''}"

definition is_resolution :: "chain_event \<Rightarrow> bool" where
  "is_resolution e \<longleftrightarrow> ce_eventName e \<in> {''OutcomeFinalized'', ''call_resolved'', ''call_settled''}"

definition is_claim :: "chain_event \<Rightarrow> bool" where
  "is_claim e \<longleftrightarrow> ce_eventName e = ''PayoutClaimed''"

definition call_known :: "string \<Rightarrow> business \<Rightarrow> bool" where
  "call_known i b \<longleftrightarrow> (\<exists>c \<in> set (bz_calls b). rc_id c = i)"

definition settled :: "(jval \<Rightarrow> string) \<Rightarrow> chain_event \<Rightarrow> business \<Rightarrow> bool" where
  "settled str e b \<longleftrightarrow>
     (is_creation e \<longrightarrow> call_known (created_id str e) b) \<and>
     (is_stake e \<longrightarrow> event_call str e = [] \<or> event_user str e = [] \<or>
        (\<exists>k \<in> set (bz_stakes b). rk_callId k = event_call str e \<and> rk_userAddress k = event_user str e)) \<and>
     (is_resolution e \<longrightarrow> event_call str e = [] \<or>
        (\<exists>c. find (\<lambda>c. rc_id c = event_call str e) (bz_calls b) = Some c \<and> rc_status c = event_outcome str e)) \<and>
     (is_claim e \<longrightarrow> claim_call str e = [] \<or> claim_staker str e = [] \<or>
        (\<exists>c. find (\<lambda>c. rp_callId c = claim_call str e \<and> rp_stakerAddress c = claim_staker str e) (bz_claims b) = Some c
           \<and> rp_status c = PC_CLAIMED))"

lemmas event_kinds = is_creation_def is_stake_def is_resolution_def is_claim_def
lemmas event_keys = created_id_def event_call_def event_user_def event_outcome_def claim_call_def claim_staker_def

definition repair :: "(jval \<Rightarrow> string) \<Rightarrow> (jval \<Rightarrow> jsnum) \<Rightarrow> int \<Rightarrow> chain_event \<Rightarrow> business \<Rightarrow> business" where
  "repair str numo now e b = fst (reconcileEvent str numo (\<lambda>_. None) now False e b)"

subsection \<open>Lemmas\<close>

lemma write_row_None [simp]: "write_row (\<lambda>_. None) w b b' f = (b', Inr (Some f))"
  by (simp add: write_row_def)

lemma find_None_filter: "find P xs = None \<longleftrightarrow> filter P xs = []"
  by (induction xs) auto

lemma find_put_call: "find (\<lambda>c. rc_id c = i) (put_call c cs) =
    (if i = rc_id c \<and> (\<exists>x \<in> set cs. rc_id x = i) then Some c else find (\<lambda>c. rc_id c = i) cs)"
  by (induction cs) (auto simp: put_call_def)


lemma find_put_claim: "find (\<lambda>c. rp_callId c = i \<and> rp_stakerAddress c = a) (put_claim c cs) =
    (if i = rp_callId c \<and> a = rp_stakerAddress c \<and> (\<exists>x \<in> set cs. rp_callId x = i \<and> rp_stakerAddress x = a)
     then Some c else find (\<lambda>c. rp_callId c = i \<and> rp_stakerAddress c = a) cs)"
  by (induction cs) (auto simp: put_claim_def)

lemma row_get_row_put_same [simp]: "row_get q k = Some r \<Longrightarrow> row_get (row_put k r' q) k = Some r'"
  by (simp add: row_get_def map_of_row_put)

lemma row_get_row_put_other [simp]: "j \<noteq> k \<Longrightarrow> row_get (row_put k r q) j = row_get q j"
  by (simp add: row_get_def map_of_row_put)

text \<open>The four effects of a repair.\<close>

lemma repair_other: "\<not> is_creation e \<Longrightarrow> \<not> is_stake e \<Longrightarrow> \<not> is_resolution e \<Longrightarrow> \<not> is_claim e \<Longrightarrow> repair str numo now e b = b"
  by (simp add: repair_def reconcileEvent_def event_kinds)

lemma repair_creation:
  assumes "is_creation e"
  obtains c where "repair str numo now e b =
    (if call_known (created_id str e) b then b else b\<lparr>bz_calls := bz_calls b @ [c]\<rparr>)" "rc_id c = created_id str e"
proof -
  have r: "repair str numo now e b = fst (reconcileCallCreated str (\<lambda>_. None) False e b)"
    using assms by (simp add: repair_def reconcileEvent_def event_kinds)
  have k: "call_known (created_id str e) b \<longleftrightarrow> filter (\<lambda>c. rc_id c = created_id str e) (bz_calls b) \<noteq> []"
    by (auto simp: call_known_def filter_empty_conv)
  show ?thesis
  proof (cases "filter (\<lambda>c. rc_id c = created_id str e) (bz_calls b)")
    case Nil
    then show ?thesis using that k unfolding r
      by (auto simp: reconcileCallCreated_def Let_def created_id_def)
  next
    case (Cons x xs)
    then have "fst (reconcileCallCreated str (\<lambda>_. None) False e b) = b"
      by (simp add: reconcileCallCreated_def Let_def created_id_def)
    moreover have "call_known (created_id str e) b" using k Cons by simp
    ultimately show ?thesis
      using that [of "\<lparr>rc_id = created_id str e, rc_title = [], rc_description = None, rc_creatorAddress = [],
        rc_status = CS_OPEN, rc_totalYesStake = [], rc_totalNoStake = [], rc_resolvedAt = None\<rparr>"] r by simp
  qed
qed

lemma kinds_disjoint:
  "is_creation e \<Longrightarrow> \<not> is_stake e \<and> \<not> is_resolution e \<and> \<not> is_claim e"
  "is_stake e \<Longrightarrow> \<not> is_creation e \<and> \<not> is_resolution e \<and> \<not> is_claim e"
  "is_resolution e \<Longrightarrow> \<not> is_creation e \<and> \<not> is_stake e \<and> \<not> is_claim e"
  "is_claim e \<Longrightarrow> \<not> is_creation e \<and> \<not> is_stake e \<and> \<not> is_resolution e"
  by (auto simp: event_kinds)

lemma repair_stake:
  "is_stake e \<Longrightarrow> repair str numo now e b =
     (if event_call str e = [] \<or> event_user str e = [] \<or>
         (\<exists>k \<in> set (bz_stakes b). rk_callId k = event_call str e \<and> rk_userAddress k = event_user str e) then b
      else b\<lparr>bz_stakes := bz_stakes b @ [\<lparr>rk_callId = event_call str e, rk_userAddress = event_user str e,
        rk_amount = num_of numo (or_if_nullish (data_field (ce_data e) ''amount'') (JNum (Fin 0)))\<rparr>]\<rparr>)"
  by (auto simp: repair_def reconcileEvent_def event_kinds reconcileStakeAdded_def Let_def event_call_def event_user_def
      filter_empty_conv)

lemma repair_resolution:
  "is_resolution e \<Longrightarrow> repair str numo now e b =
     (if event_call str e = [] then b else case find (\<lambda>c. rc_id c = event_call str e) (bz_calls b) of
        None \<Rightarrow> b
      | Some c \<Rightarrow> if rc_status c = event_outcome str e then b
          else b\<lparr>bz_calls := put_call (c\<lparr>rc_status := event_outcome str e, rc_resolvedAt := Some now\<rparr>) (bz_calls b)\<rparr>)"
  by (auto simp: repair_def reconcileEvent_def event_kinds reconcileCallResolved_def Let_def event_call_def event_outcome_def
      split: option.split)

lemma repair_claim:
  assumes "is_claim e"
  obtains c where "repair str numo now e b =
    (if claim_call str e = [] \<or> claim_staker str e = [] then b
     else case find (\<lambda>c. rp_callId c = claim_call str e \<and> rp_stakerAddress c = claim_staker str e) (bz_claims b) of
        None \<Rightarrow> b\<lparr>bz_claims := bz_claims b @ [c]\<rparr>
      | Some x \<Rightarrow> if rp_status x = PC_CLAIMED then b
          else b\<lparr>bz_claims := put_claim (x\<lparr>rp_status := PC_CLAIMED, rp_txHash := Some (ce_txHash e), rp_claimedAt := Some now\<rparr>)
                 (bz_claims b)\<rparr>)"
    "rp_callId c = claim_call str e" "rp_stakerAddress c = claim_staker str e" "rp_status c = PC_CLAIMED"
proof
  let ?c = "\<lparr>rp_callId = claim_call str e, rp_stakerAddress = claim_staker str e,
    rp_amount = str_of str (or_if_nullish (data_field (ce_data e) ''amount'') (JStr ''0'')), rp_txHash = Some (ce_txHash e),
    rp_claimedAt = Some now, rp_status = PC_CLAIMED\<rparr>"
  show "repair str numo now e b =
    (if claim_call str e = [] \<or> claim_staker str e = [] then b
     else case find (\<lambda>c. rp_callId c = claim_call str e \<and> rp_stakerAddress c = claim_staker str e) (bz_claims b) of
        None \<Rightarrow> b\<lparr>bz_claims := bz_claims b @ [?c]\<rparr>
      | Some x \<Rightarrow> if rp_status x = PC_CLAIMED then b
          else b\<lparr>bz_claims := put_claim (x\<lparr>rp_status := PC_CLAIMED, rp_txHash := Some (ce_txHash e), rp_claimedAt := Some now\<rparr>)
                 (bz_claims b)\<rparr>)"
    using assms by (auto simp: repair_def reconcileEvent_def event_kinds reconcilePayoutClaimed_def Let_def claim_call_def
        claim_staker_def split: option.split)
qed simp_all


lemma find_call_known: "call_known i b \<longleftrightarrow> find (\<lambda>c. rc_id c = i) (bz_calls b) \<noteq> None"
  by (auto simp: call_known_def find_None_iff)


lemma stakes_repair: "bz_stakes (repair str numo now f b) =
   (if is_stake f then bz_stakes (repair str numo now f b) else bz_stakes b)"
proof -
  consider "is_creation f" | "is_stake f" | "is_resolution f" | "is_claim f"
    | "\<not> is_creation f" "\<not> is_stake f" "\<not> is_resolution f" "\<not> is_claim f" by blast
  then show ?thesis
  proof cases
    case 1
    show ?thesis by (rule repair_creation [OF 1, of str numo now b]) simp
  next
    case 3
    then show ?thesis by (simp add: repair_resolution split: option.split)
  next
    case 4
    show ?thesis by (rule repair_claim [OF 4, of str numo now b]) (simp split: option.split)
  qed (simp_all add: repair_other)
qed










lemma repair_settles:
  assumes "is_resolution e \<Longrightarrow> event_call str e \<noteq> [] \<Longrightarrow> call_known (event_call str e) b"
  shows "settled str e (repair str numo now e b)"
proof -
  consider "is_creation e" | "is_stake e" | "is_resolution e" | "is_claim e"
    | "\<not> is_creation e" "\<not> is_stake e" "\<not> is_resolution e" "\<not> is_claim e" by blast
  then show ?thesis
  proof cases
    case 1
    obtain c where "repair str numo now e b =
      (if call_known (created_id str e) b then b else b\<lparr>bz_calls := bz_calls b @ [c]\<rparr>)" "rc_id c = created_id str e"
      by (rule repair_creation [OF 1])
    then show ?thesis using kinds_disjoint(1) [OF 1] by (auto simp: settled_def call_known_def)
  next
    case 2
    then show ?thesis using kinds_disjoint(2) [OF 2] by (auto simp: settled_def repair_stake)
  next
    case 3
    show ?thesis
    proof (cases "event_call str e = []")
      case False
      then obtain c where c: "find (\<lambda>c. rc_id c = event_call str e) (bz_calls b) = Some c"
        using assms 3 by (auto simp: find_call_known)
      then have "c \<in> set (bz_calls b)" "rc_id c = event_call str e" using find_Some_set [OF c] by auto
      then show ?thesis using c False 3 kinds_disjoint(3) [OF 3]
        by (auto simp: settled_def repair_resolution find_put_call)
    qed (use 3 kinds_disjoint(3) [OF 3] in \<open>simp add: settled_def\<close>)
  next
    case 4
    show ?thesis
      by (rule repair_claim [OF 4, of str numo now b])
        (use 4 kinds_disjoint(4) [OF 4] in \<open>auto simp: settled_def find_append find_put_claim dest: find_Some_set split: option.split\<close>)
  qed (simp add: settled_def)
qed

lemma settled_stable: "settled str e b \<Longrightarrow> repair str numo now e b = b"
proof -
  assume s: "settled str e b"
  consider "is_creation e" | "is_stake e" | "is_resolution e" | "is_claim e"
    | "\<not> is_creation e" "\<not> is_stake e" "\<not> is_resolution e" "\<not> is_claim e" by blast
  then show ?thesis
  proof cases
    case 1
    show ?thesis by (rule repair_creation [OF 1, of str numo now b]) (use s 1 in \<open>simp add: settled_def\<close>)
  next
    case 4
    show ?thesis by (rule repair_claim [OF 4, of str numo now b]) (use s 4 in \<open>auto simp: settled_def\<close>)
  qed (use s in \<open>auto simp: settled_def repair_stake repair_resolution repair_other\<close>)
qed

text \<open>A list of events.\<close>

definition repair_all :: "(jval \<Rightarrow> string) \<Rightarrow> (jval \<Rightarrow> jsnum) \<Rightarrow> int \<Rightarrow> chain_event list \<Rightarrow> business \<Rightarrow> business" where
  "repair_all str numo now es b = foldl (\<lambda>b e. repair str numo now e b) b es"





subsection \<open>Lemmas on the loop\<close>

text \<open>A comparison that writes nothing.\<close>

definition read_only :: "business \<Rightarrow> comparison \<Rightarrow> bool" where
  "read_only b r \<longleftrightarrow> (\<exists>x. r = (b, Inr x) \<and> (\<forall>f. x = Some f \<longrightarrow> fd_status f \<noteq> REPAIRED))"

lemma read_only_simps [simp]:
  "read_only b (b, Inr None)" "read_only b (b, Inr (Some f)) \<longleftrightarrow> fd_status f \<noteq> REPAIRED"
  by (simp_all add: read_only_def)

lemma dry_created: "read_only b (reconcileCallCreated str refuses True e b)"
  by (simp add: reconcileCallCreated_def Let_def split: list.split)

lemma dry_stake: "read_only b (reconcileStakeAdded str numo refuses True e b)"
  by (simp add: reconcileStakeAdded_def Let_def)

lemma dry_resolved: "read_only b (reconcileCallResolved str refuses now True e b)"
  by (simp add: reconcileCallResolved_def Let_def split: option.split)

lemma dry_claimed: "read_only b (reconcilePayoutClaimed str refuses now True e b)"
  by (simp add: reconcilePayoutClaimed_def Let_def split: option.split)

lemma read_only_if: "(P \<Longrightarrow> read_only b A) \<Longrightarrow> (\<not> P \<Longrightarrow> read_only b B) \<Longrightarrow> read_only b (if P then A else B)"
  by simp

lemma dry_comparison:
  "\<exists>x. reconcileEvent str numo refuses now True e b = (b, Inr x) \<and> (\<forall>f. x = Some f \<longrightarrow> fd_status f \<noteq> REPAIRED)"
proof -
  have "read_only b (reconcileEvent str numo refuses now True e b)"
    unfolding reconcileEvent_def
    by (intro read_only_if dry_created dry_stake dry_resolved dry_claimed) simp
  then show ?thesis by (simp add: read_only_def)
qed

lemma created_ok: "\<exists>x. snd (reconcileCallCreated str (\<lambda>_. None) dry e b) = Inr x"
  by (simp add: reconcileCallCreated_def Let_def split: list.split)

lemma stake_ok: "\<exists>x. snd (reconcileStakeAdded str numo (\<lambda>_. None) dry e b) = Inr x"
  by (simp add: reconcileStakeAdded_def Let_def)

lemma resolved_ok: "\<exists>x. snd (reconcileCallResolved str (\<lambda>_. None) now dry e b) = Inr x"
  by (simp add: reconcileCallResolved_def Let_def split: option.split)

lemma claimed_ok: "\<exists>x. snd (reconcilePayoutClaimed str (\<lambda>_. None) now dry e b) = Inr x"
  by (simp add: reconcilePayoutClaimed_def Let_def split: option.split)

lemma if_ok: "(P \<Longrightarrow> \<exists>x. snd A = Inr x) \<Longrightarrow> (\<not> P \<Longrightarrow> \<exists>x. snd B = Inr x) \<Longrightarrow> \<exists>x. snd (if P then A else B) = Inr x"
  by simp

lemma reconcile_ok: "\<exists>x. snd (reconcileEvent str numo (\<lambda>_. None) now dry e b) = Inr x"
  unfolding reconcileEvent_def
  by (intro if_ok created_ok stake_ok resolved_ok claimed_ok) simp

definition row_of_finding :: "string \<Rightarrow> bool \<Rightarrow> finding \<Rightarrow> discrepancy \<Rightarrow> bool" where
  "row_of_finding runId dry f d \<longleftrightarrow> dc_runId d = runId \<and> dc_discrepancyType d = fd_type f
     \<and> dc_status d = (if dry then DETECTED else fd_status f)"

lemma scan_event_grow:
  assumes "scan_event str numo refuses now runId cs dry e s = (s', r)"
  shows "\<exists>fs rows. rn_findings s' = rn_findings s @ fs \<and> rn_discrepancies s' = rn_discrepancies s @ rows
     \<and> list_all2 (row_of_finding runId dry) fs rows"
proof -
  let ?R = "if cs \<noteq> [] \<and> ce_contractId e \<notin> set cs then (rn_business s, Inr (Some (unknown_contract e)))
            else reconcileEvent str numo refuses now dry e (rn_business s)"
  obtain b q where bq: "?R = (b, q)" by fastforce
  have nil: "\<exists>fs rows. rn_findings s' = rn_findings s @ fs \<and> rn_discrepancies s' = rn_discrepancies s @ rows
     \<and> list_all2 (row_of_finding runId dry) fs rows" if "rn_findings s' = rn_findings s" "rn_discrepancies s' = rn_discrepancies s"
    using that by (intro exI [of _ "[]"]) simp
  show ?thesis
  proof (cases q)
    case (Inl err)
    then show ?thesis using assms bq by (intro nil) (auto simp: scan_event_def Let_def)
  next
    case (Inr o')
    show ?thesis
    proof (cases o')
      case None
      then show ?thesis using assms bq Inr by (intro nil) (auto simp: scan_event_def Let_def)
    next
      case (Some f)
      let ?row = "discrepancy_row runId e dry f"
      show ?thesis
      proof (cases "refuses (SaveDiscrepancy ?row)")
        case None
        then have "rn_findings s' = rn_findings s @ [f]" "rn_discrepancies s' = rn_discrepancies s @ [?row]"
          using assms bq Inr Some by (auto simp: scan_event_def Let_def)
        moreover have "row_of_finding runId dry f ?row" by (simp add: row_of_finding_def discrepancy_row_def)
        ultimately show ?thesis by (intro exI [of _ "[f]"] exI [of _ "[?row]"]) simp
      next
        case (Some e')
        then show ?thesis using assms bq Inr \<open>o' = Some f\<close> by (intro nil) (auto simp: scan_event_def Let_def)
      qed
    qed
  qed
qed

lemma scan_events_grow:
  "scan_events str numo refuses now runId cs dry es s = (s', r) \<Longrightarrow>
     \<exists>fs rows. rn_findings s' = rn_findings s @ fs \<and> rn_discrepancies s' = rn_discrepancies s @ rows
       \<and> list_all2 (row_of_finding runId dry) fs rows"
proof (induction es arbitrary: s)
  case Nil
  then show ?case by (intro exI [of _ "[]"]) simp
next
  case (Cons e es)
  obtain s1 r1 where s1: "scan_event str numo refuses now runId cs dry e s = (s1, r1)" by fastforce
  obtain fs rows where g: "rn_findings s1 = rn_findings s @ fs" "rn_discrepancies s1 = rn_discrepancies s @ rows"
    "list_all2 (row_of_finding runId dry) fs rows" using scan_event_grow [OF s1] by blast
  show ?case
  proof (cases r1)
    case None
    then have "scan_events str numo refuses now runId cs dry es s1 = (s', r)" using Cons.prems s1 by simp
    from Cons.IH [OF this] obtain fs' rows' where "rn_findings s' = rn_findings s1 @ fs'"
      "rn_discrepancies s' = rn_discrepancies s1 @ rows'" "list_all2 (row_of_finding runId dry) fs' rows'" by blast
    then show ?thesis using g
      by (intro exI [of _ "fs @ fs'"] exI [of _ "rows @ rows'"]) (simp add: list_all2_appendI)
  next
    case (Some e')
    then show ?thesis using Cons.prems s1 g by auto
  qed
qed

text \<open>Dry: nothing is written but the rows of the run.\<close>

lemma scan_event_dry:
  assumes "scan_event str numo refuses now runId cs True e s = (s', r)" "\<forall>f \<in> set (rn_findings s). fd_status f \<noteq> REPAIRED"
  shows "rn_business s' = rn_business s \<and> (\<forall>f \<in> set (rn_findings s'). fd_status f \<noteq> REPAIRED)"
proof -
  obtain x where x: "reconcileEvent str numo refuses now True e (rn_business s) = (rn_business s, Inr x)"
    "\<forall>f. x = Some f \<longrightarrow> fd_status f \<noteq> REPAIRED" using dry_comparison by blast
  show ?thesis using assms x
    by (auto simp: scan_event_def Let_def unknown_contract_def split: if_splits option.splits)
qed

lemma scan_events_dry:
  "scan_events str numo refuses now runId cs True es s = (s', r) \<Longrightarrow> \<forall>f \<in> set (rn_findings s). fd_status f \<noteq> REPAIRED \<Longrightarrow>
     rn_business s' = rn_business s \<and> (\<forall>f \<in> set (rn_findings s'). fd_status f \<noteq> REPAIRED)"
proof (induction es arbitrary: s)
  case (Cons e es)
  obtain s1 r1 where s1: "scan_event str numo refuses now runId cs True e s = (s1, r1)" by fastforce
  note d = scan_event_dry [OF s1 Cons.prems(2)]
  show ?case using Cons.IH [of s1] Cons.prems(1) s1 d by (auto split: option.splits)
qed simp

text \<open>Repairing, when the database takes every row.\<close>

lemma scan_event_repair:
  assumes "ce_contractId e \<in> set cs"
  shows "\<exists>s'. scan_event str numo (\<lambda>_. None) now runId cs False e s = (s', None) \<and>
    rn_business s' = repair str numo now e (rn_business s)"
proof -
  obtain x where "snd (reconcileEvent str numo (\<lambda>_. None) now False e (rn_business s)) = Inr x"
    using reconcile_ok by blast
  then have "reconcileEvent str numo (\<lambda>_. None) now False e (rn_business s) = (repair str numo now e (rn_business s), Inr x)"
    by (simp add: repair_def prod_eq_iff)
  then show ?thesis using assms by (cases x) (simp_all add: scan_event_def Let_def)
qed

lemma scan_events_repair:
  "\<forall>e \<in> set es. ce_contractId e \<in> set cs \<Longrightarrow>
     \<exists>s'. scan_events str numo (\<lambda>_. None) now runId cs False es s = (s', None) \<and>
       rn_business s' = repair_all str numo now es (rn_business s)"
proof (induction es arbitrary: s)
  case (Cons e es)
  obtain s1 where s1: "scan_event str numo (\<lambda>_. None) now runId cs False e s = (s1, None)"
    "rn_business s1 = repair str numo now e (rn_business s)"
    using scan_event_repair [of e cs str numo now runId s] Cons.prems by auto
  then show ?case using Cons.IH [of s1] Cons.prems by (simp add: repair_all_def)
qed (simp add: repair_all_def)

lemma from_rpc_contract: "e \<in> set (from_rpc i lo hi evs) \<Longrightarrow> ce_contractId e = i"
  by (induction i lo hi evs rule: from_rpc.induct) (auto split: if_splits first_topic.splits)

lemma from_log_contract:
  "e \<in> set (map from_log (List.enumerate n rows)) \<Longrightarrow> \<exists>l \<in> set rows. ce_contractId e = se_contractId l"
  by (auto simp: from_log_def enumerate_eq_zip dest: set_zip_rightD)

lemma fetched_known:
  assumes "e \<in> set (fetchEventsForRange eventLog rpc cs lo hi)"
  shows "ce_contractId e \<in> set cs"
proof -
  obtain i where i: "i \<in> set cs" and e: "e \<in> set (case eventLog i of
         None \<Rightarrow> []
       | Some rows \<Rightarrow>
           (let filtered = sort_key (\<lambda>l. se_ledger l) (sort_key (\<lambda>l. se_txOrder l)
                  (filter (\<lambda>l. se_contractId l = i \<and> lo \<le> se_ledger l \<and> se_ledger l \<le> hi) rows))
            in if filtered \<noteq> [] then map from_log (List.enumerate 0 filtered)
               else (case rpc i of
                   RpcEvents evs \<Rightarrow> from_rpc i lo hi (List.enumerate 0 evs)
                 | _ \<Rightarrow> [])))"
    using assms by (auto simp: fetchEventsForRange_def)
  have "ce_contractId e = i"
  proof (cases "eventLog i")
    case (Some rows)
    then show ?thesis using e
      by (auto simp only: option.case Let_def split: if_splits rpc_reply.splits dest!: from_log_contract from_rpc_contract) auto
  qed (use e in simp)
  then show ?thesis using i by simp
qed


lemma breakdown_total:
  "breakdown fs MISSING_OFFCHAIN + breakdown fs DUPLICATE_OFFCHAIN + breakdown fs VALUE_MISMATCH
     + breakdown fs UNKNOWN_CONTRACT + breakdown fs UNRECOVERABLE = length fs"
proof (induction fs)
  case (Cons f fs)
  then show ?case by (cases "fd_type f") (simp_all add: breakdown_def)
qed (simp add: breakdown_def)

lemma rows_counts:
  assumes "list_all2 (row_of_finding runId dry) fs rows"
  shows "length rows = length fs" "breakdown fs ty = length (filter (\<lambda>d. dc_discrepancyType d = ty) rows)"
    "\<not> dry \<Longrightarrow> count_status st fs = length (filter (\<lambda>d. dc_status d = st) rows)" "\<forall>d \<in> set rows. dc_runId d = runId"
    "dry \<Longrightarrow> \<forall>d \<in> set rows. dc_status d = DETECTED"
  using assms by (induction rule: list_all2_induct) (auto simp: breakdown_def count_status_def row_of_finding_def)

lemma execute_rows:
  assumes "row_get (rs_runs s) runId = Some run" "executeRun str numo refuses eventLog rpc t0 t1 runId s = (s', Inr r)"
  obtains fs rows where "rs_discrepancies s' = rs_discrepancies s @ rows" "list_all2 (row_of_finding runId (rr_isDryRun run)) fs rows"
    "rr_status r = RUN_COMPLETED \<longrightarrow> rr_discrepancyCount r = length fs \<and> rr_repairedCount r = count_status REPAIRED fs
       \<and> rr_quarantinedCount r = count_status QUARANTINED fs \<and> rr_breakdown r = Some (breakdown fs)"
    "rr_status r = RUN_FAILED \<longrightarrow> rr_repairedCount r = rr_repairedCount run"
    "rr_isDryRun run \<longrightarrow> rs_business s' = rs_business s \<and> (\<forall>f \<in> set fs. fd_status f \<noteq> REPAIRED)"
proof -
  let ?es = "fetchEventsForRange eventLog rpc (rr_contractIds run) (rr_fromLedger run) (rr_toLedger run)"
  let ?s0 = "\<lparr>rn_business = rs_business s, rn_discrepancies = rs_discrepancies s, rn_findings = []\<rparr>"
  obtain n err where n: "scan_events str numo refuses t1 runId (rr_contractIds run) (rr_isDryRun run) ?es ?s0 = (n, err)"
    by fastforce
  obtain fs rows where g: "rn_findings n = rn_findings ?s0 @ fs" "rn_discrepancies n = rn_discrepancies ?s0 @ rows"
    "list_all2 (row_of_finding runId (rr_isDryRun run)) fs rows" using scan_events_grow [OF n] by blast
  have d: "rr_isDryRun run \<Longrightarrow> rn_business n = rs_business s \<and> (\<forall>f \<in> set fs. fd_status f \<noteq> REPAIRED)"
    using scan_events_dry [of str numo refuses t1 runId "rr_contractIds run" ?es ?s0 n err] n g by simp
  have x: "executeRun str numo refuses eventLog rpc t0 t1 runId s = (s', Inr r)" by (rule assms(2))
  show ?thesis
    by (rule that [of rows fs]) (use x n g d assms(1) in \<open>auto simp: executeRun_def run_scan_def Let_def split: option.splits\<close>)
qed

lemma run_ends:
  assumes "row_get (rs_runs s) runId = Some run"
  shows "\<exists>s' r. executeRun str numo refuses eventLog rpc t0 t1 runId s = (s', Inr r)
    \<and> getRunById runId s' = Inr r \<and> rr_status r \<in> {RUN_COMPLETED, RUN_FAILED}
    \<and> rs_locks s' (rr_network run) = None
    \<and> ((\<forall>w. refuses w = None) \<and> \<not> rr_isDryRun run \<longrightarrow> rr_status r = RUN_COMPLETED)"
proof -
  let ?run = "run\<lparr>rr_status := RUN_RUNNING\<rparr>"
  let ?es = "fetchEventsForRange eventLog rpc (rr_contractIds run) (rr_fromLedger run) (rr_toLedger run)"
  obtain n err where n: "run_scan str numo refuses t1 runId ?run ?es s = (n, err)" by fastforce
  have ok: "(\<forall>w. refuses w = None) \<and> \<not> rr_isDryRun run \<longrightarrow> err = None"
  proof (intro impI, elim conjE)
    assume that: "\<forall>w. refuses w = None" "\<not> rr_isDryRun run"
    have r: "refuses = (\<lambda>_. None)" using that(1) by auto
    have "\<forall>e \<in> set ?es. ce_contractId e \<in> set (rr_contractIds run)" using fetched_known by blast
    from scan_events_repair [OF this, of str numo t1 runId "\<lparr>rn_business = rs_business s, rn_discrepancies = rs_discrepancies s, rn_findings = []\<rparr>"]
    show "err = None" using n that(2) by (auto simp: run_scan_def r)
  qed
  show ?thesis
    by (cases err)
      (use n ok assms in \<open>auto simp: executeRun_def Let_def getRunById_def\<close>)
qed

lemma one_row_per_staker:
  "length (filter (\<lambda>k. rk_callId k = i \<and> rk_userAddress k = a) (bz_stakes b)) \<le> 1 \<Longrightarrow>
   length (filter (\<lambda>k. rk_callId k = i \<and> rk_userAddress k = a) (bz_stakes (repair str numo now e b))) \<le> 1"
proof (cases "is_stake e")
  case False
  then show "length (filter (\<lambda>k. rk_callId k = i \<and> rk_userAddress k = a) (bz_stakes b)) \<le> 1 \<Longrightarrow> ?thesis"
    using stakes_repair [of str numo now e b] by simp
next
  case True
  assume l: "length (filter (\<lambda>k. rk_callId k = i \<and> rk_userAddress k = a) (bz_stakes b)) \<le> 1"
  show ?thesis
  proof (cases "event_call str e = i \<and> event_user str e = a \<and> (\<forall>k \<in> set (bz_stakes b). rk_callId k \<noteq> i \<or> rk_userAddress k \<noteq> a)")
    case True
    then have "filter (\<lambda>k. rk_callId k = i \<and> rk_userAddress k = a) (bz_stakes b) = []" by (auto simp: filter_empty_conv)
    then show ?thesis using \<open>is_stake e\<close> by (simp add: repair_stake)
  next
    case False
    then show ?thesis using l \<open>is_stake e\<close> by (auto simp: repair_stake)
  qed
qed

lemma rpc_fields:
  assumes "e \<in> set (from_rpc i lo hi evs)" "k \<noteq> ''raw''"
  shows "data_field (ce_data e) k = JUndef"
  using assms by (induction i lo hi evs rule: from_rpc.induct)
    (auto simp: data_field_def jget_def split: if_splits first_topic.splits)

subsection \<open>Properties\<close>


text \<open>Samples: a database with one resolved call, a run over one contract, and logged events of that call.\<close>

definition sample_market :: recon_call where
  "sample_market = \<lparr>rc_id = ''m'', rc_title = ''t'', rc_description = None, rc_creatorAddress = ''G'', rc_status = CS_RESOLVED_YES,
     rc_totalYesStake = ''0'', rc_totalNoStake = ''0'', rc_resolvedAt = Some 1\<rparr>"

definition sample_run :: "bool \<Rightarrow> recon_run" where
  "sample_run dry = \<lparr>rr_network = ''testnet'', rr_contractIds = [''C''], rr_fromLedger = 1, rr_toLedger = 9, rr_isDryRun = dry,
     rr_status = RUN_PENDING, rr_scannedEventsCount = 0, rr_discrepancyCount = 0, rr_repairedCount = 0,
     rr_quarantinedCount = 0, rr_breakdown = None, rr_durationMs = None, rr_failureReason = None\<rparr>"

definition sample_recon :: "bool \<Rightarrow> recon_sys" where
  "sample_recon dry = \<lparr>rs_business = \<lparr>bz_calls = [sample_market], bz_stakes = [], bz_claims = []\<rparr>,
     rs_runs = [(''r1'', sample_run dry), (''r2'', sample_run dry)], rs_discrepancies = [], rs_locks = [''testnet'' \<mapsto> 900000],
     rs_queue = [''r1'']\<rparr>"

definition logged :: "string \<Rightarrow> (string \<times> jval) list \<Rightarrow> stored_event" where
  "logged ty ps = \<lparr>se_contractId = ''C'', se_ledger = 5, se_txOrder = 0, se_txHash = ''h'', se_eventType = ty, se_eventData = JObj ps\<rparr>"

definition sample_log :: "string \<Rightarrow> stored_event list option" where
  "sample_log c = Some [logged ''call_created'' [(''callId'', JStr ''n'')],
     logged ''stake_added'' [(''callId'', JStr ''m''), (''staker'', JStr ''S''), (''amount'', JNum (Fin 5))]]"

definition no_text :: "jval \<Rightarrow> string" where "no_text v = ''?''"

lemma sample_rows:
  "row_get (rs_runs (sample_recon dry)) ''r1'' = Some (sample_run dry)"
  "row_get (rs_runs (sample_recon dry)) ''r2'' = Some (sample_run dry)"
  by (simp_all add: sample_recon_def row_get_def)


text \<open>A dry run writes no call, stake or claim whatever the events are; it only adds rows of its own, all of
  them with status DETECTED, and it never counts a repair.\<close>

theorem dry_run_harmless:
  assumes "row_get (rs_runs s) runId = Some run" "rr_isDryRun run" "rr_repairedCount run = 0"
  shows "\<exists>s' r rows. executeRun str numo refuses eventLog rpc t0 t1 runId s = (s', Inr r)
    \<and> rs_business s' = rs_business s \<and> rs_discrepancies s' = rs_discrepancies s @ rows
    \<and> (\<forall>d \<in> set rows. dc_runId d = runId \<and> dc_status d = DETECTED) \<and> rr_repairedCount r = 0"
proof -
  obtain s' r where x: "executeRun str numo refuses eventLog rpc t0 t1 runId s = (s', Inr r)"
    "rr_status r \<in> {RUN_COMPLETED, RUN_FAILED}" using run_ends [OF assms(1)] by blast
  obtain fs rows where e: "rs_discrepancies s' = rs_discrepancies s @ rows" "list_all2 (row_of_finding runId (rr_isDryRun run)) fs rows"
    "rr_status r = RUN_COMPLETED \<longrightarrow> rr_discrepancyCount r = length fs \<and> rr_repairedCount r = count_status REPAIRED fs
       \<and> rr_quarantinedCount r = count_status QUARANTINED fs \<and> rr_breakdown r = Some (breakdown fs)"
    "rr_status r = RUN_FAILED \<longrightarrow> rr_repairedCount r = rr_repairedCount run"
    "rr_isDryRun run \<longrightarrow> rs_business s' = rs_business s \<and> (\<forall>f \<in> set fs. fd_status f \<noteq> REPAIRED)"
    using execute_rows [OF assms(1) x(1)] by blast
  have "count_status REPAIRED fs = 0" using e(5) assms(2) by (simp add: count_status_def filter_empty_conv)
  then have "rr_repairedCount r = 0" using e(3,4) x(2) assms(3) by auto
  then show ?thesis using x e(1,5) rows_counts(4,5) [OF e(2)] assms(2) by blast
qed

theorem dry_run_harmless_witness:
  "rs_business (fst (executeRun no_text (\<lambda>_. NaN) (\<lambda>_. None) sample_log (\<lambda>_. RpcThrew) 3 4 ''r1'' (sample_recon True)))
     = rs_business (sample_recon True)"
  using dry_run_harmless [OF sample_rows(1), of True no_text "\<lambda>_. NaN" "\<lambda>_. None" sample_log "\<lambda>_. RpcThrew" 3 4]
  by (auto simp: sample_run_def)

text \<open>A completed run accounts for its rows: the discrepancies it counts are the rows it added, the breakdown
  counts them by type and adds up to the total, and in repair mode the repaired and the quarantined counts are those
  of the rows with that status.\<close>

theorem run_accounts:
  assumes "row_get (rs_runs s) runId = Some run"
    "executeRun str numo refuses eventLog rpc t0 t1 runId s = (s', Inr r)" "rr_status r = RUN_COMPLETED"
  shows "\<exists>rows per_type. rs_discrepancies s' = rs_discrepancies s @ rows \<and> (\<forall>d \<in> set rows. dc_runId d = runId)
    \<and> rr_discrepancyCount r = length rows \<and> rr_breakdown r = Some per_type
    \<and> (\<forall>ty. per_type ty = length (filter (\<lambda>d. dc_discrepancyType d = ty) rows))
    \<and> per_type MISSING_OFFCHAIN + per_type DUPLICATE_OFFCHAIN + per_type VALUE_MISMATCH + per_type UNKNOWN_CONTRACT
        + per_type UNRECOVERABLE = rr_discrepancyCount r
    \<and> (\<not> rr_isDryRun run \<longrightarrow> rr_repairedCount r = length (filter (\<lambda>d. dc_status d = REPAIRED) rows)
        \<and> rr_quarantinedCount r = length (filter (\<lambda>d. dc_status d = QUARANTINED) rows))"
proof -
  obtain fs rows where e: "rs_discrepancies s' = rs_discrepancies s @ rows" "list_all2 (row_of_finding runId (rr_isDryRun run)) fs rows"
    "rr_status r = RUN_COMPLETED \<longrightarrow> rr_discrepancyCount r = length fs \<and> rr_repairedCount r = count_status REPAIRED fs
       \<and> rr_quarantinedCount r = count_status QUARANTINED fs \<and> rr_breakdown r = Some (breakdown fs)"
    using execute_rows [OF assms(1,2)] by blast
  note c = rows_counts [OF e(2)]
  show ?thesis
    by (intro exI [of _ rows] exI [of _ "breakdown fs"])
      (use e(1,3) assms(3) c breakdown_total [of fs] in simp)
qed

theorem run_accounts_witness:
  "\<exists>s' r. executeRun no_text (\<lambda>_. NaN) (\<lambda>_. None) sample_log (\<lambda>_. RpcThrew) 3 4 ''r1'' (sample_recon False) = (s', Inr r)
     \<and> rr_discrepancyCount r = length (rs_discrepancies s')"
proof -
  obtain s' r where x: "executeRun no_text (\<lambda>_. NaN) (\<lambda>_. None) sample_log (\<lambda>_. RpcThrew) 3 4 ''r1'' (sample_recon False) = (s', Inr r)"
    "rr_status r = RUN_COMPLETED"
    using run_ends [OF sample_rows(1), of no_text "\<lambda>_. NaN" "\<lambda>_. None" sample_log "\<lambda>_. RpcThrew" 3 4 False]
    by (auto simp: sample_run_def)
  have "rs_discrepancies (sample_recon False) = []" by (simp add: sample_recon_def)
  then show ?thesis using x run_accounts [OF sample_rows(1) x] by auto
qed



text \<open>The event \<open>call_settled\<close> carries no outcome, and repairing it sets its call to RESOLVED_NO whatever the
  call was, a call resolved to YES included.\<close>

theorem settled_event_resolves_no:
  assumes "ce_eventName e = ''call_settled''" "event_call str e \<noteq> []" "call_known (event_call str e) b"
    "data_field (ce_data e) ''outcome'' = JUndef" "data_field (ce_data e) ''result'' = JUndef"
  shows "\<exists>c. find (\<lambda>c. rc_id c = event_call str e) (bz_calls (repair str numo now e b)) = Some c \<and> rc_status c = CS_RESOLVED_NO"
proof -
  have r: "is_resolution e" using assms(1) by (simp add: is_resolution_def)
  have "event_outcome str e = CS_RESOLVED_NO"
    using assms(4,5) by (simp add: event_outcome_def text_field_def or_if_nullish_def str_of_def expectedStatus_def to_upper_def)
  moreover have "settled str e (repair str numo now e b)" by (rule repair_settles) (rule assms(3))
  ultimately show ?thesis using r assms(2) by (auto simp: settled_def)
qed

definition settled_sample :: chain_event where
  "settled_sample = \<lparr>ce_contractId = ''C'', ce_ledger = 5, ce_txHash = ''h'', ce_eventIndex = 0, ce_stableIdentity = ''i'',
     ce_eventName = ''call_settled'', ce_data = JObj [(''callId'', JStr ''m''), (''winnerCount'', JNum (Fin 3))]\<rparr>"

theorem settled_event_resolves_no_witness:
  "rc_status sample_market = CS_RESOLVED_YES \<and>
   (\<exists>c. find (\<lambda>c. rc_id c = ''m'') (bz_calls (repair no_text (\<lambda>_. NaN) 9 settled_sample \<lparr>bz_calls = [sample_market], bz_stakes = [], bz_claims = []\<rparr>))
     = Some c \<and> rc_status c = CS_RESOLVED_NO)"
proof -
  have m: "event_call no_text settled_sample = ''m''"
    by (simp add: event_call_def text_field_def settled_sample_def data_field_def jget_def or_if_nullish_def str_of_def)
  have k: "call_known (event_call no_text settled_sample) \<lparr>bz_calls = [sample_market], bz_stakes = [], bz_claims = []\<rparr>"
    by (simp add: m call_known_def sample_market_def)
  have "ce_eventName settled_sample = ''call_settled''" "event_call no_text settled_sample \<noteq> []"
    "data_field (ce_data settled_sample) ''outcome'' = JUndef" "data_field (ce_data settled_sample) ''result'' = JUndef"
    unfolding m by (simp_all add: settled_sample_def data_field_def jget_def)
  from settled_event_resolves_no [OF this(1,2) k this(3,4)] show ?thesis unfolding m by (simp add: sample_market_def)
qed

text \<open>A repair run keeps at most one stake row per call and user: a second stake of the same user on the same
  call is never detected, whatever its amount.\<close>

theorem second_stake_undetected:
  assumes "\<forall>k \<in> set (bz_stakes b). rk_callId k \<noteq> i \<or> rk_userAddress k \<noteq> a"
  shows "length (filter (\<lambda>k. rk_callId k = i \<and> rk_userAddress k = a) (bz_stakes (repair_all str numo now es b))) \<le> 1"
proof -
  have "length (filter (\<lambda>k. rk_callId k = i \<and> rk_userAddress k = a) (bz_stakes b)) \<le> 1"
    using assms by (simp add: filter_False)
  then show ?thesis
    by (induction es arbitrary: b) (auto simp: repair_all_def intro: one_row_per_staker simp del: One_nat_def)
qed

definition stake_event :: "nat \<Rightarrow> chain_event" where
  "stake_event n = \<lparr>ce_contractId = ''C'', ce_ledger = 5, ce_txHash = ''h'', ce_eventIndex = n, ce_stableIdentity = ''i'',
     ce_eventName = ''stake_added'', ce_data = JObj [(''callId'', JStr ''m''), (''staker'', JStr ''S''), (''amount'', JNum (Fin (of_nat n)))]\<rparr>"

theorem second_stake_undetected_witness:
  "length (filter (\<lambda>k. rk_callId k = ''m'' \<and> rk_userAddress k = ''S'')
     (bz_stakes (repair_all no_text (\<lambda>_. NaN) 9 [stake_event 5, stake_event 7] \<lparr>bz_calls = [], bz_stakes = [], bz_claims = []\<rparr>))) \<le> 1"
  by (rule second_stake_undetected) simp

text \<open>Once a run has been started no other start of its network succeeds for 15 minutes unless a run ends; but
  the lock is read and written in two steps, and two starts whose reads both come first both create a run.\<close>

theorem start_lock:
  assumes "start_check d1 t1 s = None"
    "nullish (sd_network d2) ''testnet'' = nullish (sd_network d1) ''testnet''" "sd_fromLedger d2 \<le> sd_toLedger d2"
  shows "(t2 < t1 + 900000 \<longrightarrow> (\<exists>why. startRun defaultId d2 t2 id2 (fst (startRun defaultId d1 t1 id1 s))
      = (fst (startRun defaultId d1 t1 id1 s), Inl (ReconConflict why))))
    \<and> (start_check d2 t2 s = None \<longrightarrow>
      rs_queue (fst (start_go defaultId d2 t2 id2 (fst (start_go defaultId d1 t1 id1 s)))) = rs_queue s @ [id1, id2])"
  using assms by (simp add: startRun_def start_go_def start_check_def lock_live_def Let_def)

definition sample_dto :: start_dto where
  "sample_dto = \<lparr>sd_network = None, sd_contractIds = None, sd_fromLedger = 1, sd_toLedger = 9, sd_isDryRun = None\<rparr>"

theorem start_lock_witness:
  "rs_queue (fst (start_go ''C'' sample_dto 1000001 ''r4'' (fst (start_go ''C'' sample_dto 1000000 ''r3'' (sample_recon True)))))
     = [''r1'', ''r3'', ''r4'']"
  using start_lock [of sample_dto 1000000 "sample_recon True" sample_dto 1000001 "''C''" "''r4''" "''r3''"]
  by (simp add: start_check_def sample_dto_def lock_live_def sample_recon_def)

text \<open>An event taken from the RPC carries none of the fields the comparisons read: its stakes, resolutions and
  claims are never repaired, and a creation inserts a call whose id is the transaction's hash and whose creator is SYSTEM.\<close>

theorem rpc_events_have_no_fields:
  assumes "e \<in> set (from_rpc contractId fromLedger toLedger evs)"
  shows "(is_stake e \<or> is_resolution e \<or> is_claim e \<longrightarrow> repair str numo now e b = b)
    \<and> (is_creation e \<and> \<not> call_known (ce_txHash e) b \<longrightarrow>
        (\<exists>c. repair str numo now e b = b\<lparr>bz_calls := bz_calls b @ [c]\<rparr> \<and> rc_id c = ce_txHash e \<and> rc_creatorAddress c = ''SYSTEM''))"
proof -
  note f = rpc_fields [OF assms]
  have t: "text_field str (ce_data e) k j = []" if "k \<noteq> ''raw''" "j \<noteq> ''raw''" for k j
    using f that by (simp add: text_field_def or_if_nullish_def str_of_def)
  have "event_call str e = []" "claim_staker str e = []" by (simp_all add: event_call_def claim_staker_def t)
  then have "\<not> is_creation e \<Longrightarrow> settled str e b" by (simp add: settled_def)
  then have a: "is_stake e \<or> is_resolution e \<or> is_claim e \<longrightarrow> repair str numo now e b = b"
    using settled_stable [of str e b numo now] kinds_disjoint [of e] by blast
  have i: "created_id str e = ce_txHash e" by (simp add: created_id_def f or_if_nullish_def str_of_def)
  have "\<exists>c. repair str numo now e b = b\<lparr>bz_calls := bz_calls b @ [c]\<rparr> \<and> rc_id c = ce_txHash e \<and> rc_creatorAddress c = ''SYSTEM''"
    if "is_creation e" "\<not> call_known (ce_txHash e) b"
  proof -
    have none: "filter (\<lambda>c. rc_id c = ce_txHash e) (bz_calls b) = []"
      using that(2) by (auto simp: call_known_def filter_empty_conv)
    have "repair str numo now e b = fst (reconcileCallCreated str (\<lambda>_. None) False e b)"
      using that(1) by (simp add: repair_def reconcileEvent_def is_creation_def)
    then show ?thesis by (simp add: reconcileCallCreated_def Let_def f or_if_nullish_def str_of_def none)
        (rule exI, rule conjI, rule refl, simp)
  qed
  then show ?thesis using a by blast
qed

theorem rpc_events_have_no_fields_witness:
  "repair no_text (\<lambda>_. NaN) 9 (hd (from_rpc ''C'' 1 9 [(0, \<lparr>re_ledger = 5, re_txHash = ''h'', re_topic = TopicSymbol ''BetPlaced'', re_value = JNull\<rparr>)]))
     \<lparr>bz_calls = [], bz_stakes = [], bz_claims = []\<rparr> = \<lparr>bz_calls = [], bz_stakes = [], bz_claims = []\<rparr>"
  using rpc_events_have_no_fields [of "hd (from_rpc ''C'' 1 9 [(0, \<lparr>re_ledger = 5, re_txHash = ''h'', re_topic = TopicSymbol ''BetPlaced'', re_value = JNull\<rparr>)])"
      "''C''" 1 9 "[(0, \<lparr>re_ledger = 5, re_txHash = ''h'', re_topic = TopicSymbol ''BetPlaced'', re_value = JNull\<rparr>)]" no_text "\<lambda>_. NaN" 9
      "\<lparr>bz_calls = [], bz_stakes = [], bz_claims = []\<rparr>"]
  by (simp add: is_stake_def)

end
