(* ===== verification/Settlement.thy ===== *)
theory Settlement
  imports JsArith Store ScVal "HOL-Library.Multiset"
begin

text \<open>
  What the backend keeps of a settled market: the payout claims
  (\<^verbatim>\<open>payouts/payouts.service.ts\<close>), the fees (\<^verbatim>\<open>treasury/treasury.service.ts\<close>), the platform settings
  with their cache (\<^verbatim>\<open>config/config.service.ts\<close>) and the indexer's tick that feeds all three from the
  contract's events (\<^verbatim>\<open>indexer/indexer.service.ts\<close>, \<^verbatim>\<open>indexer/parsers/admin-params.parser.ts\<close>). The
  contract RPC, the clock and the SDK's decoding of a map are arguments; \<open>p\<close> prints a number of
  10^21 or more; writes to the database succeed.
\<close>

subsection \<open>Payout claims\<close>

datatype payout_status = PayoutPending | PayoutClaimed | PayoutFailed

record payout_claim =
  py_callId :: string
  py_stakerAddress :: string
  py_amount :: string
  py_txHash :: "string option"
  py_claimedAt :: "int option"
  py_status :: payout_status
  py_createdAt :: int

definition same_claim :: "string \<Rightarrow> string \<Rightarrow> payout_claim \<Rightarrow> bool" where
  "same_claim callId staker c \<longleftrightarrow> py_callId c = callId \<and> py_stakerAddress c = staker"

definition find_claim :: "string \<Rightarrow> string \<Rightarrow> payout_claim list \<Rightarrow> payout_claim option" where
  "find_claim callId staker cs = find (same_claim callId staker) cs"

text \<open>Saving a claim: its row is replaced, or it is a new row.\<close>

definition save_claim :: "payout_claim \<Rightarrow> payout_claim list \<Rightarrow> payout_claim list" where
  "save_claim c cs =
     (if find_claim (py_callId c) (py_stakerAddress c) cs = None then cs @ [c]
      else map (\<lambda>x. if same_claim (py_callId c) (py_stakerAddress c) x then c else x) cs)"

definition new_claim :: "int \<Rightarrow> string \<Rightarrow> string \<Rightarrow> string \<Rightarrow> payout_claim" where
  "new_claim now callId staker amount =
     \<lparr>py_callId = callId, py_stakerAddress = staker, py_amount = amount, py_txHash = None, py_claimedAt = None,
      py_status = PayoutPending, py_createdAt = now\<rparr>"

definition upsertPendingClaim :: "int \<Rightarrow> string \<Rightarrow> string \<Rightarrow> string \<Rightarrow> payout_claim list \<Rightarrow> payout_claim list" where
  "upsertPendingClaim now callId staker amount cs = (case find_claim callId staker cs of
      Some c \<Rightarrow> save_claim (c\<lparr>py_amount := amount, py_status := PayoutPending\<rparr>) cs
    | None \<Rightarrow> save_claim (new_claim now callId staker amount) cs)"

record claimed_event =
  cv_userAddress :: string
  cv_callId :: string
  cv_amount :: jsnum
  cv_txHash :: string

definition markClaimed :: "int \<Rightarrow> string \<Rightarrow> string \<Rightarrow> string \<Rightarrow> payout_claim list \<Rightarrow> payout_claim list \<times> claimed_event" where
  "markClaimed now callId staker txHash cs =
     (let claim = (case find_claim callId staker cs of Some c \<Rightarrow> c | None \<Rightarrow> new_claim now callId staker ''0'');
          saved = claim\<lparr>py_txHash := Some txHash, py_claimedAt := Some now, py_status := PayoutClaimed\<rparr>
      in (save_claim saved cs,
          \<lparr>cv_userAddress = py_stakerAddress saved, cv_callId = py_callId saved, cv_amount = js_number (py_amount saved),
           cv_txHash = txHash\<rparr>))"

definition markFailed :: "int \<Rightarrow> string \<Rightarrow> string \<Rightarrow> payout_claim list \<Rightarrow> payout_claim list" where
  "markFailed now callId staker cs =
     (let claim = (case find_claim callId staker cs of Some c \<Rightarrow> c | None \<Rightarrow> new_claim now callId staker ''0'')
      in save_claim (claim\<lparr>py_status := PayoutFailed\<rparr>) cs)"

definition listUserPayouts :: "string \<Rightarrow> payout_claim list \<Rightarrow> payout_claim list" where
  "listUserPayouts staker cs = rev (sort_key py_createdAt (filter (\<lambda>c. py_stakerAddress c = staker) cs))"

definition SEVEN_DAYS :: int where "SEVEN_DAYS = 604800000"

definition listCallPayouts :: "int \<Rightarrow> string \<Rightarrow> payout_claim list \<Rightarrow> (payout_claim \<times> bool) list" where
  "listCallPayouts now callId cs =
     map (\<lambda>c. (c, py_status c = PayoutPending \<and> py_createdAt c < now - SEVEN_DAYS))
       (rev (sort_key py_createdAt (filter (\<lambda>c. py_callId c = callId) cs)))"

definition getOverdueUnclaimed :: "int \<Rightarrow> payout_claim list \<Rightarrow> payout_claim list" where
  "getOverdueUnclaimed now cs =
     sort_key py_createdAt (filter (\<lambda>c. py_status c = PayoutPending \<and> py_createdAt c < now - SEVEN_DAYS) cs)"

subsection \<open>The platform settings\<close>

record settings =
  st_feePercent :: jsnum
  st_contractId :: "string option"
  st_oracleContractId :: "string option"
  st_minStake :: jsnum
  st_maxDuration :: int
  st_supportedTokens :: "string list"
  st_contractAddresses :: "(string \<times> string) list"
  st_lastUpdatedByTxHash :: "string option"
  st_lastUpdatedAtLedger :: "int option"

text \<open>The single row, the cached copy with its end of life, and the events emitted (fee and source).\<close>

record config_sys =
  cf_row :: "settings option"
  cf_cache :: "(settings \<times> int) option"
  cf_emitted :: "(jsnum \<times> string) list"

record config_env =
  ce_feePercent :: "string option"
  ce_contractId :: "string option"
  ce_oracleContractId :: "string option"

definition default_settings :: "config_env \<Rightarrow> settings" where
  "default_settings env =
     \<lparr>st_feePercent = parse_float (nullish (ce_feePercent env) ''1.0''), st_contractId = ce_contractId env,
      st_oracleContractId = ce_oracleContractId env, st_minStake = Fin 0, st_maxDuration = 86400, st_supportedTokens = [],
      st_contractAddresses = [], st_lastUpdatedByTxHash = None, st_lastUpdatedAtLedger = None\<rparr>"

definition onApplicationBootstrap :: "config_env \<Rightarrow> config_sys \<Rightarrow> config_sys" where
  "onApplicationBootstrap env s =
     (case cf_row s of Some _ \<Rightarrow> s | None \<Rightarrow> s\<lparr>cf_row := Some (default_settings env)\<rparr>)"

text \<open>\<open>None\<close> is the error of a missing row.\<close>

definition getSettings :: "int \<Rightarrow> config_sys \<Rightarrow> config_sys \<times> settings option" where
  "getSettings now s =
     (let cached = (case cf_cache s of Some (c, t) \<Rightarrow> if now < t then Some c else None | None \<Rightarrow> None)
      in case cached of
           Some c \<Rightarrow> (s, Some c)
         | None \<Rightarrow>
             (case cf_row s of
                None \<Rightarrow> (s, None)
              | Some r \<Rightarrow> (s\<lparr>cf_cache := Some (r, now + 300000)\<rparr>, Some r)))"

definition save_settings :: "settings \<Rightarrow> string \<Rightarrow> config_sys \<Rightarrow> config_sys" where
  "save_settings r source s = s\<lparr>cf_row := Some r, cf_cache := None, cf_emitted := cf_emitted s @ [(st_feePercent r, source)]\<rparr>"

record admin_params =
  apm_feePercent :: "jsnum option"
  apm_contractId :: "string option"
  apm_oracleContractId :: "string option"
  apm_txHash :: string
  apm_ledger :: int

definition applied_params :: "admin_params \<Rightarrow> settings \<Rightarrow> settings" where
  "applied_params e r = r
     \<lparr>st_feePercent := (case apm_feePercent e of None \<Rightarrow> st_feePercent r | Some f \<Rightarrow> f),
      st_contractId := (case apm_contractId e of None \<Rightarrow> st_contractId r | Some c \<Rightarrow> Some c),
      st_oracleContractId := (case apm_oracleContractId e of None \<Rightarrow> st_oracleContractId r | Some c \<Rightarrow> Some c),
      st_lastUpdatedByTxHash := Some (apm_txHash e), st_lastUpdatedAtLedger := Some (apm_ledger e)\<rparr>"

definition applyAdminParamsChanged :: "int \<Rightarrow> admin_params \<Rightarrow> config_sys \<Rightarrow> config_sys \<times> settings option" where
  "applyAdminParamsChanged now e s = (case getSettings now s of
      (s1, None) \<Rightarrow> (s1, None)
    | (s1, Some r) \<Rightarrow> (let saved = applied_params e r in (save_settings saved ''indexer'' s1, Some saved)))"

record update_dto =
  ud_feePercent :: "jsnum option"
  ud_minStake :: "jsnum option"
  ud_maxDuration :: "int option"
  ud_supportedTokens :: "string list option"
  ud_contractAddresses :: "(string \<times> string) list option"

definition updateOffChainSettings :: "int \<Rightarrow> update_dto \<Rightarrow> config_sys \<Rightarrow> config_sys \<times> settings option" where
  "updateOffChainSettings now dto s = (case getSettings now s of
      (s1, None) \<Rightarrow> (s1, None)
    | (s1, Some r) \<Rightarrow>
        (let saved = r\<lparr>st_feePercent := nullish (ud_feePercent dto) (st_feePercent r),
               st_minStake := nullish (ud_minStake dto) (st_minStake r),
               st_maxDuration := nullish (ud_maxDuration dto) (st_maxDuration r),
               st_supportedTokens := nullish (ud_supportedTokens dto) (st_supportedTokens r),
               st_contractAddresses := nullish (ud_contractAddresses dto) (st_contractAddresses r)\<rparr>
         in (save_settings saved ''admin'' s1, Some saved)))"

text \<open>
  The indexer's own access to the same row, through a second entity of the table that has three of
  its columns; a row it creates has the table's defaults in the others.
\<close>

definition getPlatformSettings :: "config_sys \<Rightarrow> config_sys \<times> settings" where
  "getPlatformSettings s = (case cf_row s of
      Some r \<Rightarrow> (s, r)
    | None \<Rightarrow>
        (let r = \<lparr>st_feePercent = Fin 0, st_contractId = None, st_oracleContractId = None, st_minStake = Fin 0,
               st_maxDuration = 86400, st_supportedTokens = [], st_contractAddresses = [], st_lastUpdatedByTxHash = None,
               st_lastUpdatedAtLedger = None\<rparr>
         in (s\<lparr>cf_row := Some r\<rparr>, r)))"

definition updatePlatformSettings :: "string \<Rightarrow> jsnum \<Rightarrow> string \<Rightarrow> int \<Rightarrow> config_sys \<Rightarrow> config_sys" where
  "updatePlatformSettings paramName newValue txHash ledger s =
     (case getPlatformSettings s of (s1, r) \<Rightarrow>
        s1\<lparr>cf_row := Some (r\<lparr>st_feePercent := (if paramName = ''fee_percent'' \<or> paramName = ''feePercent'' then newValue else st_feePercent r),
            st_lastUpdatedByTxHash := Some txHash, st_lastUpdatedAtLedger := Some ledger\<rparr>)\<rparr>)"

subsection \<open>The treasury\<close>

record treasury_entry =
  te_callId :: string
  te_feeAmount :: string
  te_tokenAddress :: string
  te_collectedAt :: int


text \<open>\<open>usdc\<close> and \<open>stake\<close> are the two environment variables.\<close>

definition resolveTokenAddress :: "string option \<Rightarrow> string option \<Rightarrow> string" where
  "resolveTokenAddress usdc stake = nullish usdc (nullish stake ''UNKNOWN_TOKEN'')"


definition in_period :: "int option \<Rightarrow> int option \<Rightarrow> int \<Rightarrow> treasury_entry \<Rightarrow> bool" where
  "in_period from' to' now e = (case (from', to') of
      (Some f, Some t) \<Rightarrow> f \<le> te_collectedAt e \<and> te_collectedAt e \<le> t
    | (Some f, None) \<Rightarrow> f \<le> te_collectedAt e \<and> te_collectedAt e \<le> now
    | _ \<Rightarrow> True)"

definition fee_sum :: "treasury_entry list \<Rightarrow> jsnum" where
  "fee_sum es = foldl (\<lambda>acc e. num_plus acc (js_number (te_feeAmount e))) (Fin 0) es"

fun insert_desc :: "string \<times> jsnum \<Rightarrow> (string \<times> jsnum) list \<Rightarrow> (string \<times> jsnum) list" where
  "insert_desc x [] = [x]"
| "insert_desc x (y # ys) = (if num_less (snd y) (snd x) then x # y # ys else y # insert_desc x ys)"

definition token_sums :: "treasury_entry list \<Rightarrow> (string \<times> jsnum) list" where
  "token_sums es = foldr insert_desc
     (map (\<lambda>t. (t, fee_sum (filter (\<lambda>e. te_tokenAddress e = t) es))) (remdups (map te_tokenAddress es))) []"

definition getSummary ::
  "(rat \<Rightarrow> string) \<Rightarrow> int option \<Rightarrow> int option \<Rightarrow> int \<Rightarrow> treasury_entry list \<Rightarrow> string \<times> (string \<times> string) list" where
  "getSummary p from' to' now es =
     (let rows = token_sums (filter (in_period from' to' now) es)
      in (to_fixed p 7 (foldl (\<lambda>acc r. num_plus acc (snd r)) (Fin 0) rows), map (\<lambda>(t, x). (t, to_fixed p 7 x)) rows))"

definition getHistory ::
  "nat \<Rightarrow> nat \<Rightarrow> int option \<Rightarrow> int option \<Rightarrow> string option \<Rightarrow> treasury_entry list \<Rightarrow> treasury_entry list \<times> nat" where
  "getHistory page limit from' to' tokenAddress es =
     (let rows = rev (sort_key te_collectedAt (filter (\<lambda>e.
            (case tokenAddress of None \<Rightarrow> True | Some t \<Rightarrow> t = [] \<or> te_tokenAddress e = t)
            \<and> (case from' of None \<Rightarrow> True | Some f \<Rightarrow> f \<le> te_collectedAt e)
            \<and> (case to' of None \<Rightarrow> True | Some t \<Rightarrow> te_collectedAt e \<le> t)) es))
      in (take limit (drop ((page - 1) * limit) rows), length rows))"

subsection \<open>The indexer's tick\<close>

















subsection \<open>Lemmas on claims\<close>

lemma same_claim_new [simp]: "same_claim i a (new_claim now i a x)"
  by (simp add: same_claim_def new_claim_def)

lemma find_claim_keys: "find_claim i a cs = Some c \<Longrightarrow> py_callId c = i \<and> py_stakerAddress c = a"
  by (auto simp: find_claim_def same_claim_def dest: find_Some_set)

lemma find_replaced: "P c \<Longrightarrow> find P (map (\<lambda>x. if P x then c else x) cs) = (if find P cs = None then None else Some c)"
  by (induction cs) auto

lemma find_not_replaced:
  "\<not> P c \<Longrightarrow> (\<And>x. Q x \<Longrightarrow> \<not> P x) \<Longrightarrow> find P (map (\<lambda>x. if Q x then c else x) cs) = find P cs"
  by (induction cs) auto

lemma find_claim_save:
  "find_claim i a (save_claim c cs) = (if same_claim i a c then Some c else find_claim i a cs)"
proof (cases "same_claim i a c")
  case True
  then have k: "i = py_callId c" "a = py_stakerAddress c" by (simp_all add: same_claim_def)
  have "same_claim (py_callId c) (py_stakerAddress c) c" by (simp add: same_claim_def)
  then show ?thesis unfolding k
    by (simp add: save_claim_def find_claim_def find_replaced find_append)
next
  case False
  have "\<And>x. same_claim (py_callId c) (py_stakerAddress c) x \<Longrightarrow> \<not> same_claim i a x"
    using False by (simp add: same_claim_def)
  then show ?thesis using False
    by (simp add: save_claim_def find_claim_def find_not_replaced [of "same_claim i a"] find_append split: option.split)
qed

text \<open>The table's unique index.\<close>

definition claims_unique :: "payout_claim list \<Rightarrow> bool" where
  "claims_unique cs \<longleftrightarrow> distinct (map (\<lambda>c. (py_callId c, py_stakerAddress c)) cs)"

lemma find_claim_None: "find_claim i a cs = None \<longleftrightarrow> (i, a) \<notin> set (map (\<lambda>c. (py_callId c, py_stakerAddress c)) cs)"
  by (auto simp: find_claim_def find_None_iff same_claim_def)

lemma save_claim_unique: "claims_unique cs \<Longrightarrow> claims_unique (save_claim c cs)"
proof (cases "find_claim (py_callId c) (py_stakerAddress c) cs")
  case None
  assume "claims_unique cs"
  then show ?thesis using None by (auto simp: save_claim_def claims_unique_def find_claim_None)
next
  case (Some x)
  assume u: "claims_unique cs"
  have "map (\<lambda>c. (py_callId c, py_stakerAddress c)) (map (\<lambda>x. if same_claim (py_callId c) (py_stakerAddress c) x then c else x) cs)
      = map (\<lambda>c. (py_callId c, py_stakerAddress c)) cs"
    by (induction cs) (auto simp: same_claim_def)
  then show ?thesis using u Some by (simp add: save_claim_def claims_unique_def del: map_map)
qed

text \<open>The three writes, and the abstract table of statuses they implement.\<close>

datatype claim_op = Upsert int string string string | Claimed int string string string | Failed int string string

fun claim_step :: "payout_claim list \<Rightarrow> claim_op \<Rightarrow> payout_claim list" where
  "claim_step cs (Upsert now i a amount) = upsertPendingClaim now i a amount cs"
| "claim_step cs (Claimed now i a tx) = fst (markClaimed now i a tx cs)"
| "claim_step cs (Failed now i a) = markFailed now i a cs"

fun status_write :: "(string \<times> string \<rightharpoonup> payout_status) \<Rightarrow> claim_op \<Rightarrow> (string \<times> string \<rightharpoonup> payout_status)" where
  "status_write m (Upsert now i a amount) = m((i, a) \<mapsto> PayoutPending)"
| "status_write m (Claimed now i a tx) = m((i, a) \<mapsto> PayoutClaimed)"
| "status_write m (Failed now i a) = m((i, a) \<mapsto> PayoutFailed)"

definition statuses :: "payout_claim list \<Rightarrow> string \<times> string \<rightharpoonup> payout_status" where
  "statuses cs = (\<lambda>(i, a). map_option py_status (find_claim i a cs))"

lemma claim_statuses_save: "statuses (save_claim c cs) = (statuses cs)((py_callId c, py_stakerAddress c) \<mapsto> py_status c)"
  by (auto simp: statuses_def find_claim_save same_claim_def fun_eq_iff)

lemma claim_row:
  obtains c where "(case find_claim i a cs of Some c \<Rightarrow> c | None \<Rightarrow> new_claim now i a x) = c" "py_callId c = i" "py_stakerAddress c = a"
  by (cases "find_claim i a cs") (use find_claim_keys in \<open>auto simp: new_claim_def\<close>)

lemma statuses_step: "statuses (claim_step cs op) = status_write (statuses cs) op"
proof (cases op)
  case (Upsert now i a amount)
  show ?thesis
  proof (cases "find_claim i a cs")
    case (Some c)
    then have "py_callId c = i" "py_stakerAddress c = a" using find_claim_keys by blast+
    then show ?thesis using Some by (simp add: Upsert upsertPendingClaim_def claim_statuses_save)
  qed (simp add: Upsert upsertPendingClaim_def claim_statuses_save new_claim_def)
next
  case (Claimed now i a tx)
  obtain c where "(case find_claim i a cs of Some c \<Rightarrow> c | None \<Rightarrow> new_claim now i a ''0'') = c" "py_callId c = i" "py_stakerAddress c = a"
    by (rule claim_row)
  then show ?thesis by (simp add: Claimed markClaimed_def claim_statuses_save)
next
  case (Failed now i a)
  obtain c where "(case find_claim i a cs of Some c \<Rightarrow> c | None \<Rightarrow> new_claim now i a ''0'') = c" "py_callId c = i" "py_stakerAddress c = a"
    by (rule claim_row)
  then show ?thesis by (simp add: Failed markFailed_def claim_statuses_save)
qed

lemma claims_unique_step: "claims_unique cs \<Longrightarrow> claims_unique (claim_step cs op)"
  by (cases op) (auto simp: upsertPendingClaim_def markClaimed_def markFailed_def Let_def save_claim_unique split: option.split)

interpretation claim_table: machine claim_step claims_unique
  by unfold_locales (rule claims_unique_step)

lemma statuses_run: "statuses (foldl claim_step cs ops) = foldl status_write (statuses cs) ops"
  by (induction ops arbitrary: cs) (simp_all add: statuses_step)

subsection \<open>Lemmas on fees\<close>

definition fee_of :: "treasury_entry \<Rightarrow> rat" where
  "fee_of e = (case js_number (te_feeAmount e) of Fin q \<Rightarrow> q | _ \<Rightarrow> 0)"

definition numeric :: "treasury_entry \<Rightarrow> bool" where
  "numeric e \<longleftrightarrow> js_number (te_feeAmount e) = Fin (fee_of e)"

lemma fee_sum_from:
  "list_all numeric es \<Longrightarrow> foldl (\<lambda>acc e. num_plus acc (js_number (te_feeAmount e))) (Fin a) es = Fin (a + sum_list (map fee_of es))"
  by (induction es arbitrary: a) (simp_all add: numeric_def algebra_simps)

lemma fee_sum_fin: "list_all numeric es \<Longrightarrow> fee_sum es = Fin (sum_list (map fee_of es))"
  using fee_sum_from [of es 0] by (simp add: fee_sum_def)

lemma mset_insert_desc: "mset (insert_desc x ys) = add_mset x (mset ys)"
  by (induction ys) auto

lemma mset_token_sums:
  "mset (token_sums es) = mset (map (\<lambda>t. (t, fee_sum (filter (\<lambda>e. te_tokenAddress e = t) es))) (remdups (map te_tokenAddress es)))"
proof -
  have "mset (foldr insert_desc xs []) = mset xs" for xs by (induction xs) (simp_all add: mset_insert_desc)
  then show ?thesis by (simp add: token_sums_def)
qed

lemma fold_rows:
  "\<forall>r \<in> set rows. \<exists>q. snd r = Fin q \<Longrightarrow>
     foldl (\<lambda>acc r. num_plus acc (snd r)) (Fin a) rows = Fin (a + sum_list (map (\<lambda>r. case snd r of Fin q \<Rightarrow> q | _ \<Rightarrow> 0) rows))"
  by (induction rows arbitrary: a) (auto simp: algebra_simps)

lemma sum_by_key:
  fixes v :: "'a \<Rightarrow> rat"
  assumes "finite K" "key ` set es \<subseteq> K"
  shows "(\<Sum>k\<in>K. sum_list (map v (filter (\<lambda>e. key e = k) es))) = sum_list (map v es)"
  using assms(2)
proof (induction es)
  case (Cons e es)
  have "(\<Sum>k\<in>K. sum_list (map v (filter (\<lambda>e. key e = k) (e # es))))
      = (\<Sum>k\<in>K. (if k = key e then v e else 0) + sum_list (map v (filter (\<lambda>e. key e = k) es)))"
    by (rule sum.cong) auto
  also have "\<dots> = v e + sum_list (map v es)"
    using Cons assms(1) by (simp add: sum.distrib)
  finally show ?case by simp
qed simp

lemma token_sums_total:
  assumes "list_all numeric es"
  shows "foldl (\<lambda>acc r. num_plus acc (snd r)) (Fin 0) (token_sums es) = fee_sum es"
proof -
  let ?row = "\<lambda>t. (t, fee_sum (filter (\<lambda>e. te_tokenAddress e = t) es))"
  let ?ts = "remdups (map te_tokenAddress es)"
  let ?q = "\<lambda>r :: string \<times> jsnum. case snd r of Fin q \<Rightarrow> q | _ \<Rightarrow> 0"
  have fin: "fee_sum (filter (\<lambda>e. te_tokenAddress e = t) es) = Fin (sum_list (map fee_of (filter (\<lambda>e. te_tokenAddress e = t) es)))" for t
    by (rule fee_sum_fin) (use assms in \<open>simp add: list_all_iff\<close>)
  have s: "set (token_sums es) = set (map ?row ?ts)" using mset_eq_setD [OF mset_token_sums] by simp
  have "foldl (\<lambda>acc r. num_plus acc (snd r)) (Fin 0) (token_sums es) = Fin (0 + sum_list (map ?q (token_sums es)))"
    by (rule fold_rows) (auto simp: s fin)
  also have "sum_list (map ?q (token_sums es)) = sum_list (map ?q (map ?row ?ts))"
    by (simp only: sum_mset_sum_list [symmetric] mset_map mset_token_sums)
  also have "\<dots> = (\<Sum>t\<in>set (map te_tokenAddress es). sum_list (map fee_of (filter (\<lambda>e. te_tokenAddress e = t) es)))"
    by (simp add: fin sum_list_distinct_conv_sum_set o_def)
  also have "\<dots> = sum_list (map fee_of es)" by (rule sum_by_key) auto
  finally show ?thesis using fee_sum_fin [OF assms] by simp
qed

subsection \<open>Lemmas on settings and ticks\<close>

datatype config_op = ReadSettings int | ApplyParams int admin_params | UpdateSettings int update_dto | Bootstrap config_env

fun config_step :: "config_sys \<Rightarrow> config_op \<Rightarrow> config_sys" where
  "config_step s (ReadSettings now) = fst (getSettings now s)"
| "config_step s (ApplyParams now e) = fst (applyAdminParamsChanged now e s)"
| "config_step s (UpdateSettings now dto) = fst (updateOffChainSettings now dto s)"
| "config_step s (Bootstrap env) = onApplicationBootstrap env s"

definition coherent :: "config_sys \<Rightarrow> bool" where
  "coherent s \<longleftrightarrow> (\<forall>c t. cf_cache s = Some (c, t) \<longrightarrow> cf_row s = Some c)"

lemma getSettings_coherent: "coherent s \<Longrightarrow> coherent (fst (getSettings now s)) \<and> snd (getSettings now s) = cf_row s"
  by (auto simp: coherent_def getSettings_def Let_def split: option.splits prod.splits)

lemma saved_coherent: "coherent (save_settings r source s)"
  by (simp add: coherent_def save_settings_def)

lemma config_step_coherent: "coherent s \<Longrightarrow> coherent (config_step s op)"
proof (cases op)
  case (ReadSettings now)
  assume "coherent s"
  then show ?thesis using ReadSettings getSettings_coherent by simp
next
  case (ApplyParams now e)
  assume c: "coherent s"
  obtain s1 r where g: "getSettings now s = (s1, r)" by fastforce
  then show ?thesis using getSettings_coherent [OF c, of now] ApplyParams
    by (cases "cf_row s") (simp_all add: applyAdminParamsChanged_def Let_def saved_coherent)
next
  case (UpdateSettings now dto)
  assume c: "coherent s"
  obtain s1 r where g: "getSettings now s = (s1, r)" by fastforce
  then show ?thesis using getSettings_coherent [OF c, of now] UpdateSettings
    by (cases "cf_row s") (simp_all add: updateOffChainSettings_def Let_def saved_coherent)
next
  case (Bootstrap env)
  assume "coherent s"
  then show ?thesis using Bootstrap by (auto simp: onApplicationBootstrap_def coherent_def split: option.split)
qed

interpretation config: machine config_step coherent
  by unfold_locales (rule config_step_coherent)






subsection \<open>Properties\<close>

text \<open>C9: the claims table implements a table of statuses by last write: whatever claims are upserted, marked claimed
  or marked failed in whatever order, there is one row per call and staker, and its status is the one written last,
  PENDING over CLAIMED included.\<close>

theorem claims_refine_statuses:
  "claims_unique (foldl claim_step [] ops) \<and> statuses (foldl claim_step [] ops) = foldl status_write Map.empty ops"
proof -
  have "statuses [] = Map.empty" by (auto simp: statuses_def find_claim_def)
  moreover have "claims_unique (foldl claim_step [] ops)" by (rule claim_table.run_inv) (simp add: claims_unique_def)
  ultimately show ?thesis using statuses_run [of "[]" ops] by simp
qed

text \<open>The summary's total is the sum of the fees of the period, and it lists each token once with the sum of
  its fees.\<close>

theorem treasury_summary_adds_up:
  assumes "list_all numeric es"
  shows "fst (getSummary p f t now es) = to_fixed p 7 (fee_sum (filter (in_period f t now) es))
    \<and> mset (snd (getSummary p f t now es)) = mset (map (\<lambda>k. (k, to_fixed p 7 (fee_sum (filter (\<lambda>e. te_tokenAddress e = k)
          (filter (in_period f t now) es))))) (remdups (map te_tokenAddress (filter (in_period f t now) es))))"
proof -
  let ?es = "filter (in_period f t now) es"
  have "list_all numeric ?es" using assms by (simp add: list_all_iff)
  from token_sums_total [OF this] have a: "fst (getSummary p f t now es) = to_fixed p 7 (fee_sum ?es)"
    by (simp add: getSummary_def Let_def)
  have "mset (snd (getSummary p f t now es)) = image_mset (\<lambda>(t, x). (t, to_fixed p 7 x)) (mset (token_sums ?es))"
    by (simp add: getSummary_def Let_def)
  also have "\<dots> = mset (map (\<lambda>k. (k, to_fixed p 7 (fee_sum (filter (\<lambda>e. te_tokenAddress e = k) ?es))))
      (remdups (map te_tokenAddress ?es)))"
    unfolding mset_token_sums by (simp add: image_mset.compositionality o_def)
  finally show ?thesis using a by simp
qed

definition sample_fees :: "treasury_entry list" where
  "sample_fees = [\<lparr>te_callId = ''c'', te_feeAmount = ''2'', te_tokenAddress = ''T'', te_collectedAt = 5\<rparr>,
     \<lparr>te_callId = ''d'', te_feeAmount = ''3'', te_tokenAddress = ''T'', te_collectedAt = 7\<rparr>]"

theorem treasury_summary_adds_up_witness:
  "fst (getSummary (\<lambda>_. []) None None 9 sample_fees) = to_fixed (\<lambda>_. []) 7 (Fin 5)"
proof -
  have n: "js_number ''2'' = Fin 2" "js_number ''3'' = Fin 3" by code_simp+
  have "list_all numeric sample_fees" by (simp add: sample_fees_def numeric_def fee_of_def n)
  from treasury_summary_adds_up [OF this, of "\<lambda>_. []" None None 9] show ?thesis
    by (simp add: fee_sum_def in_period_def sample_fees_def n)
qed

text \<open>while the settings service is the only writer of its row, what it reads is the row: in every reachable
  state the cached copy equals it. The indexer's own write to the same row leaves the cache alone, and while the copy
  is alive a parameter event without a fee puts the old fee back.\<close>

theorem settings_cache_current:
  fixes ops s
  defines "s' \<equiv> foldl config_step s ops"
  assumes "cf_cache s = None"
  shows "snd (getSettings now s') = cf_row s' \<and>
    (\<forall>c t f. cf_cache s' = Some (c, t) \<and> now < t \<and> apm_feePercent e = None \<longrightarrow>
      map_option st_feePercent (cf_row (fst (applyAdminParamsChanged now e (updatePlatformSettings ''feePercent'' f tx ledger s'))))
        = Some (st_feePercent c))"
proof -
  have "coherent s'" unfolding s'_def by (rule config.run_inv) (simp add: coherent_def assms(2))
  from getSettings_coherent [OF this, of now] show ?thesis
    by (auto simp: applyAdminParamsChanged_def updatePlatformSettings_def getPlatformSettings_def getSettings_def
        applied_params_def save_settings_def Let_def split: option.split)
qed

definition sample_config :: "config_sys" where
  "sample_config = \<lparr>cf_row = Some (default_settings \<lparr>ce_feePercent = Some ''2'', ce_contractId = None, ce_oracleContractId = None\<rparr>),
     cf_cache = None, cf_emitted = []\<rparr>"

theorem settings_cache_current_witness:
  "map_option st_feePercent (cf_row (fst (applyAdminParamsChanged 20 \<lparr>apm_feePercent = None, apm_contractId = Some ''C'', apm_oracleContractId = None, apm_txHash = ''h'', apm_ledger = 3\<rparr>
     (updatePlatformSettings ''feePercent'' (Fin 9) ''g'' 2 (foldl config_step sample_config [ReadSettings 10]))))) = Some (Fin 2)"
proof -
  have n: "parse_float ''2'' = Fin 2" by code_simp
  show ?thesis
    using settings_cache_current [where s = sample_config and ops = "[ReadSettings 10]" and now = 20 and tx = "''g''" and ledger = 2
        and e = "\<lparr>apm_feePercent = None, apm_contractId = Some ''C'', apm_oracleContractId = None, apm_txHash = ''h'', apm_ledger = 3\<rparr>"]
    by (simp add: sample_config_def getSettings_def default_settings_def n)
qed





end
