(* ===== verification/EventParser.thy ===== *)
theory EventParser
  imports Settlement ApiClient
begin

text \<open>
  \<^verbatim>\<open>packages/backend/src/indexer/event-parser.ts\<close> and \<^verbatim>\<open>indexer/platform-settings.service.ts\<close>: the
  records made of raw contract events, and the job that reads the changes of the platform's parameters
  from them. As the source assumes, a topic is already a native value. \<open>str\<close> and \<open>numo\<close> are
  \<open>toString\<close> and \<open>Number\<close> on the values the language leaves to them, \<open>bytes_of\<close> is \<open>Buffer.from\<close> on arrays and
  objects, \<open>xdr_ok\<close> says whether the SDK can read a value.
\<close>

datatype event_type =
    ET_CALL_CREATED | ET_STAKE_ADDED | ET_CALL_RESOLVED | ET_CALL_SETTLED | ET_ADMIN_CHANGED | ET_ADMIN_PARAMS_CHANGED
  | ET_OUTCOME_MANAGER_CHANGED | ET_OUTCOME_FINALIZED | ET_INITIALIZED

record raw_event =
  rw_id :: string
  rw_contractId :: string
  rw_topic :: "jval list"
  rw_value :: jval
  rw_ledger :: int
  rw_txHash :: string
  rw_pagingToken :: string
  rw_createdAt :: jval

record parsed_event =
  pe_contractId :: string
  pe_eventType :: event_type
  pe_ledger :: int
  pe_txHash :: string
  pe_txOrder :: string
  pe_timestamp :: jval
  pe_eventData :: "(string \<times> jval) list"
  pe_creator :: "string option"
  pe_description :: "string option"

record parse_env =
  pv_str :: "jval \<Rightarrow> string"
  pv_numo :: "jval \<Rightarrow> jsnum"
  pv_bytes_of :: "jval \<Rightarrow> nat list option"
  pv_xdr_ok :: "jval \<Rightarrow> bool"

subsection \<open>Topics; \<open>None\<close> is a thrown error\<close>

definition topic_value :: "jval list \<Rightarrow> nat \<Rightarrow> jval" where
  "topic_value ts i = (if i < length ts then ts ! i else JUndef)"

definition parseAddress :: "parse_env \<Rightarrow> jval \<Rightarrow> jval option" where
  "parseAddress env v = (case v of JUndef \<Rightarrow> None | JNull \<Rightarrow> None | _ \<Rightarrow> Some (JStr (str_of (pv_str env) v)))"

definition parseU64 :: "parse_env \<Rightarrow> jval \<Rightarrow> jval option" where
  "parseU64 env v = Some (JNum (num_of (pv_numo env) v))"

definition parseI128 :: "parse_env \<Rightarrow> jval \<Rightarrow> jval option" where
  "parseI128 env v = parseAddress env v"

definition parseU32 :: "parse_env \<Rightarrow> jval \<Rightarrow> jval option" where
  "parseU32 env v = parseU64 env v"

definition parseBytes :: "parse_env \<Rightarrow> jval \<Rightarrow> jval option" where
  "parseBytes env v = (case v of
      JStr s \<Rightarrow> Some (JStr (hex_text (concat (map utf8_bytes s))))
    | JArr _ \<Rightarrow> map_option (\<lambda>bs. JStr (hex_text bs)) (pv_bytes_of env v)
    | JObj _ \<Rightarrow> map_option (\<lambda>bs. JStr (hex_text bs)) (pv_bytes_of env v)
    | _ \<Rightarrow> None)"

subsection \<open>Records\<close>

text \<open>The fields of a record, read from left to right; the first error is the record's.\<close>

fun read_fields :: "(string \<times> jval option) list \<Rightarrow> (string \<times> jval) list option" where
  "read_fields [] = Some []"
| "read_fields ((k, v) # r) = (case v of None \<Rightarrow> None | Some x \<Rightarrow> map_option ((#) (k, x)) (read_fields r))"

definition parsed :: "raw_event \<Rightarrow> event_type \<Rightarrow> (string \<times> jval option) list \<Rightarrow> parsed_event option" where
  "parsed e ty fs = map_option (\<lambda>d.
     \<lparr>pe_contractId = rw_contractId e, pe_eventType = ty, pe_ledger = rw_ledger e, pe_txHash = rw_txHash e,
      pe_txOrder = rw_pagingToken e, pe_timestamp = rw_createdAt e, pe_eventData = d, pe_creator = None,
      pe_description = None\<rparr>) (read_fields fs)"

definition parseCallCreated :: "parse_env \<Rightarrow> raw_event \<Rightarrow> jval list \<Rightarrow> parsed_event option" where
  "parseCallCreated env e t =
     (if \<not> pv_xdr_ok env (rw_value e) then None
      else map_option (\<lambda>r. r\<lparr>pe_creator := Some [], pe_description := Some []\<rparr>) (parsed e ET_CALL_CREATED
        [(''callId'', parseU64 env (topic_value t 1)), (''creator'', parseAddress env (topic_value t 2)),
         (''stakeToken'', parseAddress env (topic_value t 3)), (''stakeAmount'', parseI128 env (topic_value t 4)),
         (''endTs'', parseU64 env (topic_value t 5)), (''tokenAddress'', parseAddress env (topic_value t 6)),
         (''pairId'', parseBytes env (topic_value t 7)), (''ipfsCid'', parseBytes env (topic_value t 8))]))"

definition parseStakeAdded :: "parse_env \<Rightarrow> raw_event \<Rightarrow> jval list \<Rightarrow> parsed_event option" where
  "parseStakeAdded env e t = parsed e ET_STAKE_ADDED
     [(''callId'', parseU64 env (topic_value t 1)), (''staker'', parseAddress env (topic_value t 2)),
      (''amount'', parseI128 env (topic_value t 3)), (''position'', parseU32 env (topic_value t 4))]"

definition parseCallResolved :: "parse_env \<Rightarrow> raw_event \<Rightarrow> jval list \<Rightarrow> parsed_event option" where
  "parseCallResolved env e t = parsed e ET_CALL_RESOLVED
     [(''callId'', parseU64 env (topic_value t 1)), (''outcome'', parseU32 env (topic_value t 2)),
      (''endPrice'', parseI128 env (topic_value t 3))]"

definition parseCallSettled :: "parse_env \<Rightarrow> raw_event \<Rightarrow> jval list \<Rightarrow> parsed_event option" where
  "parseCallSettled env e t = parsed e ET_CALL_SETTLED
     [(''callId'', parseU64 env (topic_value t 1)), (''winnerCount'', parseU64 env (topic_value t 2))]"

definition parseAdminChanged :: "parse_env \<Rightarrow> raw_event \<Rightarrow> jval list \<Rightarrow> parsed_event option" where
  "parseAdminChanged env e t = parsed e ET_ADMIN_CHANGED
     [(''oldAdmin'', parseAddress env (topic_value t 1)), (''newAdmin'', parseAddress env (topic_value t 2))]"

definition parseOutcomeManagerChanged :: "parse_env \<Rightarrow> raw_event \<Rightarrow> jval list \<Rightarrow> parsed_event option" where
  "parseOutcomeManagerChanged env e t = parsed e ET_OUTCOME_MANAGER_CHANGED
     [(''oldManager'', parseAddress env (topic_value t 1)), (''newManager'', parseAddress env (topic_value t 2))]"

definition parseOutcomeFinalized :: "parse_env \<Rightarrow> raw_event \<Rightarrow> jval list \<Rightarrow> parsed_event option" where
  "parseOutcomeFinalized env e t = parsed e ET_OUTCOME_FINALIZED [(''callId'', parseU64 env (topic_value t 1))]"

definition parseInitialized :: "parse_env \<Rightarrow> raw_event \<Rightarrow> jval list \<Rightarrow> parsed_event option" where
  "parseInitialized env e t = parsed e ET_INITIALIZED
     [(''admin'', parseAddress env (topic_value t 1)), (''outcomeManager'', parseAddress env (topic_value t 2))]"

definition parseAdminParams :: "parse_env \<Rightarrow> raw_event \<Rightarrow> jval list \<Rightarrow> parsed_event option" where
  "parseAdminParams env e t = parsed e ET_ADMIN_PARAMS_CHANGED
     [(''paramName'', parseBytes env (topic_value t 1)), (''newValue'', parseU32 env (topic_value t 2))]"

text \<open>An error anywhere in it is caught and gives no record.\<close>

definition parseEvent :: "parse_env \<Rightarrow> raw_event \<Rightarrow> parsed_event option" where
  "parseEvent env e =
     (case rw_topic e of
        [] \<Rightarrow> None
      | eventName # _ \<Rightarrow>
          if eventName = JStr ''call_created'' then parseCallCreated env e (rw_topic e)
          else if eventName = JStr ''stake_added'' then parseStakeAdded env e (rw_topic e)
          else if eventName = JStr ''call_resolved'' then parseCallResolved env e (rw_topic e)
          else if eventName = JStr ''call_settled'' then parseCallSettled env e (rw_topic e)
          else if eventName = JStr ''admin_changed'' then parseAdminChanged env e (rw_topic e)
          else if eventName = JStr ''outcome_manager_changed'' then parseOutcomeManagerChanged env e (rw_topic e)
          else if eventName = JStr ''outcome_finalized'' \<or> eventName = JStr ''finalized'' then parseOutcomeFinalized env e (rw_topic e)
          else if eventName = JStr ''initialized'' then parseInitialized env e (rw_topic e)
          else if eventName = JStr ''admin_params_changed'' then parseAdminParams env e (rw_topic e)
          else None)"

subsection \<open>The sync of the platform's parameters\<close>

record sync_row =
  sy_eventId :: string
  sy_event :: parsed_event
  sy_txOrder :: jsnum

record sync_state =
  sn_lastProcessedLedger :: int
  sn_log :: "sync_row list"
  sn_config :: config_sys

definition onModuleInit_sync :: "sync_state \<Rightarrow> sync_state" where
  "onModuleInit_sync s =
     (let rows = filter (\<lambda>r. pe_eventType (sy_event r) = ET_ADMIN_PARAMS_CHANGED) (sn_log s)
      in if rows = [] then s else s\<lparr>sn_lastProcessedLedger := Max (set (map (\<lambda>r. pe_ledger (sy_event r)) rows))\<rparr>)"

definition sync_event :: "parse_env \<Rightarrow> raw_event \<Rightarrow> sync_state \<Rightarrow> sync_state" where
  "sync_event env e s = (case parseEvent env e of
      None \<Rightarrow> s
    | Some q \<Rightarrow>
        if pe_eventType q \<noteq> ET_ADMIN_PARAMS_CHANGED then s
        else s\<lparr>sn_log := sn_log s @ [\<lparr>sy_eventId = nat_str (nat (rw_ledger e)) @ ''-'' @ rw_id e, sy_event = q,
                 sy_txOrder = js_number (pe_txOrder q)\<rparr>],
               sn_config := updatePlatformSettings
                 (str_of (pv_str env) (jget (pe_eventData q) ''paramName''))
                 (num_of (pv_numo env) (jget (pe_eventData q) ''newValue'')) (pe_txHash q) (pe_ledger q) (sn_config s)\<rparr>)"

text \<open>\<open>latest\<close> is the latest ledger and \<open>chain\<close> the events from a ledger on, when the RPC answers.\<close>

definition syncPlatformSettings :: "parse_env \<Rightarrow> string \<Rightarrow> int option \<Rightarrow> (int \<Rightarrow> raw_event list option) \<Rightarrow> sync_state \<Rightarrow> sync_state" where
  "syncPlatformSettings env contractId latest chain s =
     (if contractId = [] then s
      else case latest of
        None \<Rightarrow> s
      | Some l \<Rightarrow>
          (let startLedger = sn_lastProcessedLedger s + 1
           in if startLedger > l then s
              else case chain startLedger of
                None \<Rightarrow> s
              | Some es \<Rightarrow> (foldl (\<lambda>s e. sync_event env e s) s es)\<lparr>sn_lastProcessedLedger := l\<rparr>))"

subsection \<open>Lemmas\<close>

lemma parsed_copies: "parsed e ty fs = Some q \<Longrightarrow> pe_eventType q = ty \<and> pe_contractId q = rw_contractId e \<and> pe_ledger q = rw_ledger e
   \<and> pe_txHash q = rw_txHash e \<and> read_fields fs = Some (pe_eventData q)"
  by (auto simp: parsed_def)

lemmas parser_defs = parseCallCreated_def parseStakeAdded_def parseCallResolved_def parseCallSettled_def parseAdminChanged_def
  parseOutcomeManagerChanged_def parseOutcomeFinalized_def parseInitialized_def parseAdminParams_def

lemma hex_text_chars: "set (hex_text bs) \<subseteq> hex_digit ` {..<16}"
  by (auto simp: hex_text_def)

lemma underscore_no_hex: "CHR ''_'' \<notin> hex_digit ` {..<16}"
proof
  assume "CHR ''_'' \<in> hex_digit ` {..<16}"
  then obtain d where "d < 16" "CHR ''_'' = hex_digit d" by auto
  then have "code (CHR ''_'') = code (hex_digit d)" by simp
  with \<open>d < 16\<close> show False by (auto simp: hex_digit_def code_def split: if_splits)
qed

lemma paramName_hex:
  assumes "parseAdminParams env e t = Some q"
  shows "\<exists>bs. jget (pe_eventData q) ''paramName'' = JStr (hex_text bs)"
proof -
  from assms have "read_fields [(''paramName'', parseBytes env (topic_value t 1)), (''newValue'', parseU32 env (topic_value t 2))]
      = Some (pe_eventData q)" unfolding parseAdminParams_def using parsed_copies by blast
  then obtain v w where d: "[(''paramName'', v), (''newValue'', w)] = pe_eventData q" and v: "parseBytes env (topic_value t 1) = Some v"
    by (auto split: option.splits)
  have "jget (pe_eventData q) ''paramName'' = v" unfolding d [symmetric] by (simp add: jget_def)
  moreover have "\<exists>bs. v = JStr (hex_text bs)" using v by (auto simp: parseBytes_def split: jval.splits)
  ultimately show ?thesis by simp
qed

definition made :: "raw_event \<Rightarrow> parsed_event \<Rightarrow> event_type \<Rightarrow> bool" where
  "made e q ty \<longleftrightarrow> pe_eventType q = ty \<and> pe_contractId q = rw_contractId e \<and> pe_ledger q = rw_ledger e \<and> pe_txHash q = rw_txHash e"

lemma parsed_made: "parsed e ty fs = Some q \<Longrightarrow> made e q ty"
  by (auto simp: parsed_def made_def)

lemma created_made: "parseCallCreated env e t = Some q \<Longrightarrow> made e q ET_CALL_CREATED"
  by (auto simp: parseCallCreated_def made_def dest!: parsed_made split: if_splits)

lemma parser_types:
  "parseStakeAdded env e t = Some q \<Longrightarrow> made e q ET_STAKE_ADDED"
  "parseCallResolved env e t = Some q \<Longrightarrow> made e q ET_CALL_RESOLVED"
  "parseCallSettled env e t = Some q \<Longrightarrow> made e q ET_CALL_SETTLED"
  "parseAdminChanged env e t = Some q \<Longrightarrow> made e q ET_ADMIN_CHANGED"
  "parseOutcomeManagerChanged env e t = Some q \<Longrightarrow> made e q ET_OUTCOME_MANAGER_CHANGED"
  "parseOutcomeFinalized env e t = Some q \<Longrightarrow> made e q ET_OUTCOME_FINALIZED"
  "parseInitialized env e t = Some q \<Longrightarrow> made e q ET_INITIALIZED"
  "parseAdminParams env e t = Some q \<Longrightarrow> made e q ET_ADMIN_PARAMS_CHANGED"
  unfolding parser_defs by (rule parsed_made, assumption)+

text \<open>The type a name stands for.\<close>

definition named_type :: "string \<Rightarrow> event_type option" where
  "named_type n = map_of [(''call_created'', ET_CALL_CREATED), (''stake_added'', ET_STAKE_ADDED), (''call_resolved'', ET_CALL_RESOLVED),
     (''call_settled'', ET_CALL_SETTLED), (''admin_changed'', ET_ADMIN_CHANGED), (''outcome_manager_changed'', ET_OUTCOME_MANAGER_CHANGED),
     (''outcome_finalized'', ET_OUTCOME_FINALIZED), (''finalized'', ET_OUTCOME_FINALIZED), (''initialized'', ET_INITIALIZED),
     (''admin_params_changed'', ET_ADMIN_PARAMS_CHANGED)] n"

text \<open>One branch of the dispatch at a time.\<close>

lemma branch: "(c \<Longrightarrow> R A) \<Longrightarrow> R B \<Longrightarrow> R (if c then A else B)"
  by simp

definition named_record :: "raw_event \<Rightarrow> parsed_event option \<Rightarrow> bool" where
  "named_record e x \<longleftrightarrow> (\<forall>q. x = Some q \<longrightarrow>
     (\<exists>n rest ty. rw_topic e = JStr n # rest \<and> named_type n = Some ty \<and> made e q ty))"

lemma named_recordI:
  "rw_topic e = h # rest \<Longrightarrow> h = JStr n \<Longrightarrow> named_type n = Some ty \<Longrightarrow> (\<And>q. x = Some q \<Longrightarrow> made e q ty) \<Longrightarrow> named_record e x"
  by (auto simp: named_record_def)

lemma names:
  "named_type ''call_created'' = Some ET_CALL_CREATED" "named_type ''stake_added'' = Some ET_STAKE_ADDED"
  "named_type ''call_resolved'' = Some ET_CALL_RESOLVED" "named_type ''call_settled'' = Some ET_CALL_SETTLED"
  "named_type ''admin_changed'' = Some ET_ADMIN_CHANGED"
  "named_type ''outcome_manager_changed'' = Some ET_OUTCOME_MANAGER_CHANGED"
  "named_type ''outcome_finalized'' = Some ET_OUTCOME_FINALIZED" "named_type ''finalized'' = Some ET_OUTCOME_FINALIZED"
  "named_type ''initialized'' = Some ET_INITIALIZED" "named_type ''admin_params_changed'' = Some ET_ADMIN_PARAMS_CHANGED"
  by (simp_all add: named_type_def)

lemma parseEvent_named: "named_record e (parseEvent env e)"
proof (cases "rw_topic e")
  case (Cons h rest)
  note I = named_recordI [OF Cons]
  show ?thesis unfolding parseEvent_def Cons list.case
  proof (intro branch [where R = "named_record e"])
    assume "h = JStr ''call_created''"
    then show "named_record e (parseCallCreated env e (h # rest))" by (rule I [OF _ names(1)]) (rule created_made)
  next
    assume "h = JStr ''stake_added''"
    then show "named_record e (parseStakeAdded env e (h # rest))" by (rule I [OF _ names(2)]) (rule parser_types)
  next
    assume "h = JStr ''call_resolved''"
    then show "named_record e (parseCallResolved env e (h # rest))" by (rule I [OF _ names(3)]) (rule parser_types)
  next
    assume "h = JStr ''call_settled''"
    then show "named_record e (parseCallSettled env e (h # rest))" by (rule I [OF _ names(4)]) (rule parser_types)
  next
    assume "h = JStr ''admin_changed''"
    then show "named_record e (parseAdminChanged env e (h # rest))" by (rule I [OF _ names(5)]) (rule parser_types)
  next
    assume "h = JStr ''outcome_manager_changed''"
    then show "named_record e (parseOutcomeManagerChanged env e (h # rest))" by (rule I [OF _ names(6)]) (rule parser_types)
  next
    assume "h = JStr ''outcome_finalized'' \<or> h = JStr ''finalized''"
    then show "named_record e (parseOutcomeFinalized env e (h # rest))"
    proof
      assume "h = JStr ''outcome_finalized''"
      then show ?thesis by (rule I [OF _ names(7)]) (rule parser_types)
    next
      assume "h = JStr ''finalized''"
      then show ?thesis by (rule I [OF _ names(8)]) (rule parser_types)
    qed
  next
    assume "h = JStr ''initialized''"
    then show "named_record e (parseInitialized env e (h # rest))" by (rule I [OF _ names(9)]) (rule parser_types)
  next
    assume "h = JStr ''admin_params_changed''"
    then show "named_record e (parseAdminParams env e (h # rest))" by (rule I [OF _ names(10)]) (rule parser_types)
  next
    show "named_record e None" by (simp add: named_record_def)
  qed
qed (simp add: parseEvent_def named_record_def)

lemma parseEvent_made:
  "parseEvent env e = Some q \<Longrightarrow> \<exists>n rest ty. rw_topic e = JStr n # rest \<and> named_type n = Some ty \<and> made e q ty"
  using parseEvent_named [of e env] by (simp add: named_record_def)

definition admin_record :: "parse_env \<Rightarrow> raw_event \<Rightarrow> parsed_event option \<Rightarrow> bool" where
  "admin_record env e x \<longleftrightarrow> (\<forall>q. x = Some q \<longrightarrow> pe_eventType q = ET_ADMIN_PARAMS_CHANGED \<longrightarrow> parseAdminParams env e (rw_topic e) = Some q)"

lemma other_record: "(\<And>q. x = Some q \<Longrightarrow> made e q ty) \<Longrightarrow> ty \<noteq> ET_ADMIN_PARAMS_CHANGED \<Longrightarrow> admin_record env e x"
  by (auto simp: admin_record_def made_def)

lemma parse_admin_params:
  "parseEvent env e = Some q \<Longrightarrow> pe_eventType q = ET_ADMIN_PARAMS_CHANGED \<Longrightarrow> parseAdminParams env e (rw_topic e) = Some q"
proof -
  have "admin_record env e (parseEvent env e)"
  proof (cases "rw_topic e")
    case (Cons h rest)
    show ?thesis unfolding parseEvent_def Cons list.case
      by (intro branch [where R = "admin_record env e"])
        (rule other_record, erule created_made, simp, (rule other_record, erule parser_types(1-7), simp)+, simp_all add: admin_record_def Cons)
  qed (simp add: parseEvent_def admin_record_def)
  then show "parseEvent env e = Some q \<Longrightarrow> pe_eventType q = ET_ADMIN_PARAMS_CHANGED \<Longrightarrow> ?thesis"
    by (simp add: admin_record_def)
qed

definition fee_row :: "sync_state \<Rightarrow> jsnum option" where
  "fee_row s = map_option st_feePercent (cf_row (sn_config s))"

lemma sync_event_fee: "fee_row s = Some f \<Longrightarrow> fee_row (sync_event env e s) = Some f"
proof (cases "parseEvent env e")
  case (Some q)
  assume f: "fee_row s = Some f"
  show ?thesis
  proof (cases "pe_eventType q = ET_ADMIN_PARAMS_CHANGED")
    case True
    obtain bs where "jget (pe_eventData q) ''paramName'' = JStr (hex_text bs)"
      using paramName_hex [OF parse_admin_params [OF Some True]] by blast
    moreover have "hex_text bs \<noteq> ''fee_percent''" "hex_text bs \<noteq> ''feePercent''"
    proof -
      show "hex_text bs \<noteq> ''fee_percent''" using hex_text_chars [of bs] underscore_no_hex by auto
      have "CHR ''P'' \<notin> hex_digit ` {..<16}"
      proof
        assume "CHR ''P'' \<in> hex_digit ` {..<16}"
        then obtain d where "d < 16" "CHR ''P'' = hex_digit d" by auto
        then have "code (CHR ''P'') = code (hex_digit d)" by simp
        with \<open>d < 16\<close> show False by (auto simp: hex_digit_def code_def split: if_splits)
      qed
      then show "hex_text bs \<noteq> ''feePercent''" using hex_text_chars [of bs] by auto
    qed
    ultimately show ?thesis using Some True f
      by (auto simp: sync_event_def fee_row_def updatePlatformSettings_def getPlatformSettings_def str_of_def)
  qed (use Some f in \<open>simp add: sync_event_def\<close>)
qed (simp add: sync_event_def)

lemma sync_events_fee: "fee_row s = Some f \<Longrightarrow> fee_row (foldl (\<lambda>s e. sync_event env e s) s es) = Some f"
  by (induction es arbitrary: s) (simp_all add: sync_event_fee)

subsection \<open>Properties\<close>

text \<open>A record has the type its event's first topic names, and the contract, ledger and hash of the event; an
  event with no topic or an unknown name has no record.\<close>

theorem parsed_event_named:
  "(\<forall>q. parseEvent env e = Some q \<longrightarrow>
      (\<exists>n rest. rw_topic e = JStr n # rest \<and> named_type n = Some (pe_eventType q))
      \<and> pe_contractId q = rw_contractId e \<and> pe_ledger q = rw_ledger e \<and> pe_txHash q = rw_txHash e)
   \<and> (\<forall>n rest. rw_topic e = JStr n # rest \<and> named_type n = None \<longrightarrow> parseEvent env e = None)"
proof (intro conjI allI impI)
  fix q assume "parseEvent env e = Some q"
  then obtain n rest ty where "rw_topic e = JStr n # rest" "named_type n = Some ty" "made e q ty"
    using parseEvent_made by blast
  then show "\<exists>n rest. rw_topic e = JStr n # rest \<and> named_type n = Some (pe_eventType q)"
    "pe_contractId q = rw_contractId e" "pe_ledger q = rw_ledger e" "pe_txHash q = rw_txHash e"
    by (auto simp: made_def)
next
  fix n rest assume "rw_topic e = JStr n # rest \<and> named_type n = None"
  then show "parseEvent env e = None" using parseEvent_made [of env e] by (cases "parseEvent env e") auto
qed

definition sample_raw :: raw_event where
  "sample_raw = \<lparr>rw_id = ''1'', rw_contractId = ''C'', rw_topic = [JStr ''call_settled'', JStr ''4'', JStr ''2''], rw_value = JNull,
     rw_ledger = 7, rw_txHash = ''h'', rw_pagingToken = ''9'', rw_createdAt = JNull\<rparr>"

definition sample_penv :: parse_env where
  "sample_penv = \<lparr>pv_str = (\<lambda>_. []), pv_numo = (\<lambda>_. NaN), pv_bytes_of = (\<lambda>_. None), pv_xdr_ok = (\<lambda>_. True)\<rparr>"

theorem parsed_event_named_witness:
  "\<exists>q. parseEvent sample_penv sample_raw = Some q \<and> pe_ledger q = 7"
proof -
  obtain q where "parseEvent sample_penv sample_raw = Some q"
    by (simp add: parseEvent_def sample_raw_def parser_defs parsed_def parseU64_def)
  then show ?thesis using parsed_event_named [of sample_penv sample_raw] by (auto simp: sample_raw_def)
qed

text \<open>The job never changes the fee: it compares the hexadecimal text of the parameter's name with the name, so
  whatever events the chain has, and however often it runs, the fee of the row stays.\<close>

theorem sync_never_sets_fee:
  assumes "fee_row s = Some f"
  shows "fee_row (foldl (\<lambda>s tick. syncPlatformSettings env contractId (fst tick) (snd tick) s) s ticks) = Some f"
  using assms
proof (induction ticks arbitrary: s)
  case (Cons tick ticks)
  have "fee_row (syncPlatformSettings env contractId (fst tick) (snd tick) s) = Some f"
    using Cons.prems sync_events_fee [of s f env]
    by (auto simp: syncPlatformSettings_def Let_def fee_row_def split: option.split)
  then show ?case using Cons.IH by simp
qed simp

theorem sync_never_sets_fee_witness:
  "fee_row (foldl (\<lambda>s tick. syncPlatformSettings sample_penv ''C'' (fst tick) (snd tick) s)
      \<lparr>sn_lastProcessedLedger = 0, sn_log = [], sn_config = updatePlatformSettings ''feePercent'' (Fin 2) ''h'' 1 \<lparr>cf_row = None, cf_cache = None, cf_emitted = []\<rparr>\<rparr>
      [(Some 9, \<lambda>_. Some [sample_raw\<lparr>rw_topic := [JStr ''admin_params_changed'', JStr ''fee_percent'', JStr ''5'']\<rparr>])]) = Some (Fin 2)"
  by (rule sync_never_sets_fee) (simp add: fee_row_def updatePlatformSettings_def getPlatformSettings_def Let_def)

end
