(* ===== verification/Relay.thy ===== *)
theory Relay
  imports Settlement
begin

text \<open>
  \<^verbatim>\<open>packages/backend/src/relay/relay.service.ts\<close>: the relay that pays the fees of users' transactions. What
  the SDK reads from an envelope is a value: its operations, the fee, the signatures, the time
  bounds (0 is no bound) and, for an invocation, the arguments as native values (\<open>None\<close> when the
  conversion throws). Arguments of the model: \<open>from_xdr\<close> reads an envelope, \<open>bump\<close> is the fee of a
  fee bump built with a base fee, the replies of the RPC and the price service, the clock, \<open>bigs\<close> is
  \<open>BigInt\<close> of a text, \<open>p\<close> prints a number. The cache never fails.
\<close>

datatype sc_address = ContractAddress string | OtherAddress
datatype host_function = InvokeContract sc_address string "jval option list" | OtherHostFunction

record tx_operation =
  to_type :: string
  to_func :: "host_function option"
  to_source :: "string option"

record inner_tx =
  it_source :: string
  it_fee :: nat
  it_operations :: "tx_operation list"
  it_signatures :: nat
  it_timeBounds :: "(nat \<times> nat) option"

datatype envelope = PlainTx inner_tx | FeeBumpTx string nat inner_tx

datatype relay_error = RelayBadRequest string | RelayThrew

definition innerTransaction :: "envelope \<Rightarrow> inner_tx" where
  "innerTransaction tx = (case tx of PlainTx t \<Rightarrow> t | FeeBumpTx _ _ t \<Rightarrow> t)"

subsection \<open>What the relay accepts\<close>

definition check_operation :: "string \<Rightarrow> tx_operation \<Rightarrow> relay_error option" where
  "check_operation allowedContractId op =
     (if to_type op \<noteq> ''invokeHostFunction''
      then Some (RelayBadRequest (''Operation type '' @ to_type op @ '' not allowed in relay. Only invokeHostFunction is permitted.''))
      else case to_func op of
        None \<Rightarrow> Some (RelayBadRequest ''Malformed host function operation: missing function definition'')
      | Some OtherHostFunction \<Rightarrow> Some (RelayBadRequest ''Only contract invocations are allowed in this relay'')
      | Some (InvokeContract OtherAddress _ _) \<Rightarrow> Some (RelayBadRequest ''Invalid contract address type: must be a contract ID'')
      | Some (InvokeContract (ContractAddress contractId) _ _) \<Rightarrow>
          if contractId \<noteq> allowedContractId
          then Some (RelayBadRequest (''Transaction directed at unauthorized contract: '' @ contractId @ ''. Only ''
                 @ allowedContractId @ '' is allowed.''))
          else None)"

fun check_operations :: "string \<Rightarrow> tx_operation list \<Rightarrow> relay_error option" where
  "check_operations allowed [] = None"
| "check_operations allowed (op # ops) = (case check_operation allowed op of Some e \<Rightarrow> Some e | None \<Rightarrow> check_operations allowed ops)"

definition validateTransaction :: "int \<Rightarrow> inner_tx \<Rightarrow> config_sys \<Rightarrow> config_sys \<times> relay_error option" where
  "validateTransaction now tx s = (case getSettings now s of
      (s1, None) \<Rightarrow> (s1, Some RelayThrew)
    | (s1, Some r) \<Rightarrow>
        (s1, case st_contractId r of
           None \<Rightarrow> Some (RelayBadRequest ''Relay target contract not configured'')
         | Some allowed \<Rightarrow>
             if allowed = [] then Some (RelayBadRequest ''Relay target contract not configured'')
             else if it_operations tx = [] then Some (RelayBadRequest ''Transaction has no operations'')
             else check_operations allowed (it_operations tx)))"

definition check_time :: "int \<Rightarrow> inner_tx \<Rightarrow> relay_error option" where
  "check_time now tx = (case it_timeBounds tx of
      None \<Rightarrow> None
    | Some (minTime, maxTime) \<Rightarrow>
        (let t = now div 1000
         in if maxTime \<noteq> 0 \<and> t > int maxTime then Some (RelayBadRequest ''Transaction has expired'')
            else if minTime \<noteq> 0 \<and> t < int minTime then Some (RelayBadRequest ''Transaction is not yet valid'')
            else None))"

datatype send_reply = SendThrew string | SendError string | Sent string

text \<open>The wallet's key, if it is configured; the transaction sent is the second result.\<close>

definition sponsorAndSubmit ::
  "string option \<Rightarrow> (string \<Rightarrow> envelope option) \<Rightarrow> (nat \<Rightarrow> inner_tx \<Rightarrow> nat) \<Rightarrow> (envelope \<Rightarrow> send_reply) \<Rightarrow> int \<Rightarrow> string \<Rightarrow> config_sys \<Rightarrow>
   config_sys \<times> envelope option \<times> (relay_error + string)" where
  "sponsorAndSubmit hotWallet from_xdr bump send now xdrString s =
     (case hotWallet of
        None \<Rightarrow> (s, None, Inl (RelayBadRequest ''Relay not configured (missing secret key)''))
      | Some wallet \<Rightarrow>
          (case from_xdr xdrString of
             None \<Rightarrow> (s, None, Inl (RelayBadRequest ''Invalid XDR''))
           | Some tx \<Rightarrow>
               (let innerTx = innerTransaction tx
                in case validateTransaction now innerTx s of
                     (s1, Some e) \<Rightarrow> (s1, None, Inl e)
                   | (s1, None) \<Rightarrow>
                       if it_signatures innerTx = 0
                       then (s1, None, Inl (RelayBadRequest ''Inner transaction must be signed by the user''))
                       else case check_time now innerTx of
                         Some e \<Rightarrow> (s1, None, Inl e)
                       | None \<Rightarrow>
                           (let final = (case tx of
                                FeeBumpTx feeSource fee t \<Rightarrow> if feeSource \<noteq> wallet then None else Some tx
                              | PlainTx t \<Rightarrow> Some (FeeBumpTx wallet (bump (it_fee t + 500) t) t))
                            in case final of
                                 None \<Rightarrow> (s1, None, Inl (RelayBadRequest (''Fee source mismatch. Expected '' @ wallet)))
                               | Some finalTx \<Rightarrow>
                                   (s1, Some finalTx, case send finalTx of
                                      SendThrew msg \<Rightarrow> Inl (RelayBadRequest (''Submission failed: '' @ msg))
                                    | SendError e \<Rightarrow> Inl (RelayBadRequest (''Submission failed: Transaction submission failed: '' @ e))
                                    | Sent hash \<Rightarrow> Inr hash)))))"

subsection \<open>The fee estimate\<close>

record price_cache =
  xc_usd :: jsnum
  xc_expiresAt :: int

text \<open>\<open>reply\<close> is the price service's answer, \<open>None\<close> for a failed request; a missing price is 0.\<close>

definition getXlmUsdPrice :: "int \<Rightarrow> jsnum option option \<Rightarrow> price_cache option \<Rightarrow> price_cache option \<times> jsnum" where
  "getXlmUsdPrice now reply cache =
     (case cache of
        Some c \<Rightarrow> if now < xc_expiresAt c then (cache, xc_usd c)
          else (case reply of
              Some usd \<Rightarrow> (Some \<lparr>xc_usd = nullish usd (Fin 0), xc_expiresAt = now + 60000\<rparr>, nullish usd (Fin 0))
            | None \<Rightarrow> (cache, xc_usd c))
      | None \<Rightarrow>
          (case reply of
              Some usd \<Rightarrow> (Some \<lparr>xc_usd = nullish usd (Fin 0), xc_expiresAt = now + 60000\<rparr>, nullish usd (Fin 0))
            | None \<Rightarrow> (None, Fin 0)))"

record fee_estimate =
  fe_estimatedGasXLM :: string
  fe_estimatedGasUSD :: string
  fe_resourceCost :: jval
  fe_sponsored :: bool

text \<open>\<open>sim\<close>: the minimal resource fee and the cost of a successful simulation.\<close>

definition estimateFee ::
  "(rat \<Rightarrow> string) \<Rightarrow> string option \<Rightarrow> (string \<Rightarrow> envelope option) \<Rightarrow> (inner_tx \<Rightarrow> (nat option \<times> jval) option) \<Rightarrow> int \<Rightarrow>
   jsnum option option \<Rightarrow> string \<Rightarrow> price_cache option \<Rightarrow> price_cache option \<times> (relay_error + fee_estimate)" where
  "estimateFee p hotWallet from_xdr sim now reply xdrString cache =
     (case from_xdr xdrString of
        None \<Rightarrow> (cache, Inl (RelayBadRequest ''Invalid XDR''))
      | Some tx \<Rightarrow>
          (let innerTx = innerTransaction tx;
               (feeStroops, cost) = (case sim innerTx of
                   None \<Rightarrow> (it_fee innerTx, JNull)
                 | Some (minFee, c) \<Rightarrow> (nullish minFee (it_fee innerTx), or_if_nullish c JNull));
               feeXlm = to_fixed p 7 (Fin (of_nat feeStroops / 10000000));
               (cache', usd) = getXlmUsdPrice now reply cache;
               feeUsd = to_fixed p 6 (num_times (parse_float feeXlm) usd)
           in (cache', Inr \<lparr>fe_estimatedGasXLM = feeXlm, fe_estimatedGasUSD = feeUsd, fe_resourceCost = cost,
                 fe_sponsored = (case hotWallet of None \<Rightarrow> False | Some _ \<Rightarrow> True)\<rparr>)))"

subsection \<open>The simulation\<close>

record token_transfer =
  tt_from :: string
  tt_to :: string
  tt_amount :: string
  tt_token :: string

record simulation_result =
  sr_action :: string
  sr_contract_called :: string
  sr_function_called :: string
  sr_token_transfers :: "token_transfer list"
  sr_up_bps :: jsnum
  sr_down_bps :: jsnum
  sr_estimated_payout_if_win :: string
  sr_estimated_gas_xlm :: string
  sr_estimated_gas_usd :: string
  sr_will_succeed :: bool
  sr_error_message :: "string option"

record sim_response =
  sp_error :: "string option"
  sp_minResourceFee :: jval
  sp_fee :: jval
  sp_retval :: "jval option option"

datatype sim_reply = SimulationThrew string | Simulated sim_response

definition big_of :: "(string \<Rightarrow> int option) \<Rightarrow> jval \<Rightarrow> int option" where
  "big_of bigs v = (case v of
      JBig i \<Rightarrow> Some i
    | JNum n \<Rightarrow> (case big_of_num n of Inr i \<Rightarrow> Some i | Inl _ \<Rightarrow> None)
    | JBool b \<Rightarrow> Some (if b then 1 else 0)
    | JStr s \<Rightarrow> bigs s
    | _ \<Rightarrow> None)"

definition parse_operation :: "inner_tx \<Rightarrow> string \<times> string \<times> jval option list \<times> string" where
  "parse_operation tx =
     (let (contractCalled, functionCalled, rawArgs, source) =
        (case it_operations tx of
           [] \<Rightarrow> (''Unknown'', ''unknown'', [], [])
         | op # _ \<Rightarrow>
             (case (if to_type op = ''invokeHostFunction'' then to_func op else None) of
                Some (InvokeContract (ContractAddress c) f args) \<Rightarrow>
                  (c, if f = [] then ''unknown'' else f, args, nullish (to_source op) [])
              | _ \<Rightarrow> (''Unknown'', ''unknown'', [], nullish (to_source op) [])))
      in (contractCalled, functionCalled, rawArgs, if source = [] then it_source tx else source))"

definition readable_error :: "string \<Rightarrow> string" where
  "readable_error simError =
     (let errStr = to_lower simError
      in if js_includes errStr ''insufficient'' \<or> js_includes errStr ''balance'' \<or> js_includes errStr ''underfunded''
            \<or> js_includes errStr ''stake requires''
         then ''Your balance is 50 USDC but the stake requires 100 USDC.''
         else if js_includes errStr ''ended'' \<or> js_includes errStr ''expired'' then ''Market has ended''
         else if js_includes errStr ''settled'' then ''Market is already settled''
         else if js_includes errStr ''cancelled'' then ''Market has been cancelled''
         else if js_includes errStr ''cutoff'' then ''Staking cutoff period active''
         else if simError = [] then ''Simulation failed'' else simError)"

definition action_of :: "string \<Rightarrow> string" where
  "action_of f =
     (if f = ''redeem_shares'' \<or> f = ''withdraw_payout'' then ''claim_payout''
      else if f = ''claim_void_refund'' \<or> f = ''claim_expired_refund'' then ''withdraw_stake''
      else f)"

text \<open>The amount and the side of a stake, and what the screen shows of them.\<close>

definition stake_args :: "(string \<Rightarrow> int option) \<Rightarrow> (jval \<Rightarrow> jsnum) \<Rightarrow> jval option list \<Rightarrow> int \<times> jsnum" where
  "stake_args bigs numo rawArgs =
     (if length rawArgs < 4 then (100, Fin 1)
      else case (rawArgs ! 2, rawArgs ! 3) of
        (Some amtVal, Some posVal) \<Rightarrow>
          (let position = (if posVal = JUndef then Fin 1 else num_of numo posVal)
           in if amtVal = JUndef then (100, position)
              else case big_of bigs amtVal of
                None \<Rightarrow> (100, Fin 1)
              | Some i \<Rightarrow> (i, position))
      | _ \<Rightarrow> (100, Fin 1))"

definition humanAmount :: "(rat \<Rightarrow> string) \<Rightarrow> int \<Rightarrow> string" where
  "humanAmount p stakeAmount =
     (if stakeAmount \<ge> 10000000 then to_fixed p 2 (Fin (of_int stakeAmount / 10000000)) else p (of_int stakeAmount))"

definition stake_preview :: "(rat \<Rightarrow> string) \<Rightarrow> jsnum \<Rightarrow> jsnum \<Rightarrow> jsnum \<times> jsnum \<times> string" where
  "stake_preview p parsedAmount position =
     (let addedNum = (if truthy (JNum parsedAmount) then parsedAmount else Fin 100);
          up = num_eq position (Fin 1);
          totalUp = (if up then num_plus (Fin 500) addedNum else Fin 500);
          totalDown = (if up then Fin 500 else num_plus (Fin 500) addedNum);
          totalPool = num_plus totalUp totalDown;
          up_bps = num_round (num_times (num_divide totalUp totalPool) (Fin 10000));
          userShare = (if up then totalUp else totalDown);
          winPayout = (if num_less (Fin 0) userShare then num_times (num_divide addedNum userShare) totalPool else Fin 0)
      in (up_bps, num_minus (Fin 10000) up_bps, to_fixed p 2 winPayout))"

definition or_text :: "string \<Rightarrow> string \<Rightarrow> string" where
  "or_text a b = (if a = [] then b else a)"

text \<open>The transfers, the two ratios and the payout of an action.\<close>

definition preview ::
  "(rat \<Rightarrow> string) \<Rightarrow> (string \<Rightarrow> int option) \<Rightarrow> (jval \<Rightarrow> jsnum) \<Rightarrow> string \<Rightarrow> string \<Rightarrow> jval option list \<Rightarrow> string \<Rightarrow> jval option option \<Rightarrow>
   token_transfer list \<times> jsnum \<times> jsnum \<times> string" where
  "preview p bigs numo action contractCalled rawArgs user retval =
     (let transfer = (\<lambda>f t amount. [\<lparr>tt_from = f, tt_to = t, tt_amount = amount, tt_token = ''USDC''\<rparr>])
      in if action = ''create_call'' then
           (let amountStr =
              (if length rawArgs \<ge> 2 then
                 (case rawArgs ! 1 of
                    Some parsedNative \<Rightarrow>
                      (if truthy (data_field parsedNative ''stake_amount'')
                       then (case big_of bigs (data_field parsedNative ''stake_amount'') of
                               Some rawVal \<Rightarrow> p (of_int rawVal / 10000000) | None \<Rightarrow> ''100'')
                       else ''100'')
                  | None \<Rightarrow> ''100'')
               else ''100'')
            in (transfer (or_text user ''user_address'') contractCalled amountStr, Fin 5000, Fin 5000, ''0.00''))
         else if action = ''stake_on_call'' then
           (let (stakeAmount, position) = stake_args bigs numo rawArgs;
                human = humanAmount p stakeAmount;
                (up, down, payout) = stake_preview p (parse_float human) position
            in (transfer (or_text user ''staker_address'') contractCalled human, up, down, payout))
         else if action = ''claim_payout'' then
           (let payoutVal = (case retval of
                Some (Some v) \<Rightarrow> (if v = JUndef then ''180.00'' else case big_of bigs v of
                    Some rawPayout \<Rightarrow> to_fixed p 2 (Fin (of_int rawPayout / 10000000)) | None \<Rightarrow> ''180.00'')
              | _ \<Rightarrow> ''180.00'')
            in (transfer contractCalled (or_text user ''redeemer_address'') payoutVal, Fin 0, Fin 0, payoutVal))
         else if action = ''withdraw_stake'' then
           (transfer contractCalled (or_text user ''staker_address'') ''100.00'', Fin 0, Fin 0, ''0.00'')
         else if action = ''cancel_call'' then
           (transfer contractCalled (or_text user ''creator_address'') ''100.00'', Fin 0, Fin 0, ''0.00'')
         else ([], Fin 5000, Fin 5000, ''0.00''))"

text \<open>The cache keeps a result, failed or not, for 30 seconds under the text of the envelope.\<close>

type_synonym sim_cache = "string \<rightharpoonup> simulation_result \<times> int"

definition simulate ::
  "(rat \<Rightarrow> string) \<Rightarrow> (string \<Rightarrow> int option) \<Rightarrow> (jval \<Rightarrow> jsnum) \<Rightarrow> (string \<Rightarrow> envelope option) \<Rightarrow> (inner_tx \<Rightarrow> sim_reply) \<Rightarrow> int \<Rightarrow>
   string \<Rightarrow> sim_cache \<Rightarrow> sim_cache \<times> (relay_error + simulation_result)" where
  "simulate p bigs numo from_xdr rpc now xdr cache =
     (if xdr = [] then (cache, Inl (RelayBadRequest ''XDR string is required''))
      else case (case cache xdr of Some (r, t) \<Rightarrow> if now < t then Some r else None | None \<Rightarrow> None) of
        Some cached \<Rightarrow> (cache, Inr cached)
      | None \<Rightarrow>
          (case from_xdr xdr of
             None \<Rightarrow> (cache, Inl (RelayBadRequest ''Invalid XDR''))
           | Some tx \<Rightarrow>
               (let innerTx = innerTransaction tx;
                    (contractCalled, functionCalled, rawArgs, user) = parse_operation innerTx;
                    reply = rpc innerTx;
                    simError = (case reply of SimulationThrew e \<Rightarrow> Some e | Simulated r \<Rightarrow> map_option (\<lambda>e. or_text e ''Simulation error'') (sp_error r));
                    willSucceed = (simError = None);
                    feeText = (case reply of
                        SimulationThrew _ \<Rightarrow> JStr ''1000''
                      | Simulated r \<Rightarrow> if truthy (sp_minResourceFee r) then sp_minResourceFee r
                          else if truthy (sp_fee r) then sp_fee r else JStr ''1000'');
                    retval = (case reply of SimulationThrew _ \<Rightarrow> None | Simulated r \<Rightarrow> if willSucceed then sp_retval r else None)
                in case big_of bigs feeText of
                     None \<Rightarrow> (cache, Inl RelayThrew)
                   | Some minResourceFeeStroops \<Rightarrow>
                       (let gasXlmNum = of_int minResourceFeeStroops / 10000000;
                            action = action_of functionCalled;
                            (transfers, up, down, payout) = preview p bigs numo action contractCalled rawArgs user retval;
                            result = \<lparr>sr_action = action, sr_contract_called = contractCalled, sr_function_called = functionCalled,
                              sr_token_transfers = transfers, sr_up_bps = up, sr_down_bps = down,
                              sr_estimated_payout_if_win = payout,
                              sr_estimated_gas_xlm = (if gasXlmNum > 0 then to_fixed p 6 (Fin gasXlmNum) else ''0.0001''),
                              sr_estimated_gas_usd = to_fixed p 6 (Fin (gasXlmNum * (15 / 100))),
                              sr_will_succeed = willSucceed, sr_error_message = map_option readable_error simError\<rparr>
                        in (cache(xdr \<mapsto> (result, now + 30000)), Inr result)))))"

subsection \<open>Lemmas\<close>

text \<open>An operation the relay accepts: an invocation of this contract.\<close>

definition invokes :: "string \<Rightarrow> tx_operation \<Rightarrow> bool" where
  "invokes c op \<longleftrightarrow> to_type op = ''invokeHostFunction'' \<and> (\<exists>f args. to_func op = Some (InvokeContract (ContractAddress c) f args))"

lemma check_operation_None: "check_operation c op = None \<longleftrightarrow> invokes c op"
  by (auto simp: check_operation_def invokes_def split: option.split host_function.split sc_address.split)

lemma check_operations_None: "check_operations c ops = None \<longleftrightarrow> list_all (invokes c) ops"
  by (induction ops) (simp_all add: option.case_eq_if check_operation_None)

definition in_time :: "int \<Rightarrow> inner_tx \<Rightarrow> bool" where
  "in_time now tx \<longleftrightarrow> (\<forall>lo hi. it_timeBounds tx = Some (lo, hi) \<longrightarrow>
     (hi \<noteq> 0 \<longrightarrow> now div 1000 \<le> int hi) \<and> (lo \<noteq> 0 \<longrightarrow> int lo \<le> now div 1000))"

lemma check_time_None: "check_time now tx = None \<longleftrightarrow> in_time now tx"
  by (auto simp: check_time_def in_time_def Let_def split: option.split)

lemma validate_None:
  "validateTransaction now tx s = (s', None) \<Longrightarrow>
     \<exists>r c. snd (getSettings now s) = Some r \<and> st_contractId r = Some c \<and> c \<noteq> [] \<and> it_operations tx \<noteq> [] \<and> list_all (invokes c) (it_operations tx)"
  by (auto simp: validateTransaction_def check_operations_None split: prod.splits option.splits if_splits)

lemma preview_up:
  fixes q :: rat
  assumes "0 < q"
  shows "stake_preview p (Fin q) (Fin 1) =
    (let u = \<lfloor>(500 + q) / (1000 + q) * 10000 + 1 / 2\<rfloor> in (Fin (of_int u), Fin (of_int (10000 - u)), to_fixed p 2 (Fin (q / (500 + q) * (1000 + q)))))"
  using assms by (simp add: stake_preview_def Let_def truthy_def add.commute)

lemma preview_down:
  fixes q :: rat
  assumes "0 < q" "\<not> num_eq pos (Fin 1)"
  shows "stake_preview p (Fin q) pos =
    (let u = \<lfloor>500 / (1000 + q) * 10000 + 1 / 2\<rfloor> in (Fin (of_int u), Fin (of_int (10000 - u)), to_fixed p 2 (Fin (q / (500 + q) * (1000 + q)))))"
  using assms by (simp add: stake_preview_def Let_def truthy_def add.commute)

lemma preview_payout_bounds:
  fixes q :: rat
  assumes "0 < q"
  shows "q \<le> q / (500 + q) * (1000 + q)" "q / (500 + q) * (1000 + q) < q + 500"
  using assms by (simp_all add: field_simps)

lemma rounded_share:
  fixes x :: rat
  assumes "0 \<le> x" "x \<le> 1"
  shows "0 \<le> \<lfloor>x * 10000 + 1 / 2\<rfloor>" "\<lfloor>x * 10000 + 1 / 2\<rfloor> \<le> 10000"
  using assms by (auto simp: floor_le_iff)

subsection \<open>Properties\<close>

text \<open>C5: whatever envelope is submitted, what the relay signs and sends is a fee bump paid by its own wallet of a
  transaction that a user has signed, within its time bounds, all of whose operations invoke the contract of the
  platform settings; nothing is reported as relayed that was not sent.\<close>

theorem relay_sends_only_allowed:
  "(\<forall>s' sent r. sponsorAndSubmit hotWallet from_xdr bump send now xdr s = (s', Some sent, r) \<longrightarrow>
      (\<exists>wallet tx fee settings c. hotWallet = Some wallet \<and> from_xdr xdr = Some tx
         \<and> sent = FeeBumpTx wallet fee (innerTransaction tx)
         \<and> 0 < it_signatures (innerTransaction tx) \<and> in_time now (innerTransaction tx)
         \<and> snd (getSettings now s) = Some settings \<and> st_contractId settings = Some c \<and> c \<noteq> []
         \<and> it_operations (innerTransaction tx) \<noteq> [] \<and> list_all (invokes c) (it_operations (innerTransaction tx))
         \<and> (\<forall>t. tx = PlainTx t \<longrightarrow> fee = bump (it_fee t + 500) t)))
   \<and> (\<forall>s' r. sponsorAndSubmit hotWallet from_xdr bump send now xdr s = (s', None, r) \<longrightarrow> isl r)"
proof (intro conjI allI impI)
  fix s' sent r assume a: "sponsorAndSubmit hotWallet from_xdr bump send now xdr s = (s', Some sent, r)"
  obtain wallet where w: "hotWallet = Some wallet" using a by (cases hotWallet) (auto simp: sponsorAndSubmit_def)
  obtain tx where tx: "from_xdr xdr = Some tx" using a w by (cases "from_xdr xdr") (auto simp: sponsorAndSubmit_def)
  obtain s1 e where v: "validateTransaction now (innerTransaction tx) s = (s1, e)" by fastforce
  have e: "e = None" using a w tx v by (cases e) (auto simp: sponsorAndSubmit_def Let_def)
  have sg: "it_signatures (innerTransaction tx) \<noteq> 0"
    using a w tx v e by (auto simp: sponsorAndSubmit_def Let_def split: if_splits)
  have t: "check_time now (innerTransaction tx) = None"
    using a w tx v e sg by (cases "check_time now (innerTransaction tx)") (auto simp: sponsorAndSubmit_def Let_def)
  obtain st c where c: "snd (getSettings now s) = Some st" "st_contractId st = Some c" "c \<noteq> []"
    "it_operations (innerTransaction tx) \<noteq> []" "list_all (invokes c) (it_operations (innerTransaction tx))"
    using validate_None [OF v [unfolded e]] by blast
  have "\<exists>fee. sent = FeeBumpTx wallet fee (innerTransaction tx) \<and> (\<forall>t. tx = PlainTx t \<longrightarrow> fee = bump (it_fee t + 500) t)"
    using a w tx v e sg t
    by (cases tx) (auto simp: sponsorAndSubmit_def Let_def innerTransaction_def split: if_splits)
  then show "\<exists>wallet tx fee settings c. hotWallet = Some wallet \<and> from_xdr xdr = Some tx
         \<and> sent = FeeBumpTx wallet fee (innerTransaction tx)
         \<and> 0 < it_signatures (innerTransaction tx) \<and> in_time now (innerTransaction tx)
         \<and> snd (getSettings now s) = Some settings \<and> st_contractId settings = Some c \<and> c \<noteq> []
         \<and> it_operations (innerTransaction tx) \<noteq> [] \<and> list_all (invokes c) (it_operations (innerTransaction tx))
         \<and> (\<forall>t. tx = PlainTx t \<longrightarrow> fee = bump (it_fee t + 500) t)"
    using w tx sg t c by (auto simp: check_time_None)
next
  fix s' r assume "sponsorAndSubmit hotWallet from_xdr bump send now xdr s = (s', None, r)"
  then show "isl r"
    by (auto simp: sponsorAndSubmit_def Let_def split: option.splits prod.splits if_splits envelope.splits)
qed

text \<open>The relay does not bound the fee it pays: a fee bump that names the wallet is signed with the fee its
  sender wrote, so if one is accepted it is accepted with any fee.\<close>

theorem relay_fee_is_the_senders:
  assumes "sponsorAndSubmit (Some wallet) (\<lambda>_. Some (FeeBumpTx wallet fee t)) bump send now xdr s = (s', Some sent, r)"
  shows "sent = FeeBumpTx wallet fee t
    \<and> (\<forall>other. \<exists>r'. sponsorAndSubmit (Some wallet) (\<lambda>_. Some (FeeBumpTx wallet other t)) bump send now xdr s
        = (s', Some (FeeBumpTx wallet other t), r'))"
proof -
  obtain s1 e where v: "validateTransaction now t s = (s1, e)" by fastforce
  show ?thesis
    by (cases e; cases "check_time now t")
      (use assms v in \<open>auto simp: sponsorAndSubmit_def Let_def innerTransaction_def split: if_splits\<close>)
qed

text \<open>The ratios shown for a stake of a positive amount are two shares of 10000 that add up to it, the staked
  side at least half of the pool, and the payout shown is at least the stake and less than the stake plus the other
  side's base of 500.\<close>

theorem preview_ratios_sound:
  assumes "0 < q"
  shows "\<exists>up w. stake_preview p (Fin q) position = (Fin (of_int up), Fin (of_int (10000 - up)), to_fixed p 2 (Fin w))
    \<and> 0 \<le> up \<and> up \<le> 10000 \<and> (num_eq position (Fin 1) \<longrightarrow> 5000 \<le> up) \<and> q \<le> w \<and> w < q + 500"
proof (cases "num_eq position (Fin 1)")
  case True
  then have pos: "position = Fin 1" by (cases position) auto
  let ?x = "(500 + q) / (1000 + q)"
  have x: "0 \<le> ?x" "?x \<le> 1" using assms by (simp_all add: field_simps)
  have "5000 \<le> ?x * 10000" using assms by (simp add: field_simps)
  then have "5000 \<le> \<lfloor>?x * 10000 + 1 / 2\<rfloor>" by (simp add: le_floor_iff)
  then show ?thesis using preview_up [OF assms, of p] rounded_share [OF x] preview_payout_bounds [OF assms] pos
    by (intro exI [of _ "\<lfloor>?x * 10000 + 1 / 2\<rfloor>"] exI [of _ "q / (500 + q) * (1000 + q)"]) (simp add: Let_def)
next
  case False
  let ?x = "500 / (1000 + q)"
  have x: "0 \<le> ?x" "?x \<le> 1" using assms by (simp_all add: field_simps)
  show ?thesis using preview_down [OF assms False, of p] rounded_share [OF x] preview_payout_bounds [OF assms] False
    by (intro exI [of _ "\<lfloor>?x * 10000 + 1 / 2\<rfloor>"] exI [of _ "q / (500 + q) * (1000 + q)"]) (simp add: Let_def)
qed

definition sample_tx :: inner_tx where
  "sample_tx = \<lparr>it_source = ''U'', it_fee = 100, it_operations = [\<lparr>to_type = ''invokeHostFunction'',
     to_func = Some (InvokeContract (ContractAddress ''C'') ''stake_on_call'' []), to_source = None\<rparr>], it_signatures = 1, it_timeBounds = None\<rparr>"

definition sample_settings :: config_sys where
  "sample_settings = \<lparr>cf_row = Some (default_settings \<lparr>ce_feePercent = None, ce_contractId = Some ''C'', ce_oracleContractId = None\<rparr>),
     cf_cache = None, cf_emitted = []\<rparr>"

lemma sample_accepted:
  "\<exists>s' r. sponsorAndSubmit (Some ''W'') (\<lambda>_. Some (FeeBumpTx ''W'' fee sample_tx)) bump send 1000 ''x'' sample_settings
     = (s', Some (FeeBumpTx ''W'' fee sample_tx), r)"
  by (simp add: sponsorAndSubmit_def innerTransaction_def sample_tx_def validateTransaction_def getSettings_def sample_settings_def
      default_settings_def check_operation_def check_time_def Let_def)

theorem relay_sends_only_allowed_witness:
  "\<exists>s' sent r. sponsorAndSubmit (Some ''W'') (\<lambda>_. Some (FeeBumpTx ''W'' 7 sample_tx)) (\<lambda>f t. f) (\<lambda>_. Sent ''h'') 1000 ''x'' sample_settings
     = (s', Some sent, r) \<and> (\<exists>fee. sent = FeeBumpTx ''W'' fee sample_tx)"
proof -
  obtain s' r where x: "sponsorAndSubmit (Some ''W'') (\<lambda>_. Some (FeeBumpTx ''W'' 7 sample_tx)) (\<lambda>f t. f) (\<lambda>_. Sent ''h'') 1000 ''x'' sample_settings
     = (s', Some (FeeBumpTx ''W'' 7 sample_tx), r)" using sample_accepted by blast
  from relay_sends_only_allowed [THEN conjunct1, rule_format, OF x]
  show ?thesis using x by (auto simp: innerTransaction_def)
qed

theorem relay_fee_is_the_senders_witness:
  "\<exists>s' r. sponsorAndSubmit (Some ''W'') (\<lambda>_. Some (FeeBumpTx ''W'' 1000000000000 sample_tx)) (\<lambda>f t. f) (\<lambda>_. Sent ''h'') 1000 ''x'' sample_settings
     = (s', Some (FeeBumpTx ''W'' 1000000000000 sample_tx), r)"
proof -
  obtain s' r where x: "sponsorAndSubmit (Some ''W'') (\<lambda>_. Some (FeeBumpTx ''W'' 7 sample_tx)) (\<lambda>f t. f) (\<lambda>_. Sent ''h'') 1000 ''x'' sample_settings
     = (s', Some (FeeBumpTx ''W'' 7 sample_tx), r)" using sample_accepted by blast
  from relay_fee_is_the_senders [OF x] show ?thesis by blast
qed

theorem preview_ratios_sound_witness:
  "\<exists>up w. stake_preview (\<lambda>_. []) (Fin 25) (Fin 1) = (Fin (of_int up), Fin (of_int (10000 - up)), to_fixed (\<lambda>_. []) 2 (Fin w))
    \<and> 5000 \<le> up \<and> 25 \<le> w"
  using preview_ratios_sound [of 25 "\<lambda>_. []" "Fin 1"] by auto

end
