(* ===== verification/ContractErrors.thy ===== *)
theory ContractErrors
  imports JsValue
begin

text \<open>
  \<^verbatim>\<open>packages/backend/src/indexer/contract-errors.generated.ts\<close>: the errors each contract can raise, by
  contract and code. A dash of the message of \<open>NoFeesAvailable\<close> and the sign of one of \<open>call_registry\<close> lie
  beyond the 256 code units of the model; they are written \<open>--\<close> and \<open><=\<close>.
\<close>

record error_definition =
  df_code :: nat
  df_name :: string
  df_message :: string

record contract_error_enum =
  ee_contract :: string
  ee_enumName :: string
  ee_errors :: "(nat \<times> error_definition) list"

definition error_def :: "nat \<Rightarrow> string \<Rightarrow> string \<Rightarrow> nat \<times> error_definition" where
  "error_def c n m = (c, \<lparr>df_code = c, df_name = n, df_message = m\<rparr>)"

definition backit_token_errors :: contract_error_enum where
  "backit_token_errors = \<lparr>ee_contract = ''backit_token'', ee_enumName = ''BackitError'', ee_errors = [
    error_def 1 ''AlreadyInitialized'' ''Initialize called on an already-initialised contract.'',
    error_def 2 ''NotInitialized'' ''A function requiring initialisation was called before initialize.'',
    error_def 3 ''Unauthorized'' ''Caller is not authorised for this operation.'',
    error_def 4 ''ZeroBalance'' ''The holder has no tokens and therefore no revenue share to claim.'',
    error_def 5 ''NoFeesAvailable'' ''The fee pool is empty -- nothing to distribute.'',
    error_def 6 ''AlreadyStaked'' ''The staker already has an active stake.'',
    error_def 7 ''NotStaked'' ''No active stake found for this address.'',
    error_def 8 ''LockNotExpired'' ''The stake lock period has not yet expired.'',
    error_def 9 ''InvalidAmount'' ''Amount is invalid (zero or negative).'',
    error_def 10 ''InsufficientBalance'' ''Insufficient token balance for the requested operation.'',
    error_def 11 ''InvalidLockDuration'' ''Lock duration provided is zero.'',
    error_def 12 ''UsdcNotConfigured'' ''USDC SAC address has not been configured.'']\<rparr>"

definition call_registry_errors :: contract_error_enum where
  "call_registry_errors = \<lparr>ee_contract = ''call_registry'', ee_enumName = ''CallRegistryError'', ee_errors = [
    error_def 1 ''AlreadyInitialized'' ''Initialize was called on an already-initialised contract.'',
    error_def 2 ''NotInitialized'' ''A function that requires the contract to be initialised was called before initialize.'',
    error_def 3 ''InvalidStakeAmount'' ''stake_amount (or the amount passed to stake_on_call) is <= 0.'',
    error_def 4 ''InvalidEndTime'' ''end_ts is not strictly in the future relative to the current ledger timestamp.'',
    error_def 5 ''CallNotFound'' ''No call exists for the supplied call_id.'',
    error_def 6 ''CallEnded'' ''The call's end_ts has already passed; staking is no longer allowed.'',
    error_def 7 ''CallSettled'' ''The call has already been settled; the operation is a no-op.'',
    error_def 8 ''InvalidPosition'' ''Position is not 1 (UP) or 2 (DOWN).'',
    error_def 9 ''Unauthorized'' ''The caller does not hold the required role (admin / outcome_manager).'',
    error_def 10 ''ContractPaused'' ''Reserved for a future pause mechanism; no operations are permitted while paused.'',
    error_def 11 ''CallNotEnded'' ''resolve_call was called before end_ts has passed.'',
    error_def 12 ''InvalidOutcome'' ''Outcome passed to resolve_call is not 1 (UP) or 2 (DOWN).'',
    error_def 13 ''InvalidOutcomeCount'' ''outcome_count is less than 2.'',
    error_def 14 ''FeeTooHigh'' ''fee_bps exceeds 10 000 (100 %).'',
    error_def 15 ''StakingCutoffActive'' ''Staking attempted within the cutoff window before end_ts.'',
    error_def 16 ''Sep10TokenExpired'' ''The SEP-10 token's valid_until ledger sequence has passed.'',
    error_def 17 ''ReentrancyDetected'' ''Re-entrant call detected on a guarded function.'',
    error_def 18 ''Overflow'' ''A checked arithmetic operation (multiplication, division, addition, or subtraction) would have overflowed/underflowed or divided by zero. Raised by the reputation-weighted stake-limit calculations and any other checked-math call sites in this crate.'',
    error_def 20 ''NotFound'' ''Generic not found error for requested entity (e.g., proposal).'',
    error_def 21 ''InvalidInput'' ''Invalid input was provided to the operation.'',
    error_def 22 ''NotReady'' ''The operation is not ready to be executed yet (timelock not expired).'']\<rparr>"

definition charity_markets_errors :: contract_error_enum where
  "charity_markets_errors = \<lparr>ee_contract = ''charity_markets'', ee_enumName = ''CharityError'', ee_errors = [
    error_def 1 ''NotInitialized'' ''Not initialized.'',
    error_def 2 ''AlreadyInitialized'' ''Already initialized.'',
    error_def 3 ''Unauthorized'' ''Unauthorized.'',
    error_def 4 ''InvalidCharity'' ''Invalid charity.'',
    error_def 5 ''AlreadyResolved'' ''Already resolved.'',
    error_def 6 ''CharitySplitExceedsMax'' ''Charity split exceeds max.'',
    error_def 7 ''CallNotFound'' ''Call not found.'',
    error_def 8 ''InvalidOutcome'' ''Invalid outcome.'',
    error_def 9 ''InvalidStakeAmount'' ''Invalid stake amount.'',
    error_def 10 ''InvalidCallId'' ''Invalid call id.'',
    error_def 11 ''ZeroPool'' ''Zero pool.'',
    error_def 12 ''CharitySplitTooLow'' ''Charity split too low.'',
    error_def 13 ''CharityNotWhitelisted'' ''Charity not whitelisted.'']\<rparr>"

definition cross_chain_oracle_relay_errors :: contract_error_enum where
  "cross_chain_oracle_relay_errors = \<lparr>ee_contract = ''cross_chain_oracle_relay'', ee_enumName = ''OracleRelayError'', ee_errors = [
    error_def 1 ''AlreadyInitialized'' ''Already initialized.'',
    error_def 2 ''NotInitialized'' ''Not initialized.'',
    error_def 3 ''Unauthorized'' ''Unauthorized.'',
    error_def 4 ''UnauthorizedRelayer'' ''Unauthorized relayer.'',
    error_def 5 ''InvalidBlockHeader'' ''Invalid block header.'',
    error_def 6 ''MerkleProofVerificationFailed'' ''Merkle proof verification failed.'',
    error_def 7 ''PriceOutOfRange'' ''Price out of range.'',
    error_def 8 ''InsufficientSignatures'' ''Insufficient signatures.'',
    error_def 9 ''BlockAlreadyRelayed'' ''Block already relayed.'']\<rparr>"

definition dutch_auction_errors :: contract_error_enum where
  "dutch_auction_errors = \<lparr>ee_contract = ''dutch_auction'', ee_enumName = ''DutchAuctionError'', ee_errors = [
    error_def 1 ''AlreadyInitialized'' ''Already initialized.'',
    error_def 2 ''NotInitialized'' ''Not initialized.'',
    error_def 3 ''AuctionNotStarted'' ''Auction not started.'',
    error_def 4 ''AuctionAlreadySettled'' ''Auction already settled.'',
    error_def 5 ''CallNotEligible'' ''Call not eligible.'',
    error_def 6 ''OracleDeadlineNotMet'' ''Oracle deadline not met.'',
    error_def 7 ''Unauthorized'' ''Unauthorized.'',
    error_def 8 ''InvalidParams'' ''Invalid params.'',
    error_def 9 ''Overflow'' ''Overflow.'',
    error_def 10 ''InvalidPrice'' ''Invalid price.'',
    error_def 11 ''UnknownConditionType'' ''Unknown condition type.'']\<rparr>"

definition gas_station_errors :: contract_error_enum where
  "gas_station_errors = \<lparr>ee_contract = ''gas_station'', ee_enumName = ''GasStationError'', ee_errors = [
    error_def 1 ''NotInitialized'' ''A function requiring initialization was called before initialize.'',
    error_def 2 ''AlreadyInitialized'' ''Initialize was called on an already-initialized contract.'',
    error_def 3 ''Unauthorized'' ''The caller-supplied admin address does not match the stored admin.'',
    error_def 4 ''InvalidWinningCutBps'' ''winning_cut_bps exceeds 10 000 (100%).'',
    error_def 5 ''InvalidGasAmount'' ''max_gas_xlm (or an effective-stake gas estimate) is not positive, or would make the effective stake negative.'',
    error_def 6 ''UserNotSponsored'' ''User has no active sponsorship registered with this gas station.'',
    error_def 7 ''CallAlreadyProcessed'' ''This call_id has already had its sponsored payout processed.'',
    error_def 8 ''InvalidWinningStake'' ''staker_winning_stake is 0 or negative; there is nothing to claim.'',
    error_def 9 ''Overflow'' ''An arithmetic operation overflowed; the transaction is reverted.'',
    error_def 10 ''InvalidRefillAmount'' ''refill_gas_pool was called with a non-positive amount.'']\<rparr>"

definition governance_errors :: contract_error_enum where
  "governance_errors = \<lparr>ee_contract = ''governance'', ee_enumName = ''GovernanceError'', ee_errors = [
    error_def 1 ''AlreadyInitialized'' ''Already initialized.'',
    error_def 2 ''NotInitialized'' ''Not initialized.'',
    error_def 3 ''Unauthorized'' ''Unauthorized.'',
    error_def 4 ''ProposalNotFound'' ''Proposal not found.'',
    error_def 5 ''AlreadyVoted'' ''Already voted.'',
    error_def 6 ''ProposalInactive'' ''Proposal inactive.'',
    error_def 7 ''VotingPeriodEnded'' ''Voting period ended.'',
    error_def 8 ''InsufficientReputation'' ''Insufficient reputation.'',
    error_def 9 ''AlreadyExecuted'' ''Already executed.'',
    error_def 10 ''ProposalNotPassed'' ''Proposal not passed.'',
    error_def 11 ''QuorumNotMet'' ''Quorum not met.'',
    error_def 12 ''AlreadyDelegated'' ''Already delegated.'',
    error_def 13 ''SelfDelegation'' ''Self delegation.'',
    error_def 30 ''InvalidSplit'' ''Fee split basis points do not sum to 10 000.'',
    error_def 31 ''NotEnoughSigners'' ''Fewer distinct treasury signers authorised the call than the threshold.'',
    error_def 32 ''InvalidAmount'' ''Invalid amount.'',
    error_def 33 ''InsufficientBucket'' ''The bucket holds less than the requested amount.'',
    error_def 34 ''InvalidTreasuryConfig'' ''Invalid treasury config.'']\<rparr>"

definition index_fund_errors :: contract_error_enum where
  "index_fund_errors = \<lparr>ee_contract = ''index_fund'', ee_enumName = ''IndexFundError'', ee_errors = [
    error_def 1 ''AlreadyInitialized'' ''Already initialized.'',
    error_def 2 ''NotInitialized'' ''Not initialized.'',
    error_def 3 ''Unauthorized'' ''Unauthorized.'',
    error_def 4 ''InsufficientLiquidity'' ''Insufficient liquidity.'',
    error_def 5 ''InvalidAmount'' ''Invalid amount.'',
    error_def 6 ''RebalanceTooFrequent'' ''Rebalance too frequent.'',
    error_def 7 ''MarketNotFound'' ''Market not found.'',
    error_def 8 ''NavCalculationError'' ''Nav calculation error.'',
    error_def 9 ''ZeroSupply'' ''Zero supply.'',
    error_def 10 ''FeeTooHigh'' ''Fee too high.'',
    error_def 11 ''IndexFull'' ''Index full.'',
    error_def 12 ''MarketNotResolved'' ''Market not resolved.'',
    error_def 13 ''TransferFailed'' ''Transfer failed.'',
    error_def 14 ''DuplicateMarket'' ''Duplicate market.'']\<rparr>"

definition lending_pool_errors :: contract_error_enum where
  "lending_pool_errors = \<lparr>ee_contract = ''lending_pool'', ee_enumName = ''LendingPoolError'', ee_errors = [
    error_def 1 ''AlreadyInitialized'' ''Already initialized.'',
    error_def 2 ''NotInitialized'' ''Not initialized.'',
    error_def 3 ''InvalidAmount'' ''Invalid amount.'',
    error_def 4 ''BelowMinDeposit'' ''Below min deposit.'',
    error_def 5 ''PoolFull'' ''Pool full.'',
    error_def 6 ''InsufficientShares'' ''Insufficient shares.'',
    error_def 7 ''ZeroSupply'' ''Zero supply.'',
    error_def 8 ''InsufficientLiquidity'' ''Insufficient liquidity.'',
    error_def 9 ''Overflow'' ''Overflow.'',
    error_def 10 ''PoolTooSmall'' ''Pool too small.'',
    error_def 11 ''EmptyInput'' ''Empty input.'',
    error_def 12 ''AllocationNotFound'' ''Allocation not found.'',
    error_def 13 ''AlreadyHarvested'' ''Already harvested.'',
    error_def 14 ''MarketNotResolved'' ''Market not resolved.'',
    error_def 15 ''MarketCallFailed'' ''Market call failed.'',
    error_def 16 ''Unauthorized'' ''Unauthorized.'',
    error_def 17 ''InvalidBps'' ''Invalid bps.'',
    error_def 18 ''InvalidConfig'' ''Invalid config.'']\<rparr>"

definition oracle_marketplace_errors :: contract_error_enum where
  "oracle_marketplace_errors = \<lparr>ee_contract = ''oracle_marketplace'', ee_enumName = ''OracleMarketplaceError'', ee_errors = [
    error_def 1 ''AlreadyInitialized'' ''Already initialized.'',
    error_def 2 ''NotInitialized'' ''Not initialized.'',
    error_def 3 ''Unauthorized'' ''Unauthorized.'',
    error_def 4 ''OracleAlreadyRegistered'' ''Oracle already registered.'',
    error_def 5 ''OracleNotFound'' ''Oracle not found.'',
    error_def 6 ''OracleNotActive'' ''Oracle not active.'',
    error_def 7 ''InsufficientStake'' ''Insufficient stake.'',
    error_def 8 ''CooldownActive'' ''Cooldown active.'',
    error_def 9 ''InvalidFee'' ''Invalid fee.'',
    error_def 10 ''CallNotFound'' ''Call not found.'',
    error_def 11 ''OracleNotSelectedForCall'' ''Oracle not selected for call.'',
    error_def 12 ''AlreadyRated'' ''Already rated.'',
    error_def 13 ''InvalidRating'' ''Invalid rating.'',
    error_def 14 ''OracleNotLive'' ''The oracle has not sent a heartbeat recently and is not routed new markets.'',
    error_def 15 ''AlreadyResolved'' ''A resolution was already recorded for this call.'',
    error_def 16 ''InsufficientBonusPool'' ''The bonus pool holds less than the bonus owed.'',
    error_def 17 ''BonusTokenNotSet'' ''No bonus token has been configured.'',
    error_def 18 ''InvalidAmount'' ''Invalid amount.'']\<rparr>"

definition orderbook_errors :: contract_error_enum where
  "orderbook_errors = \<lparr>ee_contract = ''orderbook'', ee_enumName = ''OrderbookError'', ee_errors = [
    error_def 1 ''AlreadyInitialized'' ''Already initialized.'',
    error_def 2 ''NotInitialized'' ''Not initialized.'',
    error_def 3 ''Unauthorized'' ''Unauthorized.'',
    error_def 4 ''InvalidAmount'' ''Invalid amount.'',
    error_def 5 ''InvalidPrice'' ''Invalid price.'',
    error_def 6 ''OrderNotFound'' ''Order not found.'',
    error_def 7 ''InsufficientBalance'' ''Insufficient balance.'',
    error_def 8 ''SelfTrading'' ''Self trading.'',
    error_def 9 ''MaxMatchesReached'' ''Max matches reached.'',
    error_def 10 ''TokenNotSet'' ''Token not set.'',
    error_def 11 ''InsufficientShares'' ''Insufficient shares.'',
    error_def 12 ''Overflow'' ''Overflow.'']\<rparr>"

definition outcome_manager_errors :: contract_error_enum where
  "outcome_manager_errors = \<lparr>ee_contract = ''outcome_manager'', ee_enumName = ''OutcomeError'', ee_errors = [
    error_def 1 ''AlreadyInitialized'' ''Initialize was called on an already-initialized contract.'',
    error_def 2 ''InvalidQuorum'' ''Quorum is 0 or exceeds the current oracle count.'',
    error_def 3 ''UnauthorizedOracle'' ''The oracle public key is not in the trusted oracle set.'',
    error_def 4 ''AlreadySettled'' ''Quorum was already reached; the call outcome is already settled.'',
    error_def 5 ''DuplicateSubmission'' ''This oracle already submitted a vote for the given call_id.'',
    error_def 6 ''InvalidOutcome'' ''The outcome value is not within 1, outcome_count.'',
    error_def 7 ''CallNotSettled'' ''claim_payout was called before quorum was reached.'',
    error_def 8 ''AlreadyClaimed'' ''The staker has already claimed their payout for this call_id.'',
    error_def 9 ''NothingToClaim'' ''The staker's winning stake is 0; there is nothing to claim.'',
    error_def 10 ''InvalidWinningStake'' ''total_winning_stake is 0 or negative; payout cannot be calculated.'',
    error_def 11 ''Overflow'' ''An arithmetic operation overflowed; the transaction is reverted.'',
    error_def 12 ''CallNotFinalized'' ''No pending outcome exists, or the dispute window has not yet elapsed.'',
    error_def 13 ''InvalidFeeBps'' ''fee_bps exceeds 10 000 (100%).'',
    error_def 14 ''ContractPaused'' ''The contract is paused; submit_outcome and claim_payout are blocked.'',
    error_def 15 ''MaxOraclesReached'' ''Adding an oracle would exceed the MAX_ORACLES cap of 20.'',
    error_def 16 ''SubmissionWindowExpired'' ''The oracle's timestamp is after call_end_ts + max_submission_delay.'',
    error_def 17 ''EmptyBatch'' ''batch_claim_payouts was called with an empty stakers vec.'',
    error_def 18 ''LengthMismatch'' ''Stakers and stakes vecs passed to batch_claim_payouts differ in length.'',
    error_def 19 ''NotInitialized'' ''A function requiring initialization was called before initialize.'',
    error_def 20 ''FeeCollectorNotSet'' ''A fee collector address has not been set yet.'',
    error_def 21 ''ObservationOutOfOrder'' ''A price observation was submitted out of chronological order.'',
    error_def 22 ''InsufficientPriceObservations'' ''compute_twap was called but fewer than 3 price observations are stored.'',
    error_def 23 ''NoPriceObservations'' ''compute_twap was called but no price observations exist for this call.'',
    error_def 24 ''ZeroTimeWindow'' ''All stored observations share the same timestamp; TWAP window is zero.'',
    error_def 25 ''RegistryNotSet'' ''The CallRegistry address has not been set in instance storage.'',
    error_def 26 ''DisputeWindowExpired'' ''dispute_outcome was called after the dispute window has already closed.'',
    error_def 27 ''FactoryNotSet'' ''The factory address has not been set in instance storage.'',
    error_def 28 ''InvalidMarket'' ''The market address does not match the factory's registry for this call_id.'',
    error_def 29 ''ObservationOutsideWindow'' ''A price observation's timestamp falls outside call_end_ts - twap_window_secs, call_end_ts.'',
    error_def 30 ''NotRecoveryAgent'' ''claim_on_behalf was called by an address that is not the original winner's designated recovery address (or none has been set).'',
    error_def 31 ''RecoveryGracePeriodNotElapsed'' ''claim_on_behalf was called before recovery_grace_period has elapsed since the call was settled.'',
    error_def 32 ''DuplicateOracleObservation'' ''The same oracle submitted a second resolution observation for the same call_id via submit_resolution_observation.'',
    error_def 33 ''ReplayedSubmission'' ''This exact signed outcome was already accepted by this deployment. Unlike DuplicateSubmission (temporary storage, can expire) this record is permanent.'']\<rparr>"

definition parlay_betting_errors :: contract_error_enum where
  "parlay_betting_errors = \<lparr>ee_contract = ''parlay_betting'', ee_enumName = ''ParlayError'', ee_errors = [
    error_def 1 ''AlreadyInitialized'' ''Already initialized.'',
    error_def 2 ''NotInitialized'' ''Not initialized.'',
    error_def 3 ''InvalidLegCount'' ''Invalid leg count.'',
    error_def 4 ''InvalidStakeAmount'' ''Invalid stake amount.'',
    error_def 5 ''InvalidOutcome'' ''Invalid outcome.'',
    error_def 6 ''ParlayNotFound'' ''Parlay not found.'',
    error_def 7 ''ParlayNotActive'' ''Parlay not active.'',
    error_def 8 ''LegNotResolved'' ''Leg not resolved.'',
    error_def 9 ''MarketCallFailed'' ''Market call failed.'',
    error_def 10 ''ContractPaused'' ''Contract paused.'']\<rparr>"

definition prediction_market_errors :: contract_error_enum where
  "prediction_market_errors = \<lparr>ee_contract = ''prediction_market'', ee_enumName = ''MarketError'', ee_errors = [
    error_def 1 ''AlreadyInitialized'' ''Already initialized.'',
    error_def 2 ''NotInitialized'' ''Not initialized.'',
    error_def 3 ''InvalidStakeAmount'' ''Invalid stake amount.'',
    error_def 4 ''InvalidEndTime'' ''Invalid end time.'',
    error_def 5 ''CallNotFound'' ''Call not found.'',
    error_def 6 ''CallEnded'' ''Call ended.'',
    error_def 7 ''CallSettled'' ''Call settled.'',
    error_def 8 ''InvalidPosition'' ''Invalid position.'',
    error_def 9 ''Unauthorized'' ''Unauthorized.'',
    error_def 10 ''ContractPaused'' ''Contract paused.'',
    error_def 11 ''CallNotEnded'' ''Call not ended.'',
    error_def 12 ''InvalidOutcome'' ''Invalid outcome.'',
    error_def 13 ''InvalidOutcomeCount'' ''Invalid outcome count.'',
    error_def 15 ''StakingCutoffActive'' ''Staking cutoff active.'',
    error_def 16 ''InvalidCallId'' ''Invalid call id.'',
    error_def 17 ''ReserveDiscrepancy'' ''Reserve discrepancy.'',
    error_def 18 ''NotEligibleForBonus'' ''Not eligible for bonus.'',
    error_def 19 ''Overflow'' ''Checked arithmetic overflowed.'',
    error_def 20 ''OrderNotFound'' ''No limit order exists with the given id.'',
    error_def 21 ''NotOrderOwner'' ''Caller is not the owner of the limit order.'',
    error_def 22 ''InvalidTargetProbability'' ''target_implied_probability_bps is out of the valid 0..=10_000 range.'',
    error_def 23 ''InvalidOrderTTL'' ''ttl_secs is zero or exceeds the maximum allowed order lifetime.'',
    error_def 24 ''OrderNotExpired'' ''The order has not yet expired, so it cannot be force-refunded.'',
    error_def 25 ''InvalidRolloverPercentage'' ''Rollover percentage exceeds 100% (10_000 bps).'',
    error_def 26 ''NoWinningStake'' ''User has no stake on the winning outcome.'',
    error_def 27 ''RolloverInsufficientAmount'' ''Rollover amount is below the minimum stake for the new market.'',
    error_def 28 ''CallNotSettled'' ''The call has not been settled yet.'']\<rparr>"

definition prediction_market_factory_errors :: contract_error_enum where
  "prediction_market_factory_errors = \<lparr>ee_contract = ''prediction_market_factory'', ee_enumName = ''FactoryError'', ee_errors = [
    error_def 1 ''AlreadyInitialized'' ''Already initialized.'',
    error_def 2 ''NotInitialized'' ''Not initialized.'',
    error_def 3 ''Unauthorized'' ''Unauthorized.'',
    error_def 4 ''InvalidStakeAmount'' ''Invalid stake amount.'',
    error_def 5 ''InvalidEndTime'' ''Invalid end time.'',
    error_def 6 ''InvalidOutcomeCount'' ''Invalid outcome count.'',
    error_def 7 ''TokenNotWhitelisted'' ''Token not whitelisted.'',
    error_def 8 ''ContractPaused'' ''Contract paused.'',
    error_def 9 ''MarketWasmNotSet'' ''Market wasm not set.'',
    error_def 10 ''MarketNotFound'' ''Market not found.'',
    error_def 11 ''StrategyNotFound'' ''Strategy not found.'',
    error_def 12 ''StrategyAlreadyExecuted'' ''Strategy already executed.'',
    error_def 13 ''StrategyCancelled'' ''Strategy cancelled.'',
    error_def 14 ''StrategyExpired'' ''Strategy expired.'',
    error_def 15 ''TooManyActions'' ''Too many actions.'',
    error_def 16 ''StrategyNotExecutable'' ''Strategy not executable.'']\<rparr>"

definition prediction_market_futures_errors :: contract_error_enum where
  "prediction_market_futures_errors = \<lparr>ee_contract = ''prediction_market_futures'', ee_enumName = ''FuturesError'', ee_errors = [
    error_def 1 ''AlreadyInitialized'' ''Already initialized.'',
    error_def 2 ''NotInitialized'' ''Not initialized.'',
    error_def 3 ''ContractNotFound'' ''Contract not found.'',
    error_def 4 ''ContractAlreadySettled'' ''Contract already settled.'',
    error_def 5 ''NoCounterparty'' ''No counterparty.'',
    error_def 6 ''CounterpartyAlreadyAssigned'' ''Counterparty already assigned.'',
    error_def 7 ''ContractExpired'' ''Contract expired.'',
    error_def 8 ''ContractNotExpired'' ''Contract not expired.'',
    error_def 9 ''InvalidMargin'' ''Invalid margin.'',
    error_def 10 ''InvalidStrikeProbability'' ''Invalid strike probability.'',
    error_def 11 ''InvalidExpiry'' ''Invalid expiry.'',
    error_def 12 ''InvalidOutcome'' ''Invalid outcome.'',
    error_def 13 ''MarketNotFound'' ''Market not found.'',
    error_def 14 ''Overflow'' ''Overflow.'',
    error_def 15 ''Unauthorized'' ''Unauthorized.'']\<rparr>"

definition reputation_nft_errors :: contract_error_enum where
  "reputation_nft_errors = \<lparr>ee_contract = ''reputation_nft'', ee_enumName = ''ReputationError'', ee_errors = [
    error_def 1 ''AlreadyInitialized'' ''Already initialized.'',
    error_def 2 ''NotInitialized'' ''Not initialized.'',
    error_def 3 ''Unauthorized'' ''Unauthorized.'',
    error_def 4 ''BadgeAlreadyAwarded'' ''Badge already awarded.'',
    error_def 5 ''TransferNotAllowed'' ''Transfer not allowed.'',
    error_def 6 ''InvalidBadgeType'' ''Invalid badge type.'',
    error_def 7 ''NonTransferable'' ''Badges are soulbound: transfer and transfer_from always fail with this.'',
    error_def 8 ''BadgeNotFound'' ''Badge not found.'',
    error_def 9 ''InvalidTier'' ''Tier must be between 1 and 5.'']\<rparr>"

definition schelling_oracle_errors :: contract_error_enum where
  "schelling_oracle_errors = \<lparr>ee_contract = ''schelling_oracle'', ee_enumName = ''OracleError'', ee_errors = [
    error_def 1 ''AlreadyInitialized'' ''Already initialized.'',
    error_def 2 ''NotInitialized'' ''Not initialized.'',
    error_def 3 ''Unauthorized'' ''Unauthorized.'',
    error_def 4 ''InvalidPeriod'' ''Invalid period.'',
    error_def 5 ''InvalidBondBps'' ''Invalid bond bps.'',
    error_def 6 ''InvalidOutcome'' ''Invalid outcome.'',
    error_def 7 ''SameOutcome'' ''Same outcome.'',
    error_def 8 ''InvalidPoolAmount'' ''Invalid pool amount.'',
    error_def 9 ''InvalidBondAmount'' ''Invalid bond amount.'',
    error_def 10 ''BondBelowMinimum'' ''Bond below minimum.'',
    error_def 11 ''DisputeNotFound'' ''Dispute not found.'',
    error_def 12 ''CommitPeriodEnded'' ''Commit period ended.'',
    error_def 13 ''RevealPeriodNotStarted'' ''Reveal period not started.'',
    error_def 14 ''RevealPeriodEnded'' ''Reveal period ended.'',
    error_def 15 ''RevealPeriodNotEnded'' ''Reveal period not ended.'',
    error_def 16 ''AlreadyCommitted'' ''Already committed.'',
    error_def 17 ''NoCommitmentFound'' ''No commitment found.'',
    error_def 18 ''AlreadyRevealed'' ''Already revealed.'',
    error_def 19 ''CommitmentMismatch'' ''Commitment mismatch.'',
    error_def 20 ''InvalidVoteOutcome'' ''Invalid vote outcome.'',
    error_def 21 ''InvalidStakeAmount'' ''Invalid stake amount.'',
    error_def 22 ''AlreadyResolved'' ''Already resolved.'',
    error_def 23 ''TooManyVoters'' ''Too many voters.'',
    error_def 24 ''Overflow'' ''Overflow.'']\<rparr>"

definition tournament_errors :: contract_error_enum where
  "tournament_errors = \<lparr>ee_contract = ''tournament'', ee_enumName = ''TournamentError'', ee_errors = [
    error_def 1 ''AlreadyInitialized'' ''Already initialized.'',
    error_def 2 ''NotInitialized'' ''Not initialized.'',
    error_def 3 ''Unauthorized'' ''Unauthorized.'',
    error_def 4 ''TournamentNotFound'' ''Tournament not found.'',
    error_def 5 ''TournamentAlreadyFinalized'' ''Tournament already finalized.'',
    error_def 6 ''TournamentNotFinalized'' ''Tournament not finalized.'',
    error_def 7 ''InvalidTimeRange'' ''Invalid time range.'',
    error_def 8 ''InvalidWeights'' ''Invalid weights.'',
    error_def 9 ''MarketAlreadyEntered'' ''Market already entered.'',
    error_def 10 ''TournamentNotActive'' ''Tournament not active.'',
    error_def 11 ''InvalidPrizePool'' ''Invalid prize pool.'',
    error_def 12 ''InvalidTopN'' ''Invalid top n.'',
    error_def 13 ''ParticipantNotFound'' ''Participant not found.'',
    error_def 14 ''BracketNotFound'' ''Bracket not found.'',
    error_def 15 ''BracketAlreadyExists'' ''Bracket already exists.'',
    error_def 16 ''BracketLocked'' ''Bracket locked.'',
    error_def 17 ''BracketAlreadySubmitted'' ''Bracket already submitted.'',
    error_def 18 ''InvalidBracket'' ''Invalid bracket.'',
    error_def 19 ''RoundOutOfOrder'' ''Round out of order.'',
    error_def 20 ''NotAllRoundsResolved'' ''Not all rounds resolved.'',
    error_def 21 ''TooManyEntrants'' ''Too many entrants.'']\<rparr>"

definition yield_aggregator_errors :: contract_error_enum where
  "yield_aggregator_errors = \<lparr>ee_contract = ''yield_aggregator'', ee_enumName = ''AggregatorError'', ee_errors = [
    error_def 1 ''AlreadyInitialized'' ''Already initialized.'',
    error_def 2 ''NotInitialized'' ''Not initialized.'',
    error_def 3 ''Unauthorized'' ''Unauthorized.'',
    error_def 4 ''InvalidAmount'' ''Invalid amount.'',
    error_def 5 ''InsufficientShares'' ''Insufficient shares.'',
    error_def 6 ''NoPayoutToClaim'' ''No payout to claim.'',
    error_def 7 ''ZeroTotalAssets'' ''Zero total assets.'']\<rparr>"

definition CONTRACT_ERROR_REGISTRY :: "(string \<times> contract_error_enum) list" where
  "CONTRACT_ERROR_REGISTRY = [(''backit_token'', backit_token_errors),
    (''call_registry'', call_registry_errors),
    (''charity_markets'', charity_markets_errors),
    (''cross_chain_oracle_relay'', cross_chain_oracle_relay_errors),
    (''dutch_auction'', dutch_auction_errors),
    (''gas_station'', gas_station_errors),
    (''governance'', governance_errors),
    (''index_fund'', index_fund_errors),
    (''lending_pool'', lending_pool_errors),
    (''oracle_marketplace'', oracle_marketplace_errors),
    (''orderbook'', orderbook_errors),
    (''outcome_manager'', outcome_manager_errors),
    (''parlay_betting'', parlay_betting_errors),
    (''prediction_market'', prediction_market_errors),
    (''prediction_market_factory'', prediction_market_factory_errors),
    (''prediction_market_futures'', prediction_market_futures_errors),
    (''reputation_nft'', reputation_nft_errors),
    (''schelling_oracle'', schelling_oracle_errors),
    (''tournament'', tournament_errors),
    (''yield_aggregator'', yield_aggregator_errors)]"

end
