(* ===== verification/Diagnostics.thy ===== *)
theory Diagnostics
  imports ContractErrors JsArith JsNumber Regex Store
begin

text \<open>
  \<^verbatim>\<open>packages/backend/src/indexer/diagnostic-parser.service.ts\<close>: what a failed transaction's diagnostic
  events, result codes and error strings say about its cause. What the SDK makes of XDR is a value: an
  accessor that throws is \<open>None\<close>. Arguments of the model: the SDK's decoding of a base64 text, \<open>p\<close> which prints
  a number, and \<open>inh\<close>, the text of a property every object inherits. Log lines are left out.
\<close>

datatype category =
    CONTRACT | AUTH | FOOTPRINT | STORAGE | BUDGET | WASM_VM | CONTEXT | OBJECT | CRYPTO | EVENTS | VALUE | UNKNOWN
  | InheritedCategory string

record translation =
  tn_contract :: "string option"
  tn_enumName :: "string option"
  tn_name :: "string option"
  tn_message :: string
  tn_candidates :: "string list"

record error_detail =
  ed_category :: category
  ed_errorType :: string
  ed_code :: "jsnum option"
  ed_codeName :: "string option"
  ed_contractId :: "string option"
  ed_contract :: "string option"
  ed_enumName :: "string option"
  ed_errorName :: "string option"
  ed_message :: string
  ed_hostMessage :: "string option"
  ed_args :: "jval list"

record decoded_event =
  dv_inSuccessfulContractCall :: bool
  dv_contractId :: "string option"
  dv_eventType :: string
  dv_topics :: "jval list"
  dv_data :: jval
  dv_error :: "error_detail option"
  dv_fnCall :: "string option"

record report =
  rt_txHash :: "string option"
  rt_contractId :: "string option"
  rt_failed :: bool
  rt_resultCode :: "string option"
  rt_operationResultCode :: "string option"
  rt_errors :: "error_detail list"
  rt_primaryError :: "error_detail option"
  rt_contractError :: "error_detail option"
  rt_authFailure :: bool
  rt_footprintExhausted :: bool
  rt_budgetExhausted :: bool
  rt_resourceLimitExceeded :: bool
  rt_entryArchived :: bool
  rt_callStack :: "string list"
  rt_eventCount :: nat
  rt_malformedEventCount :: nat
  rt_summary :: string

subsection \<open>Tables\<close>

text \<open>The tables are plain objects: a lookup also finds what every object inherits.\<close>

definition INHERITED_KEYS :: "string list" where
  "INHERITED_KEYS = [''constructor'', ''__defineGetter__'', ''__defineSetter__'', ''hasOwnProperty'', ''__lookupGetter__'',
    ''__lookupSetter__'', ''isPrototypeOf'', ''propertyIsEnumerable'', ''toString'', ''valueOf'', ''__proto__'', ''toLocaleString'']"

definition ERROR_TYPE_CATEGORY :: "(string \<times> category) list" where
  "ERROR_TYPE_CATEGORY =
    [(''Contract'', CONTRACT), (''WasmVm'', WASM_VM), (''Context'', CONTEXT), (''Storage'', STORAGE), (''Object'', OBJECT),
     (''Crypto'', CRYPTO), (''Events'', EVENTS), (''Budget'', BUDGET), (''Value'', VALUE), (''Auth'', AUTH)]"

definition category_of :: "string \<Rightarrow> category" where
  "category_of errorType = (case map_of ERROR_TYPE_CATEGORY errorType of
      Some c \<Rightarrow> c
    | None \<Rightarrow> if errorType \<in> set INHERITED_KEYS then InheritedCategory errorType else UNKNOWN)"

definition HOST_CODE_MESSAGES :: "(string \<times> string) list" where
  "HOST_CODE_MESSAGES =
    [(''ArithDomain'', ''an arithmetic operation was out of domain''),
     (''IndexBounds'', ''an index was out of bounds''),
     (''InvalidInput'', ''invalid input was supplied''),
     (''MissingValue'', ''a required value was missing''),
     (''ExistingValue'', ''a value already exists''),
     (''ExceededLimit'', ''a limit was exceeded''),
     (''InvalidAction'', ''an invalid action was attempted''),
     (''InternalError'', ''an internal host error occurred''),
     (''UnexpectedType'', ''a value had an unexpected type''),
     (''UnexpectedSize'', ''a value had an unexpected size'')]"

definition host_code_message :: "(string \<Rightarrow> string) \<Rightarrow> string option \<Rightarrow> string option" where
  "host_code_message inh codeName = (let k = nullish codeName [] in case map_of HOST_CODE_MESSAGES k of
      Some m \<Rightarrow> Some m
    | None \<Rightarrow> if k \<in> set INHERITED_KEYS then Some (inh k) else None)"

definition CATEGORY_PRIORITY :: "category \<Rightarrow> nat option" where
  "CATEGORY_PRIORITY c = (case c of
      CONTRACT \<Rightarrow> Some 0 | AUTH \<Rightarrow> Some 1 | FOOTPRINT \<Rightarrow> Some 2 | BUDGET \<Rightarrow> Some 3 | STORAGE \<Rightarrow> Some 4 | VALUE \<Rightarrow> Some 5
    | OBJECT \<Rightarrow> Some 6 | CRYPTO \<Rightarrow> Some 7 | CONTEXT \<Rightarrow> Some 8 | EVENTS \<Rightarrow> Some 9 | WASM_VM \<Rightarrow> Some 10 | UNKNOWN \<Rightarrow> Some 11
    | InheritedCategory _ \<Rightarrow> None)"

text \<open>An entry of the registry; looking up a code in what an object inherits is a type error.\<close>

datatype registry_entry = OwnEnum contract_error_enum | InheritedEnum

datatype diag_exn = DiagTypeError

definition registry_get :: "string \<Rightarrow> registry_entry option" where
  "registry_get k = (case map_of CONTRACT_ERROR_REGISTRY k of
      Some e \<Rightarrow> Some (OwnEnum e)
    | None \<Rightarrow> if k \<in> set INHERITED_KEYS then Some InheritedEnum else None)"

definition error_at :: "contract_error_enum \<Rightarrow> jsnum \<Rightarrow> error_definition option" where
  "error_at e n = (case n of
      Fin q \<Rightarrow> map_option snd (find (\<lambda>x. of_nat (fst x) = q) (ee_errors e))
    | _ \<Rightarrow> None)"

subsection \<open>Contract kinds\<close>

type_synonym kinds = "string \<rightharpoonup> string"

definition registerContract :: "string \<Rightarrow> string \<Rightarrow> kinds \<Rightarrow> kinds" where
  "registerContract contractId contract m =
     (if contractId = [] \<or> registry_get contract = None then m else m(contractId \<mapsto> contract))"

record diag_env =
  de_SOROBAN_CONTRACT_ID :: "string option"
  de_SOROBAN_CONTRACT_KIND :: "string option"
  de_OUTCOME_MANAGER_CONTRACT_ADDRESS :: "string option"
  de_SOROBAN_CONTRACT_ERROR_MAP :: "string option"

definition env_pair :: "string \<Rightarrow> (string option \<times> string) option" where
  "env_pair entry = (case map js_trim (split_on (CHR '':'') entry) of
      i # kind # _ \<Rightarrow> if i \<noteq> [] \<and> kind \<noteq> [] then Some (Some i, kind) else None
    | _ \<Rightarrow> None)"

definition loadContractKindsFromEnv :: "diag_env \<Rightarrow> kinds" where
  "loadContractKindsFromEnv env =
     (let pairs = [(de_SOROBAN_CONTRACT_ID env, nullish (de_SOROBAN_CONTRACT_KIND env) ''call_registry''),
            (de_OUTCOME_MANAGER_CONTRACT_ADDRESS env, ''outcome_manager'')]
          @ List.map_filter env_pair (split_on (CHR '','') (nullish (de_SOROBAN_CONTRACT_ERROR_MAP env) []))
      in foldl (\<lambda>m (i, kind). case i of None \<Rightarrow> m | Some i \<Rightarrow> if i = [] then m else registerContract i kind m) Map.empty pairs)"

definition non_empty :: "string option \<Rightarrow> string option" where
  "non_empty s = (case s of Some t \<Rightarrow> if t = [] then None else Some t | None \<Rightarrow> None)"

definition kind_of :: "kinds \<Rightarrow> string option \<Rightarrow> string option \<Rightarrow> string option" where
  "kind_of m contractId contractHint =
     (case (case non_empty contractHint of Some h \<Rightarrow> if registry_get h = None then None else Some h | None \<Rightarrow> None) of
        Some h \<Rightarrow> Some h
      | None \<Rightarrow> (case non_empty contractId of Some i \<Rightarrow> m i | None \<Rightarrow> None))"

text \<open>The registered contracts that define a code.\<close>

definition defining :: "jsnum \<Rightarrow> (contract_error_enum \<times> error_definition) list" where
  "defining n = map (\<lambda>(r, d). (r, the d)) (filter (\<lambda>(r, d). d \<noteq> None) (map (\<lambda>(_, r). (r, error_at r n)) CONTRACT_ERROR_REGISTRY))"

definition translateContractError ::
  "(rat \<Rightarrow> string) \<Rightarrow> kinds \<Rightarrow> jsnum \<Rightarrow> string option \<Rightarrow> string option \<Rightarrow> diag_exn + translation" where
  "translateContractError p m errcode contractId contractHint =
     (case non_empty (kind_of m contractId contractHint) of
        Some kind \<Rightarrow>
          (case registry_get kind of
             Some (OwnEnum registry) \<Rightarrow> Inr
               (case error_at registry errcode of
                  Some def \<Rightarrow> \<lparr>tn_contract = Some kind, tn_enumName = Some (ee_enumName registry), tn_name = Some (df_name def),
                    tn_message = df_message def, tn_candidates = [kind]\<rparr>
                | None \<Rightarrow> \<lparr>tn_contract = Some kind, tn_enumName = Some (ee_enumName registry), tn_name = None,
                    tn_message = ''Contract '' @ kind @ '' failed with unrecognised error code #'' @ num_text p errcode @ ''.'',
                    tn_candidates = [kind]\<rparr>)
           | _ \<Rightarrow> Inl DiagTypeError)
      | None \<Rightarrow> Inr
          (let defs = defining errcode;
               names = remdups (map (\<lambda>(r, d). df_name d) defs)
           in if length names = 1
              then \<lparr>tn_contract = (case defs of [(r, _)] \<Rightarrow> Some (ee_contract r) | _ \<Rightarrow> None),
                tn_enumName = (case defs of [(r, _)] \<Rightarrow> Some (ee_enumName r) | _ \<Rightarrow> None),
                tn_name = Some (df_name (snd (hd defs))), tn_message = df_message (snd (hd defs)),
                tn_candidates = map (\<lambda>(r, d). ee_contract r) defs\<rparr>
              else \<lparr>tn_contract = None, tn_enumName = None, tn_name = None,
                tn_message = ''Contract'' @ (case non_empty contractId of Some i \<Rightarrow> '' '' @ i | None \<Rightarrow> [])
                  @ '' failed with error code #'' @ num_text p errcode
                  @ (if defs \<noteq> [] then '' (possible: ''
                       @ join_with '', '' (map (\<lambda>(r, d). ee_enumName r @ ''::'' @ df_name d) defs) @ '').''
                     else ''.''),
                tn_candidates = map (\<lambda>(r, d). ee_contract r) defs\<rparr>))"

subsection \<open>Building an error\<close>

definition buildContractError ::
  "(rat \<Rightarrow> string) \<Rightarrow> kinds \<Rightarrow> jsnum \<Rightarrow> string option \<Rightarrow> string option \<Rightarrow> jval list \<Rightarrow> string option \<Rightarrow> diag_exn + error_detail" where
  "buildContractError p m errcode contractId hostMessage args contractHint =
     result_bind (translateContractError p m errcode contractId contractHint) (\<lambda>t. Inr
       \<lparr>ed_category = CONTRACT, ed_errorType = ''Contract'', ed_code = Some errcode, ed_codeName = None,
        ed_contractId = contractId, ed_contract = tn_contract t, ed_enumName = tn_enumName t, ed_errorName = tn_name t,
        ed_message = tn_message t, ed_hostMessage = hostMessage, ed_args = args\<rparr>)"

definition hostErrorMessage :: "(string \<Rightarrow> string) \<Rightarrow> category \<Rightarrow> string \<Rightarrow> string option \<Rightarrow> string" where
  "hostErrorMessage inh category errorType codeName =
     (if category = AUTH then ''Authorization failed: a required signature is missing or the signed authorization does not match this invocation.''
      else if category = FOOTPRINT then ''Footprint exhausted: the transaction touched a ledger entry outside its declared footprint or exceeded its storage limits. Re-simulate and resubmit.''
      else if category = BUDGET then
        (if codeName = Some ''ExceededLimit''
         then ''Resource budget exceeded: the transaction ran out of CPU instructions or memory.''
         else ''Resource budget error: '' @ nullish (host_code_message inh codeName) ''unknown budget failure'' @ ''.'')
      else if category = STORAGE then
        (if codeName = Some ''MissingValue''
         then ''A required ledger entry was not found (it may be archived or was never created).''
         else ''Storage error: '' @ nullish (host_code_message inh codeName) ''unknown storage failure'' @ ''.'')
      else case host_code_message inh codeName of
        Some detail \<Rightarrow> ''Host '' @ errorType @ '' error: '' @ detail @ ''.''
      | None \<Rightarrow> ''Host '' @ errorType @ '' error''
          @ (case non_empty codeName of Some c \<Rightarrow> '' ('' @ c @ '')'' | None \<Rightarrow> []) @ ''.'')"

definition host_category :: "string \<Rightarrow> string option \<Rightarrow> string option \<Rightarrow> category" where
  "host_category errorType codeName hostMessage =
     (let c = category_of errorType
      in if c = STORAGE \<and> (codeName = Some ''ExceededLimit'' \<or> rx_test (lit_i ''footprint'') (nullish hostMessage []))
         then FOOTPRINT else c)"

definition buildHostError ::
  "(string \<Rightarrow> string) \<Rightarrow> kinds \<Rightarrow> string \<Rightarrow> string option \<Rightarrow> string option \<Rightarrow> string option \<Rightarrow> jval list \<Rightarrow> error_detail" where
  "buildHostError inh m errorType codeName contractId hostMessage args =
     (let c = host_category errorType codeName hostMessage
      in \<lparr>ed_category = c, ed_errorType = errorType, ed_code = None, ed_codeName = codeName, ed_contractId = contractId,
          ed_contract = (case non_empty contractId of Some i \<Rightarrow> m i | None \<Rightarrow> None), ed_enumName = None, ed_errorName = None,
          ed_message = hostErrorMessage inh c errorType codeName, ed_hostMessage = hostMessage, ed_args = args\<rparr>)"

subsection \<open>Values of an event\<close>

text \<open>What \<open>scValToNative\<close> gives.\<close>

datatype native =
    NvUndef | NvNull | NvBool bool | NvNum jsnum | NvBig int | NvStr string | NvBytes "nat list"
  | NvArr "native list" | NvObj "(string \<times> native) list"

function jsonSafe :: "native \<Rightarrow> nat \<Rightarrow> jval" where
  "jsonSafe v depth =
     (if depth > 8 then JStr ''[depth-limit]''
      else case v of
        NvBig i \<Rightarrow> JStr (int_text i)
      | NvBytes bs \<Rightarrow> JStr (hex_text bs)
      | NvArr vs \<Rightarrow> JArr (map (\<lambda>w. jsonSafe w (depth + 1)) vs)
      | NvObj ps \<Rightarrow> from_entries (map (\<lambda>(k, w). (k, jsonSafe w (depth + 1))) ps)
      | NvUndef \<Rightarrow> JUndef
      | NvNull \<Rightarrow> JNull
      | NvBool b \<Rightarrow> JBool b
      | NvNum n \<Rightarrow> JNum n
      | NvStr s \<Rightarrow> JStr s)"
  by pat_completeness auto
termination
  by (relation "measure (\<lambda>(v, depth). 9 - depth)") auto

declare jsonSafe.simps [simp del]

text \<open>An error value: the name of its type, its contract code and the name of its host code.\<close>

record sc_error =
  se_switch :: "string option"
  se_contractCode :: "jsnum option"
  se_code :: "string option"

datatype diag_val = DvError sc_error | DvValue "native option"

definition drop_prefix :: "string \<Rightarrow> string \<Rightarrow> string" where
  "drop_prefix a s = (if starts_with s a then drop (length a) s else s)"

definition scValToJson :: "(rat \<Rightarrow> string) \<Rightarrow> diag_val \<Rightarrow> jval" where
  "scValToJson p v = jsonSafe (case v of
      DvError e \<Rightarrow> (case se_switch e of
          None \<Rightarrow> NvNull
        | Some name \<Rightarrow>
            (let ty = drop_prefix ''sce'' name
             in if ty = ''Contract''
                then (case se_contractCode e of Some n \<Rightarrow> NvStr (''Error(Contract, #'' @ num_text p n @ '')'') | None \<Rightarrow> NvNull)
                else (case se_code e of
                    Some c \<Rightarrow> NvStr (''Error('' @ ty @ '', '' @ drop_prefix ''scec'' c @ '')'')
                  | None \<Rightarrow> NvNull)))
    | DvValue (Some NvUndef) \<Rightarrow> NvNull
    | DvValue n \<Rightarrow> nullish n NvNull) 0"

definition extractHostMessage :: "(rat \<Rightarrow> string) \<Rightarrow> diag_val \<Rightarrow> bool \<Rightarrow> string option \<times> jval list" where
  "extractHostMessage p data dataIsError =
     (if dataIsError then (None, [])
      else case scValToJson p data of
        JStr s \<Rightarrow> (Some s, [])
      | JArr (JStr s # r) \<Rightarrow> (Some s, r)
      | JNull \<Rightarrow> (None, [])
      | JUndef \<Rightarrow> (None, [])
      | v \<Rightarrow> (None, [v]))"

definition parseScError ::
  "(rat \<Rightarrow> string) \<Rightarrow> (string \<Rightarrow> string) \<Rightarrow> kinds \<Rightarrow> sc_error \<Rightarrow> string option \<Rightarrow> string option \<Rightarrow> jval list \<Rightarrow> string option
   \<Rightarrow> diag_exn + error_detail" where
  "parseScError p inh m e contractId hostMessage args contractHint =
     (let errorType = drop_prefix ''sce'' (nullish (se_switch e) ''sceUnknown'');
          errcode = nullish (se_contractCode e) NaN
      in if errorType = ''Contract'' \<and> is_finite errcode
         then buildContractError p m errcode contractId hostMessage args contractHint
         else Inr (buildHostError inh m errorType (map_option (drop_prefix ''scec'') (se_code e)) contractId hostMessage args))"

subsection \<open>Events\<close>

text \<open>
  An input is XDR as an object, a text or bytes. An event object has an \<open>event\<close> method or not; \<open>None\<close>
  for its parts when one of the accessors throws.
\<close>

datatype 'o xdr_input = XdrNothing | XdrText string | XdrBytes "nat list" | XdrObject 'o | XdrOther

definition decode :: "(string \<Rightarrow> 'o option) \<Rightarrow> 'o xdr_input \<Rightarrow> 'o option" where
  "decode fromBase64 input = (case input of
      XdrText s \<Rightarrow> if js_trim s = [] then None else fromBase64 (js_trim s)
    | XdrBytes b \<Rightarrow> fromBase64 (b64_encode b)
    | XdrObject x \<Rightarrow> Some x
    | _ \<Rightarrow> None)"

record event_parts =
  ep_contractId :: "string option"
  ep_type :: "string option"
  ep_topics :: "diag_val list"
  ep_data :: diag_val

record event_object =
  eo_isEvent :: bool
  eo_parts :: "event_parts option"
  eo_inSuccessfulContractCall :: "bool option"

definition toDiagnosticEvent :: "(string \<Rightarrow> event_object option) \<Rightarrow> event_object xdr_input \<Rightarrow> event_object option" where
  "toDiagnosticEvent fromBase64 input = (case decode fromBase64 input of
      Some d \<Rightarrow> if eo_isEvent d then Some d else None
    | None \<Rightarrow> None)"

definition isScvError :: "diag_val \<Rightarrow> bool" where
  "isScvError v = (case v of DvError _ \<Rightarrow> True | DvValue _ \<Rightarrow> False)"

definition event_error ::
  "(rat \<Rightarrow> string) \<Rightarrow> (string \<Rightarrow> string) \<Rightarrow> kinds \<Rightarrow> event_parts \<Rightarrow> string option \<Rightarrow> diag_exn + error_detail option" where
  "event_error p inh m b contractHint =
     (case (case find isScvError (ep_topics b) of Some v \<Rightarrow> Some (v, False)
            | None \<Rightarrow> if isScvError (ep_data b) then Some (ep_data b, True) else None) of
        Some (DvError e, dataIsError) \<Rightarrow>
          (case extractHostMessage p (ep_data b) dataIsError of (hostMessage, args) \<Rightarrow>
             result_bind (parseScError p inh m e (ep_contractId b) hostMessage args contractHint) (\<lambda>d. Inr (Some d)))
      | _ \<Rightarrow> Inr None)"

definition fn_call :: "jval list \<Rightarrow> string option" where
  "fn_call topics = (case topics of
      JStr f # _ # JStr g # _ \<Rightarrow> if f = ''fn_call'' then Some g else None
    | _ \<Rightarrow> None)"

definition parseDiagnosticEvent ::
  "(rat \<Rightarrow> string) \<Rightarrow> (string \<Rightarrow> string) \<Rightarrow> (string \<Rightarrow> event_object option) \<Rightarrow> kinds \<Rightarrow> event_object xdr_input \<Rightarrow> string option
   \<Rightarrow> decoded_event option" where
  "parseDiagnosticEvent p inh fromBase64 m input contractHint =
     (case toDiagnosticEvent fromBase64 input of
        None \<Rightarrow> None
      | Some e \<Rightarrow>
          (case eo_parts e of
             None \<Rightarrow> None
           | Some b \<Rightarrow>
               (let topics = map (scValToJson p) (ep_topics b)
                in case event_error p inh m b contractHint of
                     Inl _ \<Rightarrow> None
                   | Inr err \<Rightarrow> Some
                       \<lparr>dv_inSuccessfulContractCall = nullish (eo_inSuccessfulContractCall e) False,
                        dv_contractId = ep_contractId b, dv_eventType = nullish (ep_type b) ''unknown'', dv_topics = topics,
                        dv_data = scValToJson p (ep_data b), dv_error = err, dv_fnCall = fn_call topics\<rparr>)))"

subsection \<open>Error strings\<close>

definition CONTRACT_ID_RE :: rx where
  "CONTRACT_ID_RE = seqs [WordB, lit ''C'', rep 55 (Cls (\<lambda>c. is_upper c \<or> c \<in> set ''234567'')), WordB]"

definition HOST_ERROR_RE :: rx where
  "HOST_ERROR_RE = seqs [lit ''Error('', Star space, plus (Cls is_word), Star space, lit '','', Star space, opt (lit ''#''),
     plus (Cls is_word), Star space, lit '')'']"

text \<open>A match of \<open>HOST_ERROR_RE\<close> at the start of a text: its two groups and the rest.\<close>

definition scan_host_error :: "string \<Rightarrow> (string \<times> string \<times> string) option" where
  "scan_host_error s =
     (if \<not> starts_with s ''Error('' then None
      else
        (let s1 = dropWhile is_space (drop 6 s);
             errorType = takeWhile is_word s1;
             s2 = dropWhile is_space (dropWhile is_word s1)
         in if errorType = [] \<or> next_char s2 \<noteq> Some (CHR '','') then None
            else
              (let s3 = dropWhile is_space (tl s2);
                   hash = (if next_char s3 = Some (CHR ''#'') then ''#'' else []);
                   s4 = drop (length hash) s3;
                   w = takeWhile is_word s4;
                   s5 = dropWhile is_space (dropWhile is_word s4)
               in if w = [] \<or> next_char s5 \<noteq> Some (CHR '')'') then None
                  else Some (errorType, hash @ w, tl s5))))"

lemma length_dropWhile_less: "takeWhile P s \<noteq> [] \<Longrightarrow> length (dropWhile P s) < length s"
  by (cases s) (auto intro: le_less_trans [OF length_dropWhile_le] simp: less_Suc_eq_le length_dropWhile_le split: if_splits)

lemma scan_host_error_shorter: "scan_host_error s = Some (t, c, r) \<Longrightarrow> length r < length s"
proof -
  assume a: "scan_host_error s = Some (t, c, r)"
  define s1 where "s1 = dropWhile is_space (drop 6 s)"
  define s2 where "s2 = dropWhile is_space (dropWhile is_word s1)"
  define s3 where "s3 = dropWhile is_space (tl s2)"
  define s4 where "s4 = drop (length (if next_char s3 = Some (CHR ''#'') then ''#'' else [])) s3"
  have r: "r = tl (dropWhile is_space (dropWhile is_word s4))" and w: "takeWhile is_word s4 \<noteq> []"
    using a by (simp_all add: scan_host_error_def Let_def s1_def s2_def s3_def s4_def split: if_splits)
  have "length r \<le> length (dropWhile is_word s4)"
    unfolding r using length_dropWhile_le [of is_space "dropWhile is_word s4"] by simp
  also have "\<dots> < length s4" by (rule length_dropWhile_less [OF w])
  also have "length s4 \<le> length s3" by (simp add: s4_def)
  also have "length s3 \<le> length s2"
    unfolding s3_def using length_dropWhile_le [of is_space "tl s2"] by simp
  also have "length s2 \<le> length s1"
    unfolding s2_def using length_dropWhile_le [of is_space "dropWhile is_word s1"] length_dropWhile_le [of is_word s1] by simp
  also have "length s1 \<le> length s"
    unfolding s1_def using length_dropWhile_le [of is_space "drop 6 s"] by simp
  finally show ?thesis .
qed

function host_error_matches :: "string \<Rightarrow> (string \<times> string) list" where
  "host_error_matches s = (case scan_host_error s of
      Some (errorType, rawCode, rest) \<Rightarrow> (errorType, rawCode) # host_error_matches rest
    | None \<Rightarrow> (case s of [] \<Rightarrow> [] | _ # r \<Rightarrow> host_error_matches r))"
  by pat_completeness auto
termination
  by (relation "measure length") (auto dest: scan_host_error_shorter)

declare host_error_matches.simps [simp del]

text \<open>\<open>text.match(r)?.[0]\<close>.\<close>

fun rx_find_from :: "rx \<Rightarrow> char option \<Rightarrow> string \<Rightarrow> string option" where
  "rx_find_from r pv [] = (case matches r (pv, []) of [] \<Rightarrow> None | t # _ \<Rightarrow> Some [])"
| "rx_find_from r pv (c # cs) = (case matches r (pv, c # cs) of
      t # _ \<Rightarrow> Some (take (length (c # cs) - length (snd t)) (c # cs))
    | [] \<Rightarrow> rx_find_from r (Some c) cs)"

definition one_error ::
  "(rat \<Rightarrow> string) \<Rightarrow> (string \<Rightarrow> string) \<Rightarrow> kinds \<Rightarrow> string option \<Rightarrow> string option \<Rightarrow> string \<times> string \<Rightarrow> diag_exn + error_detail" where
  "one_error p inh m contractId contractHint mt =
     (case mt of (errorType, rawCode) \<Rightarrow>
        if (starts_with rawCode ''#'' \<or> (rawCode \<noteq> [] \<and> list_all is_digit rawCode)) \<and> errorType = ''Contract''
        then buildContractError p m (js_number (remove1 (CHR ''#'') rawCode)) contractId None [] contractHint
        else Inr (buildHostError inh m errorType (Some (drop_prefix ''#'' rawCode)) contractId None []))"

text \<open>Only a string has errors in it; a repeated pair is reported once.\<close>

fun first_of_each :: "'a set \<Rightarrow> 'a list \<Rightarrow> 'a list" where
  "first_of_each seen [] = []"
| "first_of_each seen (x # xs) = (if x \<in> seen then first_of_each seen xs else x # first_of_each (insert x seen) xs)"

definition parseErrorString ::
  "(rat \<Rightarrow> string) \<Rightarrow> (string \<Rightarrow> string) \<Rightarrow> kinds \<Rightarrow> jval \<Rightarrow> string option \<Rightarrow> string option \<Rightarrow> diag_exn + error_detail list" where
  "parseErrorString p inh m message contractId contractHint = (case message of
      JStr s \<Rightarrow>
        (if s = [] then Inr []
         else
           (let inferredContract = (case contractId of Some i \<Rightarrow> Some i | None \<Rightarrow> rx_find_from CONTRACT_ID_RE None s)
            in map_result (one_error p inh m inferredContract contractHint) (first_of_each {} (host_error_matches s))))
    | _ \<Rightarrow> Inr [])"

subsection \<open>Result codes\<close>

text \<open>The code of one operation; \<open>OpThrows\<close> when an accessor throws.\<close>

datatype operation_result = OpCode string | OpInvokeHostFunction "string option" | OpOther | OpThrows

record result_object =
  ro_switch :: "string option"
  ro_results :: "operation_result list option"

text \<open>A transaction's result, and the result a fee bump wraps.\<close>

record transaction_result =
  tr_result :: "result_object option"
  tr_innerResult :: "result_object option"

definition success_name :: "string \<Rightarrow> bool" where
  "success_name s = rx_test (Seq (lit ''Success'') EndI) s"

definition operation_code :: "operation_result \<Rightarrow> string option" where
  "operation_code op = (case op of OpCode c \<Rightarrow> Some c | OpInvokeHostFunction c \<Rightarrow> c | OpOther \<Rightarrow> None | OpThrows \<Rightarrow> None)"

fun first_failure :: "operation_result list \<Rightarrow> string option \<Rightarrow> string option" where
  "first_failure [] acc = acc"
| "first_failure (op # ops) acc =
     (let c = operation_code op
      in case non_empty c of
           Some n \<Rightarrow> if \<not> success_name n then Some n
             else first_failure ops (case acc of None \<Rightarrow> c | Some _ \<Rightarrow> acc)
         | None \<Rightarrow> first_failure ops (case acc of None \<Rightarrow> c | Some _ \<Rightarrow> acc))"

definition parseTransactionResult ::
  "(string \<Rightarrow> transaction_result option) \<Rightarrow> transaction_result xdr_input \<Rightarrow> string option \<times> string option" where
  "parseTransactionResult fromBase64 input =
     (case decode fromBase64 input of
        None \<Rightarrow> (None, None)
      | Some result \<Rightarrow>
          (case tr_result result of
             None \<Rightarrow> (None, None)
           | Some outer \<Rightarrow>
               (case (if ro_switch outer = Some ''txFeeBumpInnerFailed'' \<or> ro_switch outer = Some ''txFeeBumpInnerSuccess''
                      then tr_innerResult result else Some outer) of
                  None \<Rightarrow> (None, None)
                | Some inner \<Rightarrow>
                    (case ro_switch inner of
                       None \<Rightarrow> (None, None)
                     | Some name \<Rightarrow>
                         if ro_switch outer = None then (None, None)
                         else (Some name, first_failure (nullish (ro_results inner) []) None)))))"

subsection \<open>A whole transaction\<close>

text \<open>The key under which an error is reported once.\<close>

definition error_key :: "(rat \<Rightarrow> string) \<Rightarrow> error_detail \<Rightarrow> string" where
  "error_key p e = ed_errorType e @ '':'' @ (case ed_code e of Some n \<Rightarrow> num_text p n | None \<Rightarrow> nullish (ed_codeName e) ''null'')
     @ '':'' @ nullish (ed_contractId e) []"

definition dedupe_step :: "(rat \<Rightarrow> string) \<Rightarrow> (string \<times> error_detail) list \<Rightarrow> error_detail \<Rightarrow> (string \<times> error_detail) list" where
  "dedupe_step p byKey e = (let key = error_key p e in case map_of byKey key of
      None \<Rightarrow> byKey @ [(key, e)]
    | Some existing \<Rightarrow>
        if non_empty (ed_hostMessage existing) = None \<and> non_empty (ed_hostMessage e) \<noteq> None
        then map_set key (existing\<lparr>ed_hostMessage := ed_hostMessage e, ed_args := ed_args e\<rparr>) byKey
        else byKey)"

definition dedupe :: "(rat \<Rightarrow> string) \<Rightarrow> error_detail list \<Rightarrow> error_detail list" where
  "dedupe p errors = map snd (foldl (dedupe_step p) [] errors)"

definition before :: "error_detail \<Rightarrow> error_detail \<Rightarrow> bool" where
  "before a b = (case (CATEGORY_PRIORITY (ed_category a), CATEGORY_PRIORITY (ed_category b)) of
      (Some x, Some y) \<Rightarrow> x < y | _ \<Rightarrow> False)"

definition pickPrimary :: "error_detail list \<Rightarrow> error_detail option" where
  "pickPrimary errors = foldl (\<lambda>best e. case best of None \<Rightarrow> Some e | Some b \<Rightarrow> if before e b then Some e else best) None errors"

definition summarize :: "(rat \<Rightarrow> string) \<Rightarrow> report \<Rightarrow> string" where
  "summarize p r =
     (if \<not> rt_failed r then ''Transaction succeeded.''
      else case rt_primaryError r of
        Some e \<Rightarrow>
          if ed_category e = CONTRACT
          then ed_message e @ '' ['' @ (case (non_empty (ed_enumName e), non_empty (ed_errorName e)) of
                 (Some en, Some n) \<Rightarrow> en @ ''::'' @ n
               | _ \<Rightarrow> ''#'' @ (case ed_code e of Some n \<Rightarrow> num_text p n | None \<Rightarrow> ''null'')) @ '']''
          else ed_message e
      | None \<Rightarrow>
          if rt_entryArchived r then ''A ledger entry required by the transaction is archived and must be restored first.''
          else if rt_resourceLimitExceeded r then ''The transaction exceeded its declared resource limits. Re-simulate and resubmit.''
          else ''Transaction failed'' @ (case (case rt_operationResultCode r of None \<Rightarrow> rt_resultCode r | c \<Rightarrow> c) of
              Some c \<Rightarrow> if c = [] then [] else '' ('' @ c @ '')'' | None \<Rightarrow> []) @ ''.'')"

record tx_input =
  ti_txHash :: "string option"
  ti_contractId :: "string option"
  ti_diagnosticEvents :: "event_object xdr_input list option"
  ti_resultXdr :: "transaction_result xdr_input"
  ti_resultMetaXdr :: "event_object xdr_input list xdr_input"
  ti_errorMessage :: jval
  ti_contractHint :: "string option"

record xdr_codec =
  xc_event :: "string \<Rightarrow> event_object option"
  xc_result :: "string \<Rightarrow> transaction_result option"
  xc_meta :: "string \<Rightarrow> event_object xdr_input list option"

text \<open>The counts, the contract, the calls and the errors after a list of events.\<close>

record event_scan =
  es_contractId :: "string option"
  es_errors :: "error_detail list"
  es_callStack :: "string list"
  es_malformed :: nat

definition scan_step ::
  "(event_object xdr_input \<Rightarrow> decoded_event option) \<Rightarrow> event_scan \<Rightarrow> event_object xdr_input \<Rightarrow> event_scan" where
  "scan_step parse acc raw = (case parse raw of
      None \<Rightarrow> acc\<lparr>es_malformed := es_malformed acc + 1\<rparr>
    | Some d \<Rightarrow> acc
        \<lparr>es_contractId := (case es_contractId acc of None \<Rightarrow> dv_contractId d | c \<Rightarrow> c),
         es_callStack := es_callStack acc @ (case non_empty (dv_fnCall d) of Some f \<Rightarrow> [f] | None \<Rightarrow> []),
         es_errors := es_errors acc @ (case dv_error d of Some e \<Rightarrow> [e] | None \<Rightarrow> [])\<rparr>)"

definition diagnosticEventsFromMeta :: "xdr_codec \<Rightarrow> event_object xdr_input list xdr_input \<Rightarrow> event_object xdr_input list" where
  "diagnosticEventsFromMeta x input = nullish (decode (xc_meta x) input) []"

definition unauthorized_name :: "string \<Rightarrow> bool" where
  "unauthorized_name s = rx_test (Seq BegI (Alt (seqs [lit ''Unauthori'', any_of ''sz'', lit ''ed''])
     (seqs [lit ''NotAuthori'', any_of ''sz'', lit ''ed'']))) s"

definition raw_events :: "xdr_codec \<Rightarrow> tx_input \<Rightarrow> event_object xdr_input list" where
  "raw_events x i = (let evs = nullish (ti_diagnosticEvents i) []
     in if evs = [] then diagnosticEventsFromMeta x (ti_resultMetaXdr i) else evs)"

definition report_of ::
  "(rat \<Rightarrow> string) \<Rightarrow> tx_input \<Rightarrow> nat \<Rightarrow> event_scan \<Rightarrow> error_detail list \<Rightarrow> string option \<times> string option \<Rightarrow> report" where
  "report_of p i n sc deduped codes =
     (let resultCode = fst codes;
          operationResultCode = snd codes;
          footprintExhausted = list_ex (\<lambda>e. ed_category e = FOOTPRINT) deduped;
          budgetExhausted = list_ex (\<lambda>e. ed_category e = BUDGET) deduped;
          r = \<lparr>rt_txHash = ti_txHash i, rt_contractId = es_contractId sc,
            rt_failed = (deduped \<noteq> [] \<or> (\<exists>c \<in> set_option resultCode. \<not> success_name c)
              \<or> (\<exists>c \<in> set_option operationResultCode. \<not> success_name c)),
            rt_resultCode = resultCode, rt_operationResultCode = operationResultCode, rt_errors = deduped,
            rt_primaryError = pickPrimary deduped, rt_contractError = find (\<lambda>e. ed_category e = CONTRACT) deduped,
            rt_authFailure = list_ex (\<lambda>e. ed_category e = AUTH
              \<or> (ed_category e = CONTRACT \<and> unauthorized_name (nullish (ed_errorName e) []))) deduped,
            rt_footprintExhausted = footprintExhausted, rt_budgetExhausted = budgetExhausted,
            rt_resourceLimitExceeded = (operationResultCode = Some ''invokeHostFunctionResourceLimitExceeded''
              \<or> footprintExhausted \<or> budgetExhausted),
            rt_entryArchived = (operationResultCode = Some ''invokeHostFunctionEntryArchived''),
            rt_callStack = es_callStack sc, rt_eventCount = n, rt_malformedEventCount = es_malformed sc, rt_summary = []\<rparr>
      in r\<lparr>rt_summary := summarize p r\<rparr>)"

definition analyzeTransaction ::
  "(rat \<Rightarrow> string) \<Rightarrow> (string \<Rightarrow> string) \<Rightarrow> xdr_codec \<Rightarrow> kinds \<Rightarrow> tx_input \<Rightarrow> diag_exn + report" where
  "analyzeTransaction p inh x m i =
     (let rawEvents = raw_events x i;
          sc = foldl (scan_step (\<lambda>raw. parseDiagnosticEvent p inh (xc_event x) m raw (ti_contractHint i)))
            \<lparr>es_contractId = ti_contractId i, es_errors = [], es_callStack = [], es_malformed = 0\<rparr> rawEvents
      in result_bind (parseErrorString p inh m (ti_errorMessage i) (es_contractId sc) (ti_contractHint i)) (\<lambda>more_errors.
           Inr (report_of p i (length rawEvents) sc (dedupe p (es_errors sc @ more_errors))
             (parseTransactionResult (xc_result x) (ti_resultXdr i)))))"

subsection \<open>Responses of the RPC\<close>

text \<open>A property of a response that may be missing, a list of events or something else.\<close>

datatype events_field = EventsMissing | EventsList "event_object xdr_input list" | EventsOther

definition events_of :: "events_field \<Rightarrow> event_object xdr_input list option" where
  "events_of f = (case f of EventsList es \<Rightarrow> Some es | _ \<Rightarrow> None)"

record rpc_response =
  rp_hash :: jval
  rp_diagnosticEvents :: events_field
  rp_diagnosticEventsXdr :: events_field
  rp_events :: events_field
  rp_resultXdr :: "transaction_result xdr_input"
  rp_errorResult :: "transaction_result xdr_input"
  rp_errorResultXdr :: "transaction_result xdr_input"
  rp_resultMetaXdr :: "event_object xdr_input list xdr_input"
  rp_error :: jval

definition no_input :: tx_input where
  "no_input = \<lparr>ti_txHash = None, ti_contractId = None, ti_diagnosticEvents = None, ti_resultXdr = XdrNothing,
     ti_resultMetaXdr = XdrNothing, ti_errorMessage = JUndef, ti_contractHint = None\<rparr>"

definition analyzeGetTransactionResponse ::
  "(rat \<Rightarrow> string) \<Rightarrow> (string \<Rightarrow> string) \<Rightarrow> xdr_codec \<Rightarrow> kinds \<Rightarrow> string \<Rightarrow> rpc_response \<Rightarrow> string option \<Rightarrow> diag_exn + report" where
  "analyzeGetTransactionResponse p inh x m txHash r contractHint = analyzeTransaction p inh x m
     (no_input\<lparr>ti_txHash := Some txHash, ti_diagnosticEvents := events_of (rp_diagnosticEventsXdr r),
       ti_resultXdr := rp_resultXdr r, ti_resultMetaXdr := rp_resultMetaXdr r, ti_contractHint := contractHint\<rparr>)"

definition analyzeSendTransactionResponse ::
  "(rat \<Rightarrow> string) \<Rightarrow> (string \<Rightarrow> string) \<Rightarrow> xdr_codec \<Rightarrow> kinds \<Rightarrow> rpc_response \<Rightarrow> string option \<Rightarrow> diag_exn + report" where
  "analyzeSendTransactionResponse p inh x m r contractHint = analyzeTransaction p inh x m
     (no_input\<lparr>ti_txHash := (case rp_hash r of JStr h \<Rightarrow> Some h | _ \<Rightarrow> None),
       ti_diagnosticEvents := events_of (case rp_diagnosticEvents r of EventsMissing \<Rightarrow> rp_diagnosticEventsXdr r | e \<Rightarrow> e),
       ti_resultXdr := (case rp_errorResult r of XdrNothing \<Rightarrow> rp_errorResultXdr r | e \<Rightarrow> e), ti_contractHint := contractHint\<rparr>)"

definition analyzeSimulationResponse ::
  "(rat \<Rightarrow> string) \<Rightarrow> (string \<Rightarrow> string) \<Rightarrow> xdr_codec \<Rightarrow> kinds \<Rightarrow> rpc_response \<Rightarrow> string option \<Rightarrow> diag_exn + report" where
  "analyzeSimulationResponse p inh x m r contractHint = analyzeTransaction p inh x m
     (no_input\<lparr>ti_diagnosticEvents := events_of (rp_events r), ti_errorMessage := rp_error r, ti_contractHint := contractHint\<rparr>)"

text \<open>An envelope: its kind and the source the SDK encodes for each kind; \<open>None\<close> when that throws.\<close>

record envelope_object =
  en_switch :: "string option"
  en_v1Source :: "string option"
  en_feeBumpSource :: "string option"
  en_v0Source :: "string option"

definition extractSourceAccount :: "(string \<Rightarrow> envelope_object option) \<Rightarrow> envelope_object xdr_input \<Rightarrow> string option" where
  "extractSourceAccount fromBase64 input = (case decode fromBase64 input of
      None \<Rightarrow> None
    | Some e \<Rightarrow>
        if en_switch e = Some ''envelopeTypeTx'' then en_v1Source e
        else if en_switch e = Some ''envelopeTypeTxFeeBump'' then en_feeBumpSource e
        else if en_switch e = Some ''envelopeTypeTxV0'' then en_v0Source e
        else None)"

subsection \<open>The scanner is the expression\<close>

lemma matches_Seq_assoc: "matches (Seq (Seq a b) c) s = matches (Seq a (Seq b c)) s"
proof -
  have "concat (map (matches c) (concat (map (matches b) ts))) = concat (map (matches (Seq b c)) ts)" for ts
    by (induction ts) simp_all
  then show ?thesis by simp
qed

lemma star_class:
  assumes "\<And>pv c cs. P c \<Longrightarrow> matches r (pv, c # cs) = []"
  shows "matches (Seq (Star (Cls P)) r) (pv, s) =
    matches r (if takeWhile P s = [] then pv else Some (last (takeWhile P s)), dropWhile P s)"
  using assms by (induction s arbitrary: pv) (simp_all add: matches_Star)

lemma plus_class:
  assumes "\<And>pv c cs. P c \<Longrightarrow> matches r (pv, c # cs) = []"
  shows "matches (Seq (plus (Cls P)) r) (pv, s) =
    (if takeWhile P s = [] then [] else matches r (Some (last (takeWhile P s)), dropWhile P s))"
  using star_class [OF assms, where P = P] by (cases s) (auto simp: plus_def matches_Seq_assoc simp del: matches.simps(3) simp: matches.simps(3) [of "Cls P"])

lemma space_not_word: "is_space c \<Longrightarrow> \<not> is_word c"
  by (auto simp: is_space_def is_word_def is_upper_def is_lower_def is_digit_def code_def)

lemma lit_one: "matches (Seq (lit [x]) r) (pv, s) = (if next_char s = Some x then matches r (Some x, tl s) else [])"
  by (cases s) (simp_all add: next_char_def)

lemma lit_prefix: "matches (Seq (lit t) r) (pv, s) =
    (if starts_with s t then matches r (if t = [] then pv else Some (last t), drop (length t) s) else [])"
proof (induction t arbitrary: pv s)
  case Nil
  then show ?case by (simp add: starts_with_def)
next
  case (Cons x t)
  show ?case
  proof (cases s)
    case Nil
    then show ?thesis by (simp add: starts_with_def)
  next
    case (Cons c cs)
    then show ?thesis using Cons.IH [of "Some c" cs] by (auto simp: starts_with_def)
  qed
qed


lemma host_error_reference:
  "matches HOST_ERROR_RE (pv, s) = (case scan_host_error s of None \<Rightarrow> [] | Some (_, _, r) \<Rightarrow> [(Some (CHR '')''), r)])"
proof -
  let ?word = "Cls is_word"
  define r5 where "r5 = lit '')''"
  define r4 where "r4 = Seq (Star space) r5"
  define r3 where "r3 = Seq (plus ?word) r4"
  define rh where "rh = Seq (opt (lit ''#'')) r3"
  define r2 where "r2 = Seq (Star space) rh"
  define r1 where "r1 = Seq (Star space) (Seq (lit '','') r2)"
  have re: "HOST_ERROR_RE = Seq (lit ''Error('') (Seq (Star space) (Seq (plus ?word) r1))"
    by (simp only: HOST_ERROR_RE_def seqs.simps r1_def r2_def rh_def r3_def r4_def r5_def)
  have e5: "matches r5 (q, t) = (if next_char t = Some (CHR '')'') then [(Some (CHR '')''), tl t)] else [])" for q t
    by (cases t) (simp_all add: r5_def next_char_def)
  have e4: "matches r4 (q, t) = (if next_char (dropWhile is_space t) = Some (CHR '')'')
      then [(Some (CHR '')''), tl (dropWhile is_space t))] else [])" for q t
    unfolding r4_def space_def by (subst star_class) (auto simp: e5 next_char_def is_space_def code_def)
  have f4: "is_word c \<Longrightarrow> matches r4 (q, c # t) = []" for q c t
    unfolding e4 using space_not_word [of c] by (auto simp: next_char_def is_word_def is_upper_def is_lower_def is_digit_def code_def)
  have e3: "matches r3 (q, t) = (if takeWhile is_word t \<noteq> [] \<and> next_char (dropWhile is_space (dropWhile is_word t)) = Some (CHR '')'')
      then [(Some (CHR '')''), tl (dropWhile is_space (dropWhile is_word t)))] else [])" for q t
    unfolding r3_def by (subst plus_class, erule f4) (simp add: e4)
  have f3: "\<not> is_word c \<Longrightarrow> matches r3 (q, c # t) = []" for q c t
    by (simp add: e3)
  have eh: "matches rh (q, t) = matches r3 (None, drop (length (if next_char t = Some (CHR ''#'') then ''#'' else [])) t)" for q t
    by (cases t) (auto simp: rh_def opt_def next_char_def e3 is_word_def is_upper_def is_lower_def is_digit_def code_def)
  have fh: "is_space c \<Longrightarrow> matches rh (q, c # t) = []" for q c t
    unfolding eh using space_not_word [of c] by (auto simp: next_char_def e3 is_space_def code_def)
  have e2: "matches r2 (q, t) = (let s3 = dropWhile is_space t;
      s4 = drop (length (if next_char s3 = Some (CHR ''#'') then ''#'' else [])) s3 in matches r3 (None, s4))" for q t
    unfolding r2_def space_def by (subst star_class, erule fh) (simp add: eh Let_def)
  have e1: "matches r1 (q, t) = (let s2 = dropWhile is_space t in
      if next_char s2 = Some (CHR '','') then matches r2 (None, tl s2) else [])" for q t
    unfolding r1_def space_def
    by (subst star_class) (auto simp: lit_one e2 next_char_def is_space_def code_def simp del: lit.simps matches.simps)
  have f1: "is_word c \<Longrightarrow> matches r1 (q, c # t) = []" for q c t
    unfolding e1 using space_not_word [of c] by (auto simp: next_char_def is_word_def is_upper_def is_lower_def is_digit_def code_def)
  have ew: "matches (Seq (plus ?word) r1) (q, t) =
      (if takeWhile is_word t = [] then [] else matches r1 (None, dropWhile is_word t))" for q t
    by (subst plus_class, erule f1) (simp add: e1)
  have fw: "is_space c \<Longrightarrow> matches (Seq (plus ?word) r1) (q, c # t) = []" for q c t
    unfolding ew by (simp add: space_not_word)
  have e0: "matches (Seq (Star space) (Seq (plus ?word) r1)) (q, t) = (let s1 = dropWhile is_space t in
      if takeWhile is_word s1 = [] then [] else matches r1 (None, dropWhile is_word s1))" for q t
    unfolding space_def by (subst star_class, erule fw) (simp only: ew Let_def)
  have l6: "length ''Error('' = 6" by simp
  show ?thesis
    unfolding re lit_prefix l6 e0 e1 e2 e3 Let_def by (simp add: scan_host_error_def Let_def)
qed

subsection \<open>JSON-safe values\<close>

text \<open>No big integer anywhere and at most so many containers inside one another.\<close>

fun json_within :: "nat \<Rightarrow> jval \<Rightarrow> bool" where
  "json_within n (JBig _) = False"
| "json_within 0 (JArr _) = False"
| "json_within 0 (JObj _) = False"
| "json_within (Suc n) (JArr vs) = list_all (json_within n) vs"
| "json_within (Suc n) (JObj ps) = list_all (\<lambda>kv. json_within n (snd kv)) ps"
| "json_within n _ = True"

lemma set_from_entries: "from_entries ps = JObj qs \<Longrightarrow> set qs = set ps"
  by (auto simp: from_entries_def)

lemma json_within_entries: "list_all (\<lambda>kv. json_within n (snd kv)) ps \<Longrightarrow> json_within (Suc n) (from_entries ps)"
  by (auto simp: from_entries_def list_all_iff)

lemma jsonSafe_within: "json_within (9 - d) (jsonSafe v d)"
proof (induction v d rule: jsonSafe.induct)
  case (1 v d)
  show ?case
  proof (cases "d > 8")
    case True
    then show ?thesis by (subst jsonSafe.simps) simp
  next
    case False
    then have n: "9 - d = Suc (9 - (d + 1))" by simp
    show ?thesis
    proof (cases v)
      case (NvArr vs)
      then show ?thesis using 1(1) [OF False] False
        by (subst jsonSafe.simps) (simp add: n list_all_iff)
    next
      case (NvObj ps)
      have "list_all (\<lambda>kv. json_within (9 - (d + 1)) (snd kv)) (map (\<lambda>(k, w). (k, jsonSafe w (d + 1))) ps)"
        using 1(2) [OF False NvObj] by (fastforce simp: list_all_iff)
      from json_within_entries [OF this] show ?thesis using False NvObj
        by (subst jsonSafe.simps) (simp add: n)
    qed (use False in \<open>subst jsonSafe.simps; simp add: n\<close>)+
  qed
qed

lemma scValToJson_within: "json_within 9 (scValToJson p v)"
  unfolding scValToJson_def using jsonSafe_within [of 0] by simp

subsection \<open>No throw\<close>

definition own_kind :: "string \<Rightarrow> bool" where
  "own_kind k \<longleftrightarrow> (\<exists>e. registry_get k = Some (OwnEnum e))"

definition kinds_own :: "kinds \<Rightarrow> bool" where
  "kinds_own m \<longleftrightarrow> (\<forall>k \<in> ran m. own_kind k)"


lemma registry_get_cases: "k \<notin> set INHERITED_KEYS \<Longrightarrow> registry_get k = None \<or> own_kind k"
  by (auto simp: registry_get_def own_kind_def split: option.split)






lemma registerContract_own: "kinds_own m \<Longrightarrow> k \<notin> set INHERITED_KEYS \<Longrightarrow> kinds_own (registerContract i k m)"
  using registry_get_cases [of k] by (auto simp: registerContract_def kinds_own_def ran_def split: if_splits)

subsection \<open>One report of each error\<close>

text \<open>What an entry keeps of the first error with its key.\<close>

definition same_error :: "error_detail \<Rightarrow> error_detail \<Rightarrow> bool" where
  "same_error a b \<longleftrightarrow> ed_category b = ed_category a \<and> ed_errorType b = ed_errorType a \<and> ed_code b = ed_code a
     \<and> ed_codeName b = ed_codeName a \<and> ed_contractId b = ed_contractId a \<and> ed_contract b = ed_contract a
     \<and> ed_enumName b = ed_enumName a \<and> ed_errorName b = ed_errorName a \<and> ed_message b = ed_message a"

lemma same_error_refl [simp]: "same_error a a"
  by (simp add: same_error_def)


lemma first_of_each_notin: "x \<in> set (first_of_each seen xs) \<Longrightarrow> x \<notin> seen \<and> x \<in> set xs"
  by (induction xs arbitrary: seen) (auto split: if_splits)

lemma first_of_each_snoc:
  "first_of_each seen (xs @ [x]) = first_of_each seen xs @ (if x \<in> seen \<union> set xs then [] else [x])"
  by (induction xs arbitrary: seen) auto

lemma distinct_first_of_each: "distinct (first_of_each seen xs)"
  by (induction xs arbitrary: seen) (auto dest: first_of_each_notin)

lemma set_first_of_each: "set (first_of_each seen xs) = set xs - seen"
  by (induction xs arbitrary: seen) auto

definition table_of :: "(rat \<Rightarrow> string) \<Rightarrow> error_detail list \<Rightarrow> (string \<times> error_detail) list" where
  "table_of p es = foldl (dedupe_step p) [] es"

lemma map_set_keys: "map_of q k = Some x \<Longrightarrow> map fst (map_set k r q) = map fst q"
  by (simp add: map_set_def row_get_def)

lemma table_spec:
  "map fst (table_of p es) = first_of_each {} (map (error_key p) es)
   \<and> (\<forall>(k, d) \<in> set (table_of p es). \<exists>e \<in> set es. same_error e d \<and> error_key p e = k)"
proof (induction es rule: rev_induct)
  case Nil
  then show ?case by (simp add: table_of_def)
next
  case (snoc e es)
  let ?t = "table_of p es"
  have step: "table_of p (es @ [e]) = dedupe_step p ?t e" by (simp add: table_of_def)
  have keys: "map fst ?t = first_of_each {} (map (error_key p) es)" using snoc by blast
  then have dist: "distinct (map fst ?t)" by (simp add: distinct_first_of_each)
  have mem: "error_key p e \<in> set (map (error_key p) es) \<longleftrightarrow> map_of ?t (error_key p e) \<noteq> None"
    using arg_cong [OF keys, of set] by (simp add: map_of_eq_None_iff set_first_of_each)
  show ?case
  proof (cases "map_of ?t (error_key p e)")
    case None
    then show ?thesis using snoc mem keys
      by (auto simp: step dedupe_step_def Let_def first_of_each_snoc)
  next
    case (Some x)
    then have x: "(error_key p e, x) \<in> set ?t" by (rule map_of_SomeD)
    then obtain e0 where e0: "e0 \<in> set es" "same_error e0 x" "error_key p e0 = error_key p e"
      using snoc by blast
    let ?x = "x\<lparr>ed_hostMessage := ed_hostMessage e, ed_args := ed_args e\<rparr>"
    have sx: "same_error e0 ?x" using e0(2) by (simp add: same_error_def)
    have sub: "set (map_set (error_key p e) ?x ?t) \<subseteq> insert (error_key p e, ?x) (set ?t)"
      by (auto simp: map_set_def row_get_def row_put_def row_ins_def)
    have "map fst (table_of p (es @ [e])) = map fst ?t"
      using map_set_keys [OF Some] Some by (simp add: step dedupe_step_def Let_def)
    moreover have "\<forall>(k, d) \<in> set (table_of p (es @ [e])). \<exists>e' \<in> set (es @ [e]). same_error e' d \<and> error_key p e' = k"
    proof -
      have "set (table_of p (es @ [e])) \<subseteq> insert (error_key p e, ?x) (set ?t)"
        using sub Some by (auto simp: step dedupe_step_def Let_def)
      then show ?thesis using snoc e0 sx by fastforce
    qed
    ultimately show ?thesis using mem Some keys by (simp add: first_of_each_snoc)
  qed
qed


lemma dedupe_in: "d \<in> set (dedupe p es) \<Longrightarrow> \<exists>e \<in> set es. same_error e d"
  using table_spec [of p es] by (force simp: dedupe_def table_of_def)

subsection \<open>The primary error\<close>

lemma pickPrimary_snoc: "pickPrimary (es @ [e]) = (case pickPrimary es of None \<Rightarrow> Some e | Some b \<Rightarrow> if before e b then Some e else Some b)"
  by (simp add: pickPrimary_def split: option.split)

lemma pickPrimary_None: "pickPrimary es = None \<longleftrightarrow> es = []"
  by (induction es rule: rev_induct) (auto simp: pickPrimary_snoc pickPrimary_def split: option.splits if_splits)

definition prio :: "error_detail \<Rightarrow> nat" where
  "prio e = nullish (CATEGORY_PRIORITY (ed_category e)) 0"

definition ranked :: "error_detail \<Rightarrow> bool" where
  "ranked e \<longleftrightarrow> CATEGORY_PRIORITY (ed_category e) \<noteq> None"

lemma before_prio: "ranked a \<Longrightarrow> ranked b \<Longrightarrow> before a b \<longleftrightarrow> prio a < prio b"
  by (auto simp: before_def ranked_def prio_def)

lemma pickPrimary_least:
  "list_all ranked es \<Longrightarrow> pickPrimary es = Some b \<Longrightarrow>
     find (\<lambda>e. \<forall>e' \<in> set es. prio e \<le> prio e') es = Some b"
proof (induction es arbitrary: b rule: rev_induct)
  case Nil
  then show ?case by (simp add: pickPrimary_def)
next
  case (snoc e es)
  show ?case
  proof (cases "pickPrimary es")
    case None
    then have "es = []" by (simp add: pickPrimary_None)
    then show ?thesis using snoc.prems by (simp add: pickPrimary_def)
  next
    case (Some c)
    then have c: "find (\<lambda>x. \<forall>e' \<in> set es. prio x \<le> prio e') es = Some c" using snoc by simp
    then have cin: "c \<in> set es" "\<forall>e' \<in> set es. prio c \<le> prio e'" by (auto dest: find_Some_set)
    have rk: "ranked c" "ranked e" using snoc.prems cin by (auto simp: list_all_iff)
    show ?thesis
    proof (cases "prio e < prio c")
      case True
      then have "b = e" using snoc.prems Some rk by (simp add: pickPrimary_snoc before_prio)
      moreover have "find (\<lambda>x. \<forall>e' \<in> set (es @ [e]). prio x \<le> prio e') es = None"
        using True cin by (fastforce simp: find_None_iff)
      moreover have "\<forall>e' \<in> set (es @ [e]). prio e \<le> prio e'" using True cin by (auto intro: order_trans less_imp_le)
      ultimately show ?thesis by (simp add: find_append)
    next
      case False
      then have "b = c" using snoc.prems Some rk by (simp add: pickPrimary_snoc before_prio)
      moreover have "find (\<lambda>x. \<forall>e' \<in> set (es @ [e]). prio x \<le> prio e') es = find (\<lambda>x. \<forall>e' \<in> set es. prio x \<le> prio e') es"
        using False cin by (intro find_cong) (auto intro: order_trans)
      ultimately show ?thesis using c by (simp add: find_append)
    qed
  qed
qed


lemma filter_find_least:
  assumes "find (\<lambda>e. \<forall>e' \<in> set es. f e \<le> (f e' :: nat)) es = Some b" "find (\<lambda>e. f e = 0) es = Some c"
  shows "b = c"
proof -
  have "\<exists>e \<in> set es. f e = 0" using assms(2) find_Some_set by fast
  then have "find (\<lambda>e. \<forall>e' \<in> set es. f e \<le> f e') es = find (\<lambda>e. f e = 0) es"
    by (intro find_cong refl) (metis le0 le_zero_eq)
  then show ?thesis using assms by simp
qed

lemma prio_contract: "ranked e \<Longrightarrow> prio e = 0 \<longleftrightarrow> ed_category e = CONTRACT"
  by (auto simp: ranked_def prio_def CATEGORY_PRIORITY_def split: category.splits)



subsection \<open>Properties\<close>


text \<open>the primary error is the first of the errors whose category comes first in the order of root causes; if
  any contract reported an error of its own, it is the first of those, and the summary is its message.\<close>

theorem diagnosis_root_cause:
  assumes "analyzeTransaction p inh x m i = Inr r" "list_all ranked (rt_errors r)"
  shows "rt_primaryError r = (if rt_errors r = [] then None else find (\<lambda>e. \<forall>e' \<in> set (rt_errors r). prio e \<le> prio e') (rt_errors r))
    \<and> (rt_contractError r \<noteq> None \<longrightarrow> rt_primaryError r = rt_contractError r)
    \<and> (\<forall>e. rt_primaryError r = Some e \<and> ed_category e \<noteq> CONTRACT \<longrightarrow> rt_summary r = ed_message e)
    \<and> (rt_errors r \<noteq> [] \<longrightarrow> rt_failed r)"
proof -
  obtain n sc es codes where r: "r = report_of p i n sc es codes"
    using assms(1) unfolding analyzeTransaction_def Let_def result_bind_Inr by blast
  then have f: "rt_errors r = es" "rt_primaryError r = pickPrimary es" "rt_contractError r = find (\<lambda>e. ed_category e = CONTRACT) es"
    "rt_failed r = (es \<noteq> [] \<or> rt_failed r)" "rt_summary r = summarize p (r\<lparr>rt_summary := []\<rparr>)"
    by (auto simp: report_of_def Let_def)
  have least: "pickPrimary es = (if es = [] then None else find (\<lambda>e. \<forall>e' \<in> set es. prio e \<le> prio e') es)"
    using pickPrimary_least [of es] pickPrimary_None [of es] assms(2) f(1) by (cases "pickPrimary es") auto
  have "pickPrimary es = rt_contractError r" if c: "rt_contractError r \<noteq> None"
  proof -
    have z: "find (\<lambda>e. prio e = 0) es = find (\<lambda>e. ed_category e = CONTRACT) es"
      using assms(2) f(1) by (intro find_cong refl) (auto simp: list_all_iff prio_contract)
    obtain k where k: "find (\<lambda>e. prio e = 0) es = Some k" using c z f(3) by auto
    then have "es \<noteq> []" by auto
    then obtain b where b: "pickPrimary es = Some b" using pickPrimary_None [of es] by auto
    from filter_find_least [OF _ k] least b \<open>es \<noteq> []\<close> have "b = k" by simp
    then show ?thesis using b k z f(3) by simp
  qed
  moreover have "rt_summary r = ed_message e" if "rt_primaryError r = Some e" "ed_category e \<noteq> CONTRACT" for e
  proof -
    have "es \<noteq> []" using that(1) f(2) pickPrimary_None [of es] by auto
    then have "rt_failed r" using f(4) by simp
    then show ?thesis using that by (subst f(5)) (simp add: summarize_def)
  qed
  ultimately show ?thesis using least f(1,2,4) by auto
qed






definition sample_codec :: xdr_codec where
  "sample_codec = \<lparr>xc_event = (\<lambda>_. None), xc_result = (\<lambda>_. None), xc_meta = (\<lambda>_. None)\<rparr>"

definition sample_print :: "rat \<Rightarrow> string" where
  "sample_print q = int_text \<lfloor>q\<rfloor>"

definition sample_event :: event_object where
  "sample_event = \<lparr>eo_isEvent = True, eo_parts = Some \<lparr>ep_contractId = Some ''C1'', ep_type = None,
     ep_topics = [DvValue (Some (NvStr ''error'')), DvError \<lparr>se_switch = Some ''sceAuth'', se_contractCode = None, se_code = Some ''scecInvalidAction''\<rparr>],
     ep_data = DvValue (Some (NvStr ''failed''))\<rparr>, eo_inSuccessfulContractCall = None\<rparr>"

definition sample_failure :: tx_input where
  "sample_failure = no_input\<lparr>ti_diagnosticEvents := Some [XdrText ''bad'', XdrObject sample_event],
     ti_errorMessage := JStr ''HostError: Error(Contract, #6)'', ti_contractHint := Some ''call_registry''\<rparr>"

definition sample_report :: report where
  "sample_report = (case analyzeTransaction sample_print (\<lambda>_. []) sample_codec Map.empty sample_failure of Inr r \<Rightarrow> r)"

lemma sample_analysis:
  "analyzeTransaction sample_print (\<lambda>_. []) sample_codec Map.empty sample_failure = Inr sample_report
   \<and> list_all ranked (rt_errors sample_report) \<and> rt_contractError sample_report \<noteq> None \<and> rt_primaryError sample_report = rt_contractError sample_report"
  by code_simp

text \<open>Code 1 has two names among the contracts, so without the contract it gets none.\<close>

lemma already_initialized_ambiguous:
  "case translateContractError sample_print Map.empty (Fin 1) None None of Inr t \<Rightarrow> tn_name t = None \<and> length (tn_candidates t) = 20"
  by code_simp

text \<open>Names every object inherits are taken for entries of the tables: as a hint they make the analysis throw, and as
  an error type they have no priority, so that such an error stays the primary one.\<close>

lemma inherited_hint_throws:
  "analyzeTransaction sample_print (\<lambda>_. []) sample_codec Map.empty (sample_failure\<lparr>ti_contractHint := Some ''constructor''\<rparr>) = Inl DiagTypeError"
  by code_simp

lemma inherited_type_hides_contract_error:
  "case analyzeTransaction sample_print (\<lambda>_. []) sample_codec Map.empty
      (no_input\<lparr>ti_errorMessage := JStr ''Error(toString, X) Error(Contract, #6)'', ti_contractHint := Some ''call_registry''\<rparr>) of
     Inr r \<Rightarrow> rt_contractError r \<noteq> None \<and> rt_primaryError r \<noteq> rt_contractError r"
  by code_simp


theorem diagnosis_root_cause_witness:
  "rt_primaryError sample_report = rt_contractError sample_report \<and> rt_contractError sample_report \<noteq> None"
  using diagnosis_root_cause [of sample_print "\<lambda>_. []" sample_codec Map.empty sample_failure sample_report] sample_analysis
  by simp




end
