(* ===== verification/Notifications.thy ===== *)
theory Notifications
  imports DlqService JsArith Entities
begin

text \<open>
  \<^verbatim>\<open>packages/backend/src/notifications\<close>: a user's notifications and preferences, the alerts for calls that close
  soon, and the external dispatch through the queue \<^verbatim>\<open>notifications\<close> with its dead letters. Arguments of the
  model: the time, \<open>redis\<close> (the error of adding the job of a notification, if any), \<open>post\<close> (the error of sending
  one, if any). The database refuses a text longer than its column; an insert has no other failure.
\<close>

subsection \<open>Rows\<close>

datatype notification_type =
    BACKED_CALL | CALL_ENDED | PAYOUT_READY | NEW_FOLLOWER | CALL_RESOLVED | STAKE_UPDATE | CALL_CLOSING
  | PRICE_ALERT_TRIGGERED | TRANSACTION_FAILED

datatype channel = IN_APP | EMAIL | WEBHOOK

datatype dispatch_type = DISPATCH_EMAIL | DISPATCH_WEBHOOK | DISPATCH_NONE

fun dispatch_text :: "dispatch_type \<Rightarrow> string" where
  "dispatch_text DISPATCH_EMAIL = ''email''"
| "dispatch_text DISPATCH_WEBHOOK = ''webhook''"
| "dispatch_text DISPATCH_NONE = ''none''"

record notification =
  nf_id :: nat
  nf_userId :: string
  nf_type :: notification_type
  nf_referenceId :: "string option"
  nf_message :: string
  nf_readStatus :: bool
  nf_isDispatched :: bool
  nf_inApp :: bool
  nf_dispatchType :: dispatch_type
  nf_dispatchError :: "string option"
  nf_createdAt :: int

record preference =
  np_userAddress :: string
  np_type :: notification_type
  np_channel :: channel
  np_enabled :: bool

text \<open>\<open>nt_sent\<close> is what was handed to a sender without an error, in this order.\<close>

record notifier =
  nt_rows :: "notification list"
  nt_lastId :: nat
  nt_prefs :: "preference list"
  nt_dlq :: dlq_sys
  nt_isProcessing :: bool
  nt_sent :: "(nat \<times> dispatch_type) list"

datatype save_exn = ValueTooLong

definition fits :: "nat \<Rightarrow> string \<Rightarrow> bool" where
  "fits n s \<longleftrightarrow> length s \<le> n"

subsection \<open>Preferences\<close>

definition SUPPORTED_TYPES :: "notification_type list" where
  "SUPPORTED_TYPES = [CALL_RESOLVED, STAKE_UPDATE, NEW_FOLLOWER, PAYOUT_READY]"

definition CHANNELS :: "channel list" where
  "CHANNELS = [IN_APP, EMAIL, WEBHOOK]"

definition user_prefs :: "string \<Rightarrow> notifier \<Rightarrow> preference list" where
  "user_prefs u s = filter (\<lambda>p. np_userAddress p = u) (nt_prefs s)"

definition missing_prefs :: "string \<Rightarrow> preference list \<Rightarrow> preference list" where
  "missing_prefs u existing =
     concat (map (\<lambda>ty. concat (map (\<lambda>ch.
       if find (\<lambda>p. np_type p = ty \<and> np_channel p = ch) existing = None
       then [\<lparr>np_userAddress = u, np_type = ty, np_channel = ch, np_enabled = (ch = IN_APP)\<rparr>] else []) CHANNELS)) SUPPORTED_TYPES)"

definition initializePreferences :: "string \<Rightarrow> notifier \<Rightarrow> notifier \<times> (save_exn + preference list)" where
  "initializePreferences u s =
     (let existing = user_prefs u s; toCreate = missing_prefs u existing
      in if toCreate = [] then (s, Inr existing)
         else if \<not> fits 64 u then (s, Inl ValueTooLong)
         else (let s' = s\<lparr>nt_prefs := nt_prefs s @ toCreate\<rparr> in (s', Inr (user_prefs u s'))))"

definition getPreferences :: "string \<Rightarrow> notifier \<Rightarrow> notifier \<times> (save_exn + preference list)" where
  "getPreferences u s = initializePreferences u s"

definition is_pref :: "string \<Rightarrow> notification_type \<Rightarrow> channel \<Rightarrow> preference \<Rightarrow> bool" where
  "is_pref u ty ch p \<longleftrightarrow> np_userAddress p = u \<and> np_type p = ty \<and> np_channel p = ch"

text \<open>An update writes the rows that match; without one it does nothing.\<close>

definition update_pref :: "string \<Rightarrow> preference list \<Rightarrow> notification_type \<times> channel \<times> bool \<Rightarrow> preference list" where
  "update_pref u ps up = (case up of (ty, ch, on) \<Rightarrow>
     map (\<lambda>p. if is_pref u ty ch p then p\<lparr>np_enabled := on\<rparr> else p) ps)"

definition updatePreferences ::
  "string \<Rightarrow> (notification_type \<times> channel \<times> bool) list \<Rightarrow> notifier \<Rightarrow> notifier \<times> (save_exn + preference list)" where
  "updatePreferences u updates s =
     and_then (initializePreferences u s) (\<lambda>s1 _.
       let s2 = s1\<lparr>nt_prefs := foldl (update_pref u) (nt_prefs s1) updates\<rparr> in (s2, Inr (user_prefs u s2)))"

definition find_pref :: "string \<Rightarrow> notification_type \<Rightarrow> channel \<Rightarrow> notifier \<Rightarrow> preference option" where
  "find_pref u ty ch s = find (is_pref u ty ch) (nt_prefs s)"

definition checkPreference ::
  "string \<Rightarrow> notification_type \<Rightarrow> channel \<Rightarrow> notifier \<Rightarrow> notifier \<times> (save_exn + bool)" where
  "checkPreference u ty ch s =
     (if ty \<notin> set SUPPORTED_TYPES then (s, Inr (ch = IN_APP))
      else case find_pref u ty ch s of
        Some p \<Rightarrow> (s, Inr (np_enabled p))
      | None \<Rightarrow> and_then (initializePreferences u s) (\<lambda>s1 _. (s1, Inr
          (case find_pref u ty ch s1 of Some p \<Rightarrow> np_enabled p | None \<Rightarrow> ch = IN_APP))))"

subsection \<open>Creating notifications\<close>

text \<open>
  The queue takes a job unless it holds one with that id, in whatever state; the jobs of this queue
  have five attempts.
\<close>

definition queue_job :: "int \<Rightarrow> nat \<Rightarrow> src_job" where
  "queue_job now i = \<lparr>sj_id = Some (nat_str i), sj_name = ''dispatch-notification'',
     sj_data = JObj [(''notificationId'', JNum (Fin (of_nat i)))], sj_attemptsMade = 0, sj_optsAttempts = Some 5,
     sj_failedReason = None, sj_stacktrace = None, sj_timestamp = now, sj_state = ''waiting''\<rparr>"

definition put_job :: "string \<Rightarrow> src_job option \<Rightarrow> dlq_sys \<Rightarrow> dlq_sys" where
  "put_job k j d = d\<lparr>dq_src := (dq_src d)(NOTIFICATIONS := (dq_src d NOTIFICATIONS)(k := j))\<rparr>"

definition add_job :: "int \<Rightarrow> nat \<Rightarrow> dlq_sys \<Rightarrow> dlq_sys" where
  "add_job now i d = (if dq_src d NOTIFICATIONS (nat_str i) = None then put_job (nat_str i) (Some (queue_job now i)) d else d)"

definition enqueueNotification :: "int \<Rightarrow> (nat \<Rightarrow> string option) \<Rightarrow> nat \<Rightarrow> notifier \<Rightarrow> notifier \<times> (string + unit)" where
  "enqueueNotification now redis i s = (case redis i of
      Some e \<Rightarrow> (s, Inl e)
    | None \<Rightarrow> (s\<lparr>nt_dlq := add_job now i (nt_dlq s)\<rparr>, Inr ()))"

definition createNotification ::
  "int \<Rightarrow> (nat \<Rightarrow> string option) \<Rightarrow> string \<Rightarrow> notification_type \<Rightarrow> string \<Rightarrow> string option \<Rightarrow> dispatch_type \<Rightarrow> bool
   \<Rightarrow> notifier \<Rightarrow> notifier \<times> (save_exn + notification)" where
  "createNotification now redis u ty msg ref dt inApp s =
     (if fits 64 u \<and> fits 64 (nullish ref []) \<and> fits 255 msg
      then (let n = \<lparr>nf_id = nt_lastId s + 1, nf_userId = u, nf_type = ty, nf_referenceId = ref, nf_message = msg,
                     nf_readStatus = False, nf_isDispatched = (dt = DISPATCH_NONE), nf_inApp = inApp,
                     nf_dispatchType = dt, nf_dispatchError = None, nf_createdAt = now\<rparr>;
                s1 = s\<lparr>nt_rows := nt_rows s @ [n], nt_lastId := nt_lastId s + 1\<rparr>
            in (if dt = DISPATCH_NONE then s1 else fst (enqueueNotification now redis (nf_id n) s1), Inr n))
      else (s, Inl ValueTooLong))"

text \<open>One channel of \<open>notify\<close>: a row if it is enabled; the first row made is the result.\<close>

definition notify_channel ::
  "int \<Rightarrow> (nat \<Rightarrow> string option) \<Rightarrow> string \<Rightarrow> notification_type \<Rightarrow> string \<Rightarrow> string option \<Rightarrow> bool \<Rightarrow> dispatch_type \<Rightarrow> bool
   \<Rightarrow> notification option \<Rightarrow> notifier \<Rightarrow> notifier \<times> (save_exn + notification option)" where
  "notify_channel now redis u ty msg ref on dt inApp result s =
     (if on then and_then (createNotification now redis u ty msg ref dt inApp s) (\<lambda>s1 n.
        (s1, Inr (case result of None \<Rightarrow> Some n | Some r \<Rightarrow> Some r)))
      else (s, Inr result))"

definition notify ::
  "int \<Rightarrow> (nat \<Rightarrow> string option) \<Rightarrow> string \<Rightarrow> notification_type \<Rightarrow> string \<Rightarrow> string option \<Rightarrow> dispatch_type
   \<Rightarrow> notifier \<Rightarrow> notifier \<times> (save_exn + notification option)" where
  "notify now redis u ty msg ref dt s =
     (if ty \<notin> set SUPPORTED_TYPES
      then and_then (createNotification now redis u ty msg ref dt True s) (\<lambda>s1 n. (s1, Inr (Some n)))
      else
        and_then (checkPreference u ty IN_APP s) (\<lambda>s1 inAppEnabled.
        and_then (checkPreference u ty EMAIL s1) (\<lambda>s2 emailEnabled.
        and_then (checkPreference u ty WEBHOOK s2) (\<lambda>s3 webhookEnabled.
        and_then (notify_channel now redis u ty msg ref inAppEnabled DISPATCH_NONE True None s3) (\<lambda>s4 r1.
        and_then (notify_channel now redis u ty msg ref emailEnabled DISPATCH_EMAIL False r1 s4) (\<lambda>s5 r2.
        notify_channel now redis u ty msg ref webhookEnabled DISPATCH_WEBHOOK False r2 s5))))))"

definition notifyBackedCall where
  "notifyBackedCall now redis callCreatorId backerAddress callId dt =
     notify now redis callCreatorId BACKED_CALL (take 8 backerAddress @ ''... backed your call'') (Some (int_text callId)) dt"

definition notifyCallEnded where
  "notifyCallEnded now redis u callId dt =
     notify now redis u CALL_ENDED ''A call you staked on has ended'' (Some (int_text callId)) dt"

definition notifyPayoutReady where
  "notifyPayoutReady now redis u callId dt =
     notify now redis u PAYOUT_READY ''You won! Claim your payout'' (Some (int_text callId)) dt"

definition notifyNewFollower where
  "notifyNewFollower now redis u followerAddress dt =
     notify now redis u NEW_FOLLOWER (take 8 followerAddress @ ''... followed you'') (Some followerAddress) dt"

definition testExternalDispatch where
  "testExternalDispatch now redis u dt =
     notify now redis u NEW_FOLLOWER (''This is a test '' @ dispatch_text dt @ '' notification!'') None dt"

subsection \<open>Reading\<close>

text \<open>The newest first; rows of the same time stay in the order of their insertion.\<close>

record notification_page =
  pg_data :: "notification list"
  pg_totalCount :: nat
  pg_hasNext :: bool
  pg_unreadCount :: nat

definition inbox :: "string \<Rightarrow> notifier \<Rightarrow> notification list" where
  "inbox u s = filter (\<lambda>n. nf_userId n = u \<and> nf_inApp n) (nt_rows s)"

definition getNotifications :: "string \<Rightarrow> nat \<Rightarrow> nat \<Rightarrow> notifier \<Rightarrow> notification_page" where
  "getNotifications u limit offset s =
     (let rows = sort_key (\<lambda>n. - nf_createdAt n) (inbox u s);
          found = window offset (limit + 1) rows;
          hasNext = length found > limit
      in \<lparr>pg_data = (if hasNext then take limit found else found), pg_totalCount = length rows, pg_hasNext = hasNext,
          pg_unreadCount = length (filter (\<lambda>n. \<not> nf_readStatus n) (inbox u s))\<rparr>)"

definition update_where :: "('r \<Rightarrow> bool) \<Rightarrow> ('r \<Rightarrow> 'r) \<Rightarrow> 'r list \<Rightarrow> 'r list" where
  "update_where P f rows = map (\<lambda>r. if P r then f r else r) rows"

definition markRead :: "string \<Rightarrow> nat list option \<Rightarrow> notifier \<Rightarrow> notifier \<times> nat" where
  "markRead u ids s =
     (let P = (case ids of
            Some (i # is) \<Rightarrow> (\<lambda>n. nf_userId n = u \<and> nf_id n \<in> set (i # is) \<and> nf_inApp n)
          | _ \<Rightarrow> (\<lambda>n. nf_userId n = u \<and> \<not> nf_readStatus n \<and> nf_inApp n))
      in (s\<lparr>nt_rows := update_where P (\<lambda>n. n\<lparr>nf_readStatus := True\<rparr>) (nt_rows s)\<rparr>,
          length (filter P (nt_rows s))))"

subsection \<open>External dispatch\<close>

definition set_row :: "nat \<Rightarrow> (notification \<Rightarrow> notification) \<Rightarrow> notifier \<Rightarrow> notifier" where
  "set_row i f s = s\<lparr>nt_rows := update_where (\<lambda>n. nf_id n = i) f (nt_rows s)\<rparr>"

definition process_pending :: "int \<Rightarrow> (nat \<Rightarrow> string option) \<Rightarrow> notifier \<Rightarrow> notification \<Rightarrow> notifier" where
  "process_pending now redis s n =
     (if nf_dispatchType n = DISPATCH_NONE
      then set_row (nf_id n) (\<lambda>r. r\<lparr>nf_isDispatched := True\<rparr>) s
      else case enqueueNotification now redis (nf_id n) s of
        (s1, Inr _) \<Rightarrow> s1
      | (s1, Inl e) \<Rightarrow> set_row (nf_id n) (\<lambda>r. r\<lparr>nf_dispatchError := Some e\<rparr>) s1)"

text \<open>The query has no order: \<open>rank\<close> gives the one the database returns the pending rows in.\<close>

definition processPendingNotifications ::
  "(notification \<Rightarrow> nat) \<Rightarrow> int \<Rightarrow> (nat \<Rightarrow> string option) \<Rightarrow> notifier \<Rightarrow> notifier" where
  "processPendingNotifications rank now redis s =
     foldl (process_pending now redis) s (take 50 (sort_key rank (filter (\<lambda>n. \<not> nf_isDispatched n) (nt_rows s))))"

definition handleCron ::
  "(notification \<Rightarrow> nat) \<Rightarrow> int \<Rightarrow> (nat \<Rightarrow> string option) \<Rightarrow> notifier \<Rightarrow> notifier" where
  "handleCron rank now redis s =
     (if nt_isProcessing s then s
      else (processPendingNotifications rank now redis (s\<lparr>nt_isProcessing := True\<rparr>))\<lparr>nt_isProcessing := False\<rparr>)"

definition find_row :: "nat \<Rightarrow> notifier \<Rightarrow> notification option" where
  "find_row i s = find (\<lambda>n. nf_id n = i) (nt_rows s)"

definition job_notification :: "src_job \<Rightarrow> nat option" where
  "job_notification job = (case sj_data job of
      JObj ps \<Rightarrow> (case jget ps ''notificationId'' of JNum (Fin q) \<Rightarrow> if of_nat (nat \<lfloor>q\<rfloor>) = q then Some (nat \<lfloor>q\<rfloor>) else None | _ \<Rightarrow> None)
    | _ \<Rightarrow> None)"

text \<open>Mail is a stub that always succeeds; \<open>post\<close> is the error of the request to the webhook.\<close>

definition send :: "(notification \<Rightarrow> string option) \<Rightarrow> notification \<Rightarrow> string option" where
  "send post n = (case nf_dispatchType n of DISPATCH_WEBHOOK \<Rightarrow> post n | _ \<Rightarrow> None)"

definition process :: "(notification \<Rightarrow> string option) \<Rightarrow> src_job \<Rightarrow> notifier \<Rightarrow> notifier \<times> (string + unit)" where
  "process post job s =
     (case Option.bind (job_notification job) (\<lambda>i. find_row i s) of
        None \<Rightarrow> (s, Inr ())
      | Some n \<Rightarrow>
          if nf_isDispatched n then (s, Inr ())
          else if nf_dispatchType n = DISPATCH_NONE
          then (set_row (nf_id n) (\<lambda>r. r\<lparr>nf_isDispatched := True, nf_dispatchError := None\<rparr>) s, Inr ())
          else case send post n of
            None \<Rightarrow> (set_row (nf_id n) (\<lambda>r. r\<lparr>nf_isDispatched := True, nf_dispatchError := None\<rparr>)
                      (s\<lparr>nt_sent := nt_sent s @ [(nf_id n, nf_dispatchType n)]\<rparr>), Inr ())
          | Some e \<Rightarrow> (set_row (nf_id n) (\<lambda>r. r\<lparr>nf_dispatchError := Some e\<rparr>) s, Inl e))"

definition onFailed :: "(int \<Rightarrow> string) \<Rightarrow> string \<Rightarrow> int \<Rightarrow> src_job option \<Rightarrow> failure option \<Rightarrow> notifier \<Rightarrow> notifier" where
  "onFailed isof uuid now job err s = (case job of
      None \<Rightarrow> s
    | Some j \<Rightarrow> if isFinalAttempt j
        then s\<lparr>nt_dlq := moveToDeadLetter isof uuid now NOTIFICATIONS j err (nt_dlq s)\<rparr> else s)"

text \<open>
  The queue's worker runs a waiting job, counts a failed attempt and either lets it wait for the next or,
  after the last one, leaves it failed; a completed job is dropped after a day.
\<close>

definition set_job :: "string \<Rightarrow> src_job option \<Rightarrow> notifier \<Rightarrow> notifier" where
  "set_job k j s = s\<lparr>nt_dlq := put_job k j (nt_dlq s)\<rparr>"

definition get_job :: "string \<Rightarrow> notifier \<Rightarrow> src_job option" where
  "get_job k s = dq_src (nt_dlq s) NOTIFICATIONS k"

definition run_worker ::
  "(int \<Rightarrow> string) \<Rightarrow> string \<Rightarrow> int \<Rightarrow> (notification \<Rightarrow> string option) \<Rightarrow> string \<Rightarrow> notifier \<Rightarrow> notifier" where
  "run_worker isof uuid now post k s = (case get_job k s of
      None \<Rightarrow> s
    | Some job \<Rightarrow>
        if sj_state job \<noteq> ''waiting'' then s
        else case process post job s of
          (s1, Inr _) \<Rightarrow> set_job k (Some (job\<lparr>sj_state := ''completed''\<rparr>)) s1
        | (s1, Inl e) \<Rightarrow>
            (let j = job\<lparr>sj_attemptsMade := sj_attemptsMade job + 1, sj_failedReason := Some e\<rparr>;
                 j = j\<lparr>sj_state := if isFinalAttempt j then ''failed'' else ''waiting''\<rparr>
             in onFailed isof uuid now (Some j) (Some (None, Some e)) (set_job k (Some j) s1)))"

definition drop_completed :: "string \<Rightarrow> notifier \<Rightarrow> notifier" where
  "drop_completed k s = (case get_job k s of
      Some job \<Rightarrow> if sj_state job = ''completed'' then set_job k None s else s
    | None \<Rightarrow> s)"

subsection \<open>Calls that close soon\<close>

definition URGENT_WINDOW_MINUTES :: int where "URGENT_WINDOW_MINUTES = 15"

datatype wave = Standard | Urgent


record closing_event =
  cv_callId :: string
  cv_title :: string
  cv_userAddress :: string
  cv_position :: string
  cv_minutesLeft :: int
  cv_oddsRatio :: jsnum
  cv_wave :: wave



definition wave_of :: "int \<Rightarrow> wave" where
  "wave_of minutesLeft = (if minutesLeft \<le> URGENT_WINDOW_MINUTES then Urgent else Standard)"


definition computeOddsRatio :: "(rat \<Rightarrow> string) \<Rightarrow> call_row \<Rightarrow> jsnum" where
  "computeOddsRatio p c =
     (let yes = js_number (cl_totalYesStake c); no = js_number (cl_totalNoStake c)
      in if num_ge (Fin 0) no then Fin 0 else js_number (to_fixed p 4 (num_divide yes no)))"

text \<open>The message; its dash, U+2014, stands as code unit 151.\<close>

definition closing_message :: "string \<Rightarrow> int \<Rightarrow> string \<Rightarrow> string" where
  "closing_message title minutesLeft pos =
     ''Call '' @ [CHR 0x27] @ title @ [CHR 0x27] @ '' ends in '' @ int_text minutesLeft @ '' minutes '' @ [CHR 0x97]
       @ '' your stake is on '' @ pos @ ''.''"






subsection \<open>Preferences are complete\<close>

lemma find_unique: "a \<in> set xs \<Longrightarrow> P a \<Longrightarrow> (\<And>x. x \<in> set xs \<Longrightarrow> P x \<Longrightarrow> x = a) \<Longrightarrow> find P xs = Some a"
proof (induction xs)
  case (Cons y ys)
  show ?case
  proof (cases "P y")
    case True
    then have "y = a" by (rule Cons.prems(3) [OF list.set_intros(1)])
    then show ?thesis using True by simp
  next
    case False
    then have "a \<in> set ys" using Cons.prems(1,2) by auto
    from Cons.IH [OF this Cons.prems(2) Cons.prems(3) [OF list.set_intros(2)]] show ?thesis using False by simp
  qed
qed simp

lemma set_CHANNELS: "ch \<in> set CHANNELS"
  by (cases ch) (simp_all add: CHANNELS_def)

definition default_pref :: "string \<Rightarrow> notification_type \<Rightarrow> channel \<Rightarrow> preference" where
  "default_pref u ty ch = \<lparr>np_userAddress = u, np_type = ty, np_channel = ch, np_enabled = (ch = IN_APP)\<rparr>"

lemma default_pref_simps [simp]:
  "np_userAddress (default_pref u ty ch) = u" "np_type (default_pref u ty ch) = ty"
  "np_channel (default_pref u ty ch) = ch" "np_enabled (default_pref u ty ch) = (ch = IN_APP)"
  by (simp_all add: default_pref_def)

lemma set_concat_map: "set (concat (map f xs)) = (\<Union>x \<in> set xs. set (f x))"
  by simp

lemma mem_if: "x \<in> set (if c then [a] else []) \<longleftrightarrow> c \<and> x = a"
  by (cases c) simp_all

lemma set_missing_prefs:
  "set (missing_prefs u ex) = {default_pref u ty ch | ty ch. ty \<in> set SUPPORTED_TYPES
     \<and> find (\<lambda>p. np_type p = ty \<and> np_channel p = ch) ex = None}"
proof -
  define new where "new ty ch \<longleftrightarrow> find (\<lambda>p. np_type p = ty \<and> np_channel p = ch) ex = None" for ty ch
  have "set (missing_prefs u ex)
    = (\<Union>ty \<in> set SUPPORTED_TYPES. \<Union>ch \<in> set CHANNELS. set (if new ty ch then [default_pref u ty ch] else []))"
    unfolding missing_prefs_def new_def default_pref_def set_concat_map by (rule refl)
  also have "\<dots> = {default_pref u ty ch | ty ch. ty \<in> set SUPPORTED_TYPES \<and> new ty ch}"
    using set_CHANNELS by (auto split: if_splits)
  finally show ?thesis unfolding new_def .
qed

lemma find_user_prefs:
  "find (\<lambda>p. np_type p = ty \<and> np_channel p = ch) (user_prefs u s) = None \<longleftrightarrow> find_pref u ty ch s = None"
  by (auto simp: find_None_iff find_pref_def is_pref_def user_prefs_def)

lemma find_missing:
  assumes "find_pref u ty ch s = None" "ty \<in> set SUPPORTED_TYPES"
  shows "find (is_pref u ty ch) (missing_prefs u (user_prefs u s)) = Some (default_pref u ty ch)"
proof (rule find_unique)
  show "default_pref u ty ch \<in> set (missing_prefs u (user_prefs u s))"
    using assms by (auto simp: set_missing_prefs find_user_prefs)
  fix x
  assume x: "x \<in> set (missing_prefs u (user_prefs u s))" "is_pref u ty ch x"
  then obtain ty' ch' where "x = default_pref u ty' ch'" by (auto simp: set_missing_prefs)
  then show "x = default_pref u ty ch" using x(2) by (simp add: is_pref_def)
qed (simp add: is_pref_def)

definition effective :: "string \<Rightarrow> notification_type \<Rightarrow> channel \<Rightarrow> notifier \<Rightarrow> bool" where
  "effective u ty ch s = (case find_pref u ty ch s of Some p \<Rightarrow> np_enabled p | None \<Rightarrow> ch = IN_APP)"

lemma initializePreferences_total:
  assumes "fits 64 u"
  obtains s' where "initializePreferences u s = (s', Inr (user_prefs u s'))"
    "s' = s\<lparr>nt_prefs := nt_prefs s @ missing_prefs u (user_prefs u s)\<rparr>"
  using assms unfolding initializePreferences_def Let_def
  by (cases "missing_prefs u (user_prefs u s) = []") simp_all

lemma find_pref_initialized:
  assumes "ty \<in> set SUPPORTED_TYPES" "s' = s\<lparr>nt_prefs := nt_prefs s @ missing_prefs u (user_prefs u s)\<rparr>"
  shows "find_pref u ty ch s' = Some (case find_pref u ty ch s of Some p \<Rightarrow> p | None \<Rightarrow> default_pref u ty ch)"
  using find_missing [OF _ assms(1), of u ch s] assms(2)
  by (auto simp: find_pref_def find_append split: option.splits)

lemma checkPreference_effective:
  assumes "ty \<in> set SUPPORTED_TYPES" "fits 64 u"
  obtains ps where "checkPreference u ty ch s = (s\<lparr>nt_prefs := ps\<rparr>, Inr (effective u ty ch s))"
    "\<And>ch. effective u ty ch (s\<lparr>nt_prefs := ps\<rparr>) = effective u ty ch s"
proof (cases "find_pref u ty ch s")
  case (Some p)
  show thesis
    by (rule that [of "nt_prefs s"]) (simp_all add: checkPreference_def assms Some effective_def)
next
  case None
  obtain s' where s': "initializePreferences u s = (s', Inr (user_prefs u s'))"
    "s' = s\<lparr>nt_prefs := nt_prefs s @ missing_prefs u (user_prefs u s)\<rparr>"
    using initializePreferences_total [OF assms(2)] .
  note found = find_pref_initialized [OF assms(1) s'(2)]
  show thesis
  proof (rule that)
    show "checkPreference u ty ch s
      = (s\<lparr>nt_prefs := nt_prefs s @ missing_prefs u (user_prefs u s)\<rparr>, Inr (effective u ty ch s))"
      using None assms(1) found [of ch] s' by (simp add: checkPreference_def effective_def)
    show "effective u ty ch' (s\<lparr>nt_prefs := nt_prefs s @ missing_prefs u (user_prefs u s)\<rparr>) = effective u ty ch' s" for ch'
      using found [of ch'] s'(2) by (simp add: effective_def split: option.split)
  qed
qed

subsection \<open>What a notification leaves\<close>

definition message_fits :: "string \<Rightarrow> string option \<Rightarrow> string \<Rightarrow> bool" where
  "message_fits u ref msg \<longleftrightarrow> fits 64 u \<and> fits 64 (nullish ref []) \<and> fits 255 msg"

lemma createNotification_rows:
  assumes "message_fits u ref msg"
  obtains s' n where "createNotification now redis u ty msg ref dt inApp s = (s', Inr n)"
    "nt_rows s' = nt_rows s @ [n]" "nf_userId n = u" "nf_type n = ty" "nf_message n = msg" "nf_referenceId n = ref"
    "nf_inApp n = inApp" "nf_dispatchType n = dt" "nf_isDispatched n = (dt = DISPATCH_NONE)" "nf_id n = nt_lastId s + 1"
    "nt_lastId s' = nt_lastId s + 1" "nt_prefs s' = nt_prefs s" "nt_sent s' = nt_sent s"
proof -
  define n where "n = \<lparr>nf_id = nt_lastId s + 1, nf_userId = u, nf_type = ty, nf_referenceId = ref, nf_message = msg,
     nf_readStatus = False, nf_isDispatched = (dt = DISPATCH_NONE), nf_inApp = inApp,
     nf_dispatchType = dt, nf_dispatchError = None, nf_createdAt = now\<rparr>"
  define s1 where "s1 = s\<lparr>nt_rows := nt_rows s @ [n], nt_lastId := nt_lastId s + 1\<rparr>"
  define s' where "s' = (if dt = DISPATCH_NONE then s1 else fst (enqueueNotification now redis (nf_id n) s1))"
  have c: "createNotification now redis u ty msg ref dt inApp s = (s', Inr n)"
    using assms unfolding createNotification_def message_fits_def Let_def s'_def s1_def n_def by simp
  have "nt_rows s' = nt_rows s @ [n]" "nt_lastId s' = nt_lastId s + 1" "nt_prefs s' = nt_prefs s" "nt_sent s' = nt_sent s"
    unfolding s'_def enqueueNotification_def by (simp_all add: s1_def split: option.split)
  then show thesis by (intro that [OF c]) (simp_all add: n_def)
qed

lemma createNotification_refused:
  "\<not> message_fits u ref msg \<Longrightarrow> createNotification now redis u ty msg ref dt inApp s = (s, Inl ValueTooLong)"
  by (auto simp: createNotification_def message_fits_def)

text \<open>The rows of \<open>notify\<close>: type, dispatch and inbox of each.\<close>

definition kind_row :: "notification \<Rightarrow> string \<times> notification_type \<times> dispatch_type \<times> bool \<times> bool" where
  "kind_row n = (nf_userId n, nf_type n, nf_dispatchType n, nf_inApp n, nf_isDispatched n)"

lemma notify_channel_rows:
  assumes "message_fits u ref msg"
  obtains s' r rows where "notify_channel now redis u ty msg ref on dt inApp result s = (s', Inr r)"
    "nt_rows s' = nt_rows s @ rows" "map kind_row rows = (if on then [(u, ty, dt, inApp, dt = DISPATCH_NONE)] else [])"
proof (cases "on")
  case True
  obtain s' n where n: "createNotification now redis u ty msg ref dt inApp s = (s', Inr n)" "nt_rows s' = nt_rows s @ [n]"
    "nf_userId n = u" "nf_type n = ty" "nf_inApp n = inApp" "nf_dispatchType n = dt" "nf_isDispatched n = (dt = DISPATCH_NONE)"
    using assms by (rule createNotification_rows)
  then have "kind_row n = (u, ty, dt, inApp, dt = DISPATCH_NONE)" by (simp add: kind_row_def)
  note n = n this
  show thesis
    by (rule that [of s' "case result of None \<Rightarrow> Some n | Some r \<Rightarrow> Some r" "[n]"])
      (simp_all add: notify_channel_def True n)
qed (rule that [of s result "[]"], simp_all add: notify_channel_def)

lemma notify_rows:
  assumes ty: "ty \<in> set SUPPORTED_TYPES" and m: "message_fits u ref msg"
  shows "\<exists>s' r rows. notify now redis u ty msg ref dt s = (s', Inr r) \<and> nt_rows s' = nt_rows s @ rows
    \<and> map kind_row rows = (if effective u ty IN_APP s then [(u, ty, DISPATCH_NONE, True, True)] else [])
        @ (if effective u ty EMAIL s then [(u, ty, DISPATCH_EMAIL, False, False)] else [])
        @ (if effective u ty WEBHOOK s then [(u, ty, DISPATCH_WEBHOOK, False, False)] else [])"
proof -
  have u: "fits 64 u" using m by (simp add: message_fits_def)
  obtain p1 where c1: "checkPreference u ty IN_APP s = (s\<lparr>nt_prefs := p1\<rparr>, Inr (effective u ty IN_APP s))"
    "\<And>ch. effective u ty ch (s\<lparr>nt_prefs := p1\<rparr>) = effective u ty ch s"
    using checkPreference_effective [OF ty u] by blast
  obtain p2 where c2: "checkPreference u ty EMAIL (s\<lparr>nt_prefs := p1\<rparr>)
      = (s\<lparr>nt_prefs := p1\<rparr>\<lparr>nt_prefs := p2\<rparr>, Inr (effective u ty EMAIL s))"
    "\<And>ch. effective u ty ch (s\<lparr>nt_prefs := p1\<rparr>\<lparr>nt_prefs := p2\<rparr>) = effective u ty ch s"
    using checkPreference_effective [OF ty u, of EMAIL "s\<lparr>nt_prefs := p1\<rparr>"] unfolding c1(2) by blast
  obtain p3 where c3: "checkPreference u ty WEBHOOK (s\<lparr>nt_prefs := p1\<rparr>\<lparr>nt_prefs := p2\<rparr>)
      = (s\<lparr>nt_prefs := p1\<rparr>\<lparr>nt_prefs := p2\<rparr>\<lparr>nt_prefs := p3\<rparr>, Inr (effective u ty WEBHOOK s))"
    using checkPreference_effective [OF ty u, of WEBHOOK "s\<lparr>nt_prefs := p1\<rparr>\<lparr>nt_prefs := p2\<rparr>"] unfolding c2(2) by blast
  define t where "t = s\<lparr>nt_prefs := p1\<rparr>\<lparr>nt_prefs := p2\<rparr>\<lparr>nt_prefs := p3\<rparr>"
  obtain s1 r1 rows1 where n1: "notify_channel now redis u ty msg ref (effective u ty IN_APP s) DISPATCH_NONE True None t = (s1, Inr r1)"
    "nt_rows s1 = nt_rows t @ rows1"
    "map kind_row rows1 = (if effective u ty IN_APP s then [(u, ty, DISPATCH_NONE, True, DISPATCH_NONE = DISPATCH_NONE)] else [])"
    using notify_channel_rows [OF m] by blast
  obtain s2 r2 rows2 where n2: "notify_channel now redis u ty msg ref (effective u ty EMAIL s) DISPATCH_EMAIL False r1 s1 = (s2, Inr r2)"
    "nt_rows s2 = nt_rows s1 @ rows2"
    "map kind_row rows2 = (if effective u ty EMAIL s then [(u, ty, DISPATCH_EMAIL, False, DISPATCH_EMAIL = DISPATCH_NONE)] else [])"
    using notify_channel_rows [OF m] by blast
  obtain s3 r3 rows3 where n3: "notify_channel now redis u ty msg ref (effective u ty WEBHOOK s) DISPATCH_WEBHOOK False r2 s2 = (s3, Inr r3)"
    "nt_rows s3 = nt_rows s2 @ rows3"
    "map kind_row rows3 = (if effective u ty WEBHOOK s then [(u, ty, DISPATCH_WEBHOOK, False, DISPATCH_WEBHOOK = DISPATCH_NONE)] else [])"
    using notify_channel_rows [OF m] by blast
  have "notify now redis u ty msg ref dt s = (s3, Inr r3)"
    unfolding notify_def c1(1) and_then_simps c2(1) c3(1) t_def [symmetric] n1(1) n2(1) n3(1) using ty by simp
  moreover have "nt_rows s3 = nt_rows s @ (rows1 @ rows2 @ rows3)" by (simp add: n1 n2 n3 t_def)
  moreover have "map kind_row (rows1 @ rows2 @ rows3)
    = (if effective u ty IN_APP s then [(u, ty, DISPATCH_NONE, True, True)] else [])
        @ (if effective u ty EMAIL s then [(u, ty, DISPATCH_EMAIL, False, False)] else [])
        @ (if effective u ty WEBHOOK s then [(u, ty, DISPATCH_WEBHOOK, False, False)] else [])"
    unfolding map_append n1(3) n2(3) n3(3) by simp
  ultimately show ?thesis by blast
qed

text \<open>A notification of a configurable type makes one row for each channel the user has enabled (by default the
  inbox only), whatever dispatch the caller asked for: the inbox row is done, the others wait for dispatch.\<close>

theorem notify_follows_preferences:
  assumes ty: "ty \<in> set SUPPORTED_TYPES" and m: "message_fits u ref msg"
  shows "\<exists>s' r rows. notify now redis u ty msg ref dt s = (s', Inr r) \<and> nt_rows s' = nt_rows s @ rows
    \<and> map kind_row rows = (if effective u ty IN_APP s then [(u, ty, DISPATCH_NONE, True, True)] else [])
        @ (if effective u ty EMAIL s then [(u, ty, DISPATCH_EMAIL, False, False)] else [])
        @ (if effective u ty WEBHOOK s then [(u, ty, DISPATCH_WEBHOOK, False, False)] else [])"
  by (rule notify_rows [OF ty m])

subsection \<open>Dispatch\<close>

datatype notify_op =
    NotifyOp int "nat \<Rightarrow> string option" string notification_type string "string option" dispatch_type
  | CreateOp int "nat \<Rightarrow> string option" string notification_type string "string option" dispatch_type bool
  | ReadOp string "nat list option"
  | PrefsOp string "(notification_type \<times> channel \<times> bool) list"
  | CronOp "notification \<Rightarrow> nat" int "nat \<Rightarrow> string option"
  | WorkOp "int \<Rightarrow> string" string int "notification \<Rightarrow> string option" string
  | DropOp string
  | QueueOp dlq_sys   \<comment> \<open>whatever else happens to the queue and its dead letters\<close>

fun notify_step :: "notifier \<Rightarrow> notify_op \<Rightarrow> notifier" where
  "notify_step s (NotifyOp now redis u ty msg ref dt) = fst (notify now redis u ty msg ref dt s)"
| "notify_step s (CreateOp now redis u ty msg ref dt inApp) = fst (createNotification now redis u ty msg ref dt inApp s)"
| "notify_step s (ReadOp u ids) = fst (markRead u ids s)"
| "notify_step s (PrefsOp u ups) = fst (updatePreferences u ups s)"
| "notify_step s (CronOp rank now redis) = handleCron rank now redis s"
| "notify_step s (WorkOp isof uuid now post k) = run_worker isof uuid now post k s"
| "notify_step s (DropOp k) = drop_completed k s"
| "notify_step s (QueueOp d) = s\<lparr>nt_dlq := d\<rparr>"

text \<open>
  A row's key and whether it is done; a row without external dispatch always is. What is sent is exactly what
  is done of the others, each once.
\<close>

definition key_of :: "notification \<Rightarrow> nat \<times> dispatch_type" where
  "key_of n = (nf_id n, nf_dispatchType n)"

definition done_row :: "notification \<Rightarrow> bool" where
  "done_row n \<longleftrightarrow> nf_dispatchType n = DISPATCH_NONE \<or> nf_isDispatched n"

definition sent_ok :: "notifier \<Rightarrow> bool" where
  "sent_ok s \<longleftrightarrow> distinct (map nf_id (nt_rows s)) \<and> (\<forall>n \<in> set (nt_rows s). nf_id n \<le> nt_lastId s)
    \<and> distinct (map fst (nt_sent s)) \<and> set (nt_sent s) \<subseteq> key_of ` set (nt_rows s)
    \<and> (\<forall>n \<in> set (nt_rows s). done_row n \<longleftrightarrow> nf_dispatchType n = DISPATCH_NONE \<or> key_of n \<in> set (nt_sent s))"

lemma sent_ok_frame [simp]:
  "sent_ok (s\<lparr>nt_dlq := d\<rparr>) = sent_ok s" "sent_ok (s\<lparr>nt_prefs := ps\<rparr>) = sent_ok s" "sent_ok (s\<lparr>nt_isProcessing := b\<rparr>) = sent_ok s"
  "sent_ok (set_job k j s) = sent_ok s"
  by (simp_all add: sent_ok_def set_job_def)

text \<open>A change of the rows that keeps keys and what is done.\<close>

lemma sent_ok_update:
  assumes ok: "sent_ok s" and f: "\<And>n. key_of (f n) = key_of n"
    and d: "\<And>n. n \<in> set (nt_rows s) \<Longrightarrow> P n \<Longrightarrow> done_row (f n) = done_row n"
  shows "sent_ok (s\<lparr>nt_rows := update_where P f (nt_rows s)\<rparr>)"
proof -
  define g where "g n = (if P n then f n else n)" for n
  have g: "key_of (g n) = key_of n" for n by (simp add: g_def f)
  then have g': "nf_id (g n) = nf_id n" "nf_dispatchType (g n) = nf_dispatchType n" for n
    unfolding key_of_def by (metis prod.inject)+
  have dg: "done_row (g n) = done_row n" if "n \<in> set (nt_rows s)" for n by (simp add: g_def d that)
  have "map nf_id (map g (nt_rows s)) = map nf_id (nt_rows s)" by (simp add: g')
  moreover have "key_of ` set (map g (nt_rows s)) = key_of ` set (nt_rows s)" by (simp add: image_image g)
  ultimately show ?thesis
    using ok dg unfolding sent_ok_def update_where_def by (simp add: g' g comp_def flip: g_def)
qed

lemma same_row: "sent_ok s \<Longrightarrow> n \<in> set (nt_rows s) \<Longrightarrow> m \<in> set (nt_rows s) \<Longrightarrow> nf_id m = nf_id n \<Longrightarrow> m = n"
  unfolding sent_ok_def by (meson distinct_map inj_onD)

lemma sent_ok_new:
  assumes ok: "sent_ok s" and n: "nf_id n = nt_lastId s + 1" "nf_isDispatched n = (nf_dispatchType n = DISPATCH_NONE)"
  shows "sent_ok (s\<lparr>nt_rows := nt_rows s @ [n], nt_lastId := nt_lastId s + 1\<rparr>)"
proof -
  have le: "nf_id m \<le> nt_lastId s" if "m \<in> set (nt_rows s)" for m using ok that by (simp add: sent_ok_def)
  have "key_of n \<notin> key_of ` set (nt_rows s)" using le n(1) by (auto simp: key_of_def dest: le)
  then have "key_of n \<notin> set (nt_sent s)" using ok by (auto simp: sent_ok_def)
  moreover have "nf_id n \<notin> nf_id ` set (nt_rows s)" using le n(1) by (auto dest: le)
  moreover have "done_row n \<longleftrightarrow> nf_dispatchType n = DISPATCH_NONE" using n(2) by (simp add: done_row_def)
  ultimately show ?thesis
    using ok n(1) unfolding sent_ok_def by (auto simp: le_SucI)
qed

lemma sent_ok_send:
  assumes ok: "sent_ok s" and n: "n \<in> set (nt_rows s)" "\<not> done_row n"
  shows "sent_ok (set_row (nf_id n) (\<lambda>r. r\<lparr>nf_isDispatched := True, nf_dispatchError := None\<rparr>)
    (s\<lparr>nt_sent := nt_sent s @ [key_of n]\<rparr>))"
proof -
  define g where "g r = (if nf_id r = nf_id n then r\<lparr>nf_isDispatched := True, nf_dispatchError := None\<rparr> else r)" for r :: notification
  have g: "key_of (g r) = key_of r" "nf_id (g r) = nf_id r" "nf_dispatchType (g r) = nf_dispatchType r"
    "done_row (g r) = (done_row r \<or> nf_id r = nf_id n)" for r
    unfolding g_def key_of_def done_row_def by (cases "nf_id r = nf_id n", simp, simp)+
  define S where "S = set (nt_sent s)"
  have o: "distinct (map nf_id (nt_rows s))" "\<forall>m \<in> set (nt_rows s). nf_id m \<le> nt_lastId s" "distinct (map fst (nt_sent s))"
    "S \<subseteq> key_of ` set (nt_rows s)"
    "\<And>m. m \<in> set (nt_rows s) \<Longrightarrow> done_row m \<longleftrightarrow> nf_dispatchType m = DISPATCH_NONE \<or> key_of m \<in> S"
    using ok by (simp_all add: sent_ok_def S_def)
  have same: "nf_id m = nf_id n \<longleftrightarrow> key_of m = key_of n" if "m \<in> set (nt_rows s)" for m
    using same_row [OF ok n(1) that] unfolding key_of_def by (cases "nf_id m = nf_id n") simp_all
  have new: "fst (key_of n) \<notin> fst ` S"
  proof
    assume "fst (key_of n) \<in> fst ` S"
    then obtain x where x: "fst (key_of n) = fst x" "x \<in> S" by (rule imageE)
    with o(4) have "x \<in> key_of ` set (nt_rows s)" by (elim subsetD)
    then obtain m where m: "x = key_of m" "m \<in> set (nt_rows s)" by (rule imageE)
    then have mn: "m = n" using same_row [OF ok n(1) m(2)] x(1) by (simp add: key_of_def)
    from x(2) m(1) mn o(5) [OF n(1)] n(2) show False by simp
  qed
  have "distinct (map nf_id (map g (nt_rows s)))" using o(1) by (simp add: g comp_def)
  moreover have "key_of ` set (map g (nt_rows s)) = key_of ` set (nt_rows s)" by (simp add: image_image g)
  moreover have "distinct (map fst (nt_sent s @ [key_of n]))" using o(3) new by (simp add: S_def)
  moreover have "done_row (g m) \<longleftrightarrow> nf_dispatchType (g m) = DISPATCH_NONE \<or> key_of (g m) \<in> set (nt_sent s @ [key_of n])"
    if "m \<in> set (nt_rows s)" for m
    using o(5) [OF that] same [OF that] unfolding g by (simp add: S_def) argo
  ultimately show ?thesis
    using o(2,4) n(1) unfolding sent_ok_def set_row_def update_where_def
    by (simp add: g S_def flip: g_def)
qed

lemma createNotification_ok:
  assumes "sent_ok s"
  shows "sent_ok (fst (createNotification now redis u ty msg ref dt inApp s))"
proof (cases "message_fits u ref msg")
  case True
  define n where "n = \<lparr>nf_id = nt_lastId s + 1, nf_userId = u, nf_type = ty, nf_referenceId = ref, nf_message = msg,
     nf_readStatus = False, nf_isDispatched = (dt = DISPATCH_NONE), nf_inApp = inApp,
     nf_dispatchType = dt, nf_dispatchError = None, nf_createdAt = now\<rparr>"
  define s1 where "s1 = s\<lparr>nt_rows := nt_rows s @ [n], nt_lastId := nt_lastId s + 1\<rparr>"
  have "sent_ok s1" unfolding s1_def by (rule sent_ok_new [OF assms]) (simp_all add: n_def)
  moreover have "fst (createNotification now redis u ty msg ref dt inApp s)
    = (if dt = DISPATCH_NONE then s1 else fst (enqueueNotification now redis (nf_id n) s1))"
    using True by (simp add: createNotification_def message_fits_def Let_def n_def s1_def)
  ultimately show ?thesis by (simp add: enqueueNotification_def split: option.split)
qed (simp add: createNotification_refused assms)

lemma initializePreferences_ok: "sent_ok s \<Longrightarrow> sent_ok (fst (initializePreferences u s))"
  by (simp add: initializePreferences_def Let_def)

lemma and_then_ok:
  assumes "sent_ok (fst r)" "\<And>t v. sent_ok t \<Longrightarrow> sent_ok (fst (f t v))"
  shows "sent_ok (fst (and_then r f))"
  using assms by (cases r; cases "snd r") simp_all

lemma checkPreference_ok:
  assumes "sent_ok s"
  shows "sent_ok (fst (checkPreference u ty ch s))"
proof -
  have "sent_ok (fst (and_then (initializePreferences u s) (\<lambda>t _. (t, Inr (v t)))))" for v :: "notifier \<Rightarrow> bool"
    by (rule and_then_ok [OF initializePreferences_ok [OF assms]]) simp
  then show ?thesis using assms by (simp add: checkPreference_def split: option.split)
qed

lemma notify_channel_ok:
  assumes "sent_ok s"
  shows "sent_ok (fst (notify_channel now redis u ty msg ref on dt inApp r s))"
proof -
  have "sent_ok (fst (and_then (createNotification now redis u ty msg ref dt inApp s) (\<lambda>t n. (t, Inr (v n)))))"
    for v :: "notification \<Rightarrow> notification option"
    by (rule and_then_ok [OF createNotification_ok [OF assms]]) simp
  then show ?thesis using assms by (simp add: notify_channel_def)
qed

lemma notify_ok:
  assumes "sent_ok s"
  shows "sent_ok (fst (notify now redis u ty msg ref dt s))"
proof (cases "ty \<in> set SUPPORTED_TYPES")
  case False
  have "sent_ok (fst (and_then (createNotification now redis u ty msg ref dt True s) (\<lambda>t n. (t, Inr (Some n)))))"
    by (rule and_then_ok [OF createNotification_ok [OF assms]]) simp
  with False show ?thesis by (simp add: notify_def)
next
  case True
  then show ?thesis
    by (simp add: notify_def) (intro and_then_ok checkPreference_ok notify_channel_ok assms)
qed

lemma set_row_ok:
  assumes "sent_ok s" "\<And>n. key_of (f n) = key_of n"
    "\<And>n. n \<in> set (nt_rows s) \<Longrightarrow> nf_id n = i \<Longrightarrow> done_row (f n) = done_row n"
  shows "sent_ok (set_row i f s)"
  unfolding set_row_def by (rule sent_ok_update [OF assms])

lemma done_keys [simp]:
  "key_of (r\<lparr>nf_isDispatched := b\<rparr>) = key_of r" "key_of (r\<lparr>nf_dispatchError := e\<rparr>) = key_of r"
  "key_of (r\<lparr>nf_isDispatched := b, nf_dispatchError := e\<rparr>) = key_of r" "key_of (r\<lparr>nf_readStatus := b\<rparr>) = key_of r"
  "done_row (r\<lparr>nf_dispatchError := e\<rparr>) = done_row r" "done_row (r\<lparr>nf_readStatus := b\<rparr>) = done_row r"
  "nf_dispatchType r = DISPATCH_NONE \<Longrightarrow> done_row (r\<lparr>nf_isDispatched := b\<rparr>) = done_row r"
  "nf_dispatchType r = DISPATCH_NONE \<Longrightarrow> done_row (r\<lparr>nf_isDispatched := b, nf_dispatchError := e\<rparr>) = done_row r"
  by (simp_all add: key_of_def done_row_def)

lemma markRead_ok: "sent_ok s \<Longrightarrow> sent_ok (fst (markRead u ids s))"
  unfolding markRead_def Let_def fst_conv by (rule sent_ok_update) simp_all

lemma enqueue_ok [simp]: "sent_ok (fst (enqueueNotification now redis i s)) = sent_ok s"
  "nt_rows (fst (enqueueNotification now redis i s)) = nt_rows s"
  by (simp_all add: enqueueNotification_def split: option.split)

lemma set_row_keys: "(\<And>n. key_of (f n) = key_of n) \<Longrightarrow> map key_of (nt_rows (set_row i f s)) = map key_of (nt_rows s)"
  by (simp add: set_row_def update_where_def)

lemma process_pending_ok:
  assumes ok: "sent_ok s" and n: "key_of n \<in> set (map key_of (nt_rows s))"
  shows "sent_ok (process_pending now redis s n) \<and> map key_of (nt_rows (process_pending now redis s n)) = map key_of (nt_rows s)"
proof (cases "nf_dispatchType n = DISPATCH_NONE")
  case True
  obtain n' where n': "n' \<in> set (nt_rows s)" "key_of n = key_of n'" using n unfolding set_map by (rule imageE)
  have "nf_dispatchType m = DISPATCH_NONE" if "m \<in> set (nt_rows s)" "nf_id m = nf_id n" for m
    using same_row [OF ok n'(1) that(1)] that(2) n'(2) True by (simp add: key_of_def)
  with True show ?thesis
    unfolding process_pending_def by (simp add: set_row_ok [OF ok] set_row_keys)
next
  case False
  obtain t r where t: "enqueueNotification now redis (nf_id n) s = (t, r)" by (cases "enqueueNotification now redis (nf_id n) s")
  have "sent_ok t" "nt_rows t = nt_rows s"
    using ok enqueue_ok [of now redis "nf_id n" s] t by simp_all
  with False t show ?thesis
    by (cases r) (simp_all add: process_pending_def set_row_ok set_row_keys)
qed

lemma fold_pending_ok:
  "sent_ok s \<Longrightarrow> key_of ` set ns \<subseteq> set (map key_of (nt_rows s)) \<Longrightarrow> sent_ok (foldl (process_pending now redis) s ns)"
proof (induction ns arbitrary: s)
  case (Cons n ns)
  have "key_of n \<in> set (map key_of (nt_rows s))" using Cons.prems(2) by (rule subsetD) simp
  note step = process_pending_ok [OF Cons.prems(1) this, of now redis]
  have "sent_ok (foldl (process_pending now redis) (process_pending now redis s n) ns)"
  proof (rule Cons.IH)
    show "key_of ` set ns \<subseteq> set (map key_of (nt_rows (process_pending now redis s n)))"
      unfolding conjunct2 [OF step] by (rule subset_trans [OF _ Cons.prems(2)]) (simp add: image_mono subset_insertI)
  qed (rule conjunct1 [OF step])
  then show ?case by simp
qed simp

lemma processPending_ok:
  assumes "sent_ok s"
  shows "sent_ok (processPendingNotifications rank now redis s)"
  unfolding processPendingNotifications_def
proof (rule fold_pending_ok [OF assms])
  have "set (take 50 (sort_key rank (filter (\<lambda>n. \<not> nf_isDispatched n) (nt_rows s)))) \<subseteq> set (nt_rows s)"
    by (rule subset_trans [OF set_take_subset]) simp
  then show "key_of ` set (take 50 (sort_key rank (filter (\<lambda>n. \<not> nf_isDispatched n) (nt_rows s)))) \<subseteq> set (map key_of (nt_rows s))"
    unfolding set_map by (rule image_mono)
qed

lemma process_ok:
  assumes ok: "sent_ok s"
  shows "sent_ok (fst (process post job s))"
proof (cases "Option.bind (job_notification job) (\<lambda>i. find_row i s)")
  case None
  then show ?thesis using ok by (simp add: process_def)
next
  case (Some n)
  then have n: "n \<in> set (nt_rows s)" by (auto simp: find_row_def bind_eq_Some_conv dest: find_Some_set)
  have none: "nf_dispatchType m = DISPATCH_NONE"
    if "nf_dispatchType n = DISPATCH_NONE" "m \<in> set (nt_rows s)" "nf_id m = nf_id n" for m
    using same_row [OF ok n that(2,3)] that(1) by simp
  show ?thesis
  proof (cases "nf_isDispatched n")
    case True
    with Some ok show ?thesis by (simp add: process_def)
  next
    case False
    note d = False
    show ?thesis
    proof (cases "nf_dispatchType n = DISPATCH_NONE")
      case True
      have "sent_ok (set_row (nf_id n) (\<lambda>r. r\<lparr>nf_isDispatched := True, nf_dispatchError := None\<rparr>) s)"
        by (rule set_row_ok [OF ok]) (simp_all add: none [OF True])
      with Some d True show ?thesis by (simp add: process_def)
    next
      case False
      have "sent_ok (set_row (nf_id n) (\<lambda>r. r\<lparr>nf_isDispatched := True, nf_dispatchError := None\<rparr>)
          (s\<lparr>nt_sent := nt_sent s @ [(nf_id n, nf_dispatchType n)]\<rparr>))"
        using sent_ok_send [OF ok n] d False unfolding key_of_def by (simp add: done_row_def)
      moreover have "sent_ok (set_row (nf_id n) (\<lambda>r. r\<lparr>nf_dispatchError := Some e\<rparr>) s)" for e
        by (rule set_row_ok [OF ok]) simp_all
      ultimately show ?thesis using Some d False by (simp add: process_def split: option.split)
    qed
  qed
qed

lemma run_worker_ok:
  assumes "sent_ok s"
  shows "sent_ok (run_worker isof uuid now post k s)"
proof (cases "get_job k s")
  case (Some job)
  obtain t r where t: "process post job s = (t, r)" by (cases "process post job s")
  then have "sent_ok t" using process_ok [OF assms, of post job] by simp
  then show ?thesis
    using Some assms t by (cases r) (simp_all add: run_worker_def onFailed_def Let_def)
qed (simp add: run_worker_def assms)

lemma notify_step_ok: "sent_ok s \<Longrightarrow> sent_ok (notify_step s e)"
proof (cases e)
  case (PrefsOp u ups)
  assume "sent_ok s"
  then show ?thesis
    unfolding PrefsOp notify_step.simps updatePreferences_def
    by (intro and_then_ok initializePreferences_ok) (simp_all add: Let_def)
next
  case (CronOp rank now redis)
  assume "sent_ok s"
  then show ?thesis unfolding CronOp by (simp add: handleCron_def processPending_ok)
next
  case (DropOp k)
  assume "sent_ok s"
  then show ?thesis unfolding DropOp by (simp add: drop_completed_def split: option.split)
qed (simp_all add: notify_ok createNotification_ok markRead_ok run_worker_ok)

interpretation dispatch: machine notify_step sent_ok
  by unfold_locales (rule notify_step_ok)

definition empty_notifier :: notifier where
  "empty_notifier = \<lparr>nt_rows = [], nt_lastId = 0, nt_prefs = [],
     nt_dlq = \<lparr>dq_rows = [], dq_lastId = 0, dq_locks = Map.empty, dq_src = (\<lambda>_ _. None)\<rparr>, nt_isProcessing = False, nt_sent = []\<rparr>"


text \<open>
  A job that has failed for good keeps its id in the queue: no cron run adds the notification again, and no worker
  takes the job; only a replay of its dead letter does.
\<close>

lemma failed_job_blocks:
  assumes "get_job k s = Some j" "sj_state j = ''failed''"
  shows "get_job k (handleCron rank now redis s) = Some j" "run_worker isof uuid now post k s = s"
proof -
  have "get_job k (process_pending now redis t n) = Some j" if "get_job k t = Some j" for t n
    using that by (auto simp: process_pending_def enqueueNotification_def get_job_def add_job_def put_job_def set_row_def split: option.split)
  then have "get_job k (foldl (process_pending now redis) t ns) = Some j" if "get_job k t = Some j" for t ns
    using that by (induction ns arbitrary: t) simp_all
  from this [of "s\<lparr>nt_isProcessing := True\<rparr>"] show "get_job k (handleCron rank now redis s) = Some j"
    using assms(1) by (simp add: handleCron_def processPendingNotifications_def get_job_def)
qed (simp add: run_worker_def assms)

subsection \<open>Alerts for closing calls\<close>




definition stake_position :: "stake_row \<Rightarrow> string" where
  "stake_position k = (if sk_position k = YES then ''UP'' else ''DOWN'')"

definition alert_fits :: "call_row \<Rightarrow> int \<Rightarrow> stake_row \<Rightarrow> bool" where
  "alert_fits c minutesLeft k \<longleftrightarrow>
     message_fits (sk_userAddress k) (Some (cl_id c)) (closing_message (cl_title c) minutesLeft (stake_position k))"

definition alert_event :: "(rat \<Rightarrow> string) \<Rightarrow> call_row \<Rightarrow> int \<Rightarrow> stake_row \<Rightarrow> closing_event" where
  "alert_event p c minutesLeft k = \<lparr>cv_callId = cl_id c, cv_title = cl_title c, cv_userAddress = sk_userAddress k,
     cv_position = stake_position k, cv_minutesLeft = minutesLeft, cv_oddsRatio = computeOddsRatio p c, cv_wave = wave_of minutesLeft\<rparr>"



lemma alert_event_simps [simp]:
  "cv_callId (alert_event p c m k) = cl_id c" "cv_userAddress (alert_event p c m k) = sk_userAddress k"
  "cv_wave (alert_event p c m k) = wave_of m"
  by (simp_all add: alert_event_def)



























subsection \<open>Where the alerts and the test fall short\<close>

text \<open>A call with a long title is never alerted: the message does not fit its column.\<close>

lemma long_title_refused: "208 \<le> length (cl_title c) \<Longrightarrow> \<not> alert_fits c m k"
proof
  assume l: "208 \<le> length (cl_title c)" and f: "alert_fits c m k"
  have "1 \<le> length (int_text m)" by (cases "int_text m") (auto simp: int_text_def split: if_splits)
  moreover have "2 \<le> length (stake_position k)" by (simp add: stake_position_def)
  ultimately show False
    using l f by (simp add: alert_fits_def message_fits_def fits_def closing_message_def)
qed

text \<open>The test of an external dispatch leaves only a row of the inbox for a user who has not enabled a channel.\<close>

lemma test_dispatch_inbox_only:
  assumes "\<And>ch. find_pref u NEW_FOLLOWER ch s = None" "fits 64 u"
  shows "\<exists>s' r n. testExternalDispatch now redis u dt s = (s', Inr r) \<and> nt_rows s' = nt_rows s @ [n]
    \<and> kind_row n = (u, NEW_FOLLOWER, DISPATCH_NONE, True, True)"
proof -
  have "length (dispatch_text dt) \<le> 7" by (cases dt) simp_all
  then have "message_fits u None (''This is a test '' @ dispatch_text dt @ '' notification!'')"
    using assms(2) by (simp add: message_fits_def fits_def)
  from notify_rows [OF _ this, of NEW_FOLLOWER now redis dt s] show ?thesis
    using assms(1) by (simp add: testExternalDispatch_def effective_def SUPPORTED_TYPES_def map_eq_Cons_conv) blast
qed

subsection \<open>Witnesses\<close>

definition sample_notifier :: notifier where
  "sample_notifier = empty_notifier\<lparr>nt_prefs :=
     [\<lparr>np_userAddress = ''GA'', np_type = STAKE_UPDATE, np_channel = WEBHOOK, np_enabled = True\<rparr>]\<rparr>"

theorem notify_follows_preferences_witness:
  "\<exists>s' r rows. notify 5 (\<lambda>_. None) ''GA'' STAKE_UPDATE ''staked'' None DISPATCH_NONE sample_notifier = (s', Inr r)
     \<and> nt_rows s' = nt_rows sample_notifier @ rows
     \<and> map kind_row rows = [(''GA'', STAKE_UPDATE, DISPATCH_NONE, True, True), (''GA'', STAKE_UPDATE, DISPATCH_WEBHOOK, False, False)]"
proof -
  have "STAKE_UPDATE \<in> set SUPPORTED_TYPES" "message_fits ''GA'' None ''staked''"
    by (simp_all add: SUPPORTED_TYPES_def message_fits_def fits_def)
  from notify_follows_preferences [OF this, of 5 "\<lambda>_. None" DISPATCH_NONE sample_notifier] show ?thesis
    by (simp add: effective_def find_pref_def is_pref_def sample_notifier_def empty_notifier_def)
qed






end
