(* ===== verification/Webhooks.thy ===== *)
theory Webhooks
  imports JsValue Store
begin

text \<open>
  \<^verbatim>\<open>packages/backend/src/webhooks\<close>: subscriptions, the jobs an event makes, one delivery with its rate limit,
  signature and log. Arguments of the model: the time and its ISO text \<open>isof\<close>, \<open>hmac\<close> (HMAC-SHA256 as hexadecimal
  text of a body and a secret), \<open>post\<close> (what a request gives: a status, or an error's message and status), \<open>p\<close>
  which prints a number. Writes to the database succeed.
\<close>

subsection \<open>Data\<close>

datatype webhook_event =
    CALL_CREATED_EV | CALL_RESOLVED_EV | STAKE_PLACED_EV | STAKE_WITHDRAWN_EV | PAYOUT_READY_EV | PRICE_ALERT_TRIGGERED_EV
  | LEADERBOARD_UPDATED_EV

fun event_text :: "webhook_event \<Rightarrow> string" where
  "event_text CALL_CREATED_EV = ''call.created''"
| "event_text CALL_RESOLVED_EV = ''call.resolved''"
| "event_text STAKE_PLACED_EV = ''stake.placed''"
| "event_text STAKE_WITHDRAWN_EV = ''stake.withdrawn''"
| "event_text PAYOUT_READY_EV = ''payout.ready''"
| "event_text PRICE_ALERT_TRIGGERED_EV = ''price.alert.triggered''"
| "event_text LEADERBOARD_UPDATED_EV = ''leaderboard.updated''"

record subscription =
  ws_id :: string
  ws_userAddress :: string
  ws_url :: string
  ws_secret :: string
  ws_events :: "webhook_event list"
  ws_isActive :: bool
  ws_createdAt :: int

record delivery_log =
  wl_id :: string
  wl_subscriptionId :: string
  wl_eventType :: string
  wl_payload :: string
  wl_success :: bool
  wl_statusCode :: "nat option"
  wl_errorMessage :: "string option"
  wl_attempt :: nat
  wl_createdAt :: int

record subscription_dto =
  wd_id :: string
  wd_userAddress :: string
  wd_url :: string
  wd_events :: "webhook_event list"
  wd_isActive :: bool
  wd_createdAt :: int
  wd_totalDeliveries :: nat
  wd_successfulDeliveries :: nat

record delivery_dto =
  wo_id :: string
  wo_subscriptionId :: string
  wo_eventType :: string
  wo_success :: bool
  wo_statusCode :: "nat option"
  wo_errorMessage :: "string option"
  wo_attempt :: nat
  wo_createdAt :: int

record webhook_job =
  wj_subscriptionId :: string
  wj_event :: webhook_event
  wj_data :: jval
  wj_attemptsMade :: nat

text \<open>The tables, the queue of jobs and the windows of the rate limiter.\<close>

record webhook_sys =
  wh_subs :: "subscription list"
  wh_logs :: "delivery_log list"
  wh_jobs :: "(string \<times> webhook_job) list"
  wh_windows :: "string \<Rightarrow> int list"

datatype webhook_exn = SubscriptionNotFound string | NotOwner

subsection \<open>Subscriptions\<close>

definition sub_dto :: "subscription \<Rightarrow> nat \<Rightarrow> nat \<Rightarrow> subscription_dto" where
  "sub_dto s tot successful = \<lparr>wd_id = ws_id s, wd_userAddress = ws_userAddress s, wd_url = ws_url s, wd_events = ws_events s,
     wd_isActive = ws_isActive s, wd_createdAt = ws_createdAt s, wd_totalDeliveries = tot, wd_successfulDeliveries = successful\<rparr>"

definition subscribe ::
  "string \<Rightarrow> int \<Rightarrow> string \<Rightarrow> string \<Rightarrow> string \<Rightarrow> webhook_event list \<Rightarrow> webhook_sys \<Rightarrow> webhook_sys \<times> subscription_dto" where
  "subscribe uuid now userAddress url secret events s =
     (let sub = \<lparr>ws_id = uuid, ws_userAddress = userAddress, ws_url = url, ws_secret = secret, ws_events = events,
            ws_isActive = True, ws_createdAt = now\<rparr>
      in (s\<lparr>wh_subs := wh_subs s @ [sub]\<rparr>, sub_dto sub 0 0))"

definition find_subscription :: "string \<Rightarrow> webhook_sys \<Rightarrow> subscription option" where
  "find_subscription i s = find (\<lambda>x. ws_id x = i) (wh_subs s)"

definition findOwnedOrThrow :: "string \<Rightarrow> string \<Rightarrow> webhook_sys \<Rightarrow> webhook_exn + subscription" where
  "findOwnedOrThrow userAddress i s = (case find_subscription i s of
      None \<Rightarrow> Inl (SubscriptionNotFound (''Webhook subscription '' @ i @ '' not found''))
    | Some sub \<Rightarrow> if ws_userAddress sub \<noteq> userAddress then Inl NotOwner else Inr sub)"

definition unsubscribe :: "string \<Rightarrow> string \<Rightarrow> webhook_sys \<Rightarrow> webhook_sys \<times> (webhook_exn + unit)" where
  "unsubscribe userAddress i s = (case findOwnedOrThrow userAddress i s of
      Inl e \<Rightarrow> (s, Inl e)
    | Inr sub \<Rightarrow> (s\<lparr>wh_subs := filter (\<lambda>x. ws_id x \<noteq> ws_id sub) (wh_subs s)\<rparr>, Inr ()))"

definition listSubscriptions :: "string \<Rightarrow> webhook_sys \<Rightarrow> subscription_dto list" where
  "listSubscriptions userAddress s = map (\<lambda>sub.
     sub_dto sub (length (filter (\<lambda>l. wl_subscriptionId l = ws_id sub) (wh_logs s)))
       (length (filter (\<lambda>l. wl_subscriptionId l = ws_id sub \<and> wl_success l) (wh_logs s))))
     (filter (\<lambda>sub. ws_userAddress sub = userAddress) (wh_subs s))"

definition delivery_dto_of :: "delivery_log \<Rightarrow> delivery_dto" where
  "delivery_dto_of l = \<lparr>wo_id = wl_id l, wo_subscriptionId = wl_subscriptionId l, wo_eventType = wl_eventType l,
     wo_success = wl_success l, wo_statusCode = wl_statusCode l, wo_errorMessage = wl_errorMessage l,
     wo_attempt = wl_attempt l, wo_createdAt = wl_createdAt l\<rparr>"

text \<open>The newest hundred; logs of the same time stay in the order of their insertion.\<close>

definition getDeliveryLogs :: "string \<Rightarrow> string \<Rightarrow> webhook_sys \<Rightarrow> webhook_exn + delivery_dto list" where
  "getDeliveryLogs userAddress subscriptionId s = (case findOwnedOrThrow userAddress subscriptionId s of
      Inl e \<Rightarrow> Inl e
    | Inr _ \<Rightarrow> Inr (map delivery_dto_of (take 100 (sort_key (\<lambda>l. - wl_createdAt l)
        (filter (\<lambda>l. wl_subscriptionId l = subscriptionId) (wh_logs s))))))"

subsection \<open>Payload\<close>

definition json_text :: "(rat \<Rightarrow> string) \<Rightarrow> jval \<Rightarrow> string" where
  "json_text p v = nullish (stringify p v) []"

definition signPayload :: "(string \<Rightarrow> string \<Rightarrow> string) \<Rightarrow> string \<Rightarrow> string \<Rightarrow> string" where
  "signPayload hmac body secret = hmac secret body"

definition buildPayload ::
  "(rat \<Rightarrow> string) \<Rightarrow> (string \<Rightarrow> string \<Rightarrow> string) \<Rightarrow> (int \<Rightarrow> string) \<Rightarrow> int \<Rightarrow> webhook_event \<Rightarrow> jval \<Rightarrow> string
   \<Rightarrow> (string \<times> jval) list" where
  "buildPayload p hmac isof now event data secret =
     (let partial_payload = [(''event'', JStr (event_text event)), (''timestamp'', JStr (isof now)), (''data'', data)];
          body = json_text p (JObj partial_payload)
      in partial_payload @ [(''signature'', JStr (signPayload hmac body secret))])"

text \<open>A request's answer: an error's message and status, if it had one, or a status.\<close>

type_synonym answer = "string \<times> nat option + nat"

definition sendTestPing ::
  "(rat \<Rightarrow> string) \<Rightarrow> (string \<Rightarrow> string \<Rightarrow> string) \<Rightarrow> (int \<Rightarrow> string) \<Rightarrow> int \<Rightarrow> (string \<Rightarrow> (string \<times> jval) list \<Rightarrow> answer)
   \<Rightarrow> string \<Rightarrow> string \<Rightarrow> webhook_sys \<Rightarrow> webhook_exn + (bool \<times> nat option \<times> string option)" where
  "sendTestPing p hmac isof now post userAddress i s = (case findOwnedOrThrow userAddress i s of
      Inl e \<Rightarrow> Inl e
    | Inr sub \<Rightarrow>
        (let payload = buildPayload p hmac isof now CALL_CREATED_EV
               (JObj [(''test'', JBool True), (''message'', JStr ''BACKit webhook test ping'')]) (ws_secret sub)
         in case post (ws_url sub) payload of
              Inr status \<Rightarrow> Inr (True, Some status, None)
            | Inl (message, status) \<Rightarrow> Inr (False, status, Some message)))"

subsection \<open>Events\<close>

text \<open>The queue ignores a job whose id it holds already.\<close>

definition webhook_job_id :: "subscription \<Rightarrow> webhook_event \<Rightarrow> int \<Rightarrow> string" where
  "webhook_job_id sub event now = ws_id sub @ ''-'' @ event_text event @ ''-'' @ int_text now"

definition add_webhook_job :: "webhook_event \<Rightarrow> jval \<Rightarrow> int \<Rightarrow> webhook_sys \<Rightarrow> subscription \<Rightarrow> webhook_sys" where
  "add_webhook_job event data now s sub =
     (let k = webhook_job_id sub event now
      in if row_get (wh_jobs s) k \<noteq> None then s
         else s\<lparr>wh_jobs := row_ins k \<lparr>wj_subscriptionId = ws_id sub, wj_event = event, wj_data = data, wj_attemptsMade = 0\<rparr> (wh_jobs s)\<rparr>)"

definition dispatchWebhookEvent :: "int \<Rightarrow> webhook_event \<Rightarrow> jval \<Rightarrow> webhook_sys \<Rightarrow> webhook_sys" where
  "dispatchWebhookEvent now event data s =
     foldl (add_webhook_job event data now) s (filter (\<lambda>sub. event \<in> set (ws_events sub)) (filter ws_isActive (wh_subs s)))"

text \<open>The listener: the internal events and the webhook events they become.\<close>

definition LISTENED :: "(string \<times> webhook_event) list" where
  "LISTENED = [(''call.created'', CALL_CREATED_EV), (''call.resolved'', CALL_RESOLVED_EV), (''stake.placed'', STAKE_PLACED_EV),
     (''stake.withdrawn'', STAKE_WITHDRAWN_EV), (''payout.ready'', PAYOUT_READY_EV),
     (''price.alert.triggered'', PRICE_ALERT_TRIGGERED_EV), (''leaderboard.updated'', LEADERBOARD_UPDATED_EV)]"

definition on_internal_event :: "int \<Rightarrow> string \<Rightarrow> jval \<Rightarrow> webhook_sys \<Rightarrow> webhook_sys" where
  "on_internal_event now name data s = (case map_of LISTENED name of
      None \<Rightarrow> s
    | Some event \<Rightarrow> dispatchWebhookEvent now event data s)"

subsection \<open>Delivery\<close>

definition MAX_PER_SECOND :: nat where "MAX_PER_SECOND = 10"
definition WINDOW_MS :: int where "WINDOW_MS = 1000"

definition isAllowed :: "string \<Rightarrow> int \<Rightarrow> (string \<Rightarrow> int list) \<Rightarrow> (string \<Rightarrow> int list) \<times> bool" where
  "isAllowed url now windows =
     (let existing = filter (\<lambda>ts. now - ts < WINDOW_MS) (windows url)
      in if length existing \<ge> MAX_PER_SECOND then (windows, False)
         else (windows(url := existing @ [now]), True))"

definition recordDelivery ::
  "string \<Rightarrow> int \<Rightarrow> string \<Rightarrow> string \<Rightarrow> string \<Rightarrow> bool \<Rightarrow> nat option \<Rightarrow> string option \<Rightarrow> nat \<Rightarrow> webhook_sys \<Rightarrow> webhook_sys" where
  "recordDelivery uuid now subscriptionId eventType payload success statusCode errorMessage attempt s =
     s\<lparr>wh_logs := wh_logs s @ [\<lparr>wl_id = uuid, wl_subscriptionId = subscriptionId, wl_eventType = eventType, wl_payload = payload,
        wl_success = success, wl_statusCode = statusCode, wl_errorMessage = errorMessage, wl_attempt = attempt, wl_createdAt = now\<rparr>]\<rparr>"

text \<open>A job's run: the error it throws, so that the queue tries again, or its end.\<close>

definition processWebhook ::
  "(rat \<Rightarrow> string) \<Rightarrow> (string \<Rightarrow> string \<Rightarrow> string) \<Rightarrow> (int \<Rightarrow> string) \<Rightarrow> string \<Rightarrow> int \<Rightarrow> (string \<Rightarrow> (string \<times> jval) list \<Rightarrow> answer)
   \<Rightarrow> webhook_job \<Rightarrow> webhook_sys \<Rightarrow> webhook_sys \<times> (string + unit)" where
  "processWebhook p hmac isof uuid now post job s =
     (case find_subscription (wj_subscriptionId job) s of
        None \<Rightarrow> (s, Inr ())
      | Some sub \<Rightarrow>
          if \<not> ws_isActive sub then (s, Inr ())
          else case isAllowed (ws_url sub) now (wh_windows s) of
            (_, False) \<Rightarrow> (s, Inl (''Rate limit exceeded for '' @ ws_url sub))
          | (windows, True) \<Rightarrow>
              (let s1 = s\<lparr>wh_windows := windows\<rparr>;
                   payload = buildPayload p hmac isof now (wj_event job) (wj_data job) (ws_secret sub);
                   record_it = recordDelivery uuid now (wj_subscriptionId job) (event_text (wj_event job)) (json_text p (JObj payload))
               in case post (ws_url sub) payload of
                    Inr status \<Rightarrow> (record_it (200 \<le> status \<and> status < 300) (Some status) None (wj_attemptsMade job + 1) s1, Inr ())
                  | Inl (message, status) \<Rightarrow> (record_it False status (Some message) (wj_attemptsMade job + 1) s1, Inl message)))"

subsection \<open>The rate limit\<close>

text \<open>The times at which a list of requests (time and address) to an address are let through.\<close>

fun allowed_times :: "string \<Rightarrow> (int \<times> string) list \<Rightarrow> (string \<Rightarrow> int list) \<Rightarrow> int list" where
  "allowed_times url [] w = []"
| "allowed_times url ((t, u) # rs) w = (case isAllowed u t w of (w', ok) \<Rightarrow>
     (if ok \<and> u = url then [t] else []) @ allowed_times url rs w')"

definition in_window :: "int \<Rightarrow> int list \<Rightarrow> int list" where
  "in_window t xs = filter (\<lambda>x. t \<le> x \<and> x < t + WINDOW_MS) xs"

text \<open>
  The window of an address holds every time let through less than a second before the last one. \<open>A\<close> are
  the times so far, \<open>last\<close> the last request.
\<close>

definition window_inv :: "int list \<Rightarrow> int list \<Rightarrow> int \<Rightarrow> bool" where
  "window_inv A w now \<longleftrightarrow> sorted A \<and> (\<forall>x \<in> set A. x \<le> now) \<and> (\<forall>t. length (in_window t A) \<le> MAX_PER_SECOND)
     \<and> (\<forall>now' \<ge> now. filter (\<lambda>ts. now' - ts < WINDOW_MS) w = filter (\<lambda>ts. now' - ts < WINDOW_MS) A)"

lemma window_step:
  assumes inv: "window_inv A (w url) now" and le: "now \<le> t"
  shows "case isAllowed u t w of (w', ok) \<Rightarrow> window_inv (A @ (if ok \<and> u = url then [t] else [])) (w' url) t"
proof -
  have later: "filter (\<lambda>ts. now' - ts < WINDOW_MS) (w url) = filter (\<lambda>ts. now' - ts < WINDOW_MS) A" if "t \<le> now'" for now'
    using inv le that by (simp add: window_inv_def)
  have keep: "window_inv A (w url) t" using inv le by (auto simp: window_inv_def)
  show ?thesis
  proof (cases "u = url \<and> length (filter (\<lambda>ts. t - ts < WINDOW_MS) (w u)) < MAX_PER_SECOND")
    case True
    let ?e = "filter (\<lambda>ts. t - ts < WINDOW_MS) A"
    have few: "length ?e < MAX_PER_SECOND"
    proof -
      have "length (filter (\<lambda>ts. t - ts < WINDOW_MS) (w url)) < MAX_PER_SECOND" using True by blast
      then show ?thesis unfolding later [OF order_refl] .
    qed
    have le_t: "x \<le> t" if "x \<in> set A" for x using inv le that by (auto simp: window_inv_def)
    have "length (in_window t0 (A @ [t])) \<le> MAX_PER_SECOND" for t0
    proof (cases "t0 \<le> t \<and> t < t0 + WINDOW_MS")
      case True
      have "length (in_window t0 A) \<le> length ?e"
      proof -
        have "in_window t0 A = filter (\<lambda>x. t0 \<le> x \<and> x < t0 + WINDOW_MS) ?e"
          unfolding in_window_def filter_filter
          by (rule filter_cong) (use True le_t in \<open>auto simp: WINDOW_MS_def\<close>)
        then show ?thesis by (metis length_filter_le)
      qed
      with True few show ?thesis by (simp add: in_window_def)
    next
      case False
      then show ?thesis using inv by (auto simp: window_inv_def in_window_def)
    qed
    moreover have "filter (\<lambda>ts. now' - ts < WINDOW_MS) ?e = filter (\<lambda>ts. now' - ts < WINDOW_MS) A" if "t \<le> now'" for now'
      unfolding filter_filter by (rule filter_cong) (use that in auto)
    moreover have "sorted (A @ [t])" using inv le_t by (simp add: window_inv_def sorted_append)
    ultimately have "window_inv (A @ [t]) (?e @ [t]) t" using le_t by (auto simp: window_inv_def)
    then show ?thesis using True few later [of t] by (simp add: isAllowed_def Let_def)
  next
    case False
    then show ?thesis using keep by (auto simp: isAllowed_def Let_def)
  qed
qed

lemma allowed_bounded:
  "window_inv A (w url) now \<Longrightarrow> sorted (map fst rs) \<Longrightarrow> (\<forall>r \<in> set rs. now \<le> fst r)
   \<Longrightarrow> \<exists>w' now'. window_inv (A @ allowed_times url rs w) w' now'"
proof (induction rs arbitrary: A w now)
  case Nil
  then show ?case by auto
next
  case (Cons r rs)
  obtain t u where r: "r = (t, u)" by (cases r)
  obtain w' ok where i: "isAllowed u t w = (w', ok)" by (cases "isAllowed u t w")
  have "window_inv (A @ (if ok \<and> u = url then [t] else [])) (w' url) t"
    using window_step [where w = w and url = url and u = u, OF Cons.prems(1), of t] Cons.prems(3) r i by simp
  from Cons.IH [where w = w', OF this] Cons.prems(2) r i show ?case by simp
qed

text \<open>while the clock does not go back no address gets more than ten requests in any second, whatever the order
  of the requests to it and to others.\<close>

theorem rate_limit_bounds:
  assumes "sorted (map fst rs)"
  shows "length (in_window t (allowed_times url rs (\<lambda>_. []))) \<le> 10"
proof (cases rs)
  case (Cons r rs')
  have "window_inv [] [] (fst r)" by (simp add: window_inv_def in_window_def)
  moreover have "\<forall>r' \<in> set rs. fst r \<le> fst r'" using assms Cons by auto
  ultimately have "\<exists>w' now'. window_inv ([] @ allowed_times url rs (\<lambda>_. [])) w' now'"
    by (intro allowed_bounded [where w = "\<lambda>_. []" and url = url and A = "[]", OF _ assms])
  then obtain w' now' where "window_inv (allowed_times url rs (\<lambda>_. [])) w' now'" by auto
  then show ?thesis by (simp add: window_inv_def MAX_PER_SECOND_def)
qed (simp add: in_window_def)

subsection \<open>Deliveries\<close>

lemma buildPayload_unsigned:
  "filter (\<lambda>e. fst e \<noteq> ''signature'') (buildPayload p hmac isof now event data secret)
     = [(''event'', JStr (event_text event)), (''timestamp'', JStr (isof now)), (''data'', data)]"
  by (simp add: buildPayload_def Let_def)

lemma buildPayload_signature:
  "jget (buildPayload p hmac isof now event data secret) ''signature''
     = JStr (hmac secret (json_text p (JObj (filter (\<lambda>e. fst e \<noteq> ''signature'') (buildPayload p hmac isof now event data secret)))))"
  unfolding buildPayload_unsigned by (simp add: buildPayload_def jget_def signPayload_def Let_def)

text \<open>A delivery that is not held back sends one payload, whose signature is that of its text without the
  signature, and leaves one log with its outcome; the job fails, and is tried again, exactly when the request did.\<close>

theorem webhook_delivery_logged:
  assumes "find_subscription (wj_subscriptionId job) s = Some sub" "ws_isActive sub"
    "snd (isAllowed (ws_url sub) now (wh_windows s))"
  shows "\<exists>payload l s' r. processWebhook p hmac isof uuid now post job s = (s', r)
    \<and> wh_logs s' = wh_logs s @ [l] \<and> wh_subs s' = wh_subs s \<and> wh_jobs s' = wh_jobs s
    \<and> wl_subscriptionId l = wj_subscriptionId job \<and> wl_payload l = json_text p (JObj payload) \<and> wl_attempt l = wj_attemptsMade job + 1
    \<and> jget payload ''event'' = JStr (event_text (wj_event job)) \<and> jget payload ''data'' = wj_data job
    \<and> jget payload ''signature'' = JStr (hmac (ws_secret sub) (json_text p (JObj (filter (\<lambda>e. fst e \<noteq> ''signature'') payload))))
    \<and> (wl_success l \<longleftrightarrow> (\<exists>status. post (ws_url sub) payload = Inr status \<and> 200 \<le> status \<and> status < 300))
    \<and> (isl r \<longleftrightarrow> isl (post (ws_url sub) payload))"
proof -
  let ?payload = "buildPayload p hmac isof now (wj_event job) (wj_data job) (ws_secret sub)"
  obtain w where w: "isAllowed (ws_url sub) now (wh_windows s) = (w, True)"
    using assms(3) by (cases "isAllowed (ws_url sub) now (wh_windows s)") simp
  have get: "jget ?payload ''event'' = JStr (event_text (wj_event job))" "jget ?payload ''data'' = wj_data job"
    by (simp_all add: buildPayload_def jget_def Let_def)
  note sig = buildPayload_signature [of p hmac isof now "wj_event job" "wj_data job" "ws_secret sub"]
  show ?thesis
  proof (cases "post (ws_url sub) ?payload")
    case (Inl a)
    obtain m st where a: "a = (m, st)" by (cases a)
    have "processWebhook p hmac isof uuid now post job s
      = (recordDelivery uuid now (wj_subscriptionId job) (event_text (wj_event job)) (json_text p (JObj ?payload)) False st (Some m)
           (wj_attemptsMade job + 1) (s\<lparr>wh_windows := w\<rparr>), Inl m)"
      using assms(1,2) w Inl a by (simp add: processWebhook_def Let_def)
    then show ?thesis
      by (intro exI [of _ ?payload]) (use Inl get sig in \<open>simp add: recordDelivery_def\<close>)
  next
    case (Inr st)
    have "processWebhook p hmac isof uuid now post job s
      = (recordDelivery uuid now (wj_subscriptionId job) (event_text (wj_event job)) (json_text p (JObj ?payload))
           (200 \<le> st \<and> st < 300) (Some st) None (wj_attemptsMade job + 1) (s\<lparr>wh_windows := w\<rparr>), Inr ())"
      using assms(1,2) w Inr by (simp add: processWebhook_def Let_def)
    then show ?thesis
      by (intro exI [of _ ?payload]) (use Inr get sig in \<open>simp add: recordDelivery_def\<close>)
  qed
qed

text \<open>A job held back by the rate limit uses up an attempt of the queue and leaves no log.\<close>

lemma held_back_unlogged:
  assumes "find_subscription (wj_subscriptionId job) s = Some sub" "ws_isActive sub"
    "\<not> snd (isAllowed (ws_url sub) now (wh_windows s))"
  shows "processWebhook p hmac isof uuid now post job s = (s, Inl (''Rate limit exceeded for '' @ ws_url sub))"
proof -
  obtain w where "isAllowed (ws_url sub) now (wh_windows s) = (w, False)"
    using assms(3) by (cases "isAllowed (ws_url sub) now (wh_windows s)") simp
  with assms(1,2) show ?thesis by (simp add: processWebhook_def)
qed

subsection \<open>Jobs of an event\<close>

lemma add_webhook_job_spec:
  "wh_subs (add_webhook_job event data now s sub) = wh_subs s"
  "row_get (wh_jobs (add_webhook_job event data now s sub)) (webhook_job_id sub event now) \<noteq> None"
  "row_get (wh_jobs s) k = Some j \<Longrightarrow> row_get (wh_jobs (add_webhook_job event data now s sub)) k = Some j"
  "row_get (wh_jobs (add_webhook_job event data now s sub)) k = Some j
     \<Longrightarrow> row_get (wh_jobs s) k = Some j \<or> (wj_subscriptionId j = ws_id sub \<and> wj_event j = event \<and> wj_data j = data)"
  by (auto simp: add_webhook_job_def Let_def row_get_def row_ins_def map_add_def split: option.splits if_splits)

lemma fold_add_jobs:
  "(\<forall>sub \<in> set subs. row_get (wh_jobs (foldl (add_webhook_job event data now) s subs)) (webhook_job_id sub event now) \<noteq> None)
   \<and> (\<forall>k j. row_get (wh_jobs s) k = Some j \<longrightarrow> row_get (wh_jobs (foldl (add_webhook_job event data now) s subs)) k = Some j)
   \<and> (\<forall>k j. row_get (wh_jobs (foldl (add_webhook_job event data now) s subs)) k = Some j \<longrightarrow> row_get (wh_jobs s) k = Some j
        \<or> (wj_event j = event \<and> wj_data j = data \<and> wj_subscriptionId j \<in> ws_id ` set subs))
   \<and> wh_subs (foldl (add_webhook_job event data now) s subs) = wh_subs s"
proof (induction subs arbitrary: s)
  case (Cons sub subs)
  let ?s = "add_webhook_job event data now s sub"
  note IH = Cons.IH [of ?s] and a = add_webhook_job_spec [where event = event and data = data and now = now and s = s and sub = sub]
  have "row_get (wh_jobs (foldl (add_webhook_job event data now) ?s subs)) (webhook_job_id sub event now) \<noteq> None"
    using IH a(2) by blast
  moreover have "row_get (wh_jobs s) k = Some j
      \<or> (wj_event j = event \<and> wj_data j = data \<and> wj_subscriptionId j \<in> ws_id ` set (sub # subs))"
    if "row_get (wh_jobs (foldl (add_webhook_job event data now) ?s subs)) k = Some j" for k j
  proof (cases "row_get (wh_jobs ?s) k = Some j")
    case True
    then show ?thesis using a(4) by auto
  next
    case False
    then show ?thesis using IH that by auto
  qed
  ultimately show ?case using IH a(1,3) by simp
qed simp

text \<open>
  Every active subscriber of the event has a job of that time, and every new job is one of theirs with the data.
\<close>

lemma dispatch_targets:
  fixes now event data s
  defines "s' \<equiv> dispatchWebhookEvent now event data s"
  shows "sub \<in> set (wh_subs s) \<Longrightarrow> ws_isActive sub \<Longrightarrow> event \<in> set (ws_events sub)
      \<Longrightarrow> row_get (wh_jobs s') (webhook_job_id sub event now) \<noteq> None"
    and "row_get (wh_jobs s') k = Some j \<Longrightarrow> row_get (wh_jobs s) k = None
      \<Longrightarrow> wj_data j = data \<and> (\<exists>sub \<in> set (wh_subs s). ws_isActive sub \<and> event \<in> set (ws_events sub) \<and> wj_subscriptionId j = ws_id sub)"
proof -
  define subs where "subs = filter (\<lambda>sub. event \<in> set (ws_events sub)) (filter ws_isActive (wh_subs s))"
  have s': "s' = foldl (add_webhook_job event data now) s subs" by (simp add: s'_def dispatchWebhookEvent_def subs_def)
  note f = fold_add_jobs [of subs event data now s, folded s']
  show "sub \<in> set (wh_subs s) \<Longrightarrow> ws_isActive sub \<Longrightarrow> event \<in> set (ws_events sub)
      \<Longrightarrow> row_get (wh_jobs s') (webhook_job_id sub event now) \<noteq> None"
    using f unfolding subs_def by simp
  assume j: "row_get (wh_jobs s') k = Some j" "row_get (wh_jobs s) k = None"
  have "row_get (wh_jobs s) k = Some j \<or> (wj_event j = event \<and> wj_data j = data \<and> wj_subscriptionId j \<in> ws_id ` set subs)"
    using f j(1) by blast
  then have "wj_data j = data \<and> wj_subscriptionId j \<in> ws_id ` set subs" using j(2) by simp
  then show "wj_data j = data \<and> (\<exists>sub \<in> set (wh_subs s). ws_isActive sub \<and> event \<in> set (ws_events sub) \<and> wj_subscriptionId j = ws_id sub)"
    unfolding subs_def by auto
qed

text \<open>A second event of the same kind in the same millisecond adds no job: its data is lost.\<close>

lemma same_millisecond_lost:
  "dispatchWebhookEvent now event data' (dispatchWebhookEvent now event data s) = dispatchWebhookEvent now event data s"
proof -
  let ?subs = "filter (\<lambda>sub. event \<in> set (ws_events sub)) (filter ws_isActive (wh_subs s))"
  let ?s = "foldl (add_webhook_job event data now) s ?subs"
  have "foldl (add_webhook_job event data' now) t subs = t"
    if "\<forall>sub \<in> set subs. row_get (wh_jobs t) (webhook_job_id sub event now) \<noteq> None" for t subs
    using that by (induction subs) (simp_all add: add_webhook_job_def Let_def)
  from this [of ?subs ?s] show ?thesis
    using fold_add_jobs [of ?subs event data now s] by (simp add: dispatchWebhookEvent_def)
qed

subsection \<open>Owners\<close>

lemma owner_only:
  assumes "find_subscription i s = Some sub" "ws_userAddress sub \<noteq> u"
  shows "unsubscribe u i s = (s, Inl NotOwner)" "getDeliveryLogs u i s = Inl NotOwner"
    "sendTestPing p hmac isof now post u i s = Inl NotOwner"
  using assms by (simp_all add: unsubscribe_def getDeliveryLogs_def sendTestPing_def findOwnedOrThrow_def)

subsection \<open>Witnesses\<close>

definition sample_requests :: "(int \<times> string) list" where
  "sample_requests = map (\<lambda>i. (int i * 50, ''u'')) [0..<12] @ [(1001, ''u''), (1001, ''v'')]"

theorem rate_limit_bounds_witness:
  "length (in_window 0 (allowed_times ''u'' sample_requests (\<lambda>_. []))) \<le> 10
   \<and> allowed_times ''u'' sample_requests (\<lambda>_. []) = [0, 50, 100, 150, 200, 250, 300, 350, 400, 450, 1001]"
proof
  have "sorted (map fst sample_requests)" by code_simp
  then show "length (in_window 0 (allowed_times ''u'' sample_requests (\<lambda>_. []))) \<le> 10" by (rule rate_limit_bounds)
qed code_simp

definition sample_webhooks :: webhook_sys where
  "sample_webhooks = \<lparr>wh_subs = [\<lparr>ws_id = ''s1'', ws_userAddress = ''GA'', ws_url = ''https://h'', ws_secret = ''key'',
     ws_events = [STAKE_PLACED_EV], ws_isActive = True, ws_createdAt = 0\<rparr>], wh_logs = [], wh_jobs = [], wh_windows = (\<lambda>_. [])\<rparr>"

definition sample_job :: webhook_job where
  "sample_job = \<lparr>wj_subscriptionId = ''s1'', wj_event = STAKE_PLACED_EV, wj_data = JObj [(''callId'', JStr ''7'')], wj_attemptsMade = 1\<rparr>"

theorem webhook_delivery_logged_witness:
  "\<exists>l s'. processWebhook (\<lambda>_. []) (\<lambda>k b. k @ b) (\<lambda>_. ''t'') ''u'' 5 (\<lambda>_ _. Inr 204) sample_job sample_webhooks = (s', Inr ())
     \<and> wh_logs s' = [l] \<and> wl_success l \<and> wl_attempt l = 2"
proof -
  define sub where "sub = hd (wh_subs sample_webhooks)"
  have "find_subscription (wj_subscriptionId sample_job) sample_webhooks = Some sub" "ws_isActive sub"
    "snd (isAllowed (ws_url sub) 5 (wh_windows sample_webhooks))"
    by (simp_all add: sub_def sample_webhooks_def sample_job_def find_subscription_def isAllowed_def MAX_PER_SECOND_def)
  from webhook_delivery_logged [OF this, of "\<lambda>_. []" "\<lambda>k b. k @ b" "\<lambda>_. ''t''" "''u''" "\<lambda>_ _. Inr 204"]
  obtain l s' r where "processWebhook (\<lambda>_. []) (\<lambda>k b. k @ b) (\<lambda>_. ''t'') ''u'' 5 (\<lambda>_ _. Inr 204) sample_job sample_webhooks = (s', r)"
    "wh_logs s' = [l]" "wl_success l" "wl_attempt l = 2" "\<not> isl r"
    by (auto simp: sample_webhooks_def sample_job_def)
  then show ?thesis by (cases r) auto
qed

end
