(* ===== verification/IndexerService.thy ===== *)
theory IndexerService
  imports Diagnostics Notifications Retry
begin

text \<open>
  The rest of \<^verbatim>\<open>packages/backend/src/indexer/indexer.service.ts\<close>: status and listings of the event log, reads of the
  contract RPC with their retries, and failed transactions, whose diagnosis is stored and sent to the user. The RPC's
  answers, by number of the attempt, are arguments; so are the time, \<open>redis\<close> of the notifications and the arguments
  of the diagnosis. The database refuses a row with a value that does not fit its column; other writes succeed.
\<close>

subsection \<open>Status and listings\<close>

record log_row =
  lr_id :: nat
  lr_eventType :: string
  lr_ledger :: int
  lr_timestamp :: int

definition max_by :: "('r \<Rightarrow> int) \<Rightarrow> 'r list \<Rightarrow> 'r option" where
  "max_by key rows = foldl (\<lambda>best r. case best of None \<Rightarrow> Some r | Some b \<Rightarrow> if key b < key r then Some r else best) None rows"

text \<open>
  The helper function of the database gives the highest ledger; without it one query orders the rows. \<open>helper\<close>
  says whether the database has it, \<open>available\<close> what the service still believes.
\<close>

definition findLatestEvent :: "bool \<Rightarrow> bool \<Rightarrow> log_row list \<Rightarrow> bool \<times> log_row option" where
  "findLatestEvent helper available rows =
     (if available \<and> helper
      then (True, case max_by lr_ledger rows of None \<Rightarrow> None
        | Some m \<Rightarrow> max_by (\<lambda>r. int (lr_id r)) (filter (\<lambda>r. lr_ledger r = lr_ledger m) rows))
      else (False, max_by lr_ledger rows))"

record indexer_status =
  st_isRunning :: bool
  st_lastProcessedLedger :: "int option"
  st_totalEventsIndexed :: nat
  st_latestEventLedger :: "int option"
  st_latestEventTimestamp :: "int option"

definition getStatus :: "bool \<Rightarrow> bool \<Rightarrow> log_row list \<Rightarrow> bool \<times> indexer_status" where
  "getStatus helper available rows = (case findLatestEvent helper available rows of
      (available', latest) \<Rightarrow> (available', \<lparr>st_isRunning = True, st_lastProcessedLedger = map_option lr_ledger latest,
        st_totalEventsIndexed = length rows, st_latestEventLedger = map_option lr_ledger latest,
        st_latestEventTimestamp = map_option lr_timestamp latest\<rparr>))"

definition getEventsByType :: "string \<Rightarrow> nat option \<Rightarrow> log_row list \<Rightarrow> log_row list" where
  "getEventsByType eventType limit rows =
     take (nullish limit 50) (sort_key (\<lambda>r. - lr_ledger r) (filter (\<lambda>r. lr_eventType r = eventType) rows))"

text \<open>The controller's list of the latest events.\<close>

definition getLatestEvents :: "log_row list \<Rightarrow> log_row list" where
  "getLatestEvents rows = getEventsByType ''call_created'' (Some 50) rows"

subsection \<open>Reads of the RPC\<close>

definition fetchContractEvents :: "(string \<Rightarrow> int \<Rightarrow> nat \<Rightarrow> 'e + 'a) \<Rightarrow> string \<Rightarrow> int \<Rightarrow> 'e option + 'a" where
  "fetchContractEvents getEvents contractId startLedger =
     rt_outcome (retryWithBackoff (getEvents contractId startLedger) 4 1000)"

definition readContractData :: "('k \<Rightarrow> nat \<Rightarrow> 'e + 'a) \<Rightarrow> 'k \<Rightarrow> 'e option + 'a" where
  "readContractData getLedgerEntries key = rt_outcome (retryWithBackoff (getLedgerEntries key) 4 1000)"

text \<open>The decorator repeats the inner retries: \<open>call i j\<close> is the \<open>j\<close>-th attempt of the \<open>i\<close>-th round.\<close>

definition getLatestLedger :: "(nat \<Rightarrow> int) \<Rightarrow> (nat \<Rightarrow> nat \<Rightarrow> 'e + 'a) \<Rightarrow> ('e option option + 'a) retry_run" where
  "getLatestLedger jitter call = Retryable jitter (\<lambda>i. rt_outcome (retryWithBackoff (call i) 4 1000)) 3 1000"

subsection \<open>Failed transactions\<close>

record failed_tx =
  ft_txHash :: string
  ft_contractId :: "string option"
  ft_userAddress :: "string option"
  ft_ledger :: "int option"
  ft_resultCode :: "string option"
  ft_operationResultCode :: "string option"
  ft_errorCategory :: "string option"
  ft_errorName :: "string option"
  ft_errorCode :: "jsnum option"
  ft_message :: string
  ft_diagnostics :: report
  ft_notified :: bool

record failed_sys =
  fx_rows :: "failed_tx list"
  fx_notifier :: notifier

definition category_text :: "(string \<Rightarrow> string) \<Rightarrow> category \<Rightarrow> string" where
  "category_text inh c = (case c of
      category.CONTRACT \<Rightarrow> ''contract'' | category.AUTH \<Rightarrow> ''auth'' | category.FOOTPRINT \<Rightarrow> ''footprint''
    | category.STORAGE \<Rightarrow> ''storage'' | category.BUDGET \<Rightarrow> ''budget'' | category.WASM_VM \<Rightarrow> ''wasm_vm''
    | category.CONTEXT \<Rightarrow> ''context'' | category.OBJECT \<Rightarrow> ''object'' | category.CRYPTO \<Rightarrow> ''crypto''
    | category.EVENTS \<Rightarrow> ''events'' | category.VALUE \<Rightarrow> ''value'' | category.UNKNOWN \<Rightarrow> ''unknown''
    | InheritedCategory k \<Rightarrow> inh k)"

definition fits_opt :: "nat \<Rightarrow> string option \<Rightarrow> bool" where
  "fits_opt n s = (case s of None \<Rightarrow> True | Some t \<Rightarrow> fits n t)"

definition fits_integer :: "jsnum option \<Rightarrow> bool" where
  "fits_integer n = (case n of
      None \<Rightarrow> True
    | Some (Fin q) \<Rightarrow> of_int \<lfloor>q\<rfloor> = q \<and> - (2 ^ 31) \<le> q \<and> q < 2 ^ 31
    | Some _ \<Rightarrow> False)"

definition row_fits :: "failed_tx \<Rightarrow> bool" where
  "row_fits r \<longleftrightarrow> fits 64 (ft_txHash r) \<and> fits_opt 64 (ft_contractId r) \<and> fits_opt 64 (ft_userAddress r)
     \<and> fits_opt 64 (ft_resultCode r) \<and> fits_opt 64 (ft_operationResultCode r) \<and> fits_opt 32 (ft_errorCategory r)
     \<and> fits_opt 128 (ft_errorName r) \<and> fits_integer (ft_errorCode r)"

definition find_failed :: "string \<Rightarrow> failed_tx list \<Rightarrow> failed_tx option" where
  "find_failed h rows = find (\<lambda>r. ft_txHash r = h) rows"

definition save_failed :: "failed_tx \<Rightarrow> failed_tx list \<Rightarrow> failed_tx list" where
  "save_failed r rows = (if find_failed (ft_txHash r) rows = None then rows @ [r]
     else map (\<lambda>x. if ft_txHash x = ft_txHash r then r else x) rows)"

definition MAX_NOTIFICATION_LENGTH :: nat where "MAX_NOTIFICATION_LENGTH = 255"

text \<open>The ellipsis, U+2026, stands as code unit 133.\<close>

definition truncate_message :: "string \<Rightarrow> string" where
  "truncate_message message = (if length message \<le> MAX_NOTIFICATION_LENGTH then message
     else take (MAX_NOTIFICATION_LENGTH - 1) message @ [CHR 0x85])"

definition or_else :: "'a option \<Rightarrow> 'a option \<Rightarrow> 'a option" where
  "or_else a b = (case a of None \<Rightarrow> b | Some _ \<Rightarrow> a)"

definition error_name :: "error_detail option \<Rightarrow> string option" where
  "error_name primary = (case primary of
      None \<Rightarrow> None
    | Some e \<Rightarrow> (case (non_empty (ed_enumName e), non_empty (ed_errorName e)) of
        (Some a, Some b) \<Rightarrow> Some (a @ ''::'' @ b)
      | _ \<Rightarrow> ed_codeName e))"

definition failed_row :: "(string \<Rightarrow> string) \<Rightarrow> report \<Rightarrow> string \<Rightarrow> string option \<Rightarrow> int option \<Rightarrow> failed_tx option \<Rightarrow> failed_tx" where
  "failed_row inh r h userAddress ledger existing =
     \<lparr>ft_txHash = h,
      ft_contractId = or_else (rt_contractId r) (Option.bind existing ft_contractId),
      ft_userAddress = or_else userAddress (Option.bind existing ft_userAddress),
      ft_ledger = or_else ledger (Option.bind existing ft_ledger),
      ft_resultCode = rt_resultCode r, ft_operationResultCode = rt_operationResultCode r,
      ft_errorCategory = map_option (\<lambda>e. category_text inh (ed_category e)) (rt_primaryError r),
      ft_errorName = error_name (rt_primaryError r), ft_errorCode = Option.bind (rt_primaryError r) ed_code,
      ft_message = rt_summary r, ft_diagnostics = r,
      ft_notified = (case existing of Some x \<Rightarrow> ft_notified x | None \<Rightarrow> False)\<rparr>"

definition recordFailedTransaction ::
  "(string \<Rightarrow> string) \<Rightarrow> int \<Rightarrow> (nat \<Rightarrow> string option) \<Rightarrow> report \<Rightarrow> string option \<Rightarrow> int option \<Rightarrow> failed_sys \<Rightarrow> failed_sys" where
  "recordFailedTransaction inh now redis r userAddress ledger s =
     (case non_empty (rt_txHash r) of
        None \<Rightarrow> s
      | Some h \<Rightarrow>
          if \<not> rt_failed r then s
          else
            (let row = failed_row inh r h userAddress ledger (find_failed h (fx_rows s))
             in if \<not> row_fits row then s
                else
                  (let s1 = s\<lparr>fx_rows := save_failed row (fx_rows s)\<rparr>
                   in case non_empty (ft_userAddress row) of
                        None \<Rightarrow> s1
                      | Some u \<Rightarrow>
                          if ft_notified row then s1
                          else (case notify now redis u TRANSACTION_FAILED (truncate_message (''Transaction failed: '' @ rt_summary r))
                                  (Some h) DISPATCH_NONE (fx_notifier s1) of
                              (n, Inl _) \<Rightarrow> s1\<lparr>fx_notifier := n\<rparr>
                            | (n, Inr _) \<Rightarrow> s1\<lparr>fx_notifier := n, fx_rows := save_failed (row\<lparr>ft_notified := True\<rparr>) (fx_rows s1)\<rparr>))))"

record send_response =
  sr_status :: string
  sr_response :: rpc_response
  sr_latestLedger :: "int option"


datatype 'e tx_exn = RpcFailed "'e option" | DiagnosisThrew

text \<open>\<open>inner\<close> and \<open>outer\<close> are the sources of the wrapped transaction and of the transaction.\<close>

definition submitTransaction ::
  "(rat \<Rightarrow> string) \<Rightarrow> (string \<Rightarrow> string) \<Rightarrow> xdr_codec \<Rightarrow> kinds \<Rightarrow> int \<Rightarrow> (nat \<Rightarrow> string option) \<Rightarrow> (nat \<Rightarrow> 'e + send_response)
   \<Rightarrow> string option \<Rightarrow> string option \<Rightarrow> failed_sys \<Rightarrow> failed_sys \<times> ('e tx_exn + send_response)" where
  "submitTransaction p inh x m now redis sendTransaction inner outer s =
     (case rt_outcome (retryWithBackoff sendTransaction 4 1000) of
        Inl e \<Rightarrow> (s, Inl (RpcFailed e))
      | Inr resp \<Rightarrow>
          if sr_status resp \<noteq> ''ERROR'' then (s, Inr resp)
          else (case analyzeSendTransactionResponse p inh x m (sr_response resp) None of
              Inl _ \<Rightarrow> (s, Inl DiagnosisThrew)
            | Inr r \<Rightarrow> (recordFailedTransaction inh now redis r (or_else inner outer) (sr_latestLedger resp) s, Inr resp)))"


subsection \<open>Status\<close>

lemma max_by_fold:
  fixes key :: "'r \<Rightarrow> int"
  shows "\<exists>m. foldl (\<lambda>best r. case best of None \<Rightarrow> Some r | Some b \<Rightarrow> if key b < key r then Some r else best) (Some b) rows = Some m
     \<and> m \<in> set (b # rows) \<and> (\<forall>r \<in> set (b # rows). key r \<le> key m)"
proof (induction rows arbitrary: b)
  case (Cons r rows)
  obtain m where m: "foldl (\<lambda>best r. case best of None \<Rightarrow> Some r | Some b \<Rightarrow> if key b < key r then Some r else best)
      (Some (if key b < key r then r else b)) rows = Some m"
    "m \<in> set ((if key b < key r then r else b) # rows)" "\<forall>x \<in> set ((if key b < key r then r else b) # rows). key x \<le> key m"
    using Cons.IH [of "if key b < key r then r else b"] by blast
  from m(3) have "key b \<le> key m" "key r \<le> key m" "\<forall>x \<in> set rows. key x \<le> key m"
    by (auto split: if_splits)
  then show ?case using m(1,2) by (intro exI [of _ m]) (auto split: if_splits)
qed simp

lemma max_by_Max: "map_option key (max_by key rows) = (if rows = [] then None else Some (Max (key ` set rows)))"
proof (cases rows)
  case (Cons b rs)
  then obtain m where m: "max_by key rows = Some m" "m \<in> set rows" "\<forall>r \<in> set rows. key r \<le> key m"
    using max_by_fold [of key b rs] by (auto simp: max_by_def)
  then have "Max (key ` set rows) = key m" by (intro Max_eqI) auto
  with m Cons show ?thesis by simp
qed (simp add: max_by_def)

lemma max_by_in: "max_by key rows = Some m \<Longrightarrow> m \<in> set rows"
proof (cases rows)
  case (Cons b rs)
  assume "max_by key rows = Some m"
  with Cons max_by_fold [of key b rs] show ?thesis by (auto simp: max_by_def)
qed (simp add: max_by_def)

text \<open>The status does not depend on the helper function: the latest ledger is the highest one logged.\<close>

lemma status_latest_ledger:
  "st_latestEventLedger (snd (getStatus helper available rows)) = (if rows = [] then None else Some (Max (lr_ledger ` set rows)))"
proof -
  have "map_option lr_ledger (snd (findLatestEvent helper available rows)) = map_option lr_ledger (max_by lr_ledger rows)"
  proof (cases "max_by lr_ledger rows")
    case None
    then show ?thesis by (simp add: findLatestEvent_def)
  next
    case (Some m)
    let ?same = "filter (\<lambda>r. lr_ledger r = lr_ledger m) rows"
    have "m \<in> set ?same" using max_by_in [OF Some] by simp
    then have "?same \<noteq> []" by (metis list.set_cases neq_Nil_conv)
    then have "map_option (\<lambda>r. int (lr_id r)) (max_by (\<lambda>r. int (lr_id r)) ?same) \<noteq> None" unfolding max_by_Max by simp
    then obtain x where x: "max_by (\<lambda>r. int (lr_id r)) ?same = Some x" by auto
    from max_by_in [OF this] have "lr_ledger x = lr_ledger m" by simp
    with x Some show ?thesis by (simp add: findLatestEvent_def)
  qed
  moreover have "st_latestEventLedger (snd (getStatus helper available rows)) = map_option lr_ledger (snd (findLatestEvent helper available rows))"
    by (cases "findLatestEvent helper available rows") (simp add: getStatus_def)
  ultimately show ?thesis unfolding max_by_Max by simp
qed

subsection \<open>Failed transactions are recorded and told once\<close>

lemma truncate_fits: "fits 255 (truncate_message msg)"
  by (simp add: truncate_message_def fits_def MAX_NOTIFICATION_LENGTH_def)

definition failure_notes :: "notifier \<Rightarrow> notification list" where
  "failure_notes s = filter (\<lambda>n. nf_type n = TRANSACTION_FAILED) (nt_rows s)"

lemma notify_failure:
  assumes "fits 64 u" "fits 64 h"
  obtains n' n where "notify now redis u TRANSACTION_FAILED (truncate_message msg) (Some h) DISPATCH_NONE s = (n', Inr (Some n))"
    "failure_notes n' = failure_notes s @ [n]" "nf_userId n = u" "nf_message n = truncate_message msg" "nf_referenceId n = Some h" "nf_inApp n"
proof -
  have "message_fits u (Some h) (truncate_message msg)" using assms truncate_fits by (simp add: message_fits_def)
  then obtain n' n where n: "createNotification now redis u TRANSACTION_FAILED (truncate_message msg) (Some h) DISPATCH_NONE True s = (n', Inr n)"
    "nt_rows n' = nt_rows s @ [n]" "nf_userId n = u" "nf_type n = TRANSACTION_FAILED" "nf_message n = truncate_message msg"
    "nf_referenceId n = Some h" "nf_inApp n = True"
    by (rule createNotification_rows)
  have "notify now redis u TRANSACTION_FAILED (truncate_message msg) (Some h) DISPATCH_NONE s = (n', Inr (Some n))"
    by (simp add: notify_def SUPPORTED_TYPES_def n(1))
  moreover have "failure_notes n' = failure_notes s @ [n]" unfolding failure_notes_def n(2) using n(4) by simp
  ultimately show thesis using n by (intro that) simp_all
qed

lemma set_save_failed: "x \<in> set (save_failed r rows) \<longleftrightarrow> x = r \<or> (x \<in> set rows \<and> ft_txHash x \<noteq> ft_txHash r)"
  unfolding save_failed_def find_failed_def by (auto simp: find_None_iff find_Some_iff image_iff)







lemma save_twice: "ft_txHash r' = ft_txHash r \<Longrightarrow> save_failed r' (save_failed r rows) = save_failed r' rows"
proof -
  assume h: "ft_txHash r' = ft_txHash r"
  show ?thesis
  proof (cases "find_failed (ft_txHash r) rows")
    case None
    then have "ft_txHash x \<noteq> ft_txHash r" if "x \<in> set rows" for x using that by (auto simp: find_failed_def find_None_iff)
    then have "map (\<lambda>x. if ft_txHash x = ft_txHash r then r' else x) rows = rows" by (intro map_idI) simp
    with None h show ?thesis by (simp add: save_failed_def find_failed_def find_append)
  next
    case (Some y)
    then have "find_failed (ft_txHash r) (save_failed r rows) \<noteq> None"
      by (auto simp: find_failed_def find_None_iff set_save_failed)
    with Some h show ?thesis by (auto simp: save_failed_def)
  qed
qed







definition empty_failed :: failed_sys where
  "empty_failed = \<lparr>fx_rows = [], fx_notifier = empty_notifier\<rparr>"


text \<open>A submission the RPC refuses is answered with the RPC's response, and, when the user is known and the
  diagnosis fits the columns, it leaves a row with the diagnosis and one notification of its summary for that user.\<close>

theorem failed_submission_reported:
  assumes resp: "rt_outcome (retryWithBackoff sendTransaction 4 1000) = Inr resp" "sr_status resp = ''ERROR''"
    and report: "analyzeSendTransactionResponse p inh x m (sr_response resp) None = Inr r" "rt_failed r" "non_empty (rt_txHash r) = Some h"
    and user: "non_empty (or_else inner outer) = Some u"
    and new: "find_failed h (fx_rows s) = None" "row_fits (failed_row inh r h (or_else inner outer) (sr_latestLedger resp) None)"
  shows "\<exists>s' row n. submitTransaction p inh x m now redis sendTransaction inner outer s = (s', Inr resp)
    \<and> fx_rows s' = fx_rows s @ [row] \<and> ft_txHash row = h \<and> ft_diagnostics row = r \<and> ft_message row = rt_summary r \<and> ft_notified row
    \<and> failure_notes (fx_notifier s') = failure_notes (fx_notifier s) @ [n] \<and> nf_userId n = u
    \<and> nf_message n = truncate_message (''Transaction failed: '' @ rt_summary r)"
proof -
  define row where "row = failed_row inh r h (or_else inner outer) (sr_latestLedger resp) None"
  have ua: "ft_userAddress row = or_else inner outer" "\<not> ft_notified row" "ft_txHash row = h" "ft_diagnostics row = r" "ft_message row = rt_summary r"
    by (simp_all add: row_def failed_row_def or_else_def split: option.split)
  let ?s = "recordFailedTransaction inh now redis r (or_else inner outer) (sr_latestLedger resp) s"
  have submit: "submitTransaction p inh x m now redis sendTransaction inner outer s = (?s, Inr resp)"
    by (simp add: submitTransaction_def resp report(1))
  have fits: "fits 64 u" "fits 64 h"
    using new(2) user report(3) ua(1,3)
    unfolding row_def [symmetric] by (auto simp: row_fits_def fits_opt_def non_empty_def split: option.splits if_splits)
  then obtain n' n where n: "notify now redis u TRANSACTION_FAILED (truncate_message (''Transaction failed: '' @ rt_summary r)) (Some h)
      DISPATCH_NONE (fx_notifier s) = (n', Inr (Some n))"
    "failure_notes n' = failure_notes (fx_notifier s) @ [n]" "nf_userId n = u"
    "nf_message n = truncate_message (''Transaction failed: '' @ rt_summary r)" "nf_referenceId n = Some h" "nf_inApp n"
    by (rule notify_failure)
  have "?s = s\<lparr>fx_rows := save_failed (row\<lparr>ft_notified := True\<rparr>) (fx_rows s), fx_notifier := n'\<rparr>"
    using report(2,3) new n(1) user ua save_twice [of "row\<lparr>ft_notified := True\<rparr>" row "fx_rows s"]
    by (simp add: recordFailedTransaction_def Let_def flip: row_def)
  moreover have "save_failed (row\<lparr>ft_notified := True\<rparr>) (fx_rows s) = fx_rows s @ [row\<lparr>ft_notified := True\<rparr>]"
    using new(1) ua(3) by (simp add: save_failed_def)
  ultimately show ?thesis
    unfolding submit using n ua by (intro exI [of _ ?s] exI [of _ "row\<lparr>ft_notified := True\<rparr>"] exI [of _ n]) simp
qed

text \<open>A contract's code is unsigned, the column is a signed integer: a code from \<open>2 ^ 31\<close> on is never recorded nor told.\<close>

lemma large_code_dropped:
  assumes "rt_primaryError r = Some e" "ed_code e = Some (Fin q)" "2 ^ 31 \<le> q"
  shows "recordFailedTransaction inh now redis r ua ledger s = s"
  using assms by (auto simp: recordFailedTransaction_def failed_row_def row_fits_def fits_integer_def Let_def split: option.split)

subsection \<open>Retries of the reads\<close>

lemma retry_fails_iff:
  assumes "1 \<le> n"
  shows "isl (rt_outcome (retryWithBackoff call (int n) base)) \<longleftrightarrow> (\<forall>k. 1 \<le> k \<and> k \<le> n \<longrightarrow> isl (call k))"
proof -
  have "retryWithBackoff call (int n) base = retry_reference call 1 n base []"
    using assms by (simp add: retryWithBackoff_def retry_from_reference)
  then show ?thesis
    using first_success_none [of call 1 n] by (cases "first_success call 1 n") (auto simp: retry_reference_def)
qed

lemma retryable_fails_iff:
  "isl (rt_outcome (retryable_from jitter call n d i err slept)) \<longleftrightarrow> (\<forall>k. i \<le> k \<and> int k \<le> n \<longrightarrow> isl (call k))"
proof (induction jitter call n d i err slept rule: retryable_from.induct)
  case (1 jitter call n d i err slept)
  show ?case
  proof (cases "int i \<le> n")
    case False
    then show ?thesis by (subst retryable_from.simps) auto
  next
    case True
    show ?thesis
    proof (cases "call i")
      case (Inr v)
      with True show ?thesis by (subst retryable_from.simps) auto
    next
      case (Inl e)
      have "(\<forall>k. i \<le> k \<and> int k \<le> n \<longrightarrow> isl (call k)) \<longleftrightarrow> (\<forall>k. i + 1 \<le> k \<and> int k \<le> n \<longrightarrow> isl (call k))"
        using Inl by (metis Suc_eq_plus1 Suc_leD not_less_eq_eq order_antisym sum.disc(1))
      with 1 [OF True Inl] True Inl show ?thesis by (subst retryable_from.simps) simp
    qed
  qed
qed

text \<open>The latest ledger is out of reach only after twelve failed requests.\<close>

lemma latest_ledger_twelve:
  "isl (rt_outcome (getLatestLedger jitter call)) \<longleftrightarrow> (\<forall>i j. 1 \<le> i \<and> i \<le> 3 \<and> 1 \<le> j \<and> j \<le> 4 \<longrightarrow> isl (call i j))"
proof -
  have "isl (rt_outcome (getLatestLedger jitter call)) \<longleftrightarrow> (\<forall>i. 1 \<le> i \<and> i \<le> 3 \<longrightarrow> isl (rt_outcome (retryWithBackoff (call i) 4 1000)))"
    unfolding getLatestLedger_def Retryable_def retryable_fails_iff by auto
  moreover have "isl (rt_outcome (retryWithBackoff (call i) 4 1000)) \<longleftrightarrow> (\<forall>j. 1 \<le> j \<and> j \<le> 4 \<longrightarrow> isl (call i j))" for i
    using retry_fails_iff [of 4 "call i" 1000] by simp
  ultimately show ?thesis by auto
qed

subsection \<open>Witnesses\<close>

definition sample_response :: rpc_response where
  "sample_response = \<lparr>rp_hash = JStr ''h1'', rp_diagnosticEvents = EventsList [XdrObject sample_event], rp_diagnosticEventsXdr = EventsMissing,
     rp_events = EventsMissing, rp_resultXdr = XdrNothing, rp_errorResult = XdrNothing, rp_errorResultXdr = XdrNothing,
     rp_resultMetaXdr = XdrNothing, rp_error = JUndef\<rparr>"

definition sample_send :: "nat \<Rightarrow> string + send_response" where
  "sample_send k = (if k = 1 then Inl ''timeout''
     else Inr \<lparr>sr_status = ''ERROR'', sr_response = sample_response, sr_latestLedger = Some 9\<rparr>)"

definition sample_diagnosis :: report where
  "sample_diagnosis = (case analyzeSendTransactionResponse sample_print (\<lambda>_. []) sample_codec Map.empty sample_response None of Inr r \<Rightarrow> r)"

lemma sample_diagnosed:
  "analyzeSendTransactionResponse sample_print (\<lambda>_. []) sample_codec Map.empty sample_response None = Inr sample_diagnosis
   \<and> rt_failed sample_diagnosis \<and> non_empty (rt_txHash sample_diagnosis) = Some ''h1''
   \<and> row_fits (failed_row (\<lambda>_. []) sample_diagnosis ''h1'' (Some ''GA'') (Some 9) None)"
  by code_simp

theorem failed_submission_reported_witness:
  "\<exists>s' row n resp. submitTransaction sample_print (\<lambda>_. []) sample_codec Map.empty 5 (\<lambda>_. None) sample_send None (Some ''GA'') empty_failed
     = (s', Inr resp) \<and> fx_rows s' = [row] \<and> ft_txHash row = ''h1'' \<and> ft_notified row
     \<and> failure_notes (fx_notifier s') = [n] \<and> nf_userId n = ''GA''"
proof -
  let ?resp = "\<lparr>sr_status = ''ERROR'', sr_response = sample_response, sr_latestLedger = Some 9\<rparr>"
  have "rt_outcome (retryWithBackoff sample_send 4 1000) = Inr ?resp" by code_simp
  from failed_submission_reported [OF this, of sample_print "\<lambda>_. []" sample_codec Map.empty sample_diagnosis "''h1''" None "Some ''GA''" "''GA''"
      empty_failed 5 "\<lambda>_. None"] sample_diagnosed
  show ?thesis
    by (simp add: or_else_def non_empty_def empty_failed_def empty_notifier_def failure_notes_def find_failed_def) blast
qed


end
