(* ===== verification/Dates.thy ===== *)
theory Dates
  imports Prelude
begin

text \<open>
  \<open>Date\<close> of the language in UTC: milliseconds since 1970, the civil calendar and the setters the sources use. The
  server's local time is taken to be UTC.
\<close>

definition ms_per_day :: int where "ms_per_day = 86400000"

definition day_of :: "int \<Rightarrow> int" where
  "day_of t = t div ms_per_day"

text \<open>The proleptic Gregorian calendar in years from March to February, 400 of which have 146097 days.\<close>

definition civil_of_day :: "int \<Rightarrow> int \<times> int \<times> int" where
  "civil_of_day n =
     (let z = n + 719468; era = z div 146097; doe = z mod 146097;
          yoe = (doe - doe div 1460 + doe div 36524 - doe div 146096) div 365;
          doy = doe - (365 * yoe + yoe div 4 - yoe div 100);
          mp = (5 * doy + 2) div 153;
          m = (if mp < 10 then mp + 3 else mp - 9)
      in (yoe + era * 400 + (if m \<le> 2 then 1 else 0), m, doy - (153 * mp + 2) div 5 + 1))"

definition day_of_civil :: "int \<Rightarrow> int \<Rightarrow> int \<Rightarrow> int" where
  "day_of_civil y m d =
     (let y' = (if m \<le> 2 then y - 1 else y); era = y' div 400; yoe = y' mod 400;
          doy = (153 * (if m > 2 then m - 3 else m + 9) + 2) div 5 + d - 1
      in era * 146097 + (yoe * 365 + yoe div 4 - yoe div 100 + doy) - 719468)"

text \<open>\<open>getUTCDay\<close>: 0 is Sunday; day 0 was a Thursday.\<close>

definition weekday :: "int \<Rightarrow> int" where
  "weekday n = (n + 4) mod 7"

text \<open>Midnight of the last Monday, and of the first of the month.\<close>

definition last_monday :: "int \<Rightarrow> int" where
  "last_monday t = (let n = day_of t in (n - (weekday n + 6) mod 7) * ms_per_day)"

definition first_of_month :: "int \<Rightarrow> int" where
  "first_of_month t = (let n = day_of t in (n - (snd (snd (civil_of_day n)) - 1)) * ms_per_day)"

text \<open>\<open>setMonth(getMonth() + k)\<close>: a day the month does not have runs over into the next.\<close>

definition add_months :: "int \<Rightarrow> int \<Rightarrow> int" where
  "add_months k t =
     (case civil_of_day (day_of t) of (y, m, d) \<Rightarrow>
        let i = m - 1 + k in (day_of_civil (y + i div 12) (i mod 12 + 1) 1 + (d - 1)) * ms_per_day + t mod ms_per_day)"

lemma day_bounds: "day_of t * ms_per_day \<le> t" "t < day_of t * ms_per_day + ms_per_day"
proof -
  have "0 \<le> t mod ms_per_day" "t mod ms_per_day < ms_per_day" "t = day_of t * ms_per_day + t mod ms_per_day"
    by (simp_all add: day_of_def ms_per_day_def)
  then show "day_of t * ms_per_day \<le> t" "t < day_of t * ms_per_day + ms_per_day" by linarith+
qed

text \<open>The last Monday is a Monday, and less than a week ago.\<close>

lemma last_monday_monday: "weekday (day_of (last_monday t)) = 1"
proof -
  have "day_of (k * ms_per_day) = k" for k by (simp add: day_of_def ms_per_day_def)
  then show ?thesis by (simp add: last_monday_def weekday_def Let_def) presburger
qed

lemma last_monday_recent: "last_monday t \<le> t" "t < last_monday t + 7 * ms_per_day"
proof -
  define n where "n = day_of t"
  define k where "k = (weekday n + 6) mod 7"
  have k: "0 \<le> k" "k \<le> 6" by (simp_all add: k_def)
  have m: "last_monday t = n * ms_per_day - k * ms_per_day" by (simp add: last_monday_def n_def k_def Let_def left_diff_distrib)
  have "0 \<le> k * ms_per_day" "k * ms_per_day \<le> 6 * ms_per_day" using k by (simp_all add: ms_per_day_def)
  then show "last_monday t \<le> t" "t < last_monday t + 7 * ms_per_day"
    using day_bounds [of t] unfolding m n_def [symmetric] by linarith+
qed

text \<open>Days known from the calendar: an epoch, leap days, the end of a century, and the first of March after January's 31st.\<close>

lemma calendar_samples:
  "civil_of_day 0 = (1970, 1, 1)" "civil_of_day 19782 = (2024, 2, 29)" "civil_of_day 11016 = (2000, 2, 29)"
  "civil_of_day (- 25508) = (1900, 3, 1)" "civil_of_day (- 25509) = (1900, 2, 28)"
  "day_of_civil 2024 2 29 = 19782" "day_of_civil 1900 3 1 = - 25508" "add_months (- 1) (day_of_civil 2024 3 31 * ms_per_day) = day_of_civil 2024 3 2 * ms_per_day"
  by code_simp+

end
