(* ===== verification/Leaderboard.thy ===== *)
theory Leaderboard
  imports Dates JsArith Store "HOL-Library.List_Lexorder"
begin

text \<open>
  \<^verbatim>\<open>packages/backend/src/leaderboard\<close>: the boards computed from the settled predictions, and the sorted sets of Redis
  that hold a score per address and period, with their refresh on an outcome and their rebuilds. A query is its
  meaning on the rows; decimals are rationals; rows that are equal in a query's order stay in the order of the table.
  The database answers; whether Redis does is an argument.
\<close>

subsection \<open>Predictions\<close>

datatype prediction_status = Pending | Settled | Cancelled
datatype prediction_outcome = Won | Lost

record prediction =
  pd_userId :: string
  pd_status :: prediction_status
  pd_outcome :: "prediction_outcome option"
  pd_profitUsdc :: rat
  pd_stakeUsdc :: rat
  pd_settledAt :: "int option"

definition MIN_CALLS_FOR_WINRATE :: nat where "MIN_CALLS_FOR_WINRATE = 5"

text \<open>\<open>status = 'settled'\<close>, and \<open>settledAt >= since\<close> if there is a date: no row without a date is then meant.\<close>

definition settled_since :: "int option \<Rightarrow> prediction list \<Rightarrow> prediction list" where
  "settled_since since rows = filter (\<lambda>c. pd_status c = Settled \<and>
     (case since of None \<Rightarrow> True | Some t \<Rightarrow> (case pd_settledAt c of Some u \<Rightarrow> t \<le> u | None \<Rightarrow> False))) rows"

definition users_of :: "prediction list \<Rightarrow> string list" where
  "users_of rows = rev (remdups (rev (map pd_userId rows)))"

definition calls_by :: "string \<Rightarrow> prediction list \<Rightarrow> prediction list" where
  "calls_by u rows = filter (\<lambda>c. pd_userId c = u) rows"

definition won_calls :: "prediction list \<Rightarrow> nat" where
  "won_calls rows = length (filter (\<lambda>c. pd_outcome c = Some Won) rows)"

definition lost_calls :: "prediction list \<Rightarrow> nat" where
  "lost_calls rows = length (filter (\<lambda>c. pd_outcome c = Some Lost) rows)"

definition total_profit :: "prediction list \<Rightarrow> rat" where
  "total_profit rows = sum_list (map pd_profitUsdc rows)"

text \<open>\<open>ROUND(won * 100.0 / NULLIF(total, 0), 2)\<close>\<close>

definition round2 :: "rat \<Rightarrow> rat" where
  "round2 q = of_int \<lfloor>q * 100 + 1 / 2\<rfloor> / 100"

definition win_rate :: "prediction list \<Rightarrow> rat option" where
  "win_rate rows = (if rows = [] then None else Some (round2 (of_nat (won_calls rows) * 100 / of_nat (length rows))))"

record user_totals =
  ut_userId :: string
  ut_totalCalls :: nat
  ut_wonCalls :: nat
  ut_lostCalls :: nat
  ut_winRate :: rat
  ut_totalProfit :: rat

definition totals_of :: "string \<Rightarrow> prediction list \<Rightarrow> user_totals" where
  "totals_of u rows = (let cs = calls_by u rows in
     \<lparr>ut_userId = u, ut_totalCalls = length cs, ut_wonCalls = won_calls cs, ut_lostCalls = lost_calls cs,
      ut_winRate = nullish (win_rate cs) 0, ut_totalProfit = total_profit cs\<rparr>)"

definition group_by_user :: "prediction list \<Rightarrow> user_totals list" where
  "group_by_user rows = map (\<lambda>u. totals_of u rows) (users_of rows)"

subsection \<open>The board of the database\<close>

datatype board_sort = Profit | Winrate
datatype timeframe = All | Month

record board_query =
  bq_sort :: board_sort
  bq_timeframe :: timeframe
  bq_page :: nat
  bq_limit :: nat

record board_entry =
  be_rank :: nat
  be_userId :: string
  be_username :: string
  be_totalCalls :: nat
  be_wonCalls :: nat
  be_lostCalls :: nat
  be_winRate :: rat
  be_totalProfit :: rat

record board_response =
  br_data :: "board_entry list"
  br_total :: nat
  br_page :: nat
  br_limit :: nat
  br_pages :: nat
  br_sort :: board_sort
  br_timeframe :: timeframe
  br_generatedAt :: int

definition getDateFilter :: "timeframe \<Rightarrow> int \<Rightarrow> int option" where
  "getDateFilter tf now = (if tf = Month then Some (add_months (- 1) now) else None)"

definition eligible :: "board_sort \<Rightarrow> user_totals list \<Rightarrow> user_totals list" where
  "eligible s us = (if s = Winrate then filter (\<lambda>u. ut_totalCalls u \<ge> MIN_CALLS_FOR_WINRATE) us else us)"

definition order_by :: "board_sort \<Rightarrow> user_totals list \<Rightarrow> user_totals list" where
  "order_by s us = (if s = Winrate
     then sort_key (\<lambda>u. - ut_winRate u) (sort_key (\<lambda>u. - ut_totalProfit u) us)
     else sort_key (\<lambda>u. - ut_totalProfit u) (sort_key (\<lambda>u. - ut_winRate u) us))"

definition getTotalCount :: "board_sort \<Rightarrow> timeframe \<Rightarrow> int \<Rightarrow> prediction list \<Rightarrow> nat" where
  "getTotalCount s tf now rows =
     card (set (map ut_userId (eligible s (group_by_user (settled_since (getDateFilter tf now) rows)))))"

text \<open>\<open>Math.ceil(total / limit)\<close> for a positive limit.\<close>

definition pages_of :: "nat \<Rightarrow> nat \<Rightarrow> nat" where
  "pages_of tot limit = (tot + limit - 1) div limit"

definition emptyResponse :: "board_query \<Rightarrow> nat \<Rightarrow> int \<Rightarrow> board_response" where
  "emptyResponse q tot now = \<lparr>br_data = [], br_total = tot, br_page = bq_page q, br_limit = bq_limit q, br_pages = 0,
     br_sort = bq_sort q, br_timeframe = bq_timeframe q, br_generatedAt = now\<rparr>"

definition board_rows :: "board_sort \<Rightarrow> timeframe \<Rightarrow> int \<Rightarrow> prediction list \<Rightarrow> user_totals list" where
  "board_rows s tf now rows = order_by s (eligible s (group_by_user (settled_since (getDateFilter tf now) rows)))"

definition board_entry_of :: "nat \<Rightarrow> nat \<times> user_totals \<Rightarrow> board_entry" where
  "board_entry_of offset iu = (case iu of (i, u) \<Rightarrow>
     \<lparr>be_rank = offset + i + 1, be_userId = ut_userId u, be_username = ''User '' @ take 8 (ut_userId u),
      be_totalCalls = ut_totalCalls u, be_wonCalls = ut_wonCalls u, be_lostCalls = ut_lostCalls u,
      be_winRate = ut_winRate u, be_totalProfit = ut_totalProfit u\<rparr>)"

definition getLeaderboard :: "board_query \<Rightarrow> int \<Rightarrow> prediction list \<Rightarrow> board_response" where
  "getLeaderboard q now rows =
     (let offset = (bq_page q - 1) * bq_limit q;
          rawData = window offset (bq_limit q) (board_rows (bq_sort q) (bq_timeframe q) now rows);
          tot = getTotalCount (bq_sort q) (bq_timeframe q) now rows
      in if rawData = [] then emptyResponse q 0 now
         else \<lparr>br_data = map (board_entry_of offset) (enumerate 0 rawData), br_total = tot, br_page = bq_page q,
           br_limit = bq_limit q, br_pages = pages_of tot (bq_limit q), br_sort = bq_sort q,
           br_timeframe = bq_timeframe q, br_generatedAt = now\<rparr>)"

record user_board_stats =
  ub_userId :: string
  ub_rank :: "nat option"
  ub_totalCalls :: nat
  ub_wonCalls :: nat
  ub_lostCalls :: nat
  ub_winRate :: rat
  ub_totalProfit :: rat
  ub_qualifiesForWinRate :: bool

definition getUserStats :: "string \<Rightarrow> prediction list \<Rightarrow> user_board_stats" where
  "getUserStats u rows =
     (let all_settled = settled_since None rows;
          t = totals_of u all_settled;
          better = filter (\<lambda>v. ut_totalProfit v > ut_totalProfit t) (group_by_user all_settled)
      in \<lparr>ub_userId = u, ub_rank = (if ut_totalCalls t > 0 then Some (length better + 1) else None),
          ub_totalCalls = ut_totalCalls t, ub_wonCalls = ut_wonCalls t, ub_lostCalls = ut_lostCalls t,
          ub_winRate = ut_winRate t, ub_totalProfit = ut_totalProfit t,
          ub_qualifiesForWinRate = (ut_totalCalls t \<ge> MIN_CALLS_FOR_WINRATE)\<rparr>)"

subsection \<open>The boards of Redis\<close>

datatype period = Weekly | Monthly | AllTime

type_synonym sorted_set = "(string \<times> int) list"
type_synonym boards = "period \<Rightarrow> sorted_set"

record redis_entry =
  rd_address :: string
  rd_score :: int
  rd_rank :: nat

definition js_round :: "rat \<Rightarrow> int" where
  "js_round q = \<lfloor>q + 1 / 2\<rfloor>"

definition computeScore :: "nat \<Rightarrow> nat \<Rightarrow> int \<Rightarrow> int" where
  "computeScore wonCalls totalCalls totalProfitXlmStroops =
     (let winRateBps = (if totalCalls > 0 then js_round (of_nat wonCalls / of_nat totalCalls * 10000) else 0);
          profitComponent = totalProfitXlmStroops div 1000000
      in winRateBps * 1000 + profitComponent)"


definition bulkSet :: "period \<Rightarrow> (string \<times> int) list \<Rightarrow> boards \<Rightarrow> boards" where
  "bulkSet period es b =
     (if es = [] then b else b(period := foldl (\<lambda>z (address, score). map_set address score z) [] es))"

definition ranking :: "sorted_set \<Rightarrow> (string \<times> int) list" where
  "ranking z = sort_key (\<lambda>e. - snd e) (rev (sort_key fst z))"

definition zrevrange :: "sorted_set \<Rightarrow> nat \<Rightarrow> nat \<Rightarrow> (string \<times> int) list" where
  "zrevrange z start n = window start n (ranking z)"

definition parseZrevrange :: "(string \<times> int) list \<Rightarrow> nat \<Rightarrow> redis_entry list" where
  "parseZrevrange raw offsetRank = map (\<lambda>(i, a, s). \<lparr>rd_address = a, rd_score = s, rd_rank = offsetRank + i + 1\<rparr>) (enumerate 0 raw)"

definition getTopEntries :: "period \<Rightarrow> nat \<Rightarrow> nat \<Rightarrow> boards \<Rightarrow> redis_entry list" where
  "getTopEntries period offset n b = parseZrevrange (zrevrange (b period) offset n) offset"

definition getCount :: "period \<Rightarrow> boards \<Rightarrow> nat" where
  "getCount period b = length (b period)"

fun index_where :: "('a \<Rightarrow> bool) \<Rightarrow> 'a list \<Rightarrow> nat option" where
  "index_where P [] = None"
| "index_where P (x # xs) = (if P x then Some 0 else map_option Suc (index_where P xs))"

definition getContextualRanking :: "period \<Rightarrow> string \<Rightarrow> boards \<Rightarrow> (redis_entry \<times> redis_entry list \<times> redis_entry list) option" where
  "getContextualRanking period address b =
     (case index_where (\<lambda>e. fst e = address) (ranking (b period)) of
        None \<Rightarrow> None
      | Some r \<Rightarrow>
          (let z = b period; aboveStart = r - 5
           in Some (\<lparr>rd_address = address, rd_score = nullish (row_get z address) 0, rd_rank = r + 1\<rparr>,
                    parseZrevrange (if r > 0 then zrevrange z aboveStart (r - aboveStart) else []) aboveStart,
                    parseZrevrange (zrevrange z (r + 1) 5) (r + 1))))"

subsection \<open>Boards of a period\<close>

definition getSinceForPeriod :: "period \<Rightarrow> int \<Rightarrow> int option" where
  "getSinceForPeriod period now = (case period of
      Weekly \<Rightarrow> Some (last_monday now)
    | Monthly \<Rightarrow> Some (first_of_month now)
    | AllTime \<Rightarrow> None)"

definition profit_stroops :: "user_totals \<Rightarrow> int" where
  "profit_stroops u = js_round (ut_totalProfit u * 1000000)"

definition score_of :: "user_totals \<Rightarrow> int" where
  "score_of u = computeScore (ut_wonCalls u) (ut_totalCalls u) (profit_stroops u)"

definition to_entry :: "user_totals \<Rightarrow> nat \<Rightarrow> redis_entry" where
  "to_entry u rank = \<lparr>rd_address = ut_userId u, rd_score = score_of u, rd_rank = rank\<rparr>"

definition by_profit :: "period \<Rightarrow> int \<Rightarrow> prediction list \<Rightarrow> user_totals list" where
  "by_profit period now rows =
     sort_key (\<lambda>u. - ut_totalProfit u) (group_by_user (settled_since (getSinceForPeriod period now) rows))"

record period_board =
  pb_data :: "redis_entry list"
  pb_total :: nat
  pb_page :: nat
  pb_limit :: nat
  pb_pages :: nat
  pb_period :: period
  pb_fromCache :: bool
  pb_generatedAt :: int

text \<open>
  The count is taken from the same query, which still groups by user: each of its rows counts one user, and only
  the first is read.
\<close>

definition getPeriodLeaderboardFromDb :: "period \<Rightarrow> nat \<Rightarrow> nat \<Rightarrow> int \<Rightarrow> prediction list \<Rightarrow> period_board" where
  "getPeriodLeaderboardFromDb period page limit now rows =
     (let offset = (page - 1) * limit;
          groups = by_profit period now rows;
          tot = (case map (\<lambda>g. card {ut_userId g}) groups of [] \<Rightarrow> 0 | n # _ \<Rightarrow> n)
      in \<lparr>pb_data = map (\<lambda>(i, u). to_entry u (offset + i + 1)) (enumerate 0 (window offset limit groups)),
          pb_total = tot, pb_page = page, pb_limit = limit, pb_pages = pages_of tot limit, pb_period = period,
          pb_fromCache = False, pb_generatedAt = now\<rparr>)"

text \<open>\<open>redis\<close> is what Redis holds if the health check and the reads succeed.\<close>

definition getPeriodLeaderboard ::
  "boards option \<Rightarrow> period \<Rightarrow> nat \<Rightarrow> nat \<Rightarrow> int \<Rightarrow> prediction list \<Rightarrow> period_board" where
  "getPeriodLeaderboard redis period page limit now rows =
     (let offset = (page - 1) * limit in
      case redis of
        None \<Rightarrow> getPeriodLeaderboardFromDb period page limit now rows
      | Some b \<Rightarrow>
          (let found = getTopEntries period offset limit b; tot = getCount period b
           in if tot > 0 \<or> found \<noteq> []
              then \<lparr>pb_data = found, pb_total = tot, pb_page = page, pb_limit = limit, pb_pages = pages_of tot limit,
                pb_period = period, pb_fromCache = True, pb_generatedAt = now\<rparr>
              else getPeriodLeaderboardFromDb period page limit now rows))"

datatype rank_exn = AddressNotFound string

definition getContextualRankFromDb ::
  "period \<Rightarrow> string \<Rightarrow> int \<Rightarrow> prediction list \<Rightarrow> rank_exn + redis_entry \<times> redis_entry list \<times> redis_entry list" where
  "getContextualRankFromDb period address now rows =
     (let us = by_profit period now rows
      in case index_where (\<lambda>u. ut_userId u = address) us of
           None \<Rightarrow> Inl (AddressNotFound (''Address '' @ address @ '' not found in leaderboard''))
         | Some userIndex \<Rightarrow> Inr
             (to_entry (us ! userIndex) (userIndex + 1),
              map (\<lambda>(i, u). to_entry u (nat (max 1 (int userIndex - 5)) + i + 1))
                (enumerate 0 (window (userIndex - 5) (userIndex - (userIndex - 5)) us)),
              map (\<lambda>(i, u). to_entry u (userIndex + 2 + i)) (enumerate 0 (window (userIndex + 1) 5 us))))"

definition getContextualRank ::
  "boards option \<Rightarrow> period \<Rightarrow> string \<Rightarrow> int \<Rightarrow> prediction list \<Rightarrow> rank_exn + redis_entry \<times> redis_entry list \<times> redis_entry list" where
  "getContextualRank redis period address now rows =
     (case Option.bind redis (getContextualRanking period address) of
        Some ctx \<Rightarrow> Inr ctx
      | None \<Rightarrow> getContextualRankFromDb period address now rows)"

subsection \<open>Refresh and rebuild\<close>



definition syncPeriod :: "period \<Rightarrow> int option \<Rightarrow> prediction list \<Rightarrow> boards \<Rightarrow> boards" where
  "syncPeriod period since rows b =
     bulkSet period (map (\<lambda>u. (ut_userId u, score_of u)) (group_by_user (settled_since since rows))) b"

definition syncAllTime :: "prediction list \<Rightarrow> boards \<Rightarrow> boards" where
  "syncAllTime rows b = syncPeriod AllTime None rows b"

definition syncWeekly :: "int \<Rightarrow> prediction list \<Rightarrow> boards \<Rightarrow> boards" where
  "syncWeekly now rows b = syncPeriod Weekly (Some (last_monday now)) rows b"

definition syncMonthly :: "int \<Rightarrow> prediction list \<Rightarrow> boards \<Rightarrow> boards" where
  "syncMonthly now rows b = syncPeriod Monthly (Some (first_of_month now)) rows b"

subsection \<open>Users and totals\<close>

lemma users_distinct [simp]: "distinct (users_of rows)"
  by (simp add: users_of_def)

lemma set_users_of [simp]: "set (users_of rows) = pd_userId ` set rows"
  by (simp add: users_of_def)

lemma totals_userId [simp]: "ut_userId (totals_of u rows) = u"
  by (simp add: totals_of_def Let_def)

lemma group_ids: "map ut_userId (group_by_user rows) = users_of rows"
  by (simp add: group_by_user_def comp_def)

lemma group_distinct: "distinct (map ut_userId (group_by_user rows))"
  by (simp add: group_ids)

text \<open>A prediction is won, lost or neither; a rate is between 0 and 100.\<close>

lemma won_lost: "won_calls cs + lost_calls cs \<le> length cs"
  by (induction cs) (auto simp: won_calls_def lost_calls_def)

lemma win_rate_bounds: "0 \<le> nullish (win_rate cs) 0 \<and> nullish (win_rate cs) 0 \<le> 100"
proof (cases "cs = []")
  case False
  define q where "q = (of_nat (won_calls cs) * 100 / of_nat (length cs) :: rat)"
  have "(of_nat (won_calls cs) :: rat) \<le> of_nat (length cs)" using won_lost [of cs] by simp
  then have q: "0 \<le> q" "q \<le> 100" using False by (simp_all add: q_def divide_le_eq)
  have "\<lfloor>q * 100 + 1 / 2\<rfloor> \<le> 10000" using q(2) by (subst floor_le_iff) simp
  then have "(of_int \<lfloor>q * 100 + 1 / 2\<rfloor> :: rat) \<le> 10000" by (metis of_int_le_iff of_int_numeral)
  moreover have "0 \<le> \<lfloor>q * 100 + 1 / 2\<rfloor>" using q(1) by simp
  ultimately show ?thesis using False by (simp add: win_rate_def round2_def divide_le_eq flip: q_def)
qed (simp add: win_rate_def)

subsection \<open>The ranking of a sorted set\<close>

lemma mset_ranking [simp]: "mset (ranking z) = mset z"
  by (simp add: ranking_def)

lemma set_ranking [simp]: "set (ranking z) = set z"
  by (metis mset_ranking set_mset_mset)

lemma length_ranking [simp]: "length (ranking z) = length z"
  by (metis mset_ranking size_mset)

lemma ranking_sorted: "sorted_wrt (\<lambda>x y. snd y \<le> snd x) (ranking z)"
proof -
  have "sorted (map (\<lambda>e. - snd e) (ranking z))" by (simp add: ranking_def)
  then show ?thesis by (simp add: sorted_wrt_map)
qed

definition all_entries :: "sorted_set \<Rightarrow> redis_entry list" where
  "all_entries z = parseZrevrange (ranking z) 0"

lemma parse_append: "parseZrevrange (xs @ ys) k = parseZrevrange xs k @ parseZrevrange ys (k + length xs)"
proof -
  have "map (\<lambda>(i, a, s). \<lparr>rd_address = a, rd_score = s, rd_rank = k + i + 1\<rparr>) (enumerate (length xs) ys)
    = map (\<lambda>(i, a, s). \<lparr>rd_address = a, rd_score = s, rd_rank = k + length xs + i + 1\<rparr>) (enumerate 0 ys)"
    by (rule nth_equalityI) (simp_all add: nth_enumerate_eq case_prod_beta)
  then show ?thesis by (simp add: parseZrevrange_def enumerate_append_eq)
qed

lemma parse_length [simp]: "length (parseZrevrange xs k) = length xs"
  by (simp add: parseZrevrange_def)

lemma parse_nth:
  "i < length xs \<Longrightarrow> parseZrevrange xs k ! i = \<lparr>rd_address = fst (xs ! i), rd_score = snd (xs ! i), rd_rank = k + i + 1\<rparr>"
  by (simp add: parseZrevrange_def nth_enumerate_eq case_prod_beta)

lemma parse_window: "k \<le> length xs \<Longrightarrow> parseZrevrange (window k n xs) (j + k) = window k n (parseZrevrange xs j)"
  by (rule nth_equalityI) (simp_all add: parse_nth window_def less_diff_conv add.commute)

lemma top_entries: "getTopEntries period k n b = window k n (all_entries (b period))"
proof (cases "k \<le> length (b period)")
  case True
  then show ?thesis using parse_window [of k "ranking (b period)" n 0] by (simp add: getTopEntries_def zrevrange_def all_entries_def)
next
  case False
  then show ?thesis by (simp add: getTopEntries_def zrevrange_def all_entries_def parseZrevrange_def window_def)
qed

lemma windows_concat: "concat (map (\<lambda>k. window (k * n) n xs) [0..<m]) = take (m * n) xs"
proof (induction m)
  case (Suc m)
  then show ?case using take_drop_window [of "m * n" xs n] by (simp add: add.commute)
qed simp

lemma pages_cover: "0 < limit \<Longrightarrow> tot \<le> pages_of tot limit * limit"
proof -
  assume l: "0 < limit"
  have "(tot + limit - 1) div limit * limit + (tot + limit - 1) mod limit = tot + limit - 1" by (rule div_mult_mod_eq)
  moreover have "(tot + limit - 1) mod limit < limit" using l by (rule mod_less_divisor)
  ultimately show ?thesis unfolding pages_of_def by linarith
qed

text \<open>The pages of a period's board in Redis are, one after the other, the whole ranking: every member once, ranks
  counted from one, scores never rising.\<close>

theorem redis_pages_are_ranking:
  assumes "0 < limit"
  shows "concat (map (\<lambda>k. getTopEntries period (k * limit) limit b) [0..<pages_of (getCount period b) limit]) = all_entries (b period)
    \<and> map rd_rank (all_entries (b period)) = [1..<getCount period b + 1]
    \<and> mset (map (\<lambda>e. (rd_address e, rd_score e)) (all_entries (b period))) = mset (b period)
    \<and> sorted_wrt (\<lambda>x y. rd_score y \<le> rd_score x) (all_entries (b period))"
proof (intro conjI)
  show "concat (map (\<lambda>k. getTopEntries period (k * limit) limit b) [0..<pages_of (getCount period b) limit]) = all_entries (b period)"
    unfolding top_entries windows_concat
    using pages_cover [OF assms, of "getCount period b"] by (simp add: getCount_def all_entries_def parseZrevrange_def)
  show "map rd_rank (all_entries (b period)) = [1..<getCount period b + 1]"
    by (rule nth_equalityI)
      (simp_all add: all_entries_def parseZrevrange_def getCount_def nth_enumerate_eq case_prod_beta del: upt_Suc)
  have e: "map (\<lambda>e. (rd_address e, rd_score e)) (all_entries (b period)) = ranking (b period)"
    by (rule nth_equalityI) (simp_all add: all_entries_def parseZrevrange_def nth_enumerate_eq case_prod_beta)
  then show "mset (map (\<lambda>e. (rd_address e, rd_score e)) (all_entries (b period))) = mset (b period)" by simp
  show "sorted_wrt (\<lambda>x y. rd_score y \<le> rd_score x) (all_entries (b period))"
    using ranking_sorted [of "b period", folded e] by (simp add: sorted_wrt_map)
qed

lemma redis_pages_are_ranking_witness:
  "concat (map (\<lambda>k. getTopEntries Weekly (k * 2) 2 (\<lambda>_. [(''a'', 1), (''b'', 3), (''c'', 2)])) [0..<2])
     = all_entries [(''a'', 1), (''b'', 3), (''c'', 2)]"
  using redis_pages_are_ranking [of 2 Weekly "\<lambda>_. [(''a'', 1), (''b'', 3), (''c'', 2)]", THEN conjunct1]
  by (simp add: getCount_def pages_of_def upt_conv_Cons)

text \<open>The context of an address is one window of the ranking: up to five places higher, the address itself with its
  rank and score, up to five lower, all with the ranks they have on the board.\<close>

theorem context_is_window:
  assumes "distinct (map fst (b period))" "getContextualRanking period address b = Some (u, higher, lower)"
  shows "\<exists>r < length (b period). higher = window (r - 5) (r - (r - 5)) (all_entries (b period))
    \<and> u = all_entries (b period) ! r \<and> lower = window (r + 1) 5 (all_entries (b period))
    \<and> rd_address u = address \<and> rd_rank u = r + 1 \<and> row_get (b period) address = Some (rd_score u)"
proof -
  have index: "index_where P xs = Some r \<Longrightarrow> r < length xs \<and> P (xs ! r)" for P :: "string \<times> int \<Rightarrow> bool" and xs r
    by (induction xs arbitrary: r) (auto split: if_splits)
  obtain r where r: "index_where (\<lambda>e. fst e = address) (ranking (b period)) = Some r"
    "u = \<lparr>rd_address = address, rd_score = nullish (row_get (b period) address) 0, rd_rank = r + 1\<rparr>"
    "higher = parseZrevrange (if r > 0 then zrevrange (b period) (r - 5) (r - (r - 5)) else []) (r - 5)"
    "lower = parseZrevrange (zrevrange (b period) (r + 1) 5) (r + 1)"
    using assms(2) by (auto simp: getContextualRanking_def Let_def split: option.splits)
  have l: "r < length (b period)" "fst (ranking (b period) ! r) = address" using index [OF r(1)] by simp_all
  obtain sc where sc: "ranking (b period) ! r = (address, sc)" using l(2) by (cases "ranking (b period) ! r") simp
  then have "(address, sc) \<in> set (b period)" using l(1) by (metis length_ranking nth_mem set_ranking)
  then have get: "row_get (b period) address = Some sc" using assms(1) by (simp add: row_get_def)
  have "all_entries (b period) ! r = u"
    using l(1) sc get by (simp add: r(2) all_entries_def parseZrevrange_def nth_enumerate_eq)
  moreover have "higher = window (r - 5) (r - (r - 5)) (all_entries (b period))"
  proof (cases "r = 0")
    case True
    then show ?thesis by (simp add: r(3) parseZrevrange_def window_def)
  next
    case False
    then show ?thesis
      using parse_window [of "r - 5" "ranking (b period)" "r - (r - 5)" 0] l(1) by (simp add: r(3) zrevrange_def all_entries_def)
  qed
  moreover have "lower = window (r + 1) 5 (all_entries (b period))"
    using parse_window [of "r + 1" "ranking (b period)" 5 0] l(1) by (simp add: r(4) zrevrange_def all_entries_def)
  ultimately show ?thesis using l(1) get by (intro exI [of _ r]) (simp add: r(2))
qed

lemma context_is_window_witness:
  "\<exists>r < length [(''a'', 1 :: int), (''b'', 3)]. [\<lparr>rd_address = ''b'', rd_score = 3, rd_rank = 1\<rparr>] = window (r - 5) (r - (r - 5)) (all_entries [(''a'', 1), (''b'', 3)])
    \<and> \<lparr>rd_address = ''a'', rd_score = 1, rd_rank = 2\<rparr> = all_entries [(''a'', 1), (''b'', 3)] ! r
    \<and> [] = window (r + 1) 5 (all_entries [(''a'', 1), (''b'', 3)])
    \<and> rd_address \<lparr>rd_address = ''a'', rd_score = 1, rd_rank = 2\<rparr> = ''a'' \<and> rd_rank \<lparr>rd_address = ''a'', rd_score = 1, rd_rank = 2\<rparr> = r + 1
    \<and> row_get [(''a'', 1), (''b'', 3)] ''a'' = Some (rd_score \<lparr>rd_address = ''a'', rd_score = 1, rd_rank = 2\<rparr>)"
  by (rule context_is_window [of "\<lambda>_. [(''a'', 1), (''b'', 3)]" Weekly "''a''"]) (simp, code_simp)

subsection \<open>Refresh and rebuild\<close>

lemma fold_map_set:
  "distinct (map fst es) \<Longrightarrow> map_of (foldl (\<lambda>z (a, sc). map_set a sc z) z es) k
     = (case map_of es k of Some v \<Rightarrow> Some v | None \<Rightarrow> map_of z k)"
proof (induction es arbitrary: z)
  case (Cons e es)
  obtain a sc where e: "e = (a, sc)" by (cases e)
  have "map_of es a = None" using Cons.prems e by (auto simp: map_of_eq_None_iff)
  with Cons.IH [of "map_set a sc z"] Cons.prems e show ?case by (auto split: option.split)
qed simp

lemma map_of_group:
  "map_of (map (\<lambda>u. (ut_userId u, f u)) (group_by_user rows)) k
     = (if k \<in> pd_userId ` set rows then Some (f (totals_of k rows)) else None)"
proof -
  have e: "map (\<lambda>u. (ut_userId u, f u)) (group_by_user rows) = map (\<lambda>u. (u, f (totals_of u rows))) (users_of rows)"
    by (simp add: group_by_user_def comp_def)
  show ?thesis
    unfolding e using map_of_map_restrict [of "\<lambda>u. f (totals_of u rows)" "users_of rows"]
    by (simp add: restrict_map_def)
qed

lemma group_nil: "group_by_user rows = [] \<longleftrightarrow> rows = []"
  by (metis group_by_user_def image_is_empty list.map_disc_iff set_empty set_users_of)

lemma sync_empty: "settled_since since rows = [] \<Longrightarrow> syncPeriod period since rows b = b"
  by (simp add: syncPeriod_def bulkSet_def group_nil)

text \<open>A rebuild replaces a period's board by the scores of exactly the users with a settled prediction since the
  period's start, and touches no other board; but when there is none it leaves the board of before.\<close>

theorem rebuild_exact_or_stale:
  "syncPeriod period since rows b period' =
     (if period' \<noteq> period \<or> settled_since since rows = [] then b period' else syncPeriod period since rows (\<lambda>_. []) period)
   \<and> (settled_since since rows \<noteq> [] \<longrightarrow>
        row_get (syncPeriod period since rows b period) a
          = (if a \<in> pd_userId ` set (settled_since since rows) then Some (score_of (totals_of a (settled_since since rows))) else None))"
proof -
  let ?rows = "settled_since since rows"
  let ?es = "map (\<lambda>u. (ut_userId u, score_of u)) (group_by_user ?rows)"
  have none: "?es = [] \<longleftrightarrow> ?rows = []" by (simp add: group_nil)
  have d: "distinct (map fst ?es)" using group_distinct [of ?rows] by (simp add: comp_def)
  have "row_get (foldl (\<lambda>z (a, sc). map_set a sc z) [] ?es) a
      = (if a \<in> pd_userId ` set ?rows then Some (score_of (totals_of a ?rows)) else None)"
    using fold_map_set [OF d, of "[]" a] map_of_group [of score_of ?rows a] by (simp add: row_get_def split: option.split)
  then show ?thesis using none by (simp add: syncPeriod_def bulkSet_def)
qed

text \<open>On a Monday's rebuild only the predictions settled since midnight count: without one, last week's board stays.\<close>

lemma weekly_reset_keeps_old:
  assumes "\<And>c t. c \<in> set rows \<Longrightarrow> pd_settledAt c = Some t \<Longrightarrow> t < last_monday now"
  shows "syncWeekly now rows b = b"
proof -
  have "settled_since (Some (last_monday now)) rows = []"
    using assms by (fastforce simp: settled_since_def filter_empty_conv split: option.splits)
  then show ?thesis
    unfolding syncWeekly_def by (rule sync_empty)
qed

lemma rebuild_exact_or_stale_witness:
  "row_get (syncPeriod Weekly None [\<lparr>pd_userId = ''a'', pd_status = Settled, pd_outcome = Some Won, pd_profitUsdc = 2,
      pd_stakeUsdc = 1, pd_settledAt = Some 7\<rparr>] (\<lambda>_. [(''z'', 4)]) Weekly) ''z'' = None"
  using rebuild_exact_or_stale [of Weekly None "[\<lparr>pd_userId = ''a'', pd_status = Settled, pd_outcome = Some Won, pd_profitUsdc = 2,
      pd_stakeUsdc = 1, pd_settledAt = Some 7\<rparr>]" "\<lambda>_. [(''z'', 4)]" Weekly "''z''", THEN conjunct2]
  by (simp add: settled_since_def)




subsection \<open>Without Redis\<close>

text \<open>The rank the database gives the neighbours above a user who is among the first six starts at two: the nearest has the
  user's own rank. The total is that of the first group.\<close>

lemma db_context_rank_off:
  assumes "getContextualRankFromDb period address now rows = Inr (u, up, dn)" "up \<noteq> []" "rd_rank u \<le> 6"
  shows "rd_rank (last up) = rd_rank u"
proof -
  let ?us = "by_profit period now rows"
  obtain k where k: "index_where (\<lambda>u. ut_userId u = address) ?us = Some k" "u = to_entry (?us ! k) (k + 1)"
    "up = map (\<lambda>(i, u). to_entry u (nat (max 1 (int k - 5)) + i + 1)) (enumerate 0 (window (k - 5) (k - (k - 5)) ?us))"
    using assms(1) by (auto simp: getContextualRankFromDb_def Let_def split: option.splits)
  have index: "index_where P xs = Some r \<Longrightarrow> r < length xs" for P :: "user_totals \<Rightarrow> bool" and xs r
    by (induction xs arbitrary: r) (auto split: if_splits)
  have k5: "k \<le> 5" using assms(3) k(2) by (simp add: to_entry_def)
  have l: "length up = k" using k(3) k5 index [OF k(1)] by (simp add: window_def)
  have "0 < k" using l assms(2) by (cases k) auto
  have "last up = up ! (k - 1)" using l assms(2) by (simp add: last_conv_nth)
  moreover have "rd_rank (up ! (k - 1)) = k + 1"
    using l k(3) k5 \<open>0 < k\<close> by (simp add: nth_enumerate_eq to_entry_def max_def case_prod_beta)
  ultimately show ?thesis using k(2) by (simp add: to_entry_def)
qed

lemma db_total_one: "pb_total (getPeriodLeaderboardFromDb period page limit now rows) \<le> 1"
  by (auto simp: getPeriodLeaderboardFromDb_def Let_def split: list.split)

end
