(* ===== verification/Rows.thy ===== *)
theory Rows
  imports Prelude
begin

text \<open>
  Tables as lists of rows with a unique key: reading a row by its key, and \<open>save\<close> of a row that was read before, which
  takes the place of the row with its key.
\<close>

definition save_by :: "('r \<Rightarrow> 'k) \<Rightarrow> 'r \<Rightarrow> 'r list \<Rightarrow> 'r list" where
  "save_by key r rs = map (\<lambda>x. if key x = key r then r else x) rs"

definition find_by :: "('r \<Rightarrow> 'k) \<Rightarrow> 'k \<Rightarrow> 'r list \<Rightarrow> 'r option" where
  "find_by key k rs = find (\<lambda>x. key x = k) rs"

lemma find_by_Some: "distinct (map key rs) \<Longrightarrow> find_by key k rs = Some r \<longleftrightarrow> r \<in> set rs \<and> key r = k"
  unfolding find_by_def by (induction rs) (auto simp: image_iff)

lemma find_by_in: "find_by key k rs = Some r \<Longrightarrow> r \<in> set rs \<and> key r = k"
  unfolding find_by_def by (rule find_Some_set)

lemma find_by_None: "find_by key k rs = None \<longleftrightarrow> k \<notin> key ` set rs"
  by (auto simp: find_by_def find_None_iff)

lemma same_key: "distinct (map key rs) \<Longrightarrow> r \<in> set rs \<Longrightarrow> x \<in> set rs \<Longrightarrow> key x = key r \<Longrightarrow> x = r"
  by (auto simp: distinct_map dest: inj_onD)

lemma save_by_keys [simp]: "map key (save_by key r rs) = map key rs"
  by (auto simp: save_by_def)

text \<open>Another column keeps its values if the row keeps its value there.\<close>

lemma save_by_column:
  assumes "distinct (map key rs)" "r \<in> set rs" "key r' = key r" "col r' = col r"
  shows "map col (save_by key r' rs) = map col rs"
  using same_key [OF assms(1,2)] assms(3,4) by (auto simp: save_by_def)

lemma save_by_set:
  assumes "distinct (map key rs)" "r \<in> set rs" "key r' = key r"
  shows "set (save_by key r' rs) = insert r' (set rs - {r})"
  using same_key [OF assms(1,2)] assms(2,3) by (auto simp: save_by_def)

lemma save_by_absent: "key r \<notin> key ` set rs \<Longrightarrow> save_by key r rs = rs"
  unfolding save_by_def by (rule map_idI) (simp, metis imageI)

lemma find_after_save:
  assumes "distinct (map key rs)" "find_by key k rs = Some r" "key r' = k"
  shows "find_by key j (save_by key r' rs) = (if j = k then Some r' else find_by key j rs)"
  using assms
proof (induction rs)
  case (Cons x rs)
  show ?case
  proof (cases "key x = k")
    case True
    then have "save_by key r' rs = rs" using Cons.prems by (intro save_by_absent) auto
    then show ?thesis using True Cons.prems by (simp add: find_by_def save_by_def)
  next
    case False
    then show ?thesis using Cons by (auto simp: find_by_def save_by_def)
  qed
qed (simp add: find_by_def)

lemma length_save_by [simp]: "length (save_by key r rs) = length rs"
  by (simp add: save_by_def)

end
