(* ===== verification/Tokens.thy ===== *)
theory Tokens
  imports JsArith Rows Store "HOL-Library.List_Lexorder"
begin

text \<open>
  \<^verbatim>\<open>packages/backend/src/token\<close>: the table of tokens and its whitelist, the cached and rationed requests to
  DexScreener, and the history of prices. The replies of DexScreener and of Horizon are arguments; an operation is one
  step, with the times at which it starts, its request leaves and its reply comes.
\<close>

subsection \<open>Tokens\<close>

record token =
  tk_id :: string
  tk_assetCode :: string
  tk_assetIssuer :: "string option"
  tk_decimals :: int
  tk_logoUrl :: "string option"
  tk_isActive :: bool
  tk_isWhitelisted :: bool
  tk_addedBy :: "string option"
  tk_addedAt :: "int option"

datatype token_exn = TokenBadRequest string | TokenNotFound string

definition WHITELISTED_TOKENS :: "(string \<times> string option \<times> int \<times> string) list" where
  "WHITELISTED_TOKENS =
     [(''XLM'', None, 7, ''https://stellar.expert/img/assets/XLM.svg''),
      (''USDC'', Some ''GA5ZSEJYB37JRC5AVCIA5MOP4RHTM335X2KGX3IHOJAPP5RE34K4KZVN'', 7,
       ''https://stellar.expert/img/assets/USDC-GA5ZSEJYB37JRC5AVCIA5MOP4RHTM335X2KGX3IHOJAPP5RE34K4KZVN.svg''),
      (''yXLM'', Some ''GARDNV3Q7YGT4AKSDF25LT32YSCCW4EV22Y2TV3I2PU2MMXJTEDL5T55'', 7,
       ''https://stellar.expert/img/assets/yXLM-GARDNV3Q7YGT4AKSDF25LT32YSCCW4EV22Y2TV3I2PU2MMXJTEDL5T55.svg'')]"

definition findAllActive :: "token list \<Rightarrow> token list" where
  "findAllActive ts = sort_key tk_assetCode (filter tk_isActive ts)"

definition findWhitelisted :: "token list \<Rightarrow> token list" where
  "findWhitelisted ts = sort_key tk_assetCode (filter (\<lambda>t. tk_isWhitelisted t \<and> tk_isActive t) ts)"

definition find_token :: "string \<Rightarrow> token list \<Rightarrow> token option" where
  "find_token i ts = find_by tk_id i ts"

definition asset :: "token \<Rightarrow> string \<times> string option" where
  "asset t = (tk_assetCode t, tk_assetIssuer t)"

definition findByAsset :: "string \<Rightarrow> string option \<Rightarrow> token list \<Rightarrow> token option" where
  "findByAsset assetCode assetIssuer ts = find_by asset (assetCode, assetIssuer) ts"

text \<open>\<open>save\<close> of a row read before.\<close>

definition save_token :: "token \<Rightarrow> token list \<Rightarrow> token list" where
  "save_token t ts = save_by tk_id t ts"

definition tokens_getAll :: "bool \<Rightarrow> token list \<Rightarrow> token list" where
  "tokens_getAll whitelistedOnly ts = (if whitelistedOnly then findWhitelisted ts else findAllActive ts)"

record whitelist_dto =
  wt_assetCode :: string
  wt_assetIssuer :: "string option"
  wt_decimals :: "int option"
  wt_logoUrl :: "string option"

text \<open>The reply to \<open>GET /assets\<close>: the number of records, or the message of the failure.\<close>

definition validateAssetOnHorizon :: "(string \<Rightarrow> string \<Rightarrow> string option + nat) \<Rightarrow> string \<Rightarrow> string \<Rightarrow> token_exn option" where
  "validateAssetOnHorizon assets assetCode issuer = (case assets assetCode issuer of
      Inl m \<Rightarrow> Some (TokenBadRequest (''Failed to validate asset on Stellar network: '' @ nullish m ''unknown error''))
    | Inr n \<Rightarrow> if n = 0 then Some (TokenBadRequest (''Asset '' @ assetCode @ '':'' @ issuer @ '' does not exist on the Stellar network''))
               else None)"

text \<open>\<open>dto.assetIssuer?.trim() || null\<close>, and a text that is only kept when it is not empty.\<close>

definition non_empty :: "string option \<Rightarrow> string option" where
  "non_empty x = (case x of Some s \<Rightarrow> if s = [] then None else Some s | None \<Rightarrow> None)"

definition whitelistToken ::
  "(string \<Rightarrow> string \<Rightarrow> string option + nat) \<Rightarrow> string \<Rightarrow> int \<Rightarrow> whitelist_dto \<Rightarrow> string \<Rightarrow> token list \<Rightarrow> token list \<times> (token_exn + token)" where
  "whitelistToken assets newId now dto adminAddress ts =
     (let assetCode = to_upper (wt_assetCode dto);
          assetIssuer = non_empty (map_option js_trim (wt_assetIssuer dto));
          existing = findByAsset assetCode assetIssuer ts;
          decimals = nullish (wt_decimals dto) 7
      in case existing of
           Some t \<Rightarrow>
             if tk_isWhitelisted t
             then (ts, Inl (TokenBadRequest (''Token '' @ assetCode
                @ (case assetIssuer of Some i \<Rightarrow> '':'' @ i | None \<Rightarrow> []) @ '' is already whitelisted'')))
             else (case Option.bind assetIssuer (validateAssetOnHorizon assets assetCode) of
                Some e \<Rightarrow> (ts, Inl e)
              | None \<Rightarrow>
                  (let t' = t\<lparr>tk_isWhitelisted := True, tk_addedBy := Some adminAddress, tk_addedAt := Some now,
                        tk_decimals := decimals,
                        tk_logoUrl := (case non_empty (wt_logoUrl dto) of Some u \<Rightarrow> Some u | None \<Rightarrow> tk_logoUrl t),
                        tk_isActive := True\<rparr>
                   in (save_token t' ts, Inr t')))
         | None \<Rightarrow>
             (case Option.bind assetIssuer (validateAssetOnHorizon assets assetCode) of
                Some e \<Rightarrow> (ts, Inl e)
              | None \<Rightarrow>
                  (let t' = \<lparr>tk_id = newId, tk_assetCode = assetCode, tk_assetIssuer = assetIssuer, tk_decimals = decimals,
                        tk_logoUrl = wt_logoUrl dto, tk_isActive = True, tk_isWhitelisted = True,
                        tk_addedBy = Some adminAddress, tk_addedAt = Some now\<rparr>
                   in (ts @ [t'], Inr t'))))"

definition removeWhitelistedToken :: "string \<Rightarrow> token list \<Rightarrow> token list \<times> (token_exn + unit)" where
  "removeWhitelistedToken i ts = (case find_token i ts of
      None \<Rightarrow> (ts, Inl (TokenNotFound (''Token with id '' @ i @ '' not found'')))
    | Some t \<Rightarrow>
        if tk_isWhitelisted t then (save_token (t\<lparr>tk_isWhitelisted := False\<rparr>) ts, Inr ())
        else (ts, Inl (TokenBadRequest (''Token '' @ i @ '' is not whitelisted''))))"

definition sync_token :: "(string \<Rightarrow> string) \<Rightarrow> string \<times> string option \<times> int \<times> string \<Rightarrow> token list \<Rightarrow> token list" where
  "sync_token newId d ts = (case d of (assetCode, assetIssuer, decimals, logoUrl) \<Rightarrow>
     (case findByAsset assetCode assetIssuer ts of
        Some t \<Rightarrow> save_token (t\<lparr>tk_logoUrl := Some logoUrl, tk_decimals := decimals, tk_isActive := True\<rparr>) ts
      | None \<Rightarrow> ts @ [\<lparr>tk_id = newId assetCode, tk_assetCode = assetCode, tk_assetIssuer = assetIssuer, tk_decimals = decimals,
            tk_logoUrl = Some logoUrl, tk_isActive = True, tk_isWhitelisted = False, tk_addedBy = None, tk_addedAt = None\<rparr>]))"

definition syncWhitelist :: "(string \<Rightarrow> string) \<Rightarrow> token list \<Rightarrow> token list" where
  "syncWhitelist newId ts = foldl (\<lambda>ts d. sync_token newId d ts) ts WHITELISTED_TOKENS"

subsection \<open>DexScreener\<close>

record dex_item =
  dx_pairAddress :: string
  dx_baseSymbol :: string
  dx_quoteSymbol :: string
  dx_priceUsd :: jsnum
  dx_liquidityUsd :: jsnum
  dx_dexId :: string
  dx_url :: string

record dex_search =
  dr_query :: string
  dr_items :: "dex_item list"
  dr_cached :: bool

record dex_price =
  dp_pairAddress :: string
  dp_priceUsd :: jsnum
  dp_updatedAt :: int
  dp_cached :: bool

record dex_state =
  dx_stamps :: "int list"
  dx_searches :: "(string \<times> int \<times> dex_search) list"
  dx_prices :: "(string \<times> int \<times> dex_price) list"

text \<open>The body of a reply, or the status of a failed request.\<close>

datatype dex_reply = DexBody jval | DexFailed "nat option"

definition consumeQuota :: "int \<Rightarrow> int \<Rightarrow> int list \<Rightarrow> int list" where
  "consumeQuota now later stamps =
     (let kept = dropWhile (\<lambda>t. t < now - 60000) stamps
      in kept @ [if length kept \<ge> 10 then later else now])"

definition quota_wait :: "int \<Rightarrow> int list \<Rightarrow> int" where
  "quota_wait now stamps =
     (let kept = dropWhile (\<lambda>t. t < now - 60000) stamps
      in if length kept \<ge> 10 then max (hd kept + 60000 - now) 0 else 0)"

definition dex_pairs :: "jval \<Rightarrow> jval list" where
  "dex_pairs body = (case data_field body ''pairs'' of JArr ps \<Rightarrow> ps | _ \<Rightarrow> [])"

definition dex_item_of :: "(jval \<Rightarrow> string) \<Rightarrow> (jval \<Rightarrow> jsnum) \<Rightarrow> jval \<Rightarrow> dex_item" where
  "dex_item_of str numo pair =
     (let text = (\<lambda>v. str_of str (or_if_nullish v (JStr []))); num = (\<lambda>v. num_of numo (or_if_nullish v (JNum (Fin 0))))
      in \<lparr>dx_pairAddress = text (data_field pair ''pairAddress''),
          dx_baseSymbol = text (data_field (data_field pair ''baseToken'') ''symbol''),
          dx_quoteSymbol = text (data_field (data_field pair ''quoteToken'') ''symbol''),
          dx_priceUsd = num (data_field pair ''priceUsd''),
          dx_liquidityUsd = num (data_field (data_field pair ''liquidity'') ''usd''),
          dx_dexId = text (data_field pair ''dexId''),
          dx_url = text (data_field pair ''url'')\<rparr>)"

text \<open>\<open>status === 429 || !status\<close>\<close>

definition may_fall_back :: "nat option \<Rightarrow> bool" where
  "may_fall_back status = (status = Some 429 \<or> status = None \<or> status = Some 0)"

definition searchDexPairs ::
  "(jval \<Rightarrow> string) \<Rightarrow> (jval \<Rightarrow> jsnum) \<Rightarrow> (string \<Rightarrow> dex_reply) \<Rightarrow> int \<Rightarrow> int \<Rightarrow> int \<Rightarrow> string \<Rightarrow> dex_state \<Rightarrow> dex_state \<times> dex_search" where
  "searchDexPairs str numo dex now later fin query s =
     (let q = to_upper (js_trim query);
          cached = row_get (dx_searches s) q
      in if q = [] then (s, \<lparr>dr_query = [], dr_items = [], dr_cached = False\<rparr>)
         else case (case cached of Some (t, d) \<Rightarrow> if t > now then Some d else None | None \<Rightarrow> None) of
           Some d \<Rightarrow> (s, d\<lparr>dr_cached := True\<rparr>)
         | None \<Rightarrow>
             (let s' = s\<lparr>dx_stamps := consumeQuota now later (dx_stamps s)\<rparr>
              in case dex q of
                   DexBody body \<Rightarrow>
                     (let d = \<lparr>dr_query = q, dr_items = map (dex_item_of str numo) (dex_pairs body), dr_cached = False\<rparr>
                      in (s'\<lparr>dx_searches := map_set q (fin + 60000, d) (dx_searches s')\<rparr>, d))
                 | DexFailed status \<Rightarrow>
                     (s', case (if may_fall_back status then cached else None) of
                            Some (t, d) \<Rightarrow> d\<lparr>dr_cached := True\<rparr>
                          | None \<Rightarrow> \<lparr>dr_query = q, dr_items = [], dr_cached = False\<rparr>)))"

definition getPairPrice ::
  "(jval \<Rightarrow> jsnum) \<Rightarrow> (string \<Rightarrow> dex_reply) \<Rightarrow> int \<Rightarrow> int \<Rightarrow> int \<Rightarrow> string \<Rightarrow> dex_state \<Rightarrow> dex_state \<times> dex_price" where
  "getPairPrice numo dex now later fin pair s =
     (let pairId = js_trim pair;
          cached = row_get (dx_prices s) pairId
      in case (case cached of Some (t, d) \<Rightarrow> if t > now then Some d else None | None \<Rightarrow> None) of
           Some d \<Rightarrow> (s, d\<lparr>dp_cached := True\<rparr>)
         | None \<Rightarrow>
             (let s' = s\<lparr>dx_stamps := consumeQuota now later (dx_stamps s)\<rparr>
              in case dex pairId of
                   DexBody body \<Rightarrow>
                     (let firstPair = (case dex_pairs body of [] \<Rightarrow> JUndef | p # _ \<Rightarrow> p);
                          d = \<lparr>dp_pairAddress = pairId,
                               dp_priceUsd = num_of numo (or_if_nullish (data_field firstPair ''priceUsd'') (JNum (Fin 0))),
                               dp_updatedAt = fin, dp_cached = False\<rparr>
                      in (s'\<lparr>dx_prices := map_set pairId (fin + 15000, d) (dx_prices s')\<rparr>, d))
                 | DexFailed status \<Rightarrow>
                     (s', case (if may_fall_back status then cached else None) of
                            Some (t, d) \<Rightarrow> d\<lparr>dp_cached := True\<rparr>
                          | None \<Rightarrow> \<lparr>dp_pairAddress = pairId, dp_priceUsd = Fin 0, dp_updatedAt = fin, dp_cached = False\<rparr>)))"

subsection \<open>The history of prices\<close>

datatype price_period = OneHour | OneDay | SevenDays

definition PERIOD_MS :: "price_period \<Rightarrow> int" where
  "PERIOD_MS p = (case p of OneHour \<Rightarrow> 60 * 60 * 1000 | OneDay \<Rightarrow> 24 * 60 * 60 * 1000 | SevenDays \<Rightarrow> 7 * 24 * 60 * 60 * 1000)"

record price_row =
  ph_tokenPair :: string
  ph_timestamp :: int
  ph_price :: jsnum
  ph_source :: string

text \<open>\<open>if (!priceUsd) return\<close>: no price of 0 and no \<open>NaN\<close> is kept.\<close>

definition recordPrice ::
  "(jval \<Rightarrow> jsnum) \<Rightarrow> (string \<Rightarrow> dex_reply) \<Rightarrow> int \<Rightarrow> int \<Rightarrow> int \<Rightarrow> string \<Rightarrow> dex_state \<times> price_row list \<Rightarrow> dex_state \<times> price_row list" where
  "recordPrice numo dex now later fin tokenPair s =
     (case getPairPrice numo dex now later fin tokenPair (fst s) of
        (d, r) \<Rightarrow>
          if dp_priceUsd r = NaN \<or> dp_priceUsd r = Fin 0 then (d, snd s)
          else (d, snd s @ [\<lparr>ph_tokenPair = tokenPair, ph_timestamp = fin, ph_price = dp_priceUsd r, ph_source = ''dexscreener''\<rparr>]))"

definition getPriceHistory :: "int \<Rightarrow> string \<Rightarrow> price_period \<Rightarrow> price_row list \<Rightarrow> price_row list" where
  "getPriceHistory now tokenPair p rows =
     sort_key ph_timestamp (filter (\<lambda>r. ph_tokenPair r = tokenPair \<and> ph_timestamp r > now - PERIOD_MS p) rows)"

definition deleteOlderThan :: "int \<Rightarrow> int \<Rightarrow> price_row list \<Rightarrow> price_row list" where
  "deleteOlderThan now days rows = filter (\<lambda>r. \<not> ph_timestamp r < now - days * 24 * 60 * 60 * 1000) rows"

definition poll_pairs :: "token list \<Rightarrow> string list" where
  "poll_pairs ts = map (\<lambda>t. tk_assetCode t @ ''-'' @ nullish (tk_assetIssuer t) [])
     (filter (\<lambda>t. non_empty (tk_assetIssuer t) \<noteq> None) (findWhitelisted ts))"

text \<open>\<open>clock\<close> gives the three times of the request for each pair.\<close>

definition pollPrices ::
  "(jval \<Rightarrow> jsnum) \<Rightarrow> (string \<Rightarrow> dex_reply) \<Rightarrow> (string \<Rightarrow> int \<times> int \<times> int) \<Rightarrow> token list \<Rightarrow> dex_state \<times> price_row list \<Rightarrow> dex_state \<times> price_row list" where
  "pollPrices numo dex clock ts s =
     foldl (\<lambda>s pair. case clock pair of (now, later, fin) \<Rightarrow> recordPrice numo dex now later fin pair s) s (poll_pairs ts)"

definition price_cleanup :: "int \<Rightarrow> price_row list \<Rightarrow> price_row list" where
  "price_cleanup now rows = deleteOlderThan now 30 rows"

subsection \<open>The table\<close>

definition token_table_ok :: "token list \<Rightarrow> bool" where
  "token_table_ok ts \<longleftrightarrow> distinct (map tk_id ts) \<and> distinct (map asset ts)"

lemma findByAsset_Some: "token_table_ok ts \<Longrightarrow> findByAsset c i ts = Some t \<longleftrightarrow> t \<in> set ts \<and> asset t = (c, i)"
  by (simp add: findByAsset_def token_table_ok_def find_by_Some)

lemma save_keeps:
  "token_table_ok ts \<Longrightarrow> t \<in> set ts \<Longrightarrow> tk_id t' = tk_id t \<Longrightarrow> asset t' = asset t \<Longrightarrow> map asset (save_token t' ts) = map asset ts"
  by (simp add: token_table_ok_def save_token_def save_by_column)

lemma save_ok:
  assumes "token_table_ok ts" "t \<in> set ts" "tk_id t' = tk_id t" "asset t' = asset t"
  shows "token_table_ok (save_token t' ts)"
  using save_keeps [OF assms] assms(1) by (simp add: token_table_ok_def save_token_def)

lemma save_set:
  "distinct (map tk_id ts) \<Longrightarrow> t \<in> set ts \<Longrightarrow> tk_id t' = tk_id t \<Longrightarrow> set (save_token t' ts) = insert t' (set ts - {t})"
  by (simp add: save_token_def save_by_set)

lemma option_ext: "(\<And>u. x = Some u \<longleftrightarrow> y = Some u) \<Longrightarrow> x = y"
  by (cases x; cases y) auto

lemma find_save:
  assumes "token_table_ok ts" "t \<in> set ts" "tk_id t' = tk_id t" "asset t' = asset t"
  shows "findByAsset c i (save_token t' ts) = (if (c, i) = asset t then Some t' else findByAsset c i ts)"
proof (rule option_ext)
  fix u
  have inj: "w = t" if "w \<in> set ts" "asset w = asset t" for w
    using assms(1,2) that by (auto simp: token_table_ok_def distinct_map dest: inj_onD)
  have "set (save_token t' ts) = insert t' (set ts - {t})"
    using assms by (intro save_set) (simp_all add: token_table_ok_def)
  then have e: "findByAsset c i (save_token t' ts) = Some u \<longleftrightarrow> (u = t' \<or> u \<in> set ts \<and> u \<noteq> t) \<and> asset u = (c, i)"
    unfolding findByAsset_Some [OF save_ok [OF assms]] by simp
  show "findByAsset c i (save_token t' ts) = Some u \<longleftrightarrow> (if (c, i) = asset t then Some t' else findByAsset c i ts) = Some u"
  proof (cases "(c, i) = asset t")
    case True
    have "asset u = (c, i) \<and> u \<in> set ts \<and> u \<noteq> t \<longrightarrow> False" using inj [of u] unfolding True by blast
    moreover have "asset t' = (c, i)" using assms(4) unfolding True by simp
    ultimately show ?thesis unfolding e using True by auto
  next
    case False
    have "u = t' \<or> u = t \<longrightarrow> asset u \<noteq> (c, i)" using False assms(4) by auto
    then show ?thesis using False unfolding e if_not_P [OF False] findByAsset_Some [OF assms(1)] by blast
  qed
qed

lemma append_ok:
  "token_table_ok ts \<Longrightarrow> tk_id t \<notin> tk_id ` set ts \<Longrightarrow> findByAsset c i ts = None \<Longrightarrow> asset t = (c, i)
     \<Longrightarrow> token_table_ok (ts @ [t])"
  by (auto simp: token_table_ok_def findByAsset_def find_by_None)

lemma findByAsset_append: "findByAsset c i (ts @ [t]) = (case findByAsset c i ts of Some u \<Rightarrow> Some u | None \<Rightarrow> if asset t = (c, i) then Some t else None)"
  by (simp add: findByAsset_def find_by_def find_append split: option.split)

text \<open>Whitelisting an asset that is not whitelisted and that Horizon knows leaves exactly one row of the asset, active and
  whitelisted under the normalised code and issuer, and every other asset as it was; a refusal changes nothing.\<close>

theorem whitelist_one_row:
  assumes ok: "token_table_ok ts" and new: "newId \<notin> tk_id ` set ts"
    and run: "whitelistToken assets newId now dto admin ts = (ts', r)"
  shows "token_table_ok ts' \<and> (case r of
      Inl e \<Rightarrow> ts' = ts
    | Inr t \<Rightarrow> asset t = (to_upper (wt_assetCode dto), non_empty (map_option js_trim (wt_assetIssuer dto)))
        \<and> tk_isWhitelisted t \<and> tk_isActive t \<and> tk_addedBy t = Some admin
        \<and> (\<forall>c i. findByAsset c i ts' = (if (c, i) = asset t then Some t else findByAsset c i ts)))"
proof -
  define c where "c = to_upper (wt_assetCode dto)"
  define i where "i = non_empty (map_option js_trim (wt_assetIssuer dto))"
  note defs = whitelistToken_def Let_def c_def [symmetric] i_def [symmetric]
  show ?thesis
  proof (cases "findByAsset c i ts")
    case None
    then show ?thesis
      using ok new run append_ok [OF ok _ None]
      by (auto simp: defs asset_def findByAsset_append split: option.splits)
  next
    case (Some t)
    then have t: "t \<in> set ts" "asset t = (c, i)" by (simp_all add: findByAsset_Some [OF ok])
    show ?thesis
    proof (cases r)
      case (Inl e)
      then show ?thesis using ok run Some by (auto simp: defs split: option.splits if_splits)
    next
      case (Inr t')
      have t': "tk_id t' = tk_id t" "asset t' = asset t" "tk_isWhitelisted t'" "tk_isActive t'" "tk_addedBy t' = Some admin"
        "ts' = save_token t' ts"
        using run Some Inr by (auto simp: defs asset_def split: option.splits if_splits)
      show ?thesis
        using save_ok [OF ok t(1) t'(1,2)] find_save [OF ok t(1) t'(1,2)] t t' Inr
        by (simp flip: c_def i_def)
    qed
  qed
qed

lemma whitelist_one_row_witness:
  "token_table_ok [] \<and> (case whitelistToken (\<lambda>_ _. Inr 1) ''n'' 5 \<lparr>wt_assetCode = ''usd'', wt_assetIssuer = Some '' G '',
      wt_decimals = None, wt_logoUrl = None\<rparr> ''adm'' [] of (ts', r) \<Rightarrow> token_table_ok ts')"
  using whitelist_one_row [of "[]" "''n''" "\<lambda>_ _. Inr 1" 5 "\<lparr>wt_assetCode = ''usd'', wt_assetIssuer = Some '' G '',
      wt_decimals = None, wt_logoUrl = None\<rparr>" "''adm''"]
  by (auto simp: token_table_ok_def split: prod.splits)

lemma remove_keeps_rows:
  assumes "token_table_ok ts" "removeWhitelistedToken k ts = (ts', Inr u)"
  shows "token_table_ok ts' \<and> map asset ts' = map asset ts \<and> (\<forall>t \<in> set ts'. tk_id t = k \<longrightarrow> \<not> tk_isWhitelisted t)"
proof -
  obtain t where t: "find_token k ts = Some t" "ts' = save_token (t\<lparr>tk_isWhitelisted := False\<rparr>) ts"
    using assms(2) by (auto simp: removeWhitelistedToken_def split: option.splits if_splits)
  then have m: "t \<in> set ts" "tk_id t = k" by (auto simp: find_token_def dest: find_by_in)
  show ?thesis
    using save_ok [OF assms(1) m(1)] save_keeps [OF assms(1) m(1)] m(2) unfolding t(2)
    by (auto simp: asset_def save_token_def save_by_def)
qed

text \<open>The sync makes each listed asset active with the listed decimals and logo, but whitelists none: a new token is not, and
  a known one stays as it is. What an administrator chose as decimals is overwritten.\<close>

lemma sync_token_find:
  assumes "token_table_ok ts" "\<forall>t \<in> set ts. tk_id t \<noteq> newId a"
  shows "findByAsset c i (sync_token newId (a, b, d, l) ts) =
     (if (c, i) \<noteq> (a, b) then findByAsset c i ts
      else Some (case findByAsset a b ts of
          Some t \<Rightarrow> t\<lparr>tk_logoUrl := Some l, tk_decimals := d, tk_isActive := True\<rparr>
        | None \<Rightarrow> \<lparr>tk_id = newId a, tk_assetCode = a, tk_assetIssuer = b, tk_decimals = d, tk_logoUrl = Some l,
            tk_isActive = True, tk_isWhitelisted = False, tk_addedBy = None, tk_addedAt = None\<rparr>))"
proof (cases "findByAsset a b ts")
  case None
  then show ?thesis by (auto simp: sync_token_def findByAsset_append asset_def split: option.split)
next
  case (Some t)
  then have t: "t \<in> set ts" "asset t = (a, b)" by (simp_all add: findByAsset_Some [OF assms(1)])
  show ?thesis
    using find_save [OF assms(1) t(1), of "t\<lparr>tk_logoUrl := Some l, tk_decimals := d, tk_isActive := True\<rparr>" c i] Some t(2)
    by (simp add: sync_token_def asset_def)
qed

lemma sync_token_ok:
  assumes "token_table_ok ts" "\<forall>t \<in> set ts. tk_id t \<noteq> newId a"
  shows "token_table_ok (sync_token newId (a, b, d, l) ts)"
proof (cases "findByAsset a b ts")
  case None
  have "newId a \<notin> tk_id ` set ts" using assms(2) by auto
  then show ?thesis using append_ok [OF assms(1) _ None] None by (simp add: sync_token_def asset_def)
next
  case (Some t)
  then have t: "t \<in> set ts" by (simp_all add: findByAsset_Some [OF assms(1)])
  show ?thesis using save_ok [OF assms(1) t] Some by (simp add: sync_token_def asset_def)
qed

lemma sync_never_whitelists:
  "filter tk_isWhitelisted (sync_token newId d ts) = [] \<longleftrightarrow> filter tk_isWhitelisted ts = []" if "distinct (map tk_id ts)"
proof -
  obtain a b dec l where d: "d = (a, b, dec, l)" by (metis prod.exhaust)
  show ?thesis
  proof (cases "findByAsset a b ts")
    case (Some t)
    then have t: "t \<in> set ts" unfolding findByAsset_def by (auto dest: find_by_in)
    have "set (sync_token newId d ts) = insert (t\<lparr>tk_logoUrl := Some l, tk_decimals := dec, tk_isActive := True\<rparr>) (set ts - {t})"
      using Some save_set [OF that t] by (simp add: d sync_token_def)
    then show ?thesis using t by (auto simp: filter_empty_conv)
  qed (simp add: d sync_token_def)
qed

subsection \<open>Caches and quota\<close>

text \<open>The price of a pair is answered in every case: from the cache while it is fresh, without a request; else from the
  reply, which is then cached for 15 seconds; and after a failure from the last cached price if the source was busy or
  unreachable, and as 0 otherwise.\<close>

theorem pair_price_always_answers:
  fixes s :: dex_state and pair :: string
  defines "k \<equiv> js_trim pair"
  shows "(\<forall>t d. row_get (dx_prices s) k = Some (t, d) \<and> now < t \<longrightarrow>
      getPairPrice numo dex now later fin pair s = (s, d\<lparr>dp_cached := True\<rparr>))
    \<and> ((\<forall>t d. row_get (dx_prices s) k = Some (t, d) \<longrightarrow> t \<le> now) \<longrightarrow>
       (case dex k of
          DexBody body \<Rightarrow> \<exists>s' d. getPairPrice numo dex now later fin pair s = (s', d) \<and> \<not> dp_cached d
            \<and> (\<forall>n l f. n < fin + 15000 \<longrightarrow> getPairPrice numo dex n l f pair s' = (s', d\<lparr>dp_cached := True\<rparr>))
        | DexFailed status \<Rightarrow> dx_prices (fst (getPairPrice numo dex now later fin pair s)) = dx_prices s
            \<and> dp_priceUsd (snd (getPairPrice numo dex now later fin pair s))
               = (case row_get (dx_prices s) k of
                    Some (t, d) \<Rightarrow> if may_fall_back status then dp_priceUsd d else Fin 0
                  | None \<Rightarrow> Fin 0)))"
proof (intro conjI allI impI)
  show "getPairPrice numo dex now later fin pair s = (s, d\<lparr>dp_cached := True\<rparr>)"
    if "row_get (dx_prices s) k = Some (t, d) \<and> now < t" for t d
    using that by (simp add: getPairPrice_def Let_def k_def)
next
  assume stale: "\<forall>t d. row_get (dx_prices s) k = Some (t, d) \<longrightarrow> t \<le> now"
  then have none: "(case row_get (dx_prices s) k of Some (t, d) \<Rightarrow> if t > now then Some d else None | None \<Rightarrow> None) = None"
    by (auto split: option.split)
  show "case dex k of
          DexBody body \<Rightarrow> \<exists>s' d. getPairPrice numo dex now later fin pair s = (s', d) \<and> \<not> dp_cached d
            \<and> (\<forall>n l f. n < fin + 15000 \<longrightarrow> getPairPrice numo dex n l f pair s' = (s', d\<lparr>dp_cached := True\<rparr>))
        | DexFailed status \<Rightarrow> dx_prices (fst (getPairPrice numo dex now later fin pair s)) = dx_prices s
            \<and> dp_priceUsd (snd (getPairPrice numo dex now later fin pair s))
               = (case row_get (dx_prices s) k of
                    Some (t, d) \<Rightarrow> if may_fall_back status then dp_priceUsd d else Fin 0
                  | None \<Rightarrow> Fin 0)"
  proof (cases "dex k")
    case (DexBody body)
    then show ?thesis
      unfolding getPairPrice_def Let_def k_def [symmetric] none
      by (auto simp: row_get_def)
  next
    case (DexFailed status)
    then show ?thesis
      unfolding getPairPrice_def Let_def k_def [symmetric] none
      by (auto split: option.split)
  qed
qed

lemma pair_price_always_answers_witness:
  "let s = \<lparr>dx_stamps = [], dx_searches = [], dx_prices = [(''p'', (5, \<lparr>dp_pairAddress = ''p'', dp_priceUsd = Fin 2, dp_updatedAt = 0, dp_cached = False\<rparr>))]\<rparr>
   in dp_priceUsd (snd (getPairPrice (\<lambda>_. NaN) (\<lambda>_. DexFailed (Some 429)) 9 9 9 ''p'' s)) = Fin 2"
  using pair_price_always_answers [where s = "\<lparr>dx_stamps = [], dx_searches = [],
      dx_prices = [(''p'', (5, \<lparr>dp_pairAddress = ''p'', dp_priceUsd = Fin 2, dp_updatedAt = 0, dp_cached = False\<rparr>))]\<rparr>"
      and pair = "''p''" and now = 9 and numo = "\<lambda>_. NaN" and dex = "\<lambda>_. DexFailed (Some 429)"
      and later = 9 and fin = 9, THEN conjunct2]
  by (simp add: row_get_def js_trim_def is_space_def JsString.code_def may_fall_back_def)

text \<open>The ration is exceeded: after ten requests two more wait for the oldest alone and then leave at once, in the same minute.\<close>

lemma quota_exceeded:
  "let s10 = [0, 1, 2, 3, 4, 5, 6, 7, 8, 9]; s11 = consumeQuota 10 60000 s10; s12 = consumeQuota 60000 60000 s11
   in quota_wait 10 s10 = 59990 \<and> quota_wait 60000 s11 = 0 \<and> length (filter (\<lambda>t. 0 < t \<and> t \<le> 60000) s12) = 11"
  by code_simp

text \<open>A history is what was recorded in its period, in order; the clean-up takes nothing from a period of up to 30 days.\<close>

lemma cleanup_keeps_history: "getPriceHistory now pair p (price_cleanup now rows) = getPriceHistory now pair p rows"
proof -
  have "PERIOD_MS p \<le> 30 * 24 * 60 * 60 * 1000" by (cases p) (simp_all add: PERIOD_MS_def)
  then show ?thesis
    unfolding getPriceHistory_def price_cleanup_def deleteOlderThan_def filter_filter
    by (intro arg_cong [where f = "sort_key ph_timestamp"] filter_cong) auto
qed

text \<open>A price that could not be read is never recorded.\<close>

lemma record_skips_zero:
  "recordPrice numo dex now later fin pair s = (d, rows) \<Longrightarrow> \<forall>r \<in> set rows - set (snd s). ph_price r \<noteq> Fin 0 \<and> ph_price r \<noteq> NaN"
  by (auto simp: recordPrice_def split: prod.splits if_splits)

end
