(* ===== verification/UserRows.thy ===== *)
theory UserRows
  imports Rows Store
begin

text \<open>
  The rows of \<^verbatim>\<open>packages/backend/src/user/entities\<close>: users with their badges and streaks, badges, and who follows whom.
  The table between users and badges is the list of badge ids in a user's row.
\<close>

datatype badge_type = EARLY_ADOPTER | WHALE | HIGH_ACCURACY | STREAK_THREE | STREAK_FIVE | STREAK_TEN

record badge =
  bg_id :: string
  bg_type :: badge_type
  bg_name :: string
  bg_description :: string

record user_row =
  ur_id :: string
  ur_walletAddress :: string
  ur_email :: "string option"
  ur_referralCode :: "string option"
  ur_displayName :: "string option"
  ur_bio :: "string option"
  ur_avatarCid :: "string option"
  ur_referredBy :: "string option"
  ur_badges :: "string list"
  ur_currentWinStreak :: nat
  ur_bestWinStreak :: nat
  ur_banned :: bool
  ur_createdAt :: int
  ur_updatedAt :: int

record follow_row =
  fl_follower :: string
  fl_following :: string
  fl_createdAt :: int

text \<open>\<open>findOne\<close> and \<open>save\<close> of a row read before.\<close>

definition user_by_wallet :: "string \<Rightarrow> user_row list \<Rightarrow> user_row option" where
  "user_by_wallet w us = find_by ur_walletAddress w us"

definition save_user :: "user_row \<Rightarrow> user_row list \<Rightarrow> user_row list" where
  "save_user u us = save_by ur_id u us"

text \<open>Ids and wallet addresses are unique.\<close>

definition users_ok :: "user_row list \<Rightarrow> bool" where
  "users_ok us \<longleftrightarrow> distinct (map ur_id us) \<and> distinct (map ur_walletAddress us)"

lemma user_by_wallet_Some: "users_ok us \<Longrightarrow> user_by_wallet w us = Some u \<longleftrightarrow> u \<in> set us \<and> ur_walletAddress u = w"
  by (simp add: user_by_wallet_def users_ok_def find_by_Some)

lemma user_by_wallet_None: "user_by_wallet w us = None \<longleftrightarrow> w \<notin> ur_walletAddress ` set us"
  by (simp add: user_by_wallet_def find_by_None)

lemma save_user_ok:
  "users_ok us \<Longrightarrow> u \<in> set us \<Longrightarrow> ur_id v = ur_id u \<Longrightarrow> ur_walletAddress v = ur_walletAddress u \<Longrightarrow> users_ok (save_user v us)"
  by (simp add: users_ok_def save_user_def save_by_column)

lemma save_user_set:
  "users_ok us \<Longrightarrow> u \<in> set us \<Longrightarrow> ur_id v = ur_id u \<Longrightarrow> set (save_user v us) = insert v (set us - {u})"
  by (simp add: users_ok_def save_user_def save_by_set)

lemma user_after_save:
  assumes "users_ok us" "user_by_wallet w us = Some u" "ur_id v = ur_id u" "ur_walletAddress v = ur_walletAddress u"
  shows "user_by_wallet w' (save_user v us) = (if w' = w then Some v else user_by_wallet w' us)"
proof -
  have u: "u \<in> set us" "ur_walletAddress u = w" using assms(2) by (simp_all add: user_by_wallet_Some [OF assms(1)])
  note ok = save_user_ok [OF assms(1) u(1) assms(3,4)]
  have inj: "x = u" if "x \<in> set us" "ur_walletAddress x = w" for x
    using assms(1) u that by (auto simp: users_ok_def distinct_map dest: inj_onD)
  show ?thesis
  proof (cases "w' = w")
    case True
    have "v \<in> set (save_user v us)" using save_user_set [OF assms(1) u(1) assms(3)] by simp
    then show ?thesis using True u(2) assms(4) by (simp add: user_by_wallet_Some [OF ok])
  next
    case False
    have "user_by_wallet w' (save_user v us) = Some x \<longleftrightarrow> user_by_wallet w' us = Some x" for x
      unfolding user_by_wallet_Some [OF ok] user_by_wallet_Some [OF assms(1)] save_user_set [OF assms(1) u(1) assms(3)]
      using False u(2) assms(4) by auto
    then show ?thesis using False by (cases "user_by_wallet w' us") (auto intro: option.expand)
  qed
qed

end
