(* ===== verification/Analytics.thy ===== *)
theory Analytics
  imports Dates Entities OracleHealth Tokens UserRows
begin

text \<open>
  \<^verbatim>\<open>packages/backend/src/analytics/analytics.service.ts\<close>: the ledger, charts, totals and reputation of a user computed from
  the tables of calls and stakes, the value locked, the statistics of the platform with their cache, and the streaks.
  A query is its meaning on the rows, a date text the number of its day, a decimal a rational; rows equal in a query's
  order stay in the order of the table.
\<close>

subsection \<open>Rows\<close>

datatype binary_outcome = OutYes | OutNo | OutPending

record acall =
  ac_id :: string
  ac_creatorAddress :: string
  ac_title :: string
  ac_description :: string
  ac_outcome :: binary_outcome
  ac_resolvedAt :: "int option"
  ac_expiresAt :: "int option"
  ac_createdAt :: int
  ac_contractAddress :: "string option"
  ac_totalYesStake :: rat
  ac_totalNoStake :: rat
  ac_stakeToken :: "string option"
  ac_status :: "string option"

record astake =
  as_id :: string
  as_callId :: string
  as_userAddress :: string
  as_amount :: rat
  as_position :: position
  as_profitLoss :: "rat option"
  as_transactionHash :: "string option"
  as_createdAt :: int
  as_updatedAt :: int

definition call_of :: "acall list \<Rightarrow> astake \<Rightarrow> acall option" where
  "call_of calls k = find (\<lambda>c. ac_id c = as_callId k) calls"

text \<open>\<open>Number(x.toFixed(d))\<close>\<close>

definition fixed :: "nat \<Rightarrow> rat \<Rightarrow> rat" where
  "fixed d q = (if q < 0 then -1 else 1) * of_int \<lfloor>\<bar>q\<bar> * 10 ^ d + 1 / 2\<rfloor> / 10 ^ d"

subsection \<open>The ledger\<close>

datatype resolution = Unresolved | Resolved

record ledger_call =
  lc_id :: string
  lc_title :: string
  lc_description :: string
  lc_outcome :: binary_outcome
  lc_resolvedAt :: "int option"
  lc_expiresAt :: "int option"
  lc_createdAt :: int
  lc_contractAddress :: "string option"
  lc_totalYesStake :: rat
  lc_totalNoStake :: rat

record ledger_item =
  li_id :: string
  li_callId :: string
  li_userAddress :: string
  li_amount :: rat
  li_position :: position
  li_profitLoss :: "rat option"
  li_transactionHash :: "string option"
  li_createdAt :: int
  li_updatedAt :: int
  li_resolutionStatus :: resolution
  li_call :: "ledger_call option"

record user_stakes =
  us_data :: "ledger_item list"
  us_total :: nat
  us_page :: nat
  us_limit :: nat

definition ledger_call_of :: "acall \<Rightarrow> ledger_call" where
  "ledger_call_of c = \<lparr>lc_id = ac_id c, lc_title = ac_title c, lc_description = ac_description c,
     lc_outcome = ac_outcome c, lc_resolvedAt = ac_resolvedAt c, lc_expiresAt = ac_expiresAt c,
     lc_createdAt = ac_createdAt c, lc_contractAddress = ac_contractAddress c,
     lc_totalYesStake = ac_totalYesStake c, lc_totalNoStake = ac_totalNoStake c\<rparr>"

definition ledger_item_of :: "acall list \<Rightarrow> astake \<Rightarrow> ledger_item" where
  "ledger_item_of calls k = (let call = call_of calls k in
     \<lparr>li_id = as_id k, li_callId = as_callId k, li_userAddress = as_userAddress k, li_amount = as_amount k,
      li_position = as_position k, li_profitLoss = as_profitLoss k, li_transactionHash = as_transactionHash k,
      li_createdAt = as_createdAt k, li_updatedAt = as_updatedAt k,
      li_resolutionStatus = (case call of Some c \<Rightarrow> if ac_outcome c \<noteq> OutPending then Resolved else Unresolved
        | None \<Rightarrow> Unresolved),
      li_call = map_option ledger_call_of call\<rparr>)"

definition stakes_by :: "string \<Rightarrow> astake list \<Rightarrow> astake list" where
  "stakes_by u stakes = filter (\<lambda>k. as_userAddress k = u) stakes"

definition getUserStakes :: "acall list \<Rightarrow> astake list \<Rightarrow> string \<Rightarrow> nat \<Rightarrow> nat \<Rightarrow> user_stakes" where
  "getUserStakes calls stakes userAddress page limit =
     (let mine = sort_key (\<lambda>k. - as_createdAt k) (stakes_by userAddress stakes)
      in \<lparr>us_data = map (ledger_item_of calls) (window ((page - 1) * limit) limit mine),
          us_total = length mine, us_page = page, us_limit = limit\<rparr>)"

subsection \<open>Charts\<close>

datatype date_range = SevenDays | ThirtyDays | AllDays

definition getDateRange :: "date_range \<Rightarrow> int \<Rightarrow> int \<times> int" where
  "getDateRange r now = (case r of
      SevenDays \<Rightarrow> (now - 7 * ms_per_day, now)
    | ThirtyDays \<Rightarrow> (now - 30 * ms_per_day, now)
    | AllDays \<Rightarrow> (0, now))"

type_synonym points = "(int \<times> rat) list"

text \<open>The step of the loop in days: it ends as the date grows by a day or a week.\<close>

function fill_from :: "(int \<Rightarrow> rat option) \<Rightarrow> bool \<Rightarrow> nat \<Rightarrow> int \<Rightarrow> int \<Rightarrow> rat \<Rightarrow> points" where
  "fill_from existing maintain k currentDate endDate lastValue =
     (if currentDate \<le> endDate then
        (let d = day_of currentDate; nxt = currentDate + int (Suc k) * ms_per_day in
         case existing d of
           Some v \<Rightarrow> (d, v) # fill_from existing maintain k nxt endDate v
         | None \<Rightarrow> (if maintain then [(d, lastValue)] else []) @ fill_from existing maintain k nxt endDate lastValue)
      else [])"
  by pat_completeness auto
termination
  by (relation "measure (\<lambda>(_, _, _, currentDate, endDate, _). nat (endDate + 1 - currentDate))") (auto simp: ms_per_day_def)

declare fill_from.simps [simp del]

definition fillMissingDates :: "points \<Rightarrow> int \<Rightarrow> int \<Rightarrow> nat \<Rightarrow> bool \<Rightarrow> points" where
  "fillMissingDates dataPoints startDate endDate k maintainLastValue =
     (if dataPoints = [] then [] else fill_from (map_of (rev dataPoints)) maintainLastValue k startDate endDate 0)"

definition in_range :: "int \<Rightarrow> int \<Rightarrow> int \<Rightarrow> bool" where
  "in_range a b t \<longleftrightarrow> a \<le> t \<and> t \<le> b"

definition profit :: "astake \<Rightarrow> rat" where
  "profit k = nullish (as_profitLoss k) 0"

text \<open>\<open>GROUP BY DATE_TRUNC\<close> in the order of the dates.\<close>

definition profit_rows :: "(int \<Rightarrow> int) \<Rightarrow> astake list \<Rightarrow> points" where
  "profit_rows trunc rows =
     map (\<lambda>d. (d, sum_list (map profit (filter (\<lambda>k. trunc (as_createdAt k) = d) rows))))
       (sort (remdups (map (\<lambda>k. trunc (as_createdAt k)) rows)))"

fun cumulate :: "rat \<Rightarrow> points \<Rightarrow> points" where
  "cumulate acc [] = []"
| "cumulate acc ((d, v) # ps) = (d, fixed 7 (acc + v)) # cumulate (acc + v) ps"

definition stakes_between :: "string \<Rightarrow> int \<Rightarrow> int \<Rightarrow> astake list \<Rightarrow> astake list" where
  "stakes_between u a b stakes = filter (\<lambda>k. in_range a b (as_createdAt k)) (stakes_by u stakes)"

definition week_of :: "int \<Rightarrow> int" where
  "week_of t = day_of (last_monday t)"

definition getCumulativeProfitPerDay :: "astake list \<Rightarrow> string \<Rightarrow> int \<Rightarrow> int \<Rightarrow> points" where
  "getCumulativeProfitPerDay stakes u a b =
     fillMissingDates (cumulate 0 (profit_rows day_of (stakes_between u a b stakes))) a b 0 True"

definition getCumulativeProfitPerWeek :: "astake list \<Rightarrow> string \<Rightarrow> int \<Rightarrow> int \<Rightarrow> points" where
  "getCumulativeProfitPerWeek stakes u a b =
     fillMissingDates (cumulate 0 (profit_rows week_of (stakes_between u a b stakes))) a b 6 True"

definition right :: "acall \<times> astake \<Rightarrow> bool" where
  "right ck = (ac_outcome (fst ck) = (case as_position (snd ck) of YES \<Rightarrow> OutYes | NO \<Rightarrow> OutNo))"

text \<open>A call with each of the user's stakes on it.\<close>

definition staked :: "acall list \<Rightarrow> astake list \<Rightarrow> string \<Rightarrow> (acall \<times> astake) list" where
  "staked calls stakes u = concat (map (\<lambda>c. map (\<lambda>k. (c, k)) (filter (\<lambda>k. as_callId k = ac_id c) (stakes_by u stakes))) calls)"

definition resolved_between :: "acall list \<Rightarrow> astake list \<Rightarrow> string \<Rightarrow> int \<Rightarrow> int \<Rightarrow> (acall \<times> astake) list" where
  "resolved_between calls stakes u a b = filter (\<lambda>(c, k). ac_outcome c \<noteq> OutPending
     \<and> (case ac_resolvedAt c of Some t \<Rightarrow> in_range a b t | None \<Rightarrow> False)) (staked calls stakes u)"

definition resolved_day :: "acall \<times> astake \<Rightarrow> int" where
  "resolved_day ck = day_of (nullish (ac_resolvedAt (fst ck)) 0)"

definition accuracy_rows :: "(acall \<times> astake) list \<Rightarrow> (int \<times> nat \<times> nat) list" where
  "accuracy_rows rows = map (\<lambda>d. let day = filter (\<lambda>ck. resolved_day ck = d) rows in (d, length (filter right day), length day))
     (sort (remdups (map resolved_day rows)))"

definition percent :: "nat \<Rightarrow> nat \<Rightarrow> rat" where
  "percent correct tot = (if tot > 0 then of_nat correct / of_nat tot * 100 else 0)"

fun accuracies :: "nat \<Rightarrow> nat \<Rightarrow> (int \<times> nat \<times> nat) list \<Rightarrow> points" where
  "accuracies totalCorrect totalResolved [] = []"
| "accuracies totalCorrect totalResolved ((d, c, n) # rows) =
     (d, fixed 2 (percent (totalCorrect + c) (totalResolved + n))) # accuracies (totalCorrect + c) (totalResolved + n) rows"

definition getAccuracyTrend :: "acall list \<Rightarrow> astake list \<Rightarrow> string \<Rightarrow> int \<Rightarrow> int \<Rightarrow> points" where
  "getAccuracyTrend calls stakes u a b =
     fillMissingDates (accuracies 0 0 (accuracy_rows (resolved_between calls stakes u a b))) a b 0 True"

subsection \<open>Totals\<close>

record win_loss =
  wl_wins :: nat
  wl_losses :: nat
  wl_pending :: nat
  wl_total :: nat

definition getWinLossCount :: "acall list \<Rightarrow> astake list \<Rightarrow> string \<Rightarrow> int \<Rightarrow> int \<Rightarrow> win_loss" where
  "getWinLossCount calls stakes u a b =
     (let rows = filter (\<lambda>(c, k). in_range a b (as_createdAt k)) (staked calls stakes u)
      in \<lparr>wl_wins = length (filter right rows),
          wl_losses = length (filter (\<lambda>ck. \<not> right ck \<and> ac_outcome (fst ck) \<noteq> OutPending) rows),
          wl_pending = length (filter (\<lambda>ck. ac_outcome (fst ck) = OutPending) rows),
          wl_total = length rows\<rparr>)"

definition getOverallStats :: "acall list \<Rightarrow> astake list \<Rightarrow> string \<Rightarrow> int \<Rightarrow> int \<Rightarrow> rat \<times> rat" where
  "getOverallStats calls stakes u a b =
     (let totalProfitLoss = sum_list (map profit (stakes_between u a b stakes));
          rows = resolved_between calls stakes u a b
      in (fixed 7 totalProfitLoss, fixed 2 (percent (length (filter right rows)) (length rows))))"

record user_analytics =
  ua_cumulativeProfitPerDay :: points
  ua_cumulativeProfitPerWeek :: points
  ua_accuracyTrend :: points
  ua_winLossCount :: win_loss
  ua_totalProfitLoss :: rat
  ua_overallAccuracy :: rat
  ua_dateRange :: date_range

type_synonym profile_cache = "((string \<times> date_range) \<times> (int \<times> user_analytics)) list"

definition analytics_of :: "acall list \<Rightarrow> astake list \<Rightarrow> string \<Rightarrow> date_range \<Rightarrow> int \<Rightarrow> user_analytics" where
  "analytics_of calls stakes u r now = (case getDateRange r now of (a, b) \<Rightarrow>
     \<lparr>ua_cumulativeProfitPerDay = getCumulativeProfitPerDay stakes u a b,
      ua_cumulativeProfitPerWeek = getCumulativeProfitPerWeek stakes u a b,
      ua_accuracyTrend = getAccuracyTrend calls stakes u a b,
      ua_winLossCount = getWinLossCount calls stakes u a b,
      ua_totalProfitLoss = fst (getOverallStats calls stakes u a b),
      ua_overallAccuracy = snd (getOverallStats calls stakes u a b), ua_dateRange = r\<rparr>)"

definition getUserAnalytics ::
  "int \<Rightarrow> acall list \<Rightarrow> astake list \<Rightarrow> string \<Rightarrow> date_range \<Rightarrow> profile_cache \<Rightarrow> profile_cache \<times> user_analytics" where
  "getUserAnalytics now calls stakes u r cache =
     (case (case row_get cache (u, r) of Some (t, d) \<Rightarrow> if now < t then Some d else None | None \<Rightarrow> None) of
        Some d \<Rightarrow> (cache, d)
      | None \<Rightarrow> (let d = analytics_of calls stakes u r now in (map_set (u, r) (now + 300000, d) cache, d)))"

subsection \<open>Reputation\<close>

text \<open>The stakes of a user that have a call, with it.\<close>

definition joined :: "acall list \<Rightarrow> astake list \<Rightarrow> string \<Rightarrow> (acall \<times> astake) list" where
  "joined calls stakes u = concat (map (\<lambda>k. map (\<lambda>c. (c, k)) (filter (\<lambda>c. ac_id c = as_callId k) calls)) (stakes_by u stakes))"

definition volume_of :: "astake list \<Rightarrow> rat" where
  "volume_of stakes = sum_list (map as_amount stakes)"

text \<open>\<open>percentile_cont(0.5)\<close>, and 0 without a row.\<close>

definition median :: "rat list \<Rightarrow> rat" where
  "median vs = (let s = sort vs; n = length vs in if n = 0 then 0 else (s ! ((n - 1) div 2) + s ! (n div 2)) / 2)"

definition median_volume :: "astake list \<Rightarrow> rat" where
  "median_volume stakes = median (map (\<lambda>u. volume_of (stakes_by u stakes)) (remdups (map as_userAddress stakes)))"

definition active_weeks :: "astake list \<Rightarrow> string \<Rightarrow> int list" where
  "active_weeks stakes u = sort (remdups (map (\<lambda>k. last_monday (as_createdAt k)) (stakes_by u stakes)))"

fun streak_loop :: "int list \<Rightarrow> int \<Rightarrow> nat \<Rightarrow> nat \<Rightarrow> nat" where
  "streak_loop [] prevWeekTime currentStreak longestStreak = longestStreak"
| "streak_loop (t # weeks) prevWeekTime currentStreak longestStreak =
     (let n = (if prevWeekTime \<noteq> 0 \<and> t - prevWeekTime = 7 * 24 * 60 * 60 * 1000 then currentStreak + 1 else 1)
      in streak_loop weeks t n (max longestStreak n))"

definition consistency :: "nat \<Rightarrow> nat \<Rightarrow> rat" where
  "consistency longestStreak activeWeeks =
     min 1 (of_nat (min longestStreak 8) / 8 * (7 / 10) + of_nat (min activeWeeks 12) / 12 * (3 / 10))"

definition confidence :: "nat \<Rightarrow> rat" where
  "confidence resolvedCalls = (if resolvedCalls \<ge> 10 then 1 else 3 / 10 + of_nat resolvedCalls / 10 * (7 / 10))"

definition calculateReputationScore :: "acall list \<Rightarrow> astake list \<Rightarrow> string \<Rightarrow> rat" where
  "calculateReputationScore calls stakes u =
     (let rows = joined calls stakes u;
          resolvedCalls = length (filter (\<lambda>ck. ac_outcome (fst ck) \<noteq> OutPending) rows);
          wins = length (filter right rows);
          totalVolume = volume_of (map snd rows);
          winRate = (if resolvedCalls > 0 then of_nat wins / of_nat resolvedCalls else 0);
          medianVolume = median_volume stakes;
          volumeScore = (if medianVolume > 0 then min 1 (totalVolume / medianVolume) else 0);
          weeks = active_weeks stakes u;
          consistencyScore = consistency (streak_loop weeks 0 0 0) (length weeks)
      in fixed 2 ((winRate * (4 / 10) + volumeScore * (3 / 10) + consistencyScore * (3 / 10)) * confidence resolvedCalls * 100))"

subsection \<open>Value locked\<close>

record locked_item =
  lk_callId :: string
  lk_amount :: rat
  lk_position :: position
  lk_tokenSymbol :: string
  lk_potentialWin :: rat

record value_locked =
  vl_userAddress :: string
  vl_totalValueLocked :: rat
  vl_pendingStakesCount :: nat
  vl_breakdown :: "locked_item list"

definition open_stakes :: "acall list \<Rightarrow> astake list \<Rightarrow> string \<Rightarrow> (acall \<times> astake) list" where
  "open_stakes calls stakes u = filter (\<lambda>(c, k). ac_status c = Some ''OPEN'' \<or> ac_status c = Some ''SETTLING'') (joined calls stakes u)"

definition token_symbols :: "token list \<Rightarrow> (string \<times> string) list" where
  "token_symbols tokens = map (\<lambda>t. (nullish (non_empty (tk_assetIssuer t)) (tk_assetCode t), tk_assetCode t)) (tokens_getAll False tokens)"

definition symbol_of :: "token list \<Rightarrow> acall \<Rightarrow> string" where
  "symbol_of tokens c = (case non_empty (ac_stakeToken c) of
      None \<Rightarrow> ''XLM''
    | Some a \<Rightarrow> nullish (non_empty (map_of (rev (token_symbols tokens)) a)) ''XLM'')"

definition usd_price :: "(string \<Rightarrow> jsnum option) \<Rightarrow> string \<Rightarrow> rat" where
  "usd_price prices symbol = (case prices symbol of Some (Fin q) \<Rightarrow> q | _ \<Rightarrow> 0)"

definition potential_win :: "acall \<Rightarrow> astake \<Rightarrow> rat" where
  "potential_win c k =
     (let totalYes = ac_totalYesStake c; totalNo = ac_totalNoStake c;
          poolSize = (if as_position k = YES then totalYes else totalNo)
      in if poolSize > 0 then as_amount k / poolSize * (totalYes + totalNo) else 0)"

definition locked_item_of :: "token list \<Rightarrow> (string \<Rightarrow> jsnum option) \<Rightarrow> acall \<times> astake \<Rightarrow> locked_item" where
  "locked_item_of tokens prices ck = (case ck of (c, k) \<Rightarrow>
     (let usdPrice = usd_price prices (symbol_of tokens c)
      in \<lparr>lk_callId = ac_id c, lk_amount = fixed 2 (as_amount k * usdPrice), lk_position = as_position k,
          lk_tokenSymbol = symbol_of tokens c, lk_potentialWin = fixed 2 (potential_win c k * usdPrice)\<rparr>))"

text \<open>\<open>None\<close> is the exception of a refused request for the prices.\<close>

definition getTotalValueLocked ::
  "acall list \<Rightarrow> astake list \<Rightarrow> token list \<Rightarrow> (string \<Rightarrow> jsnum option) option \<Rightarrow> string \<Rightarrow> value_locked option" where
  "getTotalValueLocked calls stakes tokens gecko u =
     (let rows = open_stakes calls stakes u
      in if rows = [] then Some \<lparr>vl_userAddress = u, vl_totalValueLocked = 0, vl_pendingStakesCount = 0, vl_breakdown = []\<rparr>
         else (case getPrices (remdups (map (\<lambda>ck. symbol_of tokens (fst ck)) rows)) gecko of
           None \<Rightarrow> None
         | Some prices \<Rightarrow> Some
             \<lparr>vl_userAddress = u,
              vl_totalValueLocked = fixed 2 (sum_list (map (\<lambda>(c, k). as_amount k * usd_price prices (symbol_of tokens c)) rows)),
              vl_pendingStakesCount = length rows,
              vl_breakdown = map (locked_item_of tokens prices) rows\<rparr>))"

subsection \<open>The platform\<close>

record platform_stats =
  pf_totalCallsCreated :: nat
  pf_totalCallsResolved :: nat
  pf_totalStakeVolume :: rat
  pf_totalUniqueUsers :: nat
  pf_averageCallDurationHours :: rat
  pf_mostPopularTokenPairs :: "(string \<times> nat) list"

record trend_point =
  tp_date :: int
  tp_newCalls :: nat
  tp_newUsers :: nat
  tp_stakeVolume :: rat

datatype platform_data = PlatformStats platform_stats | PlatformTrends string "trend_point list"

type_synonym platform_cache = "(string \<times> (int \<times> platform_data)) list"

definition getCache :: "int \<Rightarrow> string \<Rightarrow> platform_cache \<Rightarrow> platform_cache \<times> platform_data option" where
  "getCache now key m = (case row_get m key of
      Some (expiresAt, d) \<Rightarrow> if now < expiresAt then (m, Some d) else (row_del key m, None)
    | None \<Rightarrow> (m, None))"

definition setCache :: "int \<Rightarrow> string \<Rightarrow> platform_data \<Rightarrow> int \<Rightarrow> platform_cache \<Rightarrow> platform_cache" where
  "setCache now key d ttlSeconds m = map_set key (now + ttlSeconds * 1000, d) m"

definition platform_now :: "int \<Rightarrow> acall list \<Rightarrow> astake list \<Rightarrow> platform_stats" where
  "platform_now now calls stakes =
     (let pairs = filter (\<lambda>a. a \<noteq> None) (map ac_contractAddress calls)
      in \<lparr>pf_totalCallsCreated = length calls,
          pf_totalCallsResolved = length (filter (\<lambda>c. ac_outcome c \<noteq> OutPending) calls),
          pf_totalStakeVolume = volume_of stakes,
          pf_totalUniqueUsers = length (remdups (map as_userAddress stakes)),
          pf_averageCallDurationHours = (if calls = [] then 0
            else sum_list (map (\<lambda>c. of_int (nullish (ac_resolvedAt c) now - ac_createdAt c) / 1000 / 3600) calls) / of_nat (length calls)),
          pf_mostPopularTokenPairs = take 5 (sort_key (\<lambda>(a, n). - int n)
            (map (\<lambda>a. (nullish a [], length (filter (\<lambda>b. b = a) pairs))) (remdups pairs)))\<rparr>)"

definition getPlatformAnalytics ::
  "int \<Rightarrow> acall list \<Rightarrow> astake list \<Rightarrow> platform_cache \<Rightarrow> platform_cache \<times> platform_data" where
  "getPlatformAnalytics now calls stakes m =
     (case getCache now ''platform_analytics'' m of
        (m, Some hit) \<Rightarrow> (m, hit)
      | (m, None) \<Rightarrow>
          (let result = PlatformStats (platform_now now calls stakes)
           in (setCache now ''platform_analytics'' result 300 m, result)))"

definition trend_days :: "string \<Rightarrow> int" where
  "trend_days p = (if p = ''30d'' then 30 else if p = ''14d'' then 14 else 7)"

definition trend_points :: "int \<Rightarrow> acall list \<Rightarrow> astake list \<Rightarrow> trend_point list" where
  "trend_points since calls stakes =
     (let cs = filter (\<lambda>c. ac_createdAt c \<ge> since) calls; ks = filter (\<lambda>k. as_createdAt k \<ge> since) stakes
      in map (\<lambda>d. let today = filter (\<lambda>k. day_of (as_createdAt k) = d) ks in
          \<lparr>tp_date = d, tp_newCalls = length (filter (\<lambda>c. day_of (ac_createdAt c) = d) cs),
           tp_newUsers = length (remdups (map as_userAddress today)), tp_stakeVolume = volume_of today\<rparr>)
        (sort (remdups (map (\<lambda>c. day_of (ac_createdAt c)) cs))))"

definition getPlatformTrends ::
  "int \<Rightarrow> string \<Rightarrow> acall list \<Rightarrow> astake list \<Rightarrow> platform_cache \<Rightarrow> platform_cache \<times> platform_data" where
  "getPlatformTrends now p calls stakes m =
     (let key = ''platform_trends_'' @ p in
      case getCache now key m of
        (m, Some hit) \<Rightarrow> (m, hit)
      | (m, None) \<Rightarrow>
          (let result = PlatformTrends p (trend_points (now - trend_days p * ms_per_day) calls stakes)
           in (setCache now key result 300 m, result)))"

subsection \<open>Streaks and created calls\<close>

definition updateWinStreak :: "string \<Rightarrow> bool \<Rightarrow> user_row list \<Rightarrow> user_row list" where
  "updateWinStreak userAddress won users = (case user_by_wallet userAddress users of
      None \<Rightarrow> users
    | Some u \<Rightarrow>
        (let currentStreak = (if won then ur_currentWinStreak u + 1 else 0)
         in save_user (u\<lparr>ur_currentWinStreak := currentStreak,
              ur_bestWinStreak := max (ur_bestWinStreak u) currentStreak\<rparr>) users))"

record created_call =
  cc_id :: string
  cc_title :: string
  cc_status :: "string option"
  cc_createdAt :: int
  cc_resolvedAt :: "int option"
  cc_expiresAt :: "int option"
  cc_totalYesStake :: rat
  cc_totalNoStake :: rat
  cc_uniqueStakers :: nat

datatype query_exn = ParameterCount

definition created_call_of :: "astake list \<Rightarrow> acall \<Rightarrow> created_call" where
  "created_call_of stakes c = \<lparr>cc_id = ac_id c, cc_title = ac_title c, cc_status = ac_status c, cc_createdAt = ac_createdAt c,
     cc_resolvedAt = ac_resolvedAt c, cc_expiresAt = ac_expiresAt c, cc_totalYesStake = ac_totalYesStake c,
     cc_totalNoStake = ac_totalNoStake c,
     cc_uniqueStakers = length (remdups (map as_userAddress (filter (\<lambda>k. as_callId k = ac_id c) stakes)))\<rparr>"

text \<open>The count with a status refers to its fourth parameter and is given two, which the database refuses.\<close>

definition getCreatedCalls ::
  "acall list \<Rightarrow> astake list \<Rightarrow> string \<Rightarrow> nat \<Rightarrow> nat \<Rightarrow> string option \<Rightarrow> query_exn + created_call list \<times> nat \<times> nat \<times> nat" where
  "getCreatedCalls calls stakes creatorAddress page limit status =
     (let offset = (page - 1) * limit;
          mine = filter (\<lambda>c. ac_creatorAddress c = creatorAddress) calls;
          rows = map (created_call_of stakes) (window offset limit (sort_key (\<lambda>c. - ac_createdAt c)
            (filter (\<lambda>c. case non_empty status of None \<Rightarrow> True | Some st \<Rightarrow> ac_status c = Some (to_upper st)) mine)))
      in case non_empty status of
           Some _ \<Rightarrow> Inl ParameterCount
         | None \<Rightarrow> Inr (rows, length mine, page, limit))"

definition getCreatedCallsStats :: "acall list \<Rightarrow> string \<Rightarrow> nat \<times> nat \<times> rat" where
  "getCreatedCallsStats calls creatorAddress =
     (let mine = filter (\<lambda>c. ac_creatorAddress c = creatorAddress) calls
      in (length mine,
          length (filter (\<lambda>c. ac_status c = Some ''RESOLVED_YES'' \<or> ac_status c = Some ''RESOLVED_NO'') mine),
          sum_list (map (\<lambda>c. ac_totalYesStake c + ac_totalNoStake c) mine)))"

subsection \<open>Grouped sums\<close>

lemma sum_over_keys:
  fixes p :: "'a \<Rightarrow> rat"
  assumes "distinct ds"
  shows "sum_list (map (\<lambda>d. sum_list (map p (filter (\<lambda>k. key k = d) rows))) ds)
    = sum_list (map p (filter (\<lambda>k. key k \<in> set ds) rows))"
proof (induction rows)
  case (Cons r rows)
  have one: "sum_list (map (\<lambda>d. sum_list (map p (filter (\<lambda>k. key k = d) (r # rows)))) ds)
      = (if key r \<in> set ds then p r else 0) + sum_list (map (\<lambda>d. sum_list (map p (filter (\<lambda>k. key k = d) rows))) ds)"
    using assms by (induction ds) auto
  show ?case unfolding one Cons.IH by simp
qed simp

definition upto_day :: "points \<Rightarrow> int \<Rightarrow> rat" where
  "upto_day rows d = sum_list (map snd (filter (\<lambda>r. fst r \<le> d) rows))"

lemma upto_profit_rows: "upto_day (profit_rows trunc rows) d = sum_list (map profit (filter (\<lambda>k. trunc (as_createdAt k) \<le> d) rows))"
proof -
  let ?ds = "filter (\<lambda>d'. d' \<le> d) (sort (remdups (map (\<lambda>k. trunc (as_createdAt k)) rows)))"
  have "upto_day (profit_rows trunc rows) d
      = sum_list (map (\<lambda>d. sum_list (map profit (filter (\<lambda>k. trunc (as_createdAt k) = d) rows))) ?ds)"
    by (simp add: upto_day_def profit_rows_def filter_map comp_def)
  also have "\<dots> = sum_list (map profit (filter (\<lambda>k. trunc (as_createdAt k) \<in> set ?ds) rows))"
    by (rule sum_over_keys) simp
  also have "filter (\<lambda>k. trunc (as_createdAt k) \<in> set ?ds) rows = filter (\<lambda>k. trunc (as_createdAt k) \<le> d) rows"
    by (rule filter_cong) auto
  finally show ?thesis .
qed

lemma map_of_cumulate:
  assumes "sorted_wrt (<) (map fst rows)"
  shows "map_of (cumulate acc rows) d = (if d \<in> fst ` set rows then Some (fixed 7 (acc + upto_day rows d)) else None)"
  using assms
proof (induction rows arbitrary: acc)
  case (Cons r rows)
  obtain e v where r: "r = (e, v)" by (cases r)
  show ?case
  proof (cases "d = e")
    case True
    have "filter (\<lambda>r. fst r \<le> e) rows = []" using Cons.prems r by (force simp: filter_empty_conv)
    then show ?thesis using True r by (simp add: upto_day_def)
  next
    case False
    have "e \<le> d" if "d \<in> fst ` set rows" using Cons.prems r that by force
    then show ?thesis using False r Cons by (auto simp: upto_day_def add.assoc)
  qed
qed simp

lemma cumulate_keys: "map fst (cumulate acc rows) = map fst rows"
  by (induction rows arbitrary: acc) auto

lemma cumulate_Nil [simp]: "cumulate acc rows = [] \<longleftrightarrow> rows = []"
  by (cases rows) auto

lemma map_of_rev: "distinct (map fst xs) \<Longrightarrow> map_of (rev xs) = map_of xs"
  by (rule map_of_inject_set [THEN iffD2]) (simp_all add: rev_map [symmetric])

lemma profit_rows_sorted: "sorted_wrt (<) (map fst (profit_rows trunc rows))"
  by (simp add: profit_rows_def comp_def strict_sorted_iff)

lemma profit_rows_keys: "fst ` set (profit_rows trunc rows) = (\<lambda>k. trunc (as_createdAt k)) ` set rows"
  by (simp add: profit_rows_def image_image)

lemma profit_points:
  "map_of (rev (cumulate 0 (profit_rows trunc rows))) d =
     (if d \<in> (\<lambda>k. trunc (as_createdAt k)) ` set rows
      then Some (fixed 7 (sum_list (map profit (filter (\<lambda>k. trunc (as_createdAt k) \<le> d) rows)))) else None)"
proof -
  have "distinct (map fst (profit_rows trunc rows))" using profit_rows_sorted by (simp add: strict_sorted_iff)
  then have "distinct (map fst (cumulate 0 (profit_rows trunc rows)))" by (simp only: cumulate_keys)
  then show ?thesis
    using map_of_cumulate [OF profit_rows_sorted, of 0 trunc rows d] by (simp add: map_of_rev profit_rows_keys upto_profit_rows)
qed

lemma profit_rows_Nil [simp]: "profit_rows trunc rows = [] \<longleftrightarrow> rows = []"
  by (simp add: profit_rows_def) (metis remdups_eq_nil_iff map_is_Nil_conv set_empty set_sort)

subsection \<open>Filled charts\<close>

lemma day_shift [simp]: "day_of (t + ms_per_day) = day_of t + 1" "day_of (t + 7 * ms_per_day) = day_of t + 7"
  by (simp_all add: day_of_def ms_per_day_def)

lemma fill_step:
  "t \<le> b \<Longrightarrow> fill_from existing True k t b v =
     (let w = (case existing (day_of t) of Some w \<Rightarrow> w | None \<Rightarrow> v)
      in (day_of t, w) # fill_from existing True k (t + int (Suc k) * ms_per_day) b w)"
  by (subst fill_from.simps) (simp add: Let_def split: option.split)

lemma fill_end: "\<not> t \<le> b \<Longrightarrow> fill_from existing m k t b v = []"
  by (subst fill_from.simps) simp

lemma ms_pos [simp]: "0 < ms_per_day"
  by (simp add: ms_per_day_def)

lemma fill_dates:
  "map fst (fill_from existing True 0 t b v) = (if t \<le> b then [day_of t..day_of t + (b - t) div ms_per_day] else [])"
proof (induction "nat (b + 1 - t)" arbitrary: t v rule: less_induct)
  case less
  show ?case
  proof (cases "t \<le> b")
    case True
    define w where "w = (case existing (day_of t) of Some w \<Rightarrow> w | None \<Rightarrow> v)"
    let ?n = "(b - t) div ms_per_day"
    have n0: "0 \<le> ?n" using True by (simp add: pos_imp_zdiv_nonneg_iff)
    have IH: "map fst (fill_from existing True 0 (t + ms_per_day) b w)
        = (if t + ms_per_day \<le> b then [day_of t + 1..day_of t + 1 + (b - (t + ms_per_day)) div ms_per_day] else [])"
      using less [of "t + ms_per_day" w] True by (simp add: ms_per_day_def [symmetric])
    have "(b - (t + ms_per_day)) div ms_per_day = ?n - 1"
      using div_add_self2 [of ms_per_day "b - (t + ms_per_day)"] ms_pos by force
    moreover have "?n = 0" if "\<not> t + ms_per_day \<le> b" using that True by (simp add: div_pos_pos_trivial)
    moreover have "[day_of t..day_of t + ?n] = day_of t # [day_of t + 1..day_of t + ?n]" using n0 by (simp add: upto_rec1)
    ultimately have "map fst (fill_from existing True 0 (t + ms_per_day) b w) = [day_of t + 1..day_of t + ?n]"
      using IH by (cases "t + ms_per_day \<le> b") simp_all
    then show ?thesis using True \<open>[day_of t..day_of t + ?n] = _\<close> fill_step [OF True, of existing 0 v, folded w_def]
      by (simp add: Let_def w_def [symmetric])
  qed (simp add: fill_end)
qed

lemma fill_values:
  assumes ex: "\<And>d. existing d = (if d \<in> K then Some (f d) else None)" and gap: "\<And>d. d \<notin> K \<Longrightarrow> f d = f (d - 1)"
  shows "v = f (day_of t - 1) \<Longrightarrow> (d, x) \<in> set (fill_from existing True 0 t b v) \<Longrightarrow> x = f d"
proof (induction "nat (b + 1 - t)" arbitrary: t v rule: less_induct)
  case less
  define w where "w = (case existing (day_of t) of Some w \<Rightarrow> w | None \<Rightarrow> v)"
  have w: "w = f (day_of t)" using ex [of "day_of t"] gap [of "day_of t"] less.prems(1) by (simp add: w_def)
  show ?case
  proof (cases "t \<le> b")
    case True
    have "(d, x) = (day_of t, w) \<or> (d, x) \<in> set (fill_from existing True 0 (t + ms_per_day) b w)"
      using less.prems(2) fill_step [OF True, of existing 0 v, folded w_def] by (simp add: Let_def w_def [symmetric])
    moreover have "nat (b + 1 - (t + ms_per_day)) < nat (b + 1 - t)" using True by (simp add: ms_per_day_def)
    ultimately show ?thesis using w less.hyps [of "t + ms_per_day" w] by auto
  next
    case False
    then show ?thesis using less.prems(2) by (simp add: fill_end)
  qed
qed

text \<open>A step of a week that never meets a key keeps the value it began with.\<close>

lemma fill_misses:
  assumes "\<And>n. existing (day_of t + 7 * int n) = None"
  shows "(d, x) \<in> set (fill_from existing True 6 t b v) \<Longrightarrow> x = v"
  using assms
proof (induction "nat (b + 1 - t)" arbitrary: t rule: less_induct)
  case less
  show ?case
  proof (cases "t \<le> b")
    case True
    have "existing (day_of t) = None" using less.prems(2) [of 0] by simp
    then have "(d, x) = (day_of t, v) \<or> (d, x) \<in> set (fill_from existing True 6 (t + 7 * ms_per_day) b v)"
      using less.prems(1) fill_step [OF True, of existing 6 v] by (simp add: Let_def)
    moreover have "existing (day_of (t + 7 * ms_per_day) + 7 * int n) = None" for n
      unfolding day_shift using less.prems(2) [of "Suc n"] by (simp add: algebra_simps)
    moreover have "nat (b + 1 - (t + 7 * ms_per_day)) < nat (b + 1 - t)" using True by (simp add: ms_per_day_def)
    ultimately show ?thesis using less.hyps [of "t + 7 * ms_per_day"] by auto
  next
    case False
    then show ?thesis using less.prems(1) by (simp add: fill_end)
  qed
qed

lemma weekday_weeks [simp]: "weekday (n + 7 * k) = weekday n"
  by (simp add: weekday_def) presburger

lemma fixed_0 [simp]: "fixed d 0 = 0"
proof -
  have "\<lfloor>1 / 2 :: rat\<rfloor> = 0" by (rule floor_unique) simp_all
  then show ?thesis by (simp add: fixed_def)
qed

text \<open>C27: the daily chart of a user who has stakes in the range has one point for each day from its first, and the value of a
  day is the profit, to seven decimals, of all the stakes of the range made up to that day.\<close>

theorem daily_chart_exact:
  assumes "a \<le> b" "stakes_between u a b stakes \<noteq> []"
  shows "map fst (getCumulativeProfitPerDay stakes u a b) = [day_of a..day_of a + (b - a) div ms_per_day]
    \<and> (\<forall>(d, v) \<in> set (getCumulativeProfitPerDay stakes u a b).
         v = fixed 7 (sum_list (map profit (filter (\<lambda>k. day_of (as_createdAt k) \<le> d) (stakes_between u a b stakes)))))"
proof -
  let ?rows = "stakes_between u a b stakes"
  let ?f = "\<lambda>d. fixed 7 (sum_list (map profit (filter (\<lambda>k. day_of (as_createdAt k) \<le> d) ?rows)))"
  let ?e = "map_of (rev (cumulate 0 (profit_rows day_of ?rows)))"
  have chart: "getCumulativeProfitPerDay stakes u a b = fill_from ?e True 0 a b 0"
    using assms(2) by (simp add: getCumulativeProfitPerDay_def fillMissingDates_def)
  have gap: "?f d = ?f (d - 1)" if "d \<notin> (\<lambda>k. day_of (as_createdAt k)) ` set ?rows" for d
  proof -
    have "filter (\<lambda>k. day_of (as_createdAt k) \<le> d) ?rows = filter (\<lambda>k. day_of (as_createdAt k) \<le> d - 1) ?rows"
      using that by (intro filter_cong) force+
    then show ?thesis by simp
  qed
  have "day_of a \<le> day_of t" if "a \<le> t" for t using that by (simp add: day_of_def zdiv_mono1)
  then have "filter (\<lambda>k. day_of (as_createdAt k) \<le> day_of a - 1) ?rows = []"
    by (force simp: filter_empty_conv stakes_between_def in_range_def)
  then have start: "0 = ?f (day_of a - 1)" by simp
  have "v = ?f d" if "(d, v) \<in> set (fill_from ?e True 0 a b 0)" for d v
    using fill_values [of ?e _ ?f, OF profit_points gap start that] by simp
  then show ?thesis unfolding chart fill_dates using assms(1) by auto
qed

text \<open>the weekly chart over all time shows zero at every date: its dates step from the epoch, a Thursday, and never meet
  the Mondays the sums are kept under. The same holds for any range that does not begin on a Monday.\<close>

theorem weekly_chart_flat:
  "(weekday (day_of a) \<noteq> 1 \<longrightarrow> (\<forall>(d, v) \<in> set (getCumulativeProfitPerWeek stakes u a b). v = 0))
   \<and> (\<forall>(d, v) \<in> set (ua_cumulativeProfitPerWeek (analytics_of calls stakes u AllDays now)). v = 0)"
proof -
  have flat: "v = 0" if "weekday (day_of a) \<noteq> 1" "(d, v) \<in> set (getCumulativeProfitPerWeek stakes u a b)" for a b d v
  proof -
    let ?rows = "stakes_between u a b stakes"
    let ?e = "map_of (rev (cumulate 0 (profit_rows week_of ?rows)))"
    have "day_of a + 7 * int n \<noteq> week_of t" for n t
      using that(1) last_monday_monday [of t] weekday_weeks [of "day_of a" "int n"] by (metis week_of_def)
    then have "?e (day_of a + 7 * int n) = None" for n by (auto simp: profit_points)
    then show ?thesis using fill_misses [of ?e a d v b 0] that(2)
      by (auto simp: getCumulativeProfitPerWeek_def fillMissingDates_def split: if_splits)
  qed
  have "weekday (day_of 0) \<noteq> 1" by code_simp
  then show ?thesis using flat by (auto simp: analytics_of_def getDateRange_def)
qed

text \<open>Wins, losses and pending stakes of a range are all its stakes on known calls.\<close>

theorem win_loss_partition:
  "wl_wins (getWinLossCount calls stakes u a b) + wl_losses (getWinLossCount calls stakes u a b)
     + wl_pending (getWinLossCount calls stakes u a b) = wl_total (getWinLossCount calls stakes u a b)"
proof -
  have pend: "right ck \<Longrightarrow> ac_outcome (fst ck) \<noteq> OutPending" for ck by (auto simp: right_def split: position.splits)
  have "length (filter right rows) + length (filter (\<lambda>ck. \<not> right ck \<and> ac_outcome (fst ck) \<noteq> OutPending) rows)
      + length (filter (\<lambda>ck. ac_outcome (fst ck) = OutPending) rows) = length rows" for rows
    by (induction rows) (auto dest: pend)
  then show ?thesis unfolding getWinLossCount_def Let_def win_loss.simps .
qed

subsection \<open>Scores and streaks\<close>

lemma fixed_bounds:
  assumes "0 \<le> q" "q \<le> of_int n"
  shows "0 \<le> fixed d q" "fixed d q \<le> of_int n"
proof -
  have e: "fixed d q = of_int \<lfloor>q * 10 ^ d + 1 / 2\<rfloor> / 10 ^ d" using assms(1) by (simp add: fixed_def)
  have "0 \<le> \<lfloor>q * 10 ^ d + 1 / 2\<rfloor>" using assms(1) by simp
  then show "0 \<le> fixed d q" by (simp add: e)
  have "q * 10 ^ d \<le> of_int (n * 10 ^ d)" using assms(2) by simp
  then have "q * 10 ^ d + 1 / 2 < of_int (n * 10 ^ d) + 1" by linarith
  then have "\<lfloor>q * 10 ^ d + 1 / 2\<rfloor> \<le> n * 10 ^ d" by (simp only: floor_le_iff)
  then have "(of_int \<lfloor>q * 10 ^ d + 1 / 2\<rfloor> :: rat) \<le> of_int (n * 10 ^ d)" by (simp only: of_int_le_iff)
  then show "fixed d q \<le> of_int n" by (simp add: e divide_le_eq)
qed

lemma right_resolved: "length (filter right rows) \<le> length (filter (\<lambda>ck. ac_outcome (fst ck) \<noteq> OutPending) rows)"
  by (induction rows) (auto simp: right_def split: position.splits)

text \<open>A reputation score is between 0 and 100, if no stake is negative.\<close>

theorem reputation_bounds:
  assumes "\<forall>k \<in> set stakes. 0 \<le> as_amount k"
  shows "0 \<le> calculateReputationScore calls stakes u \<and> calculateReputationScore calls stakes u \<le> 100"
proof -
  let ?rows = "joined calls stakes u"
  define r where "r = length (filter (\<lambda>ck. ac_outcome (fst ck) \<noteq> OutPending) ?rows)"
  define w where "w = (if r > 0 then of_nat (length (filter right ?rows)) / of_nat r else 0 :: rat)"
  define vs where "vs = (if median_volume stakes > 0 then min 1 (volume_of (map snd ?rows) / median_volume stakes) else 0)"
  define c where "c = consistency (streak_loop (active_weeks stakes u) 0 0 0) (length (active_weeks stakes u))"
  define f where "f = confidence r"
  have w: "0 \<le> w" "w \<le> 1" using right_resolved [of ?rows] by (simp_all add: w_def r_def divide_le_eq)
  have "0 \<le> volume_of (map snd ?rows)" unfolding volume_of_def
    by (rule sum_list_nonneg) (use assms in \<open>auto simp: joined_def stakes_by_def\<close>)
  then have v: "0 \<le> vs" "vs \<le> 1" by (simp_all add: vs_def)
  have c: "0 \<le> c" "c \<le> 1" by (simp_all add: c_def consistency_def)
  have f: "0 \<le> f" "f \<le> 1" by (simp_all add: f_def confidence_def)
  define q where "q = w * (4 / 10) + vs * (3 / 10) + c * (3 / 10)"
  have q: "0 \<le> q" "q \<le> 1" using w v c by (simp_all add: q_def)
  have "0 \<le> q * f * 100" "q * f * 100 \<le> of_int 100" using q f by (simp_all add: mult_le_one)
  then have "0 \<le> fixed 2 (q * f * 100)" "fixed 2 (q * f * 100) \<le> of_int 100" by (rule fixed_bounds)+
  moreover have "calculateReputationScore calls stakes u = fixed 2 (q * f * 100)"
    unfolding calculateReputationScore_def Let_def q_def w_def vs_def c_def f_def r_def ..
  ultimately show ?thesis by simp
qed

definition trailing :: "bool list \<Rightarrow> nat" where
  "trailing bs = length (takeWhile id (rev bs))"

definition best_run :: "bool list \<Rightarrow> nat" where
  "best_run bs = foldl (\<lambda>m n. max m n) 0 (map (\<lambda>n. trailing (take n bs)) [0..<length bs + 1])"

lemma trailing_snoc: "trailing (bs @ [w]) = (if w then trailing bs + 1 else 0)"
  by (simp add: trailing_def)

lemma best_run_snoc: "best_run (bs @ [w]) = max (best_run bs) (trailing (bs @ [w]))"
proof -
  have e: "map (\<lambda>n. trailing (take n (bs @ [w]))) [0..<length bs + 1] = map (\<lambda>n. trailing (take n bs)) [0..<length bs + 1]"
    by (rule map_cong) auto
  have "[0..<length (bs @ [w]) + 1] = [0..<length bs + 1] @ [length bs + 1]" by simp
  then show ?thesis unfolding best_run_def by (simp only: map_append foldl_append e) simp
qed

text \<open>C28: after any sequence of results a user's current streak is the number of wins since the last loss, and the best
  streak the longest run of wins there ever was; other users are untouched.\<close>

theorem streaks_exact:
  assumes "users_ok us" "user_by_wallet w us = Some u" "ur_currentWinStreak u = 0" "ur_bestWinStreak u = 0"
  shows "\<exists>v. user_by_wallet w (foldl (\<lambda>us won. updateWinStreak w won us) us results) = Some v
      \<and> ur_currentWinStreak v = trailing results \<and> ur_bestWinStreak v = best_run results
      \<and> (\<forall>w'. w' \<noteq> w \<longrightarrow> user_by_wallet w' (foldl (\<lambda>us won. updateWinStreak w won us) us results) = user_by_wallet w' us)"
proof -
  have "users_ok (foldl (\<lambda>us won. updateWinStreak w won us) us results) \<and> (\<exists>v. user_by_wallet w (foldl (\<lambda>us won. updateWinStreak w won us) us results) = Some v
      \<and> ur_currentWinStreak v = trailing results \<and> ur_bestWinStreak v = best_run results
      \<and> (\<forall>w'. w' \<noteq> w \<longrightarrow> user_by_wallet w' (foldl (\<lambda>us won. updateWinStreak w won us) us results) = user_by_wallet w' us))"
  proof (induction results rule: rev_induct)
    case Nil
    then show ?case using assms by (simp add: trailing_def best_run_def)
  next
    case (snoc r results)
    define t where "t = foldl (\<lambda>us won. updateWinStreak w won us) us results"
    obtain v where v: "users_ok t" "user_by_wallet w t = Some v" "ur_currentWinStreak v = trailing results"
      "ur_bestWinStreak v = best_run results" "\<And>w'. w' \<noteq> w \<Longrightarrow> user_by_wallet w' t = user_by_wallet w' us"
      using snoc by (auto simp: t_def)
    define c where "c = (if r then ur_currentWinStreak v + 1 else 0)"
    define v' where "v' = v\<lparr>ur_currentWinStreak := c, ur_bestWinStreak := max (ur_bestWinStreak v) c\<rparr>"
    have s: "updateWinStreak w r t = save_user v' t" by (simp add: updateWinStreak_def v(2) v'_def c_def Let_def)
    have k: "ur_id v' = ur_id v" "ur_walletAddress v' = ur_walletAddress v" by (simp_all add: v'_def)
    have m: "v \<in> set t" using v(2) by (simp add: user_by_wallet_Some [OF v(1)])
    have c: "c = trailing (results @ [r])" by (simp add: c_def v(3) trailing_snoc)
    show ?case
      using save_user_ok [OF v(1) m k] user_after_save [OF v(1,2) k] v(4,5) c
      by (auto simp: s v'_def best_run_snoc simp flip: t_def)
  qed
  then show ?thesis by blast
qed

text \<open>A run of wins counts whole.\<close>

lemma best_run_covers: "n \<le> best_run (xs @ replicate n True @ ys)"
proof (induction ys rule: rev_induct)
  case Nil
  have "takeWhile id (replicate n True @ zs) = replicate n True @ takeWhile id zs" for zs by (induction n) auto
  then have t: "trailing (xs @ replicate n True) \<ge> n" by (simp add: trailing_def)
  show ?case
  proof (cases n)
    case (Suc m)
    have "xs @ replicate n True = (xs @ replicate m True) @ [True]" by (simp add: Suc replicate_append_same)
    then show ?thesis using best_run_snoc [of "xs @ replicate m True" True] t by simp
  qed simp
next
  case (snoc y ys)
  then show ?case using best_run_snoc [of "xs @ replicate n True @ ys" y] by simp
qed

text \<open>The prices are kept under upper-case symbols and looked up as written: a token with a small letter in its code is worth
  nothing.\<close>

lemma upper_idem: "to_upper (to_upper s) = to_upper s"
proof -
  have "upper_char (upper_char c) = upper_char c" for c
  proof (cases "is_lower c")
    case True
    then have "code c - 32 < 256" "\<not> 97 \<le> code c - 32" by (auto simp: is_lower_def)
    then have "\<not> is_lower (char_of (code c - 32))" by (simp add: is_lower_def)
    with True show ?thesis by (simp add: upper_char_def)
  qed (simp add: upper_char_def)
  then show ?thesis by (simp add: to_upper_def)
qed

lemma small_letter_worthless:
  assumes "getPrices symbols gecko = Some prices" "to_upper tok \<noteq> tok"
  shows "usd_price prices tok = 0"
proof -
  define f where "f json = (\<lambda>m s. case symbolToId (to_upper s) of None \<Rightarrow> m
      | Some coin \<Rightarrow> (case json coin of None \<Rightarrow> m | Some usd \<Rightarrow> m(to_upper s \<mapsto> usd)))"
    for json :: "string \<Rightarrow> jsnum option"
  have "to_upper s \<noteq> tok" for s using assms(2) upper_idem [of s] by blast
  then have "tok \<noteq> to_upper s" for s by metis
  then have one: "f json m s tok = m tok" for json m s by (simp add: f_def split: option.split)
  have "foldl (f json) m ss tok = m tok" for json m ss by (induction ss arbitrary: m) (simp_all add: one)
  then have "prices tok = None" using assms(1) by (auto simp: getPrices_def f_def split: if_splits option.splits)
  then show ?thesis by (simp add: usd_price_def)
qed

text \<open>Within five minutes of a computed answer the platform statistics are that answer, whatever happens to the tables.\<close>

lemma platform_cached:
  assumes "getPlatformAnalytics now calls stakes m = (m', d)" "row_get m ''platform_analytics'' = None" "t < now + 300000"
  shows "getPlatformAnalytics t calls' stakes' m' = (m', d)"
proof -
  have "m' = map_set ''platform_analytics'' (now + 300 * 1000, d) m"
    using assms(1,2) by (auto simp: getPlatformAnalytics_def getCache_def setCache_def Let_def)
  then show ?thesis using assms(3) by (simp add: getPlatformAnalytics_def getCache_def row_get_def)
qed

subsection \<open>Samples\<close>

definition one_stake :: astake where
  "one_stake = \<lparr>as_id = ''s'', as_callId = ''c'', as_userAddress = ''u'', as_amount = 4, as_position = YES,
     as_profitLoss = Some 3, as_transactionHash = None, as_createdAt = 86400005, as_updatedAt = 86400005\<rparr>"

lemma daily_chart_exact_witness:
  "map fst (getCumulativeProfitPerDay [one_stake] ''u'' 0 172800000) = [0..2]"
  using daily_chart_exact [of 0 172800000 "''u''" "[one_stake]", THEN conjunct1]
  by (simp add: one_stake_def stakes_between_def stakes_by_def in_range_def day_of_def ms_per_day_def)

lemma weekly_chart_flat_witness:
  "list_all (\<lambda>(d, v). v = 0) (getCumulativeProfitPerWeek [one_stake] ''u'' 0 172800000)"
  using weekly_chart_flat [of 0 "[one_stake]" "''u''" 172800000 "[]" 0, THEN conjunct1]
  by (simp add: weekday_def day_of_def list_all_iff)

lemma reputation_bounds_witness: "0 \<le> calculateReputationScore [] [one_stake] ''u'' \<and> calculateReputationScore [] [one_stake] ''u'' \<le> 100"
  by (rule reputation_bounds) (simp add: one_stake_def)

definition one_user :: user_row where
  "one_user = \<lparr>ur_id = ''i'', ur_walletAddress = ''w'', ur_email = None, ur_referralCode = None, ur_displayName = None,
     ur_bio = None, ur_avatarCid = None, ur_referredBy = None, ur_badges = [], ur_currentWinStreak = 0, ur_bestWinStreak = 0, ur_banned = False,
     ur_createdAt = 0, ur_updatedAt = 0\<rparr>"

lemma streaks_exact_witness:
  "\<exists>v. user_by_wallet ''w'' (foldl (\<lambda>us won. updateWinStreak ''w'' won us) [one_user] [True, True, False, True]) = Some v
     \<and> ur_currentWinStreak v = 1 \<and> ur_bestWinStreak v = 2"
proof -
  have "trailing [True, True, False, True] = 1" "best_run [True, True, False, True] = 2" by code_simp+
  moreover have "users_ok [one_user]" "user_by_wallet ''w'' [one_user] = Some one_user"
    "ur_currentWinStreak one_user = 0" "ur_bestWinStreak one_user = 0"
    by (simp_all add: one_user_def users_ok_def user_by_wallet_def find_by_def)
  ultimately show ?thesis
    using streaks_exact [of "[one_user]" "''w''" one_user "[True, True, False, True]"] by auto
qed

end
