(* ===== verification/Auth.thy ===== *)
theory Auth
  imports ApiClient JsArith Store
begin

text \<open>
  \<^verbatim>\<open>packages/backend/src/auth\<close>: the challenge a wallet signs, the tokens made and read, and the three guards. Decoding a
  Stellar address, the signature check of nacl, the HMAC, the printing of a number and \<open>JSON.parse\<close> on bytes are
  arguments; an absent value of the first two is an exception.
\<close>

subsection \<open>Challenges\<close>

record nonce_entry =
  ne_nonce :: string
  ne_expiresAt :: int

type_synonym nonces = "(string \<times> nonce_entry) list"

datatype auth_exn = AuthBadRequest string | Unauthorized string | Forbidden string

definition NONCE_TTL_MS :: int where "NONCE_TTL_MS = 5 * 60 * 1000"

definition is_base32 :: "char \<Rightarrow> bool" where
  "is_base32 c \<longleftrightarrow> is_upper c \<or> 50 \<le> code c \<and> code c \<le> 55"

definition stellar_address :: "string \<Rightarrow> bool" where
  "stellar_address a = (case a of
      c # r \<Rightarrow> c = CHR ''G'' \<and> (length r = 54 \<or> length r = 55) \<and> list_all is_base32 r
    | [] \<Rightarrow> False)"

definition validateStellarAddress :: "string \<Rightarrow> auth_exn + unit" where
  "validateStellarAddress a = (if stellar_address a then Inr () else Inl (AuthBadRequest ''Invalid Stellar address format''))"

definition sign_message :: "string \<Rightarrow> string" where
  "sign_message nonce = ''Sign this message to authenticate with BACKit:'' @ [CHR 0x0A] @ nonce"

text \<open>\<open>rnd\<close> is the text of the random number.\<close>

definition generateChallenge :: "int \<Rightarrow> string \<Rightarrow> string \<Rightarrow> nonces \<Rightarrow> nonces \<times> (auth_exn + string \<times> string)" where
  "generateChallenge now rnd address s = and_then (s, validateStellarAddress address) (\<lambda>s _.
     let nonce = ''backit-auth-'' @ int_text now @ ''-'' @ rnd
     in (map_set address \<lparr>ne_nonce = nonce, ne_expiresAt = now + NONCE_TTL_MS\<rparr> s, Inr (nonce, sign_message nonce)))"

text \<open>\<open>Buffer.from(s, 'hex')\<close> stops at the first pair that is not hexadecimal.\<close>

fun hex_bytes :: "string \<Rightarrow> nat list" where
  "hex_bytes (a # b # r) = (case (hex_val a, hex_val b) of (Some x, Some y) \<Rightarrow> (x * 16 + y) # hex_bytes r | _ \<Rightarrow> [])"
| "hex_bytes _ = []"

definition utf8_text :: "string \<Rightarrow> nat list" where
  "utf8_text s = concat (map utf8_bytes s)"

record auth_env =
  ae_key :: "string \<Rightarrow> nat list option"
  ae_nacl :: "nat list \<Rightarrow> nat list \<Rightarrow> nat list \<Rightarrow> bool option"
  ae_hmac :: "string \<Rightarrow> string \<Rightarrow> string"
  ae_num :: "rat \<Rightarrow> string"
  ae_parse :: "nat list \<Rightarrow> jval option"
  ae_secret :: string

subsection \<open>Tokens\<close>

definition json_b64 :: "auth_env \<Rightarrow> jval \<Rightarrow> string" where
  "json_b64 env v = b64_encode (utf8_text (nullish (stringify (ae_num env) v) ''undefined''))"

definition hmacSign :: "auth_env \<Rightarrow> string \<Rightarrow> string" where
  "hmacSign env d = ae_hmac env (ae_secret env) d"

definition jwt_body :: "int \<Rightarrow> string \<Rightarrow> jval" where
  "jwt_body now address = (let t = now div 1000 in
     JObj [(''sub'', JStr address), (''iat'', JNum (Fin (of_int t))), (''exp'', JNum (Fin (of_int (t + 86400))))])"

definition createJwt :: "auth_env \<Rightarrow> int \<Rightarrow> string \<Rightarrow> string" where
  "createJwt env now address =
     (let header = json_b64 env (JObj [(''alg'', JStr ''HS256''), (''typ'', JStr ''JWT'')]);
          body = json_b64 env (jwt_body now address);
          sig = hmacSign env (header @ ''.'' @ body)
      in header @ ''.'' @ body @ ''.'' @ sig)"

record claims =
  ck_sub :: string
  ck_iat :: jsnum
  ck_exp :: jsnum

definition claims_of :: "int \<Rightarrow> jval \<Rightarrow> claims option" where
  "claims_of now v = (case (data_field v ''exp'', data_field v ''sub'', data_field v ''iat'') of
      (JNum e, JStr s, JNum i) \<Rightarrow>
        if num_less e (Fin (of_int (now div 1000))) then None else Some \<lparr>ck_sub = s, ck_iat = i, ck_exp = e\<rparr>
    | _ \<Rightarrow> None)"

text \<open>Whatever is wrong, the caller hears the same. Pieces after the third are not looked at.\<close>

definition validateToken :: "auth_env \<Rightarrow> int \<Rightarrow> string \<Rightarrow> auth_exn + claims" where
  "validateToken env now token =
     (case (case split_on (CHR ''.'') token of
         header # payload # sig # _ \<Rightarrow>
           if header = [] \<or> payload = [] \<or> sig = [] then None
           else if hmacSign env (header @ ''.'' @ payload) \<noteq> sig then None
           else Option.bind (ae_parse env (b64_decode payload)) (claims_of now)
       | _ \<Rightarrow> None) of
      Some c \<Rightarrow> Inr c
    | None \<Rightarrow> Inl (Unauthorized ''Invalid or expired token''))"

definition verifySignature :: "auth_env \<Rightarrow> int \<Rightarrow> string \<Rightarrow> string \<Rightarrow> nonces \<Rightarrow> nonces \<times> (auth_exn + string)" where
  "verifySignature env now address signature s = and_then (s, validateStellarAddress address) (\<lambda>s _.
     case row_get s address of
       None \<Rightarrow> (s, Inl (Unauthorized ''No pending challenge for this address''))
     | Some entry \<Rightarrow>
         if now > ne_expiresAt entry then (row_del address s, Inl (Unauthorized ''Challenge expired. Request a new one.''))
         else (case Option.bind (ae_key env address) (ae_nacl env (utf8_text (sign_message (ne_nonce entry))) (hex_bytes signature)) of
             None \<Rightarrow> (s, Inl (Unauthorized ''Signature verification failed''))
           | Some valid \<Rightarrow>
               if valid then (row_del address s, Inr (createJwt env now address))
               else (s, Inl (Unauthorized ''Invalid signature''))))"

subsection \<open>Guards\<close>

record http_user =
  hu_address :: string
  hu_isAdmin :: "bool option"
  hu_role :: "string option"

record guarded_request =
  gr_authorization :: "string option"
  gr_user :: "http_user option"

definition token_user :: "claims \<Rightarrow> http_user" where
  "token_user c = \<lparr>hu_address = ck_sub c, hu_isAdmin = None, hu_role = None\<rparr>"

definition bearer :: "guarded_request \<Rightarrow> string option" where
  "bearer r = (case gr_authorization r of
      Some h \<Rightarrow> if starts_with h ''Bearer '' then Some (drop 7 h) else None
    | None \<Rightarrow> None)"

definition jwt_guard :: "auth_env \<Rightarrow> int \<Rightarrow> guarded_request \<Rightarrow> auth_exn + guarded_request" where
  "jwt_guard env now r = (case bearer r of
      None \<Rightarrow> Inl (Unauthorized ''Missing or malformed Authorization header'')
    | Some token \<Rightarrow> result_bind (validateToken env now token) (\<lambda>c. Inr (r\<lparr>gr_user := Some (token_user c)\<rparr>)))"

definition optional_jwt_guard :: "auth_env \<Rightarrow> int \<Rightarrow> guarded_request \<Rightarrow> guarded_request" where
  "optional_jwt_guard env now r = (case bearer r of
      None \<Rightarrow> r
    | Some token \<Rightarrow> (case validateToken env now token of Inr c \<Rightarrow> r\<lparr>gr_user := Some (token_user c)\<rparr> | Inl _ \<Rightarrow> r))"

definition admin_guard :: "guarded_request \<Rightarrow> auth_exn + guarded_request" where
  "admin_guard r = (case gr_user r of
      None \<Rightarrow> Inl (Unauthorized ''Authentication required'')
    | Some u \<Rightarrow>
        if hu_isAdmin u \<noteq> Some True \<and> hu_role u \<noteq> Some ''admin'' then Inl (Forbidden ''Admin privileges required'')
        else Inr r)"

definition current_user :: "guarded_request \<Rightarrow> string option" where
  "current_user r = map_option hu_address (gr_user r)"

subsection \<open>Runs\<close>

datatype auth_op = Challenge int string string | Verify int string string

text \<open>What happened, newest first: a challenge with its time and nonce, or a token given out, with its time.\<close>

datatype auth_log = Asked string int string | Given string int

definition auth_step :: "auth_env \<Rightarrow> nonces \<times> auth_log list \<Rightarrow> auth_op \<Rightarrow> nonces \<times> auth_log list" where
  "auth_step env sl oper = (case oper of
      Challenge now rnd a \<Rightarrow> (case generateChallenge now rnd a (fst sl) of
          (s, Inr (nonce, _)) \<Rightarrow> (s, Asked a now nonce # snd sl) | (s, Inl _) \<Rightarrow> (s, snd sl))
    | Verify now a sig \<Rightarrow> (case verifySignature env now a sig (fst sl) of
          (s, Inr _) \<Rightarrow> (s, Given a now # snd sl) | (s, Inl _) \<Rightarrow> (s, snd sl)))"

definition asked :: "string \<Rightarrow> auth_log list \<Rightarrow> nat" where
  "asked a l = length (filter (\<lambda>e. case e of Asked b _ _ \<Rightarrow> b = a | _ \<Rightarrow> False) l)"

definition given :: "string \<Rightarrow> auth_log list \<Rightarrow> nat" where
  "given a l = length (filter (\<lambda>e. case e of Given b _ \<Rightarrow> b = a | _ \<Rightarrow> False) l)"

definition auth_inv :: "nonces \<times> auth_log list \<Rightarrow> bool" where
  "auth_inv sl \<longleftrightarrow> (\<forall>a. given a (snd sl) + (if row_get (fst sl) a = None then 0 else 1) \<le> asked a (snd sl))
     \<and> (\<forall>a e. row_get (fst sl) a = Some e \<longrightarrow> Asked a (ne_expiresAt e - NONCE_TTL_MS) (ne_nonce e) \<in> set (snd sl))"

lemma asked_given_simps [simp]:
  "asked a [] = 0" "given a [] = 0"
  "asked a (Asked b t n # l) = (if b = a then 1 else 0) + asked a l" "asked a (Given b t # l) = asked a l"
  "given a (Given b t # l) = (if b = a then 1 else 0) + given a l" "given a (Asked b t n # l) = given a l"
  by (simp_all add: asked_def given_def)

lemma row_get_map_set: "row_get (map_set k r q) j = (if j = k then Some r else row_get q j)"
  by (simp add: row_get_def)

lemma row_get_row_del: "row_get (row_del k q) j = (if j = k then None else row_get q j)"
  by (simp add: row_get_def map_of_row_del)

lemma challenge_cases:
  "generateChallenge now rnd a s = (s', r) \<Longrightarrow>
     (s' = s \<and> (\<exists>e. r = Inl e)) \<or> (\<exists>n. r = Inr (n, sign_message n) \<and> s' = map_set a \<lparr>ne_nonce = n, ne_expiresAt = now + NONCE_TTL_MS\<rparr> s)"
  by (auto simp: generateChallenge_def validateStellarAddress_def Let_def split: if_splits)

lemma verify_cases:
  "verifySignature env now a sig s = (s', r) \<Longrightarrow>
     (\<exists>x. r = Inl x \<and> (s' = s \<or> s' = row_del a s))
     \<or> (\<exists>e. row_get s a = Some e \<and> now \<le> ne_expiresAt e \<and> s' = row_del a s \<and> r = Inr (createJwt env now a)
          \<and> Option.bind (ae_key env a) (ae_nacl env (utf8_text (sign_message (ne_nonce e))) (hex_bytes sig)) = Some True)"
  by (auto simp: verifySignature_def validateStellarAddress_def Let_def split: if_splits option.splits)

lemma auth_step_inv:
  assumes i: "auth_inv sl"
  shows "auth_inv (auth_step env sl oper)"
proof -
  obtain s l where sl: "sl = (s, l)" by (cases sl)
  have count: "given a l + (if row_get s a = None then 0 else 1) \<le> asked a l" for a using i by (simp add: auth_inv_def sl)
  have seen: "row_get s a = Some e \<Longrightarrow> Asked a (ne_expiresAt e - NONCE_TTL_MS) (ne_nonce e) \<in> set l" for a e
    using i by (simp add: auth_inv_def sl)
  have le: "given a l \<le> asked a l" for a using count [of a] by linarith
  have full: "row_get s a = Some e \<Longrightarrow> given a l < asked a l" for a e using count [of a] by simp
  have drop: "auth_inv (row_del a s, l)" for a
    using le full seen by (auto simp: auth_inv_def row_get_row_del Suc_le_eq)
  show ?thesis
  proof (cases oper)
    case (Challenge now rnd a)
    obtain s' r where c: "generateChallenge now rnd a s = (s', r)" by (cases "generateChallenge now rnd a s")
    from challenge_cases [OF c] show ?thesis
    proof
      assume "s' = s \<and> (\<exists>e. r = Inl e)"
      then show ?thesis using i c Challenge by (auto simp: auth_step_def sl)
    next
      assume "\<exists>n. r = Inr (n, sign_message n) \<and> s' = map_set a \<lparr>ne_nonce = n, ne_expiresAt = now + NONCE_TTL_MS\<rparr> s"
      then obtain n where n: "r = Inr (n, sign_message n)" "s' = map_set a \<lparr>ne_nonce = n, ne_expiresAt = now + NONCE_TTL_MS\<rparr> s" by blast
      have "auth_step env sl oper = (s', Asked a now n # l)" using c n Challenge by (simp add: auth_step_def sl)
      then show ?thesis using le count seen by (auto simp: auth_inv_def row_get_map_set n(2) split: if_splits)
    qed
  next
    case (Verify now a sig)
    obtain s' r where c: "verifySignature env now a sig s = (s', r)" by (cases "verifySignature env now a sig s")
    from verify_cases [OF c] show ?thesis
    proof
      assume "\<exists>x. r = Inl x \<and> (s' = s \<or> s' = row_del a s)"
      then show ?thesis using i drop [of a] c Verify by (auto simp: auth_step_def sl)
    next
      assume "\<exists>e. row_get s a = Some e \<and> now \<le> ne_expiresAt e \<and> s' = row_del a s \<and> r = Inr (createJwt env now a)
          \<and> Option.bind (ae_key env a) (ae_nacl env (utf8_text (sign_message (ne_nonce e))) (hex_bytes sig)) = Some True"
      then obtain e where e: "row_get s a = Some e" "s' = row_del a s" "r = Inr (createJwt env now a)" by blast
      have "auth_step env sl oper = (row_del a s, Given a now # l)" using c e Verify by (simp add: auth_step_def sl)
      moreover have "given a l < asked a l" using count [of a] e(1) by simp
      ultimately show ?thesis using le full seen by (auto simp: auth_inv_def row_get_row_del Suc_le_eq)
    qed
  qed
qed

interpretation auths: machine "auth_step env" auth_inv for env
  by unfold_locales (rule auth_step_inv)

text \<open>C29: in every run of challenges and verifications, whatever the order, an address gets at most one token for each
  challenge it asked for, and a token is given out only for a signature, valid under the key of the address, of the message
  of a challenge asked for at most five minutes before.\<close>

theorem challenge_single_use:
  assumes run: "sl = foldl (auth_step env) ([], []) ops"
  shows "given a (snd sl) \<le> asked a (snd sl)
    \<and> (verifySignature env now a sig (fst sl) = (s', Inr tok) \<longrightarrow>
        (\<exists>t nonce key. Asked a t nonce \<in> set (snd sl) \<and> now \<le> t + NONCE_TTL_MS \<and> ae_key env a = Some key
           \<and> ae_nacl env (utf8_text (sign_message nonce)) (hex_bytes sig) key = Some True
           \<and> given a (snd sl) < asked a (snd sl) \<and> row_get s' a = None))"
proof -
  have "auth_inv (foldl (auth_step env) ([], []) ops)"
    by (rule auths.run_inv) (simp add: auth_inv_def row_get_def)
  then have i: "auth_inv sl" by (simp add: run)
  have one: "given a (snd sl) + (if row_get (fst sl) a = None then 0 else 1) \<le> asked a (snd sl)" using i by (simp add: auth_inv_def)
  show ?thesis
  proof (intro conjI impI)
    show "given a (snd sl) \<le> asked a (snd sl)" using one by linarith
    assume "verifySignature env now a sig (fst sl) = (s', Inr tok)"
    from verify_cases [OF this] obtain e where e: "row_get (fst sl) a = Some e" "now \<le> ne_expiresAt e" "s' = row_del a (fst sl)"
      "Option.bind (ae_key env a) (ae_nacl env (utf8_text (sign_message (ne_nonce e))) (hex_bytes sig)) = Some True" by auto
    have "Asked a (ne_expiresAt e - NONCE_TTL_MS) (ne_nonce e) \<in> set (snd sl)" using i e(1) by (auto simp: auth_inv_def)
    moreover have "given a (snd sl) < asked a (snd sl)" using one e(1) by simp
    moreover obtain key where "ae_key env a = Some key" "ae_nacl env (utf8_text (sign_message (ne_nonce e))) (hex_bytes sig) key = Some True"
      using e(4) by (cases "ae_key env a") auto
    ultimately show "\<exists>t nonce key. Asked a t nonce \<in> set (snd sl) \<and> now \<le> t + NONCE_TTL_MS \<and> ae_key env a = Some key
           \<and> ae_nacl env (utf8_text (sign_message nonce)) (hex_bytes sig) key = Some True
           \<and> given a (snd sl) < asked a (snd sl) \<and> row_get s' a = None"
      using e(2,3) by (intro exI [of _ "ne_expiresAt e - NONCE_TTL_MS"] exI [of _ "ne_nonce e"] exI [of _ key])
        (simp add: row_get_row_del)
  qed
qed

definition toy_env :: auth_env where
  "toy_env = \<lparr>ae_key = (\<lambda>_. Some [7]), ae_nacl = (\<lambda>m g k. Some (g = [171])), ae_hmac = (\<lambda>k d. ''h''), ae_num = (\<lambda>_. ''1''),
     ae_parse = (\<lambda>_. Some (jwt_body 5000 ''G'')), ae_secret = ''k''\<rparr>"

definition toy_address :: string where
  "toy_address = CHR ''G'' # replicate 55 (CHR ''A'')"

lemma challenge_single_use_witness:
  "given toy_address (snd (foldl (auth_step toy_env) ([], []) [Challenge 0 ''r'' toy_address, Verify 9 toy_address ''ab''])) = 1
   \<and> given toy_address (snd (foldl (auth_step toy_env) ([], []) [Challenge 0 ''r'' toy_address, Verify 9 toy_address ''ab'', Verify 9 toy_address ''ab''])) \<le> 1"
proof
  show "given toy_address (snd (foldl (auth_step toy_env) ([], []) [Challenge 0 ''r'' toy_address, Verify 9 toy_address ''ab''])) = 1"
    by code_simp
  have "asked toy_address (snd (foldl (auth_step toy_env) ([], []) [Challenge 0 ''r'' toy_address, Verify 9 toy_address ''ab'', Verify 9 toy_address ''ab''])) = 1"
    by code_simp
  then show "given toy_address (snd (foldl (auth_step toy_env) ([], []) [Challenge 0 ''r'' toy_address, Verify 9 toy_address ''ab'', Verify 9 toy_address ''ab''])) \<le> 1"
    using challenge_single_use [OF refl, where env = toy_env and a = toy_address
      and ops = "[Challenge 0 ''r'' toy_address, Verify 9 toy_address ''ab'', Verify 9 toy_address ''ab'']", THEN conjunct1] by simp
qed

subsection \<open>Reading tokens back\<close>

lemma b64_no_dot: "\<forall>x \<in> set bs. x < 256 \<Longrightarrow> CHR ''.'' \<notin> set (b64_encode bs)"
proof -
  have d: "n < 64 \<Longrightarrow> CHR ''.'' \<noteq> b64_char n" for n
    using nth_mem [of n b64_alphabet] by (auto simp: b64_char_def b64_alphabet_def)
  assume "\<forall>x \<in> set bs. x < 256"
  then show ?thesis
  proof (induction bs rule: b64_encode.induct)
    case (4 a b c r)
    have "a mod 4 * 16 + b div 16 < 64" "b mod 16 * 4 + c div 64 < 64" "a div 4 < 64" "c mod 64 < 64" using 4 by auto
    then show ?case using 4 by (simp add: d)
  next
    case (2 a)
    then have "a div 4 < 64" "a mod 4 * 16 < 64" by auto
    then show ?case by (simp add: d)
  next
    case (3 a b)
    then have "a div 4 < 64" "a mod 4 * 16 + b div 16 < 64" "b mod 16 * 4 < 64" by auto
    then show ?case by (simp add: d)
  qed simp
qed

lemma b64_encode_Nil: "b64_encode bs = [] \<longleftrightarrow> bs = []"
  by (cases bs rule: b64_encode.cases) auto

lemma utf8_text_bound: "\<forall>x \<in> set (utf8_text s). x < 256"
  by (auto simp: utf8_text_def dest: utf8_bytes_bound)

lemma json_b64_text: "CHR ''.'' \<notin> set (json_b64 env v)" "b64_decode (json_b64 env v) = utf8_text (nullish (stringify (ae_num env) v) ''undefined'')"
  unfolding json_b64_def by (rule b64_no_dot, rule utf8_text_bound) (rule b64_decode_encode, rule utf8_text_bound)

lemma json_b64_not_Nil: "json_b64 env (JObj ps) \<noteq> []"
proof -
  have "utf8_text (nullish (stringify (ae_num env) (JObj ps)) ''undefined'') \<noteq> []"
    by (simp add: utf8_text_def utf8_bytes_def)
  then show ?thesis by (simp add: json_b64_def b64_encode_Nil)
qed

text \<open>C30: a token made for an address is read back as that address until a day has passed, to the second, and refused from then
  on; under another secret whose code differs it is refused at once.\<close>

theorem token_roundtrip:
  assumes sig: "\<And>k d. ae_hmac env k d \<noteq> []" "\<And>k d. CHR ''.'' \<notin> set (ae_hmac env k d)"
    and parse: "ae_parse env (utf8_text (nullish (stringify (ae_num env) (jwt_body t a)) ''undefined'')) = Some (jwt_body t a)"
  shows "validateToken env now (createJwt env t a) =
      (if now div 1000 \<le> t div 1000 + 86400
       then Inr \<lparr>ck_sub = a, ck_iat = Fin (of_int (t div 1000)), ck_exp = Fin (of_int (t div 1000 + 86400))\<rparr>
       else Inl (Unauthorized ''Invalid or expired token''))
    \<and> ((\<forall>d. ae_hmac env k d \<noteq> ae_hmac env (ae_secret env) d) \<longrightarrow>
        validateToken (env\<lparr>ae_secret := k\<rparr>) now (createJwt env t a) = Inl (Unauthorized ''Invalid or expired token''))"
proof -
  define h where "h = json_b64 env (JObj [(''alg'', JStr ''HS256''), (''typ'', JStr ''JWT'')])"
  define b where "b = json_b64 env (jwt_body t a)"
  define g where "g = hmacSign env (h @ ''.'' @ b)"
  have ne: "h \<noteq> []" "b \<noteq> []" "g \<noteq> []" using sig(1) by (simp_all add: h_def b_def g_def hmacSign_def jwt_body_def Let_def json_b64_not_Nil)
  have nd: "CHR ''.'' \<notin> set h" "CHR ''.'' \<notin> set b" "CHR ''.'' \<notin> set g"
    using sig(2) by (simp_all add: h_def b_def g_def hmacSign_def json_b64_text)
  have tok: "createJwt env t a = h @ CHR ''.'' # b @ CHR ''.'' # g"
    by (simp add: createJwt_def h_def b_def g_def Let_def)
  have split: "split_on (CHR ''.'') (createJwt env t a) = [h, b, g]"
    unfolding tok using nd by (simp add: split_on_append split_on_notin)
  have body: "ae_parse env (b64_decode b) = Some (jwt_body t a)" unfolding b_def json_b64_text(2) by (rule parse)
  have claims: "claims_of now (jwt_body t a) = (if now div 1000 \<le> t div 1000 + 86400
       then Some \<lparr>ck_sub = a, ck_iat = Fin (of_int (t div 1000)), ck_exp = Fin (of_int (t div 1000 + 86400))\<rparr> else None)"
  proof -
    have "num_less (Fin (of_int (t div 1000 + 86400))) (Fin (of_int (now div 1000))) \<longleftrightarrow> \<not> now div 1000 \<le> t div 1000 + 86400"
      by (simp only: num_less.simps of_int_less_iff not_le)
    then show ?thesis by (simp add: claims_of_def jwt_body_def data_field_def Let_def jget_def)
  qed
  show ?thesis
    unfolding validateToken_def split using ne body claims by (auto simp: g_def hmacSign_def)
qed

lemma token_roundtrip_witness:
  "validateToken toy_env 6000 (createJwt toy_env 5000 ''G'') = Inr \<lparr>ck_sub = ''G'', ck_iat = Fin 5, ck_exp = Fin 86405\<rparr>"
  using token_roundtrip [of toy_env 5000 "''G''" 6000 "''k''", THEN conjunct1] by (simp add: toy_env_def)

text \<open>No request reaches an administrator's route: with the token guard before the administrator's guard the user it sets has
  no administrator's mark, with the optional one neither, and without one there is no user at all.\<close>

theorem admin_unreachable:
  assumes "gr_user r = None"
  shows "admin_guard r = Inl (Unauthorized ''Authentication required'')
    \<and> (\<exists>x. admin_guard (optional_jwt_guard env now r) = Inl x)
    \<and> (case jwt_guard env now r of
        Inl x \<Rightarrow> \<exists>m. x = Unauthorized m
      | Inr r' \<Rightarrow> admin_guard r' = Inl (Forbidden ''Admin privileges required'') \<and> current_user r' \<noteq> None)"
proof -
  have v: "validateToken env now t = Inl x \<Longrightarrow> \<exists>m. x = Unauthorized m" for t x
    by (auto simp: validateToken_def split: option.splits)
  show ?thesis
    using assms v
    by (auto simp: jwt_guard_def optional_jwt_guard_def admin_guard_def token_user_def result_bind_def current_user_def
        split: option.split sum.split)
qed

lemma admin_unreachable_witness:
  "admin_guard \<lparr>gr_authorization = Some ''Bearer x'', gr_user = None\<rparr> = Inl (Unauthorized ''Authentication required'')"
  using admin_unreachable [of "\<lparr>gr_authorization = Some ''Bearer x'', gr_user = None\<rparr>" toy_env 0] by simp

end
