(* ===== verification/Calls.thy ===== *)
theory Calls
  imports Entities UserRows JsArith JsString
begin

text \<open>
  \<^verbatim>\<open>packages/backend/src/calls\<close>, \<^verbatim>\<open>admin/admin.service.ts\<close>, \<^verbatim>\<open>stakes/stakes.service.ts\<close> and \<^verbatim>\<open>storage/ipfs.service.ts\<close>:
  the feeds of visible calls and their search, the preparation of a call, reports and what administrators do about them,
  and the trending scores. The tables are lists of rows; equal rows of a query's order stay in the order of the table;
  the exponential function is an argument.
\<close>

subsection \<open>IPFS\<close>

text \<open>All contents are pinned by a stand-in that makes up an identifier from the time and a random text.\<close>

definition pinCallContent :: "int \<Rightarrow> string \<Rightarrow> string" where
  "pinCallContent now rnd = ''mock_cid_'' @ int_text now @ ''_'' @ rnd"

definition pinOracleEvidence :: "int \<Rightarrow> string \<Rightarrow> string" where
  "pinOracleEvidence now rnd = ''mock_evidence_cid_'' @ int_text now @ ''_'' @ rnd"

definition pinEvidencePayload :: "int \<Rightarrow> int \<Rightarrow> string \<Rightarrow> string" where
  "pinEvidencePayload callId now rnd = ''bafyevidence_'' @ int_text callId @ ''_'' @ int_text now @ ''_'' @ rnd"

definition getGatewayUrl :: "string option \<Rightarrow> string \<Rightarrow> string" where
  "getGatewayUrl gateway cid =
     (case gateway of Some g \<Rightarrow> if g = [] then ''https://ipfs.io/ipfs'' else g | None \<Rightarrow> ''https://ipfs.io/ipfs'') @ ''/'' @ cid"

definition pinJson :: "string option \<Rightarrow> int \<Rightarrow> string \<Rightarrow> string" where
  "pinJson ipfsMock now rnd =
     (if ipfsMock \<noteq> Some ''false'' then ''ipfs_mock_cid_'' @ int_text now @ ''_'' @ rnd else ''bafy_pinata_'' @ int_text now)"

text \<open>\<open>pin n\<close> is the outcome of attempt \<open>n\<close>; the result has the waits in milliseconds.\<close>

function prepare_loop :: "(nat \<Rightarrow> string option) \<Rightarrow> nat \<Rightarrow> nat list \<times> string option" where
  "prepare_loop pin attempts =
     (if attempts < 3 then
        (case pin attempts of
           Some cid \<Rightarrow> ([], Some cid)
         | None \<Rightarrow>
             if attempts + 1 \<ge> 3 then ([], None)
             else (case prepare_loop pin (attempts + 1) of (waits, r) \<Rightarrow> (1000 * (attempts + 1) # waits, r)))
      else ([], None))"
  by pat_completeness auto
termination by (relation "measure (\<lambda>(_, attempts). 3 - attempts)") auto

datatype call_exn = CallNotFound string | CallConflict string | PinningFailed string

definition prepareCall :: "string option \<Rightarrow> (nat \<Rightarrow> string option) \<Rightarrow> call_exn + string \<times> string" where
  "prepareCall gateway pin = (case snd (prepare_loop pin 0) of
      None \<Rightarrow> Inl (PinningFailed ''IPFS pinning failed after retries'')
    | Some cid \<Rightarrow> Inr (cid, getGatewayUrl gateway cid))"

subsection \<open>Feeds\<close>

definition visible_calls :: "call_row list \<Rightarrow> call_row list" where
  "visible_calls calls = filter (\<lambda>c. \<not> cl_isHidden c) calls"

definition newest_first :: "call_row list \<Rightarrow> call_row list" where
  "newest_first = sort_key (\<lambda>c. - cl_createdAt c)"

definition rows_and_count :: "nat \<Rightarrow> nat \<Rightarrow> 'a list \<Rightarrow> 'a list \<times> nat" where
  "rows_and_count page limit rows = (window ((page - 1) * limit) limit rows, length rows)"

definition findVisibleById :: "string \<Rightarrow> call_row list \<Rightarrow> call_row option" where
  "findVisibleById i calls = find (\<lambda>c. cl_id c = i) (visible_calls calls)"

definition findFeed :: "nat \<Rightarrow> nat \<Rightarrow> call_row list \<Rightarrow> call_row list \<times> nat" where
  "findFeed page limit calls = rows_and_count page limit (newest_first (visible_calls calls))"

text \<open>The scores are those of the trending table; a call without one counts as 0.\<close>

definition findTrendingFeed :: "(string \<times> rat) list \<Rightarrow> nat \<Rightarrow> nat \<Rightarrow> call_row list \<Rightarrow> call_row list \<times> nat" where
  "findTrendingFeed scores page limit calls = rows_and_count page limit
     (sort_key (\<lambda>c. - nullish (row_get scores (cl_id c)) 0) (newest_first (visible_calls calls)))"

text \<open>\<open>LIKE\<close>: \<open>%\<close> is any text, \<open>_\<close> any character, and a backslash takes the next as it is.\<close>

fun sql_like :: "string \<Rightarrow> string \<Rightarrow> bool" where
  "sql_like [] s = (s = [])"
| "sql_like (c # p) s =
     (if c = CHR ''%'' then sql_like p s \<or> (case s of [] \<Rightarrow> False | _ # t \<Rightarrow> sql_like (c # p) t)
      else if c = CHR ''_'' then (case s of [] \<Rightarrow> False | _ # t \<Rightarrow> sql_like p t)
      else if c = CHR 0x5C then (case (p, s) of (d # q, x # t) \<Rightarrow> x = d \<and> sql_like q t | _ \<Rightarrow> False)
      else (case s of [] \<Rightarrow> False | x # t \<Rightarrow> x = c \<and> sql_like p t))"

definition searchVisible :: "string \<Rightarrow> nat \<Rightarrow> nat \<Rightarrow> call_row list \<Rightarrow> call_row list \<times> nat" where
  "searchVisible q page limit calls =
     (let pattern = ''%'' @ to_lower q @ ''%''
      in rows_and_count page limit (newest_first (filter (\<lambda>c. sql_like pattern (to_lower (cl_title c))
           \<or> (case cl_description c of Some d \<Rightarrow> sql_like pattern (to_lower d) | None \<Rightarrow> False)) (visible_calls calls))))"

record calls_query =
  qc_search :: "string option"
  qc_page :: "nat option"
  qc_limit :: "nat option"

definition paginated :: "calls_query \<Rightarrow> (nat \<Rightarrow> nat \<Rightarrow> 'a list \<times> nat) \<Rightarrow> 'a list \<times> nat \<times> nat \<times> nat" where
  "paginated q f = (let page = nullish (qc_page q) 1; limit = nullish (qc_limit q) 20
     in case f page limit of (d, n) \<Rightarrow> (d, n, page, limit))"

definition calls_getFeed :: "calls_query \<Rightarrow> call_row list \<Rightarrow> call_row list \<times> nat \<times> nat \<times> nat" where
  "calls_getFeed q calls = paginated q (\<lambda>page limit. findFeed page limit calls)"

definition calls_search :: "calls_query \<Rightarrow> call_row list \<Rightarrow> call_row list \<times> nat \<times> nat \<times> nat" where
  "calls_search q calls = paginated q (\<lambda>page limit. searchVisible (nullish (qc_search q) []) page limit calls)"

subsection \<open>Reports\<close>

datatype report_reason = SPAM | MISLEADING | OFFENSIVE | MARKET_MANIPULATION | OTHER_REASON

record call_report =
  rp_callId :: string
  rp_reporterAddress :: string
  rp_reason :: report_reason
  rp_createdAt :: int

record moderation =
  mo_calls :: "call_row list"
  mo_reports :: "call_report list"
  mo_users :: "user_row list"

definition REPORTS_TO_HIDE :: nat where "REPORTS_TO_HIDE = 5"

definition find_call :: "string \<Rightarrow> call_row list \<Rightarrow> call_row option" where
  "find_call i calls = find_by cl_id i calls"

definition getCallOrThrow :: "string \<Rightarrow> call_row list \<Rightarrow> call_exn + call_row" where
  "getCallOrThrow i calls = (case find_call i calls of Some c \<Rightarrow> Inr c | None \<Rightarrow> Inl (CallNotFound ''Call not found''))"

definition save_call :: "call_row \<Rightarrow> call_row list \<Rightarrow> call_row list" where
  "save_call c calls = save_by cl_id c calls"

definition reportCall ::
  "int \<Rightarrow> string \<Rightarrow> string \<Rightarrow> report_reason \<Rightarrow> moderation \<Rightarrow> moderation \<times> (call_exn + nat \<times> bool)" where
  "reportCall now i reporter reason s = (case find_call i (mo_calls s) of
      None \<Rightarrow> (s, Inl (CallNotFound ''Call not found''))
    | Some call \<Rightarrow>
        if length (filter (\<lambda>r. rp_reporterAddress r = reporter \<and> rp_createdAt r > now - 60 * 60 * 1000) (mo_reports s)) \<ge> 10
        then (s, Inl (CallConflict ''Rate limit exceeded: max 10 reports per hour''))
        else if \<exists>r \<in> set (mo_reports s). rp_callId r = i \<and> rp_reporterAddress r = reporter
        then (s, Inl (CallConflict ''You have already reported this call''))
        else
          (let n = cl_reportCount call + 1;
               call' = call\<lparr>cl_reportCount := n, cl_isHidden := (if n \<ge> REPORTS_TO_HIDE then True else cl_isHidden call)\<rparr>
           in (s\<lparr>mo_reports := mo_reports s @ [\<lparr>rp_callId = i, rp_reporterAddress = reporter, rp_reason = reason, rp_createdAt = now\<rparr>],
                 mo_calls := save_call call' (mo_calls s)\<rparr>,
               Inr (cl_reportCount call', cl_isHidden call'))))"

subsection \<open>Administration\<close>

datatype admin_exn = AdminNotFound string | AdminBadRequest string

definition findCallOrThrow_admin :: "string \<Rightarrow> moderation \<Rightarrow> admin_exn + call_row" where
  "findCallOrThrow_admin i s = (case find_call i (mo_calls s) of
      Some c \<Rightarrow> Inr c | None \<Rightarrow> Inl (AdminNotFound (''Call '' @ i @ '' not found'')))"


definition listCalls :: "call_status option \<Rightarrow> nat \<Rightarrow> nat \<Rightarrow> moderation \<Rightarrow> call_row list \<times> nat" where
  "listCalls status page limit s = rows_and_count page limit (newest_first
     (filter (\<lambda>c. case status of None \<Rightarrow> True | Some st \<Rightarrow> cl_status c = st) (mo_calls s)))"


definition unhideCall :: "string \<Rightarrow> moderation \<Rightarrow> moderation \<times> (admin_exn + call_row)" where
  "unhideCall i s = and_then (s, findCallOrThrow_admin i s) (\<lambda>s call.
     if \<not> cl_isHidden call then (s, Inl (AdminBadRequest ''Call is not hidden''))
     else (let c = call\<lparr>cl_isHidden := False\<rparr> in (s\<lparr>mo_calls := save_call c (mo_calls s)\<rparr>, Inr c)))"





record admin_stats =
  ad_activeUsersToday :: nat
  ad_pendingReports :: nat
  ad_pausedCalls :: nat

definition getAdminStats :: "int \<Rightarrow> moderation \<Rightarrow> admin_stats" where
  "getAdminStats now s =
     (let startOfDay = now div 86400000 * 86400000;
          joined = concat (map (\<lambda>r. map (\<lambda>c. (r, c)) (filter (\<lambda>c. cl_id c = rp_callId r) (mo_calls s))) (mo_reports s))
      in \<lparr>ad_activeUsersToday = length (filter (\<lambda>u. ur_updatedAt u \<ge> startOfDay) (mo_users s)),
          ad_pendingReports = length (filter (\<lambda>(r, c). cl_status c \<noteq> CS_RESOLVED_YES \<and> cl_status c \<noteq> CS_RESOLVED_NO) joined),
          ad_pausedCalls = length (filter (\<lambda>c. cl_status c = CS_PAUSED) (mo_calls s))\<rparr>)"

subsection \<open>Stakes and trending scores\<close>

text \<open>A stake here is its caller, its call, its amount and its time (\<^verbatim>\<open>stakes/entities/stake.entity.ts\<close>).\<close>

record call_stake =
  st_userAddress :: string
  st_callId :: string
  st_amount :: rat
  st_createdAt :: int

definition hasStake :: "string \<Rightarrow> string \<Rightarrow> call_stake list \<Rightarrow> bool" where
  "hasStake userAddress callId stakes =
     (if userAddress = [] then False
      else length (filter (\<lambda>k. st_userAddress k = userAddress \<and> st_callId k = callId) stakes) > 0)"

record trending_inputs =
  ti_stakeVolume24h :: rat
  ti_stakerCount24h :: nat
  ti_createdAt :: int
  ti_now :: int

record trending_score =
  tr_score :: rat
  tr_stakeVolume24h :: rat
  tr_stakerCount24h :: nat
  tr_recencyBonus :: rat
  tr_timeDecay :: rat

definition age_hours :: "trending_inputs \<Rightarrow> rat" where
  "age_hours i = of_int (max 0 (ti_now i - ti_createdAt i)) / (1000 * 60 * 60)"

definition recency_bonus :: "rat \<Rightarrow> rat" where
  "recency_bonus h = (if h \<le> 6 then (6 - h) * 10 else 0)"

definition computeTrendingScore :: "(rat \<Rightarrow> rat) \<Rightarrow> trending_inputs \<Rightarrow> trending_score" where
  "computeTrendingScore expo i =
     (let ageHours = age_hours i; recencyBonus = recency_bonus ageHours; timeDecay = expo (ageHours / 24);
          numerator = ti_stakeVolume24h i * 2 + of_nat (ti_stakerCount24h i) * 3 + recencyBonus
      in \<lparr>tr_score = numerator / timeDecay, tr_stakeVolume24h = ti_stakeVolume24h i, tr_stakerCount24h = ti_stakerCount24h i,
          tr_recencyBonus = recencyBonus, tr_timeDecay = timeDecay\<rparr>)"

record trending_row =
  tw_score :: string
  tw_stakeVolume24h :: string
  tw_stakerCount24h :: nat
  tw_recencyBonus :: string
  tw_timeDecay :: string

definition trending_row_of :: "(rat \<Rightarrow> string) \<Rightarrow> trending_score \<Rightarrow> trending_row" where
  "trending_row_of p b = \<lparr>tw_score = to_fixed p 10 (Fin (tr_score b)), tw_stakeVolume24h = to_fixed p 10 (Fin (tr_stakeVolume24h b)),
     tw_stakerCount24h = tr_stakerCount24h b, tw_recencyBonus = to_fixed p 10 (Fin (tr_recencyBonus b)),
     tw_timeDecay = to_fixed p 10 (Fin (tr_timeDecay b))\<rparr>"

definition trending_inputs_of :: "int \<Rightarrow> call_stake list \<Rightarrow> call_row \<Rightarrow> trending_inputs" where
  "trending_inputs_of now stakes c =
     (let ks = filter (\<lambda>k. st_callId k = cl_id c \<and> st_createdAt k \<ge> now - 24 * 60 * 60 * 1000) stakes
      in \<lparr>ti_stakeVolume24h = sum_list (map st_amount ks), ti_stakerCount24h = length (remdups (map st_userAddress ks)),
          ti_createdAt = cl_createdAt c, ti_now = now\<rparr>)"

definition recomputeAll ::
  "(rat \<Rightarrow> string) \<Rightarrow> (rat \<Rightarrow> rat) \<Rightarrow> int \<Rightarrow> call_row list \<Rightarrow> call_stake list \<Rightarrow> (string \<times> trending_row) list \<Rightarrow> (string \<times> trending_row) list \<times> nat" where
  "recomputeAll p expo now calls stakes rows =
     (let shown = visible_calls calls
      in (foldl (\<lambda>rows c. map_set (cl_id c) (trending_row_of p (computeTrendingScore expo (trending_inputs_of now stakes c))) rows) rows shown,
          length shown))"

subsection \<open>Preparation and search\<close>

declare prepare_loop.simps [simp del]

text \<open>A call is prepared by the first of three attempts that succeeds, after at most three seconds of waiting.\<close>

lemma prepare_first_success:
  "snd (prepare_loop pin 0) = (case pin 0 of Some c \<Rightarrow> Some c | None \<Rightarrow> (case pin 1 of Some c \<Rightarrow> Some c | None \<Rightarrow> pin 2))"
  "sum_list (fst (prepare_loop pin 0)) \<le> 3000"
proof -
  have two: "prepare_loop pin 2 = ([], pin 2)" by (subst prepare_loop.simps) (simp split: option.split)
  have one: "prepare_loop pin 1 = (case pin 1 of Some c \<Rightarrow> ([], Some c) | None \<Rightarrow> ([2000], pin 2))"
    by (subst prepare_loop.simps) (simp add: two [unfolded numeral_2_eq_2] numeral_2_eq_2 split: option.split)
  have "prepare_loop pin 0 = (case pin 0 of Some c \<Rightarrow> ([], Some c) | None \<Rightarrow>
      (case pin 1 of Some c \<Rightarrow> ([1000], Some c) | None \<Rightarrow> ([1000, 2000], pin 2)))"
    by (subst prepare_loop.simps) (simp add: one [simplified] split: option.split)
  then show "snd (prepare_loop pin 0) = (case pin 0 of Some c \<Rightarrow> Some c | None \<Rightarrow> (case pin 1 of Some c \<Rightarrow> Some c | None \<Rightarrow> pin 2))"
    "sum_list (fst (prepare_loop pin 0)) \<le> 3000" by (simp_all split: option.split)
qed

definition plain_char :: "char \<Rightarrow> bool" where
  "plain_char c \<longleftrightarrow> c \<noteq> CHR ''%'' \<and> c \<noteq> CHR ''_'' \<and> c \<noteq> CHR 0x5C"

lemma like_percent: "sql_like (CHR ''%'' # p) s \<longleftrightarrow> (\<exists>u v. s = u @ v \<and> sql_like p v)"
proof (induction s)
  case (Cons x s)
  have "sql_like (CHR ''%'' # p) (x # s) \<longleftrightarrow> sql_like p (x # s) \<or> sql_like (CHR ''%'' # p) s" by simp
  also have "\<dots> \<longleftrightarrow> (\<exists>u v. x # s = u @ v \<and> sql_like p v)" unfolding Cons.IH by (auto simp: Cons_eq_append_conv)
  finally show ?case .
qed simp

lemma like_plain: "list_all plain_char t \<Longrightarrow> sql_like (t @ p) s \<longleftrightarrow> (\<exists>r. s = t @ r \<and> sql_like p r)"
  by (induction t arbitrary: s) (auto simp: plain_char_def split: list.splits)

declare sql_like.simps [simp del]

lemma like_any: "sql_like ''%'' s"
  using like_percent [of "[]" s] by (auto simp: sql_like.simps(1))

text \<open>A search without wildcards finds the visible calls whose title or description contains it, whatever the case of the
  letters.\<close>

lemma like_contains: "list_all plain_char t \<Longrightarrow> sql_like (''%'' @ t @ ''%'') s \<longleftrightarrow> js_includes s t"
  unfolding js_includes_iff append_Cons append_Nil like_percent [of "t @ ''%''"] like_plain [of t "''%''"] using like_any by auto

lemma search_contains:
  assumes "list_all plain_char (to_lower q)"
  shows "searchVisible q page limit calls = rows_and_count page limit (newest_first
    (filter (\<lambda>c. js_includes (to_lower (cl_title c)) (to_lower q)
      \<or> (case cl_description c of Some d \<Rightarrow> js_includes (to_lower d) (to_lower q) | None \<Rightarrow> False)) (visible_calls calls)))"
  unfolding searchVisible_def Let_def like_contains [OF assms] ..

text \<open>A wildcard in the search finds every call.\<close>

lemma search_wildcard: "searchVisible ''%'' page limit calls = findFeed page limit calls"
proof -
  have "sql_like ''%%'' s" for s using like_percent [of "''%''" s] like_any by auto
  then have "sql_like ''%%%'' s" for s using like_percent [of "''%%''" s] by auto
  moreover have "to_lower ''%'' = ''%''" by code_simp
  ultimately show ?thesis by (simp add: searchVisible_def findFeed_def)
qed

subsection \<open>Moderation\<close>













text \<open>A call an administrator shows again is hidden by its next report, as its count stays.\<close>

lemma shown_again_hidden_by_next:
  assumes "reportCall now i a reason (fst (unhideCall i s)) = (s', Inr (n, hidden))" "find_call i (mo_calls s) = Some c"
    "cl_id c = i" "cl_isHidden c" "cl_reportCount c \<ge> 5" "distinct (map cl_id (mo_calls s))"
  shows "hidden"
proof -
  have "find_call i (mo_calls (fst (unhideCall i s))) = Some (c\<lparr>cl_isHidden := False\<rparr>)"
    using assms(2-4,6) find_after_save [of cl_id "mo_calls s" i c "c\<lparr>cl_isHidden := False\<rparr>" i]
    by (simp add: unhideCall_def findCallOrThrow_admin_def Let_def find_call_def save_call_def)
  then show ?thesis using assms(1,5) by (auto simp: reportCall_def Let_def REPORTS_TO_HIDE_def split: if_splits)
qed

subsection \<open>Trending\<close>

text \<open>With an exponential that is positive and grows, a score grows with volume and stakers and falls with age.\<close>

lemma trending_monotone:
  fixes expo :: "rat \<Rightarrow> rat"
  assumes pos: "\<And>x. 0 \<le> x \<Longrightarrow> 0 < expo x" and mono: "\<And>x y. 0 \<le> x \<Longrightarrow> x \<le> y \<Longrightarrow> expo x \<le> expo y"
    and i: "ti_stakeVolume24h i \<le> ti_stakeVolume24h j" "ti_stakerCount24h i \<le> ti_stakerCount24h j"
      "0 \<le> ti_stakeVolume24h i" "ti_now i = ti_now j" "ti_createdAt i \<le> ti_createdAt j"
  shows "tr_score (computeTrendingScore expo i) \<le> tr_score (computeTrendingScore expo j)"
proof -
  have a: "0 \<le> age_hours j" "age_hours j \<le> age_hours i" using i(4,5) by (auto simp: age_hours_def divide_right_mono)
  have r: "recency_bonus (age_hours i) \<le> recency_bonus (age_hours j)" "0 \<le> recency_bonus (age_hours i)"
    using a by (auto simp: recency_bonus_def)
  have e: "0 < expo (age_hours j / 24)" "expo (age_hours j / 24) \<le> expo (age_hours i / 24)"
    using pos mono a by (simp_all add: divide_right_mono)
  define m where "m k = ti_stakeVolume24h k * 2 + of_nat (ti_stakerCount24h k) * 3 + recency_bonus (age_hours k)" for k :: trending_inputs
  have "(of_nat (ti_stakerCount24h i) :: rat) \<le> of_nat (ti_stakerCount24h j)" using i(2) by simp
  then have "m i \<le> m j" "0 \<le> m i" using i(1,3) r by (simp_all add: m_def)
  then have "m i / expo (age_hours i / 24) \<le> m j / expo (age_hours j / 24)" using e by (intro frac_le) auto
  then show ?thesis by (simp add: computeTrendingScore_def Let_def m_def)
qed

end
