(* ===== verification/Social.thy ===== *)
theory Social
  imports Calls Tokens Notifications
begin

text \<open>
  What users do around a call: bookmarks (\<^verbatim>\<open>bookmarks\<close>), comments (\<^verbatim>\<open>comments\<close>), the activity log (\<^verbatim>\<open>activity\<close>) and
  price alerts (\<^verbatim>\<open>alerts\<close>) with their scheduler, which asks the token service for prices and notifies through the
  notification service.
\<close>

subsection \<open>Bookmarks\<close>

record bookmark =
  bm_userAddress :: string
  bm_callId :: string
  bm_createdAt :: int

datatype social_exn = SocialNotFound string | SocialConflict string | SocialBadRequest string | SocialForbidden string

definition marks :: "string \<Rightarrow> string \<Rightarrow> bookmark \<Rightarrow> bool" where
  "marks u i b \<longleftrightarrow> bm_userAddress b = u \<and> bm_callId b = i"

definition addBookmark :: "int \<Rightarrow> call_row list \<Rightarrow> string \<Rightarrow> string \<Rightarrow> bookmark list \<Rightarrow> bookmark list \<times> (social_exn + bookmark)" where
  "addBookmark now calls u i bs = (case find_call i calls of
      None \<Rightarrow> (bs, Inl (SocialNotFound ''Call not found''))
    | Some _ \<Rightarrow>
        if \<exists>b \<in> set bs. marks u i b then (bs, Inl (SocialConflict ''Market already bookmarked''))
        else (let b = \<lparr>bm_userAddress = u, bm_callId = i, bm_createdAt = now\<rparr> in (bs @ [b], Inr b)))"

definition removeBookmark :: "string \<Rightarrow> string \<Rightarrow> bookmark list \<Rightarrow> bookmark list \<times> (social_exn + unit)" where
  "removeBookmark u i bs =
     (if \<exists>b \<in> set bs. marks u i b then (filter (\<lambda>b. \<not> marks u i b) bs, Inr ())
      else (bs, Inl (SocialNotFound ''Bookmark not found'')))"

definition getBookmarks :: "call_row list \<Rightarrow> string \<Rightarrow> int \<Rightarrow> int \<Rightarrow> bookmark list \<Rightarrow> (bookmark \<times> call_row option) list \<times> nat \<times> int \<times> int" where
  "getBookmarks calls u page limit bs =
     (let safePage = (if page < 1 then 1 else page); safeLimit = (if limit < 1 then 20 else limit);
          mine = sort_key (\<lambda>b. - bm_createdAt b) (filter (\<lambda>b. bm_userAddress b = u) bs)
      in (map (\<lambda>b. (b, find_call (bm_callId b) calls)) (window (nat ((safePage - 1) * safeLimit)) (nat safeLimit) mine),
          length mine, safePage, safeLimit))"

definition getBookmarkCount :: "string \<Rightarrow> bookmark list \<Rightarrow> nat" where
  "getBookmarkCount i bs = length (filter (\<lambda>b. bm_callId b = i) bs)"

definition getBookmarkCounts :: "string list \<Rightarrow> bookmark list \<Rightarrow> (string \<times> nat) list" where
  "getBookmarkCounts ids bs =
     (if ids = [] then []
      else (let rows = filter (\<lambda>b. bm_callId b \<in> set ids) bs
            in map (\<lambda>i. (i, length (filter (\<lambda>b. bm_callId b = i) rows))) (remdups (map bm_callId rows))))"

definition isBookmarked :: "string \<Rightarrow> string \<Rightarrow> bookmark list \<Rightarrow> bool" where
  "isBookmarked u i bs = (u \<noteq> [] \<and> length (filter (marks u i) bs) > 0)"

definition getBookmarkedCallIds :: "string \<Rightarrow> string list \<Rightarrow> bookmark list \<Rightarrow> string list" where
  "getBookmarkedCallIds u ids bs =
     (if u = [] \<or> ids = [] then []
      else remdups (map bm_callId (filter (\<lambda>b. bm_userAddress b = u \<and> bm_callId b \<in> set ids) bs)))"

record enriched_call =
  en_call :: call_row
  en_bookmarkCount :: nat
  en_isBookmarked :: "bool option"

definition withBookmarkInfo :: "string option \<Rightarrow> bookmark list \<Rightarrow> call_row list \<Rightarrow> enriched_call list" where
  "withBookmarkInfo viewer bs calls =
     (let ids = map cl_id calls; counts = getBookmarkCounts ids bs;
          viewed = (case non_empty viewer of Some u \<Rightarrow> Some (getBookmarkedCallIds u ids bs) | None \<Rightarrow> None)
      in map (\<lambda>c. \<lparr>en_call = c, en_bookmarkCount = nullish (map_of counts (cl_id c)) 0,
           en_isBookmarked = map_option (\<lambda>s. cl_id c \<in> set s) viewed\<rparr>) calls)"

subsection \<open>Comments\<close>

record comment =
  cm_id :: string
  cm_callId :: string
  cm_authorAddress :: string
  cm_content :: string
  cm_parentId :: "string option"
  cm_createdAt :: int

definition find_comment :: "string \<Rightarrow> comment list \<Rightarrow> comment option" where
  "find_comment i cs = find_by cm_id i cs"

definition createComment ::
  "int \<Rightarrow> string \<Rightarrow> call_row list \<Rightarrow> string \<Rightarrow> string \<Rightarrow> string \<Rightarrow> string option \<Rightarrow> comment list \<Rightarrow> comment list \<times> (social_exn + comment)" where
  "createComment now newId calls callId author content parentId cs =
     (case find_call callId calls of
        None \<Rightarrow> (cs, Inl (SocialNotFound ''Call not found''))
      | Some _ \<Rightarrow>
          if length (filter (\<lambda>c. cm_callId c = callId) cs) \<ge> 100
          then (cs, Inl (SocialBadRequest ''Max 100 comments reached for this call''))
          else if length (filter (\<lambda>c. cm_callId c = callId \<and> cm_authorAddress c = author) cs) \<ge> 20
          then (cs, Inl (SocialBadRequest ''Max 20 comments reached per user for this call''))
          else (case (case non_empty parentId of
              None \<Rightarrow> None
            | Some p \<Rightarrow> (case find_comment p cs of
                None \<Rightarrow> Some ''Parent comment not found''
              | Some parent \<Rightarrow> if cm_callId parent \<noteq> callId then Some ''Parent comment belongs to a different call'' else None)) of
            Some e \<Rightarrow> (cs, Inl (SocialBadRequest e))
          | None \<Rightarrow>
              (let c = \<lparr>cm_id = newId, cm_callId = callId, cm_authorAddress = author, cm_content = content,
                   cm_parentId = non_empty parentId, cm_createdAt = now\<rparr>
               in (cs @ [c], Inr c))))"

definition replies_of :: "string \<Rightarrow> comment \<Rightarrow> comment list \<Rightarrow> comment list" where
  "replies_of callId parent cs =
     sort_key cm_createdAt (filter (\<lambda>c. cm_callId c = callId \<and> cm_parentId c = Some (cm_id parent)) cs)"

definition getComments ::
  "call_row list \<Rightarrow> string \<Rightarrow> nat \<Rightarrow> nat \<Rightarrow> comment list \<Rightarrow> social_exn + (comment \<times> comment list) list \<times> nat" where
  "getComments calls callId page limit cs = (case find_call callId calls of
      None \<Rightarrow> Inl (SocialNotFound ''Call not found'')
    | Some _ \<Rightarrow>
        (let tops = filter (\<lambda>c. cm_callId c = callId \<and> cm_parentId c = None) cs;
             parents = window ((page - 1) * limit) limit (sort_key (\<lambda>c. - cm_createdAt c) tops)
         in Inr (map (\<lambda>p. (p, replies_of callId p cs)) parents, length tops)))"

text \<open>The database deletes the replies of a deleted row with it; a reply comes after its parent.\<close>

definition gone_ids :: "string \<Rightarrow> comment list \<Rightarrow> string list" where
  "gone_ids i cs = foldl (\<lambda>gone c. if cm_id c = i \<or> (case cm_parentId c of Some p \<Rightarrow> p \<in> set gone | None \<Rightarrow> False)
     then cm_id c # gone else gone) [] cs"

definition remove_comment :: "string \<Rightarrow> comment list \<Rightarrow> comment list" where
  "remove_comment i cs = filter (\<lambda>c. cm_id c \<notin> set (gone_ids i cs)) cs"

definition deleteComment ::
  "string \<Rightarrow> string \<Rightarrow> string \<Rightarrow> bool \<Rightarrow> comment list \<Rightarrow> comment list \<times> (social_exn + string)" where
  "deleteComment callId commentId address isAdmin cs = (case find_comment commentId cs of
      None \<Rightarrow> (cs, Inl (SocialNotFound (''Comment '' @ commentId @ '' not found'')))
    | Some c \<Rightarrow>
        if cm_callId c \<noteq> callId
        then (cs, Inl (SocialBadRequest (''Comment '' @ commentId @ '' does not belong to call '' @ callId)))
        else if cm_authorAddress c \<noteq> address \<and> \<not> isAdmin
        then (cs, Inl (SocialForbidden ''You are not authorized to delete this comment''))
        else (remove_comment commentId cs, Inr ''Comment deleted successfully''))"

subsection \<open>Activity\<close>

datatype activity_type = ACT_CALL_CREATED | ACT_STAKE_PLACED | ACT_PAYOUT_CLAIMED | ACT_NEW_FOLLOWER

record activity =
  av_userAddress :: string
  av_type :: activity_type
  av_metadata :: jval
  av_createdAt :: int

definition createActivity :: "int \<Rightarrow> string \<Rightarrow> activity_type \<Rightarrow> jval \<Rightarrow> activity list \<Rightarrow> activity list" where
  "createActivity now u ty meta as = as @ [\<lparr>av_userAddress = u, av_type = ty, av_metadata = meta, av_createdAt = now\<rparr>]"

definition getUserActivity :: "string \<Rightarrow> nat \<Rightarrow> nat \<Rightarrow> activity_type option \<Rightarrow> activity list \<Rightarrow> activity list \<times> nat" where
  "getUserActivity u page limit ty as = rows_and_count page limit (sort_key (\<lambda>a. - av_createdAt a)
     (filter (\<lambda>a. av_userAddress a = u \<and> (case ty of None \<Rightarrow> True | Some t \<Rightarrow> av_type a = t)) as))"

definition handleCallCreated :: "int \<Rightarrow> string \<Rightarrow> string \<Rightarrow> string \<Rightarrow> activity list \<Rightarrow> activity list" where
  "handleCallCreated now i creator title as =
     createActivity now creator ACT_CALL_CREATED (JObj [(''callId'', JStr i), (''title'', JStr title)]) as"

definition handleStakePlaced :: "int \<Rightarrow> string \<Rightarrow> string \<Rightarrow> rat \<Rightarrow> activity list \<Rightarrow> activity list" where
  "handleStakePlaced now u i amount as =
     createActivity now u ACT_STAKE_PLACED (JObj [(''callId'', JStr i), (''amount'', JNum (Fin amount))]) as"

definition handlePayoutClaimed_activity :: "int \<Rightarrow> string \<Rightarrow> string \<Rightarrow> rat \<Rightarrow> activity list \<Rightarrow> activity list" where
  "handlePayoutClaimed_activity now u i amount as =
     createActivity now u ACT_PAYOUT_CLAIMED (JObj [(''callId'', JStr i), (''amount'', JNum (Fin amount))]) as"

definition handleNewFollower :: "int \<Rightarrow> string \<Rightarrow> string \<Rightarrow> activity list \<Rightarrow> activity list" where
  "handleNewFollower now following follower as =
     createActivity now following ACT_NEW_FOLLOWER (JObj [(''followerAddress'', JStr follower)]) as"

subsection \<open>Price alerts\<close>

datatype alert_direction = DIR_ABOVE | DIR_BELOW

record price_alert =
  pa_id :: string
  pa_userAddress :: string
  pa_callId :: string
  pa_tokenPair :: string
  pa_targetPrice :: rat
  pa_direction :: alert_direction
  pa_triggered :: bool
  pa_createdAt :: int

definition createAlert ::
  "int \<Rightarrow> string \<Rightarrow> call_row list \<Rightarrow> call_stake list \<Rightarrow> bookmark list \<Rightarrow> string \<Rightarrow> string \<Rightarrow> string \<Rightarrow> rat \<Rightarrow> alert_direction
   \<Rightarrow> price_alert list \<Rightarrow> price_alert list \<times> (social_exn + price_alert)" where
  "createAlert now newId calls stakes bs u callId pair target dir as = (case find_call callId calls of
      None \<Rightarrow> (as, Inl (SocialNotFound ''Call not found''))
    | Some _ \<Rightarrow>
        if \<not> hasStake u callId stakes \<and> \<not> isBookmarked u callId bs
        then (as, Inl (SocialForbidden ''You must stake or bookmark this call before setting a price alert''))
        else (let a = \<lparr>pa_id = newId, pa_userAddress = u, pa_callId = callId, pa_tokenPair = pair, pa_targetPrice = target,
                pa_direction = dir, pa_triggered = False, pa_createdAt = now\<rparr>
              in (as @ [a], Inr a)))"

definition removeAlert :: "string \<Rightarrow> string \<Rightarrow> price_alert list \<Rightarrow> price_alert list \<times> (social_exn + unit)" where
  "removeAlert u i as =
     (if \<exists>a \<in> set as. pa_id a = i \<and> pa_userAddress a = u then (filter (\<lambda>a. \<not> (pa_id a = i \<and> pa_userAddress a = u)) as, Inr ())
      else (as, Inl (SocialNotFound ''Alert not found'')))"

definition listActiveAlerts :: "call_row list \<Rightarrow> string \<Rightarrow> price_alert list \<Rightarrow> (price_alert \<times> (string \<times> string) option) list" where
  "listActiveAlerts calls u as =
     map (\<lambda>a. (a, map_option (\<lambda>c. (cl_id c, cl_title c)) (find_call (pa_callId a) calls)))
       (sort_key (\<lambda>a. - pa_createdAt a) (filter (\<lambda>a. pa_userAddress a = u \<and> \<not> pa_triggered a) as))"


text \<open>\<open>clock\<close> gives the times of the request for each pair, \<open>dex\<close> the reply.\<close>

definition fetch_one ::
  "(jval \<Rightarrow> jsnum) \<Rightarrow> (string \<Rightarrow> dex_reply) \<Rightarrow> (string \<Rightarrow> int \<times> int \<times> int) \<Rightarrow> dex_state \<times> (string \<times> jsnum) list \<Rightarrow> string
   \<Rightarrow> dex_state \<times> (string \<times> jsnum) list" where
  "fetch_one numo dex clock dm pair = (case clock pair of (now, later, fin) \<Rightarrow>
     (case getPairPrice numo dex now later fin pair (fst dm) of (d, r) \<Rightarrow>
        (d, if num_less (Fin 0) (dp_priceUsd r) then map_set pair (dp_priceUsd r) (snd dm) else snd dm)))"

definition fetchPrices ::
  "(jval \<Rightarrow> jsnum) \<Rightarrow> (string \<Rightarrow> dex_reply) \<Rightarrow> (string \<Rightarrow> int \<times> int \<times> int) \<Rightarrow> string list \<Rightarrow> dex_state \<Rightarrow> dex_state \<times> (string \<times> jsnum) list" where
  "fetchPrices numo dex clock pairs d = foldl (fetch_one numo dex clock) (d, []) pairs"






subsection \<open>Bookmark counts\<close>

lemma counts_lookup:
  "map_of (getBookmarkCounts ids bs) i = (if i \<in> set ids \<and> getBookmarkCount i bs > 0 then Some (getBookmarkCount i bs) else None)"
proof (cases "ids = []")
  case False
  let ?rows = "filter (\<lambda>b. bm_callId b \<in> set ids) bs"
  have "i \<in> set ids \<Longrightarrow> filter (\<lambda>b. bm_callId b = i) ?rows = filter (\<lambda>b. bm_callId b = i) bs"
    by (auto intro!: filter_cong)
  moreover have "i \<in> bm_callId ` set ?rows \<longleftrightarrow> i \<in> set ids \<and> getBookmarkCount i bs > 0"
    by (auto simp: getBookmarkCount_def length_greater_0_conv filter_empty_conv image_iff)
  ultimately show ?thesis
    using False map_of_map_restrict [of "\<lambda>i. length (filter (\<lambda>b. bm_callId b = i) ?rows)" "remdups (map bm_callId ?rows)"]
    by (auto simp: getBookmarkCounts_def restrict_map_def getBookmarkCount_def Let_def simp del: filter_filter)
qed (simp add: getBookmarkCounts_def)

text \<open>the two batched queries behind a list of calls give each call the bookmark count and, for a known viewer, the mark
  that the single queries would.\<close>

theorem feed_bookmarks_exact:
  "withBookmarkInfo viewer bs calls = map (\<lambda>c. \<lparr>en_call = c, en_bookmarkCount = getBookmarkCount (cl_id c) bs,
     en_isBookmarked = map_option (\<lambda>u. isBookmarked u (cl_id c) bs) (non_empty viewer)\<rparr>) calls"
proof -
  have n: "nullish (map_of (getBookmarkCounts (map cl_id calls) bs) (cl_id c)) 0 = getBookmarkCount (cl_id c) bs"
    if "c \<in> set calls" for c using that by (simp add: counts_lookup)
  have m: "cl_id c \<in> set (getBookmarkedCallIds u (map cl_id calls) bs) \<longleftrightarrow> isBookmarked u (cl_id c) bs"
    if "c \<in> set calls" for c u
    using that by (auto simp: getBookmarkedCallIds_def isBookmarked_def marks_def length_greater_0_conv filter_empty_conv image_iff)
  show ?thesis
    unfolding withBookmarkInfo_def Let_def by (rule map_cong [OF refl]) (simp add: n m split: option.split)
qed

subsection \<open>Threads of comments\<close>

inductive threaded :: "comment list \<Rightarrow> bool" where
  none: "threaded []"
| snoc: "threaded cs \<Longrightarrow> (\<And>p. cm_parentId c = Some p \<Longrightarrow> \<exists>d \<in> set cs. cm_id d = p \<and> cm_callId d = cm_callId c) \<Longrightarrow> threaded (cs @ [c])"

inductive_simps threaded_snoc: "threaded (cs @ [c])"

lemma gone_snoc:
  "gone_ids i (cs @ [c]) = (if cm_id c = i \<or> (\<exists>p. cm_parentId c = Some p \<and> p \<in> set (gone_ids i cs)) then cm_id c # gone_ids i cs else gone_ids i cs)"
  by (auto simp: gone_ids_def split: option.splits)

lemma gone_known: "set (gone_ids i cs) \<subseteq> cm_id ` set cs"
  by (induction cs rule: rev_induct) (auto simp: gone_snoc gone_ids_def [of _ "[]"])

lemma threaded_remove: "threaded cs \<Longrightarrow> distinct (map cm_id cs) \<Longrightarrow> threaded (remove_comment i cs)"
proof (induction cs rule: rev_induct)
  case (snoc c cs)
  have new: "cm_id x \<noteq> cm_id c" if "x \<in> set cs" for x using snoc.prems that by (auto simp: image_iff)
  have "filter (\<lambda>d. cm_id d \<notin> set (gone_ids i (cs @ [c]))) cs = remove_comment i cs"
    using new by (auto simp: remove_comment_def gone_snoc intro!: filter_cong)
  then have e: "remove_comment i (cs @ [c]) = remove_comment i cs @ (if cm_id c \<in> set (gone_ids i (cs @ [c])) then [] else [c])"
    by (simp add: remove_comment_def)
  have IH: "threaded (remove_comment i cs)" using snoc by (simp add: threaded_snoc)
  show ?case
  proof (cases "cm_id c \<in> set (gone_ids i (cs @ [c]))")
    case False
    have "\<exists>d \<in> set (remove_comment i cs). cm_id d = p \<and> cm_callId d = cm_callId c" if "cm_parentId c = Some p" for p
    proof -
      have "\<exists>d \<in> set cs. cm_id d = p \<and> cm_callId d = cm_callId c"
        using snoc.prems(1) that unfolding threaded_snoc by blast
      then obtain d where d: "d \<in> set cs" "cm_id d = p" "cm_callId d = cm_callId c" by blast
      have "p \<notin> set (gone_ids i cs)" using False that by (auto simp: gone_snoc split: if_splits)
      then show ?thesis using d by (auto simp: remove_comment_def)
    qed
    then show ?thesis using IH False by (simp add: e threaded_snoc)
  qed (simp add: e IH)
qed (simp add: remove_comment_def threaded.none)


datatype comment_op =
    Write_comment int string "call_row list" string string string "string option"
  | Delete_comment string string string bool

text \<open>The table refuses an id it has.\<close>

definition comment_step :: "comment list \<Rightarrow> comment_op \<Rightarrow> comment list" where
  "comment_step cs oper = (case oper of
      Write_comment now newId calls callId author content parentId \<Rightarrow>
        if newId \<in> cm_id ` set cs then cs else fst (createComment now newId calls callId author content parentId cs)
    | Delete_comment callId i address isAdmin \<Rightarrow> fst (deleteComment callId i address isAdmin cs))"

definition comments_ok :: "comment list \<Rightarrow> bool" where
  "comments_ok cs \<longleftrightarrow> distinct (map cm_id cs) \<and> threaded cs
     \<and> (\<forall>i. length (filter (\<lambda>c. cm_callId c = i) cs) \<le> 100
          \<and> (\<forall>u. length (filter (\<lambda>c. cm_callId c = i \<and> cm_authorAddress c = u) cs) \<le> 20))"

lemma filtered_le: "length (filter P (filter Q xs)) \<le> length (filter P xs)"
  by (induction xs) auto

lemma comment_step_ok: "comments_ok cs \<Longrightarrow> comments_ok (comment_step cs oper)"
proof (cases oper)
  case (Delete_comment callId i address isAdmin)
  assume ok: "comments_ok cs"
  have "comments_ok (remove_comment i cs)"
    using ok threaded_remove [of cs i] unfolding comments_ok_def remove_comment_def
    by (auto simp: distinct_map_filter simp del: filter_filter intro: order_trans [OF filtered_le])
  then show ?thesis using ok by (simp add: Delete_comment comment_step_def deleteComment_def split: option.split)
next
  case (Write_comment now newId calls callId author content parentId)
  assume ok: "comments_ok cs"
  define c where "c = \<lparr>cm_id = newId, cm_callId = callId, cm_authorAddress = author, cm_content = content,
    cm_parentId = non_empty parentId, cm_createdAt = now\<rparr>"
  show ?thesis
  proof (cases "comment_step cs oper = cs")
    case False
    have s: "comment_step cs oper = cs @ [c]" "newId \<notin> cm_id ` set cs"
      "\<not> length (filter (\<lambda>c. cm_callId c = callId) cs) \<ge> 100"
      "\<not> length (filter (\<lambda>c. cm_callId c = callId \<and> cm_authorAddress c = author) cs) \<ge> 20"
      "\<And>p. non_empty parentId = Some p \<Longrightarrow> \<exists>d. find_comment p cs = Some d \<and> cm_callId d = callId"
      using False by (auto simp: Write_comment comment_step_def createComment_def Let_def c_def split: option.splits if_splits)
    have "\<exists>d \<in> set cs. cm_id d = p \<and> cm_callId d = cm_callId c" if "cm_parentId c = Some p" for p
      using s(5) [of p] that by (auto simp: c_def find_comment_def dest: find_by_in)
    then have "threaded (cs @ [c])" using ok by (simp add: threaded_snoc comments_ok_def)
    then show ?thesis using ok s by (auto simp: comments_ok_def c_def)
  qed (use ok in simp)
qed

interpretation comments: machine comment_step comments_ok
  by unfold_locales (rule comment_step_ok)



text \<open>A reply to a reply is stored and counted, but no listing has it.\<close>

lemma nested_reply_hidden:
  assumes "distinct (map cm_id cs)" "c \<in> set cs" "cm_parentId c = Some (cm_id d)" "d \<in> set cs" "cm_parentId d = Some q"
    "getComments calls callId page limit cs = Inr (rows, n)" "(p, rs) \<in> set rows"
  shows "c \<noteq> p \<and> c \<notin> set rs"
proof -
  have "p \<in> set cs \<and> cm_parentId p = None \<and> rs = replies_of callId p cs"
    using assms(6,7) set_window by (fastforce simp: getComments_def Let_def split: option.splits)
  moreover have "d = e" if "e \<in> set cs" "cm_id d = cm_id e" for e using same_key [OF assms(1) that(1) assms(4)] that(2) by simp
  ultimately show ?thesis using assms(3,5) by (auto simp: replies_of_def)
qed

subsection \<open>Firing alerts\<close>



definition tick_prices ::
  "(jval \<Rightarrow> jsnum) \<Rightarrow> (string \<Rightarrow> dex_reply) \<Rightarrow> (string \<Rightarrow> int \<times> int \<times> int) \<Rightarrow> dex_state \<Rightarrow> price_alert list \<Rightarrow> (string \<times> jsnum) list" where
  "tick_prices numo dex clock d as = snd (fetchPrices numo dex clock (remdups (map pa_tokenPair (filter (\<lambda>a. \<not> pa_triggered a) as))) d)"





text \<open>A pair without a price, or with a price of zero or less, fires nothing.\<close>

lemma fetched_positive:
  assumes "\<And>q y. row_get (snd dm) q = Some y \<Longrightarrow> num_less (Fin 0) y"
  shows "row_get (snd (foldl (fetch_one numo dex clock) dm pairs)) q = Some y \<Longrightarrow> num_less (Fin 0) y"
  using assms
proof (induction pairs arbitrary: dm)
  case (Cons x pairs)
  have "row_get (snd (fetch_one numo dex clock dm x)) r = Some z \<Longrightarrow> num_less (Fin 0) z" for r z
    using Cons.prems(2) [of r z] by (auto simp: fetch_one_def row_get_def split: prod.splits if_splits)
  then show ?case using Cons.IH [of "fetch_one numo dex clock dm x"] Cons.prems(1) by simp
qed simp

lemma only_positive_prices: "row_get (tick_prices numo dex clock d as) q = Some y \<Longrightarrow> num_less (Fin 0) y"
  unfolding tick_prices_def fetchPrices_def by (erule fetched_positive [rotated]) (simp add: row_get_def)

end
