(* ===== verification/Users.thy ===== *)
theory Users
  imports Calls Notifications Analytics Dates
begin

text \<open>
  The users service (\<^verbatim>\<open>packages/backend/src/user/users.service.ts\<close>): accounts made on first use or by registration,
  profiles, referrals and the graph of who follows whom; and the nightly worker that gives out badges
  (\<^verbatim>\<open>badge.worker.ts\<close>), whose assigners run at the same time. A new row's id and the digits of \<open>Math.random()\<close> come
  from outside.
\<close>

subsection \<open>State\<close>

datatype user_event = UserFollowed string string | UserRegistered string string

datatype users_exn =
    UsersBadRequest string
  | UsersNotFound string
  | UsersConflict string
  | UsersFailed string               \<comment> \<open>an error of the database\<close>

record users_sys =
  us_users :: "user_row list"
  us_follows :: "follow_row list"
  us_notifier :: notifier
  us_cache :: "(string \<times> jval) list"
  us_events :: "user_event list"

definition generateReferralCode :: "string \<Rightarrow> string" where
  "generateReferralCode digits = to_upper (window 2 6 digits)"

definition new_user :: "int \<Rightarrow> string \<Rightarrow> string \<Rightarrow> string \<Rightarrow> user_row" where
  "new_user now i digits w = \<lparr>ur_id = i, ur_walletAddress = w, ur_email = None, ur_referralCode = Some (generateReferralCode digits),
     ur_displayName = None, ur_bio = None, ur_avatarCid = None, ur_referredBy = None, ur_badges = [], ur_currentWinStreak = 0,
     ur_bestWinStreak = 0, ur_banned = False, ur_createdAt = now, ur_updatedAt = now\<rparr>"

text \<open>The columns have a length; ids, wallet addresses and referral codes are unique.\<close>

definition fits_column :: "nat \<Rightarrow> string option \<Rightarrow> bool" where
  "fits_column n x = (case x of Some s \<Rightarrow> length s \<le> n | None \<Rightarrow> True)"

definition user_fits :: "user_row \<Rightarrow> bool" where
  "user_fits u \<longleftrightarrow> length (ur_walletAddress u) \<le> 64 \<and> fits_column 100 (ur_email u) \<and> fits_column 10 (ur_referralCode u)
     \<and> fits_column 50 (ur_displayName u) \<and> fits_column 500 (ur_bio u)"

definition insert_user :: "user_row \<Rightarrow> user_row list \<Rightarrow> users_exn + user_row list" where
  "insert_user u us =
     (if \<not> user_fits u then Inl (UsersFailed ''value too long'')
      else if ur_id u \<in> ur_id ` set us \<or> ur_walletAddress u \<in> ur_walletAddress ` set us
        \<or> (ur_referralCode u \<noteq> None \<and> ur_referralCode u \<in> ur_referralCode ` set us)
      then Inl (UsersFailed ''duplicate key'')
      else Inr (us @ [u]))"

subsection \<open>Accounts and follows\<close>

text \<open>A failure of the default preferences is logged only.\<close>

definition add_account :: "user_row \<Rightarrow> users_sys \<Rightarrow> users_sys \<times> (users_exn + user_row)" where
  "add_account u s = (case insert_user u (us_users s) of
      Inl e \<Rightarrow> (s, Inl e)
    | Inr us \<Rightarrow> (s\<lparr>us_users := us, us_notifier := fst (initializePreferences (ur_walletAddress u) (us_notifier s))\<rparr>, Inr u))"

definition findOrCreateByAddress :: "int \<Rightarrow> string \<times> string \<Rightarrow> string \<Rightarrow> users_sys \<Rightarrow> users_sys \<times> (users_exn + user_row)" where
  "findOrCreateByAddress now fresh w s = (case user_by_wallet w (us_users s) of
      Some u \<Rightarrow> (s, Inr u)
    | None \<Rightarrow> add_account (new_user now (fst fresh) (snd fresh) w) s)"

definition invalidateUserProfile :: "string \<Rightarrow> users_sys \<Rightarrow> users_sys" where
  "invalidateUserProfile a s = s\<lparr>us_cache := foldl (\<lambda>c range. row_del (''profile:'' @ a @ '':'' @ range) c) (us_cache s) [''7d'', ''30d'', ''all'']\<rparr>"

definition follows_pair :: "string \<Rightarrow> string \<Rightarrow> follow_row \<Rightarrow> bool" where
  "follows_pair a b f \<longleftrightarrow> fl_follower f = a \<and> fl_following f = b"

definition follow ::
  "int \<Rightarrow> string \<times> string \<Rightarrow> string \<times> string \<Rightarrow> string \<Rightarrow> string \<Rightarrow> users_sys \<Rightarrow> users_sys \<times> (users_exn + follow_row)" where
  "follow now fresh1 fresh2 a b s =
     (if a = b then (s, Inl (UsersBadRequest ''You cannot follow yourself''))
      else and_then (findOrCreateByAddress now fresh1 a s) (\<lambda>s _. and_then (findOrCreateByAddress now fresh2 b s) (\<lambda>s _.
        if \<exists>f \<in> set (us_follows s). follows_pair a b f then (s, Inl (UsersConflict ''Already following this user''))
        else (let f = \<lparr>fl_follower = a, fl_following = b, fl_createdAt = now\<rparr>;
                  s = invalidateUserProfile b (invalidateUserProfile a (s\<lparr>us_follows := us_follows s @ [f]\<rparr>))
              in (s\<lparr>us_events := us_events s @ [UserFollowed a b]\<rparr>, Inr f)))))"

definition unfollow :: "string \<Rightarrow> string \<Rightarrow> users_sys \<Rightarrow> users_sys \<times> (users_exn + unit)" where
  "unfollow a b s =
     (if \<exists>f \<in> set (us_follows s). follows_pair a b f
      then (invalidateUserProfile b (invalidateUserProfile a (s\<lparr>us_follows := filter (\<lambda>f. \<not> follows_pair a b f) (us_follows s)\<rparr>)), Inr ())
      else (s, Inl (UsersBadRequest ''Not following this user'')))"

definition latest_follows :: "(follow_row \<Rightarrow> bool) \<Rightarrow> users_sys \<Rightarrow> follow_row list" where
  "latest_follows P s = sort_key (\<lambda>f. - fl_createdAt f) (filter P (us_follows s))"

definition getFollowers :: "string \<Rightarrow> nat \<Rightarrow> nat \<Rightarrow> users_sys \<Rightarrow> follow_row list \<times> nat" where
  "getFollowers a page limit s = rows_and_count page limit (latest_follows (\<lambda>f. fl_following f = a) s)"

definition getFollowing :: "string \<Rightarrow> nat \<Rightarrow> nat \<Rightarrow> users_sys \<Rightarrow> follow_row list \<times> nat" where
  "getFollowing a page limit s = rows_and_count page limit (latest_follows (\<lambda>f. fl_follower f = a) s)"

text \<open>The comparison of two missing mail addresses is one of \<open>null\<close> with \<open>undefined\<close> and fails.\<close>

definition register ::
  "int \<Rightarrow> string \<times> string \<Rightarrow> string option \<Rightarrow> string \<Rightarrow> string option \<Rightarrow> users_sys \<Rightarrow> users_sys \<times> (users_exn + user_row)" where
  "register now fresh referralCode w email s =
     (case (case non_empty referralCode of
          None \<Rightarrow> Inr None
        | Some cd \<Rightarrow> (case find_by ur_referralCode (Some cd) (us_users s) of
            None \<Rightarrow> Inl (UsersBadRequest ''Invalid referral code'')
          | Some r \<Rightarrow> if email \<noteq> None \<and> ur_email r = email then Inl (UsersBadRequest ''Cannot refer yourself'') else Inr (Some r))) of
        Inl e \<Rightarrow> (s, Inl e)
      | Inr referrer \<Rightarrow>
          and_then (add_account ((new_user now (fst fresh) (snd fresh) w)
              \<lparr>ur_email := email, ur_referredBy := map_option ur_id referrer\<rparr>) s) (\<lambda>s u.
            (s\<lparr>us_events := us_events s @ [UserRegistered (ur_id u) w]\<rparr>, Inr u)))"

subsection \<open>Profiles\<close>

text \<open>\<open>rel\<close> is the reliability of the analytics service, which may throw.\<close>

record profile_view =
  pv_user :: user_row
  pv_reliability :: rat
  pv_reputation :: rat
  pv_followers :: nat
  pv_following :: nat
  pv_avatarUrl :: "string option"

definition getUserProfile :: "(string \<Rightarrow> string + rat) \<Rightarrow> string \<Rightarrow> users_sys \<Rightarrow> users_exn + (user_row option \<times> rat)" where
  "getUserProfile rel i s = (case rel i of
      Inl e \<Rightarrow> Inl (UsersFailed e) | Inr r \<Rightarrow> Inr (find_by ur_id i (us_users s), r))"

definition getUserByAddress ::
  "(string \<Rightarrow> string + rat) \<Rightarrow> acall list \<Rightarrow> astake list \<Rightarrow> string \<Rightarrow> users_sys \<Rightarrow> users_exn + profile_view" where
  "getUserByAddress rel calls stakes w s = (case user_by_wallet w (us_users s) of
      None \<Rightarrow> Inl (UsersNotFound (''User '' @ w @ '' not found''))
    | Some u \<Rightarrow> (case rel (ur_id u) of
        Inl e \<Rightarrow> Inl (UsersFailed e)
      | Inr r \<Rightarrow> Inr \<lparr>pv_user = u, pv_reliability = r, pv_reputation = calculateReputationScore calls stakes w,
          pv_followers = length (filter (\<lambda>f. fl_following f = w) (us_follows s)),
          pv_following = length (filter (\<lambda>f. fl_follower f = w) (us_follows s)),
          pv_avatarUrl = map_option (\<lambda>c. ''ipfs://'' @ c) (non_empty (ur_avatarCid u))\<rparr>))"

definition pinAvatar :: "string option \<Rightarrow> int \<Rightarrow> string \<Rightarrow> string" where
  "pinAvatar ipfsMock now rnd = pinJson ipfsMock now rnd"

text \<open>\<open>avatar\<close> is the random text that goes into the identifier of the picture, if there is one.\<close>

definition createProfile ::
  "(string \<Rightarrow> string + rat) \<Rightarrow> acall list \<Rightarrow> astake list \<Rightarrow> string option \<Rightarrow> int \<Rightarrow> string \<times> string \<Rightarrow> string \<Rightarrow> string option \<Rightarrow> string option
   \<Rightarrow> string option \<Rightarrow> users_sys \<Rightarrow> users_sys \<times> (users_exn + profile_view)" where
  "createProfile rel calls stakes ipfsMock now fresh w displayName bio avatar s = (case user_by_wallet w (us_users s) of
      Some _ \<Rightarrow> (s, Inl (UsersConflict ''Profile already exists''))
    | None \<Rightarrow> (case insert_user ((new_user now (fst fresh) (snd fresh) w)
          \<lparr>ur_displayName := displayName, ur_bio := bio, ur_avatarCid := map_option (pinAvatar ipfsMock now) avatar\<rparr>) (us_users s) of
        Inl e \<Rightarrow> (s, Inl e)
      | Inr us \<Rightarrow> (let s = s\<lparr>us_users := us\<rparr> in (s, getUserByAddress rel calls stakes w s))))"

text \<open>\<open>save\<close> writes a row that differs from the table's.\<close>

definition write_user :: "int \<Rightarrow> user_row \<Rightarrow> user_row list \<Rightarrow> users_exn + user_row list" where
  "write_user now u us =
     (if u \<in> set us then Inr us
      else if \<not> user_fits u then Inl (UsersFailed ''value too long'')
      else Inr (save_user (u\<lparr>ur_updatedAt := now\<rparr>) us))"

definition updateProfile ::
  "(string \<Rightarrow> string + rat) \<Rightarrow> acall list \<Rightarrow> astake list \<Rightarrow> string option \<Rightarrow> int \<Rightarrow> string \<Rightarrow> string option \<Rightarrow> string option
   \<Rightarrow> string option \<Rightarrow> users_sys \<Rightarrow> users_sys \<times> (users_exn + profile_view)" where
  "updateProfile rel calls stakes ipfsMock now w displayName bio avatar s = (case user_by_wallet w (us_users s) of
      None \<Rightarrow> (s, Inl (UsersNotFound (''User '' @ w @ '' not found'')))
    | Some user \<Rightarrow>
        (let u = (case avatar of Some rnd \<Rightarrow> user\<lparr>ur_avatarCid := Some (pinAvatar ipfsMock now rnd)\<rparr> | None \<Rightarrow> user);
             u = (case displayName of Some d \<Rightarrow> u\<lparr>ur_displayName := Some d\<rparr> | None \<Rightarrow> u);
             u = (case bio of Some b \<Rightarrow> u\<lparr>ur_bio := Some b\<rparr> | None \<Rightarrow> u)
         in case write_user now u (us_users s) of
              Inl e \<Rightarrow> (s, Inl e)
            | Inr us \<Rightarrow> (let s = invalidateUserProfile w (s\<lparr>us_users := us\<rparr>) in (s, getUserByAddress rel calls stakes w s))))"

subsection \<open>Referrals\<close>

definition referred_by :: "user_row \<Rightarrow> user_row list \<Rightarrow> user_row list" where
  "referred_by u us = filter (\<lambda>v. ur_referredBy v = Some (ur_id u)) us"

definition getReferrals :: "string \<Rightarrow> users_sys \<Rightarrow> users_exn + (string \<times> string option \<times> int) list" where
  "getReferrals a s = (case user_by_wallet a (us_users s) of
      None \<Rightarrow> Inl (UsersNotFound ''User not found'')
    | Some u \<Rightarrow> Inr (map (\<lambda>r. (ur_walletAddress r, ur_displayName r, ur_createdAt r)) (referred_by u (us_users s))))"

definition getReferralStats :: "int \<Rightarrow> string \<Rightarrow> users_sys \<Rightarrow> users_exn + nat \<times> nat" where
  "getReferralStats now a s = (case user_by_wallet a (us_users s) of
      None \<Rightarrow> Inl (UsersNotFound ''User not found'')
    | Some u \<Rightarrow> Inr (length (referred_by u (us_users s)),
        length (filter (\<lambda>r. ur_createdAt r \<ge> first_of_month now) (referred_by u (us_users s)))))"

subsection \<open>The graph of users\<close>

text \<open>Who was referred by whom, in the order of the rows: a referrer comes before the referred.\<close>

definition referrals_of :: "user_row list \<Rightarrow> (string \<times> string option) list" where
  "referrals_of us = map (\<lambda>u. (ur_id u, ur_referredBy u)) us"

definition in_order :: "(string \<times> string option) list \<Rightarrow> bool" where
  "in_order ps \<longleftrightarrow> (\<forall>n < length ps. \<forall>r. snd (ps ! n) = Some r \<longrightarrow> r \<in> fst ` set (take n ps))"

lemma in_order_Nil [simp]: "in_order []"
  by (simp add: in_order_def)

lemma in_order_snoc [simp]: "in_order (ps @ [p]) \<longleftrightarrow> in_order ps \<and> (\<forall>r. snd p = Some r \<longrightarrow> r \<in> fst ` set ps)"
  by (auto simp: in_order_def nth_append less_Suc_eq)

definition position_of :: "(string \<times> string option) list \<Rightarrow> string \<Rightarrow> nat" where
  "position_of ps i = length (takeWhile (\<lambda>p. fst p \<noteq> i) ps)"

lemma position_of_take: "i \<in> fst ` set (take n ps) \<Longrightarrow> position_of ps i < n"
proof -
  assume "i \<in> fst ` set (take n ps)"
  then have "\<exists>k < n. k < length ps \<and> fst (ps ! k) = i"
    by (fastforce simp: in_set_conv_nth image_iff)
  then obtain k where k: "k < n" "k < length ps" "fst (ps ! k) = i" by blast
  have "position_of ps i \<le> k"
  proof (rule ccontr)
    assume "\<not> position_of ps i \<le> k"
    then have "ps ! k \<in> set (takeWhile (\<lambda>p. fst p \<noteq> i) ps)"
      unfolding position_of_def by (metis not_le nth_mem takeWhile_nth)
    then show False using k(3) by (auto dest: set_takeWhileD)
  qed
  then show ?thesis using k(1) by simp
qed

lemma position_of_nth: "distinct (map fst ps) \<Longrightarrow> n < length ps \<Longrightarrow> position_of ps (fst (ps ! n)) = n"
proof -
  assume d: "distinct (map fst ps)" and n: "n < length ps"
  have "fst (ps ! n) \<in> fst ` set (take (Suc n) ps)" using n by (simp add: take_Suc_conv_app_nth)
  then have "position_of ps (fst (ps ! n)) < Suc n" by (rule position_of_take)
  moreover have "\<not> position_of ps (fst (ps ! n)) < n"
  proof
    assume less: "position_of ps (fst (ps ! n)) < n"
    then have "fst (ps ! position_of ps (fst (ps ! n))) = fst (ps ! n)"
      using n nth_length_takeWhile [of "\<lambda>p. fst p \<noteq> fst (ps ! n)" ps] by (simp add: position_of_def)
    then show False using d less n by (simp add: distinct_conv_nth)
  qed
  ultimately show ?thesis by simp
qed

lemma in_order_acyclic:
  assumes "in_order ps" "distinct (map fst ps)"
  shows "acyclic {(r, i). (i, Some r) \<in> set ps}"
proof -
  have "position_of ps r < position_of ps i" if p: "(i, Some r) \<in> set ps" for r i
  proof -
    obtain n where n: "n < length ps" "ps ! n = (i, Some r)" using in_set_conv_nth [THEN iffD1, OF p] by blast
    have "snd (ps ! n) = Some r \<longrightarrow> r \<in> fst ` set (take n ps)" using assms(1) n(1) unfolding in_order_def by blast
    then have "r \<in> fst ` set (take n ps)" by (simp add: n(2))
    moreover have "position_of ps i = n" using position_of_nth [OF assms(2) n(1)] n(2) by simp
    ultimately show ?thesis using position_of_take by simp
  qed
  then have "{(r, i). (i, Some r) \<in> set ps} \<subseteq> measure (position_of ps)" unfolding measure_def inv_image_def by blast
  then have "wf {(r, i). (i, Some r) \<in> set ps}" by (rule wf_subset [OF wf_measure])
  then show ?thesis by (rule wf_acyclic)
qed

definition accounts_ok :: "user_row list \<Rightarrow> bool" where
  "accounts_ok us \<longleftrightarrow> users_ok us \<and> in_order (referrals_of us)"

definition follow_pairs :: "follow_row list \<Rightarrow> (string \<times> string) list" where
  "follow_pairs fs = map (\<lambda>f. (fl_follower f, fl_following f)) fs"

definition graph_ok :: "users_sys \<Rightarrow> bool" where
  "graph_ok s \<longleftrightarrow> accounts_ok (us_users s) \<and> distinct (follow_pairs (us_follows s))
     \<and> (\<forall>(a, b) \<in> set (follow_pairs (us_follows s)). a \<noteq> b \<and> {a, b} \<subseteq> ur_walletAddress ` set (us_users s))"

lemma followed_iff: "(\<exists>f \<in> set fs. follows_pair a b f) \<longleftrightarrow> (a, b) \<in> set (follow_pairs fs)"
  by (auto simp: follow_pairs_def follows_pair_def image_iff)

lemma pairs_without: "follow_pairs (filter (\<lambda>f. \<not> follows_pair a b f) fs) = filter (\<lambda>p. p \<noteq> (a, b)) (follow_pairs fs)"
  by (induction fs) (auto simp: follow_pairs_def follows_pair_def)

lemma insert_user_Inr:
  "insert_user u us = Inr vs \<longleftrightarrow> user_fits u \<and> ur_id u \<notin> ur_id ` set us \<and> ur_walletAddress u \<notin> ur_walletAddress ` set us
     \<and> (ur_referralCode u = None \<or> ur_referralCode u \<notin> ur_referralCode ` set us) \<and> vs = us @ [u]"
  by (auto simp: insert_user_def)

lemma accounts_insert:
  assumes "accounts_ok us" "insert_user u us = Inr vs" "\<And>r. ur_referredBy u = Some r \<Longrightarrow> r \<in> ur_id ` set us"
  shows "accounts_ok vs"
proof -
  have "fst ` set (referrals_of us) = ur_id ` set us" by (auto simp: referrals_of_def image_iff)
  then show ?thesis using assms by (auto simp: accounts_ok_def users_ok_def insert_user_Inr referrals_of_def)
qed

lemma graph_insert:
  assumes "graph_ok s" "insert_user u (us_users s) = Inr us" "\<And>r. ur_referredBy u = Some r \<Longrightarrow> r \<in> ur_id ` set (us_users s)"
  shows "graph_ok (s\<lparr>us_users := us\<rparr>)" "graph_ok (s\<lparr>us_users := us, us_notifier := n\<rparr>)"
  using assms accounts_insert [OF _ assms(2,3)] by (auto simp: graph_ok_def insert_user_Inr)

lemma graph_update [simp]:
  "graph_ok (s\<lparr>us_notifier := n\<rparr>) = graph_ok s" "graph_ok (s\<lparr>us_cache := c\<rparr>) = graph_ok s" "graph_ok (s\<lparr>us_events := es\<rparr>) = graph_ok s"
  "graph_ok (invalidateUserProfile a s) = graph_ok s"
  by (simp_all add: graph_ok_def invalidateUserProfile_def)

lemma invalidate_simps [simp]:
  "us_users (invalidateUserProfile a s) = us_users s" "us_follows (invalidateUserProfile a s) = us_follows s"
  by (simp_all add: invalidateUserProfile_def)

lemma new_user_simps [simp]:
  "ur_referredBy (new_user now i d w) = None" "ur_walletAddress (new_user now i d w) = w" "ur_id (new_user now i d w) = i"
  by (simp_all add: new_user_def)

lemma account_ok:
  assumes "graph_ok s" "add_account u s = (s', r)" "\<And>x. ur_referredBy u = Some x \<Longrightarrow> x \<in> ur_id ` set (us_users s)"
  shows "graph_ok s'" "us_follows s' = us_follows s"
    "ur_walletAddress ` set (us_users s) \<subseteq> ur_walletAddress ` set (us_users s')"
    "r = Inr v \<Longrightarrow> v = u \<and> ur_walletAddress u \<in> ur_walletAddress ` set (us_users s')"
  using assms graph_insert(2) [OF assms(1) _ assms(3)]
  by (auto simp: add_account_def insert_user_Inr split: sum.splits)

lemma found_or_created:
  assumes "graph_ok s" "findOrCreateByAddress now fresh w s = (s', r)"
  shows "graph_ok s'" "us_follows s' = us_follows s"
    "ur_walletAddress ` set (us_users s) \<subseteq> ur_walletAddress ` set (us_users s')"
    "r = Inr v \<Longrightarrow> w \<in> ur_walletAddress ` set (us_users s')"
proof -
  let ?u = "new_user now (fst fresh) (snd fresh) w"
  consider (old) u where "user_by_wallet w (us_users s) = Some u" "s' = s" | (new) "add_account ?u s = (s', r)"
    using assms(2) by (auto simp: findOrCreateByAddress_def split: option.splits)
  then have "graph_ok s' \<and> us_follows s' = us_follows s \<and> ur_walletAddress ` set (us_users s) \<subseteq> ur_walletAddress ` set (us_users s')
    \<and> (r = Inr v \<longrightarrow> w \<in> ur_walletAddress ` set (us_users s'))"
  proof cases
    case old
    then show ?thesis using assms(1) user_by_wallet_None [of w "us_users s"] by auto
  next
    case new
    note f = account_ok [OF assms(1) new]
    show ?thesis using f(1-3) f(4) [of v] by simp
  qed
  then show "graph_ok s'" "us_follows s' = us_follows s"
    "ur_walletAddress ` set (us_users s) \<subseteq> ur_walletAddress ` set (us_users s')"
    "r = Inr v \<Longrightarrow> w \<in> ur_walletAddress ` set (us_users s')" by blast+
qed

text \<open>The table of follows is a set of pairs, to which a successful follow adds one.\<close>

lemma follow_spec:
  assumes "graph_ok s" "follow now f1 f2 a b s = (s', r)"
  shows "graph_ok s' \<and> (case r of
      Inr _ \<Rightarrow> a \<noteq> b \<and> (a, b) \<notin> set (follow_pairs (us_follows s)) \<and> set (follow_pairs (us_follows s')) = insert (a, b) (set (follow_pairs (us_follows s)))
    | Inl _ \<Rightarrow> us_follows s' = us_follows s)"
proof (cases "a = b")
  case False
  obtain s1 r1 where 1: "findOrCreateByAddress now f1 a s = (s1, r1)" by (cases "findOrCreateByAddress now f1 a s")
  note f = found_or_created [OF assms(1) 1]
  show ?thesis
  proof (cases r1)
    case (Inl e)
    then show ?thesis using assms(2) False 1 f(1,2) by (auto simp: follow_def)
  next
    case (Inr u)
    obtain s2 r2 where 2: "findOrCreateByAddress now f2 b s1 = (s2, r2)" by (cases "findOrCreateByAddress now f2 b s1")
    note g = found_or_created [OF f(1) 2]
    show ?thesis
    proof (cases r2)
      case (Inl e)
      then show ?thesis using assms(2) False 1 2 Inr f(2) g(1,2) by (auto simp: follow_def)
    next
      case b: (Inr v)
      show ?thesis
      proof (cases "(a, b) \<in> set (follow_pairs (us_follows s))")
        case True
        then show ?thesis using assms(2) False 1 2 Inr b f(2) g(1,2) by (auto simp: follow_def followed_iff)
      next
        case new: False
        let ?f = "\<lparr>fl_follower = a, fl_following = b, fl_createdAt = now\<rparr>"
        have r: "s' = (invalidateUserProfile b (invalidateUserProfile a (s2\<lparr>us_follows := us_follows s @ [?f]\<rparr>)))
            \<lparr>us_events := us_events s2 @ [UserFollowed a b]\<rparr>" "r = Inr ?f"
          using assms(2) False 1 2 Inr b f(2) g(2) new by (simp_all add: follow_def followed_iff Let_def invalidateUserProfile_def)
        have "a \<in> ur_walletAddress ` set (us_users s2)" "b \<in> ur_walletAddress ` set (us_users s2)"
          using f(4) [OF Inr] g(3) g(4) [OF b] by auto
        moreover have "graph_ok s2" "us_follows s2 = us_follows s" using f(2) g(1,2) by simp_all
        ultimately have "graph_ok (s2\<lparr>us_follows := us_follows s @ [?f]\<rparr>)"
          using False new by (auto simp: graph_ok_def follow_pairs_def)
        then show ?thesis using False new r by (simp add: follow_pairs_def)
      qed
    qed
  qed
qed (use assms in \<open>auto simp: follow_def\<close>)

lemma unfollow_spec:
  assumes "graph_ok s" "unfollow a b s = (s', r)"
  shows "graph_ok s' \<and> (r = Inr () \<longleftrightarrow> (a, b) \<in> set (follow_pairs (us_follows s)))
    \<and> set (follow_pairs (us_follows s')) = set (follow_pairs (us_follows s)) - {(a, b)}"
proof (cases "(a, b) \<in> set (follow_pairs (us_follows s))")
  case True
  have "graph_ok (s\<lparr>us_follows := filter (\<lambda>f. \<not> follows_pair a b f) (us_follows s)\<rparr>)"
    using assms(1) by (auto simp: graph_ok_def pairs_without)
  then show ?thesis using assms(2) True by (auto simp: unfollow_def followed_iff pairs_without)
qed (use assms in \<open>auto simp: unfollow_def followed_iff\<close>)

lemma register_ok:
  assumes "graph_ok s" "register now fresh cd w email s = (s', r)"
  shows "graph_ok s'"
proof -
  have reg: "graph_ok (fst (and_then (add_account ((new_user now (fst fresh) (snd fresh) w)
      \<lparr>ur_email := email, ur_referredBy := map_option ur_id ref\<rparr>) s) (\<lambda>s u. (s\<lparr>us_events := us_events s @ [UserRegistered (ur_id u) w]\<rparr>, Inr u))))"
    if "\<And>x. ref = Some x \<Longrightarrow> x \<in> set (us_users s)" for ref
  proof -
    let ?u = "(new_user now (fst fresh) (snd fresh) w)\<lparr>ur_email := email, ur_referredBy := map_option ur_id ref\<rparr>"
    obtain t q where t: "add_account ?u s = (t, q)" by (cases "add_account ?u s")
    have "graph_ok t" using account_ok(1) [OF assms(1) t] that by auto
    then show ?thesis by (cases q) (simp_all add: t)
  qed
  show ?thesis
  proof (cases "case non_empty cd of None \<Rightarrow> Inr None
      | Some cd \<Rightarrow> (case find_by ur_referralCode (Some cd) (us_users s) of
            None \<Rightarrow> Inl (UsersBadRequest ''Invalid referral code'')
          | Some r \<Rightarrow> if email \<noteq> None \<and> ur_email r = email then Inl (UsersBadRequest ''Cannot refer yourself'') else Inr (Some r))")
    case (Inl e)
    then show ?thesis using assms by (auto simp: register_def)
  next
    case (Inr ref)
    have "x \<in> set (us_users s)" if "ref = Some x" for x
      using Inr that by (auto split: option.splits if_splits dest: find_by_in)
    then have "graph_ok (fst (register now fresh cd w email s))" using reg [of ref] unfolding register_def Inr by simp
    then show ?thesis by (simp add: assms(2))
  qed
qed

lemma create_profile_ok:
  assumes "graph_ok s" "createProfile rel calls stakes mock now fresh w dn bio av s = (s', r)"
  shows "graph_ok s'"
proof -
  let ?u = "(new_user now (fst fresh) (snd fresh) w)
    \<lparr>ur_displayName := dn, ur_bio := bio, ur_avatarCid := map_option (pinAvatar mock now) av\<rparr>"
  have "graph_ok (s\<lparr>us_users := us\<rparr>)" if "insert_user ?u (us_users s) = Inr us" for us
    by (rule graph_insert(1) [OF assms(1) that]) simp
  then show ?thesis using assms by (auto simp: createProfile_def Let_def split: option.splits sum.splits)
qed

lemma write_user_ok:
  assumes "graph_ok s" "write_user now v (us_users s) = Inr us" "u \<in> set (us_users s)"
    "ur_id v = ur_id u" "ur_walletAddress v = ur_walletAddress u" "ur_referredBy v = ur_referredBy u"
  shows "graph_ok (s\<lparr>us_users := us\<rparr>)"
proof (cases "v \<in> set (us_users s)")
  case False
  have d: "distinct (map ur_id (us_users s))" using assms(1) by (simp add: graph_ok_def accounts_ok_def users_ok_def)
  have us: "us = save_by ur_id (v\<lparr>ur_updatedAt := now\<rparr>) (us_users s)"
    using assms(2) False by (auto simp: write_user_def save_user_def split: if_splits)
  have cols: "map ur_id us = map ur_id (us_users s)" "map ur_walletAddress us = map ur_walletAddress (us_users s)"
    "referrals_of us = referrals_of (us_users s)"
    unfolding us referrals_of_def using assms(4-6) by (intro save_by_column [OF d assms(3)]; simp)+
  have w: "ur_walletAddress ` set us = ur_walletAddress ` set (us_users s)"
    using arg_cong [OF cols(2), of set] by simp
  show ?thesis using assms(1) by (simp add: graph_ok_def accounts_ok_def users_ok_def cols w)
qed (use assms(1,2) in \<open>auto simp: write_user_def graph_ok_def\<close>)

lemma update_profile_ok:
  assumes "graph_ok s" "updateProfile rel calls stakes mock now w dn bio av s = (s', r)"
  shows "graph_ok s'"
proof (cases "user_by_wallet w (us_users s)")
  case (Some user)
  have "user \<in> set (us_users s)" using Some by (auto simp: user_by_wallet_def dest: find_by_in)
  define v where "v = (let u = (case av of Some rnd \<Rightarrow> user\<lparr>ur_avatarCid := Some (pinAvatar mock now rnd)\<rparr> | None \<Rightarrow> user);
             u = (case dn of Some d \<Rightarrow> u\<lparr>ur_displayName := Some d\<rparr> | None \<Rightarrow> u)
         in case bio of Some b \<Rightarrow> u\<lparr>ur_bio := Some b\<rparr> | None \<Rightarrow> u)"
  have same: "ur_id v = ur_id user" "ur_walletAddress v = ur_walletAddress user" "ur_referredBy v = ur_referredBy user"
    by (simp_all add: v_def Let_def split: option.split)
  have "s' = (case write_user now v (us_users s) of Inl e \<Rightarrow> s | Inr us \<Rightarrow> invalidateUserProfile w (s\<lparr>us_users := us\<rparr>))"
    using assms(2) Some by (simp add: updateProfile_def v_def Let_def split: sum.splits)
  then show ?thesis
    using assms(1) write_user_ok [OF assms(1) _ \<open>user \<in> set (us_users s)\<close> same] by (auto split: sum.splits)
qed (use assms in \<open>simp add: updateProfile_def\<close>)

datatype users_op =
    Follow_op int "string \<times> string" "string \<times> string" string string
  | Unfollow_op string string
  | Register_op int "string \<times> string" "string option" string "string option"
  | Create_profile int "string \<times> string" string "string option" "string option" "string option"
  | Update_profile int string "string option" "string option" "string option"

definition users_step ::
  "(string \<Rightarrow> string + rat) \<Rightarrow> acall list \<Rightarrow> astake list \<Rightarrow> string option \<Rightarrow> users_sys \<Rightarrow> users_op \<Rightarrow> users_sys" where
  "users_step rel calls stakes mock s oper = (case oper of
      Follow_op now f1 f2 a b \<Rightarrow> fst (follow now f1 f2 a b s)
    | Unfollow_op a b \<Rightarrow> fst (unfollow a b s)
    | Register_op now f cd w email \<Rightarrow> fst (register now f cd w email s)
    | Create_profile now f w dn bio av \<Rightarrow> fst (createProfile rel calls stakes mock now f w dn bio av s)
    | Update_profile now w dn bio av \<Rightarrow> fst (updateProfile rel calls stakes mock now w dn bio av s))"

interpretation social: machine "users_step rel calls stakes mock" graph_ok
proof
  fix s oper assume ok: "graph_ok s"
  show "graph_ok (users_step rel calls stakes mock s oper)"
    using follow_spec [OF ok surjective_pairing] unfollow_spec [OF ok surjective_pairing] register_ok [OF ok surjective_pairing]
      create_profile_ok [OF ok surjective_pairing] update_profile_ok [OF ok surjective_pairing]
    by (cases oper) (simp_all add: users_step_def)
qed

definition no_users :: "notifier \<Rightarrow> users_sys" where
  "no_users n = \<lparr>us_users = [], us_follows = [], us_notifier = n, us_cache = [], us_events = []\<rparr>"

text \<open>C34: in every run of follows, registrations and profile changes no user refers itself through any chain of referrals, nobody
  follows himself or somebody twice, everybody who follows or is followed has an account, and the follower count of a profile is
  the number of different followers.\<close>

theorem social_graph_sound:
  assumes "s = foldl (users_step rel calls stakes mock) (no_users n) ops"
  shows "acyclic {(r, ur_id u) | r u. u \<in> set (us_users s) \<and> ur_referredBy u = Some r}
    \<and> distinct (follow_pairs (us_follows s))
    \<and> (\<forall>(a, b) \<in> set (follow_pairs (us_follows s)). a \<noteq> b \<and> {a, b} \<subseteq> ur_walletAddress ` set (us_users s))
    \<and> (getUserByAddress rel calls stakes w s = Inr v \<longrightarrow> pv_followers v = card {a. (a, w) \<in> set (follow_pairs (us_follows s))})"
proof -
  have ok: "graph_ok s" unfolding assms
    by (rule social.run_inv) (simp add: graph_ok_def accounts_ok_def users_ok_def no_users_def referrals_of_def follow_pairs_def)
  have "{(r, i). (i, Some r) \<in> set (referrals_of (us_users s))} = {(r, ur_id u) | r u. u \<in> set (us_users s) \<and> ur_referredBy u = Some r}"
    by (force simp: referrals_of_def)
  then have a: "acyclic {(r, ur_id u) | r u. u \<in> set (us_users s) \<and> ur_referredBy u = Some r}"
    using in_order_acyclic [of "referrals_of (us_users s)"] ok by (simp add: graph_ok_def accounts_ok_def users_ok_def referrals_of_def comp_def)
  have "pv_followers v = card {a. (a, w) \<in> set (follow_pairs (us_follows s))}" if "getUserByAddress rel calls stakes w s = Inr v"
  proof -
    let ?fs = "filter (\<lambda>f. fl_following f = w) (us_follows s)"
    have "distinct (map (\<lambda>f. (fl_follower f, fl_following f)) ?fs)"
      using ok by (simp add: graph_ok_def follow_pairs_def distinct_map_filter)
    then have "inj_on fl_follower (set ?fs)" "distinct ?fs" by (auto simp: distinct_map inj_on_def)
    then have "card (fl_follower ` set ?fs) = length ?fs" by (metis card_image distinct_card)
    moreover have "fl_follower ` set ?fs = {a. (a, w) \<in> set (follow_pairs (us_follows s))}" by (force simp: follow_pairs_def)
    moreover have "pv_followers v = length ?fs" using that by (auto simp: getUserByAddress_def split: option.splits sum.splits)
    ultimately show ?thesis by simp
  qed
  then show ?thesis using a ok by (simp add: graph_ok_def)
qed

lemma social_graph_sound_witness:
  "let s = foldl (users_step (\<lambda>_. Inr 0) [] [] None) (no_users empty_notifier)
     [Follow_op 1 (''i'', ''0.abcdef'') (''j'', ''0.ghijkl'') ''GA'' ''GB'', Register_op 2 (''k'', ''0.mnopqr'') (Some ''ABCDEF'') ''GC'' None]
   in acyclic {(r, ur_id u) | r u. u \<in> set (us_users s) \<and> ur_referredBy u = Some r}"
  unfolding Let_def by (rule social_graph_sound [OF refl, THEN conjunct1])

end
