(* ===== verification/Badges.thy ===== *)
theory Badges
  imports Complex_Main UserRows Entities
begin

text \<open>
  The nightly worker that gives out badges (\<^verbatim>\<open>packages/backend/src/user/badge.worker.ts\<close>). \<^verbatim>\<open>runBadgeAssignment\<close> starts four
  assigners at once; each awaits the query for the users who qualify, the load of their rows and one \<open>save\<close> after the
  other, so their steps interleave. \<open>save\<close> of a loaded row writes the row as it was loaded, its list of badges
  included: a badge the table has and the row has not is removed.
\<close>

subsection \<open>Definitions of the badges\<close>

definition PLATFORM_LAUNCH :: int where "PLATFORM_LAUNCH = 1704067200000"
definition EARLY_ADOPTER_DAYS :: int where "EARLY_ADOPTER_DAYS = 30"
definition WHALE_STAKE_THRESHOLD :: rat where "WHALE_STAKE_THRESHOLD = 1000"
definition HIGH_ACCURACY_MIN_CALLS :: nat where "HIGH_ACCURACY_MIN_CALLS = 10"
definition HIGH_ACCURACY_WIN_RATE :: rat where "HIGH_ACCURACY_WIN_RATE = 7 / 10"

definition badge_definitions :: "(badge_type \<times> string \<times> string) list" where
  "badge_definitions =
     [(EARLY_ADOPTER, ''Early Adopter'', ''Joined within the first 30 days of the platform.''),
      (WHALE, ''Whale'', ''Staked more than 1000 XLM in total across all calls.''),
      (HIGH_ACCURACY, ''High Accuracy'', ''Achieved a 70% win rate across at least 10 resolved calls.''),
      (STREAK_THREE, ''3 in a Row'', ''Won 3 consecutive predictions.''),
      (STREAK_FIVE, ''On Fire'', ''Won 5 consecutive predictions.''),
      (STREAK_TEN, ''Unstoppable'', ''Won 10 consecutive predictions.'')]"

definition find_badge :: "badge_type \<Rightarrow> badge list \<Rightarrow> badge option" where
  "find_badge ty bs = find_by bg_type ty bs"

text \<open>\<open>ids\<close> gives the ids of new rows.\<close>

definition seed_one :: "(badge_type \<Rightarrow> string) \<Rightarrow> badge list \<Rightarrow> badge_type \<times> string \<times> string \<Rightarrow> badge list" where
  "seed_one ids bs d = (case d of (ty, name, desc) \<Rightarrow>
     if find_badge ty bs = None then bs @ [\<lparr>bg_id = ids ty, bg_type = ty, bg_name = name, bg_description = desc\<rparr>] else bs)"

definition seedBadgeDefinitions :: "(badge_type \<Rightarrow> string) \<Rightarrow> badge list \<Rightarrow> badge list" where
  "seedBadgeDefinitions ids bs = foldl (seed_one ids) bs badge_definitions"

subsection \<open>Who qualifies\<close>

text \<open>The columns of the table of calls that the queries read.\<close>

record badge_call =
  bc_creatorAddress :: string
  bc_status :: call_status
  bc_stakeAmount :: rat

definition calls_by :: "badge_call list \<Rightarrow> user_row \<Rightarrow> badge_call list" where
  "calls_by calls u = filter (\<lambda>c. bc_creatorAddress c = ur_walletAddress u) calls"

definition early_adopter :: "user_row \<Rightarrow> bool" where
  "early_adopter u \<longleftrightarrow> ur_createdAt u \<le> PLATFORM_LAUNCH + EARLY_ADOPTER_DAYS * 24 * 60 * 60 * 1000"

definition whale :: "badge_call list \<Rightarrow> user_row \<Rightarrow> bool" where
  "whale calls u \<longleftrightarrow> calls_by calls u \<noteq> [] \<and> sum_list (map bc_stakeAmount (calls_by calls u)) \<ge> WHALE_STAKE_THRESHOLD"

definition high_accuracy :: "badge_call list \<Rightarrow> user_row \<Rightarrow> bool" where
  "high_accuracy calls u =
     (let resolved = filter (\<lambda>c. bc_status c = CS_RESOLVED_YES \<or> bc_status c = CS_RESOLVED_NO) (calls_by calls u);
          yes = length (filter (\<lambda>c. bc_status c = CS_RESOLVED_YES) resolved)
      in resolved \<noteq> [] \<and> length resolved \<ge> HIGH_ACCURACY_MIN_CALLS
         \<and> of_nat yes / of_nat (length resolved) \<ge> HIGH_ACCURACY_WIN_RATE)"

definition streak_of :: "nat \<Rightarrow> user_row \<Rightarrow> bool" where
  "streak_of n u \<longleftrightarrow> ur_bestWinStreak u \<ge> n"

definition qualifies :: "badge_call list \<Rightarrow> badge_type \<Rightarrow> user_row \<Rightarrow> bool" where
  "qualifies calls ty u = (case ty of
      EARLY_ADOPTER \<Rightarrow> early_adopter u
    | WHALE \<Rightarrow> whale calls u
    | HIGH_ACCURACY \<Rightarrow> high_accuracy calls u
    | STREAK_THREE \<Rightarrow> streak_of 3 u
    | STREAK_FIVE \<Rightarrow> streak_of 5 u
    | STREAK_TEN \<Rightarrow> streak_of 10 u)"

text \<open>The query leaves out the users who have the badge.\<close>

definition qualifying :: "badge_call list \<Rightarrow> badge \<Rightarrow> user_row list \<Rightarrow> string list" where
  "qualifying calls b us = map ur_id (filter (\<lambda>u. qualifies calls (bg_type b) u \<and> bg_id b \<notin> set (ur_badges u)) us)"

subsection \<open>Assigning\<close>

definition load_users :: "string list \<Rightarrow> user_row list \<Rightarrow> user_row list" where
  "load_users ids us = filter (\<lambda>u. ur_id u \<in> set ids) us"

definition give_badge :: "string \<Rightarrow> user_row list \<Rightarrow> user_row \<Rightarrow> user_row list" where
  "give_badge i us u = (if i \<in> set (ur_badges u) then us else save_user (u\<lparr>ur_badges := ur_badges u @ [i]\<rparr>) us)"

definition bulkAssign :: "string list \<Rightarrow> badge \<Rightarrow> user_row list \<Rightarrow> user_row list" where
  "bulkAssign ids b us = (if ids = [] then us else foldl (give_badge (bg_id b)) us (load_users ids us))"

definition assign :: "badge_call list \<Rightarrow> badge list \<Rightarrow> badge_type \<Rightarrow> user_row list \<Rightarrow> user_row list" where
  "assign calls bs ty us = (case find_badge ty bs of None \<Rightarrow> us | Some b \<Rightarrow> bulkAssign (qualifying calls b us) b us)"

definition assignEarlyAdopterBadge :: "badge_call list \<Rightarrow> badge list \<Rightarrow> user_row list \<Rightarrow> user_row list" where
  "assignEarlyAdopterBadge calls bs us = assign calls bs EARLY_ADOPTER us"

definition assignWhaleBadge :: "badge_call list \<Rightarrow> badge list \<Rightarrow> user_row list \<Rightarrow> user_row list" where
  "assignWhaleBadge calls bs us = assign calls bs WHALE us"

definition assignHighAccuracyBadge :: "badge_call list \<Rightarrow> badge list \<Rightarrow> user_row list \<Rightarrow> user_row list" where
  "assignHighAccuracyBadge calls bs us = assign calls bs HIGH_ACCURACY us"

definition streak_types :: "badge_type list" where
  "streak_types = [STREAK_THREE, STREAK_FIVE, STREAK_TEN]"

definition assignStreakBadges :: "badge_call list \<Rightarrow> badge list \<Rightarrow> user_row list \<Rightarrow> user_row list" where
  "assignStreakBadges calls bs us = foldl (\<lambda>us ty. assign calls bs ty us) us streak_types"

text \<open>An assigner at work: the types it still has to do, and what it awaits.\<close>

datatype phase = Idle | Queried string "string list" | Saving string "user_row list"

record assigner =
  wk_todo :: "badge_type list"
  wk_phase :: phase

record night =
  ni_users :: "user_row list"
  ni_workers :: "assigner list"

definition assigner_step :: "badge_call list \<Rightarrow> badge list \<Rightarrow> assigner \<Rightarrow> user_row list \<Rightarrow> assigner \<times> user_row list" where
  "assigner_step calls bs w us = (case wk_phase w of
      Idle \<Rightarrow> (case wk_todo w of
          [] \<Rightarrow> (w, us)
        | ty # todo \<Rightarrow> (case find_badge ty bs of
              None \<Rightarrow> (w\<lparr>wk_todo := todo\<rparr>, us)
            | Some b \<Rightarrow> (\<lparr>wk_todo = todo, wk_phase = Queried (bg_id b) (qualifying calls b us)\<rparr>, us)))
    | Queried i ids \<Rightarrow> (w\<lparr>wk_phase := (if ids = [] then Idle else Saving i (load_users ids us))\<rparr>, us)
    | Saving i [] \<Rightarrow> (w\<lparr>wk_phase := Idle\<rparr>, us)
    | Saving i (u # rest) \<Rightarrow> (w\<lparr>wk_phase := Saving i rest\<rparr>, give_badge i us u))"

definition night_step :: "badge_call list \<Rightarrow> badge list \<Rightarrow> night \<Rightarrow> nat \<Rightarrow> night" where
  "night_step calls bs n k =
     (if k < length (ni_workers n)
      then (case assigner_step calls bs (ni_workers n ! k) (ni_users n) of
              (w, us) \<Rightarrow> \<lparr>ni_users = us, ni_workers = (ni_workers n)[k := w]\<rparr>)
      else n)"

definition runBadgeAssignment :: "user_row list \<Rightarrow> night" where
  "runBadgeAssignment us = \<lparr>ni_users = us, ni_workers = map (\<lambda>todo. \<lparr>wk_todo = todo, wk_phase = Idle\<rparr>)
     [[EARLY_ADOPTER], [WHALE], [HIGH_ACCURACY], streak_types]\<rparr>"

subsection \<open>One assigner alone\<close>

definition strip :: "user_row \<Rightarrow> user_row" where
  "strip u = u\<lparr>ur_badges := []\<rparr>"

lemma strip_add [simp]: "strip (u\<lparr>ur_badges := bs\<rparr>) = strip u"
  by (simp add: strip_def)

lemma strip_id: "strip u = strip v \<Longrightarrow> ur_id u = ur_id v"
  unfolding strip_def by (cases u; cases v) simp

lemma qualifies_strip: "qualifies calls ty (strip u) = qualifies calls ty u"
  by (simp add: qualifies_def strip_def early_adopter_def whale_def high_accuracy_def calls_by_def streak_of_def split: badge_type.split)

lemma give_all:
  assumes "distinct (map ur_id us)" "distinct rs" "set rs \<subseteq> set us"
  shows "foldl (give_badge i) us rs
    = map (\<lambda>u. if u \<in> set rs \<and> i \<notin> set (ur_badges u) then u\<lparr>ur_badges := ur_badges u @ [i]\<rparr> else u) us"
  using assms(2,3)
proof (induction rs rule: rev_induct)
  case (snoc r rs)
  let ?f = "\<lambda>rs u. if u \<in> set rs \<and> i \<notin> set (ur_badges u) then u\<lparr>ur_badges := ur_badges u @ [i]\<rparr> else u"
  have IH: "foldl (give_badge i) us rs = map (?f rs) us" using snoc by simp
  have r: "r \<in> set us" "r \<notin> set rs" using snoc.prems by auto
  have e: "foldl (give_badge i) us (rs @ [r]) = give_badge i (map (?f rs) us) r" by (simp add: IH)
  show ?case
  proof (cases "i \<in> set (ur_badges r)")
    case True
    have "?f rs u = ?f (rs @ [r]) u" for u using True by auto
    then show ?thesis unfolding e using True by (simp add: give_badge_def)
  next
    case False
    have "(if ur_id (?f rs u) = ur_id r then r\<lparr>ur_badges := ur_badges r @ [i]\<rparr> else ?f rs u) = ?f (rs @ [r]) u" if "u \<in> set us" for u
      using same_key [OF assms(1) r(1) that] r(2) False by auto
    then show ?thesis unfolding e using False by (simp add: give_badge_def save_user_def save_by_def)
  qed
qed simp

text \<open>An assigner that runs alone gives its badge to those who qualify and have not got it, and to nobody else.\<close>

lemma assign_exact:
  assumes "distinct (map ur_id us)" "find_badge ty bs = Some b"
  shows "assign calls bs ty us
    = map (\<lambda>u. if qualifies calls ty u \<and> bg_id b \<notin> set (ur_badges u) then u\<lparr>ur_badges := ur_badges u @ [bg_id b]\<rparr> else u) us"
proof -
  have ty: "bg_type b = ty" using find_by_in [OF assms(2) [unfolded find_badge_def]] by simp
  have d: "distinct us" using assms(1) by (simp add: distinct_map)
  let ?ids = "qualifying calls b us"
  have l: "u \<in> set (load_users ?ids us) \<longleftrightarrow> qualifies calls ty u \<and> bg_id b \<notin> set (ur_badges u)" if "u \<in> set us" for u
  proof -
    have same: "v = u" if "v \<in> set us" "ur_id v = ur_id u" for v
      using same_key [OF assms(1) \<open>u \<in> set us\<close> that] .
    have "u \<in> set (load_users ?ids us) \<longleftrightarrow> (\<exists>v \<in> set us. ur_id v = ur_id u \<and> qualifies calls ty v \<and> bg_id b \<notin> set (ur_badges v))"
      using that by (auto simp: load_users_def qualifying_def ty image_iff)
    also have "\<dots> \<longleftrightarrow> qualifies calls ty u \<and> bg_id b \<notin> set (ur_badges u)" using same that by blast
    finally show ?thesis .
  qed
  have "assign calls bs ty us = foldl (give_badge (bg_id b)) us (load_users ?ids us)"
    by (cases "?ids = []") (simp_all add: assign_def assms(2) bulkAssign_def load_users_def)
  also have "\<dots> = map (\<lambda>u. if u \<in> set (load_users ?ids us) \<and> bg_id b \<notin> set (ur_badges u)
      then u\<lparr>ur_badges := ur_badges u @ [bg_id b]\<rparr> else u) us"
    by (rule give_all) (use assms(1) d in \<open>simp_all add: load_users_def\<close>)
  also have "\<dots> = map (\<lambda>u. if qualifies calls ty u \<and> bg_id b \<notin> set (ur_badges u)
      then u\<lparr>ur_badges := ur_badges u @ [bg_id b]\<rparr> else u) us"
  proof (rule map_cong [OF refl])
    fix u assume "u \<in> set us"
    then show "(if u \<in> set (load_users ?ids us) \<and> bg_id b \<notin> set (ur_badges u) then u\<lparr>ur_badges := ur_badges u @ [bg_id b]\<rparr> else u)
      = (if qualifies calls ty u \<and> bg_id b \<notin> set (ur_badges u) then u\<lparr>ur_badges := ur_badges u @ [bg_id b]\<rparr> else u)"
      unfolding l [OF \<open>u \<in> set us\<close>] by simp
  qed
  finally show ?thesis .
qed

lemma assign_none: "find_badge ty bs = None \<Longrightarrow> assign calls bs ty us = us"
  by (simp add: assign_def)

definition earned :: "badge_call list \<Rightarrow> badge list \<Rightarrow> badge_type list \<Rightarrow> user_row \<Rightarrow> string set" where
  "earned calls bs tys u = {bg_id b | b ty. ty \<in> set tys \<and> find_badge ty bs = Some b \<and> qualifies calls ty u}"

lemma earned_strip: "strip u = strip v \<Longrightarrow> earned calls bs tys u = earned calls bs tys v"
  unfolding earned_def using qualifies_strip [of calls _ u] qualifies_strip [of calls _ v] by simp

lemma assign_all:
  assumes "distinct (map ur_id us)"
  shows "\<exists>f. foldl (\<lambda>us ty. assign calls bs ty us) us tys = map f us
    \<and> (\<forall>u. strip (f u) = strip u \<and> set (ur_badges (f u)) = set (ur_badges u) \<union> earned calls bs tys u
        \<and> (earned calls bs tys u \<subseteq> set (ur_badges u) \<longrightarrow> f u = u))"
  using assms
proof (induction tys rule: rev_induct)
  case Nil
  show ?case by (rule exI [of _ id]) (simp add: earned_def)
next
  case (snoc ty tys)
  obtain f where f: "foldl (\<lambda>us ty. assign calls bs ty us) us tys = map f us" "\<And>u. strip (f u) = strip u"
    "\<And>u. set (ur_badges (f u)) = set (ur_badges u) \<union> earned calls bs tys u" "\<And>u. earned calls bs tys u \<subseteq> set (ur_badges u) \<Longrightarrow> f u = u"
    using snoc by blast
  have q: "qualifies calls t (f u) = qualifies calls t u" for t u
    using qualifies_strip [of calls t u] qualifies_strip [of calls t "f u"] f(2) by simp
  have d: "distinct (map ur_id (map f us))"
    using snoc.prems strip_id [OF f(2)] by (simp add: comp_def)
  show ?case
  proof (cases "find_badge ty bs")
    case None
    then have "earned calls bs (tys @ [ty]) u = earned calls bs tys u" for u by (auto simp: earned_def)
    then show ?thesis using f by (intro exI [of _ f]) (simp add: assign_none [OF None])
  next
    case (Some b)
    let ?g = "\<lambda>u. if qualifies calls ty u \<and> bg_id b \<notin> set (ur_badges u) then u\<lparr>ur_badges := ur_badges u @ [bg_id b]\<rparr> else u"
    have e: "earned calls bs (tys @ [ty]) u = earned calls bs tys u \<union> (if qualifies calls ty u then {bg_id b} else {})" for u
      using Some by (auto simp: earned_def)
    show ?thesis
      by (intro exI [of _ "?g \<circ> f"]) (use f q in \<open>auto simp: assign_exact [OF d Some] e\<close>)
  qed
qed

definition all_types :: "badge_type list" where
  "all_types = [EARLY_ADOPTER, WHALE, HIGH_ACCURACY] @ streak_types"

text \<open>One after the other the four assigners give every user exactly the badges it has earned, and a second night changes nothing.\<close>

lemma nights_in_sequence:
  assumes "distinct (map ur_id us)"
    and "run = (\<lambda>us. assignStreakBadges calls bs (assignHighAccuracyBadge calls bs (assignWhaleBadge calls bs (assignEarlyAdopterBadge calls bs us))))"
  shows "list_all2 (\<lambda>u v. strip v = strip u \<and> set (ur_badges v) = set (ur_badges u) \<union> earned calls bs all_types u) us (run us)
    \<and> run (run us) = run us"
proof -
  have r: "run vs = foldl (\<lambda>us ty. assign calls bs ty us) vs all_types" for vs
    by (simp add: assms(2) all_types_def assignStreakBadges_def assignHighAccuracyBadge_def assignWhaleBadge_def assignEarlyAdopterBadge_def)
  obtain f where f: "run us = map f us" "\<And>u. strip (f u) = strip u"
    "\<And>u. set (ur_badges (f u)) = set (ur_badges u) \<union> earned calls bs all_types u"
    using assign_all [OF assms(1), of calls bs all_types] by (auto simp: r)
  have d: "distinct (map ur_id (run us))" using assms(1) strip_id [OF f(2)] by (simp add: f(1) comp_def)
  obtain g where g: "run (run us) = map g (run us)" "\<And>u. earned calls bs all_types u \<subseteq> set (ur_badges u) \<Longrightarrow> g u = u"
    using assign_all [OF d, of calls bs all_types] by (auto simp: r [of "run us"])
  have "g (f u) = f u" for u using f(3) earned_strip [OF f(2)] by (intro g(2)) auto
  then have "run (run us) = run us" by (simp add: g(1)) (simp add: f(1))
  then show ?thesis using f(2,3) by (simp add: f(1) list_all2_map2 list_all2_same)
qed

subsection \<open>All of them at once\<close>

text \<open>A row that came from the table of the evening by adding badges that its user had earned.\<close>

definition all_earned :: "badge_call list \<Rightarrow> badge list \<Rightarrow> user_row \<Rightarrow> string set" where
  "all_earned calls bs u = {bg_id b | b. b \<in> set bs \<and> qualifies calls (bg_type b) u}"

definition grown :: "badge_call list \<Rightarrow> badge list \<Rightarrow> user_row list \<Rightarrow> user_row \<Rightarrow> bool" where
  "grown calls bs us0 u \<longleftrightarrow> (\<exists>u0 \<in> set us0. strip u = strip u0 \<and> distinct (ur_badges u)
     \<and> set (ur_badges u) \<subseteq> set (ur_badges u0) \<union> all_earned calls bs u0)"

fun phase_ok :: "badge_call list \<Rightarrow> badge list \<Rightarrow> user_row list \<Rightarrow> phase \<Rightarrow> bool" where
  "phase_ok calls bs us0 Idle = True"
| "phase_ok calls bs us0 (Queried i ids) = (\<forall>u0 \<in> set us0. ur_id u0 \<in> set ids \<longrightarrow> i \<in> all_earned calls bs u0)"
| "phase_ok calls bs us0 (Saving i rows) = (\<forall>u \<in> set rows. grown calls bs us0 u \<and> i \<in> all_earned calls bs u)"

definition night_ok :: "badge_call list \<Rightarrow> badge list \<Rightarrow> user_row list \<Rightarrow> night \<Rightarrow> bool" where
  "night_ok calls bs us0 n \<longleftrightarrow> map strip (ni_users n) = map strip us0 \<and> (\<forall>u \<in> set (ni_users n). grown calls bs us0 u)
     \<and> (\<forall>w \<in> set (ni_workers n). phase_ok calls bs us0 (wk_phase w))"

lemma all_earned_strip: "strip u = strip v \<Longrightarrow> all_earned calls bs u = all_earned calls bs v"
  unfolding all_earned_def using qualifies_strip [of calls _ u] qualifies_strip [of calls _ v] by simp

lemma grown_give: "grown calls bs us0 u \<Longrightarrow> i \<in> all_earned calls bs u \<Longrightarrow> i \<notin> set (ur_badges u)
    \<Longrightarrow> grown calls bs us0 (u\<lparr>ur_badges := ur_badges u @ [i]\<rparr>)"
proof -
  assume g: "grown calls bs us0 u" "i \<in> all_earned calls bs u" "i \<notin> set (ur_badges u)"
  then obtain u0 where u0: "u0 \<in> set us0" "strip u = strip u0" "distinct (ur_badges u)"
    "set (ur_badges u) \<subseteq> set (ur_badges u0) \<union> all_earned calls bs u0" by (auto simp: grown_def)
  have "i \<in> all_earned calls bs u0" using g(2) all_earned_strip [OF u0(2)] by simp
  then show ?thesis unfolding grown_def using u0 g(3) by (intro bexI [OF _ u0(1)]) auto
qed

lemma same_strip:
  assumes "distinct (map ur_id us0)" "u0 \<in> set us0" "strip u \<in> strip ` set us0" "ur_id u = ur_id u0"
  shows "strip u = strip u0"
proof -
  obtain v where v: "v \<in> set us0" "strip u = strip v" using assms(3) by auto
  have "ur_id v = ur_id u0" using strip_id [OF v(2)] assms(4) by simp
  then have "v = u0" by (rule same_key [OF assms(1,2) v(1)])
  then show ?thesis using v(2) by simp
qed

lemma give_badge_ok:
  assumes "distinct (map ur_id us0)" "map strip us = map strip us0" "\<forall>u \<in> set us. grown calls bs us0 u"
    "grown calls bs us0 r" "i \<in> all_earned calls bs r"
  shows "map strip (give_badge i us r) = map strip us0 \<and> (\<forall>u \<in> set (give_badge i us r). grown calls bs us0 u)"
proof (cases "i \<in> set (ur_badges r)")
  case False
  let ?r = "r\<lparr>ur_badges := ur_badges r @ [i]\<rparr>"
  have r: "strip r \<in> strip ` set us0" using assms(4) by (auto simp: grown_def)
  have "strip (if ur_id u = ur_id r then ?r else u) = strip u" if "u \<in> set us" for u
  proof (cases "ur_id u = ur_id r")
    case True
    have "strip u \<in> strip ` set us0" using that arg_cong [OF assms(2), of set] by auto
    then obtain u0 where u0: "u0 \<in> set us0" "strip u = strip u0" by auto
    have "strip r = strip u0" by (rule same_strip [OF assms(1) u0(1) r]) (use True strip_id [OF u0(2)] in simp)
    then show ?thesis using True u0(2) by simp
  qed simp
  then have "map strip (give_badge i us r) = map strip us" using False by (simp add: give_badge_def save_user_def save_by_def)
  moreover have "grown calls bs us0 ?r" by (rule grown_give [OF assms(4,5) False])
  then have "\<forall>u \<in> set (give_badge i us r). grown calls bs us0 u"
    using False assms(3) by (auto simp: give_badge_def save_user_def save_by_def)
  ultimately show ?thesis using assms(2) by simp
qed (use assms(2,3) in \<open>simp add: give_badge_def\<close>)

lemma query_ok:
  assumes "distinct (map ur_id us0)" "map strip us = map strip us0" "find_badge ty bs = Some b"
  shows "phase_ok calls bs us0 (Queried (bg_id b) (qualifying calls b us))"
proof (simp, intro ballI impI)
  fix u0 assume u0: "u0 \<in> set us0" "ur_id u0 \<in> set (qualifying calls b us)"
  then obtain u where u: "u \<in> set us" "ur_id u = ur_id u0" "qualifies calls (bg_type b) u" by (auto simp: qualifying_def)
  have "strip u \<in> strip ` set us0" using u(1) arg_cong [OF assms(2), of set] by auto
  then have "strip u = strip u0" by (rule same_strip [OF assms(1) u0(1) _ u(2)])
  then have "qualifies calls (bg_type b) u0" using u(3) qualifies_strip [of calls _ u] qualifies_strip [of calls _ u0] by simp
  moreover have "b \<in> set bs" using assms(3) by (auto simp: find_badge_def dest: find_by_in)
  ultimately show "bg_id b \<in> all_earned calls bs u0" by (auto simp: all_earned_def)
qed

lemma load_ok:
  assumes "phase_ok calls bs us0 (Queried i ids)" "\<forall>u \<in> set us. grown calls bs us0 u"
  shows "phase_ok calls bs us0 (Saving i (load_users ids us))"
proof (simp, intro ballI)
  fix u assume u: "u \<in> set (load_users ids us)"
  then have g: "grown calls bs us0 u" using assms(2) by (simp add: load_users_def)
  then obtain u0 where u0: "u0 \<in> set us0" "strip u = strip u0" by (auto simp: grown_def)
  have "ur_id u0 \<in> set ids" using u strip_id [OF u0(2)] by (simp add: load_users_def)
  then show "grown calls bs us0 u \<and> i \<in> all_earned calls bs u"
    using assms(1) u0 g all_earned_strip [OF u0(2)] by simp
qed

lemma assigner_step_ok:
  assumes "distinct (map ur_id us0)" "map strip us = map strip us0" "\<forall>u \<in> set us. grown calls bs us0 u"
    "phase_ok calls bs us0 (wk_phase w)" "assigner_step calls bs w us = (w', us')"
  shows "map strip us' = map strip us0 \<and> (\<forall>u \<in> set us'. grown calls bs us0 u) \<and> phase_ok calls bs us0 (wk_phase w')"
proof (cases "wk_phase w")
  case Idle
  then show ?thesis
    using assms query_ok [OF assms(1,2)] by (auto simp: assigner_step_def simp del: phase_ok.simps(2) split: list.splits option.splits)
next
  case (Queried i ids)
  then have "phase_ok calls bs us0 (Saving i (load_users ids us))" using load_ok [OF _ assms(3)] assms(4) by metis
  then show ?thesis using assms Queried by (auto simp: assigner_step_def simp del: phase_ok.simps(2,3))
next
  case (Saving i rows)
  show ?thesis
  proof (cases rows)
    case (Cons r rest)
    then have "grown calls bs us0 r" "i \<in> all_earned calls bs r" using assms(4) Saving by auto
    then show ?thesis
      using give_badge_ok [OF assms(1-3)] assms(4,5) Saving Cons by (auto simp: assigner_step_def)
  qed (use assms Saving in \<open>auto simp: assigner_step_def\<close>)
qed

lemma night_step_ok: "distinct (map ur_id us0) \<Longrightarrow> night_ok calls bs us0 n \<Longrightarrow> night_ok calls bs us0 (night_step calls bs n k)"
proof (cases "k < length (ni_workers n)")
  case True
  assume d: "distinct (map ur_id us0)" and ok: "night_ok calls bs us0 n"
  obtain w us where st: "assigner_step calls bs (ni_workers n ! k) (ni_users n) = (w, us)"
    by (cases "assigner_step calls bs (ni_workers n ! k) (ni_users n)")
  have "map strip us = map strip us0 \<and> (\<forall>u \<in> set us. grown calls bs us0 u) \<and> phase_ok calls bs us0 (wk_phase w)"
    by (rule assigner_step_ok [OF d _ _ _ st]) (use ok True in \<open>simp_all add: night_ok_def\<close>)
  then show ?thesis using ok True st by (auto simp: night_step_def night_ok_def dest!: subsetD [OF set_update_subset_insert])
qed (simp add: night_step_def)

text \<open>C35: in whatever order the steps of the four assigners interleave, no user is lost, no other column of a row changes, nobody
  has a badge twice, and everybody's badges are badges of the evening or badges that the user has earned.\<close>

theorem badges_only_earned:
  assumes "distinct (map ur_id us0)" "\<forall>u \<in> set us0. distinct (ur_badges u)"
    and "n = foldl (night_step calls bs) (runBadgeAssignment us0) ks"
  shows "list_all2 (\<lambda>u0 u. u = u0\<lparr>ur_badges := ur_badges u\<rparr> \<and> distinct (ur_badges u)
      \<and> set (ur_badges u) \<subseteq> set (ur_badges u0) \<union> {bg_id b | b. b \<in> set bs \<and> qualifies calls (bg_type b) u0}) us0 (ni_users n)"
proof -
  have "night_ok calls bs us0 (foldl (night_step calls bs) m ks)" if "night_ok calls bs us0 m" for m
    using that by (induction ks arbitrary: m) (auto intro: night_step_ok [OF assms(1)])
  moreover have "night_ok calls bs us0 (runBadgeAssignment us0)"
    using assms(2) by (auto simp: night_ok_def runBadgeAssignment_def grown_def)
  ultimately have ok: "night_ok calls bs us0 n" by (simp add: assms(3))
  then have len: "length us0 = length (ni_users n)" by (metis night_ok_def length_map)
  show ?thesis
  proof (rule list_all2_all_nthI [OF len])
    fix k assume k: "k < length us0"
    have s: "strip (ni_users n ! k) = strip (us0 ! k)"
      using ok k len nth_map [of k us0 strip] nth_map [of k "ni_users n" strip] by (simp add: night_ok_def)
    have "grown calls bs us0 (ni_users n ! k)" using ok k len by (simp add: night_ok_def)
    then obtain u0 where u0: "u0 \<in> set us0" "strip (ni_users n ! k) = strip u0" "distinct (ur_badges (ni_users n ! k))"
      "set (ur_badges (ni_users n ! k)) \<subseteq> set (ur_badges u0) \<union> all_earned calls bs u0" by (auto simp: grown_def)
    have "ur_id u0 = ur_id (us0 ! k)" using strip_id [OF u0(2)] strip_id [OF s] by simp
    then have "u0 = us0 ! k" by (rule same_key [OF assms(1) nth_mem [OF k] u0(1)])
    moreover have "ni_users n ! k = (us0 ! k)\<lparr>ur_badges := ur_badges (ni_users n ! k)\<rparr>"
      using s unfolding strip_def by (cases "ni_users n ! k"; cases "us0 ! k") simp
    ultimately show "ni_users n ! k = (us0 ! k)\<lparr>ur_badges := ur_badges (ni_users n ! k)\<rparr> \<and> distinct (ur_badges (ni_users n ! k))
      \<and> set (ur_badges (ni_users n ! k)) \<subseteq> set (ur_badges (us0 ! k)) \<union> {bg_id b | b. b \<in> set bs \<and> qualifies calls (bg_type b) (us0 ! k)}"
      using u0(3,4) by (simp add: all_earned_def)
  qed
qed

definition sample_user :: user_row where
  "sample_user = \<lparr>ur_id = ''u'', ur_walletAddress = ''GA'', ur_email = None, ur_referralCode = None, ur_displayName = None,
     ur_bio = None, ur_avatarCid = None, ur_referredBy = None, ur_badges = [], ur_currentWinStreak = 3, ur_bestWinStreak = 3,
     ur_banned = False, ur_createdAt = 0, ur_updatedAt = 0\<rparr>"

definition sample_badges :: "badge list" where
  "sample_badges = seedBadgeDefinitions (\<lambda>ty. case ty of EARLY_ADOPTER \<Rightarrow> ''e'' | WHALE \<Rightarrow> ''w'' | HIGH_ACCURACY \<Rightarrow> ''h''
     | STREAK_THREE \<Rightarrow> ''s3'' | STREAK_FIVE \<Rightarrow> ''s5'' | STREAK_TEN \<Rightarrow> ''s10'') []"

lemma badges_only_earned_witness:
  "list_all2 (\<lambda>u0 u. u = u0\<lparr>ur_badges := ur_badges u\<rparr> \<and> distinct (ur_badges u)
      \<and> set (ur_badges u) \<subseteq> set (ur_badges u0) \<union> {bg_id b | b. b \<in> set sample_badges \<and> qualifies [] (bg_type b) u0})
    [sample_user] (ni_users (foldl (night_step [] sample_badges) (runBadgeAssignment [sample_user]) [0, 3, 0, 3, 0, 3]))"
  by (rule badges_only_earned [OF _ _ refl]) (simp_all add: sample_user_def)

text \<open>Two assigners load the same user before either saves: the badge saved first is gone until the next night.\<close>

lemma badge_lost:
  "map ur_badges (ni_users (foldl (night_step [] sample_badges) (runBadgeAssignment [sample_user]) [0, 3, 0, 3, 0])) = [[''e'']]"
  "map ur_badges (ni_users (foldl (night_step [] sample_badges) (runBadgeAssignment [sample_user]) [0, 3, 0, 3, 0, 3])) = [[''s3'']]"
  by code_simp+

end
