(* ===== verification/AuditLog.thy ===== *)
theory AuditLog
  imports JsValue Prelude
begin

text \<open>
  The audit log of administrators' actions (\<^verbatim>\<open>packages/backend/src/audit\<close>): the interceptor that writes one entry per
  request of a marked route, the service that stores and lists entries, and the in-memory log of the oracle. Bodies are
  JSON values.
\<close>

subsection \<open>Entries\<close>

datatype audit_status = AUDIT_SUCCESS | AUDIT_FAILURE

datatype audit_action =
    ORACLE_PARAMS_UPDATED | ORACLE_QUORUM_SET | MARKET_MANUALLY_RESOLVED | MARKET_DISPUTED | MARKET_PAUSED
  | CALL_HIDDEN | CALL_UNHIDDEN | REPORT_DISMISSED | REPORT_ACTIONED | USER_BANNED | USER_UNBANNED
  | DEAD_LETTER_REPLAYED | DEAD_LETTER_DISMISSED | ADMIN_ACTION

record audit_entry =
  lg_id :: string
  lg_timestamp :: int
  lg_actorId :: string
  lg_actionType :: audit_action
  lg_targetResource :: string
  lg_requestPayload :: jval
  lg_responsePayload :: jval
  lg_httpStatus :: nat
  lg_status :: audit_status
  lg_note :: "string option"

text \<open>What the database refuses is logged elsewhere and swallowed.\<close>

definition write_audit :: "audit_entry \<Rightarrow> audit_entry list \<Rightarrow> audit_entry list" where
  "write_audit e rows = (if length (lg_actorId e) \<le> 256 \<and> length (lg_targetResource e) \<le> 512 then rows @ [e] else rows)"

record audit_query =
  qa_actorId :: "string option"
  qa_actionType :: "audit_action option"
  qa_status :: "audit_status option"
  qa_targetResource :: "string option"
  qa_from :: "int option"
  qa_to :: "int option"
  qa_page :: "nat option"
  qa_limit :: "nat option"

definition given_text :: "string option \<Rightarrow> string option" where
  "given_text x = (case x of Some s \<Rightarrow> if s = [] then None else Some s | None \<Rightarrow> None)"

definition audit_where :: "audit_query \<Rightarrow> audit_entry \<Rightarrow> bool" where
  "audit_where q e \<longleftrightarrow>
     (case given_text (qa_actorId q) of Some a \<Rightarrow> lg_actorId e = a | None \<Rightarrow> True)
   \<and> (case qa_actionType q of Some a \<Rightarrow> lg_actionType e = a | None \<Rightarrow> True)
   \<and> (case qa_status q of Some a \<Rightarrow> lg_status e = a | None \<Rightarrow> True)
   \<and> (case given_text (qa_targetResource q) of Some a \<Rightarrow> lg_targetResource e = a | None \<Rightarrow> True)
   \<and> (case (qa_from q, qa_to q) of (Some a, Some b) \<Rightarrow> a \<le> lg_timestamp e \<and> lg_timestamp e \<le> b | _ \<Rightarrow> True)"

definition findAllAudits :: "audit_query \<Rightarrow> audit_entry list \<Rightarrow> audit_entry list \<times> nat" where
  "findAllAudits q rows =
     (let found = filter (audit_where q) rows; page = nullish (qa_page q) 1; limit = nullish (qa_limit q) 50
      in (window ((page - 1) * limit) limit (sort_key (\<lambda>e. - lg_timestamp e) found), length found))"

definition findOneAudit :: "string \<Rightarrow> audit_entry list \<Rightarrow> audit_entry option" where
  "findOneAudit i rows = find (\<lambda>e. lg_id e = i) rows"

subsection \<open>What is kept of a body\<close>

definition AUDIT_SENSITIVE_KEYS :: "string list" where
  "AUDIT_SENSITIVE_KEYS = [''password'', ''secret'', ''token'', ''privateKey'', ''mnemonic'', ''seed'', ''authorization'']"

text \<open>The key \<^verbatim>\<open>__proto__\<close> names no own property of the result: the assignment sets or ignores the prototype.\<close>

function sanitize :: "jval \<Rightarrow> nat \<Rightarrow> jval" where
  "sanitize v depth =
     (if \<not> truthy v \<or> \<not> is_object v \<or> depth > 4 then JNull
      else from_entries (map (\<lambda>(k, w).
             (k, if to_lower k \<in> set AUDIT_SENSITIVE_KEYS then JStr ''[REDACTED]''
                 else if is_object w then sanitize w (depth + 1)
                 else w))
           (filter (\<lambda>(k, w). k \<noteq> ''__proto__'') (entries v))))"
  by pat_completeness auto
termination
  by (relation "measure (\<lambda>(v, depth). size v)") (auto dest: entries_size)

declare sanitize.simps [simp del]

subsection \<open>The interceptor\<close>

record audited_request =
  ar_user :: "(string \<times> string) list option"
  ar_path :: "string option"
  ar_body :: jval
  ar_ip :: string
  ar_userAgent :: "string option"

datatype outcome = Returned jval nat | Threw "nat option" string jval

record admin_action =
  aa_actorId :: string
  aa_actionType :: audit_action
  aa_targetResource :: string
  aa_status :: audit_status
  aa_httpStatus :: nat
  aa_note :: "string option"
  aa_ip :: string
  aa_userAgent :: "string option"

definition actor_of :: "(string \<times> string) list option \<Rightarrow> string" where
  "actor_of user = (let u = map_of (nullish user []) in
     case u ''id'' of Some x \<Rightarrow> x | None \<Rightarrow> (case u ''sub'' of Some x \<Rightarrow> x | None \<Rightarrow>
     (case u ''address'' of Some x \<Rightarrow> x | None \<Rightarrow> nullish (u ''email'') ''unknown'')))"

definition audit_entry_of :: "int \<Rightarrow> string \<Rightarrow> audit_action \<Rightarrow> string \<Rightarrow> audited_request \<Rightarrow> outcome \<Rightarrow> audit_entry" where
  "audit_entry_of now newId act target req out =
     (let entry = (\<lambda>resp status st note. \<lparr>lg_id = newId, lg_timestamp = now, lg_actorId = actor_of (ar_user req), lg_actionType = act,
            lg_targetResource = target, lg_requestPayload = sanitize (ar_body req) 0, lg_responsePayload = resp, lg_httpStatus = status,
            lg_status = st, lg_note = note\<rparr>)
      in case out of
           Returned resp status \<Rightarrow> entry (sanitize resp 0) status AUDIT_SUCCESS None
         | Threw status msg resp \<Rightarrow>
             entry (JObj [(''error'', JStr msg), (''detail'', sanitize resp 0)]) (nullish status 500) AUDIT_FAILURE (Some msg))"

definition admin_action_of :: "audit_action \<Rightarrow> string \<Rightarrow> audited_request \<Rightarrow> outcome \<Rightarrow> admin_action" where
  "admin_action_of act target req out =
     (let event = (\<lambda>status st note. \<lparr>aa_actorId = actor_of (ar_user req), aa_actionType = act, aa_targetResource = target,
            aa_status = st, aa_httpStatus = status, aa_note = note, aa_ip = ar_ip req, aa_userAgent = ar_userAgent req\<rparr>)
      in case out of
           Returned resp status \<Rightarrow> event status AUDIT_SUCCESS None
         | Threw status msg resp \<Rightarrow> event (nullish status 500) AUDIT_FAILURE (Some msg))"

text \<open>\<open>resource\<close> is what the function of the mark gives for the request, if the mark has one, \<open>handler\<close> the name of the route's
  function, \<open>newId\<close> and \<open>now\<close> the columns the database fills. The log and the event bus are the state.\<close>

definition audit_intercept ::
  "int \<Rightarrow> string \<Rightarrow> audit_action option \<Rightarrow> string option \<Rightarrow> string \<Rightarrow> audited_request \<Rightarrow> outcome
   \<Rightarrow> audit_entry list \<times> admin_action list \<Rightarrow> (audit_entry list \<times> admin_action list) \<times> outcome" where
  "audit_intercept now newId actionType resource handler req out s = (case actionType of
      None \<Rightarrow> (s, out)
    | Some act \<Rightarrow>
        (let target = (case resource of Some r \<Rightarrow> r | None \<Rightarrow> nullish (ar_path req) handler)
         in ((write_audit (audit_entry_of now newId act target req out) (fst s), snd s @ [admin_action_of act target req out]), out)))"

subsection \<open>The oracle's log\<close>

record oracle_event =
  ov_id :: string
  ov_eventType :: string
  ov_actor :: string
  ov_timestamp :: int
  ov_metadata :: jval
  ov_signature :: "string option"

definition log_oracle :: "int \<Rightarrow> oracle_event \<Rightarrow> oracle_event list \<Rightarrow> oracle_event list" where
  "log_oracle now e es = es @ [e\<lparr>ov_timestamp := (if ov_timestamp e = 0 then now else ov_timestamp e)\<rparr>]"

definition getEventsByActor :: "string \<Rightarrow> oracle_event list \<Rightarrow> oracle_event list" where
  "getEventsByActor a es = filter (\<lambda>e. ov_actor e = a) es"

definition getEventsByType_oracle :: "string \<Rightarrow> oracle_event list \<Rightarrow> oracle_event list" where
  "getEventsByType_oracle t es = filter (\<lambda>e. ov_eventType e = t) es"

subsection \<open>Secrets\<close>

text \<open>At every depth of a value, what stands under a key whose lower-case form is listed is the mark.\<close>

function hides_secrets :: "jval \<Rightarrow> bool" where
  "hides_secrets (JObj ps) \<longleftrightarrow>
     (\<forall>e \<in> set ps. (to_lower (fst e) \<in> set AUDIT_SENSITIVE_KEYS \<longrightarrow> snd e = JStr ''[REDACTED]'') \<and> hides_secrets (snd e))"
| "hides_secrets (JArr vs) \<longleftrightarrow> (\<forall>v \<in> set vs. hides_secrets v)"
| "hides_secrets JUndef \<longleftrightarrow> True"
| "hides_secrets JNull \<longleftrightarrow> True"
| "hides_secrets (JBool b) \<longleftrightarrow> True"
| "hides_secrets (JNum n) \<longleftrightarrow> True"
| "hides_secrets (JBig i) \<longleftrightarrow> True"
| "hides_secrets (JStr s) \<longleftrightarrow> True"
  by pat_completeness auto
termination
proof (relation "measure size"; clarsimp simp: size_mem_props)
  fix vs :: "jval list" and v
  assume "v \<in> set vs"
  then show "size v < Suc (size_list size vs)" by (simp add: less_Suc_eq_le size_list_estimation')
qed

lemma from_entries_set: "\<exists>ps. from_entries es = JObj ps \<and> set ps = set es"
  by (auto simp: from_entries_def)

lemma hides_plain: "\<not> is_object w \<Longrightarrow> hides_secrets w"
  by (cases w) (simp_all add: is_object_def)

lemma sanitize_hides: "hides_secrets (sanitize v depth)"
proof (induction v depth rule: sanitize.induct)
  case (1 v depth)
  show ?case
  proof (cases "\<not> truthy v \<or> \<not> is_object v \<or> depth > 4")
    case False
    let ?es = "map (\<lambda>(k, w). (k, if to_lower k \<in> set AUDIT_SENSITIVE_KEYS then JStr ''[REDACTED]''
        else if is_object w then sanitize w (depth + 1) else w)) (filter (\<lambda>(k, w). k \<noteq> ''__proto__'') (entries v))"
    obtain ps where ps: "from_entries ?es = JObj ps" "set ps = set ?es" using from_entries_set by blast
    have "(to_lower (fst e) \<in> set AUDIT_SENSITIVE_KEYS \<longrightarrow> snd e = JStr ''[REDACTED]'') \<and> hides_secrets (snd e)" if "e \<in> set ?es" for e
      using that 1 [OF False] hides_plain by auto
    then show ?thesis using False ps by (subst sanitize.simps) simp
  qed (subst sanitize.simps, simp)
qed

text \<open>The listed name \<^verbatim>\<open>privateKey\<close> is no lower-case form: what stands under it is stored.\<close>

lemma private_key_kept: "sanitize (JObj [(''privateKey'', JStr s)]) 0 = JObj [(''privateKey'', JStr s)]"
proof -
  have "to_lower ''privateKey'' = ''privatekey''" "\<not> is_index_key ''privateKey''" by code_simp+
  then show ?thesis
    by (subst sanitize.simps) (simp add: truthy_def is_object_def entries_def from_entries_def AUDIT_SENSITIVE_KEYS_def)
qed

text \<open>C38: the interceptor never changes the answer of a route; a marked route adds one event and, when its texts fit, one entry, that says
  success exactly when the handler returned, with its status; and no body it stores shows the value of a listed key, but
  that of a private key, whose listed name never matches, is stored as it is.\<close>

theorem audit_faithful:
  "snd (audit_intercept now newId act resource handler req out s) = out
   \<and> (case act of
        None \<Rightarrow> fst (audit_intercept now newId act resource handler req out s) = s
      | Some a \<Rightarrow> \<exists>e v. fst (audit_intercept now newId act resource handler req out s)
            = (fst s @ (if length (lg_actorId e) \<le> 256 \<and> length (lg_targetResource e) \<le> 512 then [e] else []), snd s @ [v])
          \<and> lg_actionType e = a \<and> lg_actorId e = actor_of (ar_user req) \<and> aa_status v = lg_status e \<and> aa_httpStatus v = lg_httpStatus e
          \<and> (lg_status e, lg_httpStatus e) = (case out of Returned _ st \<Rightarrow> (AUDIT_SUCCESS, st) | Threw st _ _ \<Rightarrow> (AUDIT_FAILURE, nullish st 500))
          \<and> hides_secrets (lg_requestPayload e) \<and> hides_secrets (lg_responsePayload e))
   \<and> sanitize (JObj [(''privateKey'', JStr key)]) 0 = JObj [(''privateKey'', JStr key)]"
proof (intro conjI)
  show "snd (audit_intercept now newId act resource handler req out s) = out"
    by (simp add: audit_intercept_def Let_def split: option.split outcome.split)
  have "to_lower ''error'' = ''error''" "to_lower ''detail'' = ''detail''" by code_simp+
  then have err: "hides_secrets (JObj [(''error'', JStr msg), (''detail'', sanitize resp 0)])" for msg resp
    by (simp add: sanitize_hides AUDIT_SENSITIVE_KEYS_def)
  show "case act of
        None \<Rightarrow> fst (audit_intercept now newId act resource handler req out s) = s
      | Some a \<Rightarrow> \<exists>e v. fst (audit_intercept now newId act resource handler req out s)
            = (fst s @ (if length (lg_actorId e) \<le> 256 \<and> length (lg_targetResource e) \<le> 512 then [e] else []), snd s @ [v])
          \<and> lg_actionType e = a \<and> lg_actorId e = actor_of (ar_user req) \<and> aa_status v = lg_status e \<and> aa_httpStatus v = lg_httpStatus e
          \<and> (lg_status e, lg_httpStatus e) = (case out of Returned _ st \<Rightarrow> (AUDIT_SUCCESS, st) | Threw st _ _ \<Rightarrow> (AUDIT_FAILURE, nullish st 500))
          \<and> hides_secrets (lg_requestPayload e) \<and> hides_secrets (lg_responsePayload e)"
  proof (cases act)
    case (Some a)
    let ?t = "case resource of Some r \<Rightarrow> r | None \<Rightarrow> nullish (ar_path req) handler"
    let ?e = "audit_entry_of now newId a ?t req out" and ?v = "admin_action_of a ?t req out"
    have "fst (audit_intercept now newId act resource handler req out s)
        = (fst s @ (if length (lg_actorId ?e) \<le> 256 \<and> length (lg_targetResource ?e) \<le> 512 then [?e] else []), snd s @ [?v])"
      by (simp add: audit_intercept_def Some Let_def write_audit_def)
    moreover have "lg_actionType ?e = a \<and> lg_actorId ?e = actor_of (ar_user req) \<and> aa_status ?v = lg_status ?e \<and> aa_httpStatus ?v = lg_httpStatus ?e
      \<and> (lg_status ?e, lg_httpStatus ?e) = (case out of Returned _ st \<Rightarrow> (AUDIT_SUCCESS, st) | Threw st _ _ \<Rightarrow> (AUDIT_FAILURE, nullish st 500))
      \<and> hides_secrets (lg_requestPayload ?e) \<and> hides_secrets (lg_responsePayload ?e)"
      using err by (cases out) (simp_all add: audit_entry_of_def admin_action_of_def Let_def sanitize_hides del: hides_secrets.simps)
    ultimately show ?thesis unfolding Some option.case by blast
  qed (simp add: audit_intercept_def)
qed (rule private_key_kept)

text \<open>A query with one bound of the time range ignores it.\<close>

lemma half_range_ignored: "qa_to q = None \<Longrightarrow> audit_where q e = audit_where (q\<lparr>qa_from := None\<rparr>) e"
  by (simp add: audit_where_def split: option.split)

end
