(* ===== verification/Gateway.thy ===== *)
theory Gateway
  imports Store JsValue
begin

text \<open>
  The socket gateway (\<^verbatim>\<open>packages/backend/src/gateways/events.gateway.ts\<close>): clients join the rooms of calls and, with a
  token, the room of their user; events of the indexer and notifications are sent to rooms. A socket is its rooms (the
  library puts it into one named by its id), the user stored with it and what was emitted to it. \<open>verify\<close> is the token
  service: the error, or the claims \<open>sub\<close> and \<open>userId\<close>; \<open>str\<close> is the text of a value that is no string.
\<close>

record socket =
  so_rooms :: "string list"
  so_userId :: "string option"
  so_out :: "(string \<times> jval) list"

type_synonym hub = "(string \<times> socket) list"

definition marketRoom :: "string \<Rightarrow> string" where "marketRoom i = ''market:'' @ i"
definition userRoom :: "string \<Rightarrow> string" where "userRoom i = ''user:'' @ i"
definition callRoom :: "string \<Rightarrow> string" where "callRoom i = ''call:'' @ i"

definition emit_to :: "string \<Rightarrow> jval \<Rightarrow> socket \<Rightarrow> socket" where
  "emit_to event payload c = c\<lparr>so_out := so_out c @ [(event, payload)]\<rparr>"

definition join_room :: "string \<Rightarrow> socket \<Rightarrow> socket" where
  "join_room room c = (if room \<in> set (so_rooms c) then c else c\<lparr>so_rooms := so_rooms c @ [room]\<rparr>)"

definition leave_room :: "string \<Rightarrow> socket \<Rightarrow> socket" where
  "leave_room room c = c\<lparr>so_rooms := filter (\<lambda>r. r \<noteq> room) (so_rooms c)\<rparr>"

definition error_text :: "string \<Rightarrow> jval" where
  "error_text msg = JObj [(''message'', JStr msg)]"

definition handleConnection :: "string \<Rightarrow> hub \<Rightarrow> hub" where
  "handleConnection i h = map_set i (emit_to ''connected'' (JObj [(''socketId'', JStr i)]) \<lparr>so_rooms = [i], so_userId = None, so_out = []\<rparr>) h"

definition handleDisconnect :: "string \<Rightarrow> hub \<Rightarrow> hub" where
  "handleDisconnect i h = row_del i h"

text \<open>A handler works on the socket its message came from.\<close>

definition on_socket :: "(socket \<Rightarrow> socket) \<Rightarrow> string \<Rightarrow> hub \<Rightarrow> hub" where
  "on_socket f i h = map (\<lambda>(j, c). (j, if j = i then f c else c)) h"

definition call_rooms :: "socket \<Rightarrow> string list" where
  "call_rooms c = filter (\<lambda>r. starts_with r ''call:'') (so_rooms c)"

definition handleCallSubscribe :: "jval \<Rightarrow> socket \<Rightarrow> socket" where
  "handleCallSubscribe call_id c = (case call_id of
      JStr i \<Rightarrow>
        if i = [] then emit_to ''error'' (error_text ''call_id is required'') c
        else if length (call_rooms c) \<ge> 10 then emit_to ''error'' (error_text ''Maximum 10 room subscriptions allowed'') c
        else emit_to ''call:subscribed'' (JObj [(''call_id'', call_id)]) (join_room (callRoom i) c)
    | _ \<Rightarrow> emit_to ''error'' (error_text ''call_id is required'') c)"

definition handleCallUnsubscribe :: "(jval \<Rightarrow> string) \<Rightarrow> jval \<Rightarrow> socket \<Rightarrow> socket" where
  "handleCallUnsubscribe str call_id c =
     (if \<not> truthy call_id then c
      else emit_to ''call:unsubscribed'' (JObj [(''call_id'', call_id)])
        (leave_room (callRoom (case call_id of JStr i \<Rightarrow> i | v \<Rightarrow> str v)) c))"

definition subject_of :: "(string \<Rightarrow> string + (string option \<times> string option)) \<Rightarrow> string \<Rightarrow> string option" where
  "subject_of verify token = (case verify token of
      Inl e \<Rightarrow> None
    | Inr claim \<Rightarrow> (case (case fst claim of Some s \<Rightarrow> Some s | None \<Rightarrow> snd claim) of
        Some u \<Rightarrow> if u = [] then None else Some u
      | None \<Rightarrow> None))"

definition handleUserSubscribe :: "(string \<Rightarrow> string + (string option \<times> string option)) \<Rightarrow> string \<Rightarrow> socket \<Rightarrow> socket" where
  "handleUserSubscribe verify token c =
     (if token = [] then emit_to ''error'' (error_text ''JWT token is required for private subscriptions'') c
      else (case subject_of verify token of
          None \<Rightarrow> emit_to ''error'' (error_text ''Authentication failed: invalid or expired token'') c
        | Some u \<Rightarrow> emit_to ''user:subscribed'' (JObj [(''userId'', JStr u)]) ((join_room (userRoom u) c)\<lparr>so_userId := Some u\<rparr>)))"

definition handleUserUnsubscribe :: "socket \<Rightarrow> socket" where
  "handleUserUnsubscribe c = (case so_userId c of
      None \<Rightarrow> c
    | Some u \<Rightarrow> if u = [] then c
        else emit_to ''user:unsubscribed'' (JObj [(''userId'', JStr u)]) ((leave_room (userRoom u) c)\<lparr>so_userId := None\<rparr>))"

definition broadcast :: "string \<Rightarrow> string \<Rightarrow> jval \<Rightarrow> hub \<Rightarrow> hub" where
  "broadcast room event payload h = map (\<lambda>(i, c). (i, if room \<in> set (so_rooms c) then emit_to event payload c else c)) h"

definition onStakeAdded :: "string \<Rightarrow> (string \<times> jval) list \<Rightarrow> hub \<Rightarrow> hub" where
  "onStakeAdded call_id ps h = broadcast (callRoom call_id) ''StakeAdded'' (JObj ((''call_id'', JStr call_id) # ps)) h"

definition onCallResolved :: "string \<Rightarrow> (string \<times> jval) list \<Rightarrow> hub \<Rightarrow> hub" where
  "onCallResolved call_id ps h = broadcast (callRoom call_id) ''CallResolved'' (JObj ((''call_id'', JStr call_id) # ps)) h"

definition onNotificationPush :: "string \<Rightarrow> (string \<times> jval) list \<Rightarrow> hub \<Rightarrow> hub" where
  "onNotificationPush userId ps h = broadcast (userRoom userId) ''notification'' (JObj ((''userId'', JStr userId) # ps)) h"

definition pushNotificationToUser :: "string \<Rightarrow> (string \<times> jval) list \<Rightarrow> hub \<Rightarrow> hub" where
  "pushNotificationToUser userId ps h = broadcast (userRoom userId) ''notification'' (JObj ((''userId'', JStr userId) # ps)) h"

definition onConfigUpdated :: "jval \<Rightarrow> hub \<Rightarrow> hub" where
  "onConfigUpdated payload h = map (\<lambda>(i, c). (i, emit_to ''config:updated'' payload c)) h"

subsection \<open>Runs\<close>

datatype hub_op =
    Connect string
  | Disconnect string
  | Call_sub string jval
  | Call_unsub string jval
  | User_sub string string
  | User_unsub string
  | Stake_added string "(string \<times> jval) list"
  | Call_resolved string "(string \<times> jval) list"
  | Pushed string "(string \<times> jval) list"
  | Config_updated jval

definition hub_step :: "(jval \<Rightarrow> string) \<Rightarrow> (string \<Rightarrow> string + (string option \<times> string option)) \<Rightarrow> hub \<Rightarrow> hub_op \<Rightarrow> hub" where
  "hub_step str verify h oper = (case oper of
      Connect i \<Rightarrow> handleConnection i h
    | Disconnect i \<Rightarrow> handleDisconnect i h
    | Call_sub i v \<Rightarrow> on_socket (handleCallSubscribe v) i h
    | Call_unsub i v \<Rightarrow> on_socket (handleCallUnsubscribe str v) i h
    | User_sub i t \<Rightarrow> on_socket (handleUserSubscribe verify t) i h
    | User_unsub i \<Rightarrow> on_socket handleUserUnsubscribe i h
    | Stake_added i ps \<Rightarrow> onStakeAdded i ps h
    | Call_resolved i ps \<Rightarrow> onCallResolved i ps h
    | Pushed u ps \<Rightarrow> onNotificationPush u ps h
    | Config_updated v \<Rightarrow> onConfigUpdated v h)"

text \<open>A socket was let in for a user: it showed a token of the user.\<close>

definition let_in :: "(string \<Rightarrow> string + (string option \<times> string option)) \<Rightarrow> hub_op set \<Rightarrow> string \<Rightarrow> string \<Rightarrow> bool" where
  "let_in verify seen i u \<longleftrightarrow> (\<exists>t. User_sub i t \<in> seen \<and> subject_of verify t = Some u)"

definition told :: "hub_op set \<Rightarrow> string \<Rightarrow> jval \<Rightarrow> bool" where
  "told seen u p \<longleftrightarrow> (\<exists>ps. Pushed u ps \<in> seen \<and> p = JObj ((''userId'', JStr u) # ps))"

definition socket_ok :: "(string \<Rightarrow> string + (string option \<times> string option)) \<Rightarrow> hub_op set \<Rightarrow> string \<Rightarrow> socket \<Rightarrow> bool" where
  "socket_ok verify seen i c \<longleftrightarrow> length (call_rooms c) \<le> 10 \<and> (\<forall>u. userRoom u \<in> set (so_rooms c) \<longrightarrow> let_in verify seen i u)
     \<and> (\<forall>p. (''notification'', p) \<in> set (so_out c) \<longrightarrow> (\<exists>u. let_in verify seen i u \<and> told seen u p))"

lemma starts_call [simp]: "starts_with (callRoom i) ''call:''" "\<not> starts_with (userRoom u) ''call:''"
  by (simp_all add: starts_with_def callRoom_def userRoom_def)

lemma rooms_differ [simp]: "userRoom u \<noteq> callRoom i" "callRoom i \<noteq> userRoom u" "userRoom u = userRoom v \<longleftrightarrow> u = v"
  by (simp_all add: callRoom_def userRoom_def)

lemma seen_more: "seen \<subseteq> seen' \<Longrightarrow> socket_ok verify seen i c \<Longrightarrow> socket_ok verify seen' i c"
  unfolding socket_ok_def let_in_def told_def by (meson subsetD)

lemma emit_ok [simp]: "event \<noteq> ''notification'' \<Longrightarrow> socket_ok verify seen i (emit_to event p c) = socket_ok verify seen i c"
  by (simp add: socket_ok_def emit_to_def call_rooms_def)

lemma join_call_ok: "socket_ok verify seen i c \<Longrightarrow> length (call_rooms c) < 10 \<Longrightarrow> socket_ok verify seen i (join_room (callRoom k) c)"
  by (auto simp: socket_ok_def join_room_def call_rooms_def)

lemma leave_ok: "socket_ok verify seen i c \<Longrightarrow> socket_ok verify seen i (leave_room r c)"
proof -
  have "length (filter P (filter Q xs)) \<le> length (filter P xs)" for P Q and xs :: "string list" by (induction xs) auto
  then show "socket_ok verify seen i c \<Longrightarrow> socket_ok verify seen i (leave_room r c)"
    by (auto simp: socket_ok_def leave_room_def call_rooms_def simp del: filter_filter intro: order_trans)
qed

lemma user_update_ok [simp]: "socket_ok verify seen i (c\<lparr>so_userId := x\<rparr>) = socket_ok verify seen i c"
  by (simp add: socket_ok_def call_rooms_def)

lemma join_user_ok: "socket_ok verify seen i c \<Longrightarrow> let_in verify seen i u \<Longrightarrow> socket_ok verify seen i (join_room (userRoom u) c)"
  by (auto simp: socket_ok_def join_room_def call_rooms_def)

lemma call_subscribe_ok: "socket_ok verify seen i c \<Longrightarrow> socket_ok verify seen i (handleCallSubscribe v c)"
  by (auto simp: handleCallSubscribe_def join_call_ok split: jval.split)

lemma user_subscribe_ok:
  "socket_ok verify seen i c \<Longrightarrow> User_sub i t \<in> seen \<Longrightarrow> socket_ok verify seen i (handleUserSubscribe verify t c)"
  by (auto simp: handleUserSubscribe_def let_in_def intro!: join_user_ok split: option.split)

lemma told_ok:
  "socket_ok verify seen i c \<Longrightarrow> Pushed u ps \<in> seen \<Longrightarrow> userRoom u \<in> set (so_rooms c)
    \<Longrightarrow> socket_ok verify seen i (emit_to ''notification'' (JObj ((''userId'', JStr u) # ps)) c)"
  by (auto simp: socket_ok_def emit_to_def call_rooms_def told_def)

lemma hub_step_ok:
  assumes "\<And>i c. (i, c) \<in> set h \<Longrightarrow> socket_ok verify seen i c" "oper \<in> seen" "\<And>i. oper = Connect i \<Longrightarrow> CHR '':'' \<notin> set i"
    "(i, c) \<in> set (hub_step str verify h oper)"
  shows "socket_ok verify seen i c"
proof (cases oper)
  case (Connect k)
  have "userRoom u \<noteq> k" "\<not> starts_with k ''call:''" for u
    using assms(3) [OF Connect] by (auto simp: userRoom_def starts_with_iff)
  then have "socket_ok verify seen k (emit_to ''connected'' (JObj [(''socketId'', JStr k)]) \<lparr>so_rooms = [k], so_userId = None, so_out = []\<rparr>)"
    by (auto simp: socket_ok_def call_rooms_def emit_to_def)
  then show ?thesis
    using assms(1,4) by (auto simp: Connect hub_step_def handleConnection_def map_set_def row_ins_def row_put_def split: if_splits)
qed (use assms in \<open>auto simp: hub_step_def handleDisconnect_def row_del_def on_socket_def onStakeAdded_def onCallResolved_def
    onNotificationPush_def onConfigUpdated_def broadcast_def handleCallUnsubscribe_def handleUserUnsubscribe_def
    call_subscribe_ok user_subscribe_ok leave_ok told_ok split: if_splits option.splits\<close>)

text \<open>C37: in every run of the gateway a socket is in at most ten rooms of calls, in the room of a user only if it showed a token of that
  user, and no notification reaches a socket but those pushed to a user whose token it showed.\<close>

theorem private_rooms:
  assumes "\<And>i. Connect i \<in> set ops \<Longrightarrow> CHR '':'' \<notin> set i"
    and "(i, c) \<in> set (foldl (hub_step str verify) [] ops)"
  shows "length (call_rooms c) \<le> 10
    \<and> (\<forall>u. userRoom u \<in> set (so_rooms c) \<longrightarrow> (\<exists>t. User_sub i t \<in> set ops \<and> subject_of verify t = Some u))
    \<and> (\<forall>p. (''notification'', p) \<in> set (so_out c) \<longrightarrow>
         (\<exists>u t ps. User_sub i t \<in> set ops \<and> subject_of verify t = Some u \<and> Pushed u ps \<in> set ops \<and> p = JObj ((''userId'', JStr u) # ps)))"
proof -
  have "socket_ok verify (set ops) i c" using assms
  proof (induction ops arbitrary: i c rule: rev_induct)
    case (snoc oper ops)
    have "socket_ok verify (set (ops @ [oper])) j d" if "(j, d) \<in> set (foldl (hub_step str verify) [] ops)" for j d
      using snoc.IH [OF _ that] snoc.prems(1) by (intro seen_more [of "set ops" "set (ops @ [oper])"]) auto
    then show ?case
      by (rule hub_step_ok [where h = "foldl (hub_step str verify) [] ops" and oper = oper and str = str])
        (use snoc.prems in auto)
  qed simp
  then show ?thesis unfolding socket_ok_def let_in_def told_def by blast
qed

text \<open>A socket that subscribed with the tokens of two users leaves only the room of the second.\<close>

lemma first_user_stays:
  assumes "subject_of verify s = Some u" "subject_of verify t = Some v" "u \<noteq> v" "s \<noteq> []" "t \<noteq> []"
  shows "userRoom u \<in> set (so_rooms (handleUserUnsubscribe (handleUserSubscribe verify t (handleUserSubscribe verify s c))))"
  using assms by (auto simp: handleUserSubscribe_def handleUserUnsubscribe_def join_room_def leave_room_def emit_to_def)

lemma private_rooms_witness:
  "\<exists>t. User_sub ''s'' t \<in> set [Connect ''s'', User_sub ''s'' ''tok'', Pushed ''u'' []] \<and> subject_of (\<lambda>_. Inr (Some ''u'', None)) t = Some ''u''"
proof -
  let ?ops = "[Connect ''s'', User_sub ''s'' ''tok'', Pushed ''u'' []]"
  let ?h = "foldl (hub_step (\<lambda>_. []) (\<lambda>_. Inr (Some ''u'', None))) [] ?ops"
  have "\<exists>c. ?h = [(''s'', c)] \<and> userRoom ''u'' \<in> set (so_rooms c)"
    by (simp add: hub_step_def handleConnection_def map_set_def row_get_def row_ins_def on_socket_def handleUserSubscribe_def
      subject_of_def onNotificationPush_def broadcast_def emit_to_def join_room_def)
  then obtain c where c: "?h = [(''s'', c)]" "userRoom ''u'' \<in> set (so_rooms c)" by blast
  have 1: "CHR '':'' \<notin> set i" if "Connect i \<in> set ?ops" for i using that by auto
  have 2: "(''s'', c) \<in> set ?h" using c(1) by simp
  show ?thesis by (rule private_rooms [OF 1 2, THEN conjunct2, THEN conjunct1, rule_format, OF _ c(2)])
qed

end
