(* ===== verification/HttpLayer.thy ===== *)
theory HttpLayer
  imports Auth Calls UserRows JsArith
begin

text \<open>
  What stands around the services: the origins and request ids of \<^verbatim>\<open>security/http-security.ts\<close>, the trackers of
  \<^verbatim>\<open>throttler/guards\<close>, the exception filter, the guard of old versions and the address validator of \<^verbatim>\<open>common\<close>, the search of
  \<^verbatim>\<open>search/search.service.ts\<close>, health and readiness, the batch loaders of \<^verbatim>\<open>graphql/dataloader\<close>, and the maintenance of the
  event log's partitions.
\<close>

subsection \<open>Security\<close>

definition DEFAULT_ALLOWED_ORIGINS :: "string list" where
  "DEFAULT_ALLOWED_ORIGINS = [''http://localhost:3000'', ''http://127.0.0.1:3000'']"

definition normalizeOrigins :: "string option \<Rightarrow> string list" where
  "normalizeOrigins value =
     (if js_trim (nullish value []) = [] then DEFAULT_ALLOWED_ORIGINS
      else (let origins = filter (\<lambda>o'. o' \<noteq> []) (map js_trim (split_on (CHR '','') (nullish value [])))
            in if origins \<noteq> [] then origins else DEFAULT_ALLOWED_ORIGINS))"

definition getAllowedOrigins :: "string option \<Rightarrow> string option \<Rightarrow> string list" where
  "getAllowedOrigins ALLOWED_ORIGINS FRONTEND_URL =
     normalizeOrigins (case ALLOWED_ORIGINS of Some s \<Rightarrow> if s = [] then FRONTEND_URL else Some s | None \<Rightarrow> FRONTEND_URL)"

datatype header_value = NoHeader | OneHeader string | ManyHeaders "string list"

definition getRequestId :: "string \<Rightarrow> header_value \<Rightarrow> string" where
  "getRequestId uuid existing = (case existing of
      ManyHeaders (x # _) \<Rightarrow> x
    | OneHeader s \<Rightarrow> if js_trim s \<noteq> [] then js_trim s else uuid
    | _ \<Rightarrow> uuid)"

text \<open>The options of a cookie win over the secure ones.\<close>

definition cookie_options :: "(string \<times> jval) list \<Rightarrow> (string \<times> jval) list" where
  "cookie_options opts = foldl (\<lambda>m (k, v). map_set k v m)
     [(''httpOnly'', JBool True), (''secure'', JBool True), (''sameSite'', JStr ''lax'')] opts"

definition correlation_id :: "int \<Rightarrow> string \<Rightarrow> string option \<Rightarrow> string" where
  "correlation_id now digits header = (case header of
      Some h \<Rightarrow> if h \<noteq> [] then h else int_text now @ ''-'' @ window 2 7 digits
    | None \<Rightarrow> int_text now @ ''-'' @ window 2 7 digits)"

subsection \<open>Throttling\<close>

text \<open>The user the guards before have set, the address of the request and that of its socket.\<close>

record tracked =
  tk_userId :: "string option"
  tk_address :: "string option"
  tk_ip :: "string option"
  tk_remote :: "string option"

definition user_tracker :: "tracked \<Rightarrow> string option" where
  "user_tracker r = (case tk_userId r of
      Some i \<Rightarrow> if i \<noteq> [] then Some i else (case tk_address r of Some a \<Rightarrow> if a \<noteq> [] then Some a else None | None \<Rightarrow> None)
    | None \<Rightarrow> (case tk_address r of Some a \<Rightarrow> if a \<noteq> [] then Some a else None | None \<Rightarrow> None))"

definition ip_tracker :: "tracked \<Rightarrow> string" where
  "ip_tracker r = (case tk_ip r of Some i \<Rightarrow> i | None \<Rightarrow> nullish (tk_remote r) ''unknown'')"

definition app_tracker :: "tracked \<Rightarrow> string" where
  "app_tracker r = (case user_tracker r of Some u \<Rightarrow> ''user_'' @ u | None \<Rightarrow> ip_tracker r)"

definition mutation_tracker :: "tracked \<Rightarrow> string" where
  "mutation_tracker r = (case user_tracker r of Some u \<Rightarrow> ''mutation_user_'' @ u | None \<Rightarrow> ''mutation_ip_'' @ ip_tracker r)"

definition retry_after :: "int \<Rightarrow> int" where
  "retry_after timeToExpire = \<lceil>(of_int timeToExpire :: rat) / 1000\<rceil>"

definition app_throttled :: "int \<Rightarrow> int \<times> string" where
  "app_throttled t = (retry_after t, ''Too Many Requests. Retry after '' @ int_text (retry_after t) @ ''s.'')"

definition mutation_throttled :: "int \<Rightarrow> int \<times> string" where
  "mutation_throttled t = (retry_after t, ''Mutation rate limit exceeded. Retry after '' @ int_text (retry_after t) @ ''s.'')"

subsection \<open>Errors\<close>

datatype caught =
    HttpError nat jval string              \<comment> \<open>status, response, message\<close>
  | QueryFailed "string option"            \<comment> \<open>the code of the database\<close>
  | EntityNotFound
  | OtherError string

record classified =
  er_statusCode :: nat
  er_error :: string
  er_message :: string

text \<open>\<open>status_name\<close> is the enumeration of the framework, \<open>str\<close> the text of a value that is no string.\<close>

definition text_in :: "(jval \<Rightarrow> string) \<Rightarrow> jval \<Rightarrow> string" where
  "text_in str v = (case v of JStr s \<Rightarrow> s | _ \<Rightarrow> str v)"

definition http_message :: "(jval \<Rightarrow> string) \<Rightarrow> jval \<Rightarrow> string \<Rightarrow> string" where
  "http_message str res msg = (case res of
      JObj ps \<Rightarrow> (case map_of ps ''message'' of
          Some (JArr vs) \<Rightarrow> join_with ''; '' (map (\<lambda>v. if v = JNull \<or> v = JUndef then [] else text_in str v) vs)
        | Some v \<Rightarrow> text_in str v
        | None \<Rightarrow> msg)
    | _ \<Rightarrow> msg)"

definition classify_error :: "(nat \<Rightarrow> string option) \<Rightarrow> (jval \<Rightarrow> string) \<Rightarrow> caught \<Rightarrow> classified" where
  "classify_error status_name str e = (case e of
      HttpError st res msg \<Rightarrow>
        \<lparr>er_statusCode = st, er_error = nullish (status_name st) ''HTTP_ERROR'', er_message = http_message str res msg\<rparr>
    | QueryFailed cd \<Rightarrow>
        (if cd = Some ''23505'' then \<lparr>er_statusCode = 409, er_error = ''Conflict'', er_message = ''A record with this value already exists.''\<rparr>
         else if cd = Some ''23503'' then \<lparr>er_statusCode = 400, er_error = ''Bad Request'', er_message = ''Referenced record does not exist.''\<rparr>
         else \<lparr>er_statusCode = 500, er_error = ''Internal Server Error'', er_message = ''A database error occurred.''\<rparr>)
    | EntityNotFound \<Rightarrow> \<lparr>er_statusCode = 404, er_error = ''Not Found'', er_message = ''The requested resource was not found.''\<rparr>
    | OtherError m \<Rightarrow>
        \<lparr>er_statusCode = 500, er_error = ''Internal Server Error'', er_message = ''An unexpected error occurred. Please try again later.''\<rparr>)"

text \<open>The answer has the class, the time and the path; errors of the server go to the error log.\<close>

definition catch_error ::
  "(nat \<Rightarrow> string option) \<Rightarrow> (jval \<Rightarrow> string) \<Rightarrow> (int \<Rightarrow> string) \<Rightarrow> int \<Rightarrow> string \<Rightarrow> caught \<Rightarrow> nat \<times> jval" where
  "catch_error status_name str isof now url e =
     (let c = classify_error status_name str e
      in (er_statusCode c, JObj [(''statusCode'', JNum (Fin (of_nat (er_statusCode c)))), (''error'', JStr (er_error c)),
            (''message'', JStr (er_message c)), (''timestamp'', JStr (isof now)), (''path'', JStr url)]))"

text \<open>The guard of old versions: gone, or the headers it sets. \<open>dparse\<close> is the time of a date.\<close>

definition version_guard :: "(string \<Rightarrow> jsnum) \<Rightarrow> int \<Rightarrow> bool \<Rightarrow> string option \<Rightarrow> string + (string \<times> string) list" where
  "version_guard dparse now deprecated sunset =
     (if \<not> deprecated then Inr []
      else (case (case sunset of Some s \<Rightarrow> if s = [] then None else Some s | None \<Rightarrow> None) of
          Some s \<Rightarrow>
            if num_less (dparse s) (int_num now) then Inl (''This API version was sunset on '' @ s @ ''. Please upgrade to /api/v1/.'')
            else Inr [(''Deprecation'', ''true''), (''Sunset'', s)]
        | None \<Rightarrow> Inr [(''Deprecation'', ''true'')]))"

definition is_stellar_key :: "jval \<Rightarrow> bool" where
  "is_stellar_key v = (case v of JStr (c # r) \<Rightarrow> c = CHR ''G'' \<and> length r = 55 \<and> list_all is_base32 r | _ \<Rightarrow> False)"

subsection \<open>Search\<close>

fun words_from :: "string \<Rightarrow> string \<Rightarrow> string list" where
  "words_from w [] = (if w = [] then [] else [w])"
| "words_from w (c # s) = (if is_space c then (if w = [] then words_from [] s else w # words_from [] s) else words_from (w @ [c]) s)"

text \<open>Splitting at white space and dropping empty pieces leaves the words.\<close>

definition toPrefixTsQuery :: "string \<Rightarrow> string" where
  "toPrefixTsQuery q = join_with '' & ''
     (map (\<lambda>w. filter (\<lambda>c. c \<noteq> CHR 0x27 \<and> c \<noteq> CHR '':'') w @ '':*'') (words_from [] (js_trim q)))"

text \<open>\<open>find_calls\<close> and \<open>find_users\<close> are the two queries of the database with their parameters, each its error or its rows. The
  text of the second names only its second parameter; PostgreSQL gives no type to the first and answers with an error.\<close>

definition globalSearch ::
  "(string \<Rightarrow> string + string list) \<Rightarrow> (string \<Rightarrow> string \<Rightarrow> string + (string \<times> string) list) \<Rightarrow> string
   \<Rightarrow> string + (string list \<times> (string \<times> string) list)" where
  "globalSearch find_calls find_users q =
     (let formatted = toPrefixTsQuery q
      in if formatted = [] then Inr ([], [])
         else result_bind (find_calls formatted) (\<lambda>calls.
                result_bind (find_users formatted (''%'' @ q @ ''%'')) (\<lambda>users. Inr (calls, users))))"

subsection \<open>Health\<close>

record health =
  hc_status :: string
  hc_database :: string
  hc_stellar_rpc :: string
  hc_memory :: int

definition health_check :: "bool \<Rightarrow> nat option \<Rightarrow> nat \<Rightarrow> health + health" where
  "health_check queryOk rpcStatus heapUsed =
     (let database = (if queryOk then ''connected'' else ''disconnected'');
          rpc = (if rpcStatus = Some 200 then ''reachable'' else ''unreachable'');
          status = (if database = ''connected'' \<and> rpc = ''reachable'' then ''ok'' else ''error'');
          payload = \<lparr>hc_status = status, hc_database = database, hc_stellar_rpc = rpc,
            hc_memory = \<lfloor>(of_nat heapUsed / 1024 / 1024 :: rat) + 1 / 2\<rfloor>\<rparr>
      in if status = ''error'' then Inl payload else Inr payload)"

definition readiness :: "bool \<Rightarrow> string + string" where
  "readiness shuttingDown = (if shuttingDown then Inl ''shutting_down'' else Inr ''ready'')"

subsection \<open>Batch loaders\<close>

definition load_users_by_wallet :: "user_row list \<Rightarrow> string list \<Rightarrow> user_row option list" where
  "load_users_by_wallet us addresses =
     (let users = filter (\<lambda>u. ur_walletAddress u \<in> set addresses) us;
          m = foldl (\<lambda>m u. map_set (ur_walletAddress u) u m) [] users
      in map (row_get m) addresses)"

definition load_stakes_by_call :: "call_stake list \<Rightarrow> string list \<Rightarrow> call_stake list list" where
  "load_stakes_by_call sts ids =
     (let found = sort_key (\<lambda>s. - st_createdAt s) (filter (\<lambda>s. st_callId s \<in> set ids) sts);
          m = foldl (\<lambda>m s. map_set (st_callId s) (nullish (row_get m (st_callId s)) [] @ [s]) m) [] found
      in map (\<lambda>i. nullish (row_get m i) []) ids)"

subsection \<open>Partition maintenance\<close>

text \<open>A run is split at its queries. The database answers with an error, with nothing if the table has no partitions, or with
  the partitions created, all partitions and the rows of the default one.\<close>

definition start_maintenance :: "bool \<Rightarrow> bool \<Rightarrow> bool \<times> bool" where
  "start_maintenance postgres running = (if \<not> postgres \<or> running then (running, False) else (True, True))"

definition finish_maintenance :: "string + (nat \<times> nat \<times> nat) option \<Rightarrow> bool \<times> (nat \<times> nat \<times> nat) option" where
  "finish_maintenance answer = (False, case answer of Inl e \<Rightarrow> None | Inr r \<Rightarrow> r)"

subsection \<open>Facts\<close>

lemma find_last: "row_get (foldl (\<lambda>m u. map_set (key u) u m) m0 us) k
    = (case find (\<lambda>u. key u = k) (rev us) of Some u \<Rightarrow> Some u | None \<Rightarrow> row_get m0 k)"
proof (induction us rule: rev_induct)
  case (snoc u us)
  then show ?case by (simp add: row_get_def)
qed simp

lemma grouped: "nullish (row_get (foldl (\<lambda>m s. map_set (key s) (nullish (row_get m (key s)) [] @ [s]) m) [] ss) k) [] = filter (\<lambda>s. key s = k) ss"
proof (induction ss rule: rev_induct)
  case (snoc s ss)
  then show ?case by (simp add: row_get_def)
qed (simp add: row_get_def)

lemma sort_filter: "filter P (sort_key f xs) = sort_key f (filter P xs)"
  by (simp add: filter_sort)

text \<open>The batch loaders give, for each key of a batch, what the single queries would: the user of the address, and the stakes of the
  call with the latest first.\<close>

theorem batch_loaders_pointwise:
  assumes "users_ok us"
  shows "load_users_by_wallet us addresses = map (\<lambda>a. user_by_wallet a us) addresses
    \<and> load_stakes_by_call sts ids = map (\<lambda>i. sort_key (\<lambda>s. - st_createdAt s) (filter (\<lambda>s. st_callId s = i) sts)) ids"
proof
  have "row_get (foldl (\<lambda>m u. map_set (ur_walletAddress u) u m) [] (filter (\<lambda>u. ur_walletAddress u \<in> set addresses) us)) a = user_by_wallet a us"
    if "a \<in> set addresses" for a
  proof (cases "user_by_wallet a us")
    case None
    then have "find (\<lambda>u. ur_walletAddress u = a) (rev (filter (\<lambda>u. ur_walletAddress u \<in> set addresses) us)) = None"
      by (auto simp: user_by_wallet_None find_None_iff)
    then show ?thesis unfolding find_last None by (simp add: row_get_def)
  next
    case (Some u)
    then have u: "u \<in> set us" "ur_walletAddress u = a" by (simp_all add: user_by_wallet_Some [OF assms])
    have "find (\<lambda>u. ur_walletAddress u = a) (rev (filter (\<lambda>u. ur_walletAddress u \<in> set addresses) us)) \<noteq> None"
      using u that by (auto simp: find_None_iff)
    then obtain v where v: "find (\<lambda>u. ur_walletAddress u = a) (rev (filter (\<lambda>u. ur_walletAddress u \<in> set addresses) us)) = Some v" by blast
    then have "v \<in> set us" "ur_walletAddress v = a" by (auto dest: find_Some_set)
    then have "user_by_wallet a us = Some v" by (simp add: user_by_wallet_Some [OF assms])
    then show ?thesis unfolding find_last v by simp
  qed
  then show "load_users_by_wallet us addresses = map (\<lambda>a. user_by_wallet a us) addresses"
    unfolding load_users_by_wallet_def Let_def by (intro map_cong refl)
  have "filter (\<lambda>s. st_callId s = i) (sort_key (\<lambda>s. - st_createdAt s) (filter (\<lambda>s. st_callId s \<in> set ids) sts))
      = sort_key (\<lambda>s. - st_createdAt s) (filter (\<lambda>s. st_callId s = i) sts)" if "i \<in> set ids" for i
    unfolding sort_filter filter_filter using that by (intro arg_cong [of _ _ "sort_key _"] filter_cong) auto
  then show "load_stakes_by_call sts ids = map (\<lambda>i. sort_key (\<lambda>s. - st_createdAt s) (filter (\<lambda>s. st_callId s = i) sts)) ids"
    unfolding load_stakes_by_call_def Let_def grouped by (intro map_cong refl)
qed

lemma batch_loaders_pointwise_witness:
  "load_users_by_wallet [] [''GA'', ''GB''] = [None, None]"
  using batch_loaders_pointwise [of "[]" "[''GA'', ''GB'']", THEN conjunct1] by (simp add: users_ok_def user_by_wallet_def find_by_def)

text \<open>Whatever an exception that is no HTTP error says, the answer does not show it.\<close>

lemma internals_hidden:
  assumes "\<And>st res m. e \<noteq> HttpError st res m"
  shows "er_message (classify_error status_name str e) \<in> {''A record with this value already exists.'', ''Referenced record does not exist.'',
      ''A database error occurred.'', ''The requested resource was not found.'', ''An unexpected error occurred. Please try again later.''}"
  using assms by (cases e) (auto simp: classify_error_def)

text \<open>An address the sign-in accepts is refused by the validator if it has 55 characters, and no other is.\<close>

lemma validators_differ: "stellar_address a \<longleftrightarrow> is_stellar_key (JStr a) \<or> (length a = 55 \<and> stellar_address a)"
  by (auto simp: stellar_address_def is_stellar_key_def split: list.split)

text \<open>Words of quotes and colons make a query text the database cannot parse, as do the operators left in.\<close>

lemma empty_prefix_term: "toPrefixTsQuery '':'' = '':*''" "toPrefixTsQuery ''a |'' = ''a:* & |:*''"
  by code_simp+

text \<open>Two maintenance runs never overlap, and a run that ends always frees the flag.\<close>

lemma maintenance_exclusive: "snd (start_maintenance pg running) \<Longrightarrow> \<not> running \<and> \<not> snd (start_maintenance pg (fst (start_maintenance pg running)))"
  "\<not> fst (finish_maintenance answer)"
  by (auto simp: start_maintenance_def finish_maintenance_def split: if_splits)

end
