(* ===== verification/OracleSigning.thy ===== *)
theory OracleSigning
  imports Auth Calls DlqService
begin

text \<open>
  The price signer (\<^verbatim>\<open>packages/backend/src/oracle-signing\<close>) with its queue, the pinning queue (\<^verbatim>\<open>storage\<close>) and the relayer stub
  of the oracle (\<^verbatim>\<open>oracle/soroban-relayer.service.ts\<close>). A signer is its key; \<open>ed\<close> signs and checks bytes under a seed, \<open>random\<close>
  is the seed made up when none is configured.
\<close>

subsection \<open>Keys and messages\<close>

definition is_hex :: "char \<Rightarrow> bool" where
  "is_hex c \<longleftrightarrow> hex_val c \<noteq> None"

definition load_seed :: "nat list \<Rightarrow> string option \<Rightarrow> nat list" where
  "load_seed random hexSeed = (case hexSeed of
      Some s \<Rightarrow> if length s = 64 \<and> list_all is_hex s then hex_bytes s else random
    | None \<Rightarrow> random)"

record price_payload =
  py_asset :: string
  py_price :: string
  py_timestamp :: rat

datatype sign_exn = SignRangeError

definition be64 :: "nat \<Rightarrow> nat list" where
  "be64 n = map (\<lambda>i. n div 256 ^ (7 - i) mod 256) [0..<8]"

text \<open>\<open>BigInt\<close> refuses a fraction, the buffer what does not fit.\<close>

definition timestamp_bytes :: "rat \<Rightarrow> sign_exn + nat list" where
  "timestamp_bytes q =
     (if of_int \<lfloor>q\<rfloor> \<noteq> q then Inl SignRangeError
      else if \<lfloor>q\<rfloor> < 0 \<or> \<lfloor>q\<rfloor> \<ge> 2 ^ 64 then Inl SignRangeError
      else Inr (be64 (nat \<lfloor>q\<rfloor>)))"

definition price_message :: "price_payload \<Rightarrow> sign_exn + nat list" where
  "price_message p = (case timestamp_bytes (py_timestamp p) of
      Inl e \<Rightarrow> Inl e
    | Inr ts \<Rightarrow> Inr (utf8_text (py_asset p) @ utf8_text (py_price p) @ ts))"

record ed_scheme =
  ed_public :: "nat list \<Rightarrow> nat list"
  ed_sign :: "nat list \<Rightarrow> nat list \<Rightarrow> nat list"
  ed_verify :: "nat list \<Rightarrow> nat list \<Rightarrow> nat list \<Rightarrow> bool"

record signed_price =
  sg_payload :: price_payload
  sg_signature :: string
  sg_publicKey :: string

definition sign_price :: "ed_scheme \<Rightarrow> nat list \<Rightarrow> price_payload \<Rightarrow> sign_exn + signed_price" where
  "sign_price ed seed p = (case price_message p of
      Inl e \<Rightarrow> Inl e
    | Inr m \<Rightarrow> Inr \<lparr>sg_payload = p, sg_signature = hex_text (ed_sign ed seed m), sg_publicKey = hex_text (ed_public ed seed)\<rparr>)"

definition verify_price :: "ed_scheme \<Rightarrow> nat list \<Rightarrow> price_payload \<Rightarrow> string \<Rightarrow> sign_exn + bool" where
  "verify_price ed seed p signatureHex = (case price_message p of
      Inl e \<Rightarrow> Inl e
    | Inr m \<Rightarrow> Inr (ed_verify ed (ed_public ed seed) m (hex_bytes signatureHex)))"

text \<open>The request's fields: capital letters, a decimal, a positive number.\<close>

definition upper_run :: "string \<Rightarrow> bool" where
  "upper_run s \<longleftrightarrow> 2 \<le> length s \<and> length s \<le> 10 \<and> list_all is_upper s"

definition asset_ok :: "string \<Rightarrow> bool" where
  "asset_ok s = (case split_on (CHR ''_'') s of [a] \<Rightarrow> upper_run a | [a, b] \<Rightarrow> upper_run a \<and> upper_run b | _ \<Rightarrow> False)"

definition digit_run :: "string \<Rightarrow> bool" where
  "digit_run s \<longleftrightarrow> s \<noteq> [] \<and> list_all is_digit s"

definition price_ok :: "string \<Rightarrow> bool" where
  "price_ok s = (case split_on (CHR ''.'') s of [a] \<Rightarrow> digit_run a | [a, b] \<Rightarrow> digit_run a \<and> digit_run b | _ \<Rightarrow> False)"

definition sign_price_dto :: "price_payload \<Rightarrow> bool" where
  "sign_price_dto p \<longleftrightarrow> asset_ok (py_asset p) \<and> price_ok (py_price p) \<and> py_timestamp p > 0"

subsection \<open>Queues\<close>

definition sign_on_failed :: "(int \<Rightarrow> string) \<Rightarrow> string \<Rightarrow> int \<Rightarrow> src_job option \<Rightarrow> failure option \<Rightarrow> dlq_sys \<Rightarrow> dlq_sys" where
  "sign_on_failed isof uuid now job err d = (case job of
      None \<Rightarrow> d
    | Some j \<Rightarrow> if isFinalAttempt j then moveToDeadLetter isof uuid now ORACLE_SIGNING j err d else d)"

definition pin_on_failed :: "(int \<Rightarrow> string) \<Rightarrow> string \<Rightarrow> int \<Rightarrow> src_job option \<Rightarrow> failure option \<Rightarrow> dlq_sys \<Rightarrow> dlq_sys" where
  "pin_on_failed isof uuid now job err d = (case job of
      None \<Rightarrow> d
    | Some j \<Rightarrow> if isFinalAttempt j then moveToDeadLetter isof uuid now IPFS_PINNING j err d else d)"

definition pin_process :: "int \<Rightarrow> string \<Rightarrow> src_job \<Rightarrow> string" where
  "pin_process now rnd job = (case sj_data job of
      JObj ps \<Rightarrow> if jget ps ''type'' = JStr ''call-content'' then pinCallContent now rnd else pinOracleEvidence now rnd
    | _ \<Rightarrow> pinOracleEvidence now rnd)"

text \<open>The job of a request to pin: its name and data.\<close>

definition pin_call_job :: "jval \<Rightarrow> string \<times> jval" where
  "pin_call_job content = (''pin-call-content'', JObj [(''type'', JStr ''call-content''), (''content'', content)])"

definition pin_evidence_job :: "jval \<Rightarrow> string \<times> jval" where
  "pin_evidence_job evidence = (''pin-oracle-evidence'', JObj [(''type'', JStr ''oracle-evidence''), (''evidence'', evidence)])"

subsection \<open>The relayer stub\<close>

datatype tx_status = TX_PENDING | TX_SUBMITTED | TX_CONFIRMED | TX_FAILED

record relayer_tx =
  tx_to :: string
  tx_method :: string
  tx_status :: tx_status
  tx_txHash :: "string option"
  tx_submittedAt :: int
  tx_confirmedAt :: "int option"

type_synonym relayer = "(string \<times> relayer_tx) list"

definition relayTransaction :: "int \<Rightarrow> string \<Rightarrow> string \<Rightarrow> string \<Rightarrow> relayer \<Rightarrow> relayer \<times> string" where
  "relayTransaction now digits dest method r =
     (let i = ''tx_'' @ int_text now @ ''_'' @ window 2 9 digits
      in (map_set i \<lparr>tx_to = dest, tx_method = method, tx_status = TX_PENDING, tx_txHash = None, tx_submittedAt = now, tx_confirmedAt = None\<rparr> r, i))"

text \<open>The timer set by the submission fires after the code that set it.\<close>

definition timer_fires :: "string \<Rightarrow> string \<Rightarrow> relayer \<Rightarrow> relayer" where
  "timer_fires digits i r = map (\<lambda>(k, t). (k, if k = i then t\<lparr>tx_status := TX_SUBMITTED, tx_txHash := Some (''0x'' @ window 2 9 digits)\<rparr> else t)) r"

definition waitForConfirmation :: "int \<Rightarrow> string \<Rightarrow> relayer \<Rightarrow> relayer \<times> relayer_tx option" where
  "waitForConfirmation now i r = (case row_get r i of
      None \<Rightarrow> (r, None)
    | Some t \<Rightarrow>
        if tx_status t = TX_SUBMITTED \<or> tx_status t = TX_PENDING
        then (let t = t\<lparr>tx_status := TX_CONFIRMED, tx_confirmedAt := Some now\<rparr> in (map_set i t r, Some t))
        else (r, Some t))"

definition getTransaction :: "string \<Rightarrow> relayer \<Rightarrow> relayer_tx option" where
  "getTransaction i r = row_get r i"

subsection \<open>The message determines the payload\<close>

lemma digits_determine:
  "n < 256 ^ k \<Longrightarrow> m < 256 ^ k \<Longrightarrow> (\<And>i. i < k \<Longrightarrow> n div 256 ^ i mod 256 = m div 256 ^ i mod (256::nat)) \<Longrightarrow> n = m"
proof (induction k arbitrary: n m)
  case (Suc k)
  have "n div 256 = m div 256"
  proof (rule Suc.IH)
    show "n div 256 < 256 ^ k" "m div 256 < 256 ^ k" using Suc.prems(1,2) by (simp_all add: less_mult_imp_div_less mult.commute)
    show "n div 256 div 256 ^ i mod 256 = m div 256 div 256 ^ i mod 256" if "i < k" for i
      using Suc.prems(3) [of "Suc i"] that by (simp add: div_mult2_eq)
  qed
  moreover have "n mod 256 = m mod 256" using Suc.prems(3) [of 0] by simp
  ultimately show ?case by (metis div_mult_mod_eq)
qed simp

lemma be64_inj: "n < 2 ^ 64 \<Longrightarrow> m < 2 ^ 64 \<Longrightarrow> be64 n = be64 m \<Longrightarrow> n = m"
proof (rule digits_determine [where k = 8])
  show "n div 256 ^ i mod 256 = m div 256 ^ i mod 256" if "i < 8" "be64 n = be64 m" for i
  proof -
    have "be64 n ! (7 - i) = be64 m ! (7 - i)" using that(2) by simp
    moreover have "[0..<8] ! (7 - i) = 7 - i" using that(1) by (subst nth_upt) auto
    ultimately show ?thesis using that(1) by (simp add: be64_def del: upt_conv_Cons_Cons)
  qed
qed simp_all

lemma timestamp_inj: "timestamp_bytes q = Inr ts \<Longrightarrow> timestamp_bytes r = Inr ts \<Longrightarrow> q = r"
proof -
  assume q: "timestamp_bytes q = Inr ts" and r: "timestamp_bytes r = Inr ts"
  have "nat \<lfloor>q\<rfloor> = nat \<lfloor>r\<rfloor>"
    by (rule be64_inj) (use q r in \<open>auto simp: timestamp_bytes_def nat_less_iff split: if_splits\<close>)
  then have "\<lfloor>q\<rfloor> = \<lfloor>r\<rfloor>" using q r by (auto simp: timestamp_bytes_def eq_nat_nat_iff split: if_splits)
  moreover have "of_int \<lfloor>q\<rfloor> = q" "of_int \<lfloor>r\<rfloor> = r" using q r by (auto simp: timestamp_bytes_def split: if_splits)
  ultimately show ?thesis by metis
qed

lemma timestamp_length: "timestamp_bytes q = Inr ts \<Longrightarrow> length ts = 8"
  by (auto simp: timestamp_bytes_def be64_def split: if_splits)

lemma utf8_ascii: "list_all (\<lambda>c. JsString.code c < 128) s \<Longrightarrow> utf8_text s = map JsString.code s"
  by (induction s) (auto simp: utf8_text_def utf8_bytes_def)

lemma map_code_inj: "map JsString.code s = map JsString.code t \<Longrightarrow> s = t"
  by (rule map_injective) (auto simp: inj_def JsString.code_def)

lemma asset_chars: "asset_ok s \<Longrightarrow> list_all (\<lambda>c. is_upper c \<or> c = CHR ''_'') s"
  using join_split [of "CHR ''_''" s] by (auto simp: asset_ok_def upper_run_def list_all_iff split: list.splits)

lemma price_chars: "price_ok s \<Longrightarrow> s \<noteq> [] \<and> is_digit (hd s) \<and> list_all (\<lambda>c. is_digit c \<or> c = CHR ''.'') s"
proof -
  assume ok: "price_ok s"
  have j: "join_with ''.'' (split_on (CHR ''.'') s) = s" by (rule join_split)
  consider (one) a where "split_on (CHR ''.'') s = [a]" "digit_run a"
    | (two) a b where "split_on (CHR ''.'') s = [a, b]" "digit_run a" "digit_run b"
    using ok by (auto simp: price_ok_def split: list.splits)
  then show ?thesis
  proof cases
    case one
    then have "s = a" using j by simp
    then show ?thesis using one(2) by (cases a) (auto simp: digit_run_def list_all_iff)
  next
    case two
    then have "s = a @ ''.'' @ b" using j by simp
    then show ?thesis using two(2,3) by (cases a) (auto simp: digit_run_def list_all_iff)
  qed
qed

lemma upper_facts: "is_upper c \<or> c = CHR ''_'' \<Longrightarrow> \<not> is_digit c \<and> JsString.code c < 128"
  by (auto simp: is_upper_def is_digit_def JsString.code_def)

lemma digit_facts: "is_digit c \<or> c = CHR ''.'' \<Longrightarrow> JsString.code c < 128"
  by (auto simp: is_digit_def JsString.code_def)

lemma split_unique:
  assumes "a @ p = b @ q" "list_all (\<lambda>c. \<not> P c) a" "list_all (\<lambda>c. \<not> P c) b" "p \<noteq> []" "P (hd p)" "q \<noteq> []" "P (hd q)"
  shows "a = b \<and> p = q"
proof -
  have "takeWhile (\<lambda>c. \<not> P c) (a @ p) = a" using assms(2,4,5) by (cases p) (simp_all add: list_all_iff)
  moreover have "takeWhile (\<lambda>c. \<not> P c) (b @ q) = b" using assms(3,6,7) by (cases q) (simp_all add: list_all_iff)
  ultimately show ?thesis using assms(1) by simp
qed

text \<open>C39: two requests the signer accepts have the same message only if they are the same request, so a signature stands for one asset,
  price and time although the message is their bytes without separators.\<close>

theorem price_message_injective:
  assumes "sign_price_dto p" "sign_price_dto q" "price_message p = Inr m" "price_message q = Inr m"
  shows "p = q"
proof -
  have plain: "utf8_text (py_asset r) = map JsString.code (py_asset r)" "utf8_text (py_price r) = map JsString.code (py_price r)"
    "list_all (\<lambda>c. \<not> is_digit c) (py_asset r)" "py_price r \<noteq> []" "is_digit (hd (py_price r))"
    if "sign_price_dto r" for r :: price_payload
  proof -
    have a: "list_all (\<lambda>c. is_upper c \<or> c = CHR ''_'') (py_asset r)" using that asset_chars by (simp add: sign_price_dto_def)
    have p: "py_price r \<noteq> []" "is_digit (hd (py_price r))" "list_all (\<lambda>c. is_digit c \<or> c = CHR ''.'') (py_price r)"
      using that price_chars [of "py_price r"] by (simp_all add: sign_price_dto_def)
    show "utf8_text (py_asset r) = map JsString.code (py_asset r)" by (rule utf8_ascii [OF list.pred_mono_strong [OF a]]) (use upper_facts in blast)
    show "utf8_text (py_price r) = map JsString.code (py_price r)" by (rule utf8_ascii [OF list.pred_mono_strong [OF p(3)]]) (use digit_facts in blast)
    show "list_all (\<lambda>c. \<not> is_digit c) (py_asset r)" by (rule list.pred_mono_strong [OF a]) (use upper_facts in blast)
    show "py_price r \<noteq> []" "is_digit (hd (py_price r))" by (rule p)+
  qed
  obtain s where s: "timestamp_bytes (py_timestamp p) = Inr s" "m = utf8_text (py_asset p) @ utf8_text (py_price p) @ s"
    using assms(3) by (auto simp: price_message_def split: sum.splits)
  obtain t where t: "timestamp_bytes (py_timestamp q) = Inr t" "m = utf8_text (py_asset q) @ utf8_text (py_price q) @ t"
    using assms(4) by (auto simp: price_message_def split: sum.splits)
  have "length s = length t" using timestamp_length [OF s(1)] timestamp_length [OF t(1)] by simp
  moreover have "(utf8_text (py_asset p) @ utf8_text (py_price p)) @ s = (utf8_text (py_asset q) @ utf8_text (py_price q)) @ t"
    using s(2) t(2) by simp
  ultimately have "utf8_text (py_asset p) @ utf8_text (py_price p) = utf8_text (py_asset q) @ utf8_text (py_price q) \<and> s = t"
    using append_eq_append_conv [of "utf8_text (py_asset p) @ utf8_text (py_price p)" "utf8_text (py_asset q) @ utf8_text (py_price q)" s t] by blast
  then have e: "utf8_text (py_asset p) @ utf8_text (py_price p) = utf8_text (py_asset q) @ utf8_text (py_price q)" "s = t" by blast+
  have "map JsString.code (py_asset p @ py_price p) = map JsString.code (py_asset q @ py_price q)"
    using e(1) unfolding plain(1,2) [OF assms(1)] plain(1,2) [OF assms(2)] map_append .
  then have "py_asset p @ py_price p = py_asset q @ py_price q" by (rule map_code_inj)
  then have "py_asset p = py_asset q \<and> py_price p = py_price q"
    by (rule split_unique [OF _ plain(3) [OF assms(1)] plain(3) [OF assms(2)] plain(4,5) [OF assms(1)] plain(4,5) [OF assms(2)]])
  moreover have "py_timestamp p = py_timestamp q" using s(1) t(1) e(2) by (auto intro: timestamp_inj)
  ultimately show ?thesis by simp
qed

definition btc_price :: price_payload where
  "btc_price = \<lparr>py_asset = ''BTC_USD'', py_price = ''65000.50'', py_timestamp = 1700000000\<rparr>"

lemma price_message_injective_witness:
  "btc_price = \<lparr>py_asset = ''BTC_USD'', py_price = ''65000.50'', py_timestamp = 1700000000\<rparr>"
proof -
  have "asset_ok ''BTC_USD''" "price_ok ''65000.50''" by code_simp+
  then have d: "sign_price_dto btc_price" by (simp add: sign_price_dto_def btc_price_def)
  obtain m where m: "price_message btc_price = Inr m"
    by (simp add: price_message_def timestamp_bytes_def btc_price_def)
  show ?thesis by (rule price_message_injective [OF d _ m]) (use d m in \<open>simp_all add: btc_price_def\<close>)
qed

text \<open>Before validation it is not so: an asset may end in the digits of a price.\<close>

lemma unvalidated_messages_meet:
  "price_message \<lparr>py_asset = ''A1'', py_price = ''2'', py_timestamp = 1\<rparr> = price_message \<lparr>py_asset = ''A'', py_price = ''12'', py_timestamp = 1\<rparr>"
  by (simp add: price_message_def utf8_text_def utf8_bytes_def JsString.code_def split: sum.split)

text \<open>The stub's timer takes a confirmation back that was asked for before it fired.\<close>

lemma confirmation_taken_back:
  assumes "row_get r i = Some t" "tx_status t = TX_PENDING"
  shows "map_option tx_status (getTransaction i (timer_fires d i (fst (waitForConfirmation now i r)))) = Some TX_SUBMITTED"
proof -
  have g: "row_get (timer_fires d i q) i = map_option (\<lambda>t. t\<lparr>tx_status := TX_SUBMITTED, tx_txHash := Some (''0x'' @ window 2 9 d)\<rparr>) (row_get q i)" for q
    by (induction q) (auto simp: timer_fires_def row_get_def)
  show ?thesis using assms by (simp add: getTransaction_def g waitForConfirmation_def Let_def) (simp add: row_get_def)
qed

end
