(* ===== verification/ClientTrading.thy ===== *)
theory ClientTrading
  imports Store JsValue JsArith
begin

text \<open>
  The calculators of the client (\<^verbatim>\<open>packages/frontend/src/lib\<close>): order book, Dutch auction, parlays, quorum of a proposal and
  tournament brackets. Numbers are exact rationals.
\<close>

subsection \<open>Order book\<close>

record order =
  or_id :: string
  or_price :: rat
  or_size :: rat
  or_buy :: bool
  or_timestamp :: int

record book_level =
  lv_price :: rat
  lv_size :: rat
  lv_total :: rat
  lv_count :: nat

record orderbook =
  ob_bids :: "book_level list"
  ob_asks :: "book_level list"
  ob_maxTotal :: rat

definition size_by_price :: "order list \<Rightarrow> (rat \<times> rat) list" where
  "size_by_price os = foldl (\<lambda>m b. map_set (or_price b) (nullish (row_get m (or_price b)) 0 + or_size b) m) [] os"

fun running_levels :: "rat \<Rightarrow> (rat \<times> rat) list \<Rightarrow> book_level list" where
  "running_levels acc [] = []"
| "running_levels acc ((p, q) # es) = \<lparr>lv_price = p, lv_size = q, lv_total = acc + q, lv_count = 1\<rparr> # running_levels (acc + q) es"

definition levels_of :: "(rat \<Rightarrow> rat) \<Rightarrow> nat \<Rightarrow> order list \<Rightarrow> book_level list" where
  "levels_of key depth os = running_levels 0 (take depth (sort_key (\<lambda>e. key (fst e)) (size_by_price os)))"

definition last_total :: "book_level list \<Rightarrow> rat" where
  "last_total ls = (if ls = [] then 0 else lv_total (last ls))"

definition buildOrderbook :: "nat \<Rightarrow> order list \<Rightarrow> orderbook" where
  "buildOrderbook depth os =
     (let bids = levels_of uminus depth (filter or_buy os); asks = levels_of id depth (filter (\<lambda>b. \<not> or_buy b) os)
      in \<lparr>ob_bids = bids, ob_asks = asks, ob_maxTotal = max (max (last_total bids) (last_total asks)) 0\<rparr>)"

definition addOrder :: "order \<Rightarrow> order list \<Rightarrow> order list" where
  "addOrder b os = os @ [b]"

definition cancelOrder :: "string \<Rightarrow> order list \<Rightarrow> order list" where
  "cancelOrder i os = filter (\<lambda>b. or_id b \<noteq> i) os"

subsection \<open>Dutch auction\<close>

record auction =
  da_initialPrice :: rat
  da_floorPrice :: rat
  da_startTime :: rat
  da_endTime :: rat
  da_duration :: rat

text \<open>A division of a positive number by zero is infinite.\<close>

definition auction_progress :: "rat \<Rightarrow> rat \<Rightarrow> rat" where
  "auction_progress elapsed duration = (if duration = 0 then 1 else min (elapsed / duration) 1)"

definition calculateDutchAuctionPrice :: "auction \<Rightarrow> rat \<Rightarrow> rat" where
  "calculateDutchAuctionPrice a t =
     (if t \<ge> da_endTime a then da_floorPrice a
      else if t \<le> da_startTime a then da_initialPrice a
      else max (da_initialPrice a - auction_progress (t - da_startTime a) (da_duration a) * (da_initialPrice a - da_floorPrice a)) (da_floorPrice a))"

record auction_state =
  as_currentPrice :: rat
  as_elapsed :: rat
  as_remaining :: rat
  as_progress :: rat
  as_isEnded :: bool

definition getDutchAuctionState :: "auction \<Rightarrow> rat \<Rightarrow> auction_state" where
  "getDutchAuctionState a t =
     (let elapsed = max 0 (t - da_startTime a); remaining = max 0 (da_endTime a - t)
      in \<lparr>as_currentPrice = calculateDutchAuctionPrice a t, as_elapsed = elapsed, as_remaining = remaining,
          as_progress = (if da_duration a > 0 then min (elapsed / da_duration a) 1 else 1), as_isEnded = t \<ge> da_endTime a\<rparr>)"

subsection \<open>Parlays\<close>

datatype expiry = ExpiresText string | ExpiresAt rat

record parlay_leg =
  pl_marketId :: string
  pl_yes :: bool
  pl_odds :: rat
  pl_maxStake :: "rat option"
  pl_expiresAt :: "expiry option"

record parlay =
  pc_multiplier :: rat
  pc_potentialPayout :: rat
  pc_totalStake :: rat
  pc_isValid :: bool
  pc_errors :: "string list"

text \<open>\<open>dparse\<close> is the time of a date's text.\<close>

definition leg_expired :: "(string \<Rightarrow> jsnum) \<Rightarrow> rat \<Rightarrow> parlay_leg \<Rightarrow> bool" where
  "leg_expired dparse now l = (case pl_expiresAt l of
      None \<Rightarrow> False
    | Some (ExpiresText s) \<Rightarrow> s \<noteq> [] \<and> num_less (dparse s) (Fin now)
    | Some (ExpiresAt q) \<Rightarrow> q \<noteq> 0 \<and> q < now)"

definition leg_over :: "rat \<Rightarrow> parlay_leg \<Rightarrow> bool" where
  "leg_over stake l = (case pl_maxStake l of Some m \<Rightarrow> m \<noteq> 0 \<and> stake > m | None \<Rightarrow> False)"

definition leg_errors :: "(string \<Rightarrow> jsnum) \<Rightarrow> rat \<Rightarrow> rat \<Rightarrow> parlay_leg \<Rightarrow> string list" where
  "leg_errors dparse now stake l =
     (if pl_odds l < 1 then [''Invalid odds for market '' @ pl_marketId l] else [])
     @ (if leg_expired dparse now l then [''Market '' @ pl_marketId l @ '' has expired''] else [])
     @ (if leg_over stake l then [''Stake exceeds max for market '' @ pl_marketId l] else [])"

definition round_to :: "nat \<Rightarrow> rat \<Rightarrow> rat" where
  "round_to k q = of_int \<lfloor>q * of_nat k + 1 / 2\<rfloor> / of_nat k"

definition no_parlay :: "rat \<Rightarrow> string \<Rightarrow> parlay" where
  "no_parlay stake e = \<lparr>pc_multiplier = 1, pc_potentialPayout = stake, pc_totalStake = stake, pc_isValid = False, pc_errors = [e]\<rparr>"

definition calculateParlay :: "(string \<Rightarrow> jsnum) \<Rightarrow> rat \<Rightarrow> parlay_leg list \<Rightarrow> rat \<Rightarrow> parlay" where
  "calculateParlay dparse now legs stake =
     (if length legs < 2 then no_parlay stake ''Parlay requires at least 2 legs''
      else if length legs > 10 then no_parlay stake ''Parlay cannot have more than 10 legs''
      else (let multiplier = round_to 10000 (foldl (\<lambda>m l. m * pl_odds l) 1 legs); errors = concat (map (leg_errors dparse now stake) legs)
            in \<lparr>pc_multiplier = multiplier, pc_potentialPayout = round_to 100 (stake * multiplier), pc_totalStake = stake,
                pc_isValid = errors = [], pc_errors = errors\<rparr>))"

subsection \<open>Governance\<close>

record tally =
  ty_for :: rat
  ty_against :: rat
  ty_abstain :: rat

datatype vote_support = VOTE_FOR | VOTE_AGAINST | VOTE_ABSTAIN

definition totalVotes :: "tally \<Rightarrow> rat" where
  "totalVotes t = ty_for t + ty_against t + ty_abstain t"

definition quorumProgress :: "tally \<Rightarrow> rat \<Rightarrow> rat \<Rightarrow> bool \<times> rat \<times> rat" where
  "quorumProgress t quorumFraction totalVotingPower =
     (let cast = totalVotes t; needed = quorumFraction * totalVotingPower;
          percent = (if needed \<le> 0 then 100 else min 100 (of_int \<lfloor>cast / needed * 1000 + 1 / 2\<rfloor> / 10))
      in (cast \<ge> needed, percent, needed))"

definition supportToContractValue :: "vote_support \<Rightarrow> nat" where
  "supportToContractValue s = (case s of VOTE_FOR \<Rightarrow> 1 | VOTE_AGAINST \<Rightarrow> 0 | VOTE_ABSTAIN \<Rightarrow> 2)"

definition isVotingOpen :: "rat \<Rightarrow> rat \<Rightarrow> rat \<Rightarrow> bool" where
  "isVotingOpen startsAt endsAt now \<longleftrightarrow> now \<ge> startsAt \<and> now \<le> endsAt"

subsection \<open>Tournaments\<close>

record matchup =
  mu_id :: string
  mu_team1 :: "string option"
  mu_team2 :: "string option"
  mu_winner :: "string option"
  mu_round :: nat
  mu_number :: nat

text \<open>\<open>Math.ceil(Math.log2(n))\<close> of a positive number.\<close>

fun ceil_log2 :: "nat \<Rightarrow> nat" where
  "ceil_log2 n = (if n \<le> 1 then 0 else Suc (ceil_log2 ((n + 1) div 2)))"

declare ceil_log2.simps [simp del]

definition nth_team :: "string list \<Rightarrow> nat \<Rightarrow> string option" where
  "nth_team teams i = (if i < length teams then Some (teams ! i) else None)"

definition round_matchups :: "nat \<Rightarrow> nat \<Rightarrow> matchup list" where
  "round_matchups rounds r = map (\<lambda>m. \<lparr>mu_id = ''r'' @ nat_str r @ ''-m'' @ nat_str m, mu_team1 = None, mu_team2 = None,
     mu_winner = None, mu_round = r, mu_number = m\<rparr>) [0..<2 ^ (rounds - r - 1)]"

definition seed_first :: "string list \<Rightarrow> matchup \<Rightarrow> matchup" where
  "seed_first teams m = (if mu_round m = 0 then m\<lparr>mu_team1 := nth_team teams (2 * mu_number m), mu_team2 := nth_team teams (2 * mu_number m + 1)\<rparr> else m)"

text \<open>Without teams there are no rounds; the language gives their number as minus infinity.\<close>

definition generateBracket :: "string list \<Rightarrow> jsnum \<times> matchup list" where
  "generateBracket teams =
     (if teams = [] then (NInf, [])
      else (let rounds = ceil_log2 (length teams)
            in (Fin (of_nat rounds), map (seed_first teams) (concat (map (round_matchups rounds) [0..<rounds])))))"

definition getNextMatchup :: "matchup list \<Rightarrow> string \<Rightarrow> matchup option" where
  "getNextMatchup ms i = (case find (\<lambda>m. mu_id m = i) ms of
      None \<Rightarrow> None
    | Some cur \<Rightarrow> (case mu_winner cur of
        None \<Rightarrow> None
      | Some w \<Rightarrow> if w = [] then None else find (\<lambda>m. mu_round m = mu_round cur + 1 \<and> mu_number m = mu_number cur div 2) ms))"

fun user_path_from :: "matchup list \<Rightarrow> string \<Rightarrow> nat list \<Rightarrow> string list" where
  "user_path_from ms team [] = []"
| "user_path_from ms team (r # rs) =
     (case find (\<lambda>m. mu_round m = r \<and> (mu_team1 m = Some team \<or> mu_team2 m = Some team)) ms of
        None \<Rightarrow> []
      | Some m \<Rightarrow> mu_id m # (if mu_winner m \<noteq> Some team then [] else user_path_from ms team rs))"

definition getUserPath :: "matchup list \<Rightarrow> string \<Rightarrow> string list" where
  "getUserPath ms userTeam = user_path_from ms userTeam [0..<10]"

subsection \<open>The order book is what the orders add up to\<close>

definition volume :: "(order \<Rightarrow> bool) \<Rightarrow> order list \<Rightarrow> rat" where
  "volume P os = sum_list (map or_size (filter P os))"

lemma volume_simps [simp]: "volume P [] = 0" "volume P (os @ [b]) = volume P os + (if P b then or_size b else 0)"
  by (simp_all add: volume_def)

lemma map_set_fst: "map fst (map_set k v m) = (if k \<in> fst ` set m then map fst m else map fst m @ [k])"
  by (auto simp: map_set_def row_ins_def row_get_def map_of_eq_None_iff)

lemma by_price_keys: "distinct (map fst (size_by_price os)) \<and> fst ` set (size_by_price os) = or_price ` set os"
proof (induction os rule: rev_induct)
  case (snoc b os)
  let ?m = "size_by_price os"
  have e: "map fst (size_by_price (os @ [b])) = (if or_price b \<in> fst ` set ?m then map fst ?m else map fst ?m @ [or_price b])"
    by (simp add: size_by_price_def map_set_fst)
  have "fst ` set (size_by_price (os @ [b])) = set (map fst (size_by_price (os @ [b])))" by simp
  then show ?case using snoc unfolding e by auto
qed (simp add: size_by_price_def)

lemma by_price_value:
  "row_get (size_by_price os) p = (if p \<in> or_price ` set os then Some (volume (\<lambda>b. or_price b = p) os) else None)"
proof (induction os rule: rev_induct)
  case (snoc b os)
  have "volume (\<lambda>c. or_price c = or_price b) os = 0" if "or_price b \<notin> or_price ` set os"
  proof -
    have "filter (\<lambda>c. or_price c = or_price b) os = []" using that by (fastforce simp: filter_empty_conv image_iff)
    then show ?thesis by (simp add: volume_def)
  qed
  then show ?case using snoc.IH by (auto simp: size_by_price_def row_get_def)
qed (simp add: size_by_price_def row_get_def)

lemma volume_split: "volume (\<lambda>b. P b \<or> Q b) os = volume P os + volume Q os" if "\<And>b. \<not> (P b \<and> Q b)"
  using that by (induction os rule: rev_induct) auto

lemma volume_cong: "(\<And>b. b \<in> set os \<Longrightarrow> P b = Q b) \<Longrightarrow> volume P os = volume Q os"
  unfolding volume_def by (metis filter_cong)

lemma volume_of_prices: "distinct ps \<Longrightarrow> sum_list (map (\<lambda>p. volume (\<lambda>b. or_price b = p) os) ps) = volume (\<lambda>b. or_price b \<in> set ps) os"
proof (induction ps)
  case (Cons p ps)
  have "volume (\<lambda>b. or_price b = p \<or> or_price b \<in> set ps) os = volume (\<lambda>b. or_price b = p) os + volume (\<lambda>b. or_price b \<in> set ps) os"
    by (rule volume_split) (use Cons.prems in auto)
  then show ?case using Cons by simp
qed (simp add: volume_def)

lemma length_levels [simp]: "length (running_levels acc es) = length es"
  by (induction acc es rule: running_levels.induct) simp_all

lemma nth_level:
  "i < length es \<Longrightarrow> running_levels acc es ! i
    = \<lparr>lv_price = fst (es ! i), lv_size = snd (es ! i), lv_total = acc + sum_list (map snd (take (Suc i) es)), lv_count = 1\<rparr>"
proof (induction acc es arbitrary: i rule: running_levels.induct)
  case (2 acc p q es)
  then show ?case by (cases i) (simp_all add: add.assoc)
qed simp

lemma strictly_before:
  assumes "sorted (map key ps)" "distinct ps" "inj key" "i < length ps" "q \<in> set ps"
  shows "q \<in> set (take (Suc i) ps) \<longleftrightarrow> key q \<le> (key (ps ! i) :: rat)"
proof -
  obtain j where j: "j < length ps" "q = ps ! j" using assms(5) by (auto simp: in_set_conv_nth)
  have "q \<in> set (take (Suc i) ps) \<longleftrightarrow> j \<le> i"
  proof
    assume "q \<in> set (take (Suc i) ps)"
    then obtain k where "k < Suc i" "k < length ps" "ps ! k = q" by (auto simp: in_set_conv_nth)
    then show "j \<le> i" using j assms(2) by (metis less_Suc_eq_le nth_eq_iff_index_eq)
  next
    assume "j \<le> i"
    then have "take (Suc i) ps ! j = q" "j < length (take (Suc i) ps)" using j by simp_all
    then show "q \<in> set (take (Suc i) ps)" by (metis nth_mem)
  qed
  moreover have "key q \<le> key (ps ! i) \<longleftrightarrow> j \<le> i"
  proof
    assume le: "key q \<le> key (ps ! i)"
    show "j \<le> i"
    proof (rule ccontr)
      assume "\<not> j \<le> i"
      then have "key (ps ! i) \<le> key q" using sorted_nth_mono [OF assms(1), of i j] j by simp
      then have "ps ! i = q" using le assms(3) by (simp add: inj_eq)
      then show False using \<open>\<not> j \<le> i\<close> j assms(2,4) by (metis nth_eq_iff_index_eq order_refl)
    qed
  qed (use sorted_nth_mono [OF assms(1), of j i] j assms(4) in simp)
  ultimately show ?thesis by simp
qed

text \<open>One side: its levels are the distinct prices in order, each with the volume at the price and the volume up to it.\<close>

lemma levels_exact:
  assumes "inj key"
  shows "\<exists>ps. sorted (map key ps) \<and> distinct ps \<and> set ps = or_price ` set os
    \<and> levels_of key depth os = map (\<lambda>p. \<lparr>lv_price = p, lv_size = volume (\<lambda>b. or_price b = p) os,
        lv_total = volume (\<lambda>b. key (or_price b) \<le> key p) os, lv_count = 1\<rparr>) (take depth ps)"
proof -
  let ?es = "sort_key (\<lambda>e. key (fst e)) (size_by_price os)"
  let ?ps = "map fst ?es"
  have k: "distinct ?ps" "set ?ps = or_price ` set os" using by_price_keys [of os] by (auto simp: distinct_map)
  have s: "sorted (map key ?ps)" using sorted_sort_key [of "\<lambda>e. key (fst e)"] by (simp add: comp_def)
  have v: "snd e = volume (\<lambda>b. or_price b = fst e) os" if "e \<in> set ?es" for e
  proof -
    have "row_get (size_by_price os) (fst e) = Some (snd e)"
      using that by_price_keys [of os] by (intro row_get_in) (simp_all add: rows_wf_def)
    then show ?thesis by (auto simp: by_price_value split: if_splits)
  qed
  have t: "sum_list (map snd (take (Suc i) ?es)) = volume (\<lambda>b. key (or_price b) \<le> key (?ps ! i)) os" if "i < length ?ps" for i
  proof -
    have "map snd (take (Suc i) ?es) = map (\<lambda>p. volume (\<lambda>b. or_price b = p) os) (take (Suc i) ?ps)"
      using v by (auto simp: take_map dest: in_set_takeD)
    moreover have "sum_list (map (\<lambda>p. volume (\<lambda>b. or_price b = p) os) (take (Suc i) ?ps)) = volume (\<lambda>b. or_price b \<in> set (take (Suc i) ?ps)) os"
      by (rule volume_of_prices [OF distinct_take [OF k(1)]])
    moreover have "\<dots> = volume (\<lambda>b. key (or_price b) \<le> key (?ps ! i)) os"
    proof (rule volume_cong)
      fix b assume "b \<in> set os"
      then have "or_price b \<in> set ?ps" unfolding k(2) by blast
      then show "(or_price b \<in> set (take (Suc i) ?ps)) = (key (or_price b) \<le> key (?ps ! i))"
        by (rule strictly_before [OF s k(1) assms that])
    qed
    ultimately show ?thesis by simp
  qed
  have "levels_of key depth os = map (\<lambda>p. \<lparr>lv_price = p, lv_size = volume (\<lambda>b. or_price b = p) os,
        lv_total = volume (\<lambda>b. key (or_price b) \<le> key p) os, lv_count = 1\<rparr>) (take depth ?ps)"
  proof (rule nth_equalityI)
    fix i assume "i < length (levels_of key depth os)"
    then have i: "i < depth" "i < length ?es" by (simp_all add: levels_of_def)
    have "take (Suc i) (take depth ?es) = take (Suc i) ?es" using i(1) by (simp add: min_def)
    then show "levels_of key depth os ! i = map (\<lambda>p. \<lparr>lv_price = p, lv_size = volume (\<lambda>b. or_price b = p) os,
        lv_total = volume (\<lambda>b. key (or_price b) \<le> key p) os, lv_count = 1\<rparr>) (take depth ?ps) ! i"
      using i t [of i] v [OF nth_mem [OF i(2)]] by (simp add: levels_of_def nth_level take_map)
  qed (simp add: levels_of_def)
  then show ?thesis using s k by blast
qed

text \<open>C40: each side of the order book is one level for each price, the best first and at most as many as asked for, with the size of
  all orders at the price and the total of all orders at it or better.\<close>

theorem orderbook_exact:
  "\<exists>ps qs. sorted (map uminus ps) \<and> distinct ps \<and> set ps = or_price ` {b \<in> set os. or_buy b}
    \<and> sorted qs \<and> distinct qs \<and> set qs = or_price ` {b \<in> set os. \<not> or_buy b}
    \<and> ob_bids (buildOrderbook depth os) = map (\<lambda>p. \<lparr>lv_price = p, lv_size = volume (\<lambda>b. or_price b = p) (filter or_buy os),
        lv_total = volume (\<lambda>b. or_price b \<ge> p) (filter or_buy os), lv_count = 1\<rparr>) (take depth ps)
    \<and> ob_asks (buildOrderbook depth os) = map (\<lambda>p. \<lparr>lv_price = p, lv_size = volume (\<lambda>b. or_price b = p) (filter (\<lambda>b. \<not> or_buy b) os),
        lv_total = volume (\<lambda>b. or_price b \<le> p) (filter (\<lambda>b. \<not> or_buy b) os), lv_count = 1\<rparr>) (take depth qs)"
proof -
  obtain ps where ps: "sorted (map uminus ps)" "distinct ps" "set ps = or_price ` set (filter or_buy os)"
    "levels_of uminus depth (filter or_buy os) = map (\<lambda>p. \<lparr>lv_price = p, lv_size = volume (\<lambda>b. or_price b = p) (filter or_buy os),
        lv_total = volume (\<lambda>b. - or_price b \<le> - p) (filter or_buy os), lv_count = 1\<rparr>) (take depth ps)"
    using levels_exact [of uminus "filter or_buy os" depth] by (auto simp: inj_def)
  obtain qs where qs: "sorted (map id qs)" "distinct qs" "set qs = or_price ` set (filter (\<lambda>b. \<not> or_buy b) os)"
    "levels_of id depth (filter (\<lambda>b. \<not> or_buy b) os) = map (\<lambda>p. \<lparr>lv_price = p, lv_size = volume (\<lambda>b. or_price b = p) (filter (\<lambda>b. \<not> or_buy b) os),
        lv_total = volume (\<lambda>b. id (or_price b) \<le> id p) (filter (\<lambda>b. \<not> or_buy b) os), lv_count = 1\<rparr>) (take depth qs)"
    using levels_exact [of id "filter (\<lambda>b. \<not> or_buy b) os" depth] by (auto simp: inj_def)
  show ?thesis
    using ps qs by (intro exI [of _ ps] exI [of _ qs]) (simp add: buildOrderbook_def Let_def)
qed

subsection \<open>Prices and parlays\<close>

lemma progress_mono: "0 \<le> d \<Longrightarrow> x \<le> y \<Longrightarrow> auction_progress x d \<le> auction_progress y d"
  by (auto simp: auction_progress_def min_def divide_right_mono)

text \<open>The price of an auction stays between its floor and its first price and never rises.\<close>

lemma auction_monotone:
  assumes "da_floorPrice a \<le> da_initialPrice a" "0 \<le> da_duration a" "t \<le> t'"
  shows "da_floorPrice a \<le> calculateDutchAuctionPrice a t' \<and> calculateDutchAuctionPrice a t' \<le> calculateDutchAuctionPrice a t
    \<and> calculateDutchAuctionPrice a t \<le> da_initialPrice a"
proof -
  have p: "0 \<le> auction_progress x (da_duration a)" if "0 \<le> x" for x using that assms(2) by (simp add: auction_progress_def)
  have m: "auction_progress (t - da_startTime a) (da_duration a) * (da_initialPrice a - da_floorPrice a)
      \<le> auction_progress (t' - da_startTime a) (da_duration a) * (da_initialPrice a - da_floorPrice a)"
    using assms by (intro mult_right_mono progress_mono) simp_all
  have n: "0 \<le> auction_progress (x - da_startTime a) (da_duration a) * (da_initialPrice a - da_floorPrice a)" if "da_startTime a \<le> x" for x
    using p [of "x - da_startTime a"] that assms(1) by simp
  have u: "calculateDutchAuctionPrice a t \<le> da_initialPrice a" for t
    using n [of t] assms(1) by (simp add: calculateDutchAuctionPrice_def)
  have l: "da_floorPrice a \<le> calculateDutchAuctionPrice a t" for t
    using assms(1) by (simp add: calculateDutchAuctionPrice_def)
  have "calculateDutchAuctionPrice a t' \<le> calculateDutchAuctionPrice a t"
  proof (cases "t' \<ge> da_endTime a \<or> t \<le> da_startTime a")
    case True
    then show ?thesis using l [of t] u [of t'] assms(3) by (auto simp: calculateDutchAuctionPrice_def [of a t'] calculateDutchAuctionPrice_def [of a t])
  next
    case False
    then show ?thesis using m assms(3) by (auto simp: calculateDutchAuctionPrice_def)
  qed
  then show ?thesis using u l by blast
qed

lemma odds_product: "(\<And>l. l \<in> set legs \<Longrightarrow> 1 \<le> pl_odds l) \<Longrightarrow> 1 \<le> m \<Longrightarrow> 1 \<le> foldl (\<lambda>m l. m * pl_odds l) (m :: rat) legs"
proof (induction legs arbitrary: m)
  case (Cons l legs)
  have "1 * 1 \<le> m * pl_odds l" using Cons.prems by (intro mult_mono) auto
  then show ?case using Cons.IH [of "m * pl_odds l"] Cons.prems(1) by simp
qed simp

lemma round_near: "0 < k \<Longrightarrow> \<bar>round_to k q - q\<bar> \<le> 1 / (2 * of_nat k)"
proof -
  assume k: "0 < k"
  have "\<bar>of_int \<lfloor>q * of_nat k + 1 / 2\<rfloor> - q * of_nat k\<bar> \<le> 1 / 2" by linarith
  then have "\<bar>of_int \<lfloor>q * of_nat k + 1 / 2\<rfloor> - q * of_nat k\<bar> / of_nat k \<le> (1 / 2) / of_nat k" by (rule divide_right_mono) simp
  moreover have "round_to k q - q = (of_int \<lfloor>q * of_nat k + 1 / 2\<rfloor> - q * of_nat k) / of_nat k" using k by (simp add: round_to_def field_simps)
  ultimately show ?thesis using k by (simp add: abs_div)
qed

text \<open>A parlay is valid exactly with two to ten legs of odds one or more, none expired and none whose limit the stake exceeds; then the
  multiplier is at least one and the payout is stake times multiplier to half a cent.\<close>

theorem parlay_valid_iff:
  "(pc_isValid (calculateParlay dparse now legs stake) \<longleftrightarrow>
     2 \<le> length legs \<and> length legs \<le> 10 \<and> list_all (\<lambda>l. pl_odds l \<ge> 1 \<and> \<not> leg_expired dparse now l \<and> \<not> leg_over stake l) legs)
   \<and> (pc_isValid (calculateParlay dparse now legs stake) \<longrightarrow> pc_multiplier (calculateParlay dparse now legs stake) \<ge> 1
     \<and> \<bar>pc_potentialPayout (calculateParlay dparse now legs stake) - stake * pc_multiplier (calculateParlay dparse now legs stake)\<bar> \<le> 1 / 200)"
proof -
  have "concat (map (leg_errors dparse now stake) legs) = [] \<longleftrightarrow>
      list_all (\<lambda>l. pl_odds l \<ge> 1 \<and> \<not> leg_expired dparse now l \<and> \<not> leg_over stake l) legs"
    by (auto simp: list_all_iff leg_errors_def not_less split: if_splits)
  then have v: "pc_isValid (calculateParlay dparse now legs stake) \<longleftrightarrow>
     2 \<le> length legs \<and> length legs \<le> 10 \<and> list_all (\<lambda>l. pl_odds l \<ge> 1 \<and> \<not> leg_expired dparse now l \<and> \<not> leg_over stake l) legs"
    by (simp add: calculateParlay_def no_parlay_def Let_def not_less)
  have "pc_multiplier (calculateParlay dparse now legs stake) \<ge> 1
     \<and> \<bar>pc_potentialPayout (calculateParlay dparse now legs stake) - stake * pc_multiplier (calculateParlay dparse now legs stake)\<bar> \<le> 1 / 200"
    if "pc_isValid (calculateParlay dparse now legs stake)"
  proof -
    have legs: "2 \<le> length legs" "length legs \<le> 10" "\<And>l. l \<in> set legs \<Longrightarrow> 1 \<le> pl_odds l" using that unfolding v by (auto simp: list_all_iff)
    have "1 \<le> foldl (\<lambda>m l. m * pl_odds l) 1 legs" using legs(3) by (rule odds_product) simp_all
    then have "(10000 :: int) \<le> \<lfloor>foldl (\<lambda>m l. m * pl_odds l) 1 legs * 10000 + 1 / 2\<rfloor>" by (simp add: le_floor_iff)
    then have "1 \<le> round_to 10000 (foldl (\<lambda>m l. m * pl_odds l) 1 legs)" by (simp add: round_to_def)
    then show ?thesis using legs(1,2) round_near [of 100] by (simp add: calculateParlay_def Let_def)
  qed
  then show ?thesis using v by blast
qed

definition two_legs :: "parlay_leg list" where
  "two_legs = [\<lparr>pl_marketId = ''m'', pl_yes = True, pl_odds = 3 / 2, pl_maxStake = None, pl_expiresAt = None\<rparr>,
     \<lparr>pl_marketId = ''n'', pl_yes = False, pl_odds = 2, pl_maxStake = Some 50, pl_expiresAt = Some (ExpiresAt 9)\<rparr>]"

lemma parlay_valid_iff_witness: "1 \<le> pc_multiplier (calculateParlay (\<lambda>_. NaN) 5 two_legs 10)"
proof -
  have "2 \<le> length two_legs \<and> length two_legs \<le> 10
      \<and> list_all (\<lambda>l. pl_odds l \<ge> 1 \<and> \<not> leg_expired (\<lambda>_. NaN) 5 l \<and> \<not> leg_over 10 l) two_legs"
    by (simp add: two_legs_def leg_expired_def leg_over_def)
  with parlay_valid_iff [of "\<lambda>_. NaN" 5 two_legs 10] show ?thesis by blast
qed

text \<open>A quorum that is reached shows 100 percent, but so does one that is not quite.\<close>

lemma quorum_shown: "fst (quorumProgress t f p) \<Longrightarrow> fst (snd (quorumProgress t f p)) = 100"
proof -
  assume r: "fst (quorumProgress t f p)"
  show ?thesis
  proof (cases "f * p \<le> 0")
    case False
    then have "1 \<le> totalVotes t / (f * p)" using r by (simp add: quorumProgress_def Let_def)
    then have "1000 \<le> \<lfloor>totalVotes t / (f * p) * 1000 + 1 / 2\<rfloor>" by (simp add: le_floor_iff)
    then show ?thesis using False by (simp add: quorumProgress_def Let_def)
  qed (simp add: quorumProgress_def Let_def)
qed

lemma quorum_rounded_up: "quorumProgress \<lparr>ty_for = 9996, ty_against = 0, ty_abstain = 0\<rparr> 1 10000 = (False, 100, 10000)"
  by (simp add: quorumProgress_def totalVotes_def)

subsection \<open>Brackets\<close>

lemma log2_enough: "n \<le> 2 ^ ceil_log2 n"
proof (induction n rule: ceil_log2.induct)
  case (1 n)
  then show ?case by (subst ceil_log2.simps) auto
qed

lemma log2_least: "2 \<le> n \<Longrightarrow> 2 ^ (ceil_log2 n - 1) < n \<and> 1 \<le> ceil_log2 n"
proof (induction n rule: ceil_log2.induct)
  case (1 n)
  have e: "ceil_log2 n = Suc (ceil_log2 ((n + 1) div 2))" using "1.prems" by (subst ceil_log2.simps) simp
  show ?case
  proof (cases "n = 2")
    case True
    have "ceil_log2 1 = 0" by (subst ceil_log2.simps) simp
    then show ?thesis using e True by simp
  next
    case False
    then have ih: "2 ^ (ceil_log2 ((n + 1) div 2) - 1) < (n + 1) div 2" "1 \<le> ceil_log2 ((n + 1) div 2)"
      using "1.IH" "1.prems" by auto
    then obtain k where k: "ceil_log2 ((n + 1) div 2) = Suc k" by (cases "ceil_log2 ((n + 1) div 2)") auto
    then have "2 ^ Suc k < n" using ih(1) by simp
    then have "2 ^ ceil_log2 ((n + 1) div 2) < n" by (simp only: k)
    then show ?thesis unfolding e by simp
  qed
qed

lemma rounds_sum: "k \<le> R \<Longrightarrow> sum_list (map (\<lambda>r. (2::nat) ^ (R - r - 1)) [0..<k]) + 2 ^ (R - k) = 2 ^ R"
proof (induction k)
  case (Suc k)
  have "2 ^ (R - k) = (2::nat) ^ (R - k - 1) + 2 ^ (R - Suc k)" using Suc.prems by (cases "R - k") simp_all
  then show ?case using Suc by simp
qed simp

text \<open>The first round has every team once, in order, and then places that stay empty; every match but the final leads to one of the next
  round; there is one match fewer than places.\<close>

lemma bracket_sound:
  assumes "2 \<le> length teams" "R = ceil_log2 (length teams)" "ms = snd (generateBracket teams)"
  shows "length ms + 1 = 2 ^ R" "2 ^ (R - 1) < length teams" "length teams \<le> 2 ^ R"
    "concat (map (\<lambda>m. [mu_team1 m, mu_team2 m]) (filter (\<lambda>m. mu_round m = 0) ms)) = map (nth_team teams) [0..<2 ^ R]"
    "m \<in> set ms \<Longrightarrow> mu_round m + 1 < R \<Longrightarrow> \<exists>n \<in> set ms. mu_round n = mu_round m + 1 \<and> mu_number n = mu_number m div 2"
proof -
  have ms: "ms = map (seed_first teams) (concat (map (round_matchups R) [0..<R]))"
    using assms by (auto simp: generateBracket_def Let_def)
  have R: "1 \<le> R" "2 ^ (R - 1) < length teams" using log2_least [OF assms(1)] by (simp_all add: assms(2))
  then show "2 ^ (R - 1) < length teams" by simp
  show "length teams \<le> 2 ^ R" using log2_enough by (simp add: assms(2))
  have "length ms = sum_list (map (\<lambda>r. 2 ^ (R - r - 1)) [0..<R])"
    by (simp add: ms length_concat comp_def round_matchups_def)
  then show "length ms + 1 = 2 ^ R" using rounds_sum [of R R] by simp
  have first: "filter (\<lambda>m. mu_round m = 0) ms = map (seed_first teams) (round_matchups R 0)"
  proof -
    have "filter (\<lambda>m. mu_round m = 0) (concat (map (round_matchups R) [Suc 0..<R])) = []"
      by (auto simp: filter_empty_conv round_matchups_def)
    moreover have "[0..<R] = 0 # [Suc 0..<R]" using R(1) by (simp add: upt_conv_Cons)
    moreover have "filter (\<lambda>m. mu_round m = 0) (round_matchups R 0) = round_matchups R 0"
      by (auto simp: filter_id_conv round_matchups_def)
    moreover have "(\<lambda>m. mu_round (seed_first teams m) = 0) = (\<lambda>m. mu_round m = 0)" by (simp add: seed_first_def fun_eq_iff)
    ultimately show ?thesis by (simp add: ms filter_map comp_def)
  qed
  have pairs: "concat (map (\<lambda>i. [f (2 * i), f (2 * i + 1)]) [0..<k]) = map f [0..<2 * k]" for f :: "nat \<Rightarrow> string option" and k
    by (induction k) simp_all
  have "(2::nat) ^ R = 2 * 2 ^ (R - 1)" using R(1) by (cases R) simp_all
  then show "concat (map (\<lambda>m. [mu_team1 m, mu_team2 m]) (filter (\<lambda>m. mu_round m = 0) ms)) = map (nth_team teams) [0..<2 ^ R]"
    using pairs [of "nth_team teams" "2 ^ (R - 1)"] by (simp add: first round_matchups_def comp_def seed_first_def)
  assume m: "m \<in> set ms" "mu_round m + 1 < R"
  then have b: "mu_number m < 2 ^ (R - mu_round m - 1)" by (auto simp: ms round_matchups_def seed_first_def)
  have "2 ^ (R - mu_round m - 1) = 2 * (2::nat) ^ (R - (mu_round m + 1) - 1)" using m(2) by (cases "R - mu_round m - 1") simp_all
  then have "mu_number m div 2 < 2 ^ (R - (mu_round m + 1) - 1)" using b by simp
  then have "\<exists>n \<in> set (round_matchups R (mu_round m + 1)). mu_round n = mu_round m + 1 \<and> mu_number n = mu_number m div 2"
    by (force simp: round_matchups_def)
  then obtain n where n: "n \<in> set (round_matchups R (mu_round m + 1))" "mu_round n = mu_round m + 1" "mu_number n = mu_number m div 2" by blast
  have "n \<in> (\<Union>r \<in> {0..<R}. set (round_matchups R r))" using n(1) m(2) by (intro UN_I [of "mu_round m + 1"]) auto
  then have "seed_first teams n \<in> set ms" by (simp add: ms)
  moreover have "mu_round (seed_first teams n) = mu_round n" "mu_number (seed_first teams n) = mu_number n" by (simp_all add: seed_first_def)
  ultimately show "\<exists>n \<in> set ms. mu_round n = mu_round m + 1 \<and> mu_number n = mu_number m div 2" using n by metis
qed

end
