(* ===== verification/WalletBalances.thy ===== *)
theory WalletBalances
  imports StakeRules ApiClient
begin

text \<open>
  The balances of the connected wallet: the account read of \<^verbatim>\<open>packages/frontend/src/lib/stellar/horizon.ts\<close> and the hook
  \<^verbatim>\<open>packages/frontend/src/hooks/useWalletBalances.ts\<close> as a state machine. A render with other values runs the effect of the
  hook at once (the one frame that is drawn before its effect runs is not a state of the model); a read that was started
  lands at any later moment, in any order, or never.
\<close>

subsection \<open>Reading an account\<close>

datatype horizon_reply = NotJson | NoAccount | Account horizon_account

datatype horizon_outcome = HorizonUnreached | HorizonAnswer int horizon_reply

datatype horizon_result = HorizonOk horizon_account | HorizonNotFound | HorizonUnavailable string

definition horizon_url :: "string \<Rightarrow> string \<Rightarrow> string" where
  "horizon_url horizonUrl address = strip_slash horizonUrl @ ''/accounts/'' @ encodeURIComponent address"

text \<open>Without a signal of the caller no call of it throws.\<close>

definition fetchHorizonAccount :: "string \<Rightarrow> string \<Rightarrow> horizon_outcome \<Rightarrow> horizon_result" where
  "fetchHorizonAccount horizonUrl address outcome = (case outcome of
      HorizonUnreached \<Rightarrow> HorizonUnavailable (''Could not reach Horizon at '' @ horizonUrl)
    | HorizonAnswer status reply \<Rightarrow>
        (if status = 404 then HorizonNotFound
         else if \<not> (200 \<le> status \<and> status \<le> 299)
         then HorizonUnavailable (''Horizon returned '' @ int_text status @ '' for '' @ address)
         else (case reply of
             NotJson \<Rightarrow> HorizonUnavailable ''Horizon returned a malformed response''
           | NoAccount \<Rightarrow> HorizonUnavailable ''Horizon returned a malformed account''
           | Account a \<Rightarrow> HorizonOk a)))"

subsection \<open>Configuration\<close>

datatype config_scope = NetworkScope | AssetScope

record wallet_resolution =
  rs_config :: "network_config option"
  rs_asset :: "stake_asset option"
  rs_errors :: "string list"
  rs_errorScope :: "config_scope option"
  rs_limits :: stake_limits
  rs_feeBufferStroops :: int


subsection \<open>The hook\<close>

record wallet_props =
  wp_publicKey :: "string option"
  wp_isConnected :: bool
  wp_network :: "string option"

datatype balance_state =
    BsDisconnected
  | BsConfigError config_scope "string list"
  | BsLoading
  | BsUnfunded
  | BsNoTrustline balance_snapshot
  | BsReady balance_snapshot
  | BsUnavailable string

text \<open>Reads are numbered in the order they start; a read has the key and the address it was started for.\<close>

record balance_hook =
  hk_props :: wallet_props
  hk_mounted :: bool
  hk_state :: balance_state
  hk_snapshot :: "balance_snapshot option"
  hk_staleReason :: "string option"
  hk_refreshing :: bool
  hk_clock :: jsnum
  hk_inFlight :: "string option"
  hk_activeKey :: "string option"
  hk_reads :: "(string \<times> string \<times> bool) list"

definition wallet_address :: "wallet_props \<Rightarrow> string option" where
  "wallet_address w = (if wp_isConnected w then wp_publicKey w else None)"

definition request_key :: "wallet_resolution \<Rightarrow> wallet_props \<Rightarrow> string option" where
  "request_key res w = (case (wallet_address w, rs_config res, rs_asset res) of
      (Some a, Some c, Some s) \<Rightarrow>
        if a = [] then None else Some (nullish (wp_network w) ''?'' @ ''|'' @ network_text (sn_name c) @ ''|'' @ a)
    | _ \<Rightarrow> None)"

text \<open>\<open>load\<close>: joins the read of the same key that is under way, or starts one.\<close>

definition load_balances :: "wallet_resolution \<Rightarrow> balance_hook \<Rightarrow> balance_hook" where
  "load_balances res h = (case request_key res (hk_props h) of
      None \<Rightarrow> h
    | Some k \<Rightarrow>
        if hk_inFlight h = Some k then h
        else h\<lparr>hk_activeKey := Some k, hk_refreshing := True, hk_inFlight := Some k,
               hk_reads := hk_reads h @ [(k, nullish (wallet_address (hk_props h)) [], True)]\<rparr>)"

text \<open>The effect that follows a change of the key or the address.\<close>

definition wallet_changed :: "wallet_resolution \<Rightarrow> balance_hook \<Rightarrow> balance_hook" where
  "wallet_changed res h = (case rs_errorScope res of
      Some scope \<Rightarrow> h\<lparr>hk_state := BsConfigError scope (rs_errors res)\<rparr>
    | None \<Rightarrow> (case request_key res (hk_props h) of
        None \<Rightarrow> h\<lparr>hk_activeKey := None, hk_snapshot := None, hk_staleReason := None, hk_state := BsDisconnected\<rparr>
      | Some k \<Rightarrow> load_balances res (h\<lparr>hk_snapshot := None, hk_staleReason := None, hk_state := BsLoading\<rparr>)))"

definition render_balances :: "wallet_resolution \<Rightarrow> wallet_props \<Rightarrow> balance_hook \<Rightarrow> balance_hook" where
  "render_balances res w h =
     (let h' = h\<lparr>hk_props := w\<rparr>
      in if request_key res w = request_key res (hk_props h) \<and> wallet_address w = wallet_address (hk_props h) then h'
         else wallet_changed res h')"

definition mount_balances :: "wallet_resolution \<Rightarrow> jsnum \<Rightarrow> wallet_props \<Rightarrow> balance_hook" where
  "mount_balances res now w = wallet_changed res
     \<lparr>hk_props = w, hk_mounted = True,
      hk_state = (case rs_errorScope res of
          Some scope \<Rightarrow> BsConfigError scope (rs_errors res)
        | None \<Rightarrow> if nullish (wallet_address w) [] = [] then BsDisconnected else BsLoading),
      hk_snapshot = None, hk_staleReason = None, hk_refreshing = False, hk_clock = now, hk_inFlight = None,
      hk_activeKey = None, hk_reads = []\<rparr>"

definition keep_or_unavailable :: "string \<Rightarrow> balance_hook \<Rightarrow> balance_hook" where
  "keep_or_unavailable msg h = h\<lparr>hk_staleReason := Some msg,
     hk_state := (case hk_state h of BsReady s \<Rightarrow> BsReady s | BsNoTrustline s \<Rightarrow> BsNoTrustline s | _ \<Rightarrow> BsUnavailable msg)\<rparr>"

text \<open>What a landed read of an address does. \<open>errtext\<close> is the message of a number that cannot be a big integer.\<close>

definition take_result :: "string \<Rightarrow> wallet_resolution \<Rightarrow> jsnum \<Rightarrow> string \<Rightarrow> horizon_result \<Rightarrow> balance_hook \<Rightarrow> balance_hook" where
  "take_result errtext res now address result h = (case result of
      HorizonUnavailable msg \<Rightarrow> keep_or_unavailable msg h
    | HorizonNotFound \<Rightarrow> h\<lparr>hk_snapshot := None, hk_staleReason := None, hk_state := BsUnfunded\<rparr>
    | HorizonOk account \<Rightarrow> (case rs_asset res of
        None \<Rightarrow> h
      | Some asset \<Rightarrow> (case deriveBalanceSnapshot account asset address now (Some (rs_feeBufferStroops res)) of
          Inl _ \<Rightarrow> keep_or_unavailable errtext h
        | Inr s \<Rightarrow> h\<lparr>hk_snapshot := Some s, hk_staleReason := None,
                   hk_state := (if bs_hasTrustline s then BsReady s else BsNoTrustline s)\<rparr>)))"

definition read_settles :: "string \<Rightarrow> balance_hook \<Rightarrow> balance_hook" where
  "read_settles k h = h\<lparr>hk_inFlight := (if hk_inFlight h = Some k then None else hk_inFlight h),
     hk_refreshing := (if hk_mounted h \<and> hk_activeKey h = Some k then False else hk_refreshing h)\<rparr>"

definition read_lands :: "string \<Rightarrow> wallet_resolution \<Rightarrow> nat \<Rightarrow> horizon_outcome \<Rightarrow> jsnum \<Rightarrow> balance_hook \<Rightarrow> balance_hook" where
  "read_lands errtext res i outcome now h =
     (if i < length (hk_reads h) \<and> snd (snd (hk_reads h ! i))
      then (let (k, address, _) = hk_reads h ! i;
                result = fetchHorizonAccount (case rs_config res of Some c \<Rightarrow> sn_horizonUrl c | None \<Rightarrow> []) address outcome;
                h' = (if \<not> hk_mounted h \<or> hk_activeKey h \<noteq> Some k then h else take_result errtext res now address result h)
            in read_settles k (h'\<lparr>hk_reads := (hk_reads h')[i := (k, address, False)]\<rparr>))
      else h)"

definition is_stale :: "balance_hook \<Rightarrow> bool" where
  "is_stale h \<longleftrightarrow> hk_staleReason h \<noteq> None
     \<or> (case hk_snapshot h of None \<Rightarrow> False | Some s \<Rightarrow> isSnapshotStale (bs_fetchedAt s) (hk_clock h) STALE_AFTER_MS)"

datatype hook_op =
    Rendered wallet_props
  | Refreshed
  | Landed nat horizon_outcome jsnum
  | ClockTicked jsnum
  | Unmounted

definition hook_step :: "string \<Rightarrow> wallet_resolution \<Rightarrow> balance_hook \<Rightarrow> hook_op \<Rightarrow> balance_hook" where
  "hook_step errtext res h oper = (case oper of
      Rendered w \<Rightarrow> if hk_mounted h then render_balances res w h else h
    | Refreshed \<Rightarrow> if hk_mounted h then load_balances res h else h
    | Landed i outcome now \<Rightarrow> read_lands errtext res i outcome now h
    | ClockTicked now \<Rightarrow> if hk_mounted h then h\<lparr>hk_clock := now\<rparr> else h
    | Unmounted \<Rightarrow> h\<lparr>hk_mounted := False\<rparr>)"

subsection \<open>Whose balance is shown\<close>





























text \<open>A wallet that disconnects and connects again while its first read is under way joins that read, whose answer is then dropped:
  the screen stays loading although nothing is being read.\<close>

lemma reconnect_stays_loading:
  assumes "request_key res w = Some k" "request_key res off = None" "rs_errorScope res = None"
    and h: "h = foldl (hook_step errtext res) (mount_balances res now0 w) [Rendered off, Rendered w, Landed 0 outcome now]"
  shows "hk_state h = BsLoading \<and> hk_refreshing h \<and> hk_inFlight h = None \<and> list_all (\<lambda>r. \<not> snd (snd r)) (hk_reads h)"
  using assms(1-3) by (auto simp: h hook_step_def mount_balances_def wallet_changed_def load_balances_def render_balances_def
    read_lands_def read_settles_def Let_def)



end
